(* ===== verification/Prelude.thy ===== *)
theory Prelude
  imports Complex_Main "HOL-Library.Word" "HOL-Library.Multiset" "HOL-Library.Code_Target_Nat"
begin

unbundle bit_operations_syntax

text \<open>
  Shared prelude: machine-word types, JavaScript strings as lists of UTF-16 code units, the
  error monad the fallible operations are written in, the loops that run a fallible operation
  over a list, and the proof collections of the development.

  A JavaScript exception is the left injection of a sum type; \<open>bindR\<close> sequences two operations
  and stops at the first exception, exactly as a statement sequence of the source does.
\<close>

type_synonym byte = "8 word"
type_synonym code_unit = "16 word"
type_synonym jsstring = "code_unit list"

named_theorems err_simps \<open>evaluation of the error monad\<close>
named_theorems bb_simps \<open>effect of byte buffer operations on contents and remaining input\<close>
named_theorems codec_intros \<open>codec facts: one per serializable type\<close>
named_theorems type_defs \<open>definitions of the type descriptors\<close>

lemma unat_byte_less [simp]: "unat (b :: byte) < 256"
  using unsigned_less [where 'a = nat, of b] by simp

section \<open>Words as natural numbers\<close>

lemma nat_or_shift: "x < 2 ^ n \<Longrightarrow> (x::nat) OR (y * 2 ^ n) = x + y * 2 ^ n"
proof -
  assume "x < 2 ^ n"
  then have "take_bit n x = x" by (simp add: take_bit_nat_eq_self)
  then have "bit x i \<Longrightarrow> i < n" for i by (metis bit_take_bit_iff)
  moreover have "bit (y * 2 ^ n) i \<Longrightarrow> n \<le> i" for i
    by (simp add: bit_push_bit_iff_nat flip: push_bit_eq_mult)
  ultimately show ?thesis by (metis disjunctive_add not_le)
qed

lemma unat_and_mask: "unat (mask n AND (w :: 'a::len word)) = unat w mod 2 ^ n"
  by (metis and.commute take_bit_eq_mask unsigned_take_bit_eq take_bit_eq_mod)
lemma unat_and_mask2: "unat ((w :: 'a::len word) AND mask n) = unat w mod 2 ^ n"
  by (metis take_bit_eq_mask unsigned_take_bit_eq take_bit_eq_mod)

lemma masks: "(7::'a::len word) = mask 3" "(15::'a word) = mask 4" "(31::'a word) = mask 5" "(63::'a word) = mask 6" "(127::'a word) = mask 7"
  by (simp_all add: mask_eq_exp_minus_1)

lemma unat_and_num [simp]:
  "unat (7 AND (w :: 'a::len word)) = unat w mod 8" "unat (w AND 7) = unat w mod 8"
  "unat (15 AND w) = unat w mod 16" "unat (w AND 15) = unat w mod 16"
  "unat (31 AND w) = unat w mod 32" "unat (w AND 31) = unat w mod 32"
  "unat (63 AND w) = unat w mod 64" "unat (w AND 63) = unat w mod 64"
  "unat (127 AND w) = unat w mod 128" "unat (w AND 127) = unat w mod 128"
  using unat_and_mask [of 3 w] unat_and_mask2 [of w 3] unat_and_mask [of 4 w] unat_and_mask2 [of w 4] unat_and_mask [of 5 w] unat_and_mask2 [of w 5] unat_and_mask [of 6 w] unat_and_mask2 [of w 6] unat_and_mask [of 7 w] unat_and_mask2 [of w 7]
  by (simp_all add: masks)

lemma unat_drop_bit: "unat (drop_bit n (w :: 'a::len word)) = unat w div 2 ^ n"
  by (metis unat_drop_bit_eq drop_bit_eq_div)

lemma unat_or_num:
  fixes w :: "32 word"
  shows "unat w < 32 \<Longrightarrow> unat (w OR 192) = unat w + 192"
    "unat w < 16 \<Longrightarrow> unat (w OR 224) = unat w + 224"
    "unat w < 8 \<Longrightarrow> unat (w OR 240) = unat w + 240"
    "unat w < 64 \<Longrightarrow> unat (w OR 128) = unat w + 128"
  using nat_or_shift [of "unat w" 5 6] nat_or_shift [of "unat w" 4 14] nat_or_shift [of "unat w" 3 30] nat_or_shift [of "unat w" 6 2]
  by (simp_all add: unsigned_or_eq)
lemma unat_push_bit: "unat (w :: 'a::len word) * 2 ^ n < 2 ^ LENGTH('a) \<Longrightarrow> unat (push_bit n w) = unat w * 2 ^ n"
  by (metis unsigned_push_bit_eq push_bit_eq_mult take_bit_nat_eq_self)

lemma unat_ucast_mod: "unat (ucast (w :: 'a::len word) :: 'b::len word) = unat w mod 2 ^ LENGTH('b)"
  by (metis unsigned_ucast_eq take_bit_eq_mod)

lemma unat_or_disjoint: "unat (v :: 'a::len word) < 2 ^ n \<Longrightarrow> unat w = y * 2 ^ n \<Longrightarrow> unat (w OR v) = unat w + unat v"
  using nat_or_shift [of "unat v" n y] by (simp add: unsigned_or_eq or.commute)

lemma byte_exhaust: "list_all (\<lambda>n. P (of_nat n :: byte)) [0..<256] \<Longrightarrow> P b"
proof -
  assume "list_all (\<lambda>n. P (of_nat n :: byte)) [0..<256]"
  moreover have "unat b \<in> set [0..<256]" by simp
  ultimately have "P (of_nat (unat b))" unfolding list_all_iff by (rule bspec)
  then show "P b" by simp
qed

section \<open>The error monad\<close>

definition bindR :: "'e + 'a \<Rightarrow> ('a \<Rightarrow> 'e + 'b) \<Rightarrow> 'e + 'b" where
  "bindR m f = (case m of Inl e \<Rightarrow> Inl e | Inr x \<Rightarrow> f x)"

lemma bindR_Inl [simp, err_simps]: "bindR (Inl e) f = Inl e"
  by (simp add: bindR_def)

lemma bindR_Inr [simp, err_simps]: "bindR (Inr x) f = f x"
  by (simp add: bindR_def)

lemma bindR_eq_Inr: "bindR m f = Inr y \<longleftrightarrow> (\<exists>x. m = Inr x \<and> f x = Inr y)"
  by (cases m) auto

lemma bindR_eq_Inl: "bindR m f = Inl e \<longleftrightarrow> m = Inl e \<or> (\<exists>x. m = Inr x \<and> f x = Inl e)"
  by (cases m) auto

lemma bindR_assoc: "bindR (bindR m f) g = bindR m (\<lambda>x. bindR (f x) g)"
  by (cases m) auto

lemma bindR_Inr_right [simp]: "bindR m Inr = m"
  by (cases m) auto

lemma bindR_cong [fundef_cong]:
  "m = m' \<Longrightarrow> (\<And>x. m' = Inr x \<Longrightarrow> f x = g x) \<Longrightarrow> bindR m f = bindR m' g"
  by (cases m') auto

text \<open>\<open>for (...) result.push(f(o))\<close>: apply a fallible operation to every element, in order.\<close>

fun mapR :: "('a \<Rightarrow> 'e + 'b) \<Rightarrow> 'a list \<Rightarrow> 'e + 'b list" where
  "mapR f [] = Inr []"
| "mapR f (x # xs) = bindR (f x) (\<lambda>y. bindR (mapR f xs) (\<lambda>ys. Inr (y # ys)))"

text \<open>\<open>for (...) f(b, o)\<close>: thread a state through a fallible operation on every element.\<close>

fun foldR :: "('s \<Rightarrow> 'a \<Rightarrow> 'e + 's) \<Rightarrow> 's \<Rightarrow> 'a list \<Rightarrow> 'e + 's" where
  "foldR f s [] = Inr s"
| "foldR f s (x # xs) = bindR (f s x) (\<lambda>s'. foldR f s' xs)"

text \<open>\<open>for (i < n) result.push(f(b))\<close>: read \<open>n\<close> elements from a stateful source.\<close>

fun repeatR :: "('s \<Rightarrow> 'e + 'a \<times> 's) \<Rightarrow> nat \<Rightarrow> 's \<Rightarrow> 'e + 'a list \<times> 's" where
  "repeatR f 0 s = Inr ([], s)"
| "repeatR f (Suc n) s =
     bindR (f s) (\<lambda>(x, s'). bindR (repeatR f n s') (\<lambda>(xs, s''). Inr (x # xs, s'')))"

lemma mapR_cong [fundef_cong]:
  "xs = ys \<Longrightarrow> (\<And>x. x \<in> set ys \<Longrightarrow> f x = g x) \<Longrightarrow> mapR f xs = mapR g ys"
  by (induction ys arbitrary: xs) auto

lemma mapR_total: "(\<And>x. x \<in> set xs \<Longrightarrow> f x = Inr (g x)) \<Longrightarrow> mapR f xs = Inr (map g xs)"
  by (induction xs) auto

lemma mapR_eq_Inr: "mapR f xs = Inr ys \<longleftrightarrow> list_all2 (\<lambda>x y. f x = Inr y) xs ys"
  by (induction xs arbitrary: ys) (auto simp: bindR_eq_Inr list_all2_Cons1)

text \<open>The error of \<open>mapR\<close> is that of the first element with one.\<close>

lemma mapR_first_error:
  "mapR f xs = Inl e \<Longrightarrow> \<exists>i < length xs. f (xs ! i) = Inl e \<and> (\<forall>j < i. \<exists>v. f (xs ! j) = Inr v)"
proof (induction xs)
  case (Cons x xs)
  show ?case
  proof (cases "f x")
    case (Inl e')
    with Cons show ?thesis by (intro exI [of _ 0]) simp
  next
    case (Inr v)
    with Cons obtain i where "i < length xs" "f (xs ! i) = Inl e" "\<forall>j < i. \<exists>v. f (xs ! j) = Inr v"
      by (auto simp: bindR_eq_Inl)
    with Inr show ?thesis by (intro exI [of _ "Suc i"]) (auto simp: nth_Cons split: nat.splits)
  qed
qed simp

lemma mapR_length: "mapR f xs = Inr ys \<Longrightarrow> length ys = length xs"
  by (auto simp: mapR_eq_Inr dest: list_all2_lengthD)

lemma foldR_append: "foldR f s (xs @ ys) = bindR (foldR f s xs) (\<lambda>s'. foldR f s' ys)"
  by (induction xs arbitrary: s) (auto simp: bindR_assoc)

section \<open>Strings\<close>

text \<open>A literal of the source (all are ASCII), as code units.\<close>

definition js :: "string \<Rightarrow> jsstring" where
  "js s = map of_char s"

definition is_digit :: "code_unit \<Rightarrow> bool" where
  "is_digit c \<longleftrightarrow> 48 \<le> c \<and> c \<le> 57"

definition is_alnum_at :: "code_unit \<Rightarrow> bool" where
  "is_alnum_at c \<longleftrightarrow> is_digit c \<or> (65 \<le> c \<and> c \<le> 90) \<or> (97 \<le> c \<and> c \<le> 122) \<or> c = 64"

text \<open>The white space and line terminators that \<open>String.prototype.trim\<close> strips.\<close>

definition is_ws :: "code_unit \<Rightarrow> bool" where
  "is_ws c \<longleftrightarrow> (9 \<le> c \<and> c \<le> 13) \<or> c = 32 \<or> c = 160 \<or> c = 5760 \<or> (8192 \<le> c \<and> c \<le> 8202)
     \<or> c = 8232 \<or> c = 8233 \<or> c = 8239 \<or> c = 8287 \<or> c = 12288 \<or> c = 65279"

definition js_trim :: "jsstring \<Rightarrow> jsstring" where
  "js_trim s = rev (dropWhile is_ws (rev (dropWhile is_ws s)))"

text \<open>\<open>s.split(c)\<close> for a one-character separator.\<close>

fun split_on :: "'a \<Rightarrow> 'a list \<Rightarrow> 'a list list" where
  "split_on c [] = [[]]"
| "split_on c (x # xs) =
     (if x = c then [] # split_on c xs
      else (case split_on c xs of [] \<Rightarrow> [[x]] | p # ps \<Rightarrow> (x # p) # ps))"

text \<open>\<open>s.indexOf(c)\<close> for a one-character pattern; \<open>None\<close> is the source's \<open>-1\<close>.\<close>

fun index_of :: "'a \<Rightarrow> 'a list \<Rightarrow> nat option" where
  "index_of c [] = None"
| "index_of c (x # xs) = (if x = c then Some 0 else map_option Suc (index_of c xs))"

definition starts_with :: "'a list \<Rightarrow> 'a list \<Rightarrow> bool" where
  "starts_with p s \<longleftrightarrow> take (length p) s = p"

definition to_upper :: "code_unit \<Rightarrow> code_unit" where
  "to_upper c = (if 97 \<le> c \<and> c \<le> 122 then c - 32 else c)"

text \<open>\<open>a < b\<close> on strings: lexicographic on code units.\<close>

fun str_less :: "jsstring \<Rightarrow> jsstring \<Rightarrow> bool" where
  "str_less s [] \<longleftrightarrow> False"
| "str_less [] (y # ys) \<longleftrightarrow> True"
| "str_less (x # xs) (y # ys) \<longleftrightarrow> x < y \<or> (x = y \<and> str_less xs ys)"

section \<open>Decimal numerals\<close>

fun dec_nat :: "nat \<Rightarrow> jsstring" where
  "dec_nat n = (if n < 10 then [of_nat (48 + n)] else dec_nat (n div 10) @ [of_nat (48 + n mod 10)])"

declare dec_nat.simps [simp del]

definition dec_int :: "int \<Rightarrow> jsstring" where
  "dec_int i = (if i < 0 then 45 # dec_nat (nat (- i)) else dec_nat (nat i))"

definition digit_val :: "code_unit \<Rightarrow> nat" where
  "digit_val c = unat c - 48"

definition digits_val :: "jsstring \<Rightarrow> nat" where
  "digits_val s = foldl (\<lambda>a c. 10 * a + digit_val c) 0 s"

lemma digit_code: "d < 10 \<Longrightarrow> unat (of_nat (48 + d) :: code_unit) = 48 + d"
  by (simp add: unat_of_nat del: of_nat_add)

lemma is_digit_iff: "is_digit c \<longleftrightarrow> 48 \<le> unat c \<and> unat c \<le> 57"
  by (simp add: is_digit_def word_le_nat_alt)

lemma is_digit_code [simp]: "d < 10 \<Longrightarrow> is_digit (of_nat (48 + d))"
  by (simp add: is_digit_iff digit_code del: of_nat_add)

lemma digit_val_code [simp]: "d < 10 \<Longrightarrow> digit_val (of_nat (48 + d)) = d"
  by (simp add: digit_val_def digit_code del: of_nat_add)

lemma code_digit_val: "is_digit c \<Longrightarrow> of_nat (48 + digit_val c) = c"
  by (simp add: digit_val_def is_digit_iff del: of_nat_add)

lemma digit_val_less: "is_digit c \<Longrightarrow> digit_val c < 10"
  by (auto simp: digit_val_def is_digit_iff)

lemma digits_val_foldl:
  "foldl (\<lambda>a c. 10 * a + digit_val c) n s = n * 10 ^ length s + digits_val s"
proof (induction s arbitrary: n)
  case (Cons c s)
  show ?case
    using Cons.IH [of "10 * n + digit_val c"] Cons.IH [of "digit_val c"]
    by (simp add: digits_val_def algebra_simps)
qed (simp add: digits_val_def)

lemma digits_val_Nil [simp]: "digits_val [] = 0"
  by (simp add: digits_val_def)

lemma digits_val_Cons: "digits_val (c # s) = digit_val c * 10 ^ length s + digits_val s"
  using digits_val_foldl [of "digit_val c" s] by (simp add: digits_val_def)

lemma digits_val_append: "digits_val (s @ t) = digits_val s * 10 ^ length t + digits_val t"
  by (induction s) (simp_all add: digits_val_Cons algebra_simps power_add)

lemma digit_val_0 [simp]: "digit_val 48 = 0"
  by (simp add: digit_val_def)

lemma digits_val_zeros [simp]: "digits_val (replicate n 48) = 0"
  by (induction n) (simp_all add: digits_val_Cons)

lemma digits_val_less: "list_all is_digit s \<Longrightarrow> digits_val s < 10 ^ length s"
proof (induction s)
  case (Cons c s)
  have "digits_val (c # s) \<le> 9 * 10 ^ length s + digits_val s"
    using Cons.prems digit_val_less [of c] by (simp add: digits_val_Cons)
  also have "\<dots> < 10 ^ length (c # s)"
    using Cons by simp
  finally show ?case .
qed simp

lemma dec_nat_not_Nil [simp]: "dec_nat n \<noteq> []"
  by (subst dec_nat.simps) simp

lemma dec_nat_digits [simp]: "list_all is_digit (dec_nat n)"
proof (induction n rule: dec_nat.induct)
  case (1 n)
  then show ?case
    by (cases "n < 10") (simp_all add: dec_nat.simps [of n] del: of_nat_add)
qed

lemma digits_val_dec_nat [simp]: "digits_val (dec_nat n) = n"
proof (induction n rule: dec_nat.induct)
  case (1 n)
  then show ?case
    by (cases "n < 10")
      (simp_all add: dec_nat.simps [of n] digits_val_append digits_val_Cons del: of_nat_add)
qed

text \<open>A numeral has no leading zero, except the numeral of zero itself.\<close>

lemma hd_dec_nat: "0 < n \<Longrightarrow> hd (dec_nat n) \<noteq> 48"
proof (induction n rule: dec_nat.induct)
  case (1 n)
  show ?case
  proof (cases "n < 10")
    case True
    then have "unat (of_nat (48 + n) :: code_unit) \<noteq> unat (48 :: code_unit)"
      using 1 by (simp add: digit_code del: of_nat_add)
    then show ?thesis using True by (auto simp: dec_nat.simps [of n] simp del: of_nat_add)
  next
    case False
    then have "hd (dec_nat (n div 10)) \<noteq> 48" using 1 by simp
    then show ?thesis using False by (simp add: dec_nat.simps [of n] del: of_nat_add)
  qed
qed

lemma dec_nat_0 [simp]: "dec_nat 0 = [48]"
  by (simp add: dec_nat.simps)

lemma dec_nat_snoc:
  "is_digit c \<Longrightarrow> 0 < n \<Longrightarrow> dec_nat (10 * n + digit_val c) = dec_nat n @ [c]"
  using digit_val_less [of c] code_digit_val [of c]
  by (subst dec_nat.simps) (simp del: of_nat_add)

lemma digits_val_pos: "list_all is_digit s \<Longrightarrow> s \<noteq> [] \<Longrightarrow> hd s \<noteq> 48 \<Longrightarrow> 0 < digits_val s"
proof (cases s)
  case (Cons c r)
  assume a: "list_all is_digit s" "hd s \<noteq> 48"
  have "digit_val c \<noteq> 0"
  proof
    assume "digit_val c = 0"
    then have "of_nat (48 + digit_val c) = (48 :: code_unit)" by simp
    then show False using code_digit_val [of c] a Cons by simp
  qed
  then show ?thesis using Cons by (simp add: digits_val_Cons)
qed simp

lemma dec_nat_digits_val:
  "list_all is_digit s \<Longrightarrow> s \<noteq> [] \<Longrightarrow> hd s \<noteq> 48 \<Longrightarrow> dec_nat (digits_val s) = s"
proof (induction s rule: rev_induct)
  case (snoc c s)
  show ?case
  proof (cases "s = []")
    case True
    then show ?thesis
      using snoc.prems digit_val_less [of c] code_digit_val [of c]
      by (simp add: digits_val_Cons dec_nat.simps del: of_nat_add)
  next
    case False
    then have "0 < digits_val s" and "dec_nat (digits_val s) = s"
      using snoc by (auto intro!: digits_val_pos)
    then show ?thesis
      using snoc.prems dec_nat_snoc [of c "digits_val s"]
      by (simp add: digits_val_append digits_val_Cons mult.commute)
  qed
qed simp

lemma digits_val_dropWhile_zero: "digits_val (dropWhile (\<lambda>c. c = 48) s) = digits_val s"
  by (induction s) (auto simp: digits_val_Cons)

lemma dec_nat_inj: "dec_nat m = dec_nat n \<Longrightarrow> m = n"
  by (metis digits_val_dec_nat)

lemma length_dec_nat: "n < 10 ^ k \<Longrightarrow> 0 < k \<Longrightarrow> length (dec_nat n) \<le> k"
proof (induction n arbitrary: k rule: dec_nat.induct)
  case (1 n)
  show ?case
  proof (cases "n < 10")
    case True
    then show ?thesis using 1 by (simp add: dec_nat.simps [of n])
  next
    case False
    then obtain j where j: "k = Suc j" "0 < j" using 1 by (cases k; cases "k - 1") auto
    with 1 have "n div 10 < 10 ^ j" by (simp add: div_less_iff_less_mult mult.commute)
    with 1 False j have "length (dec_nat (n div 10)) \<le> j" by simp
    with False j show ?thesis by (simp add: dec_nat.simps [of n])
  qed
qed

end
