(* ===== verification/JSValue.thy ===== *)
theory JSValue
  imports Prelude
begin

text \<open>
  The JavaScript values the library's code handles, its exceptions, and the environment: the
  configuration (\<open>config.js\<close>) and the third-party functions (\<open>ecurve\<close>, \<open>bs58\<close>,
  \<open>create-hash\<close>) that are parameters of the model.

  Numbers are integers or \<open>NaN\<close>: the values the serializer handles are integral, and fractional
  numbers are outside the model. A \<open>Long\<close> is its 64 bits and its \<open>unsigned\<close> flag. Objects are
  association lists in insertion order, with the property names of the source.
\<close>

unbundle bit_operations_syntax

section \<open>Values\<close>

text \<open>A point of the curve as \<open>ecurve\<close> holds it: affine coordinates and the \<open>compressed\<close> flag.\<close>

record ec_point =
  pt_x :: int
  pt_y :: int
  pt_compressed :: bool

datatype jsval =
    JUndef
  | JNull
  | JBool bool
  | JNum int
  | JNaN
  | JStr jsstring
  | JLong bool "64 word"      \<comment> \<open>the flag is \<open>unsigned\<close>\<close>
  | JBuf "byte list"          \<comment> \<open>a node \<open>Buffer\<close>\<close>
  | JDate "int option"        \<comment> \<open>time value in milliseconds, \<open>None\<close> for an invalid date\<close>
  | JArr "jsval list"
  | JObj "(string \<times> jsval) list"
  | JPub "ec_point option"    \<comment> \<open>a \<open>PublicKey\<close>, with its \<open>Q\<close>\<close>
  | JAddr "byte list"         \<comment> \<open>an \<open>Address\<close>, with its \<open>addy\<close>\<close>
  | JOid int int bool "64 word"  \<comment> \<open>an \<open>ObjectId\<close>: space, type and the instance \<open>Long\<close>\<close>
  | JFun nat                  \<comment> \<open>a function value, named by a tag\<close>

datatype op_name = OpStr string | OpNum int

section \<open>Exceptions\<close>

text \<open>
  One constructor per \<open>throw\<close> of the source, the exceptions of the language, and \<open>Cause\<close> for the
  nesting that \<open>error_with_cause.js\<close> adds with the operation and the field. \<open>Hang\<close> is not an
  exception: it marks a call that does not return.
\<close>

datatype js_error =
    ValueRequired | LongRequired | StringRequired | NumberRequired | WholeNumberRequired
  | UnsignedRequired | Overflow | UnsupportedType | Unmatched | OutOfRange
  | UnknownObjectType | ExpectingObjectType
  | DammRange | ExpectingAmount | SymbolTooLong | NonCoreSymbol | NaiPrefix
  | VoidType | DuplicateSet | DuplicateMap | ExpectingArray | ExpectingTwoElements
  | UnknownDateType | TooManyDecimals | InvalidDecimal | InvalidNumber | InvalidObjectId
  | EmptyString | InteriorHyphen | IllegalCharCode | Truncated | IllegalStartByte
  | InvalidWif | EmptyBuffer | BufferRequired | SeedRequired | ChildOutOfBounds | ChildInvalid | NoRecoveryFactor
  | TypeError | RangeError | SyntaxError | ReferenceError | AssertionError | LibraryError
  | Hang
  | Cause op_name string js_error

section \<open>The environment\<close>

record env =
  address_prefix :: jsstring
  chain_id :: jsstring
  point_decodeFrom :: "byte list \<Rightarrow> js_error + ec_point"
  point_getEncoded :: "ec_point \<Rightarrow> bool \<Rightarrow> byte list"
  base58_encode :: "byte list \<Rightarrow> jsstring"
  base58_decode :: "jsstring \<Rightarrow> js_error + byte list"
  sha256 :: "byte list \<Rightarrow> byte list"
  sha512 :: "byte list \<Rightarrow> byte list"
  ripemd160 :: "byte list \<Rightarrow> byte list"
  date_parse_other :: "jsstring \<Rightarrow> int option"  \<comment> \<open>date formats left to the JavaScript engine\<close>
  date_toString :: "int option \<Rightarrow> jsstring"    \<comment> \<open>local time, depends on the time zone\<close>
  fun_toString :: "nat \<Rightarrow> jsstring"            \<comment> \<open>the source text of a function\<close>

section \<open>Language operations on values\<close>

definition js_truthy :: "jsval \<Rightarrow> bool" where
  "js_truthy v \<longleftrightarrow>
     (case v of JUndef \<Rightarrow> False | JNull \<Rightarrow> False | JBool b \<Rightarrow> b | JNum n \<Rightarrow> n \<noteq> 0 | JNaN \<Rightarrow> False
      | JStr s \<Rightarrow> s \<noteq> [] | _ \<Rightarrow> True)"

definition is_number :: "jsval \<Rightarrow> bool" where
  "is_number v \<longleftrightarrow> (case v of JNum _ \<Rightarrow> True | JNaN \<Rightarrow> True | _ \<Rightarrow> False)"

definition is_string :: "jsval \<Rightarrow> bool" where
  "is_string v \<longleftrightarrow> (case v of JStr _ \<Rightarrow> True | _ \<Rightarrow> False)"

text \<open>\<open>typeof v === "object"\<close>\<close>

definition is_object :: "jsval \<Rightarrow> bool" where
  "is_object v \<longleftrightarrow>
     (case v of JUndef \<Rightarrow> False | JBool _ \<Rightarrow> False | JNum _ \<Rightarrow> False | JNaN \<Rightarrow> False | JStr _ \<Rightarrow> False
      | JFun _ \<Rightarrow> False | _ \<Rightarrow> True)"

text \<open>
  \<open>v[field]\<close>: reading a property of \<open>undefined\<close> or \<open>null\<close> throws; a property a value does not
  have is \<open>undefined\<close>. \<open>length\<close> is the only built-in property the code reads this way; an
  \<open>ObjectId\<close> has its three fields.
\<close>

fun js_get :: "jsval \<Rightarrow> string \<Rightarrow> js_error + jsval" where
  "js_get JUndef k = Inl TypeError"
| "js_get JNull k = Inl TypeError"
| "js_get (JObj kvs) k = Inr (case map_of kvs k of None \<Rightarrow> JUndef | Some v \<Rightarrow> v)"
| "js_get (JArr xs) k = Inr (if k = ''length'' then JNum (int (length xs)) else JUndef)"
| "js_get (JStr s) k = Inr (if k = ''length'' then JNum (int (length s)) else JUndef)"
| "js_get (JBuf bs) k = Inr (if k = ''length'' then JNum (int (length bs)) else JUndef)"
| "js_get (JOid space ty u inst) k =
     Inr (if k = ''space'' then JNum space else if k = ''type'' then JNum ty
          else if k = ''instance'' then JLong u inst else JUndef)"
| "js_get v k = Inr JUndef"

text \<open>\<open>v[i]\<close> for a number \<open>i\<close>: out of range is \<open>undefined\<close>.\<close>

fun js_index :: "jsval \<Rightarrow> nat \<Rightarrow> js_error + jsval" where
  "js_index JUndef i = Inl TypeError"
| "js_index JNull i = Inl TypeError"
| "js_index (JArr xs) i = Inr (if i < length xs then xs ! i else JUndef)"
| "js_index (JStr s) i = Inr (if i < length s then JStr [s ! i] else JUndef)"
| "js_index (JBuf bs) i = Inr (if i < length bs then JNum (uint (bs ! i)) else JUndef)"
| "js_index v i = Inr JUndef"

text \<open>\<open>parseInt(s)\<close> and \<open>parseInt(s, 10)\<close>: \<open>None\<close> is \<open>NaN\<close>.\<close>

definition hex_digit_val :: "code_unit \<Rightarrow> nat option" where
  "hex_digit_val c =
     (if is_digit c then Some (digit_val c)
      else if 97 \<le> c \<and> c \<le> 102 then Some (unat c - 87)
      else if 65 \<le> c \<and> c \<le> 70 then Some (unat c - 55)
      else None)"

definition parse_digits :: "jsstring \<Rightarrow> int option" where
  "parse_digits s =
     (let ds = takeWhile is_digit s in if ds = [] then None else Some (int (digits_val ds)))"

definition parse_hex :: "jsstring \<Rightarrow> int option" where
  "parse_hex s =
     (let ds = takeWhile (\<lambda>c. hex_digit_val c \<noteq> None) s
      in if ds = [] then None
         else Some (int (foldl (\<lambda>a c. 16 * a + the (hex_digit_val c)) 0 ds)))"

definition parse_sign :: "jsstring \<Rightarrow> int \<times> jsstring" where
  "parse_sign s =
     (case s of [] \<Rightarrow> (1, [])
      | c # r \<Rightarrow> if c = 45 then (- 1, r) else if c = 43 then (1, r) else (1, s))"

definition parseInt10 :: "jsstring \<Rightarrow> int option" where
  "parseInt10 s =
     (let (sg, r) = parse_sign (dropWhile is_ws s) in map_option ((*) sg) (parse_digits r))"

definition parseInt :: "jsstring \<Rightarrow> int option" where
  "parseInt s =
     (let (sg, r) = parse_sign (dropWhile is_ws s)
      in if take 2 r = js ''0x'' \<or> take 2 r = js ''0X'' then map_option ((*) sg) (parse_hex (drop 2 r))
         else map_option ((*) sg) (parse_digits r))"

definition num_of :: "int option \<Rightarrow> jsval" where
  "num_of o' = (case o' of None \<Rightarrow> JNaN | Some n \<Rightarrow> JNum n)"

section \<open>Node buffers\<close>

definition hex_char :: "nat \<Rightarrow> code_unit" where
  "hex_char d = of_nat (if d < 10 then 48 + d else 87 + d)"

definition hex_byte :: "byte \<Rightarrow> jsstring" where
  "hex_byte b = [hex_char (unat b div 16), hex_char (unat b mod 16)]"

text \<open>\<open>buffer.toString("hex")\<close>\<close>

definition toHex :: "byte list \<Rightarrow> jsstring" where
  "toHex bs = concat (map hex_byte bs)"

text \<open>\<open>new Buffer(s, "hex")\<close> decodes pairs of hexadecimal digits up to the first invalid pair.\<close>

fun fromHex :: "jsstring \<Rightarrow> byte list" where
  "fromHex (a # b # r) =
     (case (hex_digit_val a, hex_digit_val b) of
        (Some x, Some y) \<Rightarrow> of_nat (16 * x + y) # fromHex r
      | _ \<Rightarrow> [])"
| "fromHex _ = []"

text \<open>\<open>buffer.toString("binary")\<close>: one code unit per byte.\<close>

definition toBinaryString :: "byte list \<Rightarrow> jsstring" where
  "toBinaryString bs = map ucast bs"

lemma hex_digit_val_char [simp]: "d < 16 \<Longrightarrow> hex_digit_val (hex_char d) = Some d"
proof -
  assume d: "d < 16"
  show ?thesis
  proof (cases "d < 10")
    case True
    then show ?thesis by (simp add: hex_char_def hex_digit_val_def del: of_nat_add)
  next
    case False
    with d have "unat (of_nat (87 + d) :: code_unit) = 87 + d"
      by (simp add: unat_of_nat del: of_nat_add)
    with False d show ?thesis
      by (simp add: hex_char_def hex_digit_val_def is_digit_iff word_le_nat_alt del: of_nat_add)
  qed
qed

text \<open>Hexadecimal text and bytes are inverse to each other.\<close>

lemma fromHex_toHex [simp]: "fromHex (toHex bs) = bs"
proof (induction bs)
  case (Cons b bs)
  have "unat b div 16 < 16" "unat b mod 16 < 16"
    using unat_byte_less [of b] by (auto simp: div_less_iff_less_mult)
  moreover have "16 * (unat b div 16) + unat b mod 16 = unat b" by simp
  ultimately show ?case
    using Cons by (simp add: toHex_def hex_byte_def del: of_nat_add of_nat_mult)
qed (simp add: toHex_def)

lemma length_toHex: "length (toHex bs) = 2 * length bs"
  by (induction bs) (simp_all add: toHex_def hex_byte_def)

lemma toHex_inj: "toHex a = toHex b \<Longrightarrow> a = b"
  by (metis fromHex_toHex)

end
