(* ===== verification/Utf.thy ===== *)
theory Utf
  imports JSValue
begin

text \<open>
  Text encodings: the \<open>utfx\<close> routines that \<open>ByteBuffer\<close> uses to write and read length-prefixed
  strings (bundled in \<open>client-libs/dblurt/dist/dblurt.js\<close>), and the UTF-8 conversion of node's
  \<open>Buffer\<close>. On well-formed UTF-16 the two encoders agree and every decoder inverts them; on a
  lone surrogate followed by an ordinary code unit the \<open>utfx\<close> loop does not terminate.
\<close>

section \<open>Code points to bytes\<close>

type_synonym codepoint = "32 word"

definition encodeUTF8 :: "codepoint \<Rightarrow> byte list" where
  "encodeUTF8 cp =
     (if cp < 128 then [ucast (127 AND cp)]
      else (if cp < 2048 then [ucast ((drop_bit 6 cp AND 31) OR 192)]
            else (if cp < 65536 then [ucast ((drop_bit 12 cp AND 15) OR 224)]
                  else [ucast ((drop_bit 18 cp AND 7) OR 240), ucast ((drop_bit 12 cp AND 63) OR 128)])
                 @ [ucast ((drop_bit 6 cp AND 63) OR 128)])
           @ [ucast ((63 AND cp) OR 128)])"

definition calculateCodePoint :: "codepoint \<Rightarrow> nat" where
  "calculateCodePoint cp = (if cp < 128 then 1 else if cp < 2048 then 2 else if cp < 65536 then 3 else 4)"

fun decodeUTF8 :: "byte list \<Rightarrow> js_error + codepoint list" where
  "decodeUTF8 [] = Inr []"
| "decodeUTF8 (a # r) =
     (if 128 AND a = 0 then bindR (decodeUTF8 r) (\<lambda>cs. Inr (ucast a # cs))
      else if 224 AND a = 192 then
        (case r of b # r1 \<Rightarrow>
             bindR (decodeUTF8 r1) (\<lambda>cs. Inr ((push_bit 6 (31 AND ucast a) OR (63 AND ucast b)) # cs))
         | _ \<Rightarrow> Inl Truncated)
      else if 240 AND a = 224 then
        (case r of b # c # r2 \<Rightarrow>
             bindR (decodeUTF8 r2) (\<lambda>cs. Inr ((push_bit 12 (15 AND ucast a)
               OR push_bit 6 (63 AND ucast b) OR (63 AND ucast c)) # cs))
         | _ \<Rightarrow> Inl Truncated)
      else if 248 AND a \<noteq> 240 then Inl IllegalStartByte
      else
        (case r of b # c # d # r3 \<Rightarrow>
             bindR (decodeUTF8 r3) (\<lambda>cs. Inr ((push_bit 18 (7 AND ucast a)
               OR push_bit 12 (63 AND ucast b) OR push_bit 6 (63 AND ucast c) OR (63 AND ucast d)) # cs))
         | _ \<Rightarrow> Inl Truncated))"

section \<open>UTF-16 to code points\<close>

text \<open>
  The loop keeps a pending unit \<open>c2\<close>. Where \<open>c1\<close> is not a surrogate the second read is skipped
  and \<open>c2\<close> keeps its value, so a pending non-surrogate is read again and again: not returning is
  the value \<^term>\<open>None\<close>.
\<close>

definition surrogate :: "code_unit \<Rightarrow> bool" where
  "surrogate c \<longleftrightarrow> 55296 \<le> c \<and> c \<le> 57343"

definition low_surrogate :: "code_unit \<Rightarrow> bool" where
  "low_surrogate c \<longleftrightarrow> 56320 \<le> c \<and> c \<le> 57343"

definition pair_codepoint :: "code_unit \<Rightarrow> code_unit \<Rightarrow> codepoint" where
  "pair_codepoint c1 c2 = 1024 * (ucast c1 - 55296) + ucast c2 - 56320 + 65536"

partial_function (option) UTF16toUTF8 :: "code_unit option \<Rightarrow> jsstring \<Rightarrow> codepoint list option"
  where [code]:
  "UTF16toUTF8 c2 src =
     (case (case c2 of Some c \<Rightarrow> Some (c, src)
            | None \<Rightarrow> (case src of [] \<Rightarrow> None | c # r \<Rightarrow> Some (c, r))) of
        None \<Rightarrow> Some []
      | Some (c1, r) \<Rightarrow>
          (if surrogate c1 then
             (case r of
                [] \<Rightarrow> Option.bind (UTF16toUTF8 None []) (\<lambda>cs. Some (ucast c1 # cs))
              | d # r' \<Rightarrow>
                  (if low_surrogate d
                   then Option.bind (UTF16toUTF8 None r') (\<lambda>cs. Some (pair_codepoint c1 d # cs))
                   else Option.bind (UTF16toUTF8 (Some d) r') (\<lambda>cs. Some (ucast c1 # cs))))
           else Option.bind (UTF16toUTF8 c2 r) (\<lambda>cs. Some (ucast c1 # cs))))"

definition UTF8toUTF16 :: "codepoint \<Rightarrow> jsstring" where
  "UTF8toUTF16 cp =
     (if cp \<le> 65535 then [ucast cp]
      else [ucast (55296 + drop_bit 10 (cp - 65536)), ucast ((cp - 65536) mod 1024 + 56320)])"

definition encodeUTF16toUTF8 :: "jsstring \<Rightarrow> byte list option" where
  "encodeUTF16toUTF8 s = map_option (\<lambda>cs. concat (map encodeUTF8 cs)) (UTF16toUTF8 None s)"

definition decodeUTF8toUTF16 :: "byte list \<Rightarrow> js_error + jsstring" where
  "decodeUTF8toUTF16 bs = bindR (decodeUTF8 bs) (\<lambda>cs. Inr (concat (map UTF8toUTF16 cs)))"

definition calculateUTF16asUTF8 :: "jsstring \<Rightarrow> nat option" where
  "calculateUTF16asUTF8 s = map_option (\<lambda>cs. sum_list (map calculateCodePoint cs)) (UTF16toUTF8 None s)"

section \<open>Node buffers\<close>

text \<open>\<open>new Buffer(s, "utf8")\<close>: a lone surrogate is encoded as U+FFFD.\<close>

fun node_codepoints :: "jsstring \<Rightarrow> codepoint list" where
  "node_codepoints [] = []"
| "node_codepoints (c # r) =
     (if \<not> surrogate c then ucast c # node_codepoints r
      else if low_surrogate c then 65533 # node_codepoints r
      else (case r of
              [] \<Rightarrow> [65533]
            | d # r' \<Rightarrow> if low_surrogate d then pair_codepoint c d # node_codepoints r'
                        else 65533 # node_codepoints r))"

definition node_encode :: "jsstring \<Rightarrow> byte list" where
  "node_encode s = concat (map encodeUTF8 (node_codepoints s))"

text \<open>
  \<open>buffer.toString()\<close>: UTF-8 with every maximal ill-formed subsequence replaced by U+FFFD.
\<close>

definition cont_byte :: "byte \<Rightarrow> bool" where
  "cont_byte b \<longleftrightarrow> 128 \<le> b \<and> b \<le> 191"

definition second_byte_ok :: "byte \<Rightarrow> byte \<Rightarrow> bool" where
  "second_byte_ok a b \<longleftrightarrow>
     (if a = 224 then 160 \<le> b \<and> b \<le> 191 else if a = 237 then 128 \<le> b \<and> b \<le> 159
      else if a = 240 then 144 \<le> b \<and> b \<le> 191 else if a = 244 then 128 \<le> b \<and> b \<le> 143
      else cont_byte b)"

fun node_decode_codepoints :: "byte list \<Rightarrow> codepoint list" where
  "node_decode_codepoints [] = []"
| "node_decode_codepoints (a # r) =
     (if a < 128 then ucast a # node_decode_codepoints r
      else if 194 \<le> a \<and> a \<le> 223 then
        (case r of [] \<Rightarrow> [65533]
         | b # r1 \<Rightarrow> if cont_byte b
             then (push_bit 6 (31 AND ucast a) OR (63 AND ucast b)) # node_decode_codepoints r1
             else 65533 # node_decode_codepoints r)
      else if 224 \<le> a \<and> a \<le> 239 then
        (case r of [] \<Rightarrow> [65533]
         | b # r1 \<Rightarrow> if \<not> second_byte_ok a b then 65533 # node_decode_codepoints r
             else (case r1 of [] \<Rightarrow> [65533]
                   | c # r2 \<Rightarrow> if cont_byte c
                       then (push_bit 12 (15 AND ucast a) OR push_bit 6 (63 AND ucast b)
                               OR (63 AND ucast c)) # node_decode_codepoints r2
                       else 65533 # node_decode_codepoints r1))
      else if 240 \<le> a \<and> a \<le> 244 then
        (case r of [] \<Rightarrow> [65533]
         | b # r1 \<Rightarrow> if \<not> second_byte_ok a b then 65533 # node_decode_codepoints r
             else (case r1 of [] \<Rightarrow> [65533]
                   | c # r2 \<Rightarrow> if \<not> cont_byte c then 65533 # node_decode_codepoints r1
                       else (case r2 of [] \<Rightarrow> [65533]
                             | d # r3 \<Rightarrow> if cont_byte d
                                 then (push_bit 18 (7 AND ucast a) OR push_bit 12 (63 AND ucast b)
                                         OR push_bit 6 (63 AND ucast c) OR (63 AND ucast d))
                                      # node_decode_codepoints r3
                                 else 65533 # node_decode_codepoints r2)))
      else 65533 # node_decode_codepoints r)"

definition node_decode :: "byte list \<Rightarrow> jsstring" where
  "node_decode bs = concat (map UTF8toUTF16 (node_decode_codepoints bs))"

section \<open>Well-formed text\<close>

fun wf16 :: "jsstring \<Rightarrow> bool" where
  "wf16 [] \<longleftrightarrow> True"
| "wf16 (c # r) \<longleftrightarrow>
     (if \<not> surrogate c then wf16 r
      else \<not> low_surrogate c \<and> (case r of [] \<Rightarrow> False | d # r' \<Rightarrow> low_surrogate d \<and> wf16 r'))"

definition scalar :: "codepoint \<Rightarrow> bool" where
  "scalar cp \<longleftrightarrow> cp < 55296 \<or> 57343 < cp \<and> cp \<le> 1114111"

section \<open>Bytes of one code point\<close>

lemma nat_and_shift: "(y * 2 ^ n) AND u = (y AND (u div 2 ^ n)) * (2::nat) ^ n"
  by (rule bit_eqI) (simp add: bit_and_iff bit_push_bit_iff bit_drop_bit_eq le_iff_add flip: push_bit_eq_mult drop_bit_eq_div; auto)

lemma unat_and_high:
  fixes a :: byte
  shows "unat (128 AND a) = unat a div 128 * 128" "unat (224 AND a) = unat a div 32 * 32"
    "unat (240 AND a) = unat a div 16 * 16" "unat (248 AND a) = unat a div 8 * 8"
proof -
  have m: "mask 1 = (1::nat)" "mask 3 = (7::nat)" "mask 4 = (15::nat)" "mask 5 = (31::nat)"
    by (simp_all add: mask_eq_exp_minus_1)
  have u: "unat a < 256" by simp
  have *: "mask k AND (unat a div 2 ^ (8 - k)) = unat a div 2 ^ (8 - k)" if "k \<le> 8" for k
  proof -
    have "2 ^ k * 2 ^ (8 - k) = (256 :: nat)" using that by (simp flip: power_add)
    with u have "unat a div 2 ^ (8 - k) < 2 ^ k" by (simp add: div_less_iff_less_mult)
    then show ?thesis by (metis and.commute take_bit_eq_mask take_bit_nat_eq_self)
  qed
  show "unat (128 AND a) = unat a div 128 * 128"
    using nat_and_shift [of 1 7 "unat a"] *[of 1] by (simp add: unsigned_and_eq m(1))
  show "unat (224 AND a) = unat a div 32 * 32"
    using nat_and_shift [of 7 5 "unat a"] *[of 3] by (simp add: unsigned_and_eq m(2))
  show "unat (240 AND a) = unat a div 16 * 16" 
    using nat_and_shift [of 15 4 "unat a"] *[of 4] by (simp add: unsigned_and_eq m(3))
  show "unat (248 AND a) = unat a div 8 * 8"
    using nat_and_shift [of 31 3 "unat a"] *[of 5] by (simp add: unsigned_and_eq m(4))
qed

lemma lead_byte_classes:
  fixes a :: byte
  shows "(128 AND a = 0) = (unat a < 128)"
  "(224 AND a = 192) = (192 \<le> unat a \<and> unat a < 224)"
  "(240 AND a = 224) = (224 \<le> unat a \<and> unat a < 240)"
  "(248 AND a = 240) = (240 \<le> unat a \<and> unat a < 248)"
  using unat_byte_less [of a]
  by (simp_all only: word_unat_eq_iff unat_and_high, simp_all, linarith+)

lemma encodeUTF8_unat:
  assumes "unat cp < 2097152"
  shows "map unat (encodeUTF8 cp) =
    (let u = unat cp in
     if u < 128 then [u]
     else if u < 2048 then [192 + u div 64, 128 + u mod 64]
     else if u < 65536 then [224 + u div 4096, 128 + u div 64 mod 64, 128 + u mod 64]
     else [240 + u div 262144, 128 + u div 4096 mod 64, 128 + u div 64 mod 64, 128 + u mod 64])"
  using assms
  by (simp add: encodeUTF8_def word_less_nat_alt unat_ucast_mod unat_or_num unat_drop_bit Let_def)

lemma unat_join:
  fixes a b :: codepoint
  shows "unat a < 2 ^ (32 - n) \<Longrightarrow> n \<le> 32 \<Longrightarrow> unat b < 2 ^ n \<Longrightarrow> unat (push_bit n a OR b) = unat a * 2 ^ n + unat b"
proof -
  assume h: "unat a < 2 ^ (32 - n)" "n \<le> 32" "unat b < 2 ^ n"
  have "unat a * 2 ^ n < 2 ^ (32 - n) * 2 ^ n" using h(1) by simp
  also have "\<dots> = 2 ^ LENGTH(32)" using h(2) by (simp flip: power_add)
  finally have "unat (push_bit n a) = unat a * 2 ^ n" by (rule unat_push_bit)
  with h(3) show ?thesis by (simp add: unat_or_disjoint)
qed

lemma unat_ucast_byte [simp]: "unat (ucast (b :: byte) :: codepoint) = unat b"
  by (subst unat_ucast_mod) (rule mod_less, rule order.strict_trans [OF unat_byte_less], simp)


lemma unat_join3_gen:
  fixes x y z :: codepoint
  assumes "unat x < 1048576" "unat y < 64" "unat z < 64"
  shows "unat (push_bit 12 x OR push_bit 6 y OR z) = unat x * 4096 + unat y * 64 + unat z"
proof -
  have "unat (push_bit 6 y OR z) = unat y * 64 + unat z"
    using unat_join [of y 6 z] assms by simp
  then show ?thesis using unat_join [of x 12 "push_bit 6 y OR z"] assms by simp
qed

lemma unat_join4_gen:
  fixes w x y z :: codepoint
  assumes "unat w < 16384" "unat x < 64" "unat y < 64" "unat z < 64"
  shows "unat (push_bit 18 w OR push_bit 12 x OR push_bit 6 y OR z)
    = unat w * 262144 + unat x * 4096 + unat y * 64 + unat z"
  using unat_join [of w 18 "push_bit 12 x OR push_bit 6 y OR z"] unat_join3_gen [of x y z] assms by simp

lemma mod_bounds: "u mod 8 < 16384" "u mod 16 < 1048576" "u mod 64 < (64::nat)"
  by (simp_all add: order.strict_trans2 [OF mod_less_divisor])

lemma unat_join2:
  "unat (push_bit 6 (31 AND ucast (a :: byte)) OR (63 AND ucast (b :: byte)) :: codepoint)
     = unat a mod 32 * 64 + unat b mod 64"
  by (subst unat_join) (auto intro: order.strict_trans1 [OF _ mod_less_divisor])

lemma unat_join3:
  "unat (push_bit 12 (15 AND ucast (a :: byte)) OR push_bit 6 (63 AND ucast (b :: byte))
          OR (63 AND ucast (c :: byte)) :: codepoint)
     = unat a mod 16 * 4096 + unat b mod 64 * 64 + unat c mod 64"
  by (subst unat_join3_gen) (simp_all add: mod_bounds)

lemma unat_join4:
  "unat (push_bit 18 (7 AND ucast (a :: byte)) OR push_bit 12 (63 AND ucast (b :: byte))
          OR push_bit 6 (63 AND ucast (c :: byte)) OR (63 AND ucast (d :: byte)) :: codepoint)
     = unat a mod 8 * 262144 + unat b mod 64 * 4096 + unat c mod 64 * 64 + unat d mod 64"
  by (subst unat_join4_gen) (simp_all add: mod_bounds)

lemma encodeUTF8_cases:
  assumes "unat cp < 2097152"
  obtains a where "unat cp < 128" "encodeUTF8 cp = [a]" "unat a = unat cp"
  | a b where "128 \<le> unat cp" "unat cp < 2048" "encodeUTF8 cp = [a, b]" "unat a = 192 + unat cp div 64" "unat b = 128 + unat cp mod 64"
  | a b c where "2048 \<le> unat cp" "unat cp < 65536" "encodeUTF8 cp = [a, b, c]" "unat a = 224 + unat cp div 4096"
      "unat b = 128 + unat cp div 64 mod 64" "unat c = 128 + unat cp mod 64"
  | a b c d where "65536 \<le> unat cp" "encodeUTF8 cp = [a, b, c, d]" "unat a = 240 + unat cp div 262144"
      "unat b = 128 + unat cp div 4096 mod 64" "unat c = 128 + unat cp div 64 mod 64" "unat d = 128 + unat cp mod 64"
  using encodeUTF8_unat [OF assms] that
  by (auto simp: Let_def map_eq_Cons_conv split: if_splits)

lemma radix_64:
  fixes u :: nat
  shows "u div 64 * 64 + u mod 64 = u"
    and "u div 4096 * 4096 + u div 64 mod 64 * 64 + u mod 64 = u"
    and "u div 262144 * 262144 + u div 4096 mod 64 * 4096 + u div 64 mod 64 * 64 + u mod 64 = u"
proof -
  have e: "u div 4096 = u div 64 div 64" "u div 262144 = u div 64 div 64 div 64"
    by (simp_all add: div_mult2_eq [symmetric])
  show a: "u div 64 * 64 + u mod 64 = u" by simp
  have b: "u div 64 div 64 * 64 + u div 64 mod 64 = u div 64" by simp
  then show c: "u div 4096 * 4096 + u div 64 mod 64 * 64 + u mod 64 = u"
    using a unfolding e by linarith
  have "u div 64 div 64 div 64 * 64 + u div 64 div 64 mod 64 = u div 64 div 64" by simp
  then show "u div 262144 * 262144 + u div 4096 mod 64 * 4096 + u div 64 mod 64 * 64 + u mod 64 = u"
    using a b unfolding e by linarith
qed

lemma mod_add_base:
  "k < 32 \<Longrightarrow> (192 + k) mod 32 = (k::nat)" "k < 16 \<Longrightarrow> (224 + k) mod 16 = (k::nat)"
  "k < 8 \<Longrightarrow> (240 + k) mod 8 = (k::nat)" "k < 64 \<Longrightarrow> (128 + k) mod 64 = (k::nat)"
  using mod_mult_self1 [of k 6 32] mod_mult_self1 [of k 14 16] mod_mult_self1 [of k 30 8]
    mod_mult_self1 [of k 2 64]
  by (simp_all add: add.commute)

lemma decodeUTF8_encodeUTF8_append:
  assumes "unat cp < 2097152"
  shows "decodeUTF8 (encodeUTF8 cp @ r) = bindR (decodeUTF8 r) (\<lambda>cs. Inr (cp # cs))"
  using assms
proof (cases rule: encodeUTF8_cases)
  case (1 a)
  then have "ucast a = cp" by (simp add: word_unat_eq_iff)
  with 1 show ?thesis by (simp add: lead_byte_classes div_less_iff_less_mult)
next
  case (2 a b)
  then have "push_bit 6 (31 AND ucast a) OR (63 AND ucast b) = cp"
    by (simp only: word_unat_eq_iff unat_join2) (simp add: mod_add_base radix_64)
  with 2 show ?thesis by (simp add: lead_byte_classes div_less_iff_less_mult)
next
  case (3 a b c)
  then have "push_bit 12 (15 AND ucast a) OR push_bit 6 (63 AND ucast b) OR (63 AND ucast c) = cp"
    by (simp only: word_unat_eq_iff unat_join3) (simp add: mod_add_base radix_64)
  with 3 show ?thesis by (simp add: lead_byte_classes div_less_iff_less_mult)
next
  case (4 a b c d)
  with assms have "push_bit 18 (7 AND ucast a) OR push_bit 12 (63 AND ucast b) OR push_bit 6 (63 AND ucast c)
      OR (63 AND ucast d) = cp"
    by (simp only: word_unat_eq_iff unat_join4) (simp add: mod_add_base radix_64)
  with 4 assms show ?thesis by (simp add: lead_byte_classes div_less_iff_less_mult)
qed

section \<open>Well-formed UTF-16 survives encoding and decoding\<close>

lemma unat_ucast_unit [simp]: "unat (ucast (c :: code_unit) :: codepoint) = unat c"
proof -
  have "unat c < 65536" using unsigned_less [where 'a = nat, of c] by simp
  then show ?thesis by (subst unat_ucast_mod) (rule mod_less, simp)
qed

lemma unat_unit_less: "unat (c :: code_unit) < 65536"
  using unsigned_less [where 'a = nat, of c] by simp

lemma surrogate_unat: "surrogate c \<longleftrightarrow> 55296 \<le> unat c \<and> unat c \<le> 57343"
  "low_surrogate c \<longleftrightarrow> 56320 \<le> unat c \<and> unat c \<le> 57343"
  by (simp_all add: surrogate_def low_surrogate_def word_le_nat_alt)

lemma unat_pair_gen:
  fixes x y :: codepoint
  assumes "unat x < 1024" "unat y < 1024"
  shows "unat (1024 * x + y + 65536) = 1024 * unat x + unat y + 65536"
proof -
  have m: "unat (1024 * x) = 1024 * unat x"
    using assms by (subst unat_mult_lem [THEN iffD1]) simp_all
  have a: "unat (1024 * x + y) = 1024 * unat x + unat y"
    using assms by (subst unat_add_lem [THEN iffD1]) (simp_all add: m)
  show ?thesis
    using assms by (subst unat_add_lem [THEN iffD1]) (simp_all add: a)
qed

lemma pair_codepoint_unat:
  assumes "surrogate c" "\<not> low_surrogate c" "low_surrogate d"
  shows "unat (pair_codepoint c d) = 1024 * (unat c - 55296) + (unat d - 56320) + 65536"
proof -
  have c: "unat (ucast c - 55296 :: codepoint) = unat c - 55296"
    using assms by (subst unat_sub) (simp_all add: word_le_nat_alt surrogate_unat)
  have d: "unat (ucast d - 56320 :: codepoint) = unat d - 56320"
    using assms by (subst unat_sub) (simp_all add: word_le_nat_alt surrogate_unat)
  have e: "pair_codepoint c d = 1024 * (ucast c - 55296) + (ucast d - 56320) + 65536"
    by (simp add: pair_codepoint_def)
  show ?thesis unfolding e
    using assms by (subst unat_pair_gen) (simp_all only: c d surrogate_unat, arith+)
qed

lemma scalar_unat: "scalar cp \<longleftrightarrow> unat cp < 55296 \<or> 57343 < unat cp \<and> unat cp \<le> 1114111"
  by (simp add: scalar_def word_le_nat_alt word_less_nat_alt)

lemma scalar_bound: "scalar cp \<Longrightarrow> unat cp < 2097152"
  by (auto simp: scalar_unat)

lemma scalar_node_codepoints: "list_all scalar (node_codepoints s)"
proof (induction s rule: node_codepoints.induct)
  case (2 c r)
  have "scalar (ucast c)" if "\<not> surrogate c"
    using that unat_unit_less [of c] by (auto simp: scalar_unat surrogate_unat)
  moreover have "scalar 65533" by (simp add: scalar_def)
  moreover have "scalar (pair_codepoint c d)" if "surrogate c" "\<not> low_surrogate c" "low_surrogate d" for d
    using that pair_codepoint_unat [OF that] by (auto simp: scalar_unat surrogate_unat)
  ultimately show ?case using 2 by (auto split: list.splits)
qed simp

lemma wf16_surrogateE:
  assumes "wf16 (c # r)" "surrogate c"
  obtains d r' where "r = d # r'" "low_surrogate d" "wf16 r'" "\<not> low_surrogate c"
  using assms by (auto split: list.splits)

lemma UTF16toUTF8_wf: "wf16 s \<Longrightarrow> UTF16toUTF8 None s = Some (node_codepoints s)"
proof (induction s rule: wf16.induct)
  case 1
  show ?case by (simp add: UTF16toUTF8.simps)
next
  case (2 c r)
  show ?case
  proof (cases "surrogate c")
    case False
    with 2 show ?thesis by (subst UTF16toUTF8.simps) simp
  next
    case True
    with "2.prems" obtain d r' where "r = d # r'" "low_surrogate d" "wf16 r'" "\<not> low_surrogate c"
      by (rule wf16_surrogateE)
    with 2 True show ?thesis by (subst UTF16toUTF8.simps) simp
  qed
qed

lemma UTF8toUTF16_pair:
  assumes "surrogate c" "\<not> low_surrogate c" "low_surrogate d"
  shows "UTF8toUTF16 (pair_codepoint c d) = [c, d]"
proof -
  let ?p = "pair_codepoint c d" and ?x = "unat c - 55296" and ?y = "unat d - 56320"
  have u: "unat ?p = 1024 * ?x + ?y + 65536" by (rule pair_codepoint_unat [OF assms])
  have b: "?x < 1024" "?y < 1024" using assms by (auto simp: surrogate_unat)
  have s: "unat (?p - 65536) = 1024 * ?x + ?y"
    by (subst unat_sub) (simp_all add: word_le_nat_alt u)
  have q: "unat (drop_bit 10 (?p - 65536)) = ?x" using b by (simp add: unat_drop_bit s del: drop_bit_eq_div)
  have r: "unat ((?p - 65536) mod 1024) = ?y" using b by (simp add: unat_mod s)
  have 1: "unat (55296 + drop_bit 10 (?p - 65536)) = 55296 + ?x"
    using b by (subst unat_add_lem [THEN iffD1]) (simp_all add: q del: drop_bit_eq_div)
  have 2: "unat ((?p - 65536) mod 1024 + 56320) = ?y + 56320"
    using b by (subst unat_add_lem [THEN iffD1]) (simp_all add: r)
  have "ucast (55296 + drop_bit 10 (?p - 65536)) = c" "ucast ((?p - 65536) mod 1024 + 56320) = d"
    using b assms unat_unit_less [of c] by (simp_all only: word_unat_eq_iff unat_ucast_mod 1 2) (auto simp: surrogate_unat)
  moreover have "\<not> ?p \<le> 65535" by (simp add: word_le_nat_alt u)
  ultimately show ?thesis by (simp add: UTF8toUTF16_def)
qed

lemma UTF8toUTF16_unit: "UTF8toUTF16 (ucast c) = [c]"
  using unat_unit_less [of c]
  by (auto simp: UTF8toUTF16_def word_le_nat_alt word_unat_eq_iff unat_ucast_mod)

lemma UTF8toUTF16_codepoints: "wf16 s \<Longrightarrow> concat (map UTF8toUTF16 (node_codepoints s)) = s"
proof (induction s rule: wf16.induct)
  case (2 c r)
  show ?case
  proof (cases "surrogate c")
    case False
    with 2 show ?thesis by (simp add: UTF8toUTF16_unit)
  next
    case True
    with "2.prems" obtain d r' where "r = d # r'" "low_surrogate d" "wf16 r'" "\<not> low_surrogate c"
      by (rule wf16_surrogateE)
    with 2 True show ?thesis by (simp add: UTF8toUTF16_pair)
  qed
qed simp

lemma decodeUTF8_encode_all:
  "list_all scalar cs \<Longrightarrow> decodeUTF8 (concat (map encodeUTF8 cs)) = Inr cs"
  by (induction cs) (simp_all add: decodeUTF8_encodeUTF8_append scalar_bound)

lemma encodeUTF16toUTF8_wf: "wf16 s \<Longrightarrow> encodeUTF16toUTF8 s = Some (node_encode s)"
  by (simp add: encodeUTF16toUTF8_def UTF16toUTF8_wf node_encode_def)

lemma decodeUTF8toUTF16_encode: "wf16 s \<Longrightarrow> decodeUTF8toUTF16 (node_encode s) = Inr s"
  by (simp add: decodeUTF8toUTF16_def node_encode_def decodeUTF8_encode_all scalar_node_codepoints UTF8toUTF16_codepoints)

lemma length_encodeUTF8: "length (encodeUTF8 cp) = calculateCodePoint cp"
  by (simp add: encodeUTF8_def calculateCodePoint_def)

lemma calculateUTF16asUTF8_eq: "calculateUTF16asUTF8 s = map_option length (encodeUTF16toUTF8 s)"
  by (simp add: calculateUTF16asUTF8_def encodeUTF16toUTF8_def option.map_comp comp_def length_concat length_encodeUTF8)

lemma UTF16toUTF8_stuck_aux:
  assumes ret: "UTF16toUTF8 c2 s = Some cs"
  shows "c2 = Some d \<longrightarrow> surrogate d"
proof (rule UTF16toUTF8.raw_induct [where P = "\<lambda>c2 s cs. c2 = Some d \<longrightarrow> surrogate d", OF _ ret])
  fix f :: "code_unit option \<Rightarrow> jsstring \<Rightarrow> codepoint list option" and c2 src cs
  assume "\<And>c2 src cs. f c2 src = Some cs \<Longrightarrow> c2 = Some d \<longrightarrow> surrogate d"
  then have "f (Some d) src' = Some cs' \<Longrightarrow> surrogate d" for src' cs' by blast
  moreover assume "(case (case c2 of Some c \<Rightarrow> Some (c, src)
            | None \<Rightarrow> (case src of [] \<Rightarrow> None | c # r \<Rightarrow> Some (c, r))) of
        None \<Rightarrow> Some []
      | Some (c1, r) \<Rightarrow>
          (if surrogate c1 then
             (case r of
                [] \<Rightarrow> Option.bind (f None []) (\<lambda>cs. Some (ucast c1 # cs))
              | d # r' \<Rightarrow>
                  (if low_surrogate d
                   then Option.bind (f None r') (\<lambda>cs. Some (pair_codepoint c1 d # cs))
                   else Option.bind (f (Some d) r') (\<lambda>cs. Some (ucast c1 # cs))))
           else Option.bind (f c2 r) (\<lambda>cs. Some (ucast c1 # cs)))) = Some cs"
  ultimately show "c2 = Some d \<longrightarrow> surrogate d" by (auto simp: bind_eq_Some_conv split: if_splits)
qed

lemma UTF16toUTF8_stuck: "\<not> surrogate d \<Longrightarrow> UTF16toUTF8 (Some d) s = None"
  using UTF16toUTF8_stuck_aux [of "Some d" s _ d] by (cases "UTF16toUTF8 (Some d) s") auto

lemma encodeUTF16toUTF8_hangs:
  "surrogate c \<Longrightarrow> \<not> surrogate d \<Longrightarrow> encodeUTF16toUTF8 (c # d # s) = None"
  unfolding encodeUTF16toUTF8_def
  by (subst UTF16toUTF8.simps) (auto simp: UTF16toUTF8_stuck surrogate_unat)

section \<open>Node's decoder\<close>

lemma byte_le_unat: "(a :: byte) \<le> b \<longleftrightarrow> unat a \<le> unat b" "(a :: byte) < b \<longleftrightarrow> unat a < unat b"
  by (simp_all add: word_le_nat_alt word_less_nat_alt)

lemma second_byte_ok_3:
  assumes "2048 \<le> u" "u < 65536" "u < 55296 \<or> 57343 < u"
    and "unat a = 224 + u div 4096" "unat b = 128 + u div 64 mod 64"
  shows "second_byte_ok a b"
proof -
  have e: "u div 4096 = u div 64 div 64" by (simp add: div_mult2_eq [symmetric])
  let ?q = "u div 64"
  have q: "32 \<le> ?q" "?q < 1024" "?q < 864 \<or> 896 \<le> ?q" using assms(1-3) by auto
  obtain k r where k: "?q div 64 = k" "?q mod 64 = r" "?q = 64 * k + r" "r < 64"
    using mult_div_mod_eq [of 64 ?q] mod_less_divisor [of 64 ?q] by (metis zero_less_numeral)
  with q have "k = 0 \<Longrightarrow> 32 \<le> r" "k = 13 \<Longrightarrow> r < 32" "k < 16" by linarith+
  then show ?thesis using assms(4,5) k(4) unfolding e k(1,2)
    by (auto simp: second_byte_ok_def cont_byte_def byte_le_unat word_unat_eq_iff)
qed

lemma second_byte_ok_4:
  assumes "65536 \<le> u" "u \<le> 1114111"
    and "unat a = 240 + u div 262144" "unat b = 128 + u div 4096 mod 64"
  shows "second_byte_ok a b"
proof -
  have e: "u div 262144 = u div 4096 div 64" by (simp add: div_mult2_eq [symmetric])
  let ?q = "u div 4096"
  have q: "16 \<le> ?q" "?q < 272" using assms(1,2) by auto
  obtain k r where k: "?q div 64 = k" "?q mod 64 = r" "?q = 64 * k + r" "r < 64"
    using mult_div_mod_eq [of 64 ?q] mod_less_divisor [of 64 ?q] by (metis zero_less_numeral)
  with q have "k = 0 \<Longrightarrow> 16 \<le> r" "k = 4 \<Longrightarrow> r < 16" "k \<le> 4" by linarith+
  then show ?thesis using assms(3,4) k(4) unfolding e k(1,2)
    by (auto simp: second_byte_ok_def cont_byte_def byte_le_unat word_unat_eq_iff)
qed

lemma cont_byte_mod [simp]: "unat b = 128 + u mod 64 \<Longrightarrow> cont_byte b"
  using mod_less_divisor [of 64 u] by (simp add: cont_byte_def byte_le_unat)

lemma node_decode_encodeUTF8:
  assumes "scalar cp"
  shows "node_decode_codepoints (encodeUTF8 cp @ r) = cp # node_decode_codepoints r"
  using scalar_bound [OF assms]
proof (cases rule: encodeUTF8_cases)
  case (1 a)
  then have "ucast a = cp" by (simp add: word_unat_eq_iff)
  with 1 show ?thesis by (simp add: byte_le_unat)
next
  case (2 a b)
  then have "push_bit 6 (31 AND ucast a) OR (63 AND ucast b) = cp"
    by (simp only: word_unat_eq_iff unat_join2) (simp add: mod_add_base radix_64 div_less_iff_less_mult)
  with 2 show ?thesis by (simp add: byte_le_unat cont_byte_mod [where u = "unat cp"] less_eq_div_iff_mult_less_eq div_less_iff_less_mult)
next
  case (3 a b c)
  then have "push_bit 12 (15 AND ucast a) OR push_bit 6 (63 AND ucast b) OR (63 AND ucast c) = cp"
    by (simp only: word_unat_eq_iff unat_join3) (simp add: mod_add_base radix_64 div_less_iff_less_mult)
  moreover have "second_byte_ok a b" using 3 assms by (intro second_byte_ok_3) (auto simp: scalar_unat)
  ultimately show ?thesis using 3 by (simp add: byte_le_unat cont_byte_mod [where u = "unat cp"] less_eq_div_iff_mult_less_eq div_less_iff_less_mult)
next
  case (4 a b c d)
  with assms have "push_bit 18 (7 AND ucast a) OR push_bit 12 (63 AND ucast b) OR push_bit 6 (63 AND ucast c)
      OR (63 AND ucast d) = cp"
    by (simp only: word_unat_eq_iff unat_join4) (simp add: mod_add_base radix_64 div_less_iff_less_mult scalar_unat)
  moreover have "second_byte_ok a b" using 4 assms by (intro second_byte_ok_4) (auto simp: scalar_unat)
  moreover have "unat cp div 262144 \<le> 4" using assms by (auto simp: scalar_unat)
  ultimately show ?thesis using 4 by (simp add: byte_le_unat) 
qed

lemma node_decode_encode: "wf16 s \<Longrightarrow> node_decode (node_encode s) = s"
proof -
  have "list_all scalar cs \<Longrightarrow> node_decode_codepoints (concat (map encodeUTF8 cs)) = cs" for cs
    by (induction cs) (simp_all add: node_decode_encodeUTF8)
  moreover assume "wf16 s"
  ultimately show ?thesis
    by (simp add: node_decode_def node_encode_def scalar_node_codepoints UTF8toUTF16_codepoints)
qed

lemma wf16_ascii: "list_all (\<lambda>c. c < 128) s \<Longrightarrow> wf16 s"
  by (induction s) (auto simp: surrogate_unat word_less_nat_alt)

lemma node_codepoints_ascii: "list_all (\<lambda>c. c < 128) s \<Longrightarrow> node_codepoints s = map ucast s"
  by (induction s) (auto simp: surrogate_unat word_less_nat_alt)

lemma node_encode_ascii: "list_all (\<lambda>c. c < 128) s \<Longrightarrow> node_encode s = map ucast s"
proof -
  have "encodeUTF8 (ucast c) = [ucast c]" if "c < 128" for c :: code_unit
  proof -
    have "unat (127 AND ucast c :: codepoint) = unat c"
      using that by (simp add: word_less_nat_alt)
    then have "ucast (127 AND ucast c :: codepoint) = (ucast c :: byte)"
      by (simp add: word_unat_eq_iff unat_ucast_mod)
    then show ?thesis using that by (simp add: encodeUTF8_def word_less_nat_alt)
  qed
  moreover assume "list_all (\<lambda>c. c < 128) s"
  ultimately show ?thesis
    by (simp add: node_encode_def node_codepoints_ascii list_all_iff) (induction s; simp)
qed

end
