(* ===== verification/JSLib.thy ===== *)
theory JSLib
  imports JSValue
begin

text \<open>
  What the library uses of the language's standard library: the number coercion of the relational
  operators, \<open>JSON.parse\<close> where only the truth value of the result is used, and the ISO
  representation of dates. The comparisons are those of IEEE doubles, the calendar is the one
  of the language specification, and printing a date and reading it back is proved to be the
  identity.
\<close>

section \<open>Number coercion\<close>

text \<open>
  \<open>Number(s)\<close>, the coercion a relational operator applies to a string operand. \<open>Dec m e\<close> is the
  decimal literal \<open>m * 10 ^ e\<close>, before it is rounded to a double.
\<close>

datatype numeric = NumNaN | Inf bool | Dec int int

definition radix_digit :: "nat \<Rightarrow> code_unit \<Rightarrow> nat option" where
  "radix_digit r c =
     (case hex_digit_val c of Some d \<Rightarrow> if d < r then Some d else None | None \<Rightarrow> None)"

definition parse_radix :: "nat \<Rightarrow> jsstring \<Rightarrow> numeric" where
  "parse_radix r s =
     (if s \<noteq> [] \<and> list_all (\<lambda>c. radix_digit r c \<noteq> None) s
      then Dec (int (foldl (\<lambda>a c. r * a + the (radix_digit r c)) 0 s)) 0 else NumNaN)"

definition parse_exponent :: "jsstring \<Rightarrow> int option" where
  "parse_exponent s =
     (case s of [] \<Rightarrow> Some 0
      | c # r \<Rightarrow>
          if c = 101 \<or> c = 69
          then (let (sg, d) = parse_sign r
                in if d \<noteq> [] \<and> list_all is_digit d then Some (sg * int (digits_val d)) else None)
          else None)"

definition parse_decimal :: "int \<Rightarrow> jsstring \<Rightarrow> numeric" where
  "parse_decimal sg s =
     (let w = takeWhile is_digit s; r = dropWhile is_digit s;
          f = (if take 1 r = [46] then takeWhile is_digit (drop 1 r) else []);
          r' = (if take 1 r = [46] then dropWhile is_digit (drop 1 r) else r)
      in if w = [] \<and> f = [] then NumNaN
         else (case parse_exponent r' of None \<Rightarrow> NumNaN
               | Some e \<Rightarrow> Dec (sg * int (digits_val (w @ f))) (e - int (length f))))"

definition js_Number :: "jsstring \<Rightarrow> numeric" where
  "js_Number s0 =
     (let s = js_trim s0; p = take 2 s
      in if s = [] then Dec 0 0
         else if p = js ''0x'' \<or> p = js ''0X'' then parse_radix 16 (drop 2 s)
         else if p = js ''0o'' \<or> p = js ''0O'' then parse_radix 8 (drop 2 s)
         else if p = js ''0b'' \<or> p = js ''0B'' then parse_radix 2 (drop 2 s)
         else (let (sg, r) = parse_sign s
               in if r = js ''Infinity'' then Inf (sg < 0) else parse_decimal sg r))"

text \<open>
  \<open>Number(s) > k\<close> for an integer \<open>0 \<le> k < 2 ^ 53\<close>. The double nearest to a decimal above \<open>k\<close> is
  \<open>k\<close> itself when the decimal is within half a unit in the last place of \<open>k\<close>; a tie goes to the
  even mantissa, which is \<open>k\<close> unless \<open>k\<close> is odd and has 53 bits.
\<close>

fun bit_length :: "nat \<Rightarrow> nat" where
  "bit_length n = (if n = 0 then 0 else Suc (bit_length (n div 2)))"

declare bit_length.simps [simp del]

definition above :: "int \<Rightarrow> nat \<Rightarrow> int \<Rightarrow> bool" where
  "above m d k =
     (let p = 10 ^ d; x = (m - k * p); l = bit_length (nat k)
      in if k = 0 then x * 2 ^ 1075 > p
         else if l = 53 \<and> odd k then x * 2 \<ge> p
         else x * 2 ^ 54 > 2 ^ l * p)"

fun numeric_gt :: "numeric \<Rightarrow> int \<Rightarrow> bool" where
  "numeric_gt NumNaN k = False"
| "numeric_gt (Inf neg) k = (\<not> neg)"
| "numeric_gt (Dec m e) k = (if 0 \<le> e then m * 10 ^ nat e > k else above m (nat (- e)) k)"

text \<open>\<open>Number(s) < k\<close> for an integer \<open>- 2 ^ 53 < k \<le> 0\<close>, by symmetry.\<close>

fun numeric_neg :: "numeric \<Rightarrow> numeric" where
  "numeric_neg NumNaN = NumNaN"
| "numeric_neg (Inf neg) = Inf (\<not> neg)"
| "numeric_neg (Dec m e) = Dec (- m) e"

definition numeric_lt :: "numeric \<Rightarrow> int \<Rightarrow> bool" where
  "numeric_lt x k = numeric_gt (numeric_neg x) (- k)"

text \<open>Decimal numerals are read as the integer they denote.\<close>

lemma digit_not_ws: "is_digit c \<Longrightarrow> \<not> is_ws c"
  by (auto simp: is_digit_iff is_ws_def word_le_nat_alt)

lemma digit_not_sign: "is_digit c \<Longrightarrow> c \<noteq> 45 \<and> c \<noteq> 43"
  by (auto simp: is_digit_iff)

lemma takeWhile_all [simp]: "list_all P s \<Longrightarrow> takeWhile P s = s"
  by (induction s) auto

lemma dropWhile_all [simp]: "list_all P s \<Longrightarrow> dropWhile P s = []"
  by (induction s) auto

lemma js_trim_no_ws: "list_all (\<lambda>c. \<not> is_ws c) s \<Longrightarrow> js_trim s = s"
proof -
  have d: "list_all (\<lambda>c. \<not> is_ws c) t \<Longrightarrow> dropWhile is_ws t = t" for t
    by (cases t) auto
  assume "list_all (\<lambda>c. \<not> is_ws c) s"
  with d [of s] d [of "rev s"] show ?thesis by (simp add: js_trim_def)
qed

lemma js_trim_digits: "list_all is_digit s \<Longrightarrow> js_trim s = s"
  by (rule js_trim_no_ws) (auto simp: list_all_iff dest: digit_not_ws)

lemma parse_sign_digits: "list_all is_digit s \<Longrightarrow> parse_sign s = (1, s)"
  by (cases s) (auto simp: parse_sign_def digit_not_sign)

lemma js_Number_digits:
  assumes "list_all is_digit s" "s \<noteq> []"
  shows "js_Number s = Dec (int (digits_val s)) 0"
proof -
  have p: "take 2 s \<noteq> [48, c]" if "\<not> is_digit c" for c
    using assms(1) that by (cases s; cases "tl s") auto
  have l: "\<not> is_digit 120" "\<not> is_digit 88" "\<not> is_digit 111" "\<not> is_digit 79" "\<not> is_digit 98" "\<not> is_digit 66"
    by (simp_all add: is_digit_def)
  have "s \<noteq> js ''Infinity''" using assms by (auto simp: js_def is_digit_def)
  then show ?thesis
    using assms p [OF l(1)] p [OF l(2)] p [OF l(3)] p [OF l(4)] p [OF l(5)] p [OF l(6)]
    by (simp add: js_Number_def js_trim_digits parse_sign_digits parse_decimal_def parse_exponent_def js_def Let_def)
qed

section \<open>JSON.parse\<close>

text \<open>
  A recogniser of JSON text that keeps the truth value of the result: \<open>null\<close>, \<open>false\<close>, zero and
  the empty string are false. The nesting depth is bounded by the length of the text. (A literal
  that underflows to zero, such as \<open>1e-400\<close>, is not rounded.)
\<close>

definition json_ws :: "code_unit \<Rightarrow> bool" where
  "json_ws c \<longleftrightarrow> c = 32 \<or> c = 9 \<or> c = 10 \<or> c = 13"

definition json_skip :: "jsstring \<Rightarrow> jsstring" where
  "json_skip s = dropWhile json_ws s"

text \<open>The text after the opening quote: whether the string is not empty, and the rest.\<close>

fun json_string :: "bool \<Rightarrow> jsstring \<Rightarrow> (bool \<times> jsstring) option" where
  "json_string ne [] = None"
| "json_string ne (c # r) =
     (if c = 34 then Some (ne, r)
      else if c = 92 then
        (case r of
           e # h1 # h2 # h3 # h4 # r' \<Rightarrow>
             (if e = 117 then
                (if list_all (\<lambda>h. hex_digit_val h \<noteq> None) [h1, h2, h3, h4] then json_string True r' else None)
              else if e \<in> {34, 92, 47, 98, 102, 110, 114, 116} then json_string True (h1 # h2 # h3 # h4 # r')
              else None)
         | e # r' \<Rightarrow> (if e \<in> {34, 92, 47, 98, 102, 110, 114, 116} then json_string True r' else None)
         | [] \<Rightarrow> None)
      else if c < 32 then None
      else json_string True r)"

definition json_frac :: "jsstring \<Rightarrow> (bool \<times> jsstring) option" where
  "json_frac s =
     (case s of c # r \<Rightarrow>
          if c = 46 then (let f = takeWhile is_digit r in if f = [] then None else Some (0 < digits_val f, dropWhile is_digit r))
          else Some (False, s)
      | [] \<Rightarrow> Some (False, []))"

definition json_exp :: "jsstring \<Rightarrow> jsstring option" where
  "json_exp s =
     (case s of c # r \<Rightarrow>
          if c = 101 \<or> c = 69
          then (let d = snd (parse_sign r) in if takeWhile is_digit d = [] then None else Some (dropWhile is_digit d))
          else Some s
      | [] \<Rightarrow> Some [])"

definition json_number :: "jsstring \<Rightarrow> (bool \<times> jsstring) option" where
  "json_number s0 =
     (let s = (if take 1 s0 = [45] then drop 1 s0 else s0);
          w = (if take 1 s = [48] then [48] else takeWhile is_digit s)
      in if w = [] then None
         else Option.bind (json_frac (drop (length w) s)) (\<lambda>(f, r).
              Option.bind (json_exp r) (\<lambda>r'. Some (0 < digits_val w \<or> f, r'))))"

datatype json_goal = JsonValue | JsonElements | JsonMembers

primrec json_text :: "nat \<Rightarrow> json_goal \<Rightarrow> jsstring \<Rightarrow> (bool \<times> jsstring) option" where
  "json_text 0 g s = None"
| "json_text (Suc n) g s0 =
     (case g of
        JsonValue \<Rightarrow>
          (case json_skip s0 of [] \<Rightarrow> None
           | c # r \<Rightarrow>
               (if starts_with (js ''true'') (c # r) then Some (True, drop 3 r)
                else if starts_with (js ''false'') (c # r) then Some (False, drop 4 r)
                else if starts_with (js ''null'') (c # r) then Some (False, drop 3 r)
                else if c = 34 then json_string False r
                else if c = 91 then
                  (if take 1 (json_skip r) = [93] then Some (True, drop 1 (json_skip r))
                   else json_text n JsonElements r)
                else if c = 123 then
                  (if take 1 (json_skip r) = [125] then Some (True, drop 1 (json_skip r))
                   else json_text n JsonMembers r)
                else json_number (c # r)))
      | JsonElements \<Rightarrow>
          Option.bind (json_text n JsonValue s0) (\<lambda>(_, r).
            (case json_skip r of [] \<Rightarrow> None
             | c # r' \<Rightarrow> if c = 93 then Some (True, r') else if c = 44 then json_text n JsonElements r' else None))
      | JsonMembers \<Rightarrow>
          (case json_skip s0 of [] \<Rightarrow> None
           | c # r \<Rightarrow>
               if c \<noteq> 34 then None
               else Option.bind (json_string False r) (\<lambda>(_, r1).
                 (case json_skip r1 of [] \<Rightarrow> None
                  | d # r2 \<Rightarrow>
                      if d \<noteq> 58 then None
                      else Option.bind (json_text n JsonValue r2) (\<lambda>(_, r3).
                        (case json_skip r3 of [] \<Rightarrow> None
                         | e # r4 \<Rightarrow> if e = 125 then Some (True, r4)
                                     else if e = 44 then json_text n JsonMembers r4 else None))))))"

text \<open>\<open>!!JSON.parse(s)\<close>\<close>

definition JSON_parse_truthy :: "jsstring \<Rightarrow> js_error + bool" where
  "JSON_parse_truthy s =
     (case json_text (Suc (2 * length s)) JsonValue s of
        Some (b, r) \<Rightarrow> if json_skip r = [] then Inr b else Inl SyntaxError
      | None \<Rightarrow> Inl SyntaxError)"

lemma JSON_parse_bool [simp]:
  "JSON_parse_truthy [116, 114, 117, 101] = Inr True"
  "JSON_parse_truthy [102, 97, 108, 115, 101] = Inr False"
  unfolding JSON_parse_truthy_def json_text.simps
  by (simp_all add: js_def starts_with_def json_skip_def json_ws_def)

section \<open>Dates\<close>

text \<open>The calendar of the language specification: days since 1970-01-01, for any year.\<close>

definition leap :: "int \<Rightarrow> bool" where
  "leap y \<longleftrightarrow> (y mod 4 = 0 \<and> y mod 100 \<noteq> 0) \<or> y mod 400 = 0"

definition day_from_year :: "int \<Rightarrow> int" where
  "day_from_year y = 365 * (y - 1970) + (y - 1969) div 4 - (y - 1901) div 100 + (y - 1601) div 400"

lemma div_step: "0 < k \<Longrightarrow> (x + 1) div k = x div k + (if (x + 1) mod k = 0 then 1 else (0::int))"
proof (cases "x mod k + 1 = k")
  assume k: "0 < k"
  have e: "k * (x div k) + x mod k = x" by simp
  {
    case True
    then have x: "x + 1 = k * (x div k + 1)" using e unfolding distrib_left mult_1_right by linarith
    show ?thesis unfolding x using k by simp
  next
    case False
    then have r: "0 \<le> x mod k + 1" "x mod k + 1 < k"
      using k pos_mod_bound [OF k, of x] pos_mod_sign [OF k, of x] by linarith+
    have x: "x + 1 = k * (x div k) + (x mod k + 1)" using e by linarith
    have "(x + 1) div k = x div k" by (rule int_div_pos_eq [OF x r])
    moreover have "(x + 1) mod k = x mod k + 1" by (rule int_mod_pos_eq [OF x r])
    ultimately show ?thesis using pos_mod_sign [OF k, of x] by simp
  }
qed

lemma mod_shift: "(y - k * c) mod k = y mod (k::int)"
  using mod_mult_self2 [of y k "- c"] by simp

lemma leap_count:
  "(R \<Longrightarrow> Q) \<Longrightarrow> (Q \<Longrightarrow> P) \<Longrightarrow> (if (P \<and> \<not> Q) \<or> R then 366 else 365) =
     365 + (if P then 1 else 0) - (if Q then 1 else 0) + (if R then 1 else (0::int))"
  by auto

lemma year_sum_step:
  "A' = A + a \<Longrightarrow> B' = B + b \<Longrightarrow> C' = C + c \<Longrightarrow> l = 365 + a - b + c \<Longrightarrow>
     365 * (Y + 1) + A' - B' + C' = (365 * Y + A - B + C) + (l::int)"
  by (simp add: algebra_simps)

lemma day_from_year_Suc: "day_from_year (y + 1) = day_from_year y + (if leap y then 366 else 365)"
proof -
  have s: "y + 1 - 1970 = y - 1970 + 1" "y + 1 - 1969 = y - 1969 + 1" "y + 1 - 1901 = y - 1901 + 1"
      "y + 1 - 1601 = y - 1601 + 1" by simp_all
  have m: "(y - 1969 + 1) mod 4 = y mod 4" "(y - 1901 + 1) mod 100 = y mod 100" "(y - 1601 + 1) mod 400 = y mod 400"
    using mod_shift [of y 4 492] mod_shift [of y 100 19] mod_shift [of y 400 4] by simp_all
  have d: "y mod 100 = 0" if "y mod 400 = 0"
    using that mod_mod_cancel [of 100 400 y] by simp
  have e: "y mod 4 = 0" if "y mod 100 = 0"
    using that mod_mod_cancel [of 4 100 y] by simp
  show ?thesis
    unfolding day_from_year_def leap_def s
    by (rule year_sum_step [OF div_step [of 4 "y - 1969", unfolded m]
          div_step [of 100 "y - 1901", unfolded m]
          div_step [of 400 "y - 1601", unfolded m] leap_count])
      (rule zero_less_numeral | rule d, assumption | rule e, assumption)+
qed

text \<open>The year of a day: the greatest year that starts at or before it.\<close>

function year_search :: "int \<Rightarrow> int \<Rightarrow> int" where
  "year_search d y = (if day_from_year (y + 1) \<le> d then year_search d (y + 1) else y)"
  by pat_completeness auto
termination
  by (relation "measure (\<lambda>(d, y). nat (d - day_from_year y))") (auto simp: day_from_year_Suc split: if_splits)

declare year_search.simps [simp del]

definition year_of_day :: "int \<Rightarrow> int" where
  "year_of_day d = year_search d (1970 + (if 0 \<le> d then d div 366 else d div 365))"

definition month_starts :: "bool \<Rightarrow> int list" where
  "month_starts l =
     (if l then [0, 31, 60, 91, 121, 152, 182, 213, 244, 274, 305, 335]
      else [0, 31, 59, 90, 120, 151, 181, 212, 243, 273, 304, 334])"

definition month_length :: "bool \<Rightarrow> nat \<Rightarrow> int" where
  "month_length l m = (month_starts l @ [if l then 366 else 365]) ! Suc m - month_starts l ! m"

text \<open>The month, counted from zero, of a day of the year.\<close>

definition month_of :: "bool \<Rightarrow> int \<Rightarrow> nat" where
  "month_of l doy = length (takeWhile (\<lambda>s. s \<le> doy) (month_starts l)) - 1"

definition digits_padded :: "nat \<Rightarrow> nat \<Rightarrow> jsstring" where
  "digits_padded k n = replicate (k - length (dec_nat n)) 48 @ dec_nat n"

definition year_text :: "int \<Rightarrow> jsstring" where
  "year_text y =
     (if 0 \<le> y \<and> y \<le> 9999 then digits_padded 4 (nat y)
      else (if y < 0 then 45 else 43) # digits_padded 6 (nat \<bar>y\<bar>))"

text \<open>\<open>date.toISOString().split(".")[0]\<close>: the text up to the seconds.\<close>

definition iso_seconds :: "int \<Rightarrow> jsstring" where
  "iso_seconds t =
     (let d = t div 86400; s = t mod 86400; y = year_of_day d;
          doy = d - day_from_year y; m = month_of (leap y) doy
      in year_text y @ [45] @ digits_padded 2 (m + 1) @ [45] @
         digits_padded 2 (nat (doy - month_starts (leap y) ! m) + 1) @ [84] @
         digits_padded 2 (nat (s div 3600)) @ [58] @ digits_padded 2 (nat (s div 60 mod 60)) @ [58] @
         digits_padded 2 (nat (s mod 60)))"

text \<open>
  The date-time format \<open>YYYY-MM-DDTHH:mm:ssZ\<close>, with its range checks, in seconds; every other
  text goes to the engine's own rules (\<open>date_parse_other\<close>).
\<close>

definition two :: "jsstring \<Rightarrow> nat \<Rightarrow> nat" where
  "two s i = digits_val (take 2 (drop i s))"

definition iso_shape :: "jsstring \<Rightarrow> bool" where
  "iso_shape s \<longleftrightarrow> length s = 20 \<and>
     list_all (\<lambda>i. is_digit (s ! i)) [0, 1, 2, 3, 5, 6, 8, 9, 11, 12, 14, 15, 17, 18] \<and>
     s ! 4 = 45 \<and> s ! 7 = 45 \<and> s ! 10 = 84 \<and> s ! 13 = 58 \<and> s ! 16 = 58 \<and> s ! 19 = 90"

definition parse_iso :: "jsstring \<Rightarrow> int option" where
  "parse_iso s =
     (if \<not> iso_shape s then None
      else (let y = int (digits_val (take 4 s)); mo = two s 5; dd = two s 8;
                h = two s 11; mi = two s 14; sec = two s 17
            in if 1 \<le> mo \<and> mo \<le> 12 \<and> 1 \<le> dd \<and> int dd \<le> month_length (leap y) (mo - 1)
                  \<and> h < 24 \<and> mi < 60 \<and> sec < 60
               then Some ((day_from_year y + month_starts (leap y) ! (mo - 1) + int dd - 1) * 86400
                          + int h * 3600 + int mi * 60 + int sec)
               else None))"

text \<open>\<open>new Date(s).getTime()\<close>, \<^term>\<open>None\<close> for \<open>NaN\<close>.\<close>

definition date_getTime :: "env \<Rightarrow> jsstring \<Rightarrow> int option" where
  "date_getTime E s =
     (case parse_iso s of Some t \<Rightarrow> Some (t * 1000) | None \<Rightarrow> date_parse_other E s)"

section \<open>Printed dates are read back\<close>

lemma year_search_bounds:
  "day_from_year y \<le> d \<Longrightarrow>
     day_from_year (year_search d y) \<le> d \<and> d < day_from_year (year_search d y + 1) \<and> y \<le> year_search d y"
proof (induction d y rule: year_search.induct)
  case (1 d y)
  show ?case
  proof (cases "day_from_year (y + 1) \<le> d")
    case True
    with 1 show ?thesis by (simp add: year_search.simps [of d y])
  next
    case False
    with 1 show ?thesis by (simp add: year_search.simps [of d y])
  qed
qed

lemma day_from_year_mono: "day_from_year y \<le> day_from_year (y + int n)"
proof (induction n)
  case (Suc n)
  have "day_from_year (y + int n) \<le> day_from_year (y + int n + 1)" by (simp add: day_from_year_Suc)
  with Suc show ?case by (simp add: algebra_simps)
qed simp

lemma day_from_year_le: "y \<le> z \<Longrightarrow> day_from_year y \<le> day_from_year z"
  using day_from_year_mono [of y "nat (z - y)"] by simp

lemma day_from_year_upper: "day_from_year (1970 + int n) \<le> 366 * int n"
proof (induction n)
  case 0
  show ?case by (simp add: day_from_year_def)
next
  case (Suc n)
  have "day_from_year (1970 + int n + 1) \<le> day_from_year (1970 + int n) + 366"
    by (subst day_from_year_Suc) simp
  with Suc show ?case by (simp add: algebra_simps)
qed

lemma year_of_day_bounds:
  assumes "0 \<le> d" "d < 2932897"
  shows "day_from_year (year_of_day d) \<le> d" "d < day_from_year (year_of_day d + 1)"
    "1970 \<le> year_of_day d" "year_of_day d \<le> 9999"
proof -
  let ?s = "1970 + d div 366"
  have "day_from_year ?s \<le> 366 * (d div 366)"
    using day_from_year_upper [of "nat (d div 366)"] assms by (simp add: pos_imp_zdiv_nonneg_iff)
  also have "\<dots> \<le> d" using mult_div_mod_eq [of 366 d] pos_mod_sign [of 366 d] by linarith
  finally have s: "day_from_year ?s \<le> d" .
  from year_search_bounds [OF s] assms(1)
  show b: "day_from_year (year_of_day d) \<le> d" "d < day_from_year (year_of_day d + 1)" "1970 \<le> year_of_day d"
    by (auto simp: year_of_day_def pos_imp_zdiv_nonneg_iff intro: order.trans [rotated])
  show "year_of_day d \<le> 9999"
  proof (rule ccontr)
    assume "\<not> ?thesis"
    then have "day_from_year 10000 \<le> day_from_year (year_of_day d)" by (intro day_from_year_le) simp
    moreover have "day_from_year 10000 = 2932897" by (simp add: day_from_year_def)
    ultimately show False using b assms by linarith
  qed
qed

lemma length_digits_padded: "n < 10 ^ k \<Longrightarrow> 0 < k \<Longrightarrow> length (digits_padded k n) = k"
  using length_dec_nat [of n k] by (simp add: digits_padded_def)

lemma digits_padded_digits: "list_all is_digit (digits_padded k n)"
proof -
  have "list_all is_digit (replicate m 48)" for m by (induction m) (simp_all add: is_digit_def)
  then show ?thesis by (simp add: digits_padded_def)
qed

lemma digits_val_padded [simp]: "digits_val (digits_padded k n) = n"
  by (simp add: digits_padded_def digits_val_append)

lemma two_digits: "n < 100 \<Longrightarrow> \<exists>a b. digits_padded 2 n = [a, b] \<and> is_digit a \<and> is_digit b"
proof -
  assume "n < 100"
  then have "length (digits_padded 2 n) = Suc (Suc 0)" using length_digits_padded [of n 2] by simp
  then show ?thesis using digits_padded_digits [of 2 n] by (auto simp: length_Suc_conv)
qed

lemma four_digits:
  "n < 10000 \<Longrightarrow> \<exists>a b c d. digits_padded 4 n = [a, b, c, d] \<and> is_digit a \<and> is_digit b \<and> is_digit c \<and> is_digit d"
proof -
  assume "n < 10000"
  then have "length (digits_padded 4 n) = Suc (Suc (Suc (Suc 0)))" using length_digits_padded [of n 4] by simp
  then show ?thesis using digits_padded_digits [of 4 n] by (auto simp: length_Suc_conv)
qed

lemma takeWhile_le_index:
  fixes xs :: "int list"
  assumes "xs \<noteq> []" "hd xs \<le> x"
  defines "k \<equiv> length (takeWhile (\<lambda>s. s \<le> x) xs) - 1"
  shows "k < length xs" "xs ! k \<le> x" "Suc k < length xs \<Longrightarrow> x < xs ! Suc k"
proof -
  let ?t = "takeWhile (\<lambda>s. s \<le> x) xs"
  have p: "0 < length ?t" using assms(1,2) by (cases xs) auto
  then have k: "Suc k = length ?t" by (simp add: k_def)
  then have "k < length ?t" by simp
  moreover from this have "?t ! k = xs ! k" by (rule takeWhile_nth)
  ultimately show "k < length xs" "xs ! k \<le> x"
    using length_takeWhile_le [of "\<lambda>s. s \<le> x" xs] nth_mem [of k ?t] by (auto dest: set_takeWhileD)
  show "x < xs ! Suc k" if "Suc k < length xs"
    using nth_length_takeWhile [of "\<lambda>s. s \<le> x" xs] that k by simp
qed

lemma month_length_le: "m < 12 \<Longrightarrow> month_length l m \<le> 31"
proof -
  have "list_all (\<lambda>m. month_length l m \<le> 31) [0..<12]"
    by (cases l; simp only:; code_simp)
  then show "m < 12 \<Longrightarrow> ?thesis" by (simp add: list_all_iff)
qed

lemma month_of_bounds:
  assumes "0 \<le> doy" "doy < (if l then 366 else 365)"
  shows "month_of l doy < 12" "month_starts l ! month_of l doy \<le> doy"
    "doy - month_starts l ! month_of l doy < month_length l (month_of l doy)" "month_length l (month_of l doy) \<le> 31"
proof -
  have n: "length (month_starts l) = 12" "month_starts l \<noteq> []" "hd (month_starts l) = 0"
    by (simp_all add: month_starts_def)
  note k = takeWhile_le_index [of "month_starts l" doy, folded month_of_def, OF n(2), unfolded n, OF assms(1)]
  show "month_of l doy < 12" "month_starts l ! month_of l doy \<le> doy" by (rule k)+
  then show "month_length l (month_of l doy) \<le> 31" by (simp add: month_length_le)
  show "doy - month_starts l ! month_of l doy < month_length l (month_of l doy)"
    using k assms(2) n by (cases "Suc (month_of l doy) < 12") (auto simp: month_length_def nth_append)
qed

lemma hms_sum: "60 * a + r = s \<Longrightarrow> 60 * h + mi = a \<Longrightarrow> h * 3600 + mi * 60 + r = (s::int)"
  by simp

text \<open>Reading the printed seconds of any date from 1970 to the end of 9999 gives them back.\<close>

lemma parse_iso_seconds:
  assumes "0 \<le> t" "t < 253402300800"
  shows "parse_iso (iso_seconds t @ [90]) = Some t"
proof -
  define d s y where "d = t div 86400" and "s = t mod 86400" and "y = year_of_day d"
  define doy where "doy = d - day_from_year y"
  define m where "m = month_of (leap y) doy"
  have dt: "d * 86400 + s = t" by (simp add: d_def s_def)
  have s: "0 \<le> s" "s < 86400" by (simp_all add: s_def)
  have d: "0 \<le> d" "d < 2932897" using assms dt s by linarith+
  note y = year_of_day_bounds [OF d, folded y_def]
  have doy: "0 \<le> doy" "doy < (if leap y then 366 else 365)"
    using y day_from_year_Suc [of y] by (auto simp: doy_def)
  note mo = month_of_bounds [OF doy, folded m_def]
  define dd h mi sec where "dd = nat (doy - month_starts (leap y) ! m) + 1" and "h = nat (s div 3600)"
    and "mi = nat (s div 60 mod 60)" and "sec = nat (s mod 60)"
  have dd: "dd < 100" "1 \<le> dd" "int dd \<le> month_length (leap y) m"
    "int dd - 1 = doy - month_starts (leap y) ! m" using mo by (auto simp: dd_def)
  have e: "s div 3600 = s div 60 div 60" by (simp add: zdiv_zmult2_eq [symmetric])
  have h: "h < 24" "mi < 60" "sec < 60" using s by (auto simp: h_def mi_def sec_def nat_less_iff)
  have hms: "int h * 3600 + int mi * 60 + int sec = s"
    using s hms_sum [OF mult_div_mod_eq [of 60 s] mult_div_mod_eq [of 60 "s div 60"]]
    by (simp add: h_def mi_def sec_def e pos_imp_zdiv_nonneg_iff)
  obtain y1 y2 y3 y4 where y4: "digits_padded 4 (nat y) = [y1, y2, y3, y4]" "is_digit y1" "is_digit y2" "is_digit y3" "is_digit y4"
    using four_digits [of "nat y"] y(3,4) by (auto simp: nat_less_iff)
  obtain a1 a2 where a: "digits_padded 2 (m + 1) = [a1, a2]" "is_digit a1" "is_digit a2" using two_digits [of "m + 1"] mo by auto
  obtain b1 b2 where b: "digits_padded 2 dd = [b1, b2]" "is_digit b1" "is_digit b2" using two_digits [of dd] dd by auto
  obtain c1 c2 where c: "digits_padded 2 h = [c1, c2]" "is_digit c1" "is_digit c2" using two_digits [of h] h by auto
  obtain e1 e2 where e': "digits_padded 2 mi = [e1, e2]" "is_digit e1" "is_digit e2" using two_digits [of mi] h by auto
  obtain f1 f2 where f: "digits_padded 2 sec = [f1, f2]" "is_digit f1" "is_digit f2" using two_digits [of sec] h by auto
  have v: "digits_val [y1, y2, y3, y4] = nat y" "digits_val [a1, a2] = m + 1" "digits_val [b1, b2] = dd"
    "digits_val [c1, c2] = h" "digits_val [e1, e2] = mi" "digits_val [f1, f2] = sec"
    by (metis digits_val_padded y4(1) a(1) b(1) c(1) e'(1) f(1))+
  have iso: "iso_seconds t @ [90] = [y1, y2, y3, y4, 45, a1, a2, 45, b1, b2, 84, c1, c2, 58, e1, e2, 58, f1, f2, 90]"
    using y y4 a b [unfolded dd_def] c e' f
    by (simp add: iso_seconds_def Let_def year_text_def d_def [symmetric] s_def [symmetric] y_def [symmetric]
        doy_def [symmetric] m_def [symmetric] h_def [symmetric] mi_def [symmetric] sec_def [symmetric])
  have "parse_iso (iso_seconds t @ [90]) =
      Some ((day_from_year y + month_starts (leap y) ! m + int dd - 1) * 86400 + int h * 3600 + int mi * 60 + int sec)"
    using y4 a b c e' f dd h mo(1) y
    by (simp add: parse_iso_def iso iso_shape_def two_def v Let_def)
  also have "day_from_year y + month_starts (leap y) ! m + int dd - 1 = d" using dd(4) by (simp add: doy_def)
  also have "d * 86400 + int h * 3600 + int mi * 60 + int sec = t" using hms dt by linarith
  finally show ?thesis .
qed

end
