(* ===== verification/Long.thy ===== *)
theory Long
  imports JSLib
begin

text \<open>
  The 64-bit integers of the \<open>long\<close> package that \<open>bytebuffer\<close> exports (bundled in
  \<open>client-libs/dblurt/dist/dblurt.js\<close>): the pair of 32-bit halves is one 64-bit word, and
  addition, multiplication, negation, division and the bitwise operations are those of words.
  \<open>fromString\<close> reads decimal text in chunks of eight digits with wrap-around, \<open>toString\<close> prints in
  chunks of six; both are proved against the plain decimal numeral.
\<close>

section \<open>Definitions\<close>

definition Long_fromNumber :: "int option \<Rightarrow> 64 word" where
  "Long_fromNumber v =
     (case v of
        None \<Rightarrow> 0
      | Some n \<Rightarrow> if n \<le> - (2 ^ 63) then of_int (- (2 ^ 63))
                  else if 2 ^ 63 \<le> n + 1 then of_int (2 ^ 63 - 1)
                  else of_int n)"

function fromString_loop :: "64 word \<Rightarrow> jsstring \<Rightarrow> 64 word" where
  "fromString_loop result s =
     (if s = [] then result
      else (let size = min 8 (length s); value = parseInt10 (take size s)
            in fromString_loop (result * 10 ^ size + Long_fromNumber value) (drop size s)))"
  by pat_completeness auto
termination
  by (relation "measure (\<lambda>(result, s). length s)") auto

declare fromString_loop.simps [simp del]

fun Long_fromString :: "jsstring \<Rightarrow> js_error + 64 word" where
  "Long_fromString [] = Inl EmptyString"
| "Long_fromString (c # r) =
     (if c # r \<in> {js ''NaN'', js ''Infinity'', js ''+Infinity'', js ''-Infinity''} then Inr 0
      else if c = 45 then bindR (Long_fromString r) (\<lambda>w. Inr (- w))
      else if 45 \<in> set r then Inl InteriorHyphen
      else Inr (fromString_loop 0 (c # r)))"

function toString_loop :: "64 word \<Rightarrow> jsstring \<Rightarrow> jsstring" where
  "toString_loop rem result =
     (let remDiv = rem div 1000000; digits = dec_nat (unat (rem - remDiv * 1000000))
      in if remDiv = 0 then digits @ result
         else toString_loop remDiv (replicate (6 - length digits) 48 @ digits @ result))"
  by pat_completeness auto
termination
proof (relation "measure (\<lambda>(w, result). unat w)")
  fix w :: "64 word" and remDiv
  assume "remDiv = w div 1000000" "remDiv \<noteq> 0"
  then have "unat (w div 1000000) \<noteq> 0" by (metis unat_eq_zero)
  then have "unat w div 1000000 \<noteq> 0" by (simp add: unat_div)
  then have "unat w div 1000000 < unat w" by (intro div_less_dividend) auto
  then show "((remDiv, result'), w, result) \<in> measure (\<lambda>(w, result). unat w)" for result result'
    using \<open>remDiv = w div 1000000\<close> by (simp add: unat_div)
qed simp

declare toString_loop.simps [simp del]

definition Long_MIN :: "64 word" where
  "Long_MIN = of_int (- (2 ^ 63))"

definition Long_toString :: "bool \<Rightarrow> 64 word \<Rightarrow> jsstring" where
  "Long_toString uns w =
     (if w = 0 then js ''0''
      else if \<not> uns \<and> sint w < 0 then
        (if w = Long_MIN
         then js ''-'' @ toString_loop (of_int (2 ^ 63 div 10)) [] @ dec_nat 8
         else js ''-'' @ toString_loop (- w) [])
      else toString_loop w [])"

text \<open>\<open>toInt\<close>: the low 32 bits, read as the flag says.\<close>

definition Long_toInt :: "bool \<Rightarrow> 64 word \<Rightarrow> int" where
  "Long_toInt uns w = (if uns then uint (ucast w :: 32 word) else sint (ucast w :: 32 word))"

text \<open>The integer a \<open>Long\<close> stands for.\<close>

definition long_value :: "bool \<Rightarrow> 64 word \<Rightarrow> int" where
  "long_value uns w = (if uns then uint w else sint w)"

section \<open>Reading decimal text\<close>

lemma parseInt10_digits:
  "list_all is_digit s \<Longrightarrow> s \<noteq> [] \<Longrightarrow> parseInt10 s = Some (int (digits_val s))"
  by (cases s) (auto simp: parseInt10_def parse_sign_def parse_digits_def digit_not_ws digit_not_sign)

lemma Long_fromNumber_small: "0 \<le> n \<Longrightarrow> n < 10 ^ 8 \<Longrightarrow> Long_fromNumber (Some n) = of_int n"
  by (simp add: Long_fromNumber_def)

lemma fromString_loop_digits:
  "list_all is_digit s \<Longrightarrow> fromString_loop a s = a * 10 ^ length s + of_nat (digits_val s)"
proof (induction a s rule: fromString_loop.induct)
  case (1 a s)
  show ?case
  proof (cases "s = []")
    case True
    then show ?thesis by (simp add: fromString_loop.simps)
  next
    case False
    define k where "k = min 8 (length s)"
    have k: "0 < k" "k \<le> 8" "k \<le> length s" using False by (auto simp: k_def)
    have d: "list_all is_digit (take k s)" "list_all is_digit (drop k s)"
      using "1.prems" by (auto simp: list_all_iff dest: in_set_takeD in_set_dropD)
    have "digits_val (take k s) < 10 ^ 8"
      using digits_val_less [OF d(1)] power_increasing [OF k(2), of "10 :: nat"] k(3) by simp
    then have "Long_fromNumber (parseInt10 (take k s)) = of_nat (digits_val (take k s))"
      using d(1) k False by (simp add: parseInt10_digits Long_fromNumber_small)
    then have step: "fromString_loop a s =
        fromString_loop (a * 10 ^ k + of_nat (digits_val (take k s))) (drop k s)"
      using False by (simp add: fromString_loop.simps [of a s] Let_def k_def)
    have "fromString_loop (a * 10 ^ k + Long_fromNumber (parseInt10 (take k s))) (drop k s) =
        (a * 10 ^ k + Long_fromNumber (parseInt10 (take k s))) * 10 ^ length (drop k s)
          + of_nat (digits_val (drop k s))"
      using "1.IH" [OF False refl refl] d(2) by (simp add: k_def)
    then have "fromString_loop a s =
        (a * 10 ^ k + of_nat (digits_val (take k s))) * 10 ^ (length s - k) + of_nat (digits_val (drop k s))"
      by (simp add: \<open>Long_fromNumber _ = _\<close> step)
    also have "\<dots> = a * 10 ^ (k + (length s - k))
        + of_nat (digits_val (take k s) * 10 ^ length (drop k s) + digits_val (drop k s))"
      by (simp add: algebra_simps power_add)
    also have "\<dots> = a * 10 ^ length s + of_nat (digits_val (take k s @ drop k s))"
      using k by (simp only: digits_val_append le_add_diff_inverse)
    finally show ?thesis by simp
  qed
qed

lemma Long_fromString_digits:
  assumes "list_all is_digit s" "s \<noteq> []"
  shows "Long_fromString s = Inr (of_nat (digits_val s))"
proof -
  obtain c r where s: "s = c # r" using assms by (cases s) auto
  have "c \<notin> {78, 73, 43, 45}" "45 \<notin> set r"
    using assms s digit_not_sign by (auto simp: is_digit_iff list_all_iff)
  then show ?thesis
    using assms s by (auto simp: js_def fromString_loop_digits)
qed

lemma Long_fromString_dec_nat [simp]: "Long_fromString (dec_nat n) = Inr (of_nat n)"
  by (simp add: Long_fromString_digits)

lemma Long_fromString_dec_int [simp]: "Long_fromString (dec_int i) = Inr (of_int i)"
proof (cases "i < 0")
  case True
  have "hd (dec_nat (nat (- i))) \<noteq> 73"
    using dec_nat_digits [of "nat (- i)"] by (cases "dec_nat (nat (- i))") (auto simp: is_digit_iff)
  then have "45 # dec_nat (nat (- i)) \<notin> {js ''NaN'', js ''Infinity'', js ''+Infinity'', js ''-Infinity''}"
    by (cases "dec_nat (nat (- i))") (auto simp: js_def)
  with True show ?thesis by (simp add: dec_int_def)
qed (simp add: dec_int_def)

section \<open>Printing decimal text\<close>

lemma dec_nat_split:
  assumes "0 < q" "r < 10 ^ k" "0 < k"
  shows "dec_nat (q * 10 ^ k + r) = dec_nat q @ replicate (k - length (dec_nat r)) 48 @ dec_nat r"
proof -
  let ?s = "dec_nat q @ replicate (k - length (dec_nat r)) 48 @ dec_nat r"
  have "length (dec_nat r) \<le> k" by (rule length_dec_nat [OF assms(2,3)])
  then have "digits_val ?s = q * 10 ^ k + r" by (simp add: digits_val_append)
  moreover have "list_all is_digit (replicate n 48)" for n by (induction n) (simp_all add: is_digit_def)
  then have "list_all is_digit ?s" by simp
  moreover have "hd ?s \<noteq> 48" using hd_dec_nat [OF assms(1)] by simp
  ultimately show ?thesis using dec_nat_digits_val [of ?s] by simp
qed

lemma toString_loop_eq: "toString_loop w r = dec_nat (unat w) @ r"
proof (induction w r rule: toString_loop.induct)
  case (1 w r)
  let ?q = "w div 1000000"
  have q: "unat ?q = unat w div 1000000" by (simp add: unat_div)
  have m: "w - ?q * 1000000 = w mod 1000000" by (metis minus_div_mult_eq_mod)
  have d: "unat (w - ?q * 1000000) = unat w mod 1000000" unfolding m by (simp add: unat_mod)
  show ?case
  proof (cases "?q = 0")
    case True
    then have "unat w div 1000000 = 0" using q by simp
    then have "unat w mod 1000000 = unat w" by auto
    with True d show ?thesis by (simp add: toString_loop.simps [of w] Let_def)
  next
    case False
    let ?d = "dec_nat (unat w mod 1000000)"
    have "0 < unat w div 1000000" using False q by (metis gr0I unat_eq_zero)
    then have "dec_nat (unat w) = dec_nat (unat w div 1000000) @ replicate (6 - length ?d) 48 @ ?d"
      using dec_nat_split [of "unat w div 1000000" "unat w mod 1000000" 6] by simp
    moreover have "toString_loop ?q (replicate (6 - length ?d) 48 @ ?d @ r)
        = dec_nat (unat ?q) @ replicate (6 - length ?d) 48 @ ?d @ r"
      using 1 [OF refl refl False] by (simp add: d)
    ultimately show ?thesis using False
      by (simp add: toString_loop.simps [of w] Let_def d q)
  qed
qed

lemma uint_eq_sint: "0 \<le> sint w \<Longrightarrow> uint w = sint w" for w :: "64 word"
proof -
  assume nn: "0 \<le> sint w"
  have "sint w < 2 ^ 63" using sint_less [of w] by simp
  with nn have "take_bit 64 (sint w) = sint w" by (simp add: take_bit_int_eq_self)
  moreover have "uint (of_int (sint w) :: 64 word) = take_bit 64 (sint w)"
    by (subst uint_word_of_int_eq) simp
  ultimately show ?thesis by simp
qed

lemma unat_neg_sint:
  fixes w :: "64 word"
  assumes "sint w < 0"
  shows "unat (- w) = nat (- sint w)"
proof -
  have lb: "- (2 ^ 63) \<le> sint w" using sint_greater_eq [of w] by simp
  have "uint (- w) = uint (of_int (- sint w) :: 64 word)" by simp
  also have "\<dots> = take_bit 64 (- sint w)"
    by (subst uint_word_of_int_eq) simp
  also have "\<dots> = - sint w" using assms lb by (simp add: take_bit_int_eq_self)
  finally show ?thesis by (metis unat_eq_nat_uint)
qed

text \<open>\<open>toString\<close> prints the decimal numeral of the integer the \<open>Long\<close> stands for.\<close>

lemma Long_toString_eq: "Long_toString uns w = dec_int (long_value uns w)"
proof (cases "\<not> uns \<and> sint w < 0")
  case True
  show ?thesis
  proof (cases "w = Long_MIN")
    case True
    then have "sint w = - (2 ^ 63)" by (simp add: Long_MIN_def)
    moreover have "dec_nat 9223372036854775808 = dec_nat 922337203685477580 @ dec_nat 8"
      using dec_nat_split [of 922337203685477580 8 1] by (simp add: dec_nat.simps [of 8])
    ultimately show ?thesis
      using \<open>\<not> uns \<and> sint w < 0\<close> True
      by (auto simp: Long_toString_def toString_loop_eq long_value_def dec_int_def js_def)
  next
    case False
    with True have "w \<noteq> 0" by auto
    with True False show ?thesis
      by (simp add: Long_toString_def toString_loop_eq long_value_def dec_int_def js_def unat_neg_sint)
  qed
next
  case False
  then have v: "0 \<le> long_value uns w" by (auto simp: long_value_def)
  have "nat (long_value uns w) = unat w"
  proof (cases uns)
    case True
    then show ?thesis by (simp add: long_value_def)
  next
    case False
    with v have "0 \<le> sint w" by (simp add: long_value_def)
    then have "uint w = sint w" by (rule uint_eq_sint)
    with False show ?thesis by (simp add: long_value_def unat_eq_nat_uint)
  qed
  with False v show ?thesis
    by (auto simp: Long_toString_def toString_loop_eq dec_int_def js_def)
qed

lemma Long_fromString_toString: "Long_fromString (Long_toString uns w) = Inr w"
  by (simp add: Long_toString_eq long_value_def)

end
