(* ===== verification/ByteBuffer.thy ===== *)
theory ByteBuffer
  imports Utf Long
begin

text \<open>
  The byte buffer of the \<open>bytebuffer\<close> package (bundled in \<open>client-libs/dblurt/dist/dblurt.js\<close>):
  a backing array that is doubled when a write does not fit, a read/write offset and a limit.
  Every write and read the serializer uses is here, with its argument checks. The abstraction is
  the list of bytes before the offset (what has been written) and after it (what is still to be
  read); the locale \<open>codec\<close> states the contract between a write and the matching read, and is
  interpreted for every primitive.

  The growth of the backing array is not bounded here (the real array cannot pass 2 GB).
\<close>

section \<open>The buffer\<close>

record bytebuffer =
  bb_view :: "byte list"
  bb_offset :: nat
  bb_limit :: nat
  bb_littleEndian :: bool

definition ByteBuffer_new :: "nat \<Rightarrow> bool \<Rightarrow> bytebuffer" where
  "ByteBuffer_new capacity le =
     \<lparr>bb_view = replicate capacity 0, bb_offset = 0, bb_limit = capacity, bb_littleEndian = le\<rparr>"

definition DEFAULT_CAPACITY :: nat where
  "DEFAULT_CAPACITY = 16"

definition bb_resize :: "nat \<Rightarrow> bytebuffer \<Rightarrow> bytebuffer" where
  "bb_resize capacity b =
     (if length (bb_view b) < capacity
      then b\<lparr>bb_view := bb_view b @ replicate (capacity - length (bb_view b)) 0\<rparr> else b)"

text \<open>The capacity check every write starts with: room for \<open>n\<close> bytes at the offset.\<close>

definition bb_reserve :: "nat \<Rightarrow> bytebuffer \<Rightarrow> bytebuffer" where
  "bb_reserve n b =
     (let offset = bb_offset b + n; capacity = length (bb_view b)
      in if capacity < offset
         then bb_resize (if capacity * 2 > offset then capacity * 2 else offset) b
         else b)"

definition bb_store :: "nat \<Rightarrow> byte list \<Rightarrow> byte list \<Rightarrow> byte list" where
  "bb_store off bs view = take off view @ bs @ drop (off + length bs) view"

text \<open>A relative write: the range check, the reservation, the stores, the new offset.\<close>

definition bb_write :: "nat \<Rightarrow> byte list \<Rightarrow> bytebuffer \<Rightarrow> js_error + bytebuffer" where
  "bb_write n bs b =
     (if bb_offset b > length (bb_view b) then Inl RangeError
      else (let b' = bb_reserve n b
            in Inr (b'\<lparr>bb_view := bb_store (bb_offset b') bs (bb_view b'),
                       bb_offset := bb_offset b' + length bs\<rparr>)))"

definition bb_advance :: "nat \<Rightarrow> bytebuffer \<Rightarrow> bytebuffer" where
  "bb_advance n b = b\<lparr>bb_offset := bb_offset b + n\<rparr>"

text \<open>A relative read of \<open>n\<close> bytes.\<close>

definition bb_read :: "nat \<Rightarrow> bytebuffer \<Rightarrow> js_error + byte list \<times> bytebuffer" where
  "bb_read n b =
     (if bb_offset b + n > length (bb_view b) then Inl RangeError
      else Inr (take n (drop (bb_offset b) (bb_view b)), bb_advance n b))"

section \<open>Integers\<close>

definition order :: "bool \<Rightarrow> 'a list \<Rightarrow> 'a list" where
  "order le bs = (if le then bs else rev bs)"

definition bytes16 :: "32 word \<Rightarrow> byte list" where
  "bytes16 w = [ucast (255 AND w), ucast (drop_bit 8 (65280 AND w))]"

definition bytes32 :: "32 word \<Rightarrow> byte list" where
  "bytes32 w = [ucast (255 AND w), ucast (drop_bit 8 w AND 255), ucast (drop_bit 16 w AND 255),
                ucast (drop_bit 24 w AND 255)]"

definition bytes64 :: "64 word \<Rightarrow> byte list" where
  "bytes64 w = bytes32 (ucast w) @ bytes32 (ucast (drop_bit 32 w))"

fun word16_of :: "byte list \<Rightarrow> 32 word" where
  "word16_of [b0, b1] = ucast b0 OR push_bit 8 (ucast b1)"
| "word16_of _ = 0"

fun word32_of :: "byte list \<Rightarrow> 32 word" where
  "word32_of [b0, b1, b2, b3] =
     (push_bit 16 (ucast b2) OR push_bit 8 (ucast b1) OR ucast b0) + push_bit 24 (ucast b3)"
| "word32_of _ = 0"

definition word64_of :: "byte list \<Rightarrow> 64 word" where
  "word64_of bs = ucast (word32_of (take 4 bs)) OR push_bit 32 (ucast (word32_of (drop 4 bs)))"

definition writeUint8 :: "bytebuffer \<Rightarrow> jsval \<Rightarrow> js_error + bytebuffer" where
  "writeUint8 b v = (case v of JNum n \<Rightarrow> bb_write 1 [of_int n] b | _ \<Rightarrow> Inl TypeError)"

definition readUint8 :: "bytebuffer \<Rightarrow> js_error + jsval \<times> bytebuffer" where
  "readUint8 b = bindR (bb_read 1 b) (\<lambda>(bs, b'). Inr (JNum (uint (hd bs)), b'))"

definition writeInt16 :: "bytebuffer \<Rightarrow> jsval \<Rightarrow> js_error + bytebuffer" where
  "writeInt16 b v =
     (case v of JNum n \<Rightarrow> bb_write 2 (order (bb_littleEndian b) (bytes16 (of_int n))) b
      | _ \<Rightarrow> Inl TypeError)"

definition readInt16 :: "bytebuffer \<Rightarrow> js_error + jsval \<times> bytebuffer" where
  "readInt16 b =
     bindR (bb_read 2 b) (\<lambda>(bs, b').
       let value = uint (word16_of (order (bb_littleEndian b) bs))
       in Inr (JNum (if 32768 \<le> value then - (65535 - value + 1) else value), b'))"

definition writeUint16 :: "bytebuffer \<Rightarrow> jsval \<Rightarrow> js_error + bytebuffer" where
  "writeUint16 b v =
     (case v of JNum n \<Rightarrow> bb_write 2 (order (bb_littleEndian b) (bytes16 (of_int n))) b
      | _ \<Rightarrow> Inl TypeError)"

definition readUint16 :: "bytebuffer \<Rightarrow> js_error + jsval \<times> bytebuffer" where
  "readUint16 b =
     bindR (bb_read 2 b) (\<lambda>(bs, b').
       Inr (JNum (uint (word16_of (order (bb_littleEndian b) bs))), b'))"

definition writeInt32 :: "bytebuffer \<Rightarrow> jsval \<Rightarrow> js_error + bytebuffer" where
  "writeInt32 b v =
     (case v of JNum n \<Rightarrow> bb_write 4 (order (bb_littleEndian b) (bytes32 (of_int n))) b
      | _ \<Rightarrow> Inl TypeError)"

definition readInt32 :: "bytebuffer \<Rightarrow> js_error + jsval \<times> bytebuffer" where
  "readInt32 b =
     bindR (bb_read 4 b) (\<lambda>(bs, b').
       Inr (JNum (sint (word32_of (order (bb_littleEndian b) bs))), b'))"

definition writeUint32 :: "bytebuffer \<Rightarrow> jsval \<Rightarrow> js_error + bytebuffer" where
  "writeUint32 b v =
     (case v of JNum n \<Rightarrow> bb_write 4 (order (bb_littleEndian b) (bytes32 (of_int n))) b
      | _ \<Rightarrow> Inl TypeError)"

definition readUint32 :: "bytebuffer \<Rightarrow> js_error + jsval \<times> bytebuffer" where
  "readUint32 b =
     bindR (bb_read 4 b) (\<lambda>(bs, b').
       Inr (JNum (uint (word32_of (order (bb_littleEndian b) bs))), b'))"

text \<open>The 64-bit writes accept a number, a decimal string or a \<open>Long\<close>.\<close>

definition long_arg :: "jsval \<Rightarrow> js_error + 64 word" where
  "long_arg v =
     (case v of
        JNum n \<Rightarrow> Inr (Long_fromNumber (Some n))
      | JNaN \<Rightarrow> Inr (Long_fromNumber None)
      | JStr s \<Rightarrow> Long_fromString s
      | JLong _ w \<Rightarrow> Inr w
      | _ \<Rightarrow> Inl TypeError)"

definition writeInt64 :: "bytebuffer \<Rightarrow> jsval \<Rightarrow> js_error + bytebuffer" where
  "writeInt64 b v =
     bindR (long_arg v) (\<lambda>w. bb_write 8 (order (bb_littleEndian b) (bytes64 w)) b)"

definition readInt64 :: "bytebuffer \<Rightarrow> js_error + jsval \<times> bytebuffer" where
  "readInt64 b =
     bindR (bb_read 8 b) (\<lambda>(bs, b').
       Inr (JLong False (word64_of (order (bb_littleEndian b) bs)), b'))"

definition writeUint64 :: "bytebuffer \<Rightarrow> jsval \<Rightarrow> js_error + bytebuffer" where
  "writeUint64 b v =
     bindR (long_arg v) (\<lambda>w. bb_write 8 (order (bb_littleEndian b) (bytes64 w)) b)"

definition readUint64 :: "bytebuffer \<Rightarrow> js_error + jsval \<times> bytebuffer" where
  "readUint64 b =
     bindR (bb_read 8 b) (\<lambda>(bs, b').
       Inr (JLong True (word64_of (order (bb_littleEndian b) bs)), b'))"

section \<open>Variable-length integers and strings\<close>

definition calculateVarint32 :: "32 word \<Rightarrow> nat" where
  "calculateVarint32 w =
     (if w < 128 then 1 else if w < 16384 then 2 else if w < 2097152 then 3
      else if w < 268435456 then 4 else 5)"

function varint32_bytes :: "32 word \<Rightarrow> byte list" where
  "varint32_bytes w =
     (if 128 \<le> w then ucast ((127 AND w) OR 128) # varint32_bytes (drop_bit 7 w) else [ucast w])"
  by pat_completeness auto
termination
proof (relation "measure unat")
  fix w :: "32 word"
  assume "128 \<le> w"
  then have "0 < unat w" by (simp add: word_le_nat_alt)
  then show "(drop_bit 7 w, w) \<in> measure unat"
    by (simp add: unat_drop_bit del: drop_bit_eq_div)
qed simp

declare varint32_bytes.simps [simp del]

definition writeVarint32 :: "bytebuffer \<Rightarrow> jsval \<Rightarrow> js_error + bytebuffer" where
  "writeVarint32 b v =
     (case v of
        JNum n \<Rightarrow> bb_write (calculateVarint32 (of_int n)) (varint32_bytes (of_int n)) b
      | _ \<Rightarrow> Inl TypeError)"

text \<open>
  The reading loop. Reading one past the end yields \<open>undefined\<close>, whose bits are all clear; only
  an offset beyond the limit is an error.
\<close>

definition view_at :: "bytebuffer \<Rightarrow> nat \<Rightarrow> byte" where
  "view_at b i = (if i < length (bb_view b) then bb_view b ! i else 0)"

function varint32_loop :: "bytebuffer \<Rightarrow> nat \<Rightarrow> nat \<Rightarrow> 32 word \<Rightarrow> js_error + 32 word \<times> nat" where
  "varint32_loop b offset c value =
     (if offset > bb_limit b then Inl Truncated
      else (let x = view_at b offset;
                value' = (if c < 5 then value OR push_bit (7 * c) (127 AND ucast x) else value)
            in if 128 AND x \<noteq> 0 then varint32_loop b (Suc offset) (Suc c) value'
               else Inr (value', Suc offset)))"
  by pat_completeness auto
termination
  by (relation "measure (\<lambda>(b, offset, c, value). Suc (bb_limit b) - offset)") auto

declare varint32_loop.simps [simp del]

definition readVarint32_raw :: "bytebuffer \<Rightarrow> js_error + 32 word \<times> bytebuffer" where
  "readVarint32_raw b =
     (if bb_offset b + 1 > length (bb_view b) then Inl RangeError
      else bindR (varint32_loop b (bb_offset b) 0 0) (\<lambda>(w, off). Inr (w, b\<lparr>bb_offset := off\<rparr>)))"

definition readVarint32 :: "bytebuffer \<Rightarrow> js_error + jsval \<times> bytebuffer" where
  "readVarint32 b = bindR (readVarint32_raw b) (\<lambda>(w, b'). Inr (JNum (sint w), b'))"

definition writeVString :: "bytebuffer \<Rightarrow> jsval \<Rightarrow> js_error + bytebuffer" where
  "writeVString b v =
     (case v of
        JStr s \<Rightarrow>
          (if bb_offset b > length (bb_view b) then Inl RangeError
           else (case (calculateUTF16asUTF8 s, encodeUTF16toUTF8 s) of
             (Some k, Some bs) \<Rightarrow>
               (let l = calculateVarint32 (of_nat k); b' = bb_reserve (l + k) b
                in bindR (bb_write l (varint32_bytes (of_nat k)) b') (\<lambda>b1.
                   if bb_offset b1 + length bs \<noteq> bb_offset b + k + l then Inl RangeError
                   else Inr (b1\<lparr>bb_view := bb_store (bb_offset b1) bs (bb_view b1),
                                bb_offset := bb_offset b1 + length bs\<rparr>)))
           | _ \<Rightarrow> Inl Hang))
      | _ \<Rightarrow> Inl TypeError)"

definition readVString :: "bytebuffer \<Rightarrow> js_error + jsstring \<times> bytebuffer" where
  "readVString b =
     bindR (readVarint32_raw b) (\<lambda>(len, b1).
       let n = sint len
       in if bb_offset b1 > length (bb_view b1) then Inl RangeError
          else if int (bb_offset b1) + n > int (length (bb_view b1)) then Inl RangeError
          else if n < 0 then Inl RangeError
          else bindR (decodeUTF8toUTF16 (take (nat n) (drop (bb_offset b1) (bb_view b1))))
                 (\<lambda>s. Inr (s, bb_advance (nat n) b1)))"

section \<open>Raw bytes\<close>

text \<open>\<open>append(str, "binary")\<close>: every code unit must fit a byte.\<close>

definition binary_bytes :: "jsstring \<Rightarrow> js_error + byte list" where
  "binary_bytes s = (if list_all (\<lambda>c. c < 256) s then Inr (map ucast s) else Inl IllegalCharCode)"

definition bb_append :: "bytebuffer \<Rightarrow> jsstring \<Rightarrow> js_error + bytebuffer" where
  "bb_append b s =
     (if bb_offset b > length (bb_view b) then Inl RangeError
      else bindR (binary_bytes s) (\<lambda>bs. if bs = [] then Inr b else bb_write (length bs) bs b))"

definition bb_copy :: "bytebuffer \<Rightarrow> nat \<Rightarrow> nat \<Rightarrow> js_error + bytebuffer" where
  "bb_copy b from to =
     (if to < from \<or> to > length (bb_view b) then Inl RangeError
      else Inr \<lparr>bb_view = take (to - from) (drop from (bb_view b)), bb_offset = 0,
                bb_limit = to - from, bb_littleEndian = bb_littleEndian b\<rparr>)"

definition bb_skip :: "nat \<Rightarrow> bytebuffer \<Rightarrow> js_error + bytebuffer" where
  "bb_skip n b = (if bb_offset b + n > length (bb_view b) then Inl RangeError else Inr (bb_advance n b))"

text \<open>\<open>new Buffer(b.toBinary(), "binary")\<close>: the bytes between offset and limit.\<close>

definition bb_toBuffer :: "bytebuffer \<Rightarrow> byte list" where
  "bb_toBuffer b = take (bb_limit b - bb_offset b) (drop (bb_offset b) (bb_view b))"

definition fromBinary :: "byte list \<Rightarrow> bool \<Rightarrow> bytebuffer" where
  "fromBinary bs le = \<lparr>bb_view = bs, bb_offset = 0, bb_limit = length bs, bb_littleEndian = le\<rparr>"

definition parseInt16 :: "jsstring \<Rightarrow> int option" where
  "parseInt16 s =
     (let (sg, r) = parse_sign (dropWhile is_ws s)
      in map_option ((*) sg)
           (parse_hex (if take 2 r = js ''0x'' \<or> take 2 r = js ''0X'' then drop 2 r else r)))"

fun hex_pairs :: "jsstring \<Rightarrow> js_error + byte list" where
  "hex_pairs (a # b # r) =
     (case parseInt16 [a, b] of
        Some n \<Rightarrow> if n < 0 \<or> n > 255 then Inl TypeError
                  else bindR (hex_pairs r) (\<lambda>bs. Inr (of_int n # bs))
      | None \<Rightarrow> Inl TypeError)"
| "hex_pairs [] = Inr []"
| "hex_pairs [a] = Inl TypeError"

definition bb_fromHex :: "jsstring \<Rightarrow> bool \<Rightarrow> js_error + bytebuffer" where
  "bb_fromHex s le =
     (if length s mod 2 \<noteq> 0 then Inl TypeError
      else bindR (hex_pairs s) (\<lambda>bs. Inr (fromBinary bs le)))"

section \<open>Words and their bytes\<close>

lemma unat_and_255: "unat (255 AND (w :: 'a::len word)) = unat w mod 256"
  "unat ((w :: 'a::len word) AND 255) = unat w mod 256"
proof -
  have "(255 :: 'a word) = mask 8" by (simp add: mask_eq_exp_minus_1)
  then show "unat (255 AND w) = unat w mod 256" "unat (w AND 255) = unat w mod 256"
    using unat_and_mask [of 8 w] unat_and_mask2 [of w 8] by simp_all
qed

lemma unat_byte_of: "unat (ucast (drop_bit n (w :: 32 word) AND 255) :: byte) = unat w div 2 ^ n mod 256"
  by (simp only: unat_ucast_mod unat_and_255 unat_drop_bit) simp

lemma unat_byte_0: "unat (ucast (255 AND (w :: 32 word)) :: byte) = unat w mod 256"
  by (simp only: unat_ucast_mod unat_and_255) simp

lemma unat_byte_1: "unat (ucast (drop_bit 8 (65280 AND (w :: 32 word))) :: byte) = unat w div 256 mod 256"
proof -
  have "unat (65280 AND w) = (255 AND unat w div 2 ^ 8) * 2 ^ 8"
    using nat_and_shift [of 255 8 "unat w"] by (simp add: unsigned_and_eq)
  moreover have "(255 :: nat) = mask 8" by (simp add: mask_eq_exp_minus_1)
  ultimately have "unat (65280 AND w) = (unat w div 256 mod 256) * 256"
    by (simp add: and.commute [of "mask 8"] take_bit_eq_mod flip: take_bit_eq_mask)
  then show ?thesis by (simp only: unat_ucast_mod unat_drop_bit) simp
qed

lemma unat_ucast_byte32 [simp]: "unat (ucast (b :: byte) :: 32 word) = unat b"
  by (rule unat_ucast_byte)

lemma unat_word16_of: "unat (word16_of [b0, b1]) = unat b0 + unat b1 * 256"
proof -
  have "unat (push_bit 8 (ucast b1 :: 32 word)) = unat b1 * 256"
    using unat_push_bit [of "ucast b1 :: 32 word" 8] unat_byte_less [of b1] by simp
  then show ?thesis
    using unat_or_disjoint [of "ucast b0 :: 32 word" 8 "push_bit 8 (ucast b1)" "unat b1"]
    by (simp add: or.commute)
qed

lemma unat_word32_of:
  "unat (word32_of [b0, b1, b2, b3]) = unat b0 + unat b1 * 256 + unat b2 * 65536 + unat b3 * 16777216"
proof -
  have p: "unat (push_bit n (ucast b :: 32 word)) = unat b * 2 ^ n" if "n \<le> 24" for b :: byte and n
  proof -
    have "unat b * 2 ^ n \<le> 255 * 2 ^ 24"
      using unat_byte_less [of b] that
      by (intro mult_mono power_increasing) (simp_all only: less_Suc_eq_le eval_nat_numeral, simp_all)
    then show ?thesis using unat_push_bit [of "ucast b :: 32 word" n] by simp
  qed
  let ?l = "push_bit 8 (ucast b1) OR ucast b0 :: 32 word"
  have l: "unat ?l = unat b1 * 256 + unat b0"
    using unat_or_disjoint [of "ucast b0 :: 32 word" 8 "push_bit 8 (ucast b1)" "unat b1"] p [of 8 b1]
    by simp
  have "unat ?l < 65536" using l unat_byte_less [of b0] unat_byte_less [of b1] by linarith
  then have m: "unat (push_bit 16 (ucast b2) OR ?l) = unat b2 * 65536 + (unat b1 * 256 + unat b0)"
    using unat_or_disjoint [of ?l 16 "push_bit 16 (ucast b2)" "unat b2"] p [of 16 b2] l by simp
  have "unat b2 * 65536 + (unat b1 * 256 + unat b0) + unat b3 * 16777216 < 4294967296"
    using unat_byte_less [of b0] unat_byte_less [of b1] unat_byte_less [of b2] unat_byte_less [of b3]
    by linarith
  then have "unat ((push_bit 16 (ucast b2) OR ?l) + push_bit 24 (ucast b3)) =
      unat b2 * 65536 + (unat b1 * 256 + unat b0) + unat b3 * 16777216"
    using p [of 24 b3] m by (subst unat_add_lem [THEN iffD1]) simp_all
  then show ?thesis by simp
qed

lemma word32_of_bytes32 [simp]: "word32_of (bytes32 w) = w"
proof -
  let ?u = "unat w"
  have "?u < 4294967296" using unsigned_less [where 'a = nat, of w] by simp
  then have d: "?u div 16777216 < 256" by (simp add: div_less_iff_less_mult)
  have e: "?u div 65536 = ?u div 256 div 256" "?u div 16777216 = ?u div 256 div 256 div 256"
    by (simp_all add: div_mult2_eq [symmetric])
  have "unat (word32_of (bytes32 w)) =
      ?u mod 256 + ?u div 256 mod 256 * 256 + ?u div 65536 mod 256 * 65536 + ?u div 16777216 mod 256 * 16777216"
    unfolding bytes32_def unat_word32_of unat_byte_of unat_byte_0 by simp
  also have "\<dots> = ?u"
    using d mult_div_mod_eq [of 256 ?u] mult_div_mod_eq [of 256 "?u div 256"]
      mult_div_mod_eq [of 256 "?u div 256 div 256"] unfolding e
    by (simp only: mod_less)
  finally show ?thesis by (simp add: word_unat_eq_iff)
qed

lemma unat_word16_of_bytes16: "unat (word16_of (bytes16 w)) = unat w mod 65536"
proof -
  have "unat (word16_of (bytes16 w)) = unat w mod 256 + unat w div 256 mod 256 * 256"
    unfolding bytes16_def unat_word16_of unat_byte_0 unat_byte_1 ..
  also have "\<dots> = unat w mod 65536"
    using mod_mult2_eq [of "unat w" 256 256] by simp
  finally show ?thesis .
qed

lemma length_bytes [simp]: "length (bytes16 w) = 2" "length (bytes32 w) = 4" "length (bytes64 x) = 8"
  by (simp_all add: bytes16_def bytes32_def bytes64_def)

lemma word64_of_bytes64 [simp]: "word64_of (bytes64 w) = w"
proof -
  let ?lo = "ucast (ucast w :: 32 word) :: 64 word" and ?hi = "ucast (ucast (drop_bit 32 w) :: 32 word) :: 64 word"
  have u: "unat w < 18446744073709551616" using unsigned_less [where 'a = nat, of w] by simp
  have lo: "unat ?lo = unat w mod 4294967296" by (simp only: unat_ucast_mod) simp
  have hi: "unat ?hi = unat w div 4294967296"
    using u by (simp only: unat_ucast_mod unat_drop_bit) (simp add: div_less_iff_less_mult)
  have "unat (push_bit 32 ?hi) = unat w div 4294967296 * 2 ^ 32"
    using u unat_push_bit [of ?hi 32] hi by (simp add: div_less_iff_less_mult mult.commute)
  then have "unat (push_bit 32 ?hi OR ?lo) = unat w"
    using unat_or_disjoint [of ?lo 32 "push_bit 32 ?hi" "unat w div 4294967296"] lo by simp
  moreover have "word64_of (bytes64 w) = push_bit 32 ?hi OR ?lo"
    by (simp add: word64_of_def bytes64_def or.commute del: drop_bit_eq_div)
  ultimately show ?thesis by (simp add: word_unat_eq_iff)
qed

section \<open>What a buffer holds\<close>

definition bb_contents :: "bytebuffer \<Rightarrow> byte list" where
  "bb_contents b = take (bb_offset b) (bb_view b)"

definition bb_remaining :: "bytebuffer \<Rightarrow> byte list" where
  "bb_remaining b = drop (bb_offset b) (bb_view b)"

text \<open>
  A buffer that is being written: the offset is inside the backing array, and the byte order is
  little-endian, as every buffer of the library is created. A buffer that is being read also has
  its limit at the end of the array.
\<close>

definition bb_ok :: "bytebuffer \<Rightarrow> bool" where
  "bb_ok b \<longleftrightarrow> bb_offset b \<le> length (bb_view b) \<and> bb_littleEndian b"

definition bb_input :: "bytebuffer \<Rightarrow> bool" where
  "bb_input b \<longleftrightarrow> bb_ok b \<and> bb_limit b = length (bb_view b)"

definition bb_appended :: "bytebuffer \<Rightarrow> byte list \<Rightarrow> bytebuffer \<Rightarrow> bool" where
  "bb_appended b bs b' \<longleftrightarrow> bb_ok b' \<and> bb_contents b' = bb_contents b @ bs"

lemma bb_new_ok [simp]: "bb_ok (ByteBuffer_new n True)"
  by (simp add: bb_ok_def ByteBuffer_new_def)

lemma bb_new_contents [simp]: "bb_contents (ByteBuffer_new n le) = []"
  by (simp add: bb_contents_def ByteBuffer_new_def)

lemma fromBinary_input [simp]: "bb_input (fromBinary bs True)" "bb_remaining (fromBinary bs le) = bs"
  by (simp_all add: bb_input_def bb_ok_def bb_remaining_def fromBinary_def)

lemma bb_reserve_simps [simp]:
  "bb_offset (bb_reserve n b) = bb_offset b" "bb_littleEndian (bb_reserve n b) = bb_littleEndian b"
  by (simp_all add: bb_reserve_def bb_resize_def Let_def)

lemma bb_reserve_room: "bb_offset b + n \<le> length (bb_view (bb_reserve n b))"
  by (cases "bb_view b = []") (auto simp: bb_reserve_def bb_resize_def Let_def)

lemma bb_reserve_prefix: "take (length (bb_view b)) (bb_view (bb_reserve n b)) = bb_view b"
  by (cases "bb_view b = []") (auto simp: bb_reserve_def bb_resize_def Let_def)

lemma bb_reserve_contents [simp]:
  "bb_ok b \<Longrightarrow> bb_contents (bb_reserve n b) = bb_contents b"
  using bb_reserve_prefix [of b n] by (metis bb_contents_def bb_ok_def bb_reserve_simps(1) min_absorb1 take_take)

lemma bb_reserve_ok [simp]: "bb_ok b \<Longrightarrow> bb_ok (bb_reserve n b)"
  using bb_reserve_room [of b n] by (simp add: bb_ok_def)

lemma bb_store_contents:
  "off + length bs \<le> length view \<Longrightarrow> take (off + length bs) (bb_store off bs view) = take off view @ bs"
  by (simp add: bb_store_def)

lemma length_bb_store [simp]: "off + length bs \<le> length view \<Longrightarrow> length (bb_store off bs view) = length view"
  by (simp add: bb_store_def)

text \<open>A write that reserves enough room appends its bytes to what was written before.\<close>

lemma bb_write_appends:
  assumes "bb_ok b" "length bs \<le> n"
  shows "\<exists>b'. bb_write n bs b = Inr b' \<and> bb_appended b bs b'"
proof -
  have room: "bb_offset b + length bs \<le> length (bb_view (bb_reserve n b))"
    using bb_reserve_room [of b n] assms(2) by simp
  have "take (bb_offset b) (bb_view (bb_reserve n b)) = bb_contents b"
    using assms(1) bb_reserve_contents [of b n] by (simp add: bb_contents_def)
  then show ?thesis
    using assms(1) room
    by (simp add: bb_write_def bb_appended_def bb_ok_def bb_contents_def Let_def bb_store_contents)
qed

lemma bb_advance_simps [simp]:
  "bb_view (bb_advance n b) = bb_view b" "bb_limit (bb_advance n b) = bb_limit b"
  "bb_offset (bb_advance n b) = bb_offset b + n" "bb_littleEndian (bb_advance n b) = bb_littleEndian b"
  by (simp_all add: bb_advance_def)

lemma bb_advance_remaining [simp]: "bb_remaining (bb_advance n b) = drop n (bb_remaining b)"
  by (simp add: bb_remaining_def add.commute)

lemma bb_advance_advance [simp]: "bb_advance m (bb_advance n b) = bb_advance (n + m) b"
  by (simp add: bb_advance_def add.assoc)

lemma bb_advance_0 [simp]: "bb_advance 0 b = b"
  by (simp add: bb_advance_def)

lemma bb_advance_input:
  "bb_input b \<Longrightarrow> bb_remaining b = bs @ r \<Longrightarrow> bb_input (bb_advance (length bs) b)"
proof -
  assume "bb_input b" and r: "bb_remaining b = bs @ r"
  moreover have "length (bb_remaining b) = length (bb_view b) - bb_offset b" by (simp add: bb_remaining_def)
  ultimately show ?thesis by (auto simp: bb_input_def bb_ok_def)
qed

lemma bb_read_remaining:
  assumes "bb_input b" "bb_remaining b = bs @ r"
  shows "bb_read (length bs) b = Inr (bs, bb_advance (length bs) b)"
proof -
  have "length bs \<le> length (bb_view b) - bb_offset b"
    using arg_cong [OF assms(2), of length] by (simp add: bb_remaining_def)
  moreover have "take (length bs) (drop (bb_offset b) (bb_view b)) = bs"
    using assms(2) by (simp add: bb_remaining_def)
  ultimately show ?thesis using assms(1) by (auto simp: bb_read_def bb_input_def bb_ok_def)
qed

section \<open>The contract of a write and its read\<close>

text \<open>
  For every valid value the write succeeds and appends the value's bytes, and the read, on an
  input that starts with these bytes, returns the value and moves past exactly them.
\<close>

locale codec =
  fixes append :: "bytebuffer \<Rightarrow> 'a \<Rightarrow> js_error + bytebuffer"
    and read :: "bytebuffer \<Rightarrow> js_error + 'a \<times> bytebuffer"
    and enc :: "'a \<Rightarrow> byte list"
    and valid :: "'a \<Rightarrow> bool"
  assumes append_enc: "valid v \<Longrightarrow> bb_ok b \<Longrightarrow> \<exists>b'. append b v = Inr b' \<and> bb_appended b (enc v) b'"
    and read_enc: "valid v \<Longrightarrow> bb_input b \<Longrightarrow> bb_remaining b = enc v @ r \<Longrightarrow>
      read b = Inr (v, bb_advance (length (enc v)) b)"
begin

text \<open>Bytes decode to at most one value: no encoding is a prefix of another value's encoding.\<close>

lemma enc_unique: "valid v \<Longrightarrow> valid w \<Longrightarrow> enc v @ r = enc w @ r' \<Longrightarrow> v = w \<and> r = r'"
proof -
  assume v: "valid v" and w: "valid w" and eq: "enc v @ r = enc w @ r'"
  let ?b = "fromBinary (enc v @ r) True"
  have "read ?b = Inr (v, bb_advance (length (enc v)) ?b)"
    by (rule read_enc [OF v, where r = r]) simp_all
  moreover have "read ?b = Inr (w, bb_advance (length (enc w)) ?b)"
    by (rule read_enc [OF w, where r = r']) (simp_all add: eq)
  ultimately have "v = w" by simp
  with eq show ?thesis by simp
qed

lemma enc_inj: "valid v \<Longrightarrow> valid w \<Longrightarrow> enc v = enc w \<Longrightarrow> v = w"
  using enc_unique [of v w "[]" "[]"] by simp

lemma write_then_read:
  assumes "valid v"
  shows "\<exists>b'. append (ByteBuffer_new n True) v = Inr b' \<and> bb_contents b' = enc v \<and>
    read (fromBinary (bb_contents b' @ r) True) = Inr (v, bb_advance (length (enc v)) (fromBinary (enc v @ r) True))"
  using append_enc [OF assms, of "ByteBuffer_new n True"]
    read_enc [OF assms, of "fromBinary (enc v @ r) True" r]
  by (auto simp: bb_appended_def)

text \<open>A run of values: the loops that write and read every element of an array.\<close>

lemma append_all:
  "list_all valid vs \<Longrightarrow> bb_ok b \<Longrightarrow>
    \<exists>b'. foldR append b vs = Inr b' \<and> bb_appended b (concat (map enc vs)) b'"
proof (induction vs arbitrary: b)
  case Nil
  then show ?case by (simp add: bb_appended_def)
next
  case (Cons v vs)
  then obtain b1 where b1: "append b v = Inr b1" "bb_appended b (enc v) b1"
    using append_enc [of v b] by auto
  moreover have "bb_ok b1" using b1 by (simp add: bb_appended_def)
  ultimately obtain b2 where "foldR append b1 vs = Inr b2" "bb_appended b1 (concat (map enc vs)) b2"
    using Cons.IH [of b1] Cons.prems by auto
  with b1 show ?case by (auto simp: bb_appended_def)
qed

lemma read_all:
  "list_all valid vs \<Longrightarrow> bb_input b \<Longrightarrow> bb_remaining b = concat (map enc vs) @ r \<Longrightarrow>
    repeatR read (length vs) b = Inr (vs, bb_advance (length (concat (map enc vs))) b)"
proof (induction vs arbitrary: b)
  case (Cons v vs)
  have r: "read b = Inr (v, bb_advance (length (enc v)) b)"
    using Cons.prems by (intro read_enc [where r = "concat (map enc vs) @ r"]) simp_all
  have "repeatR read (length vs) (bb_advance (length (enc v)) b) =
      Inr (vs, bb_advance (length (concat (map enc vs))) (bb_advance (length (enc v)) b))"
    using Cons.prems by (intro Cons.IH) (auto intro: bb_advance_input)
  with r show ?case by simp
qed simp

end

lemma sint_of_int_32: "- (2 ^ 31) \<le> n \<Longrightarrow> n < 2 ^ 31 \<Longrightarrow> sint (of_int n :: 32 word) = n"
  by (subst sint_sbintrunc') (simp add: signed_take_bit_int_eq_self)

lemma uint_of_int_32: "0 \<le> n \<Longrightarrow> n < 2 ^ 32 \<Longrightarrow> uint (of_int n :: 32 word) = n"
  by (subst uint_word_of_int_eq) (simp add: take_bit_int_eq_self)

lemma uint_of_int_8: "0 \<le> n \<Longrightarrow> n < 2 ^ 8 \<Longrightarrow> uint (of_int n :: byte) = n"
  by (subst uint_word_of_int_eq) (simp add: take_bit_int_eq_self)

fun the_num :: "jsval \<Rightarrow> int" where
  "the_num (JNum n) = n"
| "the_num _ = 0"

fun the_long :: "jsval \<Rightarrow> 64 word" where
  "the_long (JLong u w) = w"
| "the_long _ = 0"

fun num_in :: "int \<Rightarrow> int \<Rightarrow> jsval \<Rightarrow> bool" where
  "num_in lo hi (JNum n) \<longleftrightarrow> lo \<le> n \<and> n \<le> hi"
| "num_in lo hi _ \<longleftrightarrow> False"

fun is_long_u :: "bool \<Rightarrow> jsval \<Rightarrow> bool" where
  "is_long_u u (JLong u' w) \<longleftrightarrow> u = u'"
| "is_long_u u _ \<longleftrightarrow> False"

lemma num_inE: assumes "num_in lo hi v" obtains n where "v = JNum n" "lo \<le> n" "n \<le> hi"
  using assms by (cases v) auto

lemma is_long_uE: assumes "is_long_u u v" obtains w where "v = JLong u w"
  using assms by (cases v) auto

lemma read_fixed:
  assumes "bb_input b" "bb_remaining b = bs @ r" "length bs = n"
  shows "bb_read n b = Inr (bs, bb_advance n b)"
  using bb_read_remaining [OF assms(1,2)] assms(3) by simp

lemma read_byte: "bb_input b \<Longrightarrow> bb_remaining b = x # r \<Longrightarrow> bb_read (Suc 0) b = Inr ([x], bb_advance (Suc 0) b)"
  using read_fixed [of b "[x]" r "Suc 0"] by simp

lemma bb_le [simp]: "bb_ok b \<Longrightarrow> order (bb_littleEndian b) bs = bs" "bb_input b \<Longrightarrow> order (bb_littleEndian b) bs = bs"
  by (simp_all add: bb_ok_def bb_input_def order_def)

interpretation bb_u8: codec writeUint8 readUint8 "\<lambda>v. [of_int (the_num v)]" "num_in 0 255"
proof unfold_locales
  fix v b assume "num_in 0 255 v" "bb_ok b"
  then show "\<exists>b'. writeUint8 b v = Inr b' \<and> bb_appended b [of_int (the_num v)] b'"
    by (auto elim!: num_inE simp: writeUint8_def intro!: bb_write_appends)
next
  fix v b r assume "num_in 0 255 v" "bb_input b" "bb_remaining b = [of_int (the_num v)] @ r"
  then show "readUint8 b = Inr (v, bb_advance (length [of_int (the_num v) :: byte]) b)"
    by (auto elim!: num_inE simp: readUint8_def read_byte uint_of_int_8)
qed

interpretation bb_u32: codec writeUint32 readUint32 "\<lambda>v. bytes32 (of_int (the_num v))" "num_in 0 4294967295"
proof unfold_locales
  fix v b assume "num_in 0 4294967295 v" "bb_ok b"
  then show "\<exists>b'. writeUint32 b v = Inr b' \<and> bb_appended b (bytes32 (of_int (the_num v))) b'"
    by (auto elim!: num_inE simp: writeUint32_def intro!: bb_write_appends)
next
  fix v b r assume "num_in 0 4294967295 v" "bb_input b" "bb_remaining b = bytes32 (of_int (the_num v)) @ r"
  then show "readUint32 b = Inr (v, bb_advance (length (bytes32 (of_int (the_num v)))) b)"
    by (auto elim!: num_inE simp: readUint32_def read_fixed uint_of_int_32)
qed

lemma uint_word16: "0 \<le> n \<Longrightarrow> n < 65536 \<Longrightarrow> uint (word16_of (bytes16 (of_int n))) = n"
proof -
  assume n: "0 \<le> n" "n < 65536"
  have "uint (word16_of (bytes16 (of_int n))) = int (unat (of_int n :: 32 word) mod 65536)"
    unfolding unat_word16_of_bytes16 [symmetric] by simp
  also have "\<dots> = uint (of_int n :: 32 word) mod 65536" by (simp add: zmod_int)
  also have "\<dots> = n" using n uint_of_int_32 [of n] by simp
  finally show ?thesis .
qed

lemma uint_word16_signed:
  assumes "- 32768 \<le> n" "n < 32768"
  shows "uint (word16_of (bytes16 (of_int n))) = n mod 65536"
proof -
  have "uint (of_int n :: 32 word) = n mod 4294967296"
    by (subst uint_word_of_int_eq) (simp add: take_bit_eq_mod)
  moreover have "uint (word16_of (bytes16 (of_int n))) = int (unat (of_int n :: 32 word) mod 65536)"
    unfolding unat_word16_of_bytes16 [symmetric] by simp
  moreover have "int (unat (of_int n :: 32 word) mod 65536) = uint (of_int n :: 32 word) mod 65536"
    by (simp add: zmod_int)
  moreover have "n mod 4294967296 mod 65536 = n mod 65536"
    by (rule mod_mod_cancel) simp
  ultimately show ?thesis by simp
qed

lemma mod_65536_neg: "- 32768 \<le> n \<Longrightarrow> n < 0 \<Longrightarrow> n mod 65536 = n + (65536 :: int)"
  using mod_pos_pos_trivial [of "n + 65536" 65536] by simp

interpretation bb_u16: codec writeUint16 readUint16 "\<lambda>v. bytes16 (of_int (the_num v))" "num_in 0 65535"
proof unfold_locales
  fix v b assume "num_in 0 65535 v" "bb_ok b"
  then show "\<exists>b'. writeUint16 b v = Inr b' \<and> bb_appended b (bytes16 (of_int (the_num v))) b'"
    by (auto elim!: num_inE simp: writeUint16_def intro!: bb_write_appends)
next
  fix v b r assume "num_in 0 65535 v" "bb_input b" "bb_remaining b = bytes16 (of_int (the_num v)) @ r"
  then show "readUint16 b = Inr (v, bb_advance (length (bytes16 (of_int (the_num v)))) b)"
    by (auto elim!: num_inE simp: readUint16_def read_fixed uint_word16)
qed

interpretation bb_i16: codec writeInt16 readInt16 "\<lambda>v. bytes16 (of_int (the_num v))" "num_in (- 32768) 32767"
proof unfold_locales
  fix v b assume "num_in (- 32768) 32767 v" "bb_ok b"
  then show "\<exists>b'. writeInt16 b v = Inr b' \<and> bb_appended b (bytes16 (of_int (the_num v))) b'"
    by (auto elim!: num_inE simp: writeInt16_def intro!: bb_write_appends)
next
  fix v b r assume "num_in (- 32768) 32767 v" "bb_input b" "bb_remaining b = bytes16 (of_int (the_num v)) @ r"
  then show "readInt16 b = Inr (v, bb_advance (length (bytes16 (of_int (the_num v)))) b)"
    by (auto elim!: num_inE simp: readInt16_def read_fixed uint_word16_signed Let_def)
      (case_tac "n < 0"; simp add: mod_65536_neg)+
qed

interpretation bb_i32: codec writeInt32 readInt32 "\<lambda>v. bytes32 (of_int (the_num v))" "num_in (- 2147483648) 2147483647"
proof unfold_locales
  fix v b assume "num_in (- 2147483648) 2147483647 v" "bb_ok b"
  then show "\<exists>b'. writeInt32 b v = Inr b' \<and> bb_appended b (bytes32 (of_int (the_num v))) b'"
    by (auto elim!: num_inE simp: writeInt32_def intro!: bb_write_appends)
next
  fix v b r assume "num_in (- 2147483648) 2147483647 v" "bb_input b" "bb_remaining b = bytes32 (of_int (the_num v)) @ r"
  then show "readInt32 b = Inr (v, bb_advance (length (bytes32 (of_int (the_num v)))) b)"
    by (auto elim!: num_inE simp: readInt32_def read_fixed sint_of_int_32)
qed

interpretation bb_u64: codec writeUint64 readUint64 "\<lambda>v. bytes64 (the_long v)" "is_long_u True"
proof unfold_locales
  fix v b assume "is_long_u True v" "bb_ok b"
  then show "\<exists>b'. writeUint64 b v = Inr b' \<and> bb_appended b (bytes64 (the_long v)) b'"
    by (auto elim!: is_long_uE simp: writeUint64_def long_arg_def intro!: bb_write_appends)
next
  fix v b r assume "is_long_u True v" "bb_input b" "bb_remaining b = bytes64 (the_long v) @ r"
  then show "readUint64 b = Inr (v, bb_advance (length (bytes64 (the_long v))) b)"
    by (auto elim!: is_long_uE simp: readUint64_def read_fixed)
qed

interpretation bb_i64: codec writeInt64 readInt64 "\<lambda>v. bytes64 (the_long v)" "is_long_u False"
proof unfold_locales
  fix v b assume "is_long_u False v" "bb_ok b"
  then show "\<exists>b'. writeInt64 b v = Inr b' \<and> bb_appended b (bytes64 (the_long v)) b'"
    by (auto elim!: is_long_uE simp: writeInt64_def long_arg_def intro!: bb_write_appends)
next
  fix v b r assume "is_long_u False v" "bb_input b" "bb_remaining b = bytes64 (the_long v) @ r"
  then show "readInt64 b = Inr (v, bb_advance (length (bytes64 (the_long v))) b)"
    by (auto elim!: is_long_uE simp: readInt64_def read_fixed)
qed

section \<open>Variable-length integers\<close>

lemma drop7: "unat (drop_bit 7 (w :: 32 word)) = unat w div 128"
  by (simp add: unat_drop_bit del: drop_bit_eq_div)

lemma varint32_bytes_small: "unat w < 128 \<Longrightarrow> varint32_bytes w = [ucast w]"
  by (subst varint32_bytes.simps) (simp add: word_le_nat_alt)

lemma varint32_bytes_large:
  "128 \<le> unat w \<Longrightarrow> varint32_bytes w = ucast ((127 AND w) OR 128) # varint32_bytes (drop_bit 7 w)"
  by (subst varint32_bytes.simps) (simp add: word_le_nat_alt)

lemma length_varint32_step:
  "length (varint32_bytes w) = (if unat w < 128 then 1 else Suc (length (varint32_bytes (drop_bit 7 w))))"
  by (simp add: varint32_bytes_small varint32_bytes_large not_less del: drop_bit_eq_div)

lemma length_varint32: "length (varint32_bytes w) = calculateVarint32 w"
proof -
  have l1: "length (varint32_bytes v) = 1" if "unat v < 128" for v
    using that by (simp add: length_varint32_step)
  have l2: "length (varint32_bytes v) = 2" if "128 \<le> unat v" "unat v < 16384" for v
    using that l1 [of "drop_bit 7 v"]
    by (simp add: length_varint32_step [of v] drop7 div_less_iff_less_mult del: drop_bit_eq_div)
  have l3: "length (varint32_bytes v) = 3" if "16384 \<le> unat v" "unat v < 2097152" for v
    using that l2 [of "drop_bit 7 v"]
    by (simp add: length_varint32_step [of v] drop7 div_less_iff_less_mult less_eq_div_iff_mult_less_eq del: drop_bit_eq_div)
  have l4: "length (varint32_bytes v) = 4" if "2097152 \<le> unat v" "unat v < 268435456" for v
    using that l3 [of "drop_bit 7 v"]
    by (simp add: length_varint32_step [of v] drop7 div_less_iff_less_mult less_eq_div_iff_mult_less_eq del: drop_bit_eq_div)
  have l5: "length (varint32_bytes v) = 5" if "268435456 \<le> unat v" for v
    using that l4 [of "drop_bit 7 v"] unsigned_less [where 'a = nat, of v]
    by (simp add: length_varint32_step [of v] drop7 div_less_iff_less_mult less_eq_div_iff_mult_less_eq del: drop_bit_eq_div)
  show ?thesis
    using l1 [of w] l2 [of w] l3 [of w] l4 [of w] l5 [of w]
    by (simp add: calculateVarint32_def word_less_nat_alt not_less)
qed

lemma unat_varint_head: "unat (ucast ((127 AND w) OR 128 :: 32 word) :: byte) = unat w mod 128 + 128"
proof -
  have "unat (127 AND w) < 2 ^ 7" by simp
  then have "unat ((127 AND w) OR 128) = unat (127 AND w) + 128"
    using nat_or_shift [of "unat (127 AND w)" 7 1] by (simp add: unsigned_or_eq del: unat_and_num)
  moreover have "unat w mod 128 + 128 < 256" using mod_less_divisor [of 128 "unat w"] by linarith
  ultimately show ?thesis by (simp add: unat_ucast_mod)
qed

lemma byte_high_bit: "(128 AND x = 0) = (unat (x :: byte) < 128)"
  by (rule lead_byte_classes(1))

lemma bits_split: "push_bit m (take_bit n w) OR push_bit (m + n) (drop_bit n w) = push_bit m (w :: 'a::len word)"
proof -
  have "take_bit n w OR push_bit n (drop_bit n w) = w"
  proof (rule bit_word_eqI)
    fix k assume "k < LENGTH('a)"
    then show "bit (take_bit n w OR push_bit n (drop_bit n w)) k \<longleftrightarrow> bit w k"
      by (cases "k < n") (auto simp: bit_simps not_less)
  qed
  then have "push_bit m (take_bit n w OR push_bit n (drop_bit n w)) = push_bit m w" by simp
  then show ?thesis by (simp add: push_bit_push_bit del: drop_bit_eq_div)
qed

lemma view_at_remaining: "drop off (bb_view b) = x # r \<Longrightarrow> view_at b off = x \<and> drop (Suc off) (bb_view b) = r \<and> off < length (bb_view b)"
  by (metis drop_all list.distinct(1) not_le view_at_def Cons_nth_drop_Suc list.inject)

lemma varint32_loop_bytes:
  assumes "drop off (bb_view b) = varint32_bytes w @ r" "bb_limit b = length (bb_view b)"
    "c < 5" "unat w < 2 ^ (32 - 7 * c)"
  shows "varint32_loop b off c acc = Inr (acc OR push_bit (7 * c) w, off + length (varint32_bytes w))"
  using assms
proof (induction w arbitrary: off c acc rule: varint32_bytes.induct)
  case (1 w)
  show ?case
  proof (cases "unat w < 128")
    case True
    then have v: "view_at b off = ucast w" "off < length (bb_view b)"
      using "1.prems"(1) view_at_remaining by (auto simp: varint32_bytes_small)
    have "unat (ucast w :: byte) = unat w" using True by (simp add: unat_ucast_mod)
    then have "128 AND (ucast w :: byte) = 0" and "unat (127 AND ucast (ucast w :: byte) :: 32 word) = unat w"
      using True by (simp_all add: byte_high_bit)
    then have "128 AND (ucast w :: byte) = 0" "(127 AND ucast (ucast w :: byte)) = w"
      by (simp_all only: word_unat_eq_iff)
    then show ?thesis
      using v True "1.prems"
      by (subst varint32_loop.simps) (simp add: Let_def varint32_bytes_small del: push_bit_and)
  next
    case False
    let ?x = "ucast ((127 AND w) OR 128) :: byte"
    have v: "view_at b off = ?x" "drop (Suc off) (bb_view b) = varint32_bytes (drop_bit 7 w) @ r"
        "off < length (bb_view b)"
      using "1.prems"(1) False view_at_remaining [of off b ?x] by (auto simp: varint32_bytes_large)
    have "unat (127 AND ucast ?x :: 32 word) = unat (127 AND w)" by (simp add: unat_varint_head)
    then have m: "127 AND ucast ?x = 127 AND w" by (simp only: word_unat_eq_iff)
    have h: "128 AND ?x \<noteq> 0" by (simp add: byte_high_bit unat_varint_head)
    have c: "c < 4"
    proof (rule ccontr)
      assume "\<not> c < 4"
      with "1.prems"(3) have "c = 4" by simp
      with "1.prems"(4) False show False by simp
    qed
    have "(2::nat) ^ (32 - 7 * c) = 2 ^ (32 - 7 * Suc c) * 128"
      using c power_add [of "2::nat" "32 - 7 * Suc c" 7] by simp
    with "1.prems"(4) have "unat w < 2 ^ (32 - 7 * Suc c) * 128" by metis
    then have "unat (drop_bit 7 w) < 2 ^ (32 - 7 * Suc c)"
      unfolding drop7 by (simp only: div_less_iff_less_mult zero_less_numeral)
    then have "varint32_loop b (Suc off) (Suc c) (acc OR push_bit (7 * c) (127 AND w)) =
        Inr ((acc OR push_bit (7 * c) (127 AND w)) OR push_bit (7 * Suc c) (drop_bit 7 w),
             Suc off + length (varint32_bytes (drop_bit 7 w)))"
      using "1.IH" [of "Suc off" "Suc c"] False c v "1.prems"(2) by (simp add: word_le_nat_alt del: drop_bit_eq_div)
    moreover have "(push_bit (7 * c) (127 AND w)) OR push_bit (7 * Suc c) (drop_bit 7 w) = push_bit (7 * c) w"
      using bits_split [of "7 * c" 7 w]
      by (simp only: take_bit_eq_mask masks and.commute mult_Suc_right add.commute)
    ultimately show ?thesis
      using v m h "1.prems" False
      by (subst varint32_loop.simps) (simp add: Let_def varint32_bytes_large or.assoc del: drop_bit_eq_div push_bit_and)
  qed
qed

lemma readVarint32_raw_bytes:
  assumes "bb_input b" "bb_remaining b = varint32_bytes w @ r"
  shows "readVarint32_raw b = Inr (w, bb_advance (length (varint32_bytes w)) b)"
proof -
  have "varint32_bytes w \<noteq> []" by (subst varint32_bytes.simps) simp
  then have "bb_offset b < length (bb_view b)"
    using assms(2) by (cases "bb_offset b < length (bb_view b)") (auto simp: bb_remaining_def)
  moreover have "varint32_loop b (bb_offset b) 0 0 = Inr (w, bb_offset b + length (varint32_bytes w))"
    using assms varint32_loop_bytes [of "bb_offset b" b w r 0 0] unsigned_less [where 'a = nat, of w]
    by (simp add: bb_remaining_def bb_input_def)
  ultimately show ?thesis by (simp add: readVarint32_raw_def bb_advance_def)
qed

interpretation bb_varint: codec writeVarint32 readVarint32 "\<lambda>v. varint32_bytes (of_int (the_num v))" "num_in (- 2147483648) 2147483647"
proof unfold_locales
  fix v b assume "num_in (- 2147483648) 2147483647 v" "bb_ok b"
  then show "\<exists>b'. writeVarint32 b v = Inr b' \<and> bb_appended b (varint32_bytes (of_int (the_num v))) b'"
    by (auto elim!: num_inE simp: writeVarint32_def length_varint32 intro!: bb_write_appends)
next
  fix v b r assume "num_in (- 2147483648) 2147483647 v" "bb_input b" "bb_remaining b = varint32_bytes (of_int (the_num v)) @ r"
  then show "readVarint32 b = Inr (v, bb_advance (length (varint32_bytes (of_int (the_num v)))) b)"
    by (auto elim!: num_inE simp: readVarint32_def readVarint32_raw_bytes sint_of_int_32)
qed

section \<open>Length-prefixed text\<close>

definition vstring_bytes :: "jsstring \<Rightarrow> byte list" where
  "vstring_bytes s = varint32_bytes (of_nat (length (node_encode s))) @ node_encode s"

definition vstring_ok :: "jsstring \<Rightarrow> bool" where
  "vstring_ok s \<longleftrightarrow> wf16 s \<and> length (node_encode s) < 2147483648"

lemma bb_reserve_noop: "bb_offset b + n \<le> length (bb_view b) \<Longrightarrow> bb_reserve n b = b"
  by (simp add: bb_reserve_def Let_def)

lemma writeVString_appends:
  assumes ok: "bb_ok b" and s: "wf16 s"
  shows "\<exists>b'. writeVString b (JStr s) = Inr b' \<and> bb_appended b (vstring_bytes s) b'"
proof -
  let ?bs = "node_encode s"
  let ?k = "length ?bs"
  let ?h = "varint32_bytes (of_nat ?k)"
  let ?b = "bb_reserve (length ?h + ?k) b"
  have room: "bb_offset b + (length ?h + ?k) \<le> length (bb_view ?b)" by (rule bb_reserve_room)
  define b1 where "b1 = ?b\<lparr>bb_view := bb_store (bb_offset b) ?h (bb_view ?b), bb_offset := bb_offset b + length ?h\<rparr>"
  have w1: "bb_write (length ?h) ?h ?b = Inr b1"
    using room by (simp add: bb_write_def bb_reserve_noop Let_def b1_def)
  have c1: "bb_contents b1 = bb_contents b @ ?h" "bb_offset b1 + ?k \<le> length (bb_view b1)" "bb_littleEndian b1"
    using ok room bb_reserve_contents [OF ok, of "length ?h + ?k"]
    by (simp_all add: b1_def bb_contents_def bb_store_contents bb_ok_def)
  have o: "bb_offset b1 = bb_offset b + length ?h" by (simp add: b1_def)
  have e: "calculateUTF16asUTF8 s = Some ?k" "encodeUTF16toUTF8 s = Some ?bs"
    using s by (simp_all add: calculateUTF16asUTF8_eq encodeUTF16toUTF8_wf)
  have "writeVString b (JStr s) = Inr (b1\<lparr>bb_view := bb_store (bb_offset b1) ?bs (bb_view b1), bb_offset := bb_offset b1 + ?k\<rparr>)"
    using ok w1 o e by (simp add: writeVString_def length_varint32 [symmetric] Let_def bb_ok_def)
  then show ?thesis
    using c1 by (simp add: bb_appended_def bb_ok_def bb_contents_def bb_store_contents vstring_bytes_def)
qed

lemma sint_of_nat_32: "k < 2147483648 \<Longrightarrow> sint (of_nat k :: 32 word) = int k"
  using sint_of_int_32 [of "int k"] by simp

lemma readVString_bytes:
  assumes "bb_input b" "bb_remaining b = vstring_bytes s @ r" "vstring_ok s"
  shows "readVString b = Inr (s, bb_advance (length (vstring_bytes s)) b)"
proof -
  let ?bs = "node_encode s"
  let ?h = "varint32_bytes (of_nat (length ?bs))"
  let ?b = "bb_advance (length ?h) b"
  have h: "readVarint32_raw b = Inr (of_nat (length ?bs), ?b)"
    using assms readVarint32_raw_bytes [of b "of_nat (length ?bs)" "?bs @ r"] by (simp add: vstring_bytes_def)
  have i: "bb_input ?b" "bb_remaining ?b = ?bs @ r"
    using assms bb_advance_input [of b ?h "?bs @ r"] by (simp_all add: vstring_bytes_def)
  then have "length (?bs @ r) = length (bb_view ?b) - bb_offset ?b"
    by (metis bb_remaining_def length_drop)
  moreover have "bb_offset ?b \<le> length (bb_view ?b)" using i by (simp add: bb_input_def bb_ok_def)
  ultimately have "int (bb_offset ?b) + int (length ?bs) \<le> int (length (bb_view ?b))"
    unfolding length_append by linarith
  moreover have "take (length ?bs) (drop (bb_offset ?b) (bb_view ?b)) = ?bs" using i(2) by (simp add: bb_remaining_def)
  ultimately show ?thesis
    using assms(3) h \<open>bb_offset ?b \<le> length (bb_view ?b)\<close>
    by (simp add: readVString_def Let_def sint_of_nat_32 vstring_ok_def decodeUTF8toUTF16_encode vstring_bytes_def)
qed

interpretation bb_vstring: codec "\<lambda>b s. writeVString b (JStr s)" readVString vstring_bytes vstring_ok
  by unfold_locales (auto simp: writeVString_appends vstring_ok_def intro: readVString_bytes)

end
