(* ===== verification/Keys.thy ===== *)
theory Keys
  imports ByteBuffer
begin

text \<open>
  \<open>auth/ecc/src/key_public.js\<close> and \<open>auth/ecc/src/address.js\<close>: public keys and addresses with their
  checksummed base-58 text, and the string coercion of every value of the model. Curve arithmetic,
  hashes and base 58 are the functions of the environment. The \<open>pubdata\<close> cache of a key holds
  what a recomputation gives (a key is never modified), so it is not kept.
\<close>

section \<open>key\_public.js\<close>

definition null_key_bytes :: "byte list" where
  "null_key_bytes = replicate 33 0"

definition PublicKey_fromBuffer :: "env \<Rightarrow> byte list \<Rightarrow> js_error + jsval" where
  "PublicKey_fromBuffer E buffer =
     (if toHex buffer = replicate 66 48 then Inr (JPub None)
      else bindR (point_decodeFrom E buffer) (\<lambda>Q. Inr (JPub (Some Q))))"

definition PublicKey_fromBinary :: "env \<Rightarrow> jsstring \<Rightarrow> js_error + jsval" where
  "PublicKey_fromBinary E bin = PublicKey_fromBuffer E (map ucast bin)"

definition PublicKey_toBuffer :: "env \<Rightarrow> ec_point option \<Rightarrow> byte list" where
  "PublicKey_toBuffer E Q =
     (case Q of None \<Rightarrow> null_key_bytes | Some q \<Rightarrow> point_getEncoded E q (pt_compressed q))"

definition PublicKey_toUncompressed :: "env \<Rightarrow> ec_point option \<Rightarrow> js_error + jsval" where
  "PublicKey_toUncompressed E Q =
     (case Q of None \<Rightarrow> Inl TypeError
      | Some q \<Rightarrow> bindR (point_decodeFrom E (point_getEncoded E q False)) (\<lambda>p. Inr (JPub (Some p))))"

definition PublicKey_toBlockchainAddress :: "env \<Rightarrow> ec_point option \<Rightarrow> byte list" where
  "PublicKey_toBlockchainAddress E Q = ripemd160 E (sha512 E (PublicKey_toBuffer E Q))"

definition toPublicKeyString :: "env \<Rightarrow> jsstring \<Rightarrow> ec_point option \<Rightarrow> jsstring" where
  "toPublicKeyString E prefix Q =
     (let pub_buf = PublicKey_toBuffer E Q; checksum = ripemd160 E pub_buf
      in prefix @ base58_encode E (pub_buf @ take 4 checksum))"

text \<open>
  The checks on the text of a key or an address: the prefix, then the last four bytes as the
  checksum of the others.
\<close>

definition checked_base58 :: "env \<Rightarrow> jsstring \<Rightarrow> jsstring \<Rightarrow> js_error + byte list" where
  "checked_base58 E s prefix =
     (if take (length prefix) s \<noteq> prefix then Inl AssertionError
      else bindR (base58_decode E (drop (length prefix) s)) (\<lambda>bs.
        let checksum = drop (length bs - 4) bs; body = take (length bs - 4) bs
        in if checksum = take 4 (ripemd160 E body) then Inr body else Inl AssertionError))"

definition fromStringOrThrow :: "env \<Rightarrow> jsstring \<Rightarrow> jsstring \<Rightarrow> js_error + jsval" where
  "fromStringOrThrow E public_key prefix =
     bindR (checked_base58 E public_key prefix) (PublicKey_fromBuffer E)"

text \<open>\<open>fromString\<close> turns every exception into \<open>null\<close>.\<close>

definition PublicKey_fromString :: "env \<Rightarrow> jsstring \<Rightarrow> jsstring \<Rightarrow> jsval" where
  "PublicKey_fromString E public_key prefix =
     (case fromStringOrThrow E public_key prefix of Inl _ \<Rightarrow> JNull | Inr k \<Rightarrow> k)"

definition toAddressString :: "env \<Rightarrow> jsstring \<Rightarrow> ec_point option \<Rightarrow> jsstring" where
  "toAddressString E prefix Q =
     (let addy = ripemd160 E (sha512 E (PublicKey_toBuffer E Q)); checksum = ripemd160 E addy
      in prefix @ base58_encode E (addy @ take 4 checksum))"

definition toPtsAddy :: "env \<Rightarrow> ec_point option \<Rightarrow> jsstring" where
  "toPtsAddy E Q =
     (let addy = 56 # ripemd160 E (sha256 E (PublicKey_toBuffer E Q));
          checksum = sha256 E (sha256 E addy)
      in base58_encode E (addy @ take 4 checksum))"

definition PublicKey_fromHex :: "env \<Rightarrow> jsstring \<Rightarrow> js_error + jsval" where
  "PublicKey_fromHex E hex = PublicKey_fromBuffer E (fromHex hex)"

definition PublicKey_toHex :: "env \<Rightarrow> ec_point option \<Rightarrow> jsstring" where
  "PublicKey_toHex E Q = toHex (PublicKey_toBuffer E Q)"

section \<open>address.js\<close>

definition Address_fromBuffer :: "env \<Rightarrow> byte list \<Rightarrow> jsval" where
  "Address_fromBuffer E buffer = JAddr (ripemd160 E (sha512 E buffer))"

definition Address_fromString :: "env \<Rightarrow> jsstring \<Rightarrow> jsstring \<Rightarrow> js_error + jsval" where
  "Address_fromString E s prefix = bindR (checked_base58 E s prefix) (\<lambda>addy. Inr (JAddr addy))"

definition Address_fromPublic :: "env \<Rightarrow> ec_point option \<Rightarrow> bool \<Rightarrow> byte \<Rightarrow> jsval" where
  "Address_fromPublic E Q compressed version =
     (let pub = (case Q of None \<Rightarrow> null_key_bytes | Some q \<Rightarrow> point_getEncoded E q compressed);
          addr = version # ripemd160 E (sha256 E pub);
          check = sha256 E (sha256 E addr)
      in JAddr (ripemd160 E (addr @ take 4 check)))"

definition Address_toString :: "env \<Rightarrow> jsstring \<Rightarrow> byte list \<Rightarrow> jsstring" where
  "Address_toString E prefix addy = prefix @ base58_encode E (addy @ take 4 (ripemd160 E addy))"

section \<open>Strings of values\<close>

text \<open>
  \<open>String(v)\<close>, the coercion of template literals and of \<open>regex.test(v)\<close>. Integers are below
  \<open>10 ^ 21\<close> in magnitude (larger ones print with an exponent). An object with a property
  \<open>toString\<close> that is not a function cannot be converted.
\<close>

fun intersperse_with :: "'a \<Rightarrow> 'a list list \<Rightarrow> 'a list" where
  "intersperse_with c [] = []"
| "intersperse_with c [x] = x"
| "intersperse_with c (x # y # ys) = x @ c # intersperse_with c (y # ys)"

fun js_String :: "env \<Rightarrow> jsval \<Rightarrow> js_error + jsstring" where
  "js_String E JUndef = Inr (js ''undefined'')"
| "js_String E JNull = Inr (js ''null'')"
| "js_String E (JBool b) = Inr (js (if b then ''true'' else ''false''))"
| "js_String E (JNum n) = Inr (dec_int n)"
| "js_String E JNaN = Inr (js ''NaN'')"
| "js_String E (JStr s) = Inr s"
| "js_String E (JLong u w) = Inr (Long_toString u w)"
| "js_String E (JBuf bs) = Inr (node_decode bs)"
| "js_String E (JDate t) = Inr (date_toString E t)"
| "js_String E (JArr xs) =
     bindR (mapR (\<lambda>x. if x = JUndef \<or> x = JNull then Inr [] else js_String E x) xs)
       (\<lambda>ss. Inr (intersperse_with 44 ss))"
| "js_String E (JObj kvs) =
     (if ''toString'' \<in> fst ` set kvs then Inl TypeError else Inr (js ''[object Object]''))"
| "js_String E (JPub Q) = Inr (toPublicKeyString E (address_prefix E) Q)"
| "js_String E (JAddr a) = Inr (Address_toString E (address_prefix E) a)"
| "js_String E (JOid space ty u inst) =
     Inr (dec_int space @ [46] @ dec_int ty @ [46] @ Long_toString u inst)"
| "js_String E (JFun t) = Inr (fun_toString E t)"

text \<open>\<open>v.toString()\<close>\<close>

definition js_toString :: "env \<Rightarrow> jsval \<Rightarrow> js_error + jsstring" where
  "js_toString E v = (if v = JUndef \<or> v = JNull then Inl TypeError else js_String E v)"

text \<open>\<open>parseInt(v)\<close>\<close>

definition js_parseInt :: "env \<Rightarrow> jsval \<Rightarrow> js_error + jsval" where
  "js_parseInt E v = bindR (js_String E v) (\<lambda>s. Inr (num_of (parseInt s)))"

section \<open>Texts of keys and addresses are read back\<close>

text \<open>What the code relies on in the libraries, for one point or one body of bytes.\<close>

definition base58_ok :: "env \<Rightarrow> byte list \<Rightarrow> bool" where
  "base58_ok E body \<longleftrightarrow> 4 \<le> length (ripemd160 E body) \<and>
     base58_decode E (base58_encode E (body @ take 4 (ripemd160 E body))) =
       Inr (body @ take 4 (ripemd160 E body))"

definition point_ok :: "env \<Rightarrow> ec_point \<Rightarrow> bool" where
  "point_ok E q \<longleftrightarrow> point_decodeFrom E (point_getEncoded E q (pt_compressed q)) = Inr q \<and>
     point_getEncoded E q (pt_compressed q) \<noteq> null_key_bytes"

lemma checked_base58_encode:
  assumes "base58_ok E body"
  shows "checked_base58 E (prefix @ base58_encode E (body @ take 4 (ripemd160 E body))) prefix = Inr body"
  using assms by (simp add: checked_base58_def base58_ok_def Let_def)

lemma null_key_hex: "toHex bs = replicate 66 48 \<longleftrightarrow> bs = null_key_bytes"
proof -
  have "hex_byte 0 = [48, 48]" by (simp add: hex_byte_def hex_char_def)
  moreover have "toHex (replicate n 0) = replicate (2 * n) 48" for n
    using \<open>hex_byte 0 = [48, 48]\<close> by (induction n) (simp_all add: toHex_def)
  ultimately have "toHex null_key_bytes = replicate 66 48" by (simp add: null_key_bytes_def)
  then show ?thesis by (metis toHex_inj)
qed

lemma PublicKey_fromBuffer_toBuffer:
  "(case Q of None \<Rightarrow> True | Some q \<Rightarrow> point_ok E q) \<Longrightarrow>
     PublicKey_fromBuffer E (PublicKey_toBuffer E Q) = Inr (JPub Q)"
  by (auto simp: PublicKey_fromBuffer_def PublicKey_toBuffer_def null_key_hex point_ok_def split: option.splits)

lemma fromStringOrThrow_toPublicKeyString:
  assumes "case Q of None \<Rightarrow> True | Some q \<Rightarrow> point_ok E q" "base58_ok E (PublicKey_toBuffer E Q)"
  shows "fromStringOrThrow E (toPublicKeyString E prefix Q) prefix = Inr (JPub Q)"
  using assms checked_base58_encode [OF assms(2), of prefix]
  by (simp add: fromStringOrThrow_def toPublicKeyString_def Let_def PublicKey_fromBuffer_toBuffer)

lemma Address_fromString_toString:
  "base58_ok E addy \<Longrightarrow> Address_fromString E (Address_toString E prefix addy) prefix = Inr (JAddr addy)"
  by (simp add: Address_fromString_def Address_toString_def checked_base58_encode)

text \<open>A key text is accepted only with the right prefix and the right checksum.\<close>

lemma checked_base58_Inr:
  "checked_base58 E s prefix = Inr body \<longleftrightarrow>
     (\<exists>t bs. s = prefix @ t \<and> base58_decode E t = Inr bs \<and> body = take (length bs - 4) bs \<and>
        drop (length bs - 4) bs = take 4 (ripemd160 E body))"
  by (auto simp: checked_base58_def bindR_eq_Inr Let_def split: if_splits)
    (metis append_take_drop_id)+

end
