(* ===== verification/Validation.thy ===== *)
theory Validation
  imports Keys ChainTypes
begin

text \<open>
  \<open>auth/serializer/src/validation.js\<close>: the checks and conversions every type descriptor uses.
  Each function returns the value it validates or the exception it throws; the texts of the
  messages are not modelled. The lemmas give the behaviour on decimal text, which the integer
  and asset types rest on.
\<close>

section \<open>validation.js\<close>

definition MAX_SAFE_INT :: int where
  "MAX_SAFE_INT = 9007199254740991"

definition MIN_SAFE_INT :: int where
  "MIN_SAFE_INT = - 9007199254740991"

definition is_empty :: "jsval \<Rightarrow> bool" where
  "is_empty value = (value = JNull \<or> value = JUndef)"

definition required :: "jsval \<Rightarrow> js_error + jsval" where
  "required value = (if is_empty value then Inl ValueRequired else Inr value)"

definition is_long :: "jsval \<Rightarrow> bool" where
  "is_long v \<longleftrightarrow> (case v of JLong _ _ \<Rightarrow> True | _ \<Rightarrow> False)"

definition require_long :: "jsval \<Rightarrow> js_error + jsval" where
  "require_long value = (if is_long value then Inr value else Inl LongRequired)"

definition v_string :: "jsval \<Rightarrow> js_error + jsval" where
  "v_string value =
     (if is_empty value then Inr value
      else if \<not> is_string value then Inl StringRequired else Inr value)"

definition v_number :: "jsval \<Rightarrow> js_error + jsval" where
  "v_number value =
     (if is_empty value then Inr value
      else if \<not> is_number value then Inl NumberRequired else Inr value)"

definition whole_number :: "env \<Rightarrow> jsval \<Rightarrow> js_error + jsval" where
  "whole_number E value =
     (if is_empty value then Inr value
      else bindR (js_String E value) (\<lambda>s. if 46 \<in> set s then Inl WholeNumberRequired else Inr value))"

definition v_unsigned :: "env \<Rightarrow> jsval \<Rightarrow> js_error + jsval" where
  "v_unsigned E value =
     (if is_empty value then Inr value
      else bindR (js_String E value) (\<lambda>s. if 45 \<in> set s then Inl UnsignedRequired else Inr value))"

definition all_digits :: "jsstring \<Rightarrow> bool" where
  "all_digits s \<longleftrightarrow> s \<noteq> [] \<and> list_all is_digit s"

definition is_digits :: "env \<Rightarrow> jsval \<Rightarrow> js_error + bool" where
  "is_digits E value = bindR (js_String E value) (\<lambda>s. Inr (all_digits s))"

text \<open>The relational operators on a number, a string or a \<open>Long\<close>, with the operand's coercion.\<close>

fun js_numeric :: "jsval \<Rightarrow> numeric" where
  "js_numeric (JNum n) = Dec n 0"
| "js_numeric (JStr s) = js_Number s"
| "js_numeric (JLong u w) = Dec (long_value u w) 0"
| "js_numeric _ = NumNaN"

definition js_gt :: "jsval \<Rightarrow> int \<Rightarrow> bool" where
  "js_gt v k = numeric_gt (js_numeric v) k"

definition js_lt :: "jsval \<Rightarrow> int \<Rightarrow> bool" where
  "js_lt v k = numeric_lt (js_numeric v) k"

definition outside_safe :: "jsval \<Rightarrow> bool" where
  "outside_safe v = (js_gt v MAX_SAFE_INT \<or> js_lt v MIN_SAFE_INT)"

definition no_overflow53 :: "jsval \<Rightarrow> js_error + unit" where
  "no_overflow53 value =
     (if is_number value then (if outside_safe value then Inl Overflow else Inr ())
      else if is_string value then (if outside_safe value then Inl Overflow else Inr ())
      else (case value of
              JLong u w \<Rightarrow> if outside_safe (JNum (Long_toInt u w)) then Inl Overflow else Inr ()
            | _ \<Rightarrow> Inl UnsupportedType))"

definition to_number :: "env \<Rightarrow> jsval \<Rightarrow> js_error + jsval" where
  "to_number E value =
     (if is_empty value then Inr value
      else bindR (no_overflow53 value) (\<lambda>_. if is_number value then Inr value else js_parseInt E value))"

text \<open>The string branch of \<open>no_overflow64\<close>: zeros at both ends are removed before the comparison.\<close>

definition strip_zeros :: "jsstring \<Rightarrow> jsstring" where
  "strip_zeros s = rev (dropWhile (\<lambda>c. c = 48) (rev (dropWhile (\<lambda>c. c = 48) s)))"

definition strip_dot :: "jsstring \<Rightarrow> jsstring" where
  "strip_dot s = (if s \<noteq> [] \<and> last s = 46 then butlast s else s)"

definition no_overflow64_string :: "jsstring \<Rightarrow> js_error + unit" where
  "no_overflow64_string s =
     (let v1 = strip_dot (strip_zeros s); v2 = (if v1 = [] then js ''0'' else v1)
      in bindR (Long_fromString v2) (\<lambda>w.
           if Long_toString False w \<noteq> js_trim v2 then Inl Overflow else Inr ()))"

definition no_overflow64 :: "env \<Rightarrow> jsval \<Rightarrow> js_error + unit" where
  "no_overflow64 E value =
     (if is_long value then Inr ()
      else bindR (js_get value ''t'') (\<lambda>t. bindR (js_get value ''s'') (\<lambda>s.
        if t \<noteq> JUndef \<and> s \<noteq> JUndef then bindR (js_toString E value) no_overflow64_string
        else (case value of
                JStr str \<Rightarrow> no_overflow64_string str
              | _ \<Rightarrow> if is_number value then (if outside_safe value then Inl Overflow else Inr ())
                     else Inl UnsupportedType))))"

text \<open>\<open>Long.fromString(value)\<close> on a number prints it first; any other value is passed as it is.\<close>

definition to_long :: "env \<Rightarrow> jsval \<Rightarrow> js_error + jsval" where
  "to_long E value =
     (if is_empty value \<or> is_long value then Inr value
      else bindR (no_overflow64 E value) (\<lambda>_.
        if is_string value \<or> is_number value
        then bindR (js_String E value) (\<lambda>s. bindR (Long_fromString s) (\<lambda>w. Inr (JLong False w)))
        else Inl TypeError))"

definition to_string :: "env \<Rightarrow> jsval \<Rightarrow> js_error + jsval" where
  "to_string E value =
     (if is_empty value then Inr value
      else if is_string value then Inr value
      else if is_number value then
        bindR (no_overflow53 value) (\<lambda>_. bindR (js_String E value) (\<lambda>s. Inr (JStr s)))
      else if is_long value then bindR (js_String E value) (\<lambda>s. Inr (JStr s))
      else Inl UnsupportedType)"

definition require_test :: "env \<Rightarrow> (jsstring \<Rightarrow> bool) \<Rightarrow> jsval \<Rightarrow> js_error + jsval" where
  "require_test E regex value =
     (if is_empty value then Inr value
      else bindR (js_String E value) (\<lambda>s. if regex s then Inr value else Inl Unmatched))"

text \<open>\<open>value.match(regex)\<close> exists on strings only; the regular expression returns its groups.\<close>

definition require_match :: "(jsstring \<Rightarrow> jsstring list option) \<Rightarrow> jsval \<Rightarrow> js_error + jsstring list option" where
  "require_match regex value =
     (if is_empty value then Inr None
      else (case value of
              JStr s \<Rightarrow> (case regex s of None \<Rightarrow> Inl Unmatched | Some gs \<Rightarrow> Inr (Some gs))
            | _ \<Rightarrow> Inl TypeError))"

definition require_range :: "env \<Rightarrow> int \<Rightarrow> int \<Rightarrow> jsval \<Rightarrow> js_error + jsval" where
  "require_range E lo hi value =
     (if is_empty value then Inr value
      else bindR (to_number E value) (\<lambda>_.
        if js_lt value lo \<or> js_gt value hi then Inl OutOfRange else Inr value))"

text \<open>
  The regular expression \<open>new RegExp(`${reserved_spaces}\.${object_type}\.[0-9]+$`)\<close>: the template
  literal drops the backslashes, so each dot matches any character but a line terminator, and the
  match may start anywhere.
\<close>

definition any_char :: "code_unit \<Rightarrow> bool" where
  "any_char c \<longleftrightarrow> c \<noteq> 10 \<and> c \<noteq> 13 \<and> c \<noteq> 8232 \<and> c \<noteq> 8233"

definition object_type_at :: "jsstring \<Rightarrow> jsstring \<Rightarrow> jsstring \<Rightarrow> bool" where
  "object_type_at rs ot s \<longleftrightarrow>
     (let n = length rs; m = length ot
      in n + m + 3 \<le> length s \<and> take n s = rs \<and> any_char (s ! n) \<and> take m (drop (n + 1) s) = ot
         \<and> any_char (s ! (n + m + 1)) \<and> list_all is_digit (drop (n + m + 2) s))"

definition object_type_regex :: "jsstring \<Rightarrow> jsstring \<Rightarrow> jsstring \<Rightarrow> bool" where
  "object_type_regex rs ot s \<longleftrightarrow> list_ex (\<lambda>i. object_type_at rs ot (drop i s)) [0..<length s]"

definition require_object_type :: "env \<Rightarrow> int \<Rightarrow> string \<Rightarrow> jsval \<Rightarrow> js_error + jsval" where
  "require_object_type E spaces type value =
     (if is_empty value then Inr value
      else (case map_of object_type type of
              None \<Rightarrow> Inl UnknownObjectType
            | Some ot \<Rightarrow>
                if ot = 0 then Inl UnknownObjectType
                else bindR (js_String E value) (\<lambda>s.
                  if object_type_regex (dec_int spaces) (dec_int ot) s then Inr value
                  else Inl ExpectingObjectType)))"

text \<open>\<open>value.split(".")[i]\<close>\<close>

definition dot_part :: "nat \<Rightarrow> jsval \<Rightarrow> js_error + jsval" where
  "dot_part i value =
     (case value of
        JStr s \<Rightarrow> (let ps = split_on 46 s in Inr (if i < length ps then JStr (ps ! i) else JUndef))
      | _ \<Rightarrow> Inl TypeError)"

definition get_instance :: "env \<Rightarrow> int \<Rightarrow> string \<Rightarrow> jsval \<Rightarrow> js_error + jsval" where
  "get_instance E spaces type value =
     (if is_empty value then Inr value
      else bindR (require_object_type E spaces type value) (\<lambda>_. bindR (dot_part 2 value) (to_number E)))"

definition require_relative_type :: "env \<Rightarrow> string \<Rightarrow> jsval \<Rightarrow> js_error + jsval" where
  "require_relative_type E type value = bindR (require_object_type E 0 type value) (\<lambda>_. Inr value)"

definition get_relative_instance :: "env \<Rightarrow> string \<Rightarrow> jsval \<Rightarrow> js_error + jsval" where
  "get_relative_instance E type value =
     (if is_empty value then Inr value
      else bindR (require_object_type E 0 type value) (\<lambda>_. bindR (dot_part 2 value) (to_number E)))"

definition require_protocol_type :: "env \<Rightarrow> string \<Rightarrow> jsval \<Rightarrow> js_error + jsval" where
  "require_protocol_type E type value = bindR (require_object_type E 1 type value) (\<lambda>_. Inr value)"

definition get_protocol_instance :: "env \<Rightarrow> string \<Rightarrow> jsval \<Rightarrow> js_error + jsval" where
  "get_protocol_instance E type value =
     (if is_empty value then Inr value
      else bindR (require_object_type E 1 type value) (\<lambda>_. bindR (dot_part 2 value) (to_number E)))"

text \<open>\<open>require_object_id\<close> is declared and never assigned: the call throws.\<close>

definition require_object_id :: "jsval \<Rightarrow> js_error + jsval" where
  "require_object_id value = Inl TypeError"

definition get_protocol_type :: "env \<Rightarrow> jsval \<Rightarrow> js_error + jsval" where
  "get_protocol_type E value =
     (if is_empty value then Inr value
      else bindR (require_object_id value) (\<lambda>_. bindR (dot_part 1 value) (to_number E)))"

definition get_protocol_type_name :: "env \<Rightarrow> jsval \<Rightarrow> js_error + jsval" where
  "get_protocol_type_name E value =
     (if is_empty value then Inr value
      else bindR (get_protocol_type E value) (\<lambda>type_id.
        case type_id of
          JNum n \<Rightarrow> Inr (if 0 \<le> n \<and> n < int (length object_type)
                         then JStr (js (fst (object_type ! nat n))) else JUndef)
        | _ \<Rightarrow> Inr JUndef))"

definition require_implementation_type :: "env \<Rightarrow> string \<Rightarrow> jsval \<Rightarrow> js_error + jsval" where
  "require_implementation_type E type value = bindR (require_object_type E 2 type value) (\<lambda>_. Inr value)"

definition get_implementation_instance :: "env \<Rightarrow> string \<Rightarrow> jsval \<Rightarrow> js_error + jsval" where
  "get_implementation_instance E type value =
     (if is_empty value then Inr value
      else bindR (require_object_type E 2 type value) (\<lambda>_. bindR (dot_part 2 value) (to_number E)))"

section \<open>Range checks\<close>

lemma js_compare_num [simp]: "js_gt (JNum n) k = (n > k)" "js_lt (JNum n) k = (n < k)"
  by (auto simp: js_gt_def js_lt_def numeric_lt_def)

lemma required_eq_Inr [simp]: "required v = Inr w \<longleftrightarrow> v = w \<and> w \<noteq> JNull \<and> w \<noteq> JUndef"
  by (auto simp: required_def is_empty_def)

lemma required_values [simp]:
  "required (JNum n) = Inr (JNum n)" "required (JStr s) = Inr (JStr s)" "required (JBuf bs) = Inr (JBuf bs)"
  "required (JArr xs) = Inr (JArr xs)" "required (JObj kvs) = Inr (JObj kvs)" "required (JLong u w) = Inr (JLong u w)"
  "required (JPub q) = Inr (JPub q)" "required (JBool b) = Inr (JBool b)" "required (JAddr a) = Inr (JAddr a)"
  "required (JOid x y u z) = Inr (JOid x y u z)" "required JUndef = Inl ValueRequired" "required JNull = Inl ValueRequired"
  by (simp_all add: required_def is_empty_def)

text \<open>A number passes a range check exactly when it is in the range and a safe integer.\<close>

lemma require_range_num:
  assumes "MIN_SAFE_INT \<le> lo" "hi \<le> MAX_SAFE_INT"
  shows "require_range E lo hi (JNum n) = (if lo \<le> n \<and> n \<le> hi then Inr (JNum n)
      else if MIN_SAFE_INT \<le> n \<and> n \<le> MAX_SAFE_INT then Inl OutOfRange else Inl Overflow)"
  using assms
  by (auto simp: require_range_def is_empty_def to_number_def no_overflow53_def is_number_def outside_safe_def)

section \<open>Decimal text as 64-bit integers\<close>

lemma strip_zeros_digits: "list_all is_digit s \<Longrightarrow> list_all is_digit (strip_zeros s)"
  by (auto simp: strip_zeros_def list_all_iff dest!: set_dropWhileD)

lemma strip_zeros_hd: "strip_zeros s \<noteq> [] \<Longrightarrow> hd (strip_zeros s) \<noteq> 48"
proof -
  let ?t = "dropWhile (\<lambda>c. c = 48) s"
  assume ne: "strip_zeros s \<noteq> []"
  obtain z where z: "rev ?t = z @ dropWhile (\<lambda>c. c = 48) (rev ?t)"
    by (metis takeWhile_dropWhile_id)
  then have t: "?t = strip_zeros s @ rev z" by (metis rev_append rev_rev_ident strip_zeros_def)
  with ne have "?t \<noteq> []" "hd ?t = hd (strip_zeros s)" by auto
  then show ?thesis using hd_dropWhile [of "\<lambda>c. c = 48" s] by auto
qed

lemma strip_zeros_le: "list_all is_digit s \<Longrightarrow> digits_val (strip_zeros s) \<le> digits_val s"
proof -
  let ?t = "dropWhile (\<lambda>c. c = 48) s"
  obtain z where z: "rev ?t = z @ dropWhile (\<lambda>c. c = 48) (rev ?t)"
    by (metis takeWhile_dropWhile_id)
  then have t: "?t = strip_zeros s @ rev z" by (metis rev_append rev_rev_ident strip_zeros_def)
  have "digits_val s = digits_val ?t" by (simp add: digits_val_dropWhile_zero)
  then show ?thesis by (simp add: t digits_val_append le_add1 trans_le_add1)
qed

lemma strip_dot_digits: "list_all is_digit s \<Longrightarrow> strip_dot s = s"
proof -
  have "\<not> is_digit 46" by (simp add: is_digit_def)
  then show "list_all is_digit s \<Longrightarrow> strip_dot s = s"
    by (auto simp: strip_dot_def list_all_iff dest: last_in_set)
qed

lemma long_value_of_nat: "v < 2 ^ 63 \<Longrightarrow> long_value False (of_nat v) = int v"
proof -
  assume v: "v < 2 ^ 63"
  then have "sint (of_int (int v) :: 64 word) = int v"
    by (subst sint_sbintrunc') (simp add: signed_take_bit_int_eq_self)
  then show ?thesis by (simp add: long_value_def)
qed

text \<open>
  The overflow check accepts a numeral exactly when what is left of it without the zeros at its
  ends is below \<open>2 ^ 63\<close>.
\<close>

lemma no_overflow64_digits:
  assumes "list_all is_digit s" "digits_val (strip_zeros s) < 2 ^ 63"
  shows "no_overflow64_string s = Inr ()"
proof (cases "strip_zeros s = []")
  case True
  have "Long_fromString (js ''0'') = Inr 0" "Long_toString False 0 = js ''0''"
    using Long_fromString_digits [of "[48]"]
    by (simp_all add: js_def is_digit_def digits_val_Cons Long_toString_def del: Long_fromString.simps)
  moreover have "js_trim (js ''0'') = js ''0''" by (rule js_trim_digits) (simp add: js_def is_digit_def)
  ultimately show ?thesis using True by (simp add: no_overflow64_string_def strip_dot_def)
next
  case False
  let ?t = "strip_zeros s"
  have d: "list_all is_digit ?t" using assms(1) by (rule strip_zeros_digits)
  have "dec_nat (digits_val ?t) = ?t"
    using d False strip_zeros_hd by (intro dec_nat_digits_val) auto
  then have "Long_toString False (of_nat (digits_val ?t)) = ?t"
    using assms(2) by (simp add: Long_toString_eq long_value_of_nat dec_int_def)
  with d False show ?thesis
    by (simp add: no_overflow64_string_def strip_dot_digits Long_fromString_digits js_trim_digits)
qed

text \<open>A numeral below \<open>2 ^ 63\<close> is converted to the signed \<open>Long\<close> of its value.\<close>

lemma to_long_digits:
  assumes "list_all is_digit s" "s \<noteq> []" "digits_val (strip_zeros s) < 2 ^ 63"
  shows "to_long E (JStr s) = Inr (JLong False (of_nat (digits_val s)))"
  using assms
  by (simp add: to_long_def is_empty_def is_long_def no_overflow64_def is_string_def
      no_overflow64_digits Long_fromString_digits)

lemma to_long_long [simp]: "to_long E (JLong u w) = Inr (JLong u w)"
  by (simp add: to_long_def is_long_def)

end
