(* ===== verification/Decimals.thy ===== *)
theory Decimals
  imports Validation
begin

text \<open>
  \<open>auth/serializer/src/number_utils.js\<close> and \<open>auth/serializer/src/precision.js\<close>: conversions
  between decimal text and integers with an implied decimal point. The lemmas state them on the
  value a text denotes.
\<close>

section \<open>number\_utils.js\<close>

definition number_text :: "env \<Rightarrow> jsval \<Rightarrow> js_error + jsstring" where
  "number_text E number =
     (if is_number number
      then (case number of
              JNum n \<Rightarrow> if n \<le> MAX_SAFE_INT then Inr (dec_int n) else Inl AssertionError
            | _ \<Rightarrow> Inl AssertionError)
      else js_toString E number)"

text \<open>\<open>/^[0-9]*\.?[0-9]*$/\<close>\<close>

definition decimal_regex :: "jsstring \<Rightarrow> bool" where
  "decimal_regex s \<longleftrightarrow>
     (let r = dropWhile is_digit s in r = [] \<or> (hd r = 46 \<and> list_all is_digit (tl r)))"

definition toImpliedDecimal :: "env \<Rightarrow> jsval \<Rightarrow> nat \<Rightarrow> js_error + jsstring" where
  "toImpliedDecimal E number precision =
     bindR (number_text E number) (\<lambda>s0.
       let s = js_trim s0
       in if \<not> decimal_regex s then Inl AssertionError
          else (let ps = split_on 46 s; whole = hd ps; decimal = (if length ps < 2 then [] else ps ! 1)
                in if precision < length decimal then Inl AssertionError
                   else Inr (dropWhile (\<lambda>c. c = 48) whole @ decimal
                             @ replicate (precision - length decimal) 48)))"

text \<open>The padding loop: zeros in front until there are \<open>precision + 1\<close> characters.\<close>

definition pad_front :: "nat \<Rightarrow> jsstring \<Rightarrow> jsstring" where
  "pad_front n s = replicate (n - length s) 48 @ s"

definition implied_point :: "jsstring \<Rightarrow> nat \<Rightarrow> jsstring" where
  "implied_point number precision =
     (let n = pad_front (precision + 1) number; k = length n - precision; dec_string = drop k n
      in take k n @ (if dec_string = [] then [] else 46 # dec_string))"

definition fromImpliedDecimal :: "env \<Rightarrow> jsval \<Rightarrow> nat \<Rightarrow> js_error + jsstring" where
  "fromImpliedDecimal E number precision =
     bindR (number_text E number) (\<lambda>s. Inr (implied_point s precision))"

section \<open>precision.js\<close>

text \<open>\<open>/^-?0*([0-9]*)\.?([0-9]*)$/\<close>, with its two groups.\<close>

definition number_parts :: "jsstring \<Rightarrow> (jsstring \<times> jsstring) option" where
  "number_parts s =
     (let s1 = (if take 1 s = [45] then drop 1 s else s);
          s2 = dropWhile (\<lambda>c. c = 48) s1;
          w = takeWhile is_digit s2; r = dropWhile is_digit s2;
          f = (if take 1 r = [46] then drop 1 r else r)
      in if list_all is_digit f then Some (w, f) else None)"

definition strip_trailing_zeros :: "jsstring \<Rightarrow> jsstring" where
  "strip_trailing_zeros s = rev (dropWhile (\<lambda>c. c = 48) (rev s))"

definition decimal_precision_string :: "env \<Rightarrow> jsval \<Rightarrow> jsval \<Rightarrow> js_error + jsstring" where
  "decimal_precision_string E number precision =
     bindR (required number) (\<lambda>_. bindR (required precision) (\<lambda>_.
     bindR (to_string E number) (\<lambda>ns.
     bindR (js_String E ns) (\<lambda>s0.
     bindR (to_number E precision) (\<lambda>p.
       let s = js_trim s0
       in case number_parts s of
            None \<Rightarrow> Inl InvalidNumber
          | Some (int_part, decimal0) \<Rightarrow>
              (let decimal_part = strip_trailing_zeros decimal0;
                   sign0 = (if take 1 s = [45] then [45] else []);
                   sign = (if sign0 \<noteq> [] \<and> list_all (\<lambda>c. c = 48) (int_part @ decimal_part) then [] else sign0);
                   int_part' = (if int_part = [] then [48] else int_part)
               in case p of
                    JNum n \<Rightarrow>
                      if n < int (length decimal_part) then Inl TooManyDecimals
                      else Inr (sign @ int_part' @ decimal_part
                                @ replicate (nat n - length decimal_part) 48)
                  | _ \<Rightarrow> Inr (sign @ int_part' @ decimal_part)))))))"

definition to_long64 :: "env \<Rightarrow> jsval \<Rightarrow> jsval \<Rightarrow> js_error + jsval" where
  "to_long64 E number_or_string precision =
     bindR (required number_or_string) (\<lambda>_. bindR (required precision) (\<lambda>_.
     bindR (decimal_precision_string E number_or_string precision) (\<lambda>s. to_long E (JStr s))))"

definition to_bigint64 :: "env \<Rightarrow> (jsstring \<Rightarrow> 'b) \<Rightarrow> jsval \<Rightarrow> jsval \<Rightarrow> js_error + 'b" where
  "to_bigint64 E BigInteger number_or_string precision =
     bindR (to_long64 E number_or_string precision) (\<lambda>long.
     bindR (js_toString E long) (\<lambda>s. Inr (BigInteger s)))"

definition to_string64 :: "env \<Rightarrow> jsval \<Rightarrow> jsval \<Rightarrow> js_error + jsstring" where
  "to_string64 E number_or_string precision =
     bindR (required number_or_string) (\<lambda>_. bindR (v_number precision) (\<lambda>_.
     bindR (to_long E number_or_string) (\<lambda>number_long.
     bindR (decimal_precision_string E number_long precision) (\<lambda>string64.
     bindR (no_overflow64_string string64) (\<lambda>_. Inr string64)))))"

section \<open>Implied decimal point\<close>

lemma implied_point_Suc:
  assumes "0 < p"
  shows "implied_point s p =
    (let n = pad_front (p + 1) s in take (length n - p) n @ 46 # drop (length n - p) n)"
  using assms by (auto simp: implied_point_def pad_front_def Let_def)

lemma implied_point_0: "s \<noteq> [] \<Longrightarrow> implied_point s 0 = s"
  by (cases s) (auto simp: implied_point_def pad_front_def Let_def)

lemma pad_front_digits: "list_all is_digit s \<Longrightarrow> list_all is_digit (pad_front n s)"
proof -
  have "list_all is_digit (replicate m 48)" for m by (induction m) (simp_all add: is_digit_def)
  then show "list_all is_digit s \<Longrightarrow> ?thesis" by (simp add: pad_front_def)
qed

lemma digits_val_pad_front [simp]: "digits_val (pad_front n s) = digits_val s"
  by (simp add: pad_front_def digits_val_append)

text \<open>A digit string with a point inserted is a decimal with the same digits and that many places.\<close>

lemma implied_point_split:
  assumes "list_all is_digit s" "s \<noteq> []"
  obtains w f where "implied_point s p = w @ (if p = 0 then [] else 46 # f)" "length f = p" "w \<noteq> []"
    "list_all is_digit w" "list_all is_digit f" "digits_val (w @ f) = digits_val s" "w @ f = pad_front (p + 1) s"
proof
  let ?n = "pad_front (p + 1) s"
  let ?k = "length ?n - p"
  have l: "p + 1 \<le> length ?n" by (simp add: pad_front_def)
  show "implied_point s p = take ?k ?n @ (if p = 0 then [] else 46 # drop ?k ?n)"
    using assms l by (auto simp: implied_point_def Let_def)
  show "length (drop ?k ?n) = p" "take ?k ?n \<noteq> []" using l by auto
  show "list_all is_digit (take ?k ?n)" "list_all is_digit (drop ?k ?n)"
    using pad_front_digits [OF assms(1), of "p + 1"] by (auto simp: list_all_iff dest: in_set_takeD in_set_dropD)
  show "digits_val (take ?k ?n @ drop ?k ?n) = digits_val s" "take ?k ?n @ drop ?k ?n = ?n" by simp_all
qed

lemma split_on_none: "c \<notin> set s \<Longrightarrow> split_on c s = [s]"
  by (induction s) auto

lemma split_on_once: "c \<notin> set s \<Longrightarrow> split_on c (s @ c # t) = s # split_on c t"
  by (induction s) (auto split: list.splits)

lemma digits_no: "list_all is_digit s \<Longrightarrow> \<not> is_digit c \<Longrightarrow> c \<notin> set s"
  by (auto simp: list_all_iff)

lemma not_digit [simp]: "\<not> is_digit 46" "\<not> is_digit 32" "\<not> is_digit 45" "\<not> is_digit 64"
  by (simp_all add: is_digit_def)

lemma not_ws_46 [simp]: "\<not> is_ws 46"
  by (simp add: is_ws_def)

lemma not_ws_digits: "list_all is_digit s \<Longrightarrow> list_all (\<lambda>c. \<not> is_ws c) s"
  by (auto simp: list_all_iff dest: digit_not_ws)

text \<open>Printing with an implied point and reading it back keeps the integer.\<close>

lemma toImplied_fromImplied:
  assumes "list_all is_digit s" "s \<noteq> []"
  shows "\<exists>t. toImpliedDecimal E (JStr (implied_point s p)) p = Inr t \<and> digits_val t = digits_val s \<and> list_all is_digit t"
proof -
  obtain w f where wf: "implied_point s p = w @ (if p = 0 then [] else 46 # f)" "length f = p" "w \<noteq> []"
    "list_all is_digit w" "list_all is_digit f" "digits_val (w @ f) = digits_val s"
    using implied_point_split [OF assms, of p] by metis
  let ?s = "implied_point s p"
  have ws: "list_all (\<lambda>c. \<not> is_ws c) ?s"
    using wf not_ws_digits [of w] not_ws_digits [of f] by auto
  have dw: "dropWhile is_digit ?s = (if p = 0 then [] else 46 # f)"
    using wf by (auto simp: dropWhile_append list_all_iff)
  have sp: "split_on 46 ?s = (if p = 0 then [w] else [w, f])"
    using wf digits_no [of w 46] digits_no [of f 46] by (auto simp: split_on_none split_on_once)
  have r: "toImpliedDecimal E (JStr ?s) p = Inr (dropWhile (\<lambda>c. c = 48) w @ f)"
    using wf ws dw sp
    by (cases "p = 0")
      (simp_all add: toImpliedDecimal_def number_text_def is_number_def js_toString_def js_trim_no_ws decimal_regex_def Let_def
         del: dropWhile_eq_Nil_conv)
  have "digits_val (dropWhile (\<lambda>c. c = 48) w @ f) = digits_val (w @ f)"
    by (simp add: digits_val_append digits_val_dropWhile_zero)
  moreover have "list_all is_digit (dropWhile (\<lambda>c. c = 48) w @ f)"
    using wf by (auto simp: list_all_iff dest: set_dropWhileD)
  ultimately show ?thesis using r wf by auto
qed

end
