(* ===== verification/ObjectId.thy ===== *)
theory ObjectId
  imports Validation
begin

text \<open>
  \<open>auth/serializer/src/object_id.js\<close>: three-part object identifiers packed in 64 bits (8 bits of
  space, 8 of type, 48 of instance). Packing and unpacking are inverse for spaces below 128; the
  sign of the shift breaks it from 128 on.
\<close>

definition DB_MAX_INSTANCE_ID :: "64 word" where
  "DB_MAX_INSTANCE_ID = Long_fromNumber (Some (2 ^ 48 - 1))"

text \<open>The constructor; the object it would throw is not one, so the failing \<open>throw\<close> is a \<open>TypeError\<close>.\<close>

definition ObjectId_new :: "int \<Rightarrow> int \<Rightarrow> bool \<Rightarrow> 64 word \<Rightarrow> js_error + jsval" where
  "ObjectId_new space type u inst =
     (if all_digits (Long_toString u inst) then Inr (JOid space type u inst) else Inl TypeError)"

text \<open>\<open>/^([0-9]+)\.([0-9]+)\.([0-9]+)$/\<close>, with its groups.\<close>

definition object_id_regex :: "jsstring \<Rightarrow> jsstring list option" where
  "object_id_regex s =
     (let ps = split_on 46 s in if length ps = 3 \<and> list_all all_digits ps then Some ps else None)"

definition ObjectId_fromString :: "env \<Rightarrow> jsval \<Rightarrow> js_error + jsval" where
  "ObjectId_fromString E value =
     bindR (js_get value ''space'') (\<lambda>sp. bindR (js_get value ''type'') (\<lambda>ty. bindR (js_get value ''instance'') (\<lambda>inst.
       if sp \<noteq> JUndef \<and> ty \<noteq> JUndef \<and> inst \<noteq> JUndef then Inr value
       else bindR (required value) (\<lambda>v. bindR (require_match object_id_regex v) (\<lambda>params.
         case params of
           Some [a, b, c] \<Rightarrow>
             bindR (Long_fromString c) (\<lambda>w.
               ObjectId_new (int (digits_val a)) (int (digits_val b)) False w)
         | _ \<Rightarrow> Inl TypeError)))))"

definition ObjectId_fromLong :: "bool \<Rightarrow> 64 word \<Rightarrow> js_error + jsval" where
  "ObjectId_fromLong u long =
     (let space = Long_toInt u (signed_drop_bit 56 long);
          type = uint (ucast (signed_drop_bit 48 long) AND (255 :: 32 word));
          inst = long AND DB_MAX_INSTANCE_ID
      in ObjectId_new space type u inst)"

definition ObjectId_fromByteBuffer :: "bytebuffer \<Rightarrow> js_error + jsval \<times> bytebuffer" where
  "ObjectId_fromByteBuffer b =
     bindR (readUint64 b) (\<lambda>(v, b'). case v of
       JLong u w \<Rightarrow> bindR (ObjectId_fromLong u w) (\<lambda>oid. Inr (oid, b'))
     | _ \<Rightarrow> Inl TypeError)"

definition ObjectId_toLong :: "int \<Rightarrow> int \<Rightarrow> 64 word \<Rightarrow> 64 word" where
  "ObjectId_toLong space type inst =
     push_bit 56 (Long_fromNumber (Some space)) OR (push_bit 48 (Long_fromNumber (Some type)) OR inst)"

definition ObjectId_appendByteBuffer :: "bytebuffer \<Rightarrow> jsval \<Rightarrow> js_error + bytebuffer" where
  "ObjectId_appendByteBuffer b oid =
     (case oid of
        JOid space type u inst \<Rightarrow> writeUint64 b (JLong False (ObjectId_toLong space type inst))
      | _ \<Rightarrow> Inl TypeError)"

definition ObjectId_toString :: "jsval \<Rightarrow> js_error + jsstring" where
  "ObjectId_toString oid =
     (case oid of
        JOid space type u inst \<Rightarrow> Inr (dec_int space @ [46] @ dec_int type @ [46] @ Long_toString u inst)
      | _ \<Rightarrow> Inl TypeError)"

section \<open>Packing\<close>

lemma unat_Long_fromNumber: "0 \<le> n \<Longrightarrow> n < 2 ^ 62 \<Longrightarrow> unat (Long_fromNumber (Some n)) = nat n"
proof -
  assume n: "0 \<le> n" "n < 2 ^ 62"
  then have "uint (of_int n :: 64 word) = n"
    by (subst uint_word_of_int_eq) (simp add: take_bit_int_eq_self)
  with n show ?thesis by (simp add: Long_fromNumber_def unat_eq_nat_uint)
qed

lemma ObjectId_toLong_unat:
  assumes "0 \<le> space" "space < 256" "0 \<le> type" "type < 256" "unat inst < 2 ^ 48"
  shows "unat (ObjectId_toLong space type inst) = nat space * 2 ^ 56 + nat type * 2 ^ 48 + unat inst"
proof -
  let ?t = "push_bit 48 (Long_fromNumber (Some type))" and ?s = "push_bit 56 (Long_fromNumber (Some space))"
  have s: "unat ?s = nat space * 2 ^ 56" and t: "unat ?t = nat type * 2 ^ 48"
    using assms unat_push_bit [of "Long_fromNumber (Some space)" 56] unat_push_bit [of "Long_fromNumber (Some type)" 48]
    by (simp_all add: unat_Long_fromNumber)
  have ti: "unat (?t OR inst) = nat type * 2 ^ 48 + unat inst"
    using unat_or_disjoint [OF assms(5) t] t by simp
  moreover have "unat (?t OR inst) < 2 ^ 56" using ti assms by simp
  ultimately show ?thesis using unat_or_disjoint [OF _ s, of "?t OR inst"] s by (simp add: ObjectId_toLong_def)
qed

lemma signed_drop_bit_nonneg:
  "unat (w :: 64 word) < 2 ^ 63 \<Longrightarrow> signed_drop_bit n w = drop_bit n w"
proof -
  assume "unat w < 2 ^ 63"
  then have "\<not> bit w 63" by (simp add: bit_iff_odd unat_div word_arith_nat_div odd_iff_mod_2_eq_one)
  then show ?thesis
    by (intro bit_word_eqI) (auto simp: bit_simps not_le dest: bit_imp_le_length)
qed

lemma all_digits_unsigned: "all_digits (Long_toString True w)"
  by (simp add: all_digits_def Long_toString_eq long_value_def dec_int_def)

text \<open>What is packed is unpacked again, for spaces below 128 (the sign bit is clear).\<close>

lemma ObjectId_fromLong_toLong:
  assumes "0 \<le> space" "space < 128" "0 \<le> type" "type < 256" "unat inst < 2 ^ 48"
  shows "ObjectId_fromLong True (ObjectId_toLong space type inst) = Inr (JOid space type True inst)"
proof -
  let ?w = "ObjectId_toLong space type inst"
  have w: "unat ?w = nat space * 2 ^ 56 + nat type * 2 ^ 48 + unat inst"
    using assms by (intro ObjectId_toLong_unat) simp_all
  have w': "unat ?w = unat inst + (nat space * 256 + nat type) * 2 ^ 48" using w by simp
  have lt: "unat ?w < 2 ^ 63" using assms unfolding w by simp
  have d: "unat (drop_bit 56 ?w) = nat space" "unat (drop_bit 48 ?w) = nat space * 256 + nat type"
    using assms unfolding unat_drop_bit w by simp_all
  have "unat (?w AND mask 48) = unat inst" using assms unfolding unat_and_mask2 w' by (simp only: mod_mult_self1) simp
  moreover have "DB_MAX_INSTANCE_ID = mask 48" by (simp add: DB_MAX_INSTANCE_ID_def Long_fromNumber_def mask_eq_exp_minus_1)
  ultimately have i: "?w AND DB_MAX_INSTANCE_ID = inst" by (simp add: word_unat_eq_iff)
  have "unat (ucast (drop_bit 56 ?w) :: 32 word) = nat space" using d assms by (simp add: unat_ucast_mod)
  then have s: "uint (ucast (drop_bit 56 ?w) :: 32 word) = space" using assms by (metis nat_0_le uint_nat)
  have "unat (ucast (drop_bit 48 ?w) AND 255 :: 32 word) = nat type" using d assms by (simp add: unat_and_255 unat_ucast_mod)
  then have t: "uint (ucast (drop_bit 48 ?w) AND 255 :: 32 word) = type" using assms by (metis nat_0_le uint_nat)
  show ?thesis
    using s t i by (simp add: ObjectId_fromLong_def ObjectId_new_def Long_toInt_def signed_drop_bit_nonneg [OF lt]
        all_digits_unsigned Let_def del: drop_bit_eq_div)
qed

end
