(* ===== verification/SortSpec.thy ===== *)
theory SortSpec
  imports JSValue "HOL-Library.List_Lexorder"
begin

text \<open>
  \<open>Array.prototype.sort\<close> with a comparison function that may throw: a stable sort that calls the
  comparison on pairs of elements (never when there are fewer than two) and puts \<open>undefined\<close> last.
  The language leaves the order of the calls open; the result is the same for every consistent
  comparison. The locale \<open>key_compare\<close> states what a comparison has to satisfy, and shows that the
  sort then is the stable sort by a key: sorted, a permutation of its input, idempotent, and
  independent of the order of elements with different keys.
\<close>

text \<open>The result of a comparison is a number; \<open>NaN\<close> counts as zero.\<close>

definition cmp_number :: "int option \<Rightarrow> int" where
  "cmp_number c = (case c of None \<Rightarrow> 0 | Some n \<Rightarrow> n)"

fun insertR :: "('a \<Rightarrow> 'a \<Rightarrow> 'e + int option) \<Rightarrow> 'a \<Rightarrow> 'a list \<Rightarrow> 'e + 'a list" where
  "insertR cmp x [] = Inr [x]"
| "insertR cmp x (y # ys) =
     bindR (cmp x y) (\<lambda>c.
       if cmp_number c \<le> 0 then Inr (x # y # ys)
       else bindR (insertR cmp x ys) (\<lambda>zs. Inr (y # zs)))"

fun sortR :: "('a \<Rightarrow> 'a \<Rightarrow> 'e + int option) \<Rightarrow> 'a list \<Rightarrow> 'e + 'a list" where
  "sortR cmp [] = Inr []"
| "sortR cmp (x # xs) = bindR (sortR cmp xs) (insertR cmp x)"

definition array_sort :: "(jsval \<Rightarrow> jsval \<Rightarrow> js_error + int option) \<Rightarrow> jsval list \<Rightarrow> js_error + jsval list" where
  "array_sort cmp xs =
     bindR (sortR cmp (filter (\<lambda>x. x \<noteq> JUndef) xs)) (\<lambda>ys.
       Inr (ys @ filter (\<lambda>x. x = JUndef) xs))"

text \<open>\<open>a > b ? 1 : a < b ? -1 : 0\<close> on strings\<close>

definition strCmp :: "jsstring \<Rightarrow> jsstring \<Rightarrow> int option" where
  "strCmp a b = Some (if str_less b a then 1 else if str_less a b then - 1 else 0)"

lemma str_less_list_less: "str_less a b \<longleftrightarrow> a < b"
  by (induction a b rule: str_less.induct) auto

lemma strCmp_le: "cmp_number (strCmp a b) \<le> 0 \<longleftrightarrow> a \<le> b"
  by (auto simp: cmp_number_def strCmp_def str_less_list_less)

section \<open>Comparisons by a key\<close>

locale key_compare =
  fixes cmp :: "'a \<Rightarrow> 'a \<Rightarrow> 'e + int option"
    and carrier :: "'a \<Rightarrow> bool"
    and key :: "'a \<Rightarrow> 'k::linorder"
  assumes cmp_key: "carrier x \<Longrightarrow> carrier y \<Longrightarrow> \<exists>c. cmp x y = Inr c \<and> (cmp_number c \<le> 0 \<longleftrightarrow> key x \<le> key y)"
begin

lemma insertR_eq: "carrier x \<Longrightarrow> list_all carrier ys \<Longrightarrow> insertR cmp x ys = Inr (insort_key key x ys)"
proof (induction ys)
  case (Cons y ys)
  then obtain c where "cmp x y = Inr c" "cmp_number c \<le> 0 \<longleftrightarrow> key x \<le> key y"
    using cmp_key [of x y] by auto
  with Cons show ?case by simp
qed simp

lemma sortR_eq: "list_all carrier xs \<Longrightarrow> sortR cmp xs = Inr (sort_key key xs)"
proof (induction xs)
  case (Cons x xs)
  then have "list_all carrier (sort_key key xs)" by (simp add: list_all_iff)
  with Cons show ?case by (simp add: insertR_eq)
qed simp

lemma sortR_sorted: "list_all carrier xs \<Longrightarrow> sortR cmp xs = Inr ys \<Longrightarrow> sorted (map key ys)"
  by (auto simp: sortR_eq)

lemma sortR_mset: "list_all carrier xs \<Longrightarrow> sortR cmp xs = Inr ys \<Longrightarrow> mset ys = mset xs"
  by (auto simp: sortR_eq)

lemma sortR_id: "list_all carrier xs \<Longrightarrow> sorted (map key xs) \<Longrightarrow> sortR cmp xs = Inr xs"
  by (simp add: sortR_eq sort_key_id_if_sorted)

lemma sortR_idem: "list_all carrier xs \<Longrightarrow> sortR cmp xs = Inr ys \<Longrightarrow> sortR cmp ys = Inr ys"
proof -
  assume c: "list_all carrier xs" and s: "sortR cmp xs = Inr ys"
  then have "list_all carrier ys" using sortR_mset [OF c s] by (metis list_all_iff set_mset_mset)
  then show ?thesis using sortR_sorted [OF c s] by (rule sortR_id)
qed

text \<open>The order of the input does not matter when no two elements share a key.\<close>

lemma sortR_perm:
  assumes "list_all carrier xs" "mset xs = mset ys" "inj_on key (set xs)"
  shows "sortR cmp xs = sortR cmp ys"
proof -
  have "list_all carrier ys" using assms(1,2) by (metis list_all_iff set_mset_mset)
  moreover have "set xs = set ys" using assms(2) by (metis set_mset_mset)
  then have "sort_key key xs = sort_key key ys"
    using assms(2,3) by (intro properties_for_sort_key sort_key_inj_key_eq) auto
  ultimately show ?thesis using assms(1) by (simp add: sortR_eq)
qed

end

end
