(* ===== verification/TypeBase.thy ===== *)
theory TypeBase
  imports Decimals ObjectId SortSpec
begin

text \<open>
  What every type descriptor of \<open>auth/serializer/src/types.js\<close> is made of: the record of its
  operations, the coercions of the language they use, the sorting of arrays
  (\<open>sortOperation\<close>), the duplicate check of sets and maps, and \<open>fast_parser.js\<close>.
\<close>

section \<open>Type descriptors\<close>

record debug =
  use_default :: bool
  annotate :: bool

text \<open>
  A type descriptor: the four operations, an optional comparison, the \<open>nosort\<close> flag and the
  operation name a \<open>Serializer\<close> has.
\<close>

record st_type =
  fromByteBuffer :: "bytebuffer \<Rightarrow> js_error + jsval \<times> bytebuffer"
  appendByteBuffer :: "bytebuffer \<Rightarrow> jsval \<Rightarrow> js_error + bytebuffer"
  fromObject :: "jsval \<Rightarrow> js_error + jsval"
  toObject :: "jsval \<Rightarrow> debug \<Rightarrow> js_error + jsval"
  st_compare :: "(jsval \<Rightarrow> jsval \<Rightarrow> js_error + int option) option"
  nosort :: bool
  operation_name :: "op_name option"

section \<open>Coercions\<close>

text \<open>\<open>ToInt32\<close>, as the bitwise operators apply it; fractions are truncated.\<close>

definition numeric_int32 :: "numeric \<Rightarrow> 32 word" where
  "numeric_int32 x =
     (case x of Dec m e \<Rightarrow>
          of_int (if 0 \<le> e then m * 10 ^ nat e else sgn m * (\<bar>m\<bar> div 10 ^ nat (- e)))
      | _ \<Rightarrow> 0)"

definition js_ToInt32 :: "env \<Rightarrow> jsval \<Rightarrow> js_error + 32 word" where
  "js_ToInt32 E v =
     (case v of
        JUndef \<Rightarrow> Inr 0
      | JNull \<Rightarrow> Inr 0
      | JNaN \<Rightarrow> Inr 0
      | JBool t \<Rightarrow> Inr (if t then 1 else 0)
      | JNum n \<Rightarrow> Inr (of_int n)
      | _ \<Rightarrow> bindR (js_String E v) (\<lambda>s. Inr (numeric_int32 (js_Number s))))"

text \<open>\<open>v[i]\<close> for \<open>i = 0, 1, ...\<close> while \<open>i < v.length\<close>\<close>

definition js_elems :: "jsval \<Rightarrow> js_error + jsval list" where
  "js_elems v =
     (case v of
        JUndef \<Rightarrow> Inl TypeError
      | JNull \<Rightarrow> Inl TypeError
      | JArr xs \<Rightarrow> Inr xs
      | JStr s \<Rightarrow> Inr (map (\<lambda>c. JStr [c]) s)
      | JBuf bs \<Rightarrow> Inr (map (\<lambda>b. JNum (uint b)) bs)
      | JObj kvs \<Rightarrow>
          Inr (case map_of kvs ''length'' of
                 Some (JNum n) \<Rightarrow>
                   map (\<lambda>i. case map_of (map (\<lambda>(k, x). (js k, x)) kvs) (dec_nat i) of None \<Rightarrow> JUndef | Some x \<Rightarrow> x)
                     [0..<nat n]
               | _ \<Rightarrow> [])
      | _ \<Rightarrow> Inr [])"

text \<open>\<open>v.toString(encoding)\<close> with an encoding: a number takes it as a radix and throws.\<close>

definition toString_binary :: "env \<Rightarrow> jsval \<Rightarrow> js_error + jsstring" where
  "toString_binary E v =
     (case v of JBuf bs \<Rightarrow> Inr (toBinaryString bs) | _ \<Rightarrow> if is_number v then Inl RangeError else js_toString E v)"

definition toString_hex :: "env \<Rightarrow> jsval \<Rightarrow> js_error + jsstring" where
  "toString_hex E v =
     (case v of JBuf bs \<Rightarrow> Inr (toHex bs) | _ \<Rightarrow> if is_number v then Inl RangeError else js_toString E v)"

definition toString_utf8 :: "env \<Rightarrow> jsval \<Rightarrow> js_error + jsstring" where
  "toString_utf8 E v =
     (case v of JBuf bs \<Rightarrow> Inr (node_decode bs) | _ \<Rightarrow> if is_number v then Inl RangeError else js_toString E v)"

text \<open>
  \<open>new Buffer(v, encoding)\<close>: text in the encoding, a copy of a buffer, the bytes of an array or of
  an array-like object, the \<open>data\<close> of a buffer's JSON form.
\<close>

definition bytes_of_elems :: "env \<Rightarrow> jsval list \<Rightarrow> js_error + jsval" where
  "bytes_of_elems E xs = bindR (mapR (js_ToInt32 E) xs) (\<lambda>ws. Inr (JBuf (map ucast ws)))"

definition new_Buffer :: "env \<Rightarrow> (jsstring \<Rightarrow> byte list) \<Rightarrow> jsval \<Rightarrow> js_error + jsval" where
  "new_Buffer E encode v =
     (case v of
        JStr s \<Rightarrow> Inr (JBuf (encode s))
      | JBuf bs \<Rightarrow> Inr (JBuf bs)
      | JArr xs \<Rightarrow> bytes_of_elems E xs
      | JObj kvs \<Rightarrow>
          (if ''length'' \<in> fst ` set kvs then bindR (js_elems v) (bytes_of_elems E)
           else if map_of kvs ''type'' = Some (JStr (js ''Buffer''))
             then (case map_of kvs ''data'' of Some (JArr xs) \<Rightarrow> bytes_of_elems E xs | _ \<Rightarrow> Inl TypeError)
           else Inl TypeError)
      | _ \<Rightarrow> Inl TypeError)"

text \<open>Setting a property of an object; arrays and class instances carry no extra properties here.\<close>

fun assoc_set :: "'k \<Rightarrow> 'v \<Rightarrow> ('k \<times> 'v) list \<Rightarrow> ('k \<times> 'v) list" where
  "assoc_set k v [] = [(k, v)]"
| "assoc_set k v ((k', v') # r) = (if k = k' then (k, v) # r else (k', v') # assoc_set k v r)"

text \<open>\<open>if (object.resolve !== undefined) object = object.resolve\<close>\<close>

definition resolve :: "jsval \<Rightarrow> js_error + jsval" where
  "resolve v = bindR (js_get v ''resolve'') (\<lambda>r. Inr (if r \<noteq> JUndef then r else v))"

section \<open>Sorting\<close>

definition firstEl :: "jsval \<Rightarrow> jsval" where
  "firstEl el = (case el of JArr xs \<Rightarrow> (if xs = [] then JUndef else hd xs) | _ \<Rightarrow> el)"

fun num_minus :: "jsval \<Rightarrow> jsval \<Rightarrow> int option" where
  "num_minus (JNum a) (JNum b) = Some (a - b)"
| "num_minus _ _ = None"

definition default_compare :: "env \<Rightarrow> jsval \<Rightarrow> jsval \<Rightarrow> js_error + int option" where
  "default_compare E x y =
     (let a = firstEl x; b = firstEl y
      in if is_number a \<and> is_number b then Inr (num_minus a b)
         else (case (a, b) of
                 (JBuf p, JBuf q) \<Rightarrow> Inr (strCmp (toHex p) (toHex q))
               | _ \<Rightarrow> bindR (js_toString E a) (\<lambda>s. bindR (js_toString E b) (\<lambda>t. Inr (strCmp s t)))))"

definition compare_fn :: "env \<Rightarrow> st_type \<Rightarrow> jsval \<Rightarrow> jsval \<Rightarrow> js_error + int option" where
  "compare_fn E st =
     (case st_compare st of
        Some cmp \<Rightarrow> (\<lambda>a b. cmp (firstEl a) (firstEl b))
      | None \<Rightarrow> default_compare E)"

text \<open>Only arrays and buffers have a \<open>sort\<close> method.\<close>

definition sortOperation :: "env \<Rightarrow> jsval \<Rightarrow> st_type \<Rightarrow> js_error + jsval" where
  "sortOperation E array st =
     (if nosort st then Inr array
      else (case array of
              JArr xs \<Rightarrow> bindR (array_sort (compare_fn E st) xs) (\<lambda>ys. Inr (JArr ys))
            | JBuf bs \<Rightarrow>
                bindR (array_sort (compare_fn E st) (map (\<lambda>x. JNum (uint x)) bs)) (\<lambda>ys.
                  bytes_of_elems E ys)
            | _ \<Rightarrow> Inl TypeError))"

section \<open>Duplicates\<close>

text \<open>
  \<open>dup_map\<close> starts as \<open>{}\<close>, which inherits the properties of \<open>Object.prototype\<close>: a name among them
  is never \<open>undefined\<close>.
\<close>

definition object_prototype_names :: "string list" where
  "object_prototype_names =
     [''constructor'', ''__defineGetter__'', ''__defineSetter__'', ''hasOwnProperty'', ''__lookupGetter__'',
      ''__lookupSetter__'', ''isPrototypeOf'', ''propertyIsEnumerable'', ''toString'', ''valueOf'',
      ''__proto__'', ''toLocaleString'']"

definition inherited :: "jsstring \<Rightarrow> bool" where
  "inherited s \<longleftrightarrow> list_ex (\<lambda>k. js k = s) object_prototype_names"

text \<open>The property name of a string or number key; other values are not checked.\<close>

definition dup_key :: "jsval \<Rightarrow> jsstring option" where
  "dup_key v =
     (case v of JStr s \<Rightarrow> Some s | JNum n \<Rightarrow> Some (dec_int n) | JNaN \<Rightarrow> Some (js ''NaN'') | _ \<Rightarrow> None)"

fun check_dups :: "js_error \<Rightarrow> jsstring list \<Rightarrow> jsval list \<Rightarrow> js_error + unit" where
  "check_dups e dup_map [] = Inr ()"
| "check_dups e dup_map (v # vs) =
     (case dup_key v of
        None \<Rightarrow> check_dups e dup_map vs
      | Some k \<Rightarrow> if k \<in> set dup_map \<or> inherited k then Inl e else check_dups e (k # dup_map) vs)"

section \<open>fast\_parser.js\<close>

definition fixed_data_read :: "bytebuffer \<Rightarrow> nat \<Rightarrow> js_error + byte list \<times> bytebuffer" where
  "fixed_data_read b len =
     bindR (bb_copy b (bb_offset b) (bb_offset b + len)) (\<lambda>c.
     bindR (bb_skip len b) (\<lambda>b'. Inr (bb_toBuffer c, b')))"

fun write_zeros :: "nat \<Rightarrow> bytebuffer \<Rightarrow> js_error + bytebuffer" where
  "write_zeros 0 b = Inr b"
| "write_zeros (Suc n) b = bindR (writeUint8 b (JNum 0)) (write_zeros n)"

definition fixed_data_write :: "bytebuffer \<Rightarrow> nat \<Rightarrow> byte list \<Rightarrow> js_error + bytebuffer" where
  "fixed_data_write b len buffer =
     (let data = toBinaryString (take len buffer)
      in bindR (bb_append b data) (write_zeros (len - length data)))"

definition fp_public_key_read :: "env \<Rightarrow> bytebuffer \<Rightarrow> js_error + jsval \<times> bytebuffer" where
  "fp_public_key_read E b =
     bindR (fixed_data_read b 33) (\<lambda>(buffer, b').
     bindR (PublicKey_fromBuffer E buffer) (\<lambda>k. Inr (k, b')))"

text \<open>Without a key the same function reads; an object that is not a key has no \<open>toBuffer\<close>.\<close>

definition fp_public_key_write :: "env \<Rightarrow> bytebuffer \<Rightarrow> jsval \<Rightarrow> js_error + bytebuffer" where
  "fp_public_key_write E b public_key =
     (if js_truthy public_key
      then (case public_key of
              JPub Q \<Rightarrow> bb_append b (toBinaryString (PublicKey_toBuffer E Q))
            | _ \<Rightarrow> Inl TypeError)
      else bindR (fp_public_key_read E b) (\<lambda>(_, b'). Inr b'))"

definition fp_ripemd160_read :: "bytebuffer \<Rightarrow> js_error + byte list \<times> bytebuffer" where
  "fp_ripemd160_read b = fixed_data_read b 20"

definition fp_ripemd160_write :: "bytebuffer \<Rightarrow> byte list \<Rightarrow> js_error + bytebuffer" where
  "fp_ripemd160_write b buffer = fixed_data_write b 20 buffer"

definition fp_time_point_sec_read :: "bytebuffer \<Rightarrow> js_error + jsval \<times> bytebuffer" where
  "fp_time_point_sec_read b =
     bindR (readInt32 b) (\<lambda>(v, b'). case v of
       JNum epoch \<Rightarrow> Inr (JDate (Some (epoch * 1000)), b')
     | _ \<Rightarrow> Inl TypeError)"

definition fp_time_point_sec_write :: "bytebuffer \<Rightarrow> int \<Rightarrow> js_error + bytebuffer" where
  "fp_time_point_sec_write b epoch =
     (if epoch = 0 then bindR (fp_time_point_sec_read b) (\<lambda>(_, b'). Inr b')
      else writeInt32 b (JNum (- ((- epoch) div 1000))))"

section \<open>Array loops\<close>

text \<open>
  \<open>for (i = 0; size > 0 ? i < size : i > size; i++) result.push(read(b))\<close>: a negative size never
  ends the loop, so it runs until a read throws; reads that consume nothing never throw.
\<close>

definition read_loop ::
  "(bytebuffer \<Rightarrow> js_error + 'a \<times> bytebuffer) \<Rightarrow> int \<Rightarrow> bytebuffer \<Rightarrow> js_error + 'a list \<times> bytebuffer" where
  "read_loop read sz b =
     (if 0 \<le> sz then repeatR read (nat sz) b
      else (case repeatR read (Suc (length (bb_view b) - bb_offset b)) b of
              Inl e \<Rightarrow> Inl e | Inr _ \<Rightarrow> Inl Hang))"

definition read_size :: "bytebuffer \<Rightarrow> js_error + int \<times> bytebuffer" where
  "read_size b = bindR (readVarint32 b) (\<lambda>(v, b'). case v of JNum n \<Rightarrow> Inr (n, b') | _ \<Rightarrow> Inl TypeError)"

end
