(* ===== verification/Types.thy ===== *)
theory Types
  imports TypeBase
begin

text \<open>
  \<open>auth/serializer/src/types.js\<close>: one definition per type descriptor, each with its four operations
  as the source has them. Combinators take the descriptors of their parts. The environment \<open>E\<close>
  gives the configuration and the key functions. Hexadecimal dumps (\<open>HEX_DUMP\<close>) are off.
\<close>

section \<open>Checksum of numerical asset identifiers\<close>

definition damm_table :: "int list" where
  "damm_table =
     [ 0, 30, 10, 70, 50, 90, 80, 60, 40, 20,
      70,  0, 90, 20, 10, 50, 40, 80, 60, 30,
      40, 20,  0, 60, 80, 70, 10, 30, 50, 90,
      10, 70, 50,  0, 90, 80, 30, 40, 20, 60,
      60, 10, 20, 30,  0, 40, 50, 90, 70, 80,
      30, 60, 70, 40, 20,  0, 90, 50, 80, 10,
      50, 80, 60, 90, 70, 20,  0, 10, 30, 40,
      80, 90, 40, 50, 30, 60, 20,  0, 10, 70,
      90, 40, 30, 80, 60, 10, 70, 20,  0, 50,
      20, 50, 80, 10, 40, 30, 60, 70, 90,  0]"

definition damm_at :: "int \<Rightarrow> int option" where
  "damm_at i = (if 0 \<le> i \<and> i < 100 then Some (damm_table ! nat i) else None)"

text \<open>
  The divisions are those of floating-point numbers: \<open>value / 10 ^ k\<close> is an index of the table only
  when it is an integer, and an element at any other index is \<open>undefined\<close>.
\<close>

definition damm_quot :: "nat \<Rightarrow> int \<Rightarrow> int option" where
  "damm_quot k n = (if n mod 10 ^ k = 0 then Some (n div 10 ^ k) else None)"

definition damm_digit :: "nat \<Rightarrow> int \<Rightarrow> int option" where
  "damm_digit k n = map_option (\<lambda>q. sgn q * (\<bar>q\<bar> mod 10)) (damm_quot k n)"

definition damm_step :: "int option \<Rightarrow> int option \<Rightarrow> int option" where
  "damm_step x d = Option.bind x (\<lambda>x'. Option.bind d (\<lambda>d'. damm_at (x' + d')))"

definition damm_checksum_8digit :: "jsval \<Rightarrow> js_error + jsval" where
  "damm_checksum_8digit value =
     (case value of
        JNum n \<Rightarrow>
          if n \<ge> 100000000 then Inl DammRange
          else Inr (num_of (map_option (\<lambda>x. x div 10)
                 (fold (\<lambda>k x. damm_step x (damm_digit k n)) [6, 5, 4, 3, 2, 1, 0]
                    (Option.bind (damm_quot 7 n) damm_at))))
      | _ \<Rightarrow> Inr JNaN)"

text \<open>\<open>Math.floor(nai / 10)\<close> and \<open>(nai << 5) + 16\<close>\<close>

definition nai_floor :: "jsval \<Rightarrow> jsval" where
  "nai_floor v = (case v of JNum n \<Rightarrow> JNum (n div 10) | _ \<Rightarrow> JNaN)"

definition nai_shift :: "jsval \<Rightarrow> int" where
  "nai_shift v = (case v of JNum n \<Rightarrow> sint (push_bit 5 (of_int n :: 32 word)) | _ \<Rightarrow> 0) + 16"

section \<open>asset\<close>

definition core_symbol :: "env \<Rightarrow> jsstring" where
  "core_symbol E = (if address_prefix E = js ''BLT'' then js ''BLURT'' else js ''TESTS'')"

text \<open>The seven symbol bytes: text without its zeros.\<close>

definition read_symbol :: "bytebuffer \<Rightarrow> js_error + jsstring" where
  "read_symbol b =
     bindR (bb_copy b (bb_offset b) (bb_offset b + 7)) (\<lambda>c.
       Inr (filter (\<lambda>x. x \<noteq> 0) (node_decode (bb_toBuffer c))))"

text \<open>The branch for numerical identifiers: \<open>Buffer\<close> has no method \<open>readInt32\<close>, so it throws.\<close>

definition read_nai :: "bytebuffer \<Rightarrow> js_error + 'a" where
  "read_nai b = bindR (bb_copy b (bb_offset b - 1) (bb_offset b + 3)) (\<lambda>_. Inl TypeError)"

definition asset_read :: "env \<Rightarrow> bytebuffer \<Rightarrow> js_error + jsval \<times> bytebuffer" where
  "asset_read E b =
     bindR (readInt64 b) (\<lambda>(amount, b1).
     bindR (readUint8 b1) (\<lambda>(precision, b2).
       case precision of
         JNum p \<Rightarrow>
           if p \<ge> 16 then read_nai b2
           else bindR (read_symbol b2) (\<lambda>symbol.
                bindR (bb_skip 7 b2) (\<lambda>b3.
                bindR (fromImpliedDecimal E amount (nat p)) (\<lambda>amount_string.
                  Inr (JStr (amount_string @ [32] @ symbol), b3))))
       | _ \<Rightarrow> Inl TypeError))"

text \<open>\<open>/^[0-9]+\.?[0-9]* [A-Za-z0-9@]+$/\<close>\<close>

definition asset_regex :: "jsstring \<Rightarrow> bool" where
  "asset_regex s \<longleftrightarrow>
     (let r1 = dropWhile is_digit s;
          r2 = (if take 1 r1 = [46] then dropWhile is_digit (drop 1 r1) else r1)
      in takeWhile is_digit s \<noteq> [] \<and> take 1 r2 = [32] \<and> drop 1 r2 \<noteq> [] \<and> list_all is_alnum_at (drop 1 r2))"

definition write_symbol :: "bytebuffer \<Rightarrow> jsval \<Rightarrow> jsstring \<Rightarrow> js_error + bytebuffer" where
  "write_symbol b precision symbol =
     bindR (writeUint8 b precision) (\<lambda>b1.
     bindR (bb_append b1 (map to_upper symbol)) (write_zeros (7 - length symbol)))"

definition write_asset_tail :: "bytebuffer \<Rightarrow> jsval \<Rightarrow> jsval \<Rightarrow> jsstring \<Rightarrow> js_error + bytebuffer" where
  "write_asset_tail b nai precision symbol =
     (if starts_with (js ''@@'') symbol
      then (case precision of JNum p \<Rightarrow> writeUint32 b (JNum (nai_shift nai + p)) | _ \<Rightarrow> Inl TypeError)
      else write_symbol b precision symbol)"

definition asset_append_nai :: "env \<Rightarrow> bytebuffer \<Rightarrow> jsval \<Rightarrow> jsval \<Rightarrow> js_error + bytebuffer" where
  "asset_append_nai E b object nai_value =
     (case nai_value of
        JStr symbol0 \<Rightarrow>
          (let nai = nai_floor (num_of (parseInt (drop 2 symbol0)));
               symbol = (if symbol0 = js ''@@000000021'' then core_symbol E
                         else if symbol0 = js ''@@000000037'' then js ''VESTS'' else symbol0)
           in bindR (damm_checksum_8digit nai) (\<lambda>_.
              bindR (bindR (js_get object ''precision'') (js_parseInt E)) (\<lambda>precision.
              bindR (bindR (js_get object ''amount'') (js_parseInt E)) (\<lambda>amount.
              bindR (to_long E amount) (\<lambda>long.
              bindR (writeInt64 b long) (\<lambda>b1.
                write_asset_tail b1 nai precision symbol))))))
      | _ \<Rightarrow> Inl TypeError)"

definition asset_append_text :: "env \<Rightarrow> bytebuffer \<Rightarrow> jsstring \<Rightarrow> js_error + bytebuffer" where
  "asset_append_text E b text0 =
     (let object = js_trim text0
      in if \<not> asset_regex object then Inl ExpectingAmount
         else (let res = split_on 32 object; amount = res ! 0; symbol = res ! 1;
                   nai = nai_floor (num_of (parseInt (drop 2 symbol)));
                   dot = index_of 46 amount;
                   precision = (case dot of None \<Rightarrow> 0 | Some d \<Rightarrow> length amount - d - 1)
               in bindR (if starts_with (js ''@@'') symbol then bindR (damm_checksum_8digit nai) (\<lambda>_. Inr ())
                         else if length symbol > 6 then Inl SymbolTooLong else Inr ()) (\<lambda>_.
                  bindR (to_long E (JStr (remove1 46 amount))) (\<lambda>long.
                  bindR (writeInt64 b long) (\<lambda>b1.
                    write_asset_tail b1 nai (JNum (int precision)) symbol)))))"

definition asset_append :: "env \<Rightarrow> bytebuffer \<Rightarrow> jsval \<Rightarrow> js_error + bytebuffer" where
  "asset_append E b object =
     bindR (js_get object ''nai'') (\<lambda>nai_value.
       if js_truthy nai_value then asset_append_nai E b object nai_value
       else (case object of JStr s \<Rightarrow> asset_append_text E b s | _ \<Rightarrow> Inl TypeError))"

definition asset :: "env \<Rightarrow> st_type" where
  "asset E =
     \<lparr>fromByteBuffer = asset_read E,
      appendByteBuffer = asset_append E,
      fromObject = Inr,
      toObject = (\<lambda>object debug.
        if use_default debug \<and> object = JUndef then Inr (JStr (js ''0.000 BLURT'')) else Inr object),
      st_compare = None, nosort = False, operation_name = None\<rparr>"

definition asset_symbol_read :: "env \<Rightarrow> bytebuffer \<Rightarrow> js_error + jsval \<times> bytebuffer" where
  "asset_symbol_read E b =
     bindR (readUint8 b) (\<lambda>(precision, b1).
       case precision of
         JNum p \<Rightarrow>
           if p \<ge> 16 then read_nai b1
           else bindR (read_symbol b1) (\<lambda>symbol.
                bindR (if symbol = js ''BLURT'' \<or> symbol = js ''TESTS'' then Inr (js ''@@000000021'')
                       else if symbol = js ''VESTS'' then Inr (js ''@@000000037'')
                       else Inl NonCoreSymbol) (\<lambda>nai_string.
                bindR (bb_skip 7 b1) (\<lambda>b2.
                  Inr (JObj [(''nai'', JStr nai_string), (''precision'', precision)], b2))))
       | _ \<Rightarrow> Inl TypeError)"

definition asset_symbol_append :: "env \<Rightarrow> bytebuffer \<Rightarrow> jsval \<Rightarrow> js_error + bytebuffer" where
  "asset_symbol_append E b object =
     bindR (js_get object ''nai'') (\<lambda>nai_value.
       case nai_value of
         JStr s \<Rightarrow>
           if \<not> starts_with (js ''@@'') s then Inl NaiPrefix
           else (let nai = nai_floor (num_of (parseInt (drop 2 s)))
                 in bindR (damm_checksum_8digit nai) (\<lambda>_.
                      if s = js ''@@000000021'' then write_symbol b (JNum 3) (core_symbol E)
                      else if s = js ''@@000000037'' then write_symbol b (JNum 6) (js ''VESTS'')
                      else bindR (js_get object ''precision'') (\<lambda>p. case p of
                             JNum n \<Rightarrow> writeUint32 b (JNum (nai_shift nai + n))
                           | _ \<Rightarrow> Inl TypeError)))
       | _ \<Rightarrow> Inl TypeError)"

definition asset_symbol :: "env \<Rightarrow> st_type" where
  "asset_symbol E =
     \<lparr>fromByteBuffer = asset_symbol_read E,
      appendByteBuffer = asset_symbol_append E,
      fromObject = Inr,
      toObject = (\<lambda>object debug.
        if use_default debug \<and> object = JUndef then Inr (JStr (js ''BLURT'')) else Inr object),
      st_compare = None, nosort = False, operation_name = None\<rparr>"

section \<open>Integers\<close>

text \<open>The descriptors of \<open>uint8\<close>, \<open>uint16\<close>, \<open>uint32\<close> and \<open>varint32\<close> differ in the range and the width.\<close>

definition ranged_int ::
  "env \<Rightarrow> int \<Rightarrow> int \<Rightarrow> (bytebuffer \<Rightarrow> js_error + jsval \<times> bytebuffer)
    \<Rightarrow> (bytebuffer \<Rightarrow> jsval \<Rightarrow> js_error + bytebuffer) \<Rightarrow> st_type" where
  "ranged_int E lo hi read write =
     \<lparr>fromByteBuffer = read,
      appendByteBuffer = (\<lambda>b object. bindR (require_range E lo hi object) (\<lambda>_. write b object)),
      fromObject = (\<lambda>object. bindR (require_range E lo hi object) (\<lambda>_. Inr object)),
      toObject = (\<lambda>object debug.
        if use_default debug \<and> object = JUndef then Inr (JNum 0)
        else bindR (require_range E lo hi object) (\<lambda>_. js_parseInt E object)),
      st_compare = None, nosort = False, operation_name = None\<rparr>"

definition uint8 :: "env \<Rightarrow> st_type" where
  "uint8 E = ranged_int E 0 0xff readUint8 writeUint8"

definition uint16 :: "env \<Rightarrow> st_type" where
  "uint16 E = ranged_int E 0 0xffff readUint16 writeUint16"

definition uint32 :: "env \<Rightarrow> st_type" where
  "uint32 E = ranged_int E 0 0xffffffff readUint32 writeUint32"

definition MIN_SIGNED_32 :: int where
  "MIN_SIGNED_32 = - (2 ^ 31)"

definition MAX_SIGNED_32 :: int where
  "MAX_SIGNED_32 = 2 ^ 31 - 1"

definition varint32 :: "env \<Rightarrow> st_type" where
  "varint32 E = ranged_int E MIN_SIGNED_32 MAX_SIGNED_32 readVarint32 writeVarint32"

definition int16 :: "env \<Rightarrow> st_type" where
  "int16 E =
     \<lparr>fromByteBuffer = readInt16,
      appendByteBuffer = writeInt16,
      fromObject = Inr,
      toObject = (\<lambda>object debug.
        if use_default debug \<and> object = JUndef then Inr (JNum 0) else js_parseInt E object),
      st_compare = None, nosort = False, operation_name = None\<rparr>"

definition long_toString :: "env \<Rightarrow> jsval \<Rightarrow> js_error + jsval" where
  "long_toString E object = bindR (to_long E object) (\<lambda>l. bindR (js_toString E l) (\<lambda>s. Inr (JStr s)))"

definition int64 :: "env \<Rightarrow> st_type" where
  "int64 E =
     \<lparr>fromByteBuffer = readInt64,
      appendByteBuffer = (\<lambda>b object. bindR (required object) (\<lambda>_. bindR (to_long E object) (writeInt64 b))),
      fromObject = (\<lambda>object. bindR (required object) (\<lambda>_. to_long E object)),
      toObject = (\<lambda>object debug.
        if use_default debug \<and> object = JUndef then Inr (JStr (js ''0''))
        else bindR (required object) (\<lambda>_. long_toString E object)),
      st_compare = None, nosort = False, operation_name = None\<rparr>"

definition uint64 :: "env \<Rightarrow> st_type" where
  "uint64 E =
     \<lparr>fromByteBuffer = readUint64,
      appendByteBuffer = (\<lambda>b object.
        bindR (v_unsigned E object) (\<lambda>u. bindR (to_long E u) (writeUint64 b))),
      fromObject = (\<lambda>object. bindR (v_unsigned E object) (to_long E)),
      toObject = (\<lambda>object debug.
        if use_default debug \<and> object = JUndef then Inr (JStr (js ''0'')) else long_toString E object),
      st_compare = None, nosort = False, operation_name = None\<rparr>"

text \<open>\<open>readBigInt64\<close> is not a method of \<open>ByteBuffer\<close>.\<close>

definition uint128 :: "env \<Rightarrow> st_type" where
  "uint128 E =
     \<lparr>fromByteBuffer = (\<lambda>b. Inl TypeError),
      appendByteBuffer = (\<lambda>b object.
        bindR (bindR (v_unsigned E (JNum 0)) (to_long E)) (\<lambda>z. bindR (writeUint64 b z) (\<lambda>b1.
        bindR (bindR (v_unsigned E object) (to_long E)) (writeUint64 b1)))),
      fromObject = (\<lambda>object. bindR (v_unsigned E object) (to_long E)),
      toObject = (\<lambda>object debug.
        if use_default debug \<and> object = JUndef then Inr (JStr (js ''0'')) else long_toString E object),
      st_compare = None, nosort = False, operation_name = None\<rparr>"

section \<open>Strings and bytes\<close>

definition st_string :: "env \<Rightarrow> st_type" where
  "st_string E =
     \<lparr>fromByteBuffer = (\<lambda>b. bindR (readVString b) (\<lambda>(s, b'). Inr (JBuf (node_encode s), b'))),
      appendByteBuffer = (\<lambda>b object.
        bindR (required object) (\<lambda>_. bindR (js_toString E object) (\<lambda>s. writeVString b (JStr s)))),
      fromObject = (\<lambda>object. bindR (required object) (\<lambda>_. new_Buffer E node_encode object)),
      toObject = (\<lambda>object debug.
        if use_default debug \<and> object = JUndef then Inr (JStr [])
        else bindR (toString_utf8 E object) (\<lambda>s. Inr (JStr s))),
      st_compare = None, nosort = False, operation_name = None\<rparr>"

definition read_sized :: "bytebuffer \<Rightarrow> int \<Rightarrow> js_error + jsval \<times> bytebuffer" where
  "read_sized b len =
     (if len < 0 then Inl RangeError
      else bindR (bb_copy b (bb_offset b) (bb_offset b + nat len)) (\<lambda>c.
           bindR (bb_skip (nat len) b) (\<lambda>b'. Inr (JBuf (bb_toBuffer c), b'))))"

definition read_prefixed :: "bytebuffer \<Rightarrow> js_error + jsval \<times> bytebuffer" where
  "read_prefixed b = bindR (read_size b) (\<lambda>(len, b1). read_sized b1 len)"

definition string_binary :: "env \<Rightarrow> st_type" where
  "string_binary E =
     \<lparr>fromByteBuffer = read_prefixed,
      appendByteBuffer = (\<lambda>b object.
        bindR (js_get object ''length'') (\<lambda>len. bindR (writeVarint32 b len) (\<lambda>b1.
        bindR (toString_binary E object) (bb_append b1)))),
      fromObject = (\<lambda>object. bindR (required object) (\<lambda>_.
        case object of
          JNum n \<Rightarrow> if n < 0 then Inl RangeError else Inr (JBuf (replicate (nat n) 0))
        | JNaN \<Rightarrow> Inl RangeError
        | _ \<Rightarrow> new_Buffer E node_encode object)),
      toObject = (\<lambda>object debug.
        if use_default debug \<and> object = JUndef then Inr (JStr [])
        else bindR (js_toString E object) (\<lambda>s. Inr (JStr s))),
      st_compare = None, nosort = False, operation_name = None\<rparr>"

text \<open>\<open>new Array(num).join("00")\<close> puts the separator between elements: one pair fewer than \<open>num\<close>.\<close>

definition zeros_text :: "nat option \<Rightarrow> jsstring" where
  "zeros_text num = (case num of None \<Rightarrow> [] | Some n \<Rightarrow> replicate (2 * (n - 1)) 48)"

definition st_bytes :: "env \<Rightarrow> nat option \<Rightarrow> st_type" where
  "st_bytes E sz =
     \<lparr>fromByteBuffer = (\<lambda>b. case sz of
        None \<Rightarrow> read_prefixed b
      | Some n \<Rightarrow> read_sized b (int n)),
      appendByteBuffer = (\<lambda>b object0.
        bindR (required object0) (\<lambda>_.
        let object = (case object0 of JStr s \<Rightarrow> JBuf (fromHex s) | _ \<Rightarrow> object0)
        in bindR (case sz of None \<Rightarrow> bindR (js_get object ''length'') (writeVarint32 b) | Some _ \<Rightarrow> Inr b) (\<lambda>b1.
           bindR (toString_binary E object) (bb_append b1)))),
      fromObject = (\<lambda>object. bindR (required object) (\<lambda>_. new_Buffer E fromHex object)),
      toObject = (\<lambda>object debug.
        if use_default debug \<and> object = JUndef then Inr (JStr (zeros_text sz))
        else bindR (required object) (\<lambda>_. bindR (toString_hex E object) (\<lambda>s. Inr (JStr s)))),
      st_compare = None, nosort = False, operation_name = None\<rparr>"

definition JSON_truthy :: "env \<Rightarrow> jsval \<Rightarrow> js_error + bool" where
  "JSON_truthy E object = bindR (js_String E object) JSON_parse_truthy"

definition st_bool :: "env \<Rightarrow> st_type" where
  "st_bool E =
     \<lparr>fromByteBuffer = (\<lambda>b. bindR (readUint8 b) (\<lambda>(v, b'). Inr (JBool (v = JNum 1), b'))),
      appendByteBuffer = (\<lambda>b object.
        bindR (JSON_truthy E object) (\<lambda>t. writeUint8 b (JNum (if t then 1 else 0)))),
      fromObject = (\<lambda>object. bindR (JSON_truthy E object) (\<lambda>t. Inr (JBool t))),
      toObject = (\<lambda>object debug.
        if use_default debug \<and> object = JUndef then Inr (JBool False)
        else bindR (JSON_truthy E object) (\<lambda>t. Inr (JBool t))),
      st_compare = None, nosort = False, operation_name = None\<rparr>"

definition st_void :: st_type where
  "st_void =
     \<lparr>fromByteBuffer = (\<lambda>b. Inl VoidType),
      appendByteBuffer = (\<lambda>b object. Inl VoidType),
      fromObject = (\<lambda>object. Inl VoidType),
      toObject = (\<lambda>object debug.
        if use_default debug \<and> object = JUndef then Inr JUndef else Inl VoidType),
      st_compare = None, nosort = False, operation_name = None\<rparr>"

end
