(* ===== verification/Containers.thy ===== *)
theory Containers
  imports Types
begin

text \<open>
  The rest of \<open>auth/serializer/src/types.js\<close>: arrays, sets, fixed arrays, maps, optional values and
  static variants over the descriptors of their parts, times, identifiers, keys and addresses.
\<close>

section \<open>array\<close>

definition append_elems :: "st_type \<Rightarrow> bytebuffer \<Rightarrow> jsval \<Rightarrow> js_error + bytebuffer" where
  "append_elems st b object = bindR (js_elems object) (foldR (appendByteBuffer st) b)"

definition st_array :: "env \<Rightarrow> st_type \<Rightarrow> st_type" where
  "st_array E st =
     \<lparr>fromByteBuffer = (\<lambda>b.
        bindR (read_size b) (\<lambda>(sz, b1).
        bindR (read_loop (fromByteBuffer st) sz b1) (\<lambda>(result, b2).
        bindR (sortOperation E (JArr result) st) (\<lambda>v. Inr (v, b2))))),
      appendByteBuffer = (\<lambda>b object0.
        bindR (required object0) (\<lambda>_.
        bindR (sortOperation E object0 st) (\<lambda>object.
        bindR (js_get object ''length'') (\<lambda>len.
        bindR (writeVarint32 b len) (\<lambda>b1. append_elems st b1 object))))),
      fromObject = (\<lambda>object0.
        bindR (required object0) (\<lambda>_.
        bindR (sortOperation E object0 st) (\<lambda>object.
        bindR (js_elems object) (\<lambda>xs. bindR (mapR (fromObject st) xs) (\<lambda>ys. Inr (JArr ys)))))),
      toObject = (\<lambda>object0 debug.
        if use_default debug \<and> object0 = JUndef
        then bindR (toObject st object0 debug) (\<lambda>y. Inr (JArr [y]))
        else bindR (required object0) (\<lambda>_.
             bindR (sortOperation E object0 st) (\<lambda>object.
             bindR (js_elems object) (\<lambda>xs.
             bindR (mapR (\<lambda>o'. toObject st o' debug) xs) (\<lambda>ys. Inr (JArr ys)))))),
      st_compare = None, nosort = False, operation_name = None\<rparr>"

section \<open>time\_point\_sec\<close>

definition seconds_of :: "int option \<Rightarrow> jsval" where
  "seconds_of t = (case t of None \<Rightarrow> JNaN | Some ms \<Rightarrow> JNum (ms div 1000))"

definition time_fromObject :: "env \<Rightarrow> jsval \<Rightarrow> js_error + jsval" where
  "time_fromObject E object =
     bindR (required object) (\<lambda>_.
       if is_number object then Inr object
       else (case object of
               JDate t \<Rightarrow> Inr (seconds_of t)
             | JStr s \<Rightarrow> Inr (seconds_of (date_getTime E (if s \<noteq> [] \<and> last s = 90 then s else s @ [90])))
             | _ \<Rightarrow> bindR (js_get object ''getTime'') (\<lambda>g. if js_truthy g then Inl TypeError else Inl UnknownDateType)))"

definition time_text :: "jsval \<Rightarrow> js_error + jsval" where
  "time_text v = (case v of JNum n \<Rightarrow> Inr (JStr (iso_seconds n)) | _ \<Rightarrow> Inl RangeError)"

definition time_point_sec :: "env \<Rightarrow> st_type" where
  "time_point_sec E =
     \<lparr>fromByteBuffer = readUint32,
      appendByteBuffer = (\<lambda>b object.
        bindR (if is_number object then Inr object else time_fromObject E object) (writeUint32 b)),
      fromObject = time_fromObject E,
      toObject = (\<lambda>object debug.
        if use_default debug \<and> object = JUndef then time_text (JNum 0)
        else bindR (required object) (\<lambda>_.
          case object of
            JStr s \<Rightarrow> Inr object
          | JDate t \<Rightarrow> time_text (seconds_of t)
          | _ \<Rightarrow> bindR (js_get object ''getTime'') (\<lambda>g.
                   if js_truthy g then Inl TypeError
                   else bindR (js_parseInt E object) (\<lambda>n.
                        bindR (require_range E 0 0xffffffff n) (\<lambda>_. time_text n))))),
      st_compare = None, nosort = False, operation_name = None\<rparr>"

section \<open>set\<close>

definition set_validate :: "env \<Rightarrow> st_type \<Rightarrow> jsval \<Rightarrow> js_error + jsval" where
  "set_validate E st array =
     bindR (js_elems array) (\<lambda>xs.
     bindR (check_dups DuplicateSet [] xs) (\<lambda>_. sortOperation E array st))"

definition or_empty :: "jsval \<Rightarrow> jsval" where
  "or_empty object = (if js_truthy object then object else JArr [])"

definition st_set :: "env \<Rightarrow> st_type \<Rightarrow> st_type" where
  "st_set E st =
     \<lparr>fromByteBuffer = (\<lambda>b.
        bindR (read_size b) (\<lambda>(sz, b1).
        bindR (read_loop (fromByteBuffer st) sz b1) (\<lambda>(result, b2).
        bindR (set_validate E st (JArr result)) (\<lambda>v. Inr (v, b2))))),
      appendByteBuffer = (\<lambda>b object0.
        let object = or_empty object0
        in bindR (js_get object ''length'') (\<lambda>len.
           bindR (writeVarint32 b len) (\<lambda>b1.
           bindR (set_validate E st object) (append_elems st b1)))),
      fromObject = (\<lambda>object.
        bindR (js_elems (or_empty object)) (\<lambda>xs.
        bindR (mapR (fromObject st) xs) (\<lambda>ys. set_validate E st (JArr ys)))),
      toObject = (\<lambda>object debug.
        if use_default debug \<and> object = JUndef
        then bindR (toObject st object debug) (\<lambda>y. Inr (JArr [y]))
        else bindR (js_elems (or_empty object)) (\<lambda>xs.
             bindR (mapR (\<lambda>o'. toObject st o' debug) xs) (\<lambda>ys. set_validate E st (JArr ys)))),
      st_compare = None, nosort = False, operation_name = None\<rparr>"

section \<open>fixed\_array\<close>

definition st_fixed_array :: "env \<Rightarrow> nat \<Rightarrow> st_type \<Rightarrow> st_type" where
  "st_fixed_array E cnt st =
     \<lparr>fromByteBuffer = (\<lambda>b.
        bindR (repeatR (fromByteBuffer st) cnt b) (\<lambda>(results, b1).
        bindR (sortOperation E (JArr results) st) (\<lambda>v. Inr (v, b1)))),
      appendByteBuffer = (\<lambda>b object0.
        bindR (if cnt \<noteq> 0 then bindR (required object0) (\<lambda>_. sortOperation E object0 st) else Inr object0)
          (\<lambda>object. foldR (\<lambda>b' i. bindR (js_index object i) (appendByteBuffer st b')) b [0..<cnt])),
      fromObject = (\<lambda>object.
        bindR (if cnt \<noteq> 0 then required object else Inr object) (\<lambda>_.
        bindR (mapR (\<lambda>i. bindR (js_index object i) (fromObject st)) [0..<cnt]) (\<lambda>ys. Inr (JArr ys)))),
      toObject = (\<lambda>object debug.
        if use_default debug \<and> object = JUndef
        then bindR (mapR (\<lambda>i. toObject st JUndef debug) [0..<cnt]) (\<lambda>ys. Inr (JArr ys))
        else bindR (if cnt \<noteq> 0 then required object else Inr object) (\<lambda>_.
             bindR (mapR (\<lambda>i. bindR (js_index object i) (\<lambda>o'. toObject st o' debug)) [0..<cnt])
               (\<lambda>ys. Inr (JArr ys)))),
      st_compare = None, nosort = False, operation_name = None\<rparr>"

section \<open>Identifiers\<close>

definition three_part_regex :: "jsstring \<Rightarrow> bool" where
  "three_part_regex s \<longleftrightarrow> object_id_regex s \<noteq> None"

definition id_number :: "env \<Rightarrow> int \<Rightarrow> string \<Rightarrow> jsval \<Rightarrow> js_error + jsval" where
  "id_number E spaces type object0 =
     bindR (resolve object0) (\<lambda>object.
     bindR (js_String E object) (\<lambda>s.
       if three_part_regex s then get_instance E spaces type object else Inr object))"

definition id_prefix :: "int \<Rightarrow> string \<Rightarrow> jsstring" where
  "id_prefix spaces type =
     dec_int spaces @ [46] @
     (case map_of object_type type of None \<Rightarrow> js ''undefined'' | Some k \<Rightarrow> dec_int k) @ [46]"

definition id_type :: "env \<Rightarrow> int \<Rightarrow> string \<Rightarrow> st_type" where
  "id_type E spaces type =
     \<lparr>fromByteBuffer = readVarint32,
      appendByteBuffer = (\<lambda>b object.
        bindR (required object) (\<lambda>_.
        bindR (id_number E spaces type object) (\<lambda>n.
        bindR (to_number E n) (writeVarint32 b)))),
      fromObject = (\<lambda>object0.
        bindR (required object0) (\<lambda>_.
        bindR (resolve object0) (\<lambda>object.
        bindR (is_digits E object) (\<lambda>d.
          if d then to_number E object else get_instance E spaces type object)))),
      toObject = (\<lambda>object debug.
        if use_default debug \<and> object = JUndef then Inr (JStr (id_prefix spaces type @ [48]))
        else bindR (required object) (\<lambda>_.
             bindR (id_number E spaces type object) (\<lambda>n.
             bindR (js_String E n) (\<lambda>s. Inr (JStr (id_prefix spaces type @ s)))))),
      st_compare = None, nosort = False, operation_name = None\<rparr>"

definition protocol_id_type :: "env \<Rightarrow> string \<Rightarrow> st_type" where
  "protocol_id_type E name = id_type E (the (map_of reserved_spaces ''protocol_ids'')) name"

definition object_id_type :: "env \<Rightarrow> st_type" where
  "object_id_type E =
     \<lparr>fromByteBuffer = ObjectId_fromByteBuffer,
      appendByteBuffer = (\<lambda>b object.
        bindR (required object) (\<lambda>_.
        bindR (resolve object) (\<lambda>r.
        bindR (ObjectId_fromString E r) (ObjectId_appendByteBuffer b)))),
      fromObject = (\<lambda>object.
        bindR (required object) (\<lambda>_. bindR (resolve object) (ObjectId_fromString E))),
      toObject = (\<lambda>object debug.
        if use_default debug \<and> object = JUndef then Inr (JStr (js ''0.0.0''))
        else bindR (required object) (\<lambda>_.
             bindR (resolve object) (\<lambda>r.
             bindR (ObjectId_fromString E r) (\<lambda>oid.
             bindR (js_toString E oid) (\<lambda>s. Inr (JStr s)))))),
      st_compare = None, nosort = False, operation_name = None\<rparr>"

section \<open>vote\_id\<close>

definition vote_id_regex :: "jsstring \<Rightarrow> bool" where
  "vote_id_regex s \<longleftrightarrow> (let ps = split_on 58 s in length ps = 2 \<and> list_all all_digits ps)"

definition vote_id_fromObject :: "env \<Rightarrow> jsval \<Rightarrow> js_error + jsval" where
  "vote_id_fromObject E object =
     bindR (required object) (\<lambda>_.
       if is_object object
       then bindR (bindR (js_get object ''type'') required) (\<lambda>_.
            bindR (bindR (js_get object ''id'') required) (\<lambda>_. Inr object))
       else bindR (require_test E vote_id_regex object) (\<lambda>_.
            case object of
              JStr s \<Rightarrow>
                (let type = JStr (split_on 58 s ! 0); id = JStr (split_on 58 s ! 1)
                 in bindR (require_range E 0 0xff type) (\<lambda>_.
                    bindR (require_range E 0 0xffffff id) (\<lambda>_.
                      Inr (JObj [(''type'', type), (''id'', id)]))))
            | _ \<Rightarrow> Inl TypeError))"

definition vote_id_read :: "bytebuffer \<Rightarrow> js_error + jsval \<times> bytebuffer" where
  "vote_id_read b =
     bindR (readUint32 b) (\<lambda>(v, b'). case v of
       JNum n \<Rightarrow>
         (let w = of_int n :: 32 word
          in Inr (JObj [(''type'', JNum (sint (w AND 0x000000ff))), (''id'', JNum (sint (w AND 0xffffff00)))], b'))
     | _ \<Rightarrow> Inl TypeError)"

text \<open>The test is \<open>object === "string"\<close>, so a text like \<open>"1:2"\<close> is not parsed.\<close>

definition vote_id_append :: "env \<Rightarrow> bytebuffer \<Rightarrow> jsval \<Rightarrow> js_error + bytebuffer" where
  "vote_id_append E b object0 =
     bindR (required object0) (\<lambda>_.
     bindR (if object0 = JStr (js ''string'') then vote_id_fromObject E object0 else Inr object0) (\<lambda>object.
     bindR (bindR (js_get object ''id'') (js_ToInt32 E)) (\<lambda>id.
     bindR (bindR (js_get object ''type'') (js_ToInt32 E)) (\<lambda>type.
       writeUint32 b (JNum (sint (push_bit 8 id OR type)))))))"

definition vote_id_compare :: "env \<Rightarrow> jsval \<Rightarrow> jsval \<Rightarrow> js_error + int option" where
  "vote_id_compare E a0 b0 =
     bindR (if is_object a0 then Inr a0 else vote_id_fromObject E a0) (\<lambda>a.
     bindR (if is_object b0 then Inr b0 else vote_id_fromObject E b0) (\<lambda>b.
     bindR (bindR (js_get a ''id'') (js_parseInt E)) (\<lambda>x.
     bindR (bindR (js_get b ''id'') (js_parseInt E)) (\<lambda>y. Inr (num_minus x y)))))"

definition vote_id :: "env \<Rightarrow> st_type" where
  "vote_id E =
     \<lparr>fromByteBuffer = vote_id_read,
      appendByteBuffer = vote_id_append E,
      fromObject = vote_id_fromObject E,
      toObject = (\<lambda>object0 debug.
        if use_default debug \<and> object0 = JUndef then Inr (JStr (js ''0:0''))
        else bindR (required object0) (\<lambda>_.
             bindR (if is_string object0 then vote_id_fromObject E object0 else Inr object0) (\<lambda>object.
             bindR (bindR (js_get object ''type'') (js_String E)) (\<lambda>t.
             bindR (bindR (js_get object ''id'') (js_String E)) (\<lambda>i. Inr (JStr (t @ [58] @ i))))))),
      st_compare = Some (vote_id_compare E), nosort = False, operation_name = None\<rparr>"

section \<open>optional\<close>

definition annotate_optional :: "jsval \<Rightarrow> js_error + jsval" where
  "annotate_optional r =
     (if is_object r
      then (case r of
              JNull \<Rightarrow> Inl TypeError
            | JObj kvs \<Rightarrow> Inr (JObj (assoc_set ''__optional'' (JStr (js ''parent is optional'')) kvs))
            | _ \<Rightarrow> Inr r)
      else Inr (JObj [(''__optional'', r)]))"

definition st_optional :: "st_type \<Rightarrow> st_type" where
  "st_optional st =
     \<lparr>fromByteBuffer = (\<lambda>b.
        bindR (readUint8 b) (\<lambda>(v, b').
          if v \<noteq> JNum 1 then Inr (JUndef, b') else fromByteBuffer st b')),
      appendByteBuffer = (\<lambda>b object.
        if object \<noteq> JNull \<and> object \<noteq> JUndef
        then bindR (writeUint8 b (JNum 1)) (\<lambda>b'. appendByteBuffer st b' object)
        else writeUint8 b (JNum 0)),
      fromObject = (\<lambda>object. if object = JUndef then Inr JUndef else fromObject st object),
      toObject = (\<lambda>object debug.
        bindR (if \<not> use_default debug \<and> object = JUndef then Inr JUndef else toObject st object debug) (\<lambda>r.
          if annotate debug then annotate_optional r else Inr r)),
      st_compare = None, nosort = False, operation_name = None\<rparr>"

section \<open>static\_variant\<close>

definition op_name_val :: "op_name option \<Rightarrow> jsval" where
  "op_name_val n = (case n of None \<Rightarrow> JUndef | Some (OpStr s) \<Rightarrow> JStr (js s) | Some (OpNum k) \<Rightarrow> JNum k)"

fun find_pos :: "nat \<Rightarrow> jsval \<Rightarrow> st_type list \<Rightarrow> jsval" where
  "find_pos pos v [] = JUndef"
| "find_pos pos v (op # ops) =
     (if op_name_val (operation_name op) = v then JNum (int pos) else find_pos (Suc pos) v ops)"

definition opTypeId :: "st_type list \<Rightarrow> jsval \<Rightarrow> jsval" where
  "opTypeId ops value = (if is_number value then value else find_pos 0 value ops)"

definition op_at :: "st_type list \<Rightarrow> jsval \<Rightarrow> js_error + st_type" where
  "op_at ops type_id =
     (case type_id of
        JNum n \<Rightarrow> if 0 \<le> n \<and> nat n < length ops then Inr (ops ! nat n) else Inl ValueRequired
      | _ \<Rightarrow> Inl ValueRequired)"

text \<open>The two parts of an operation: its type identifier and its body.\<close>

definition variant_parts :: "st_type list \<Rightarrow> jsval \<Rightarrow> js_error + jsval \<times> st_type \<times> jsval" where
  "variant_parts ops object =
     bindR (required object) (\<lambda>_.
     bindR (js_index object 0) (\<lambda>o0.
     bindR (op_at ops (opTypeId ops o0)) (\<lambda>st.
     bindR (js_index object 1) (\<lambda>o1. Inr (opTypeId ops o0, st, o1)))))"

definition num_cmp :: "jsval \<Rightarrow> jsval \<Rightarrow> int option" where
  "num_cmp a b =
     (case (a, b) of (JNum x, JNum y) \<Rightarrow> Some (if x > y then 1 else if x < y then - 1 else 0) | _ \<Rightarrow> Some 0)"

definition st_static_variant :: "st_type list \<Rightarrow> st_type" where
  "st_static_variant ops =
     \<lparr>fromByteBuffer = (\<lambda>b.
        bindR (readVarint32 b) (\<lambda>(type_id, b1).
        bindR (op_at ops type_id) (\<lambda>st.
        bindR (fromByteBuffer st b1) (\<lambda>(v, b2). Inr (JArr [type_id, v], b2))))),
      appendByteBuffer = (\<lambda>b object.
        bindR (variant_parts ops object) (\<lambda>(type_id, st, body).
        bindR (writeVarint32 b type_id) (\<lambda>b1. appendByteBuffer st b1 body))),
      fromObject = (\<lambda>object.
        bindR (variant_parts ops object) (\<lambda>(type_id, st, body).
        bindR (fromObject st body) (\<lambda>v. Inr (JArr [type_id, v])))),
      toObject = (\<lambda>object debug.
        if use_default debug \<and> object = JUndef
        then (case ops of [] \<Rightarrow> Inl TypeError
              | op # _ \<Rightarrow> bindR (toObject op JUndef debug) (\<lambda>v.
                           Inr (JArr [op_name_val (operation_name op), v])))
        else bindR (variant_parts ops object) (\<lambda>(type_id, st, body).
             bindR (toObject st body debug) (\<lambda>v. Inr (JArr [op_name_val (operation_name st), v])))),
      st_compare = Some (\<lambda>a b.
        bindR (js_index a 0) (\<lambda>x. bindR (js_index b 0) (\<lambda>y.
          Inr (num_cmp (opTypeId ops x) (opTypeId ops y))))),
      nosort = True, operation_name = None\<rparr>"

section \<open>map\<close>

text \<open>Every entry has length two; its key is checked against those before it.\<close>

definition entry_key :: "jsval \<Rightarrow> js_error + jsval" where
  "entry_key o' =
     bindR (js_get o' ''length'') (\<lambda>len.
       if len = JNum 2 then js_index o' 0 else Inl ExpectingTwoElements)"

fun check_entries :: "jsstring list \<Rightarrow> jsval list \<Rightarrow> js_error + unit" where
  "check_entries dup_map [] = Inr ()"
| "check_entries dup_map (o' # os) =
     bindR (entry_key o') (\<lambda>key.
       case dup_key key of
         None \<Rightarrow> check_entries dup_map os
       | Some k \<Rightarrow> if k \<in> set dup_map \<or> inherited k then Inl DuplicateMap else check_entries (k # dup_map) os)"

definition map_validate :: "env \<Rightarrow> st_type \<Rightarrow> jsval \<Rightarrow> js_error + jsval" where
  "map_validate E key_st array =
     (case array of
        JArr xs \<Rightarrow>
          bindR (check_entries [] xs) (\<lambda>_. sortOperation E array key_st)
      | _ \<Rightarrow> Inl ExpectingArray)"

definition pair_op ::
  "(jsval \<Rightarrow> js_error + jsval) \<Rightarrow> (jsval \<Rightarrow> js_error + jsval) \<Rightarrow> jsval \<Rightarrow> js_error + jsval" where
  "pair_op f g o' =
     bindR (bindR (js_index o' 0) f) (\<lambda>k. bindR (bindR (js_index o' 1) g) (\<lambda>v. Inr (JArr [k, v])))"

definition read_entry :: "st_type \<Rightarrow> st_type \<Rightarrow> bytebuffer \<Rightarrow> js_error + jsval \<times> bytebuffer" where
  "read_entry key_st value_st b =
     bindR (fromByteBuffer key_st b) (\<lambda>(k, b1).
     bindR (fromByteBuffer value_st b1) (\<lambda>(v, b2). Inr (JArr [k, v], b2)))"

definition append_entry :: "st_type \<Rightarrow> st_type \<Rightarrow> bytebuffer \<Rightarrow> jsval \<Rightarrow> js_error + bytebuffer" where
  "append_entry key_st value_st b o' =
     bindR (bindR (js_index o' 0) (appendByteBuffer key_st b)) (\<lambda>b1.
     bindR (js_index o' 1) (appendByteBuffer value_st b1))"

definition st_map :: "env \<Rightarrow> st_type \<Rightarrow> st_type \<Rightarrow> st_type" where
  "st_map E key_st value_st =
     \<lparr>fromByteBuffer = (\<lambda>b.
        bindR (read_size b) (\<lambda>(end', b1).
        bindR (read_loop (read_entry key_st value_st) end' b1) (\<lambda>(result, b2).
        bindR (map_validate E key_st (JArr result)) (\<lambda>v. Inr (v, b2))))),
      appendByteBuffer = (\<lambda>b object0.
        bindR (map_validate E key_st object0) (\<lambda>object.
        bindR (js_get object ''length'') (\<lambda>len.
        bindR (writeVarint32 b len) (\<lambda>b1.
        bindR (js_elems object) (foldR (append_entry key_st value_st) b1))))),
      fromObject = (\<lambda>object.
        bindR (required object) (\<lambda>_.
        bindR (js_elems object) (\<lambda>xs.
        bindR (mapR (pair_op (fromObject key_st) (fromObject value_st)) xs) (\<lambda>ys.
          map_validate E key_st (JArr ys))))),
      toObject = (\<lambda>object0 debug.
        if use_default debug \<and> object0 = JUndef
        then bindR (toObject key_st JUndef debug) (\<lambda>k. bindR (toObject value_st JUndef debug) (\<lambda>v.
               Inr (JArr [JArr [k, v]])))
        else bindR (required object0) (\<lambda>_.
             bindR (map_validate E key_st object0) (\<lambda>object.
             bindR (js_elems object) (\<lambda>xs.
             bindR (mapR (pair_op (\<lambda>k. toObject key_st k debug) (\<lambda>v. toObject value_st v debug)) xs) (\<lambda>ys.
               Inr (JArr ys)))))),
      st_compare = None, nosort = False, operation_name = None\<rparr>"

section \<open>public\_key\<close>

text \<open>\<open>object.Q\<close> is true for a key with a point; only strings have the \<open>slice\<close> that is called otherwise.\<close>

definition has_Q :: "jsval \<Rightarrow> bool" where
  "has_Q v \<longleftrightarrow> (case v of JPub (Some _) \<Rightarrow> True
      | JObj kvs \<Rightarrow> (case map_of kvs ''Q'' of Some q \<Rightarrow> js_truthy q | None \<Rightarrow> False) | _ \<Rightarrow> False)"

definition key_from_text :: "env \<Rightarrow> jsval \<Rightarrow> js_error + jsval" where
  "key_from_text E v =
     (case v of
        JStr s \<Rightarrow> fromStringOrThrow E s (address_prefix E)
      | JBuf bs \<Rightarrow> (if node_decode (take (length (address_prefix E)) bs) = address_prefix E
                    then Inl LibraryError else Inl AssertionError)
      | JArr xs \<Rightarrow> Inl AssertionError
      | _ \<Rightarrow> Inl TypeError)"

definition toPublic :: "env \<Rightarrow> jsval \<Rightarrow> js_error + jsval" where
  "toPublic E object0 =
     bindR (resolve object0) (\<lambda>object.
       if object = JNull \<or> object = JUndef then Inr object
       else if has_Q object then Inr object
       else key_from_text E object)"

definition public_key :: "env \<Rightarrow> st_type" where
  "public_key E =
     \<lparr>fromByteBuffer = fp_public_key_read E,
      appendByteBuffer = (\<lambda>b object.
        bindR (required object) (\<lambda>_. bindR (toPublic E object) (fp_public_key_write E b))),
      fromObject = (\<lambda>object.
        bindR (required object) (\<lambda>_. if has_Q object then Inr object else toPublic E object)),
      toObject = (\<lambda>object debug.
        if use_default debug \<and> object = JUndef
        then Inr (JStr (address_prefix E @ js ''859gxfnXyUriMgUeThh1fWv3oqcpLFyHa3TfFYC4PK2HqhToVM''))
        else bindR (required object) (\<lambda>_. bindR (js_toString E object) (\<lambda>s. Inr (JStr s)))),
      st_compare = Some (\<lambda>a b.
        bindR (js_toString E a) (\<lambda>s. bindR (js_toString E b) (\<lambda>t. Inr (strCmp s t)))),
      nosort = False, operation_name = None\<rparr>"

section \<open>address\<close>

definition has_addy :: "jsval \<Rightarrow> bool" where
  "has_addy v \<longleftrightarrow> (case v of JAddr _ \<Rightarrow> True
      | JObj kvs \<Rightarrow> (case map_of kvs ''addy'' of Some a \<Rightarrow> js_truthy a | None \<Rightarrow> False) | _ \<Rightarrow> False)"

definition to_address :: "env \<Rightarrow> jsval \<Rightarrow> js_error + jsval" where
  "to_address E object =
     bindR (required object) (\<lambda>_.
       if has_addy object then Inr object
       else (case object of
               JStr s \<Rightarrow> Address_fromString E s (address_prefix E)
             | JBuf bs \<Rightarrow> (if node_decode (take (length (address_prefix E)) bs) = address_prefix E
                           then Inl LibraryError else Inl AssertionError)
             | JArr xs \<Rightarrow> Inl AssertionError
             | _ \<Rightarrow> Inl TypeError))"

definition st_address :: "env \<Rightarrow> st_type" where
  "st_address E =
     \<lparr>fromByteBuffer = (\<lambda>b. bindR (fp_ripemd160_read b) (\<lambda>(bs, b'). Inr (JAddr bs, b'))),
      appendByteBuffer = (\<lambda>b object.
        bindR (to_address E object) (\<lambda>a. case a of
          JAddr bs \<Rightarrow> fp_ripemd160_write b bs
        | _ \<Rightarrow> Inl TypeError)),
      fromObject = to_address E,
      toObject = (\<lambda>object debug.
        if use_default debug \<and> object = JUndef
        then Inr (JStr (address_prefix E @ js ''664KmHxSuQyDsfwo4WEJvWpzg1QKdg67S''))
        else bindR (to_address E object) (\<lambda>a. bindR (js_toString E a) (\<lambda>s. Inr (JStr s)))),
      st_compare = Some (\<lambda>a b.
        bindR (js_toString E a) (\<lambda>s. bindR (js_toString E b) (\<lambda>t.
          Inr (map_option uminus (strCmp s t))))),
      nosort = False, operation_name = None\<rparr>"

end
