(* ===== verification/Serializer.thy ===== *)
theory Serializer
  imports Containers
begin

text \<open>
  \<open>auth/serializer/src/serializer.js\<close>: the class \<open>Serializer\<close> runs its field types in order; an
  exception of a field is rethrown with the operation and field it came from
  (\<open>error_with_cause.js\<close>). \<open>convert.js\<close> gives the conversions of any type to bytes and text.
\<close>

type_synonym fields = "(string \<times> st_type) list"

section \<open>Exceptions with their cause\<close>

text \<open>A call that does not return throws nothing.\<close>

definition EC_throw :: "op_name \<Rightarrow> string \<Rightarrow> js_error \<Rightarrow> js_error" where
  "EC_throw name field e = (if e = Hang then Hang else Cause name field e)"

definition with_cause :: "op_name \<Rightarrow> string \<Rightarrow> js_error + 'a \<Rightarrow> js_error + 'a" where
  "with_cause name field r = (case r of Inl e \<Rightarrow> Inl (EC_throw name field e) | Inr x \<Rightarrow> Inr x)"

text \<open>
  The handler of \<open>appendByteBuffer\<close> prints the field's value: reading it from \<open>null\<close> or
  \<open>undefined\<close>, or converting it to text, may throw in its turn.
\<close>

definition append_cause :: "env \<Rightarrow> op_name \<Rightarrow> string \<Rightarrow> jsval \<Rightarrow> js_error + 'a \<Rightarrow> js_error + 'a" where
  "append_cause E name field object r =
     (case r of
        Inr x \<Rightarrow> Inr x
      | Inl e \<Rightarrow>
          if e = Hang then Inl Hang
          else (case bindR (js_get object field) (js_String E) of
                  Inl e' \<Rightarrow> Inl e' | Inr _ \<Rightarrow> Inl (Cause name field e)))"

section \<open>Serializer\<close>

fun read_fields :: "op_name \<Rightarrow> fields \<Rightarrow> bytebuffer \<Rightarrow> js_error + (string \<times> jsval) list \<times> bytebuffer" where
  "read_fields name [] b = Inr ([], b)"
| "read_fields name ((field, type) # fs) b =
     bindR (with_cause name field (fromByteBuffer type b)) (\<lambda>(v, b1).
     bindR (read_fields name fs b1) (\<lambda>(kvs, b2). Inr ((field, v) # kvs, b2)))"

fun append_fields :: "env \<Rightarrow> op_name \<Rightarrow> jsval \<Rightarrow> bytebuffer \<Rightarrow> fields \<Rightarrow> js_error + bytebuffer" where
  "append_fields E name object b [] = Inr b"
| "append_fields E name object b ((field, type) # fs) =
     bindR (append_cause E name field object (bindR (js_get object field) (appendByteBuffer type b))) (\<lambda>b1.
       append_fields E name object b1 fs)"

definition Serializer_fromObject :: "op_name \<Rightarrow> fields \<Rightarrow> jsval \<Rightarrow> js_error + jsval" where
  "Serializer_fromObject name fs object =
     bindR (mapR (\<lambda>(field, type).
         bindR (with_cause name field (bindR (js_get object field) (fromObject type))) (\<lambda>v. Inr (field, v))) fs)
       (\<lambda>kvs. Inr (JObj kvs))"

definition Serializer_toObject :: "op_name \<Rightarrow> fields \<Rightarrow> jsval \<Rightarrow> debug \<Rightarrow> js_error + jsval" where
  "Serializer_toObject name fs object debug =
     bindR (mapR (\<lambda>(field, type).
         bindR (with_cause name field
           (bindR (if object = JUndef \<or> object = JNull then Inr JUndef else js_get object field) (\<lambda>v.
              toObject type v debug))) (\<lambda>v. Inr (field, v))) fs)
       (\<lambda>kvs. Inr (JObj kvs))"

text \<open>\<open>compare\<close>: sort by the first field.\<close>

definition Serializer_compare :: "env \<Rightarrow> fields \<Rightarrow> jsval \<Rightarrow> jsval \<Rightarrow> js_error + int option" where
  "Serializer_compare E fs a b =
     (case fs of
        [] \<Rightarrow> Inl TypeError
      | (first_key, first_type) # _ \<Rightarrow>
          bindR (js_get a first_key) (\<lambda>valA.
          bindR (js_get b first_key) (\<lambda>valB.
            case st_compare first_type of
              Some cmp \<Rightarrow> cmp valA valB
            | None \<Rightarrow>
                if is_number valA \<and> is_number valB then Inr (num_minus valA valB)
                else (case (valA, valB) of
                        (JBuf p, JBuf q) \<Rightarrow> Inr (strCmp (toHex p) (toHex q))
                      | _ \<Rightarrow> bindR (js_toString E valA) (\<lambda>s. bindR (js_toString E valB) (\<lambda>t.
                               Inr (strCmp s t)))))))"

definition Serializer :: "env \<Rightarrow> op_name \<Rightarrow> fields \<Rightarrow> st_type" where
  "Serializer E name fs =
     \<lparr>fromByteBuffer = (\<lambda>b. bindR (read_fields name fs b) (\<lambda>(kvs, b'). Inr (JObj kvs, b'))),
      appendByteBuffer = (\<lambda>b object. append_fields E name object b fs),
      fromObject = Serializer_fromObject name fs,
      toObject = Serializer_toObject name fs,
      st_compare = Some (Serializer_compare E fs),
      nosort = False, operation_name = Some name\<rparr>"

section \<open>Bytes and text\<close>

definition toByteBuffer :: "st_type \<Rightarrow> jsval \<Rightarrow> js_error + bytebuffer" where
  "toByteBuffer st object =
     bindR (appendByteBuffer st (ByteBuffer_new DEFAULT_CAPACITY True) object) (\<lambda>b. bb_copy b 0 (bb_offset b))"

definition toBuffer :: "st_type \<Rightarrow> jsval \<Rightarrow> js_error + byte list" where
  "toBuffer st object = bindR (toByteBuffer st object) (\<lambda>b. Inr (bb_toBuffer b))"

definition st_toHex :: "st_type \<Rightarrow> jsval \<Rightarrow> js_error + jsstring" where
  "st_toHex st object = bindR (toByteBuffer st object) (\<lambda>b. Inr (toHex (bb_toBuffer b)))"

definition st_fromHex :: "st_type \<Rightarrow> jsstring \<Rightarrow> js_error + jsval" where
  "st_fromHex st hex =
     bindR (bb_fromHex hex True) (\<lambda>b. bindR (fromByteBuffer st b) (\<lambda>(v, _). Inr v))"

definition fromBuffer :: "st_type \<Rightarrow> byte list \<Rightarrow> js_error + jsval" where
  "fromBuffer st buffer = bindR (fromByteBuffer st (fromBinary buffer True)) (\<lambda>(v, _). Inr v)"

text \<open>
  \<open>convert.js\<close>: \<open>fromBuffer\<close> there takes \<open>buffer.toString()\<close>, which decodes UTF-8, as the binary
  string; \<open>fromBinary\<close> takes the string itself.
\<close>

definition convert_fromBinary :: "st_type \<Rightarrow> jsstring \<Rightarrow> js_error + jsval" where
  "convert_fromBinary st s = bindR (binary_bytes s) (fromBuffer st)"

definition convert_fromBuffer :: "st_type \<Rightarrow> byte list \<Rightarrow> js_error + jsval" where
  "convert_fromBuffer st buffer = convert_fromBinary st (node_decode buffer)"

definition convert_toBinary :: "st_type \<Rightarrow> jsval \<Rightarrow> js_error + jsstring" where
  "convert_toBinary st object = bindR (toByteBuffer st object) (\<lambda>b. Inr (toBinaryString (bb_toBuffer b)))"

section \<open>Codecs over whole buffers\<close>

lemma bb_copy_contents:
  "bb_ok b \<Longrightarrow> \<exists>c. bb_copy b 0 (bb_offset b) = Inr c \<and> bb_toBuffer c = bb_contents b"
  by (auto simp: bb_copy_def bb_ok_def bb_toBuffer_def bb_contents_def)

lemma hex_pairs_toHex: "hex_pairs (toHex bs) = Inr bs"
proof (induction bs)
  case (Cons b bs)
  let ?a = "unat b div 16" and ?c = "unat b mod 16"
  have d: "?a < 16" "?c < 16" using unat_byte_less [of b] by (auto simp: div_less_iff_less_mult)
  have nx: "hex_char ?c \<noteq> 120 \<and> hex_char ?c \<noteq> 88"
  proof -
    have "hex_digit_val 120 = None" "hex_digit_val 88 = None" by (simp_all add: hex_digit_val_def is_digit_def)
    then show ?thesis by (metis d(2) hex_digit_val_char option.distinct(1))
  qed
  have ns: "\<not> is_ws (hex_char ?a) \<and> hex_char ?a \<noteq> 45 \<and> hex_char ?a \<noteq> 43"
  proof -
    have u: "unat (hex_char ?a) = (if ?a < 10 then 48 + ?a else 87 + ?a)"
      using d by (auto simp: hex_char_def unat_of_nat simp del: of_nat_add)
    have "48 \<le> unat (hex_char ?a) \<and> unat (hex_char ?a) < 103" using u d by auto
    then show ?thesis by (auto simp: is_ws_def word_le_nat_alt)
  qed
  have "16 * ?a + ?c = unat b" by simp
  then have p: "parseInt16 [hex_char ?a, hex_char ?c] = Some (int (unat b))"
    using ns nx d
    by (simp add: parseInt16_def parse_sign_def parse_hex_def js_def del: mult_div_mod_eq)
  have "int (unat b) \<le> 255" using unat_byte_less [of b] by linarith
  moreover have "of_int (int (unat b)) = b" by simp
  ultimately show ?case using Cons p by (simp add: toHex_def hex_byte_def)
qed (simp add: toHex_def)

context codec
begin

lemma to_buffer:
  assumes "valid v"
  shows "bindR (append (ByteBuffer_new n True) v) (\<lambda>b. bindR (bb_copy b 0 (bb_offset b)) (\<lambda>c. Inr (bb_toBuffer c))) = Inr (enc v)"
proof -
  obtain b where b: "append (ByteBuffer_new n True) v = Inr b" "bb_appended (ByteBuffer_new n True) (enc v) b"
    using append_enc [OF assms bb_new_ok] by blast
  then obtain c where "bb_copy b 0 (bb_offset b) = Inr c" "bb_toBuffer c = bb_contents b"
    using bb_copy_contents [of b] by (auto simp: bb_appended_def)
  with b show ?thesis by (simp add: bb_appended_def)
qed

lemma from_buffer: "valid v \<Longrightarrow> \<exists>b'. read (fromBinary (enc v @ r) True) = Inr (v, b') \<and> bb_remaining b' = r"
  using read_enc [of v "fromBinary (enc v @ r) True" r] by auto

end

text \<open>For a type that is a codec, writing to a fresh buffer and reading it back gives the value.\<close>

definition is_codec :: "st_type \<Rightarrow> (jsval \<Rightarrow> byte list) \<Rightarrow> (jsval \<Rightarrow> bool) \<Rightarrow> bool" where
  "is_codec st enc valid \<longleftrightarrow> codec (appendByteBuffer st) (fromByteBuffer st) enc valid"

lemma is_codec_toBuffer: "is_codec st enc valid \<Longrightarrow> valid v \<Longrightarrow> toBuffer st v = Inr (enc v)"
  using codec.to_buffer [of "appendByteBuffer st" "fromByteBuffer st" enc valid v DEFAULT_CAPACITY]
  by (simp add: is_codec_def toBuffer_def toByteBuffer_def bindR_assoc)

lemma is_codec_fromBuffer: "is_codec st enc valid \<Longrightarrow> valid v \<Longrightarrow> fromBuffer st (enc v) = Inr v"
  using codec.from_buffer [of "appendByteBuffer st" "fromByteBuffer st" enc valid v "[]"]
  by (auto simp: is_codec_def fromBuffer_def)

lemma is_codec_toHex: "is_codec st enc valid \<Longrightarrow> valid v \<Longrightarrow> st_toHex st v = Inr (toHex (enc v))"
  using is_codec_toBuffer [of st enc valid v] by (auto simp: st_toHex_def toBuffer_def bindR_eq_Inr)

lemma is_codec_fromHex:
  assumes "is_codec st enc valid" "valid v"
  shows "st_fromHex st (toHex (enc v)) = Inr v"
proof -
  have "bb_fromHex (toHex (enc v)) True = Inr (fromBinary (enc v) True)"
    by (simp add: bb_fromHex_def length_toHex hex_pairs_toHex)
  then show ?thesis using is_codec_fromBuffer [OF assms] by (simp add: st_fromHex_def fromBuffer_def)
qed

end
