(* ===== verification/Codecs.thy ===== *)
theory Codecs
  imports Serializer
begin

text \<open>
  The contract of the locale \<open>codec\<close> for every type descriptor that has one: on canonical values the
  descriptor writes exactly the bytes of the wire format and reads them back. One lemma per
  descriptor; those of the combinators derive the contract of the whole from the contracts of
  the parts.
\<close>

section \<open>Rules\<close>

lemma is_codecI:
  assumes "\<And>v b. valid v \<Longrightarrow> bb_ok b \<Longrightarrow> \<exists>b'. appendByteBuffer st b v = Inr b' \<and> bb_appended b (enc v) b'"
    and "\<And>v b r. valid v \<Longrightarrow> bb_input b \<Longrightarrow> bb_remaining b = enc v @ r \<Longrightarrow>
      fromByteBuffer st b = Inr (v, bb_advance (length (enc v)) b)"
  shows "is_codec st enc valid"
  unfolding is_codec_def by unfold_locales (fact assms)+

lemma is_codec_append:
  "is_codec st enc valid \<Longrightarrow> valid v \<Longrightarrow> bb_ok b \<Longrightarrow> \<exists>b'. appendByteBuffer st b v = Inr b' \<and> bb_appended b (enc v) b'"
  unfolding is_codec_def by (rule codec.append_enc)

lemma is_codec_read:
  "is_codec st enc valid \<Longrightarrow> valid v \<Longrightarrow> bb_input b \<Longrightarrow> bb_remaining b = enc v @ r \<Longrightarrow>
     fromByteBuffer st b = Inr (v, bb_advance (length (enc v)) b)"
  unfolding is_codec_def by (rule codec.read_enc)

lemma bb_appended_ok: "bb_appended b bs b' \<Longrightarrow> bb_ok b'"
  by (simp add: bb_appended_def)

lemma bb_appended_trans: "bb_appended b xs b1 \<Longrightarrow> bb_appended b1 ys b2 \<Longrightarrow> bb_appended b (xs @ ys) b2"
  by (simp add: bb_appended_def)

lemma bb_appended_refl: "bb_ok b \<Longrightarrow> bb_appended b [] b"
  by (simp add: bb_appended_def)

text \<open>Two writes in a row, and the input after a read.\<close>

lemma bindR_appended:
  assumes "\<exists>b1. m = Inr b1 \<and> bb_appended b xs b1"
    and "\<And>b1. bb_ok b1 \<Longrightarrow> \<exists>b2. f b1 = Inr b2 \<and> bb_appended b1 ys b2"
  shows "\<exists>b2. bindR m f = Inr b2 \<and> bb_appended b (xs @ ys) b2"
proof -
  from assms(1) obtain b1 where 1: "m = Inr b1" "bb_appended b xs b1" by blast
  with assms(2) [of b1] obtain b2 where "f b1 = Inr b2" "bb_appended b1 ys b2"
    by (auto dest: bb_appended_ok)
  with 1 show ?thesis by (auto intro: bb_appended_trans)
qed

lemma bb_after:
  assumes "bb_input b" "bb_remaining b = xs @ r"
  shows "bb_input (bb_advance (length xs) b)" "bb_remaining (bb_advance (length xs) b) = r"
  using assms by (simp_all add: bb_advance_input)

section \<open>Integers, times and booleans\<close>

lemma ranged_int_codec:
  assumes "codec write read enc (num_in lo hi)" "MIN_SAFE_INT \<le> lo" "hi \<le> MAX_SAFE_INT"
  shows "is_codec (ranged_int E lo hi read write) enc (num_in lo hi)"
proof (rule is_codecI)
  fix v b assume "num_in lo hi v" "bb_ok b"
  then show "\<exists>b'. appendByteBuffer (ranged_int E lo hi read write) b v = Inr b' \<and> bb_appended b (enc v) b'"
    using codec.append_enc [OF assms(1)] assms(2,3)
    by (auto simp: ranged_int_def require_range_num elim!: num_inE)
next
  fix v b r assume "num_in lo hi v" "bb_input b" "bb_remaining b = enc v @ r"
  then show "fromByteBuffer (ranged_int E lo hi read write) b = Inr (v, bb_advance (length (enc v)) b)"
    using codec.read_enc [OF assms(1)] by (auto simp: ranged_int_def)
qed

lemma uint8_codec [codec_intros]: "is_codec (uint8 E) (\<lambda>v. [of_int (the_num v)]) (num_in 0 255)"
  unfolding uint8_def by (rule ranged_int_codec [OF bb_u8.codec_axioms]) (simp_all add: MIN_SAFE_INT_def MAX_SAFE_INT_def)

lemma uint16_codec [codec_intros]: "is_codec (uint16 E) (\<lambda>v. bytes16 (of_int (the_num v))) (num_in 0 65535)"
  unfolding uint16_def by (rule ranged_int_codec [OF bb_u16.codec_axioms]) (simp_all add: MIN_SAFE_INT_def MAX_SAFE_INT_def)

lemma uint32_codec [codec_intros]: "is_codec (uint32 E) (\<lambda>v. bytes32 (of_int (the_num v))) (num_in 0 4294967295)"
  unfolding uint32_def by (rule ranged_int_codec [OF bb_u32.codec_axioms]) (simp_all add: MIN_SAFE_INT_def MAX_SAFE_INT_def)

lemma varint32_codec [codec_intros]:
  "is_codec (varint32 E) (\<lambda>v. varint32_bytes (of_int (the_num v))) (num_in (- 2147483648) 2147483647)"
proof -
  have r: "MIN_SIGNED_32 = - 2147483648" "MAX_SIGNED_32 = 2147483647"
    by (simp_all add: MIN_SIGNED_32_def MAX_SIGNED_32_def)
  show ?thesis
    unfolding varint32_def r
    by (rule ranged_int_codec [OF bb_varint.codec_axioms]) (simp_all add: MIN_SAFE_INT_def MAX_SAFE_INT_def)
qed

lemma int16_codec [codec_intros]: "is_codec (int16 E) (\<lambda>v. bytes16 (of_int (the_num v))) (num_in (- 32768) 32767)"
  by (simp add: is_codec_def int16_def bb_i16.codec_axioms)

lemma int64_codec [codec_intros]: "is_codec (int64 E) (\<lambda>v. bytes64 (the_long v)) (is_long_u False)"
  by (rule is_codecI)
    (auto simp: int64_def elim!: is_long_uE intro: bb_i64.append_enc [of "JLong False w" for w, simplified] bb_i64.read_enc [of "JLong False w" for w, simplified])

lemma no_minus_unsigned: "45 \<notin> set (Long_toString True w)"
proof -
  have "list_all is_digit (Long_toString True w)" by (simp add: Long_toString_eq long_value_def dec_int_def)
  then show ?thesis using digits_no [of "Long_toString True w" 45] by simp
qed

lemma uint64_codec [codec_intros]: "is_codec (uint64 E) (\<lambda>v. bytes64 (the_long v)) (is_long_u True)"
  by (rule is_codecI)
    (auto simp: uint64_def v_unsigned_def is_empty_def no_minus_unsigned elim!: is_long_uE
      intro: bb_u64.append_enc [of "JLong True w" for w, simplified] bb_u64.read_enc [of "JLong True w" for w, simplified])

lemma time_point_sec_codec [codec_intros]:
  "is_codec (time_point_sec E) (\<lambda>v. bytes32 (of_int (the_num v))) (num_in 0 4294967295)"
proof (rule is_codecI)
  fix v b assume "num_in 0 4294967295 v" "bb_ok b"
  then show "\<exists>b'. appendByteBuffer (time_point_sec E) b v = Inr b' \<and> bb_appended b (bytes32 (of_int (the_num v))) b'"
    using bb_u32.append_enc [of v b] by (auto simp: time_point_sec_def is_number_def elim!: num_inE)
next
  fix v b r assume "num_in 0 4294967295 v" "bb_input b" "bb_remaining b = bytes32 (of_int (the_num v)) @ r"
  then show "fromByteBuffer (time_point_sec E) b = Inr (v, bb_advance (length (bytes32 (of_int (the_num v)))) b)"
    using bb_u32.read_enc [of v b r] by (simp add: time_point_sec_def)
qed

fun bool_byte :: "jsval \<Rightarrow> byte list" where
  "bool_byte (JBool t) = [if t then 1 else 0]"
| "bool_byte _ = []"

fun is_bool :: "jsval \<Rightarrow> bool" where
  "is_bool (JBool _) = True"
| "is_bool _ = False"

lemma write_flag: "bb_ok b \<Longrightarrow> \<exists>b'. writeUint8 b (JNum (if t then 1 else 0)) = Inr b' \<and> bb_appended b [if t then 1 else 0] b'"
  using bb_u8.append_enc [of "JNum (if t then 1 else 0)" b] by (cases t) simp_all

lemma read_flag:
  "bb_input b \<Longrightarrow> bb_remaining b = (if t then 1 else 0) # r \<Longrightarrow>
     readUint8 b = Inr (JNum (if t then 1 else 0), bb_advance 1 b)"
  using bb_u8.read_enc [of "JNum (if t then 1 else 0)" b r] by (cases t) simp_all

lemma bool_codec [codec_intros]: "is_codec (st_bool E) bool_byte is_bool"
proof (rule is_codecI)
  fix v b assume "is_bool v" "bb_ok b"
  moreover have "JSON_truthy E (JBool t) = Inr t" for t by (cases t) (simp_all add: JSON_truthy_def js_def)
  ultimately show "\<exists>b'. appendByteBuffer (st_bool E) b v = Inr b' \<and> bb_appended b (bool_byte v) b'"
    by (cases v) (auto simp: st_bool_def intro: write_flag [of _ True, simplified] write_flag [of _ False, simplified])
next
  fix v b r assume "is_bool v" "bb_input b" "bb_remaining b = bool_byte v @ r"
  then show "fromByteBuffer (st_bool E) b = Inr (v, bb_advance (length (bool_byte v)) b)"
    by (cases v) (auto simp: st_bool_def read_flag)
qed

lemma void_codec [codec_intros]: "is_codec st_void (\<lambda>v. []) (\<lambda>v. False)"
  by (rule is_codecI) auto

section \<open>Strings and bytes\<close>

fun the_buf :: "jsval \<Rightarrow> byte list" where
  "the_buf (JBuf bs) = bs"
| "the_buf _ = []"

definition prefixed_bytes :: "byte list \<Rightarrow> byte list" where
  "prefixed_bytes bs = varint32_bytes (of_nat (length bs)) @ bs"

text \<open>The bytes of well-formed text.\<close>

definition utf8_ok :: "byte list \<Rightarrow> bool" where
  "utf8_ok bs \<longleftrightarrow> (let s = node_decode bs in wf16 s \<and> node_encode s = bs)"

fun string_valid :: "jsval \<Rightarrow> bool" where
  "string_valid (JBuf bs) \<longleftrightarrow> utf8_ok bs \<and> length bs < 2147483648"
| "string_valid _ \<longleftrightarrow> False"

fun bytes_valid :: "nat option \<Rightarrow> jsval \<Rightarrow> bool" where
  "bytes_valid n (JBuf bs) \<longleftrightarrow> (case n of None \<Rightarrow> length bs < 2147483648 | Some k \<Rightarrow> length bs = k)"
| "bytes_valid n _ \<longleftrightarrow> False"

definition bytes_wire :: "nat option \<Rightarrow> jsval \<Rightarrow> byte list" where
  "bytes_wire n v = (case n of None \<Rightarrow> prefixed_bytes (the_buf v) | Some _ \<Rightarrow> the_buf v)"

lemma string_validE:
  assumes "string_valid v"
  obtains s where "v = JBuf (node_encode s)" "vstring_ok s" "node_decode (node_encode s) = s"
proof (cases v)
  case (JBuf bs)
  then show ?thesis
    using assms that [of "node_decode bs"] by (simp add: utf8_ok_def vstring_ok_def Let_def)
qed (use assms in simp_all)

lemma string_codec [codec_intros]: "is_codec (st_string E) (\<lambda>v. prefixed_bytes (the_buf v)) string_valid"
proof (rule is_codecI)
  fix v b assume v: "string_valid v" and b: "bb_ok b"
  from v obtain s where s: "v = JBuf (node_encode s)" "vstring_ok s" "node_decode (node_encode s) = s" by (rule string_validE)
  then show "\<exists>b'. appendByteBuffer (st_string E) b v = Inr b' \<and> bb_appended b (prefixed_bytes (the_buf v)) b'"
    using bb_vstring.append_enc [OF s(2) b]
    by (simp add: st_string_def js_toString_def prefixed_bytes_def vstring_bytes_def)
next
  fix v b r assume v: "string_valid v" and b: "bb_input b" and r: "bb_remaining b = prefixed_bytes (the_buf v) @ r"
  from v obtain s where s: "v = JBuf (node_encode s)" "vstring_ok s" by (rule string_validE)
  then show "fromByteBuffer (st_string E) b = Inr (v, bb_advance (length (prefixed_bytes (the_buf v))) b)"
    using bb_vstring.read_enc [OF s(2) b, of r] r
    by (simp add: st_string_def prefixed_bytes_def vstring_bytes_def)
qed

lemma binary_bytes_toBinary [simp]: "binary_bytes (toBinaryString bs) = Inr bs"
proof -
  have "unat (ucast x :: code_unit) = unat x" for x :: byte
    by (subst unat_ucast_mod) (rule mod_less, rule order.strict_trans [OF unat_byte_less], simp)
  then have "(ucast x :: code_unit) < 256" and "ucast (ucast x :: code_unit) = x" for x :: byte
    by (simp_all add: word_less_nat_alt word_unat_eq_iff unat_ucast_mod)
  then show ?thesis by (simp add: binary_bytes_def toBinaryString_def list_all_iff map_idI)
qed

lemma bb_append_bytes: "bb_ok b \<Longrightarrow> \<exists>b'. bb_append b (toBinaryString bs) = Inr b' \<and> bb_appended b bs b'"
  using bb_write_appends [of b bs "length bs"]
  by (auto simp: bb_append_def bb_ok_def bb_appended_refl)

lemma read_sized_bytes:
  assumes "bb_input b" "bb_remaining b = bs @ r"
  shows "read_sized b (int (length bs)) = Inr (JBuf bs, bb_advance (length bs) b)"
proof -
  have "length (bs @ r) = length (bb_view b) - bb_offset b" using assms(2) by (metis bb_remaining_def length_drop)
  then have l: "bb_offset b + length bs \<le> length (bb_view b)" using assms(1) by (auto simp: bb_input_def bb_ok_def)
  moreover have "take (length bs) (drop (bb_offset b) (bb_view b)) = bs" using assms(2) by (simp add: bb_remaining_def)
  ultimately show ?thesis by (simp add: read_sized_def bb_copy_def bb_skip_def bb_toBuffer_def)
qed

lemma read_size_bytes:
  assumes "bb_input b" "bb_remaining b = varint32_bytes (of_nat n) @ r" "n < 2147483648"
  shows "read_size b = Inr (int n, bb_advance (length (varint32_bytes (of_nat n))) b)"
  using assms bb_varint.read_enc [of "JNum (int n)" b r] by (simp add: read_size_def)

lemma write_size:
  assumes "bb_ok b" "n < 2147483648"
  shows "\<exists>b'. writeVarint32 b (JNum (int n)) = Inr b' \<and> bb_appended b (varint32_bytes (of_nat n)) b'"
  using assms bb_varint.append_enc [of "JNum (int n)" b] by simp

lemma read_prefixed_bytes:
  assumes "bb_input b" "bb_remaining b = prefixed_bytes bs @ r" "length bs < 2147483648"
  shows "read_prefixed b = Inr (JBuf bs, bb_advance (length (prefixed_bytes bs)) b)"
proof -
  let ?h = "varint32_bytes (of_nat (length bs))"
  have r: "bb_remaining b = ?h @ bs @ r" using assms(2) by (simp add: prefixed_bytes_def)
  show ?thesis
    using read_size_bytes [OF assms(1) r assms(3)] read_sized_bytes [OF bb_after [OF assms(1) r]]
    by (simp add: read_prefixed_def prefixed_bytes_def)
qed

lemma write_prefixed:
  assumes "bb_ok b" "length bs < 2147483648"
  shows "\<exists>b'. bindR (writeVarint32 b (JNum (int (length bs)))) (\<lambda>b1. bb_append b1 (toBinaryString bs)) = Inr b'
    \<and> bb_appended b (prefixed_bytes bs) b'"
  unfolding prefixed_bytes_def by (intro bindR_appended write_size bb_append_bytes assms)

lemma bytes_codec [codec_intros]: "is_codec (st_bytes E n) (bytes_wire n) (bytes_valid n)"
proof (rule is_codecI)
  fix v b assume "bytes_valid n v" "bb_ok b"
  then show "\<exists>b'. appendByteBuffer (st_bytes E n) b v = Inr b' \<and> bb_appended b (bytes_wire n v) b'"
    using write_prefixed [of b "the_buf v"] bb_append_bytes [of b "the_buf v"]
    by (cases v; cases n) (simp_all add: st_bytes_def toString_binary_def bytes_wire_def)
next
  fix v b r assume "bytes_valid n v" "bb_input b" "bb_remaining b = bytes_wire n v @ r"
  then show "fromByteBuffer (st_bytes E n) b = Inr (v, bb_advance (length (bytes_wire n v)) b)"
    using read_prefixed_bytes [of b "the_buf v" r] read_sized_bytes [of b "the_buf v" r]
    by (cases v; cases n) (simp_all add: st_bytes_def bytes_wire_def)
qed

lemma string_binary_codec [codec_intros]: "is_codec (string_binary E) (bytes_wire None) (bytes_valid None)"
proof (rule is_codecI)
  fix v b assume "bytes_valid None v" "bb_ok b"
  then show "\<exists>b'. appendByteBuffer (string_binary E) b v = Inr b' \<and> bb_appended b (bytes_wire None v) b'"
    using write_prefixed [of b "the_buf v"]
    by (cases v) (simp_all add: string_binary_def toString_binary_def bytes_wire_def)
next
  fix v b r assume "bytes_valid None v" "bb_input b" "bb_remaining b = bytes_wire None v @ r"
  then show "fromByteBuffer (string_binary E) b = Inr (v, bb_advance (length (bytes_wire None v)) b)"
    using read_prefixed_bytes [of b "the_buf v" r]
    by (cases v) (simp_all add: string_binary_def bytes_wire_def)
qed

section \<open>Keys\<close>

text \<open>A key whose point the curve library encodes in 33 bytes and decodes again.\<close>

fun key_valid :: "env \<Rightarrow> jsval \<Rightarrow> bool" where
  "key_valid E (JPub (Some q)) \<longleftrightarrow> point_ok E q \<and> length (PublicKey_toBuffer E (Some q)) = 33"
| "key_valid E _ \<longleftrightarrow> False"

fun key_wire :: "env \<Rightarrow> jsval \<Rightarrow> byte list" where
  "key_wire E (JPub q) = PublicKey_toBuffer E q"
| "key_wire E _ = []"

lemma fixed_data_read_bytes:
  assumes "bb_input b" "bb_remaining b = bs @ r" "length bs = n"
  shows "fixed_data_read b n = Inr (bs, bb_advance n b)"
  using read_sized_bytes [OF assms(1,2)] assms(3)
  by (auto simp: read_sized_def fixed_data_read_def bindR_eq_Inr split: if_splits)

lemma public_key_codec [codec_intros]: "is_codec (public_key E) (key_wire E) (key_valid E)"
proof (rule is_codecI)
  fix v b assume "key_valid E v" "bb_ok b"
  then show "\<exists>b'. appendByteBuffer (public_key E) b v = Inr b' \<and> bb_appended b (key_wire E v) b'"
    using bb_append_bytes [of b "key_wire E v"]
    by (cases "(E, v)" rule: key_valid.cases)
      (simp_all add: public_key_def toPublic_def resolve_def has_Q_def fp_public_key_write_def js_truthy_def)
next
  fix v b r assume v: "key_valid E v" and b: "bb_input b" "bb_remaining b = key_wire E v @ r"
  then obtain q where q: "v = JPub (Some q)" "point_ok E q" "length (PublicKey_toBuffer E (Some q)) = 33"
    by (cases "(E, v)" rule: key_valid.cases) auto
  then show "fromByteBuffer (public_key E) b = Inr (v, bb_advance (length (key_wire E v)) b)"
    using fixed_data_read_bytes [of b "key_wire E v" r 33] b PublicKey_fromBuffer_toBuffer [where E = E and Q = "Some q"]
    by (simp add: public_key_def fp_public_key_read_def)
qed

section \<open>Assets\<close>

text \<open>
  The canonical text of an asset: an amount below \<open>2 ^ 63\<close> with fewer than 16 decimal places and no
  superfluous leading zero, a blank, and a symbol of up to six capital letters or digits.
\<close>

definition asset_text :: "nat \<Rightarrow> nat \<Rightarrow> jsstring \<Rightarrow> jsstring" where
  "asset_text a p sy = implied_point (dec_nat a) p @ 32 # sy"

definition symbol_char :: "code_unit \<Rightarrow> bool" where
  "symbol_char c \<longleftrightarrow> is_digit c \<or> (65 \<le> c \<and> c \<le> 90)"

definition symbol_ok :: "jsstring \<Rightarrow> bool" where
  "symbol_ok sy \<longleftrightarrow> sy \<noteq> [] \<and> length sy \<le> 6 \<and> list_all symbol_char sy"

definition asset_parse :: "jsstring \<Rightarrow> nat \<times> nat \<times> jsstring" where
  "asset_parse s =
     (let w = takeWhile (\<lambda>c. c \<noteq> 32) s
      in (digits_val (remove1 46 w), (case index_of 46 w of None \<Rightarrow> 0 | Some d \<Rightarrow> length w - d - 1),
          drop (length w + 1) s))"

fun asset_valid :: "jsval \<Rightarrow> bool" where
  "asset_valid (JStr s) \<longleftrightarrow>
     (case asset_parse s of (a, p, sy) \<Rightarrow> s = asset_text a p sy \<and> a < 2 ^ 63 \<and> p < 16 \<and> symbol_ok sy)"
| "asset_valid _ \<longleftrightarrow> False"

definition symbol_bytes :: "nat \<Rightarrow> jsstring \<Rightarrow> byte list" where
  "symbol_bytes p sy = of_nat p # map ucast sy @ replicate (7 - length sy) 0"

fun asset_wire :: "jsval \<Rightarrow> byte list" where
  "asset_wire (JStr s) = (case asset_parse s of (a, p, sy) \<Rightarrow> bytes64 (of_nat a) @ symbol_bytes p sy)"
| "asset_wire _ = []"

lemma asset_validE:
  assumes "asset_valid v"
  obtains a p sy where "v = JStr (asset_text a p sy)" "a < 2 ^ 63" "p < 16" "symbol_ok sy"
    "asset_wire v = bytes64 (of_nat a) @ symbol_bytes p sy"
proof (cases v)
  case (JStr s)
  obtain a p sy where "asset_parse s = (a, p, sy)" by (cases "asset_parse s") auto
  then show ?thesis using assms that [of a p sy] JStr by simp
qed (use assms in simp_all)

lemma symbol_char_unat: "symbol_char c \<longleftrightarrow> (48 \<le> unat c \<and> unat c \<le> 57) \<or> (65 \<le> unat c \<and> unat c \<le> 90)"
  by (simp add: symbol_char_def is_digit_iff word_le_nat_alt)

lemma symbol_char_facts:
  assumes "symbol_char c"
  shows "\<not> is_ws c" "to_upper c = c" "is_alnum_at c" "c < 128" "c \<noteq> 0" "c \<noteq> 64" "c \<noteq> 32"
  using assms
  by (auto simp: symbol_char_unat is_ws_def to_upper_def is_alnum_at_def is_digit_iff word_le_nat_alt word_less_nat_alt)

lemma symbol_facts:
  assumes "symbol_ok sy"
  shows "map to_upper sy = sy" "list_all is_alnum_at sy" "list_all (\<lambda>c. c < 128) sy" "filter (\<lambda>c. c \<noteq> 0) sy = sy"
    "\<not> starts_with (js ''@@'') sy" "32 \<notin> set sy" "\<not> is_ws (last sy)"
proof -
  have a: "\<forall>c\<in>set sy. symbol_char c" using assms by (simp add: symbol_ok_def list_all_iff)
  then show "map to_upper sy = sy" "filter (\<lambda>c. c \<noteq> 0) sy = sy"
    by (auto simp: symbol_char_facts intro!: map_idI filter_True)
  show "list_all is_alnum_at sy" "list_all (\<lambda>c. c < 128) sy" "32 \<notin> set sy"
    using a symbol_char_facts(3,4) symbol_char_facts(7) [of 32] by (auto simp: list_all_iff)
  show "\<not> is_ws (last sy)" using a assms symbol_char_facts(1) by (simp add: symbol_ok_def)
  show "\<not> starts_with (js ''@@'') sy"
    using a assms symbol_char_facts(6) by (cases sy) (auto simp: symbol_ok_def starts_with_def js_def)
qed

lemma js_trim_ends: "s \<noteq> [] \<Longrightarrow> \<not> is_ws (hd s) \<Longrightarrow> \<not> is_ws (last s) \<Longrightarrow> js_trim s = s"
proof -
  assume s: "s \<noteq> []" "\<not> is_ws (hd s)" "\<not> is_ws (last s)"
  then have "dropWhile is_ws s = s" by (cases s) auto
  moreover have "dropWhile is_ws (rev s) = rev s" using s by (cases "rev s") (auto simp: hd_rev [symmetric])
  ultimately show ?thesis by (simp add: js_trim_def)
qed

lemma write_zeros_appends: "bb_ok b \<Longrightarrow> \<exists>b'. write_zeros n b = Inr b' \<and> bb_appended b (replicate n 0) b'"
proof (induction n arbitrary: b)
  case (Suc n)
  have "\<exists>b'. bindR (writeUint8 b (JNum 0)) (write_zeros n) = Inr b' \<and> bb_appended b ([0] @ replicate n 0) b'"
    using write_flag [OF Suc.prems, of False] by (intro bindR_appended Suc.IH) simp_all
  then show ?case by simp
qed (simp add: bb_appended_refl)

lemma write_symbol_appends:
  assumes "bb_ok b" "p < 256" "symbol_ok sy"
  shows "\<exists>b'. write_symbol b (JNum (int p)) sy = Inr b' \<and> bb_appended b (symbol_bytes p sy) b'"
proof -
  have "toBinaryString (map ucast sy) = sy"
    using symbol_facts(3) [OF assms(3)]
    by (auto simp: toBinaryString_def list_all_iff word_unat_eq_iff word_less_nat_alt unat_ucast_mod intro!: map_idI)
  then have "\<exists>b'. bb_append b1 (map to_upper sy) = Inr b' \<and> bb_appended b1 (map ucast sy) b'" if "bb_ok b1" for b1
    using bb_append_bytes [OF that, of "map ucast sy"] symbol_facts(1) [OF assms(3)] by simp
  moreover have "\<exists>b1. writeUint8 b (JNum (int p)) = Inr b1 \<and> bb_appended b [of_nat p] b1"
    using bb_u8.append_enc [of "JNum (int p)" b] assms by simp
  ultimately have "\<exists>b'. write_symbol b (JNum (int p)) sy = Inr b' \<and>
      bb_appended b ([of_nat p] @ map ucast sy @ replicate (7 - length sy) 0) b'"
    unfolding write_symbol_def by (intro bindR_appended write_zeros_appends)
  then show ?thesis by (simp add: symbol_bytes_def)
qed

lemma node_decode_symbol:
  assumes "symbol_ok sy"
  shows "filter (\<lambda>c. c \<noteq> 0) (node_decode (map ucast sy @ replicate k 0)) = sy"
proof -
  let ?t = "sy @ replicate k 0"
  have a: "list_all (\<lambda>c. c < 128) ?t" using symbol_facts(3) [OF assms] by (auto simp: list_all_iff)
  have "node_decode (map ucast ?t) = ?t" using node_decode_encode [OF wf16_ascii [OF a]] node_encode_ascii [OF a] by simp
  then show ?thesis using symbol_facts(4) [OF assms] by simp
qed

text \<open>The shape of a canonical amount.\<close>

lemma implied_amount:
  obtains w f where "implied_point (dec_nat a) p = w @ (if p = 0 then [] else 46 # f)" "length f = p" "w \<noteq> []"
    "list_all is_digit w" "list_all is_digit f" "digits_val (w @ f) = a" "w @ f \<noteq> []"
  using implied_point_split [of "dec_nat a" p] by (metis append_is_Nil_conv dec_nat_digits dec_nat_not_Nil digits_val_dec_nat)

lemma asset_append_text_eq:
  assumes a: "a < 2 ^ 63" and s: "symbol_ok sy"
  shows "asset_append_text E b (asset_text a p sy) =
    bindR (writeInt64 b (JLong False (of_nat a))) (\<lambda>b1. write_symbol b1 (JNum (int p)) sy)"
proof -
  obtain w f where wf: "implied_point (dec_nat a) p = w @ (if p = 0 then [] else 46 # f)" "length f = p" "w \<noteq> []"
    "list_all is_digit w" "list_all is_digit f" "digits_val (w @ f) = a" "w @ f \<noteq> []" by (rule implied_amount)
  let ?amt = "implied_point (dec_nat a) p"
  let ?s = "?amt @ 32 # sy"
  have hd: "is_digit (hd w)" using wf by (cases w) auto
  then have trim: "js_trim ?s = ?s"
    using wf s symbol_facts(7) [OF s] by (intro js_trim_ends) (auto simp: symbol_ok_def digit_not_ws)
  have no: "46 \<notin> set w" "46 \<notin> set f" "32 \<notin> set ?amt"
    using wf digits_no [of w] digits_no [of f] by (auto simp: )
  have re: "asset_regex ?s"
    using wf s symbol_facts(2) [OF s]
    by (cases "p = 0") (simp_all add: asset_regex_def symbol_ok_def dropWhile_append takeWhile_append list_all_iff Let_def)
  have sp: "split_on 32 ?s = [?amt, sy]"
    using split_on_once [OF no(3), of sy] split_on_none [OF symbol_facts(6) [OF s]] by simp
  have ix: "index_of 46 ?amt = (if p = 0 then None else Some (length w))"
    unfolding wf(1) using no by (induction w) auto
  have rm: "remove1 46 ?amt = w @ f"
    using wf no by (cases "p = 0") (simp_all add: remove1_append remove1_idem)
  have d: "list_all is_digit (w @ f)" using wf by simp
  have "digits_val (strip_zeros (w @ f)) < 2 ^ 63" using strip_zeros_le [OF d] a wf(6) by linarith
  then have tl: "to_long E (JStr (w @ f)) = Inr (JLong False (of_nat a))"
    using to_long_digits [OF d wf(7)] wf(6) by simp
  have "length ?amt - length w - 1 = p" using wf by simp
  then show ?thesis
    using trim re sp ix rm tl s symbol_facts(5) [OF s] wf(2)
    by (simp add: asset_append_text_def asset_text_def Let_def write_asset_tail_def symbol_ok_def)
qed

lemma read_symbol_bytes:
  assumes "bb_input b" "bb_remaining b = map ucast sy @ replicate (7 - length sy) 0 @ r" "symbol_ok sy"
  shows "read_symbol b = Inr sy" "bb_skip 7 b = Inr (bb_advance 7 b)"
proof -
  let ?bs = "map ucast sy @ replicate (7 - length sy) 0 :: byte list"
  have l: "length ?bs = 7" using assms(3) by (simp add: symbol_ok_def)
  have "fixed_data_read b 7 = Inr (?bs, bb_advance 7 b)"
    using fixed_data_read_bytes [OF assms(1) _ l, of r] assms(2) by simp
  then show "read_symbol b = Inr sy" "bb_skip 7 b = Inr (bb_advance 7 b)"
    using node_decode_symbol [OF assms(3)] by (auto simp: fixed_data_read_def read_symbol_def bindR_eq_Inr)
qed

lemma asset_codec [codec_intros]: "is_codec (asset E) asset_wire asset_valid"
proof (rule is_codecI)
  fix v b assume v: "asset_valid v" and b: "bb_ok b"
  from v obtain a p sy where s: "v = JStr (asset_text a p sy)" "a < 2 ^ 63" "p < 16" "symbol_ok sy"
    "asset_wire v = bytes64 (of_nat a) @ symbol_bytes p sy" by (rule asset_validE)
  have "\<exists>b'. bindR (writeInt64 b (JLong False (of_nat a))) (\<lambda>b1. write_symbol b1 (JNum (int p)) sy) = Inr b'
      \<and> bb_appended b (asset_wire v) b'"
    unfolding s(5) using bb_i64.append_enc [of "JLong False (of_nat a)" b] b s
    by (intro bindR_appended write_symbol_appends) simp_all
  then show "\<exists>b'. appendByteBuffer (asset E) b v = Inr b' \<and> bb_appended b (asset_wire v) b'"
    using s by (simp add: asset_def asset_append_def js_truthy_def asset_append_text_eq)
next
  fix v b r assume v: "asset_valid v" and b: "bb_input b" and r: "bb_remaining b = asset_wire v @ r"
  from v obtain a p sy where s: "v = JStr (asset_text a p sy)" "a < 2 ^ 63" "p < 16" "symbol_ok sy"
    "asset_wire v = bytes64 (of_nat a) @ symbol_bytes p sy" by (rule asset_validE)
  let ?t = "map ucast sy @ replicate (7 - length sy) 0 @ r"
  have r: "bb_remaining b = bytes64 (of_nat a) @ [of_nat p] @ ?t" using r s by (simp add: symbol_bytes_def)
  have r1: "readInt64 b = Inr (JLong False (of_nat a), bb_advance 8 b)"
    using bb_i64.read_enc [of "JLong False (of_nat a)" b] b r by simp
  note b1 = bb_after [OF b r, unfolded length_bytes]
  have r2: "readUint8 (bb_advance 8 b) = Inr (JNum (int p), bb_advance 9 b)"
    using bb_u8.read_enc [of "JNum (int p)" "bb_advance 8 b" ?t] b1 s(3) by simp
  have b2: "bb_input (bb_advance 9 b)" "bb_remaining (bb_advance 9 b) = ?t"
    using bb_after [OF b1] by simp_all
  have "fromImpliedDecimal E (JLong False (of_nat a)) p = Inr (implied_point (dec_nat a) p)"
    using s(2) by (simp add: fromImpliedDecimal_def number_text_def is_number_def js_toString_def Long_toString_eq
        long_value_of_nat dec_int_def)
  moreover have "length (asset_wire v) = 16" using s by (simp add: symbol_bytes_def symbol_ok_def)
  ultimately show "fromByteBuffer (asset E) b = Inr (v, bb_advance (length (asset_wire v)) b)"
    using r1 r2 read_symbol_bytes [OF b2 s(4)] s(1,3) by (simp add: asset_def asset_read_def asset_text_def)
qed

section \<open>Asset symbols\<close>

definition core_asset :: "env \<Rightarrow> jsval \<Rightarrow> (nat \<times> jsstring) option" where
  "core_asset E v =
     (if v = JObj [(''nai'', JStr (js ''@@000000021'')), (''precision'', JNum 3)] then Some (3, core_symbol E)
      else if v = JObj [(''nai'', JStr (js ''@@000000037'')), (''precision'', JNum 6)] then Some (6, js ''VESTS'')
      else None)"

definition asset_symbol_valid :: "env \<Rightarrow> jsval \<Rightarrow> bool" where
  "asset_symbol_valid E v = (core_asset E v \<noteq> None)"

definition asset_symbol_wire :: "env \<Rightarrow> jsval \<Rightarrow> byte list" where
  "asset_symbol_wire E v = (case core_asset E v of None \<Rightarrow> [] | Some (p, sy) \<Rightarrow> symbol_bytes p sy)"

lemma core_symbol_ok: "symbol_ok (core_symbol E)" "symbol_ok (js ''VESTS'')"
  by (simp_all add: symbol_ok_def core_symbol_def js_def symbol_char_def is_digit_def)

lemma core_nai: "num_of (parseInt (drop 2 (js ''@@000000021''))) = JNum 21" "num_of (parseInt (drop 2 (js ''@@000000037''))) = JNum 37"
  by (simp_all add: js_def parseInt_def parse_sign_def is_ws_def parse_digits_def is_digit_def digits_val_def digit_val_def num_of_def)

lemma damm_small: "n < 100000000 \<Longrightarrow> \<exists>x. damm_checksum_8digit (JNum n) = Inr x"
  by (simp add: damm_checksum_8digit_def)

lemma read_symbol_wire:
  assumes "bb_input b" "bb_remaining b = symbol_bytes p sy @ r" "symbol_ok sy" "p < 256"
  shows "readUint8 b = Inr (JNum (int p), bb_advance 1 b)" "read_symbol (bb_advance 1 b) = Inr sy"
    "bb_skip 7 (bb_advance 1 b) = Inr (bb_advance 8 b)" "length (symbol_bytes p sy) = 8"
proof -
  let ?t = "map ucast sy @ replicate (7 - length sy) 0 @ r"
  have r: "bb_remaining b = [of_nat p] @ ?t" using assms(2) by (simp add: symbol_bytes_def)
  show "readUint8 b = Inr (JNum (int p), bb_advance 1 b)"
    using bb_u8.read_enc [of "JNum (int p)" b ?t] assms r by simp
  have b1: "bb_input (bb_advance 1 b)" "bb_remaining (bb_advance 1 b) = ?t" using bb_after [OF assms(1) r] by simp_all
  show "read_symbol (bb_advance 1 b) = Inr sy" "bb_skip 7 (bb_advance 1 b) = Inr (bb_advance 8 b)"
    using read_symbol_bytes [OF b1 assms(3)] by simp_all
  show "length (symbol_bytes p sy) = 8" using assms(3) by (simp add: symbol_bytes_def symbol_ok_def)
qed

lemma asset_symbol_codec [codec_intros]:
  "is_codec (asset_symbol E) (asset_symbol_wire E) (asset_symbol_valid E)"
proof (rule is_codecI)
  have pre: "starts_with (js ''@@'') (js ''@@000000021'')" "starts_with (js ''@@'') (js ''@@000000037'')"
    "js ''@@000000037'' \<noteq> js ''@@000000021''"
    by (simp_all add: starts_with_def js_def)
  fix v b assume "asset_symbol_valid E v" and b: "bb_ok b"
  then have "core_asset E v \<noteq> None" by (simp add: asset_symbol_valid_def)
  then show "\<exists>b'. appendByteBuffer (asset_symbol E) b v = Inr b' \<and> bb_appended b (asset_symbol_wire E v) b'"
    using pre write_symbol_appends [OF b, of 3 "core_symbol E"] write_symbol_appends [OF b, of 6 "js ''VESTS''"] core_symbol_ok
      damm_small [of 2] damm_small [of 3]
    by (auto simp: core_asset_def asset_symbol_wire_def asset_symbol_def asset_symbol_append_def Let_def core_nai nai_floor_def
        split: if_splits)
next
  fix v b r assume v: "asset_symbol_valid E v" and b: "bb_input b" "bb_remaining b = asset_symbol_wire E v @ r"
  from v obtain p sy where c: "core_asset E v = Some (p, sy)" by (auto simp: asset_symbol_valid_def)
  then have s: "symbol_ok sy" "p < 16" using core_symbol_ok by (auto simp: core_asset_def split: if_splits)
  have r: "bb_remaining b = symbol_bytes p sy @ r" using b c by (simp add: asset_symbol_wire_def)
  have ne: "js ''VESTS'' \<noteq> js ''BLURT''" "js ''VESTS'' \<noteq> js ''TESTS''" by (simp_all add: js_def)
  show "fromByteBuffer (asset_symbol E) b = Inr (v, bb_advance (length (asset_symbol_wire E v)) b)"
    using read_symbol_wire [OF b(1) r s(1)] s c ne
    by (auto simp: asset_symbol_def asset_symbol_read_def asset_symbol_wire_def core_asset_def core_symbol_def split: if_splits)
qed

section \<open>Arrays, sets and maps\<close>

fun the_arr :: "jsval \<Rightarrow> jsval list" where
  "the_arr (JArr xs) = xs"
| "the_arr _ = []"

text \<open>A list written with its length in front.\<close>

definition counted :: "('a \<Rightarrow> byte list) \<Rightarrow> 'a list \<Rightarrow> byte list" where
  "counted enc xs = varint32_bytes (of_nat (length xs)) @ concat (map enc xs)"

definition array_valid :: "env \<Rightarrow> st_type \<Rightarrow> (jsval \<Rightarrow> bool) \<Rightarrow> jsval \<Rightarrow> bool" where
  "array_valid E st valid v \<longleftrightarrow>
     (case v of JArr xs \<Rightarrow> length xs < 2147483648 \<and> list_all valid xs \<and> sortOperation E v st = Inr v | _ \<Rightarrow> False)"

definition set_valid :: "env \<Rightarrow> st_type \<Rightarrow> (jsval \<Rightarrow> bool) \<Rightarrow> jsval \<Rightarrow> bool" where
  "set_valid E st valid v \<longleftrightarrow> array_valid E st valid v \<and> check_dups DuplicateSet [] (the_arr v) = Inr ()"

definition entry_valid :: "(jsval \<Rightarrow> bool) \<Rightarrow> (jsval \<Rightarrow> bool) \<Rightarrow> jsval \<Rightarrow> bool" where
  "entry_valid kvalid vvalid v \<longleftrightarrow> (case v of JArr [k, x] \<Rightarrow> kvalid k \<and> vvalid x | _ \<Rightarrow> False)"

definition entry_wire :: "(jsval \<Rightarrow> byte list) \<Rightarrow> (jsval \<Rightarrow> byte list) \<Rightarrow> jsval \<Rightarrow> byte list" where
  "entry_wire kenc venc v = (case v of JArr [k, x] \<Rightarrow> kenc k @ venc x | _ \<Rightarrow> [])"

definition map_valid :: "env \<Rightarrow> st_type \<Rightarrow> (jsval \<Rightarrow> bool) \<Rightarrow> (jsval \<Rightarrow> bool) \<Rightarrow> jsval \<Rightarrow> bool" where
  "map_valid E key_st kvalid vvalid v \<longleftrightarrow>
     array_valid E key_st (entry_valid kvalid vvalid) v \<and> check_entries [] (the_arr v) = Inr ()"

lemma array_validE:
  assumes "array_valid E st valid v"
  obtains xs where "v = JArr xs" "length xs < 2147483648" "list_all valid xs" "sortOperation E (JArr xs) st = Inr (JArr xs)"
  using assms by (cases v) (auto simp: array_valid_def)

text \<open>The loops over the elements, with any element operations that are a codec.\<close>

context codec
begin

lemma write_counted:
  assumes "bb_ok b" "length vs < 2147483648" "list_all valid vs"
  shows "\<exists>b'. bindR (writeVarint32 b (JNum (int (length vs)))) (\<lambda>b1. foldR append b1 vs) = Inr b'
    \<and> bb_appended b (counted enc vs) b'"
  unfolding counted_def using assms append_all [OF assms(3)]
  by (intro bindR_appended write_size) auto

lemma read_counted:
  assumes "bb_input b" "bb_remaining b = counted enc vs @ r" "length vs < 2147483648" "list_all valid vs"
  shows "bindR (read_size b) (\<lambda>(sz, b1). read_loop read sz b1) = Inr (vs, bb_advance (length (counted enc vs)) b)"
proof -
  let ?h = "varint32_bytes (of_nat (length vs))"
  have r: "bb_remaining b = ?h @ concat (map enc vs) @ r" using assms(2) by (simp add: counted_def)
  note b1 = bb_after [OF assms(1) r]
  show ?thesis
    using read_size_bytes [OF assms(1) r assms(3)] read_all [OF assms(4) b1]
    by (simp add: read_loop_def counted_def)
qed

end

lemma array_codec [codec_intros]:
  assumes "is_codec st enc valid"
  shows "is_codec (st_array E st) (\<lambda>v. counted enc (the_arr v)) (array_valid E st valid)"
proof (rule is_codecI)
  note c = assms [unfolded is_codec_def]
  fix v b assume v: "array_valid E st valid v" and b: "bb_ok b"
  from v obtain xs where x: "v = JArr xs" "length xs < 2147483648" "list_all valid xs" "sortOperation E (JArr xs) st = Inr (JArr xs)"
    by (rule array_validE)
  show "\<exists>b'. appendByteBuffer (st_array E st) b v = Inr b' \<and> bb_appended b (counted enc (the_arr v)) b'"
    using codec.write_counted [OF c b x(2,3)] x by (simp add: st_array_def append_elems_def js_elems_def)
next
  note c = assms [unfolded is_codec_def]
  fix v b r assume v: "array_valid E st valid v" and b: "bb_input b" "bb_remaining b = counted enc (the_arr v) @ r"
  from v obtain xs where x: "v = JArr xs" "length xs < 2147483648" "list_all valid xs" "sortOperation E (JArr xs) st = Inr (JArr xs)"
    by (rule array_validE)
  then show "fromByteBuffer (st_array E st) b = Inr (v, bb_advance (length (counted enc (the_arr v))) b)"
    using codec.read_counted [OF c b(1), of xs r] b x
    by (auto simp: st_array_def bindR_eq_Inr split: prod.splits)
qed

lemma set_codec [codec_intros]:
  assumes "is_codec st enc valid"
  shows "is_codec (st_set E st) (\<lambda>v. counted enc (the_arr v)) (set_valid E st valid)"
proof (rule is_codecI)
  note c = assms [unfolded is_codec_def]
  fix v b assume v: "set_valid E st valid v" and b: "bb_ok b"
  from v obtain xs where x: "v = JArr xs" "length xs < 2147483648" "list_all valid xs" "sortOperation E (JArr xs) st = Inr (JArr xs)"
    "check_dups DuplicateSet [] xs = Inr ()" by (auto simp: set_valid_def elim!: array_validE)
  show "\<exists>b'. appendByteBuffer (st_set E st) b v = Inr b' \<and> bb_appended b (counted enc (the_arr v)) b'"
    using codec.write_counted [OF c b x(2,3)] x
    by (simp add: st_set_def append_elems_def js_elems_def or_empty_def js_truthy_def set_validate_def Let_def)
next
  note c = assms [unfolded is_codec_def]
  fix v b r assume v: "set_valid E st valid v" and b: "bb_input b" "bb_remaining b = counted enc (the_arr v) @ r"
  from v obtain xs where x: "v = JArr xs" "length xs < 2147483648" "list_all valid xs" "sortOperation E (JArr xs) st = Inr (JArr xs)"
    "check_dups DuplicateSet [] xs = Inr ()" by (auto simp: set_valid_def elim!: array_validE)
  then show "fromByteBuffer (st_set E st) b = Inr (v, bb_advance (length (counted enc (the_arr v))) b)"
    using codec.read_counted [OF c b(1), of xs r] b x
    by (auto simp: st_set_def set_validate_def js_elems_def bindR_eq_Inr split: prod.splits)
qed

lemma entry_codec:
  assumes k: "is_codec kst kenc kvalid" and v: "is_codec vst venc vvalid"
  shows "codec (append_entry kst vst) (read_entry kst vst) (entry_wire kenc venc) (entry_valid kvalid vvalid)"
proof unfold_locales
  fix e b assume e: "entry_valid kvalid vvalid e" and b: "bb_ok b"
  from e obtain x y where x: "e = JArr [x, y]" "kvalid x" "vvalid y"
    by (auto simp: entry_valid_def split: jsval.splits list.splits)
  have "\<exists>b'. bindR (appendByteBuffer kst b x) (\<lambda>b1. appendByteBuffer vst b1 y) = Inr b' \<and> bb_appended b (kenc x @ venc y) b'"
    using is_codec_append [OF k x(2) b] is_codec_append [OF v x(3)] by (intro bindR_appended) auto
  then show "\<exists>b'. append_entry kst vst b e = Inr b' \<and> bb_appended b (entry_wire kenc venc e) b'"
    using x by (simp add: append_entry_def entry_wire_def)
next
  fix e b r assume e: "entry_valid kvalid vvalid e" and b: "bb_input b" and r: "bb_remaining b = entry_wire kenc venc e @ r"
  from e obtain x y where x: "e = JArr [x, y]" "kvalid x" "vvalid y"
    by (auto simp: entry_valid_def split: jsval.splits list.splits)
  have r: "bb_remaining b = kenc x @ venc y @ r" using r x by (simp add: entry_wire_def)
  show "read_entry kst vst b = Inr (e, bb_advance (length (entry_wire kenc venc e)) b)"
    using is_codec_read [OF k x(2) b r] is_codec_read [OF v x(3) bb_after [OF b r]] x
    by (simp add: read_entry_def entry_wire_def)
qed

lemma map_codec [codec_intros]:
  assumes "is_codec kst kenc kvalid" "is_codec vst venc vvalid"
  shows "is_codec (st_map E kst vst) (\<lambda>v. counted (entry_wire kenc venc) (the_arr v)) (map_valid E kst kvalid vvalid)"
proof (rule is_codecI)
  note c = entry_codec [OF assms]
  fix v b assume v: "map_valid E kst kvalid vvalid v" and b: "bb_ok b"
  from v obtain xs where x: "v = JArr xs" "length xs < 2147483648" "list_all (entry_valid kvalid vvalid) xs"
    "sortOperation E (JArr xs) kst = Inr (JArr xs)" "check_entries [] xs = Inr ()" by (auto simp: map_valid_def elim!: array_validE)
  show "\<exists>b'. appendByteBuffer (st_map E kst vst) b v = Inr b' \<and> bb_appended b (counted (entry_wire kenc venc) (the_arr v)) b'"
    using codec.write_counted [OF c b x(2,3)] x by (simp add: st_map_def js_elems_def map_validate_def)
next
  note c = entry_codec [OF assms]
  fix v b r assume v: "map_valid E kst kvalid vvalid v" and b: "bb_input b" "bb_remaining b = counted (entry_wire kenc venc) (the_arr v) @ r"
  from v obtain xs where x: "v = JArr xs" "length xs < 2147483648" "list_all (entry_valid kvalid vvalid) xs"
    "sortOperation E (JArr xs) kst = Inr (JArr xs)" "check_entries [] xs = Inr ()" by (auto simp: map_valid_def elim!: array_validE)
  then show "fromByteBuffer (st_map E kst vst) b = Inr (v, bb_advance (length (counted (entry_wire kenc venc) (the_arr v))) b)"
    using codec.read_counted [OF c b(1), of xs r] b x
    by (auto simp: st_map_def map_validate_def bindR_eq_Inr split: prod.splits)
qed

section \<open>Optional values and variants\<close>

definition optional_valid :: "(jsval \<Rightarrow> bool) \<Rightarrow> jsval \<Rightarrow> bool" where
  "optional_valid valid v \<longleftrightarrow> v = JUndef \<or> (v \<noteq> JNull \<and> valid v)"

definition optional_wire :: "(jsval \<Rightarrow> byte list) \<Rightarrow> jsval \<Rightarrow> byte list" where
  "optional_wire enc v = (if v = JUndef then [0] else 1 # enc v)"

lemma optional_codec [codec_intros]:
  assumes c: "is_codec st enc valid"
  shows "is_codec (st_optional st) (optional_wire enc) (optional_valid valid)"
proof (rule is_codecI)
  fix v b assume v: "optional_valid valid v" and b: "bb_ok b"
  show "\<exists>b'. appendByteBuffer (st_optional st) b v = Inr b' \<and> bb_appended b (optional_wire enc v) b'"
  proof (cases "v = JUndef")
    case True
    then show ?thesis using write_flag [OF b, of False] by (simp add: st_optional_def optional_wire_def)
  next
    case False
    with v have v': "valid v" "v \<noteq> JNull" by (auto simp: optional_valid_def)
    have "\<exists>b'. bindR (writeUint8 b (JNum 1)) (\<lambda>b1. appendByteBuffer st b1 v) = Inr b' \<and> bb_appended b ([1] @ enc v) b'"
      using write_flag [OF b, of True] is_codec_append [OF c v'(1)] by (intro bindR_appended) simp_all
    with False v' show ?thesis by (simp add: st_optional_def optional_wire_def)
  qed
next
  fix v b r assume v: "optional_valid valid v" and b: "bb_input b" and r: "bb_remaining b = optional_wire enc v @ r"
  show "fromByteBuffer (st_optional st) b = Inr (v, bb_advance (length (optional_wire enc v)) b)"
  proof (cases "v = JUndef")
    case True
    then show ?thesis using read_flag [OF b, of False r] r by (simp add: st_optional_def optional_wire_def)
  next
    case False
    with v have v': "valid v" by (auto simp: optional_valid_def)
    have r: "bb_remaining b = [1] @ enc v @ r" using r False by (simp add: optional_wire_def)
    then have "readUint8 b = Inr (JNum 1, bb_advance 1 b)" using read_flag [OF b, of True "enc v @ r"] by simp
    then show ?thesis
      using is_codec_read [OF c v' bb_after [OF b r]] False by (simp add: st_optional_def optional_wire_def)
  qed
qed

definition variant_valid :: "(jsval \<Rightarrow> bool) list \<Rightarrow> jsval \<Rightarrow> bool" where
  "variant_valid valids v \<longleftrightarrow>
     (case v of JArr [JNum i, x] \<Rightarrow>
          0 \<le> i \<and> i < 2147483648 \<and> nat i < length valids \<and> (valids ! nat i) x
      | _ \<Rightarrow> False)"

definition variant_wire :: "(jsval \<Rightarrow> byte list) list \<Rightarrow> jsval \<Rightarrow> byte list" where
  "variant_wire encs v =
     (case v of JArr [JNum i, x] \<Rightarrow> varint32_bytes (of_int i) @ (encs ! nat i) x | _ \<Rightarrow> [])"

lemma variant_validE:
  assumes "variant_valid valids v"
  obtains n x where "v = JArr [JNum (int n), x]" "n < 2147483648" "n < length valids" "(valids ! n) x"
proof -
  obtain l where "v = JArr l" using assms by (cases v) (simp_all add: variant_valid_def)
  moreover from this obtain y ys where "l = y # ys" using assms by (cases l) (simp_all add: variant_valid_def)
  moreover from calculation obtain i where "y = JNum i" using assms by (cases y) (simp_all add: variant_valid_def)
  moreover from calculation obtain x where "ys = [x]"
    using assms by (cases ys rule: remdups_adj.cases) (simp_all add: variant_valid_def)
  ultimately have "v = JArr [JNum i, x]" "0 \<le> i" "i < 2147483648" "nat i < length valids" "(valids ! nat i) x"
    using assms by (simp_all add: variant_valid_def)
  then show ?thesis using that [of "nat i" x] by simp
qed

lemma variant_codec [codec_intros]:
  assumes len: "length sts = length valids" "length sts = length encs"
    and c: "\<And>i. i < length sts \<Longrightarrow> is_codec (sts ! i) (encs ! i) (valids ! i)"
  shows "is_codec (st_static_variant sts) (variant_wire encs) (variant_valid valids)"
proof (rule is_codecI)
  fix v b assume v: "variant_valid valids v" and b: "bb_ok b"
  from v obtain n x where n: "v = JArr [JNum (int n), x]" "n < 2147483648" "n < length valids" "(valids ! n) x"
    by (rule variant_validE)
  have "\<exists>b'. bindR (writeVarint32 b (JNum (int n))) (\<lambda>b1. appendByteBuffer (sts ! n) b1 x) = Inr b'
      \<and> bb_appended b (varint32_bytes (of_nat n) @ (encs ! n) x) b'"
    using write_size [OF b n(2)] is_codec_append [OF c n(4)] n len by (intro bindR_appended) simp_all
  then show "\<exists>b'. appendByteBuffer (st_static_variant sts) b v = Inr b' \<and> bb_appended b (variant_wire encs v) b'"
    using n len
    by (simp add: st_static_variant_def variant_parts_def opTypeId_def is_number_def op_at_def variant_wire_def)
next
  fix v b r assume v: "variant_valid valids v" and b: "bb_input b" and r: "bb_remaining b = variant_wire encs v @ r"
  from v obtain n x where n: "v = JArr [JNum (int n), x]" "n < 2147483648" "n < length valids" "(valids ! n) x"
    by (rule variant_validE)
  have r: "bb_remaining b = varint32_bytes (of_nat n) @ (encs ! n) x @ r" using r n by (simp add: variant_wire_def)
  have "readVarint32 b = Inr (JNum (int n), bb_advance (length (varint32_bytes (of_nat n))) b)"
    using bb_varint.read_enc [of "JNum (int n)" b] b r n by simp
  then show "fromByteBuffer (st_static_variant sts) b = Inr (v, bb_advance (length (variant_wire encs v)) b)"
    using is_codec_read [OF c n(4) bb_after [OF b r]] n len
    by (simp add: st_static_variant_def op_at_def variant_wire_def)
qed

section \<open>Serializers\<close>

definition record_valid :: "(string \<times> (jsval \<Rightarrow> bool)) list \<Rightarrow> jsval \<Rightarrow> bool" where
  "record_valid valids v \<longleftrightarrow>
     (case v of JObj kvs \<Rightarrow>
          distinct (map fst valids) \<and> list_all2 (\<lambda>(k, x) (k', valid). k = k' \<and> valid x) kvs valids
      | _ \<Rightarrow> False)"

definition record_wire :: "(string \<times> (jsval \<Rightarrow> byte list)) list \<Rightarrow> jsval \<Rightarrow> byte list" where
  "record_wire encs v =
     (case v of JObj kvs \<Rightarrow> concat (map2 (\<lambda>(k, x) (k', enc). enc x) kvs encs) | _ \<Rightarrow> [])"

text \<open>A field list with the codec of every field.\<close>

definition fields_codec ::
  "fields \<Rightarrow> (string \<times> (jsval \<Rightarrow> byte list)) list \<Rightarrow> (string \<times> (jsval \<Rightarrow> bool)) list \<Rightarrow> bool" where
  "fields_codec fs encs valids \<longleftrightarrow> map fst encs = map fst fs \<and> map fst valids = map fst fs \<and>
     (\<forall>i < length fs. is_codec (snd (fs ! i)) (snd (encs ! i)) (snd (valids ! i)))"

lemma fields_codec_Nil [simp]: "fields_codec [] encs valids \<longleftrightarrow> encs = [] \<and> valids = []"
  by (auto simp: fields_codec_def)

lemma fields_codec_Cons:
  "fields_codec ((k, st) # fs) encs valids \<longleftrightarrow>
     (\<exists>enc encs' valid valids'. encs = (k, enc) # encs' \<and> valids = (k, valid) # valids' \<and>
        is_codec st enc valid \<and> fields_codec fs encs' valids')"
  by (auto simp: fields_codec_def map_eq_Cons_conv All_less_Suc2)

lemma read_fields_codec:
  assumes "fields_codec fs encs valids" "list_all2 (\<lambda>(k, x) (k', valid). k = k' \<and> valid x) kvs valids"
    "bb_input b" "bb_remaining b = concat (map2 (\<lambda>(k, x) (k', enc). enc x) kvs encs) @ r"
  shows "read_fields name fs b = Inr (kvs, bb_advance (length (concat (map2 (\<lambda>(k, x) (k', enc). enc x) kvs encs))) b)"
  using assms
proof (induction fs arbitrary: encs valids kvs b)
  case (Cons f fs)
  obtain k st where f: "f = (k, st)" by (cases f)
  from Cons.prems(1) f obtain enc encs' valid valids' where e: "encs = (k, enc) # encs'" "valids = (k, valid) # valids'"
      "is_codec st enc valid" "fields_codec fs encs' valids'" by (auto simp: fields_codec_Cons)
  from Cons.prems(2) e obtain x kvs' where x: "kvs = (k, x) # kvs'" "valid x"
      "list_all2 (\<lambda>(k, x) (k', valid). k = k' \<and> valid x) kvs' valids'"
    by (auto simp: list_all2_Cons2)
  let ?t = "concat (map2 (\<lambda>(k, x) (k', enc). enc x) kvs' encs')"
  have r: "bb_remaining b = enc x @ ?t @ r" using Cons.prems(4) e x by simp
  show ?case
    using is_codec_read [OF e(3) x(2) Cons.prems(3) r] Cons.IH [OF e(4) x(3) bb_after [OF Cons.prems(3) r]] f e x
    by (simp add: with_cause_def)
qed (simp)

lemma append_fields_codec:
  assumes "fields_codec fs encs valids" "list_all2 (\<lambda>(k, x) (k', valid). k = k' \<and> valid x) kvs valids" "bb_ok b"
    "\<And>k x. (k, x) \<in> set kvs \<Longrightarrow> js_get object k = Inr x"
  shows "\<exists>b'. append_fields E name object b fs = Inr b' \<and>
    bb_appended b (concat (map2 (\<lambda>(k, x) (k', enc). enc x) kvs encs)) b'"
  using assms
proof (induction fs arbitrary: encs valids kvs b)
  case (Cons f fs)
  obtain k st where f: "f = (k, st)" by (cases f)
  from Cons.prems(1) f obtain enc encs' valid valids' where e: "encs = (k, enc) # encs'" "valids = (k, valid) # valids'"
      "is_codec st enc valid" "fields_codec fs encs' valids'" by (auto simp: fields_codec_Cons)
  from Cons.prems(2) e obtain x kvs' where x: "kvs = (k, x) # kvs'" "valid x"
      "list_all2 (\<lambda>(k, x) (k', valid). k = k' \<and> valid x) kvs' valids'"
    by (auto simp: list_all2_Cons2)
  obtain b1 where b1: "appendByteBuffer st b x = Inr b1" "bb_appended b (enc x) b1"
    using is_codec_append [OF e(3) x(2) Cons.prems(3)] by blast
  obtain b2 where b2: "append_fields E name object b1 fs = Inr b2"
      "bb_appended b1 (concat (map2 (\<lambda>(k, x) (k', enc). enc x) kvs' encs')) b2"
    using Cons.IH [OF e(4) x(3) bb_appended_ok [OF b1(2)]] Cons.prems(4) x(1) by auto
  have "js_get object k = Inr x" using Cons.prems(4) x(1) by simp
  then show ?case using b1 b2 bb_appended_trans [OF b1(2) b2(2)] f e x by (simp add: append_cause_def)
qed (simp add: bb_appended_refl)

lemma serializer_codec [codec_intros]:
  assumes c: "fields_codec fs encs valids"
  shows "is_codec (Serializer E name fs) (record_wire encs) (record_valid valids)"
proof (rule is_codecI)
  fix v b assume v: "record_valid valids v" and b: "bb_ok b"
  from v obtain kvs where k: "v = JObj kvs" "distinct (map fst valids)"
      "list_all2 (\<lambda>(k, x) (k', valid). k = k' \<and> valid x) kvs valids"
    by (auto simp: record_valid_def split: jsval.splits)
  have "map fst kvs = map fst valids" using k(3) by (induction rule: list_all2_induct) auto
  then have "js_get v k' = Inr x" if "(k', x) \<in> set kvs" for k' x
    using that k by (simp add: map_of_is_SomeI)
  then show "\<exists>b'. appendByteBuffer (Serializer E name fs) b v = Inr b' \<and> bb_appended b (record_wire encs v) b'"
    using append_fields_codec [OF c k(3) b, of v] k(1) by (simp add: Serializer_def record_wire_def)
next
  fix v b r assume v: "record_valid valids v" and b: "bb_input b" "bb_remaining b = record_wire encs v @ r"
  then obtain kvs where k: "v = JObj kvs" "list_all2 (\<lambda>(k, x) (k', valid). k = k' \<and> valid x) kvs valids"
    by (auto simp: record_valid_def split: jsval.splits)
  then show "fromByteBuffer (Serializer E name fs) b = Inr (v, bb_advance (length (record_wire encs v)) b)"
    using read_fields_codec [OF c k(2) b(1), of r] b(2) by (simp add: Serializer_def record_wire_def)
qed

end
