(* ===== verification/Operations.thy ===== *)
theory Operations
  imports Serializer
begin

text \<open>
  \<open>auth/serializer/src/operations.js\<close>: one definition per \<open>Serializer\<close>, with the operation name and
  the fields in the order of the source, and the static variant \<open>operation\<close> over the list
  \<open>st_operations\<close>. A definition that uses \<open>operation\<close> comes after it here; in the source the
  list is filled in at the end of the file.
\<close>

section \<open>Place-holders\<close>

definition future_extensions :: st_type where
  "future_extensions = st_void"

definition hardfork_version_vote :: st_type where
  "hardfork_version_vote = st_void"

definition version :: st_type where
  "version = st_void"

definition required_automated_actions :: st_type where
  "required_automated_actions = st_void"

definition optional_automated_actions :: st_type where
  "optional_automated_actions = st_void"

section \<open>Operations\<close>

definition op_beneficiaries :: "env \<Rightarrow> st_type" where
  "op_beneficiaries E = Serializer E (OpStr ''beneficiaries'')
     [(''account'', st_string E),
      (''weight'', uint16 E)]"

definition op_comment_payout_beneficiaries :: "env \<Rightarrow> st_type" where
  "op_comment_payout_beneficiaries E = Serializer E (OpNum 0)
     [(''beneficiaries'', st_set E (op_beneficiaries E))]"

definition op_comment_payout_blurt :: "env \<Rightarrow> st_type" where
  "op_comment_payout_blurt E = Serializer E (OpNum 1)
     [(''percent_blurt'', uint16 E)]"

definition op_votable_asset_options :: "env \<Rightarrow> st_type" where
  "op_votable_asset_options E = Serializer E (OpStr ''votable_asset_options'')
     [(''max_accepted_payout'', int64 E),
      (''allow_curation_rewards'', st_bool E),
      (''beneficiaries'', op_comment_payout_beneficiaries E)]"

definition op_allowed_vote_assets :: "env \<Rightarrow> st_type" where
  "op_allowed_vote_assets E = Serializer E (OpNum 2)
     [(''votable_assets'', st_map E (asset_symbol E) (op_votable_asset_options E))]"

definition op_block_header :: "env \<Rightarrow> st_type" where
  "op_block_header E = Serializer E (OpStr ''block_header'')
     [(''previous'', st_bytes E (Some 20)),
      (''timestamp'', time_point_sec E),
      (''witness'', st_string E),
      (''transaction_merkle_root'', st_bytes E (Some 20)),
      (''extensions'', st_set E (st_static_variant [future_extensions, version, hardfork_version_vote]))]"

definition op_signed_block_header :: "env \<Rightarrow> st_type" where
  "op_signed_block_header E = Serializer E (OpStr ''signed_block_header'')
     [(''previous'', st_bytes E (Some 20)),
      (''timestamp'', time_point_sec E),
      (''witness'', st_string E),
      (''transaction_merkle_root'', st_bytes E (Some 20)),
      (''extensions'', st_set E (st_static_variant [future_extensions, version, hardfork_version_vote, required_automated_actions, optional_automated_actions])),
      (''witness_signature'', st_bytes E (Some 65))]"

definition op_vote :: "env \<Rightarrow> st_type" where
  "op_vote E = Serializer E (OpStr ''vote'')
     [(''voter'', st_string E),
      (''author'', st_string E),
      (''permlink'', st_string E),
      (''weight'', int16 E)]"

definition op_comment :: "env \<Rightarrow> st_type" where
  "op_comment E = Serializer E (OpStr ''comment'')
     [(''parent_author'', st_string E),
      (''parent_permlink'', st_string E),
      (''author'', st_string E),
      (''permlink'', st_string E),
      (''title'', st_string E),
      (''body'', st_string E),
      (''json_metadata'', st_string E)]"

definition op_transfer :: "env \<Rightarrow> st_type" where
  "op_transfer E = Serializer E (OpStr ''transfer'')
     [(''from'', st_string E),
      (''to'', st_string E),
      (''amount'', asset E),
      (''memo'', st_string E)]"

definition op_transfer_to_vesting :: "env \<Rightarrow> st_type" where
  "op_transfer_to_vesting E = Serializer E (OpStr ''transfer_to_vesting'')
     [(''from'', st_string E),
      (''to'', st_string E),
      (''amount'', asset E)]"

definition op_withdraw_vesting :: "env \<Rightarrow> st_type" where
  "op_withdraw_vesting E = Serializer E (OpStr ''withdraw_vesting'')
     [(''account'', st_string E),
      (''vesting_shares'', asset E)]"

definition op_price :: "env \<Rightarrow> st_type" where
  "op_price E = Serializer E (OpStr ''price'')
     [(''base'', asset E),
      (''quote'', asset E)]"

definition op_authority :: "env \<Rightarrow> st_type" where
  "op_authority E = Serializer E (OpStr ''authority'')
     [(''weight_threshold'', uint32 E),
      (''account_auths'', st_map E (st_string E) (uint16 E)),
      (''key_auths'', st_map E (public_key E) (uint16 E))]"

definition op_account_create :: "env \<Rightarrow> st_type" where
  "op_account_create E = Serializer E (OpStr ''account_create'')
     [(''fee'', asset E),
      (''creator'', st_string E),
      (''new_account_name'', st_string E),
      (''owner'', op_authority E),
      (''active'', op_authority E),
      (''posting'', op_authority E),
      (''memo_key'', public_key E),
      (''json_metadata'', st_string E)]"

definition op_account_update :: "env \<Rightarrow> st_type" where
  "op_account_update E = Serializer E (OpStr ''account_update'')
     [(''account'', st_string E),
      (''owner'', st_optional (op_authority E)),
      (''active'', st_optional (op_authority E)),
      (''posting'', st_optional (op_authority E)),
      (''memo_key'', st_optional (public_key E)),
      (''json_metadata'', st_string E),
      (''posting_json_metadata'', st_string E),
      (''extensions'', st_set E future_extensions)]"

definition op_chain_properties :: "env \<Rightarrow> st_type" where
  "op_chain_properties E = Serializer E (OpStr ''chain_properties'')
     [(''account_creation_fee'', asset E),
      (''maximum_block_size'', uint32 E)]"

definition op_witness_update :: "env \<Rightarrow> st_type" where
  "op_witness_update E = Serializer E (OpStr ''witness_update'')
     [(''owner'', st_string E),
      (''url'', st_string E),
      (''block_signing_key'', public_key E),
      (''props'', op_chain_properties E),
      (''fee'', asset E)]"

definition op_account_witness_vote :: "env \<Rightarrow> st_type" where
  "op_account_witness_vote E = Serializer E (OpStr ''account_witness_vote'')
     [(''account'', st_string E),
      (''witness'', st_string E),
      (''approve'', st_bool E)]"

definition op_account_witness_proxy :: "env \<Rightarrow> st_type" where
  "op_account_witness_proxy E = Serializer E (OpStr ''account_witness_proxy'')
     [(''account'', st_string E),
      (''proxy'', st_string E)]"

definition op_custom :: "env \<Rightarrow> st_type" where
  "op_custom E = Serializer E (OpStr ''custom'')
     [(''required_auths'', st_set E (st_string E)),
      (''id'', uint16 E),
      (''data'', st_bytes E None)]"

definition op_delete_comment :: "env \<Rightarrow> st_type" where
  "op_delete_comment E = Serializer E (OpStr ''delete_comment'')
     [(''author'', st_string E),
      (''permlink'', st_string E)]"

definition op_custom_json :: "env \<Rightarrow> st_type" where
  "op_custom_json E = Serializer E (OpStr ''custom_json'')
     [(''required_auths'', st_set E (st_string E)),
      (''required_posting_auths'', st_set E (st_string E)),
      (''id'', st_string E),
      (''json'', st_string E)]"

definition op_comment_options :: "env \<Rightarrow> st_type" where
  "op_comment_options E = Serializer E (OpStr ''comment_options'')
     [(''author'', st_string E),
      (''permlink'', st_string E),
      (''max_accepted_payout'', asset E),
      (''allow_votes'', st_bool E),
      (''allow_curation_rewards'', st_bool E),
      (''extensions'', st_set E (st_static_variant [op_comment_payout_beneficiaries E, op_comment_payout_blurt E]))]"

definition op_set_withdraw_vesting_route :: "env \<Rightarrow> st_type" where
  "op_set_withdraw_vesting_route E = Serializer E (OpStr ''set_withdraw_vesting_route'')
     [(''from_account'', st_string E),
      (''to_account'', st_string E),
      (''percent'', uint16 E),
      (''auto_vest'', st_bool E)]"

definition op_claim_account :: "env \<Rightarrow> st_type" where
  "op_claim_account E = Serializer E (OpStr ''claim_account'')
     [(''creator'', st_string E),
      (''fee'', asset E),
      (''extensions'', st_set E future_extensions)]"

definition op_create_claimed_account :: "env \<Rightarrow> st_type" where
  "op_create_claimed_account E = Serializer E (OpStr ''create_claimed_account'')
     [(''creator'', st_string E),
      (''new_account_name'', st_string E),
      (''owner'', op_authority E),
      (''active'', op_authority E),
      (''posting'', op_authority E),
      (''memo_key'', public_key E),
      (''json_metadata'', st_string E),
      (''extensions'', st_set E future_extensions)]"

definition op_request_account_recovery :: "env \<Rightarrow> st_type" where
  "op_request_account_recovery E = Serializer E (OpStr ''request_account_recovery'')
     [(''recovery_account'', st_string E),
      (''account_to_recover'', st_string E),
      (''new_owner_authority'', op_authority E),
      (''extensions'', st_set E future_extensions)]"

definition op_recover_account :: "env \<Rightarrow> st_type" where
  "op_recover_account E = Serializer E (OpStr ''recover_account'')
     [(''account_to_recover'', st_string E),
      (''new_owner_authority'', op_authority E),
      (''recent_owner_authority'', op_authority E),
      (''extensions'', st_set E future_extensions)]"

definition op_change_recovery_account :: "env \<Rightarrow> st_type" where
  "op_change_recovery_account E = Serializer E (OpStr ''change_recovery_account'')
     [(''account_to_recover'', st_string E),
      (''new_recovery_account'', st_string E),
      (''extensions'', st_set E future_extensions)]"

definition op_escrow_transfer :: "env \<Rightarrow> st_type" where
  "op_escrow_transfer E = Serializer E (OpStr ''escrow_transfer'')
     [(''from'', st_string E),
      (''to'', st_string E),
      (''agent'', st_string E),
      (''escrow_id'', uint32 E),
      (''blurt_amount'', asset E),
      (''fee'', asset E),
      (''ratification_deadline'', time_point_sec E),
      (''escrow_expiration'', time_point_sec E),
      (''json_meta'', st_string E)]"

definition op_escrow_dispute :: "env \<Rightarrow> st_type" where
  "op_escrow_dispute E = Serializer E (OpStr ''escrow_dispute'')
     [(''from'', st_string E),
      (''to'', st_string E),
      (''agent'', st_string E),
      (''who'', st_string E),
      (''escrow_id'', uint32 E)]"

definition op_escrow_release :: "env \<Rightarrow> st_type" where
  "op_escrow_release E = Serializer E (OpStr ''escrow_release'')
     [(''from'', st_string E),
      (''to'', st_string E),
      (''agent'', st_string E),
      (''who'', st_string E),
      (''receiver'', st_string E),
      (''escrow_id'', uint32 E),
      (''blurt_amount'', asset E)]"

definition op_escrow_approve :: "env \<Rightarrow> st_type" where
  "op_escrow_approve E = Serializer E (OpStr ''escrow_approve'')
     [(''from'', st_string E),
      (''to'', st_string E),
      (''agent'', st_string E),
      (''who'', st_string E),
      (''escrow_id'', uint32 E),
      (''approve'', st_bool E)]"

definition op_transfer_to_savings :: "env \<Rightarrow> st_type" where
  "op_transfer_to_savings E = Serializer E (OpStr ''transfer_to_savings'')
     [(''from'', st_string E),
      (''to'', st_string E),
      (''amount'', asset E),
      (''memo'', st_string E)]"

definition op_transfer_from_savings :: "env \<Rightarrow> st_type" where
  "op_transfer_from_savings E = Serializer E (OpStr ''transfer_from_savings'')
     [(''from'', st_string E),
      (''request_id'', uint32 E),
      (''to'', st_string E),
      (''amount'', asset E),
      (''memo'', st_string E)]"

definition op_cancel_transfer_from_savings :: "env \<Rightarrow> st_type" where
  "op_cancel_transfer_from_savings E = Serializer E (OpStr ''cancel_transfer_from_savings'')
     [(''from'', st_string E),
      (''request_id'', uint32 E)]"

definition op_custom_binary :: "env \<Rightarrow> st_type" where
  "op_custom_binary E = Serializer E (OpStr ''custom_binary'')
     [(''required_owner_auths'', st_set E (st_string E)),
      (''required_active_auths'', st_set E (st_string E)),
      (''required_posting_auths'', st_set E (st_string E)),
      (''required_auths'', st_array E (op_authority E)),
      (''id'', st_string E),
      (''data'', st_bytes E None)]"

definition op_decline_voting_rights :: "env \<Rightarrow> st_type" where
  "op_decline_voting_rights E = Serializer E (OpStr ''decline_voting_rights'')
     [(''account'', st_string E),
      (''decline'', st_bool E)]"

definition op_reset_account :: "env \<Rightarrow> st_type" where
  "op_reset_account E = Serializer E (OpStr ''reset_account'')
     [(''reset_account'', st_string E),
      (''account_to_reset'', st_string E),
      (''new_owner_authority'', op_authority E)]"

definition op_set_reset_account :: "env \<Rightarrow> st_type" where
  "op_set_reset_account E = Serializer E (OpStr ''set_reset_account'')
     [(''account'', st_string E),
      (''current_reset_account'', st_string E),
      (''reset_account'', st_string E)]"

definition op_claim_reward_balance :: "env \<Rightarrow> st_type" where
  "op_claim_reward_balance E = Serializer E (OpStr ''claim_reward_balance'')
     [(''account'', st_string E),
      (''reward_blurt'', asset E),
      (''reward_vests'', asset E)]"

definition op_delegate_vesting_shares :: "env \<Rightarrow> st_type" where
  "op_delegate_vesting_shares E = Serializer E (OpStr ''delegate_vesting_shares'')
     [(''delegator'', st_string E),
      (''delegatee'', st_string E),
      (''vesting_shares'', asset E)]"

definition op_witness_set_properties :: "env \<Rightarrow> st_type" where
  "op_witness_set_properties E = Serializer E (OpStr ''witness_set_properties'')
     [(''owner'', st_string E),
      (''props'', st_string E),
      (''extensions'', st_set E future_extensions)]"

definition op_create_proposal :: "env \<Rightarrow> st_type" where
  "op_create_proposal E = Serializer E (OpStr ''create_proposal'')
     [(''creator'', st_string E),
      (''receiver'', st_string E),
      (''start_date'', time_point_sec E),
      (''end_date'', time_point_sec E),
      (''daily_pay'', asset E),
      (''subject'', st_string E),
      (''permlink'', st_string E),
      (''extensions'', st_set E future_extensions)]"

definition op_remove_proposal :: "env \<Rightarrow> st_type" where
  "op_remove_proposal E = Serializer E (OpStr ''remove_proposal'')
     [(''proposal_owner'', st_string E),
      (''proposal_ids'', st_array E (uint64 E)),
      (''extensions'', st_set E future_extensions)]"

definition op_update_proposal_votes :: "env \<Rightarrow> st_type" where
  "op_update_proposal_votes E = Serializer E (OpStr ''update_proposal_votes'')
     [(''voter'', st_string E),
      (''proposal_ids'', st_array E (uint64 E)),
      (''approve'', st_bool E),
      (''extensions'', st_set E future_extensions)]"

definition op_author_reward :: "env \<Rightarrow> st_type" where
  "op_author_reward E = Serializer E (OpStr ''author_reward'')
     [(''author'', st_string E),
      (''permlink'', st_string E),
      (''blurt_payout'', asset E),
      (''vesting_payout'', asset E)]"

definition op_curation_reward :: "env \<Rightarrow> st_type" where
  "op_curation_reward E = Serializer E (OpStr ''curation_reward'')
     [(''curator'', st_string E),
      (''reward'', asset E),
      (''comment_author'', st_string E),
      (''comment_permlink'', st_string E)]"

definition op_comment_reward :: "env \<Rightarrow> st_type" where
  "op_comment_reward E = Serializer E (OpStr ''comment_reward'')
     [(''author'', st_string E),
      (''permlink'', st_string E),
      (''payout'', asset E)]"

definition op_fill_vesting_withdraw :: "env \<Rightarrow> st_type" where
  "op_fill_vesting_withdraw E = Serializer E (OpStr ''fill_vesting_withdraw'')
     [(''from_account'', st_string E),
      (''to_account'', st_string E),
      (''withdrawn'', asset E),
      (''deposited'', asset E)]"

definition op_shutdown_witness :: "env \<Rightarrow> st_type" where
  "op_shutdown_witness E = Serializer E (OpStr ''shutdown_witness'')
     [(''owner'', st_string E)]"

definition op_fill_transfer_from_savings :: "env \<Rightarrow> st_type" where
  "op_fill_transfer_from_savings E = Serializer E (OpStr ''fill_transfer_from_savings'')
     [(''from'', st_string E),
      (''to'', st_string E),
      (''amount'', asset E),
      (''request_id'', uint32 E),
      (''memo'', st_string E)]"

definition op_hardfork :: "env \<Rightarrow> st_type" where
  "op_hardfork E = Serializer E (OpStr ''hardfork'')
     [(''hardfork_id'', uint32 E)]"

definition op_comment_payout_update :: "env \<Rightarrow> st_type" where
  "op_comment_payout_update E = Serializer E (OpStr ''comment_payout_update'')
     [(''author'', st_string E),
      (''permlink'', st_string E)]"

definition op_return_vesting_delegation :: "env \<Rightarrow> st_type" where
  "op_return_vesting_delegation E = Serializer E (OpStr ''return_vesting_delegation'')
     [(''account'', st_string E),
      (''vesting_shares'', asset E)]"

definition op_comment_benefactor_reward :: "env \<Rightarrow> st_type" where
  "op_comment_benefactor_reward E = Serializer E (OpStr ''comment_benefactor_reward'')
     [(''benefactor'', st_string E),
      (''author'', st_string E),
      (''permlink'', st_string E),
      (''reward'', asset E)]"

definition op_encrypted_memo :: "env \<Rightarrow> st_type" where
  "op_encrypted_memo E = Serializer E (OpStr ''encrypted_memo'')
     [(''from'', public_key E),
      (''to'', public_key E),
      (''nonce'', uint64 E),
      (''check'', uint32 E),
      (''encrypted'', string_binary E)]"

definition st_operations :: "env \<Rightarrow> st_type list" where
  "st_operations E =
     [op_vote E, op_comment E, op_transfer E, op_transfer_to_vesting E, op_withdraw_vesting E,
      op_account_create E, op_account_update E, op_witness_update E, op_account_witness_vote E,
      op_account_witness_proxy E, op_custom E, op_delete_comment E, op_custom_json E,
      op_comment_options E, op_set_withdraw_vesting_route E, op_claim_account E,
      op_create_claimed_account E, op_request_account_recovery E, op_recover_account E,
      op_change_recovery_account E, op_escrow_transfer E, op_escrow_dispute E, op_escrow_release
      E, op_escrow_approve E, op_transfer_to_savings E, op_transfer_from_savings E,
      op_cancel_transfer_from_savings E, op_custom_binary E, op_decline_voting_rights E,
      op_reset_account E, op_set_reset_account E, op_claim_reward_balance E,
      op_delegate_vesting_shares E, op_witness_set_properties E, op_create_proposal E,
      op_update_proposal_votes E, op_remove_proposal E, op_author_reward E, op_curation_reward
      E, op_comment_reward E, op_fill_vesting_withdraw E, op_shutdown_witness E,
      op_fill_transfer_from_savings E, op_hardfork E, op_comment_payout_update E,
      op_return_vesting_delegation E, op_comment_benefactor_reward E]"

text \<open>The names of the operations are those of their serializers.\<close>

lemmas operation_defs =
  op_vote_def op_comment_def op_transfer_def op_transfer_to_vesting_def
  op_withdraw_vesting_def op_account_create_def op_account_update_def op_witness_update_def
  op_account_witness_vote_def op_account_witness_proxy_def op_custom_def op_delete_comment_def
  op_custom_json_def op_comment_options_def op_set_withdraw_vesting_route_def op_claim_account_def
  op_create_claimed_account_def op_request_account_recovery_def op_recover_account_def op_change_recovery_account_def
  op_escrow_transfer_def op_escrow_dispute_def op_escrow_release_def op_escrow_approve_def
  op_transfer_to_savings_def op_transfer_from_savings_def op_cancel_transfer_from_savings_def op_custom_binary_def
  op_decline_voting_rights_def op_reset_account_def op_set_reset_account_def op_claim_reward_balance_def
  op_delegate_vesting_shares_def op_witness_set_properties_def op_create_proposal_def op_update_proposal_votes_def
  op_remove_proposal_def op_author_reward_def op_curation_reward_def op_comment_reward_def
  op_fill_vesting_withdraw_def op_shutdown_witness_def op_fill_transfer_from_savings_def op_hardfork_def
  op_comment_payout_update_def op_return_vesting_delegation_def op_comment_benefactor_reward_def

lemma operation_name_Serializer [simp]: "operation_name (Serializer E name fs) = Some name"
  by (simp add: Serializer_def)

definition operation :: "env \<Rightarrow> st_type" where
  "operation E = st_static_variant (st_operations E)"

section \<open>Transactions and blocks\<close>

definition op_signed_transaction :: "env \<Rightarrow> st_type" where
  "op_signed_transaction E = Serializer E (OpStr ''signed_transaction'')
     [(''ref_block_num'', uint16 E),
      (''ref_block_prefix'', uint32 E),
      (''expiration'', time_point_sec E),
      (''operations'', st_array E (operation E)),
      (''extensions'', st_set E future_extensions),
      (''signatures'', st_array E (st_bytes E (Some 65)))]"

definition op_signed_block :: "env \<Rightarrow> st_type" where
  "op_signed_block E = Serializer E (OpStr ''signed_block'')
     [(''previous'', st_bytes E (Some 20)),
      (''timestamp'', time_point_sec E),
      (''witness'', st_string E),
      (''transaction_merkle_root'', st_bytes E (Some 20)),
      (''extensions'', st_set E (st_static_variant [future_extensions, version, hardfork_version_vote, required_automated_actions, optional_automated_actions])),
      (''witness_signature'', st_bytes E (Some 65)),
      (''transactions'', st_array E (op_signed_transaction E))]"

definition op_transaction :: "env \<Rightarrow> st_type" where
  "op_transaction E = Serializer E (OpStr ''transaction'')
     [(''ref_block_num'', uint16 E),
      (''ref_block_prefix'', uint32 E),
      (''expiration'', time_point_sec E),
      (''operations'', st_array E (operation E)),
      (''extensions'', st_set E future_extensions)]"

end
