(* ===== verification/Schema.thy ===== *)
theory Schema
  imports Codecs Operations
begin

text \<open>
  The wire format as an abstract specification: a datatype of schemas, the canonical values of a
  schema (\<open>valid\<close>) and their bytes (\<open>wire\<close>). \<open>denote\<close> maps a schema to the descriptor that the
  code builds; every \<open>Serializer\<close> of \<open>operations.js\<close> is the denotation of its schema, and every
  denotation implements the wire format of its schema: it is a codec for it.
\<close>

named_theorems schema_denotes \<open>the descriptor of every schema of the protocol\<close>

section \<open>Schemas\<close>

datatype schema =
    TUint8 | TUint16 | TInt16 | TUint32 | TVarint32 | TUint64 | TInt64
  | TString | TStringBinary | TBytes "nat option" | TBool | TVoid | TTime
  | TPublicKey | TAsset | TAssetSymbol
  | TArray schema | TSet schema | TMap schema schema | TOptional schema
  | TVariant "schema list"
  | TSerializer op_name "(string \<times> schema) list"

primrec denote :: "env \<Rightarrow> schema \<Rightarrow> st_type" where
  "denote E TUint8 = uint8 E"
| "denote E TUint16 = uint16 E"
| "denote E TInt16 = int16 E"
| "denote E TUint32 = uint32 E"
| "denote E TVarint32 = varint32 E"
| "denote E TUint64 = uint64 E"
| "denote E TInt64 = int64 E"
| "denote E TString = st_string E"
| "denote E TStringBinary = string_binary E"
| "denote E (TBytes n) = st_bytes E n"
| "denote E TBool = st_bool E"
| "denote E TVoid = st_void"
| "denote E TTime = time_point_sec E"
| "denote E TPublicKey = public_key E"
| "denote E TAsset = asset E"
| "denote E TAssetSymbol = asset_symbol E"
| "denote E (TArray t) = st_array E (denote E t)"
| "denote E (TSet t) = st_set E (denote E t)"
| "denote E (TMap k t) = st_map E (denote E k) (denote E t)"
| "denote E (TOptional t) = st_optional (denote E t)"
| "denote E (TVariant ts) = st_static_variant (map (denote E) ts)"
| "denote E (TSerializer name fs) = Serializer E name (map (map_prod id (denote E)) fs)"

primrec wire :: "env \<Rightarrow> schema \<Rightarrow> jsval \<Rightarrow> byte list" where
  "wire E TUint8 = (\<lambda>v. [of_int (the_num v)])"
| "wire E TUint16 = (\<lambda>v. bytes16 (of_int (the_num v)))"
| "wire E TInt16 = (\<lambda>v. bytes16 (of_int (the_num v)))"
| "wire E TUint32 = (\<lambda>v. bytes32 (of_int (the_num v)))"
| "wire E TVarint32 = (\<lambda>v. varint32_bytes (of_int (the_num v)))"
| "wire E TUint64 = (\<lambda>v. bytes64 (the_long v))"
| "wire E TInt64 = (\<lambda>v. bytes64 (the_long v))"
| "wire E TString = (\<lambda>v. prefixed_bytes (the_buf v))"
| "wire E TStringBinary = bytes_wire None"
| "wire E (TBytes n) = bytes_wire n"
| "wire E TBool = bool_byte"
| "wire E TVoid = (\<lambda>v. [])"
| "wire E TTime = (\<lambda>v. bytes32 (of_int (the_num v)))"
| "wire E TPublicKey = key_wire E"
| "wire E TAsset = asset_wire"
| "wire E TAssetSymbol = asset_symbol_wire E"
| "wire E (TArray t) = (\<lambda>v. counted (wire E t) (the_arr v))"
| "wire E (TSet t) = (\<lambda>v. counted (wire E t) (the_arr v))"
| "wire E (TMap k t) = (\<lambda>v. counted (entry_wire (wire E k) (wire E t)) (the_arr v))"
| "wire E (TOptional t) = optional_wire (wire E t)"
| "wire E (TVariant ts) = variant_wire (map (wire E) ts)"
| "wire E (TSerializer name fs) = record_wire (map (map_prod id (wire E)) fs)"

primrec valid :: "env \<Rightarrow> schema \<Rightarrow> jsval \<Rightarrow> bool" where
  "valid E TUint8 = num_in 0 255"
| "valid E TUint16 = num_in 0 65535"
| "valid E TInt16 = num_in (- 32768) 32767"
| "valid E TUint32 = num_in 0 4294967295"
| "valid E TVarint32 = num_in (- 2147483648) 2147483647"
| "valid E TUint64 = is_long_u True"
| "valid E TInt64 = is_long_u False"
| "valid E TString = string_valid"
| "valid E TStringBinary = bytes_valid None"
| "valid E (TBytes n) = bytes_valid n"
| "valid E TBool = is_bool"
| "valid E TVoid = (\<lambda>v. False)"
| "valid E TTime = num_in 0 4294967295"
| "valid E TPublicKey = key_valid E"
| "valid E TAsset = asset_valid"
| "valid E TAssetSymbol = asset_symbol_valid E"
| "valid E (TArray t) = array_valid E (denote E t) (valid E t)"
| "valid E (TSet t) = set_valid E (denote E t) (valid E t)"
| "valid E (TMap k t) = map_valid E (denote E k) (valid E k) (valid E t)"
| "valid E (TOptional t) = optional_valid (valid E t)"
| "valid E (TVariant ts) = variant_valid (map (valid E) ts)"
| "valid E (TSerializer name fs) = record_valid (map (map_prod id (valid E)) fs)"

section \<open>The schemas of the protocol\<close>

definition beneficiaries_schema :: schema where
  "beneficiaries_schema = TSerializer (OpStr ''beneficiaries'')
     [(''account'', TString),
      (''weight'', TUint16)]"

definition comment_payout_beneficiaries_schema :: schema where
  "comment_payout_beneficiaries_schema = TSerializer (OpNum 0)
     [(''beneficiaries'', TSet beneficiaries_schema)]"

definition comment_payout_blurt_schema :: schema where
  "comment_payout_blurt_schema = TSerializer (OpNum 1)
     [(''percent_blurt'', TUint16)]"

definition votable_asset_options_schema :: schema where
  "votable_asset_options_schema = TSerializer (OpStr ''votable_asset_options'')
     [(''max_accepted_payout'', TInt64),
      (''allow_curation_rewards'', TBool),
      (''beneficiaries'', comment_payout_beneficiaries_schema)]"

definition allowed_vote_assets_schema :: schema where
  "allowed_vote_assets_schema = TSerializer (OpNum 2)
     [(''votable_assets'', TMap TAssetSymbol votable_asset_options_schema)]"

definition block_header_schema :: schema where
  "block_header_schema = TSerializer (OpStr ''block_header'')
     [(''previous'', TBytes (Some 20)),
      (''timestamp'', TTime),
      (''witness'', TString),
      (''transaction_merkle_root'', TBytes (Some 20)),
      (''extensions'', TSet (TVariant [TVoid, TVoid, TVoid]))]"

definition signed_block_header_schema :: schema where
  "signed_block_header_schema = TSerializer (OpStr ''signed_block_header'')
     [(''previous'', TBytes (Some 20)),
      (''timestamp'', TTime),
      (''witness'', TString),
      (''transaction_merkle_root'', TBytes (Some 20)),
      (''extensions'', TSet (TVariant [TVoid, TVoid, TVoid, TVoid, TVoid])),
      (''witness_signature'', TBytes (Some 65))]"

definition vote_schema :: schema where
  "vote_schema = TSerializer (OpStr ''vote'')
     [(''voter'', TString),
      (''author'', TString),
      (''permlink'', TString),
      (''weight'', TInt16)]"

definition comment_schema :: schema where
  "comment_schema = TSerializer (OpStr ''comment'')
     [(''parent_author'', TString),
      (''parent_permlink'', TString),
      (''author'', TString),
      (''permlink'', TString),
      (''title'', TString),
      (''body'', TString),
      (''json_metadata'', TString)]"

definition transfer_schema :: schema where
  "transfer_schema = TSerializer (OpStr ''transfer'')
     [(''from'', TString),
      (''to'', TString),
      (''amount'', TAsset),
      (''memo'', TString)]"

definition transfer_to_vesting_schema :: schema where
  "transfer_to_vesting_schema = TSerializer (OpStr ''transfer_to_vesting'')
     [(''from'', TString),
      (''to'', TString),
      (''amount'', TAsset)]"

definition withdraw_vesting_schema :: schema where
  "withdraw_vesting_schema = TSerializer (OpStr ''withdraw_vesting'')
     [(''account'', TString),
      (''vesting_shares'', TAsset)]"

definition price_schema :: schema where
  "price_schema = TSerializer (OpStr ''price'')
     [(''base'', TAsset),
      (''quote'', TAsset)]"

definition authority_schema :: schema where
  "authority_schema = TSerializer (OpStr ''authority'')
     [(''weight_threshold'', TUint32),
      (''account_auths'', TMap TString TUint16),
      (''key_auths'', TMap TPublicKey TUint16)]"

definition account_create_schema :: schema where
  "account_create_schema = TSerializer (OpStr ''account_create'')
     [(''fee'', TAsset),
      (''creator'', TString),
      (''new_account_name'', TString),
      (''owner'', authority_schema),
      (''active'', authority_schema),
      (''posting'', authority_schema),
      (''memo_key'', TPublicKey),
      (''json_metadata'', TString)]"

definition account_update_schema :: schema where
  "account_update_schema = TSerializer (OpStr ''account_update'')
     [(''account'', TString),
      (''owner'', TOptional authority_schema),
      (''active'', TOptional authority_schema),
      (''posting'', TOptional authority_schema),
      (''memo_key'', TOptional TPublicKey),
      (''json_metadata'', TString),
      (''posting_json_metadata'', TString),
      (''extensions'', TSet TVoid)]"

definition chain_properties_schema :: schema where
  "chain_properties_schema = TSerializer (OpStr ''chain_properties'')
     [(''account_creation_fee'', TAsset),
      (''maximum_block_size'', TUint32)]"

definition witness_update_schema :: schema where
  "witness_update_schema = TSerializer (OpStr ''witness_update'')
     [(''owner'', TString),
      (''url'', TString),
      (''block_signing_key'', TPublicKey),
      (''props'', chain_properties_schema),
      (''fee'', TAsset)]"

definition account_witness_vote_schema :: schema where
  "account_witness_vote_schema = TSerializer (OpStr ''account_witness_vote'')
     [(''account'', TString),
      (''witness'', TString),
      (''approve'', TBool)]"

definition account_witness_proxy_schema :: schema where
  "account_witness_proxy_schema = TSerializer (OpStr ''account_witness_proxy'')
     [(''account'', TString),
      (''proxy'', TString)]"

definition custom_schema :: schema where
  "custom_schema = TSerializer (OpStr ''custom'')
     [(''required_auths'', TSet TString),
      (''id'', TUint16),
      (''data'', TBytes None)]"

definition delete_comment_schema :: schema where
  "delete_comment_schema = TSerializer (OpStr ''delete_comment'')
     [(''author'', TString),
      (''permlink'', TString)]"

definition custom_json_schema :: schema where
  "custom_json_schema = TSerializer (OpStr ''custom_json'')
     [(''required_auths'', TSet TString),
      (''required_posting_auths'', TSet TString),
      (''id'', TString),
      (''json'', TString)]"

definition comment_options_schema :: schema where
  "comment_options_schema = TSerializer (OpStr ''comment_options'')
     [(''author'', TString),
      (''permlink'', TString),
      (''max_accepted_payout'', TAsset),
      (''allow_votes'', TBool),
      (''allow_curation_rewards'', TBool),
      (''extensions'', TSet (TVariant [comment_payout_beneficiaries_schema, comment_payout_blurt_schema]))]"

definition set_withdraw_vesting_route_schema :: schema where
  "set_withdraw_vesting_route_schema = TSerializer (OpStr ''set_withdraw_vesting_route'')
     [(''from_account'', TString),
      (''to_account'', TString),
      (''percent'', TUint16),
      (''auto_vest'', TBool)]"

definition claim_account_schema :: schema where
  "claim_account_schema = TSerializer (OpStr ''claim_account'')
     [(''creator'', TString),
      (''fee'', TAsset),
      (''extensions'', TSet TVoid)]"

definition create_claimed_account_schema :: schema where
  "create_claimed_account_schema = TSerializer (OpStr ''create_claimed_account'')
     [(''creator'', TString),
      (''new_account_name'', TString),
      (''owner'', authority_schema),
      (''active'', authority_schema),
      (''posting'', authority_schema),
      (''memo_key'', TPublicKey),
      (''json_metadata'', TString),
      (''extensions'', TSet TVoid)]"

definition request_account_recovery_schema :: schema where
  "request_account_recovery_schema = TSerializer (OpStr ''request_account_recovery'')
     [(''recovery_account'', TString),
      (''account_to_recover'', TString),
      (''new_owner_authority'', authority_schema),
      (''extensions'', TSet TVoid)]"

definition recover_account_schema :: schema where
  "recover_account_schema = TSerializer (OpStr ''recover_account'')
     [(''account_to_recover'', TString),
      (''new_owner_authority'', authority_schema),
      (''recent_owner_authority'', authority_schema),
      (''extensions'', TSet TVoid)]"

definition change_recovery_account_schema :: schema where
  "change_recovery_account_schema = TSerializer (OpStr ''change_recovery_account'')
     [(''account_to_recover'', TString),
      (''new_recovery_account'', TString),
      (''extensions'', TSet TVoid)]"

definition escrow_transfer_schema :: schema where
  "escrow_transfer_schema = TSerializer (OpStr ''escrow_transfer'')
     [(''from'', TString),
      (''to'', TString),
      (''agent'', TString),
      (''escrow_id'', TUint32),
      (''blurt_amount'', TAsset),
      (''fee'', TAsset),
      (''ratification_deadline'', TTime),
      (''escrow_expiration'', TTime),
      (''json_meta'', TString)]"

definition escrow_dispute_schema :: schema where
  "escrow_dispute_schema = TSerializer (OpStr ''escrow_dispute'')
     [(''from'', TString),
      (''to'', TString),
      (''agent'', TString),
      (''who'', TString),
      (''escrow_id'', TUint32)]"

definition escrow_release_schema :: schema where
  "escrow_release_schema = TSerializer (OpStr ''escrow_release'')
     [(''from'', TString),
      (''to'', TString),
      (''agent'', TString),
      (''who'', TString),
      (''receiver'', TString),
      (''escrow_id'', TUint32),
      (''blurt_amount'', TAsset)]"

definition escrow_approve_schema :: schema where
  "escrow_approve_schema = TSerializer (OpStr ''escrow_approve'')
     [(''from'', TString),
      (''to'', TString),
      (''agent'', TString),
      (''who'', TString),
      (''escrow_id'', TUint32),
      (''approve'', TBool)]"

definition transfer_to_savings_schema :: schema where
  "transfer_to_savings_schema = TSerializer (OpStr ''transfer_to_savings'')
     [(''from'', TString),
      (''to'', TString),
      (''amount'', TAsset),
      (''memo'', TString)]"

definition transfer_from_savings_schema :: schema where
  "transfer_from_savings_schema = TSerializer (OpStr ''transfer_from_savings'')
     [(''from'', TString),
      (''request_id'', TUint32),
      (''to'', TString),
      (''amount'', TAsset),
      (''memo'', TString)]"

definition cancel_transfer_from_savings_schema :: schema where
  "cancel_transfer_from_savings_schema = TSerializer (OpStr ''cancel_transfer_from_savings'')
     [(''from'', TString),
      (''request_id'', TUint32)]"

definition custom_binary_schema :: schema where
  "custom_binary_schema = TSerializer (OpStr ''custom_binary'')
     [(''required_owner_auths'', TSet TString),
      (''required_active_auths'', TSet TString),
      (''required_posting_auths'', TSet TString),
      (''required_auths'', TArray authority_schema),
      (''id'', TString),
      (''data'', TBytes None)]"

definition decline_voting_rights_schema :: schema where
  "decline_voting_rights_schema = TSerializer (OpStr ''decline_voting_rights'')
     [(''account'', TString),
      (''decline'', TBool)]"

definition reset_account_schema :: schema where
  "reset_account_schema = TSerializer (OpStr ''reset_account'')
     [(''reset_account'', TString),
      (''account_to_reset'', TString),
      (''new_owner_authority'', authority_schema)]"

definition set_reset_account_schema :: schema where
  "set_reset_account_schema = TSerializer (OpStr ''set_reset_account'')
     [(''account'', TString),
      (''current_reset_account'', TString),
      (''reset_account'', TString)]"

definition claim_reward_balance_schema :: schema where
  "claim_reward_balance_schema = TSerializer (OpStr ''claim_reward_balance'')
     [(''account'', TString),
      (''reward_blurt'', TAsset),
      (''reward_vests'', TAsset)]"

definition delegate_vesting_shares_schema :: schema where
  "delegate_vesting_shares_schema = TSerializer (OpStr ''delegate_vesting_shares'')
     [(''delegator'', TString),
      (''delegatee'', TString),
      (''vesting_shares'', TAsset)]"

definition witness_set_properties_schema :: schema where
  "witness_set_properties_schema = TSerializer (OpStr ''witness_set_properties'')
     [(''owner'', TString),
      (''props'', TString),
      (''extensions'', TSet TVoid)]"

definition create_proposal_schema :: schema where
  "create_proposal_schema = TSerializer (OpStr ''create_proposal'')
     [(''creator'', TString),
      (''receiver'', TString),
      (''start_date'', TTime),
      (''end_date'', TTime),
      (''daily_pay'', TAsset),
      (''subject'', TString),
      (''permlink'', TString),
      (''extensions'', TSet TVoid)]"

definition remove_proposal_schema :: schema where
  "remove_proposal_schema = TSerializer (OpStr ''remove_proposal'')
     [(''proposal_owner'', TString),
      (''proposal_ids'', TArray TUint64),
      (''extensions'', TSet TVoid)]"

definition update_proposal_votes_schema :: schema where
  "update_proposal_votes_schema = TSerializer (OpStr ''update_proposal_votes'')
     [(''voter'', TString),
      (''proposal_ids'', TArray TUint64),
      (''approve'', TBool),
      (''extensions'', TSet TVoid)]"

definition author_reward_schema :: schema where
  "author_reward_schema = TSerializer (OpStr ''author_reward'')
     [(''author'', TString),
      (''permlink'', TString),
      (''blurt_payout'', TAsset),
      (''vesting_payout'', TAsset)]"

definition curation_reward_schema :: schema where
  "curation_reward_schema = TSerializer (OpStr ''curation_reward'')
     [(''curator'', TString),
      (''reward'', TAsset),
      (''comment_author'', TString),
      (''comment_permlink'', TString)]"

definition comment_reward_schema :: schema where
  "comment_reward_schema = TSerializer (OpStr ''comment_reward'')
     [(''author'', TString),
      (''permlink'', TString),
      (''payout'', TAsset)]"

definition fill_vesting_withdraw_schema :: schema where
  "fill_vesting_withdraw_schema = TSerializer (OpStr ''fill_vesting_withdraw'')
     [(''from_account'', TString),
      (''to_account'', TString),
      (''withdrawn'', TAsset),
      (''deposited'', TAsset)]"

definition shutdown_witness_schema :: schema where
  "shutdown_witness_schema = TSerializer (OpStr ''shutdown_witness'')
     [(''owner'', TString)]"

definition fill_transfer_from_savings_schema :: schema where
  "fill_transfer_from_savings_schema = TSerializer (OpStr ''fill_transfer_from_savings'')
     [(''from'', TString),
      (''to'', TString),
      (''amount'', TAsset),
      (''request_id'', TUint32),
      (''memo'', TString)]"

definition hardfork_schema :: schema where
  "hardfork_schema = TSerializer (OpStr ''hardfork'')
     [(''hardfork_id'', TUint32)]"

definition comment_payout_update_schema :: schema where
  "comment_payout_update_schema = TSerializer (OpStr ''comment_payout_update'')
     [(''author'', TString),
      (''permlink'', TString)]"

definition return_vesting_delegation_schema :: schema where
  "return_vesting_delegation_schema = TSerializer (OpStr ''return_vesting_delegation'')
     [(''account'', TString),
      (''vesting_shares'', TAsset)]"

definition comment_benefactor_reward_schema :: schema where
  "comment_benefactor_reward_schema = TSerializer (OpStr ''comment_benefactor_reward'')
     [(''benefactor'', TString),
      (''author'', TString),
      (''permlink'', TString),
      (''reward'', TAsset)]"

definition encrypted_memo_schema :: schema where
  "encrypted_memo_schema = TSerializer (OpStr ''encrypted_memo'')
     [(''from'', TPublicKey),
      (''to'', TPublicKey),
      (''nonce'', TUint64),
      (''check'', TUint32),
      (''encrypted'', TStringBinary)]"

definition operation_schemas :: "schema list" where
  "operation_schemas =
     [vote_schema, comment_schema, transfer_schema, transfer_to_vesting_schema,
      withdraw_vesting_schema, account_create_schema, account_update_schema,
      witness_update_schema, account_witness_vote_schema, account_witness_proxy_schema,
      custom_schema, delete_comment_schema, custom_json_schema, comment_options_schema,
      set_withdraw_vesting_route_schema, claim_account_schema, create_claimed_account_schema,
      request_account_recovery_schema, recover_account_schema, change_recovery_account_schema,
      escrow_transfer_schema, escrow_dispute_schema, escrow_release_schema,
      escrow_approve_schema, transfer_to_savings_schema, transfer_from_savings_schema,
      cancel_transfer_from_savings_schema, custom_binary_schema, decline_voting_rights_schema,
      reset_account_schema, set_reset_account_schema, claim_reward_balance_schema,
      delegate_vesting_shares_schema, witness_set_properties_schema, create_proposal_schema,
      update_proposal_votes_schema, remove_proposal_schema, author_reward_schema,
      curation_reward_schema, comment_reward_schema, fill_vesting_withdraw_schema,
      shutdown_witness_schema, fill_transfer_from_savings_schema, hardfork_schema,
      comment_payout_update_schema, return_vesting_delegation_schema,
      comment_benefactor_reward_schema]"

definition operation_schema :: schema where
  "operation_schema = TVariant operation_schemas"

definition signed_transaction_schema :: schema where
  "signed_transaction_schema = TSerializer (OpStr ''signed_transaction'')
     [(''ref_block_num'', TUint16),
      (''ref_block_prefix'', TUint32),
      (''expiration'', TTime),
      (''operations'', TArray operation_schema),
      (''extensions'', TSet TVoid),
      (''signatures'', TArray (TBytes (Some 65)))]"

definition signed_block_schema :: schema where
  "signed_block_schema = TSerializer (OpStr ''signed_block'')
     [(''previous'', TBytes (Some 20)),
      (''timestamp'', TTime),
      (''witness'', TString),
      (''transaction_merkle_root'', TBytes (Some 20)),
      (''extensions'', TSet (TVariant [TVoid, TVoid, TVoid, TVoid, TVoid])),
      (''witness_signature'', TBytes (Some 65)),
      (''transactions'', TArray signed_transaction_schema)]"

definition transaction_schema :: schema where
  "transaction_schema = TSerializer (OpStr ''transaction'')
     [(''ref_block_num'', TUint16),
      (''ref_block_prefix'', TUint32),
      (''expiration'', TTime),
      (''operations'', TArray operation_schema),
      (''extensions'', TSet TVoid)]"

section \<open>The operations are the denotations of their schemas\<close>

lemmas void_defs = future_extensions_def version_def hardfork_version_vote_def
  required_automated_actions_def optional_automated_actions_def

lemma denote_beneficiaries [schema_denotes]: "denote E beneficiaries_schema = op_beneficiaries E"
  by (simp add: beneficiaries_schema_def op_beneficiaries_def schema_denotes void_defs)

lemma denote_comment_payout_beneficiaries [schema_denotes]: "denote E comment_payout_beneficiaries_schema = op_comment_payout_beneficiaries E"
  by (simp add: comment_payout_beneficiaries_schema_def op_comment_payout_beneficiaries_def schema_denotes void_defs)

lemma denote_comment_payout_blurt [schema_denotes]: "denote E comment_payout_blurt_schema = op_comment_payout_blurt E"
  by (simp add: comment_payout_blurt_schema_def op_comment_payout_blurt_def schema_denotes void_defs)

lemma denote_votable_asset_options [schema_denotes]: "denote E votable_asset_options_schema = op_votable_asset_options E"
  by (simp add: votable_asset_options_schema_def op_votable_asset_options_def schema_denotes void_defs)

lemma denote_allowed_vote_assets [schema_denotes]: "denote E allowed_vote_assets_schema = op_allowed_vote_assets E"
  by (simp add: allowed_vote_assets_schema_def op_allowed_vote_assets_def schema_denotes void_defs)

lemma denote_block_header [schema_denotes]: "denote E block_header_schema = op_block_header E"
  by (simp add: block_header_schema_def op_block_header_def schema_denotes void_defs)

lemma denote_signed_block_header [schema_denotes]: "denote E signed_block_header_schema = op_signed_block_header E"
  by (simp add: signed_block_header_schema_def op_signed_block_header_def schema_denotes void_defs)

lemma denote_vote [schema_denotes]: "denote E vote_schema = op_vote E"
  by (simp add: vote_schema_def op_vote_def schema_denotes void_defs)

lemma denote_comment [schema_denotes]: "denote E comment_schema = op_comment E"
  by (simp add: comment_schema_def op_comment_def schema_denotes void_defs)

lemma denote_transfer [schema_denotes]: "denote E transfer_schema = op_transfer E"
  by (simp add: transfer_schema_def op_transfer_def schema_denotes void_defs)

lemma denote_transfer_to_vesting [schema_denotes]: "denote E transfer_to_vesting_schema = op_transfer_to_vesting E"
  by (simp add: transfer_to_vesting_schema_def op_transfer_to_vesting_def schema_denotes void_defs)

lemma denote_withdraw_vesting [schema_denotes]: "denote E withdraw_vesting_schema = op_withdraw_vesting E"
  by (simp add: withdraw_vesting_schema_def op_withdraw_vesting_def schema_denotes void_defs)

lemma denote_price [schema_denotes]: "denote E price_schema = op_price E"
  by (simp add: price_schema_def op_price_def schema_denotes void_defs)

lemma denote_authority [schema_denotes]: "denote E authority_schema = op_authority E"
  by (simp add: authority_schema_def op_authority_def schema_denotes void_defs)

lemma denote_account_create [schema_denotes]: "denote E account_create_schema = op_account_create E"
  by (simp add: account_create_schema_def op_account_create_def schema_denotes void_defs)

lemma denote_account_update [schema_denotes]: "denote E account_update_schema = op_account_update E"
  by (simp add: account_update_schema_def op_account_update_def schema_denotes void_defs)

lemma denote_chain_properties [schema_denotes]: "denote E chain_properties_schema = op_chain_properties E"
  by (simp add: chain_properties_schema_def op_chain_properties_def schema_denotes void_defs)

lemma denote_witness_update [schema_denotes]: "denote E witness_update_schema = op_witness_update E"
  by (simp add: witness_update_schema_def op_witness_update_def schema_denotes void_defs)

lemma denote_account_witness_vote [schema_denotes]: "denote E account_witness_vote_schema = op_account_witness_vote E"
  by (simp add: account_witness_vote_schema_def op_account_witness_vote_def schema_denotes void_defs)

lemma denote_account_witness_proxy [schema_denotes]: "denote E account_witness_proxy_schema = op_account_witness_proxy E"
  by (simp add: account_witness_proxy_schema_def op_account_witness_proxy_def schema_denotes void_defs)

lemma denote_custom [schema_denotes]: "denote E custom_schema = op_custom E"
  by (simp add: custom_schema_def op_custom_def schema_denotes void_defs)

lemma denote_delete_comment [schema_denotes]: "denote E delete_comment_schema = op_delete_comment E"
  by (simp add: delete_comment_schema_def op_delete_comment_def schema_denotes void_defs)

lemma denote_custom_json [schema_denotes]: "denote E custom_json_schema = op_custom_json E"
  by (simp add: custom_json_schema_def op_custom_json_def schema_denotes void_defs)

lemma denote_comment_options [schema_denotes]: "denote E comment_options_schema = op_comment_options E"
  by (simp add: comment_options_schema_def op_comment_options_def schema_denotes void_defs)

lemma denote_set_withdraw_vesting_route [schema_denotes]: "denote E set_withdraw_vesting_route_schema = op_set_withdraw_vesting_route E"
  by (simp add: set_withdraw_vesting_route_schema_def op_set_withdraw_vesting_route_def schema_denotes void_defs)

lemma denote_claim_account [schema_denotes]: "denote E claim_account_schema = op_claim_account E"
  by (simp add: claim_account_schema_def op_claim_account_def schema_denotes void_defs)

lemma denote_create_claimed_account [schema_denotes]: "denote E create_claimed_account_schema = op_create_claimed_account E"
  by (simp add: create_claimed_account_schema_def op_create_claimed_account_def schema_denotes void_defs)

lemma denote_request_account_recovery [schema_denotes]: "denote E request_account_recovery_schema = op_request_account_recovery E"
  by (simp add: request_account_recovery_schema_def op_request_account_recovery_def schema_denotes void_defs)

lemma denote_recover_account [schema_denotes]: "denote E recover_account_schema = op_recover_account E"
  by (simp add: recover_account_schema_def op_recover_account_def schema_denotes void_defs)

lemma denote_change_recovery_account [schema_denotes]: "denote E change_recovery_account_schema = op_change_recovery_account E"
  by (simp add: change_recovery_account_schema_def op_change_recovery_account_def schema_denotes void_defs)

lemma denote_escrow_transfer [schema_denotes]: "denote E escrow_transfer_schema = op_escrow_transfer E"
  by (simp add: escrow_transfer_schema_def op_escrow_transfer_def schema_denotes void_defs)

lemma denote_escrow_dispute [schema_denotes]: "denote E escrow_dispute_schema = op_escrow_dispute E"
  by (simp add: escrow_dispute_schema_def op_escrow_dispute_def schema_denotes void_defs)

lemma denote_escrow_release [schema_denotes]: "denote E escrow_release_schema = op_escrow_release E"
  by (simp add: escrow_release_schema_def op_escrow_release_def schema_denotes void_defs)

lemma denote_escrow_approve [schema_denotes]: "denote E escrow_approve_schema = op_escrow_approve E"
  by (simp add: escrow_approve_schema_def op_escrow_approve_def schema_denotes void_defs)

lemma denote_transfer_to_savings [schema_denotes]: "denote E transfer_to_savings_schema = op_transfer_to_savings E"
  by (simp add: transfer_to_savings_schema_def op_transfer_to_savings_def schema_denotes void_defs)

lemma denote_transfer_from_savings [schema_denotes]: "denote E transfer_from_savings_schema = op_transfer_from_savings E"
  by (simp add: transfer_from_savings_schema_def op_transfer_from_savings_def schema_denotes void_defs)

lemma denote_cancel_transfer_from_savings [schema_denotes]: "denote E cancel_transfer_from_savings_schema = op_cancel_transfer_from_savings E"
  by (simp add: cancel_transfer_from_savings_schema_def op_cancel_transfer_from_savings_def schema_denotes void_defs)

lemma denote_custom_binary [schema_denotes]: "denote E custom_binary_schema = op_custom_binary E"
  by (simp add: custom_binary_schema_def op_custom_binary_def schema_denotes void_defs)

lemma denote_decline_voting_rights [schema_denotes]: "denote E decline_voting_rights_schema = op_decline_voting_rights E"
  by (simp add: decline_voting_rights_schema_def op_decline_voting_rights_def schema_denotes void_defs)

lemma denote_reset_account [schema_denotes]: "denote E reset_account_schema = op_reset_account E"
  by (simp add: reset_account_schema_def op_reset_account_def schema_denotes void_defs)

lemma denote_set_reset_account [schema_denotes]: "denote E set_reset_account_schema = op_set_reset_account E"
  by (simp add: set_reset_account_schema_def op_set_reset_account_def schema_denotes void_defs)

lemma denote_claim_reward_balance [schema_denotes]: "denote E claim_reward_balance_schema = op_claim_reward_balance E"
  by (simp add: claim_reward_balance_schema_def op_claim_reward_balance_def schema_denotes void_defs)

lemma denote_delegate_vesting_shares [schema_denotes]: "denote E delegate_vesting_shares_schema = op_delegate_vesting_shares E"
  by (simp add: delegate_vesting_shares_schema_def op_delegate_vesting_shares_def schema_denotes void_defs)

lemma denote_witness_set_properties [schema_denotes]: "denote E witness_set_properties_schema = op_witness_set_properties E"
  by (simp add: witness_set_properties_schema_def op_witness_set_properties_def schema_denotes void_defs)

lemma denote_create_proposal [schema_denotes]: "denote E create_proposal_schema = op_create_proposal E"
  by (simp add: create_proposal_schema_def op_create_proposal_def schema_denotes void_defs)

lemma denote_remove_proposal [schema_denotes]: "denote E remove_proposal_schema = op_remove_proposal E"
  by (simp add: remove_proposal_schema_def op_remove_proposal_def schema_denotes void_defs)

lemma denote_update_proposal_votes [schema_denotes]: "denote E update_proposal_votes_schema = op_update_proposal_votes E"
  by (simp add: update_proposal_votes_schema_def op_update_proposal_votes_def schema_denotes void_defs)

lemma denote_author_reward [schema_denotes]: "denote E author_reward_schema = op_author_reward E"
  by (simp add: author_reward_schema_def op_author_reward_def schema_denotes void_defs)

lemma denote_curation_reward [schema_denotes]: "denote E curation_reward_schema = op_curation_reward E"
  by (simp add: curation_reward_schema_def op_curation_reward_def schema_denotes void_defs)

lemma denote_comment_reward [schema_denotes]: "denote E comment_reward_schema = op_comment_reward E"
  by (simp add: comment_reward_schema_def op_comment_reward_def schema_denotes void_defs)

lemma denote_fill_vesting_withdraw [schema_denotes]: "denote E fill_vesting_withdraw_schema = op_fill_vesting_withdraw E"
  by (simp add: fill_vesting_withdraw_schema_def op_fill_vesting_withdraw_def schema_denotes void_defs)

lemma denote_shutdown_witness [schema_denotes]: "denote E shutdown_witness_schema = op_shutdown_witness E"
  by (simp add: shutdown_witness_schema_def op_shutdown_witness_def schema_denotes void_defs)

lemma denote_fill_transfer_from_savings [schema_denotes]: "denote E fill_transfer_from_savings_schema = op_fill_transfer_from_savings E"
  by (simp add: fill_transfer_from_savings_schema_def op_fill_transfer_from_savings_def schema_denotes void_defs)

lemma denote_hardfork [schema_denotes]: "denote E hardfork_schema = op_hardfork E"
  by (simp add: hardfork_schema_def op_hardfork_def schema_denotes void_defs)

lemma denote_comment_payout_update [schema_denotes]: "denote E comment_payout_update_schema = op_comment_payout_update E"
  by (simp add: comment_payout_update_schema_def op_comment_payout_update_def schema_denotes void_defs)

lemma denote_return_vesting_delegation [schema_denotes]: "denote E return_vesting_delegation_schema = op_return_vesting_delegation E"
  by (simp add: return_vesting_delegation_schema_def op_return_vesting_delegation_def schema_denotes void_defs)

lemma denote_comment_benefactor_reward [schema_denotes]: "denote E comment_benefactor_reward_schema = op_comment_benefactor_reward E"
  by (simp add: comment_benefactor_reward_schema_def op_comment_benefactor_reward_def schema_denotes void_defs)

lemma denote_encrypted_memo [schema_denotes]: "denote E encrypted_memo_schema = op_encrypted_memo E"
  by (simp add: encrypted_memo_schema_def op_encrypted_memo_def schema_denotes void_defs)

lemma denote_operation [schema_denotes]: "denote E operation_schema = operation E"
  by (simp add: operation_schema_def operation_schemas_def operation_def st_operations_def schema_denotes)

lemma denote_signed_transaction [schema_denotes]: "denote E signed_transaction_schema = op_signed_transaction E"
  by (simp add: signed_transaction_schema_def op_signed_transaction_def schema_denotes void_defs)

lemma denote_signed_block [schema_denotes]: "denote E signed_block_schema = op_signed_block E"
  by (simp add: signed_block_schema_def op_signed_block_def schema_denotes void_defs)

lemma denote_transaction [schema_denotes]: "denote E transaction_schema = op_transaction E"
  by (simp add: transaction_schema_def op_transaction_def schema_denotes void_defs)

section \<open>Refinement\<close>

text \<open>Every descriptor implements the wire format of its schema.\<close>

lemma denote_codec: "is_codec (denote E t) (wire E t) (valid E t)"
proof (induction t)
  case (TVariant ts)
  then show ?case by (auto intro!: variant_codec)
next
  case (TSerializer name fs)
  then show ?case
    by (auto intro!: serializer_codec simp: fields_codec_def snd_map_prod)
      (metis nth_mem prod.collapse sndI snds.intros)
qed (auto intro: codec_intros)

end
