(* ===== verification/Sorting.thy ===== *)
theory Sorting
  imports Containers
begin

text \<open>
  The comparisons of \<open>sortOperation\<close> in \<open>types.js\<close> as instances of \<open>key_compare\<close>: numbers sort by
  value, strings by their code units, buffers by their bytes, keys by their text. A sorted set of
  strings, numbers or buffers depends on its elements only.
\<close>

section \<open>Hexadecimal order is byte order\<close>

lemma unat_hex_char: "d < 16 \<Longrightarrow> unat (hex_char d) = (if d < 10 then 48 + d else 87 + d)"
  by (simp add: hex_char_def unat_of_nat del: of_nat_add)

lemma hex_char_less: "d < 16 \<Longrightarrow> e < 16 \<Longrightarrow> hex_char d < hex_char e \<longleftrightarrow> d < e"
  by (simp add: word_less_nat_alt unat_hex_char)

lemma hex_char_eq: "d < 16 \<Longrightarrow> e < 16 \<Longrightarrow> hex_char d = hex_char e \<longleftrightarrow> d = e"
  by (metis hex_digit_val_char option.inject)

lemma nat_less_div16: "x < y \<longleftrightarrow> x div 16 < y div 16 \<or> x div 16 = y div 16 \<and> x mod 16 < (y mod 16 :: nat)"
proof -
  have "16 * a + r < 16 * b + s \<longleftrightarrow> a < b \<or> a = b \<and> r < s" if "r < 16" "s < 16" for a b r s :: nat
    using that by (cases a b rule: linorder_cases) auto
  from this [of "x mod 16" "y mod 16" "x div 16" "y div 16"] show ?thesis by simp
qed

lemma toHex_less: "toHex p < toHex q \<longleftrightarrow> p < q"
proof (induction p arbitrary: q)
  case Nil
  show ?case by (cases q) (simp_all add: toHex_def hex_byte_def)
next
  case (Cons b p)
  show ?case
  proof (cases q)
    case Nil
    then show ?thesis by (simp add: toHex_def)
  next
    case (Cons c q')
    have d: "unat x div 16 < 16" for x :: byte using unat_byte_less [of x] by (simp add: div_less_iff_less_mult)
    have "b < c \<longleftrightarrow> unat b div 16 < unat c div 16 \<or> unat b div 16 = unat c div 16 \<and> unat b mod 16 < unat c mod 16"
      unfolding word_less_nat_alt by (rule nat_less_div16)
    moreover have "b = c \<longleftrightarrow> unat b div 16 = unat c div 16 \<and> unat b mod 16 = unat c mod 16"
      by (metis mult_div_mod_eq unsigned_word_eqI)
    ultimately show ?thesis
      using Cons.IH [of q'] d [of b] d [of c]
      by (auto simp: Cons toHex_def hex_byte_def hex_char_less hex_char_eq)
  qed
qed

lemma toHex_le: "toHex p \<le> toHex q \<longleftrightarrow> p \<le> q"
  by (metis toHex_less not_less)

section \<open>Instances\<close>

text \<open>What the keys compare by, for elements whose first part is of one kind.\<close>

definition num_key :: "jsval \<Rightarrow> int" where
  "num_key x = (case firstEl x of JNum n \<Rightarrow> n | _ \<Rightarrow> 0)"

definition str_key :: "jsval \<Rightarrow> jsstring" where
  "str_key x = (case firstEl x of JStr s \<Rightarrow> s | _ \<Rightarrow> [])"

definition buf_key :: "jsval \<Rightarrow> byte list" where
  "buf_key x = (case firstEl x of JBuf bs \<Rightarrow> bs | _ \<Rightarrow> [])"

definition has_num :: "jsval \<Rightarrow> bool" where
  "has_num x \<longleftrightarrow> firstEl x = JNum (num_key x)"

definition has_str :: "jsval \<Rightarrow> bool" where
  "has_str x \<longleftrightarrow> firstEl x = JStr (str_key x)"

definition has_buf :: "jsval \<Rightarrow> bool" where
  "has_buf x \<longleftrightarrow> firstEl x = JBuf (buf_key x)"

interpretation num_sort: key_compare "default_compare E" has_num num_key for E
proof
  fix x y assume "has_num x" "has_num y"
  then show "\<exists>c. default_compare E x y = Inr c \<and> (cmp_number c \<le> 0 \<longleftrightarrow> num_key x \<le> num_key y)"
    by (simp add: default_compare_def has_num_def is_number_def cmp_number_def Let_def)
qed

interpretation str_sort: key_compare "default_compare E" has_str str_key for E
proof
  fix x y assume "has_str x" "has_str y"
  then show "\<exists>c. default_compare E x y = Inr c \<and> (cmp_number c \<le> 0 \<longleftrightarrow> str_key x \<le> str_key y)"
    by (simp add: default_compare_def has_str_def is_number_def js_toString_def strCmp_le Let_def)
qed

interpretation buf_sort: key_compare "default_compare E" has_buf buf_key for E
proof
  fix x y assume "has_buf x" "has_buf y"
  then show "\<exists>c. default_compare E x y = Inr c \<and> (cmp_number c \<le> 0 \<longleftrightarrow> buf_key x \<le> buf_key y)"
    by (simp add: default_compare_def has_buf_def is_number_def strCmp_le toHex_le Let_def)
qed

section \<open>Sets depend on their elements only\<close>

text \<open>An array sort by a comparison that is a key order on the elements.\<close>

lemma array_sort_no_undef:
  "list_all (\<lambda>x. x \<noteq> JUndef) xs \<Longrightarrow> array_sort cmp xs = sortR cmp xs"
proof -
  assume "list_all (\<lambda>x. x \<noteq> JUndef) xs"
  then have "filter (\<lambda>x. x \<noteq> JUndef) xs = xs" "filter (\<lambda>x. x = JUndef) xs = []"
    by (auto simp: list_all_iff filter_id_conv filter_empty_conv)
  then show ?thesis by (simp add: array_sort_def)
qed

lemma has_key_not_undef: "has_num JUndef = False" "has_str JUndef = False" "has_buf JUndef = False"
  by (simp_all add: has_num_def has_str_def has_buf_def firstEl_def)

lemma list_all_not_undef:
  "list_all has_str xs \<Longrightarrow> list_all (\<lambda>x. x \<noteq> JUndef) xs" "list_all has_num xs \<Longrightarrow> list_all (\<lambda>x. x \<noteq> JUndef) xs"
  by (auto simp: list_all_iff has_key_not_undef)

lemma sortOperation_str:
  assumes "list_all has_str xs" "nosort st = False" "st_compare st = None"
  shows "sortOperation E (JArr xs) st = Inr (JArr (sort_key str_key xs))"
  using assms by (simp add: sortOperation_def compare_fn_def array_sort_no_undef list_all_not_undef str_sort.sortR_eq)

lemma sortOperation_num:
  assumes "list_all has_num xs" "nosort st = False" "st_compare st = None"
  shows "sortOperation E (JArr xs) st = Inr (JArr (sort_key num_key xs))"
  using assms by (simp add: sortOperation_def compare_fn_def array_sort_no_undef list_all_not_undef num_sort.sortR_eq)

text \<open>Duplicate checks succeed exactly on distinct property names, none of which \<open>Object.prototype\<close> has.\<close>

lemma check_dups_keys:
  "list_all2 (\<lambda>v k. dup_key v = Some k) vs ks \<Longrightarrow>
     check_dups e seen vs = Inr () \<longleftrightarrow> distinct ks \<and> set ks \<inter> set seen = {} \<and> list_all (\<lambda>k. \<not> inherited k) ks"
proof (induction vs arbitrary: ks seen)
  case (Cons v vs)
  then obtain k ks' where "ks = k # ks'" "dup_key v = Some k" "list_all2 (\<lambda>v k. dup_key v = Some k) vs ks'"
    by (auto simp: list_all2_Cons1)
  with Cons.IH [of ks' "k # seen"] show ?case by auto
qed simp

lemma check_dups_strings:
  "check_dups e [] (map JStr ss) = Inr () \<longleftrightarrow> distinct ss \<and> list_all (\<lambda>s. \<not> inherited s) ss"
proof -
  have "list_all2 (\<lambda>v k. dup_key v = Some k) (map JStr ss) ss" by (induction ss) (simp_all add: dup_key_def)
  from check_dups_keys [OF this, of e "[]"] show ?thesis by simp
qed

lemma list_all_has_str [simp]: "list_all has_str (map JStr ss)"
  by (induction ss) (simp_all add: has_str_def str_key_def firstEl_def)

lemma str_key_JStr [simp]: "str_key (JStr s) = s"
  by (simp add: str_key_def firstEl_def)

lemma sort_key_map_JStr: "sort_key str_key (map JStr ss) = map JStr (sort ss)"
proof -
  have "insort_key str_key (JStr s) (map JStr ss) = map JStr (insort s ss)" for s ss by (induction ss) auto
  then show ?thesis by (induction ss) simp_all
qed

lemma set_validate_strings:
  assumes "nosort st = False" "st_compare st = None"
  shows "set_validate E st (JArr (map JStr ss)) =
    (if distinct ss \<and> list_all (\<lambda>s. \<not> inherited s) ss then Inr (JArr (map JStr (sort ss))) else Inl DuplicateSet)"
proof -
  have e: "check_dups DuplicateSet seen vs \<in> {Inr (), Inl DuplicateSet}" for seen vs
    by (induction DuplicateSet seen vs rule: check_dups.induct) (auto split: option.splits)
  show ?thesis
    using check_dups_strings [of DuplicateSet ss] e [of "[]" "map JStr ss"] assms
    by (auto simp: set_validate_def js_elems_def sortOperation_str sort_key_map_JStr)
qed

end
