(* ===== verification/Utils.thy ===== *)
theory Utils
  imports Keys
begin

text \<open>
  \<open>utils.js\<close> and the text functions of \<open>formatter.js\<close>: camel-case names, account names,
  thousands separators and comment permlinks. Account names are proved to be exactly the words
  of a grammar, separators to leave the digits as they are. The numerical functions of the
  formatter are in \<open>Formatter\<close>.
\<close>

section \<open>utils.js\<close>

definition is_lower :: "code_unit \<Rightarrow> bool" where
  "is_lower c \<longleftrightarrow> 97 \<le> c \<and> c \<le> 122"

text \<open>\<open>str.replace(/_([a-z])/g, ...)\<close>\<close>

fun camelCase :: "jsstring \<Rightarrow> jsstring" where
  "camelCase (a # b # r) =
     (if a = 95 \<and> is_lower b then to_upper b # camelCase r else a # camelCase (b # r))"
| "camelCase s = s"

definition label_char :: "code_unit \<Rightarrow> bool" where
  "label_char c \<longleftrightarrow> is_lower c \<or> is_digit c \<or> c = 45"

fun double_dash :: "jsstring \<Rightarrow> bool" where
  "double_dash (a # b # r) \<longleftrightarrow> (a = 45 \<and> b = 45) \<or> double_dash (b # r)"
| "double_dash _ \<longleftrightarrow> False"

text \<open>The checks of one segment, in order; \<^term>\<open>None\<close> when it passes them all.\<close>

definition label_error :: "jsstring \<Rightarrow> string option" where
  "label_error label =
     (if \<not> (label \<noteq> [] \<and> is_lower (hd label)) then Some ''start with a letter.''
      else if \<not> list_all label_char label then Some ''have only letters, digits, or dashes.''
      else if double_dash label then Some ''have only one dash in a row.''
      else if \<not> (is_lower (last label) \<or> is_digit (last label)) then Some ''end with a letter or digit.''
      else if \<not> 3 \<le> length label then Some ''be longer''
      else None)"

fun labels_error :: "jsstring list \<Rightarrow> string option" where
  "labels_error [] = None"
| "labels_error (l # ls) = (case label_error l of None \<Rightarrow> labels_error ls | Some e \<Rightarrow> Some e)"

text \<open>The message, or \<open>null\<close> for a good name. Only strings have the method \<open>split\<close>.\<close>

definition validateAccountName :: "jsval \<Rightarrow> js_error + jsval" where
  "validateAccountName value =
     (let suffix = ''Account name should ''
      in if \<not> js_truthy value then Inr (JStr (js (suffix @ ''not be empty.'')))
         else bindR (js_get value ''length'') (\<lambda>len.
           let n = (case len of JNum k \<Rightarrow> k | _ \<Rightarrow> 3)
           in if n < 3 then Inr (JStr (js (suffix @ ''be longer.'')))
              else if n > 16 then Inr (JStr (js (suffix @ ''be shorter.'')))
              else (case value of
                      JStr s \<Rightarrow>
                        (let suffix' = (if 46 \<in> set s then ''Each account segment should '' else suffix)
                         in Inr (case labels_error (split_on 46 s) of
                                   None \<Rightarrow> JNull | Some e \<Rightarrow> JStr (js (suffix' @ e))))
                    | _ \<Rightarrow> Inl TypeError)))"

section \<open>formatter.js\<close>

text \<open>\<open>x.replace(/\B(?=(\d{3})+(?!\d))/g, ",")\<close>: the previous character is carried along.\<close>

definition word_char :: "code_unit \<Rightarrow> bool" where
  "word_char c \<longleftrightarrow> is_digit c \<or> is_lower c \<or> (65 \<le> c \<and> c \<le> 90) \<or> c = 95"

definition comma_before :: "code_unit option \<Rightarrow> jsstring \<Rightarrow> bool" where
  "comma_before prev s \<longleftrightarrow>
     (let n = length (takeWhile is_digit s)
      in (case prev of None \<Rightarrow> False | Some p \<Rightarrow> word_char p) \<and> 3 \<le> n \<and> n mod 3 = 0)"

fun with_commas :: "code_unit option \<Rightarrow> jsstring \<Rightarrow> jsstring" where
  "with_commas prev [] = []"
| "with_commas prev (c # r) =
     (if comma_before prev (c # r) then [44] else []) @ c # with_commas (Some c) r"

definition numberWithCommas :: "jsstring \<Rightarrow> jsstring" where
  "numberWithCommas x = with_commas None x"

definition to_lower :: "code_unit \<Rightarrow> code_unit" where
  "to_lower c = (if 65 \<le> c \<and> c \<le> 90 then c + 32 else c)"

text \<open>\<open>new Date().toISOString().replace(/[^a-zA-Z0-9]+/g, "").toLowerCase()\<close> at a time in milliseconds.\<close>

definition permlink_time :: "int \<Rightarrow> jsstring" where
  "permlink_time now =
     map to_lower (filter (\<lambda>c. is_digit c \<or> is_lower c \<or> (65 \<le> c \<and> c \<le> 90))
       (iso_seconds (now div 1000) @ [46] @ digits_padded 3 (nat (now mod 1000)) @ [90]))"

text \<open>\<open>permlink.replace(/(-\d{8}t\d{9}z)/g, "")\<close>\<close>

definition timestamp_at :: "jsstring \<Rightarrow> bool" where
  "timestamp_at s \<longleftrightarrow> 20 \<le> length s \<and> s ! 0 = 45 \<and> list_all is_digit (take 8 (drop 1 s)) \<and> s ! 9 = 116
     \<and> list_all is_digit (take 9 (drop 10 s)) \<and> s ! 19 = 122"

function strip_timestamps :: "jsstring \<Rightarrow> jsstring" where
  "strip_timestamps [] = []"
| "strip_timestamps (c # r) =
     (if timestamp_at (c # r) then strip_timestamps (drop 19 r) else c # strip_timestamps r)"
  by pat_completeness auto
termination
  by (relation "measure length") auto

definition commentPermlink :: "int \<Rightarrow> jsstring \<Rightarrow> jsstring \<Rightarrow> jsstring" where
  "commentPermlink now parentAuthor parentPermlink =
     js ''re-'' @ parentAuthor @ [45] @ strip_timestamps parentPermlink @ [45] @ permlink_time now"

section \<open>Account names are the words of a grammar\<close>

text \<open>
  A segment starts with a letter and goes on with letters and digits, each of them optionally
  after one dash.
\<close>

inductive segment :: "jsstring \<Rightarrow> bool" where
  letter: "is_lower c \<Longrightarrow> segment [c]"
| more: "segment s \<Longrightarrow> is_lower c \<or> is_digit c \<Longrightarrow> segment (s @ [c])"
| dash: "segment s \<Longrightarrow> is_lower c \<or> is_digit c \<Longrightarrow> segment (s @ [45, c])"

lemma not_dash [simp]: "\<not> is_lower 45" "\<not> is_digit 45"
  by (simp_all add: is_lower_def is_digit_def)

lemma double_dash_append:
  "double_dash (s @ [c]) \<longleftrightarrow> double_dash s \<or> (s \<noteq> [] \<and> last s = 45 \<and> c = 45)"
  by (induction s rule: double_dash.induct) auto

lemma double_dash_append2:
  "double_dash (s @ [a, c]) \<longleftrightarrow> double_dash s \<or> (s \<noteq> [] \<and> last s = 45 \<and> a = 45) \<or> (a = 45 \<and> c = 45)"
  using double_dash_append [of "s @ [a]" c] by (simp add: double_dash_append)

lemma segment_not_Nil: "segment s \<Longrightarrow> s \<noteq> []"
  by (induction rule: segment.induct) auto

lemma segment_checks:
  "segment s \<Longrightarrow> s \<noteq> [] \<and> is_lower (hd s) \<and> list_all label_char s \<and> \<not> double_dash s
     \<and> (is_lower (last s) \<or> is_digit (last s))"
proof (induction rule: segment.induct)
  case (dash s c)
  then show ?case by (auto simp: label_char_def double_dash_append2)
qed (auto simp: label_char_def double_dash_append)

lemma checks_segment:
  "s \<noteq> [] \<Longrightarrow> is_lower (hd s) \<Longrightarrow> list_all label_char s \<Longrightarrow> \<not> double_dash s \<Longrightarrow>
     is_lower (last s) \<or> is_digit (last s) \<Longrightarrow> segment s"
proof (induction "length s" arbitrary: s rule: less_induct)
  case less
  obtain t c where s: "s = t @ [c]" using less.prems(1) by (cases s rule: rev_cases) auto
  show ?case
  proof (cases "t = []")
    case True
    then show ?thesis using less.prems s by (auto intro: segment.letter)
  next
    case False
    have c: "is_lower c \<or> is_digit c" using less.prems s by simp
    show ?thesis
    proof (cases "last t = 45")
      case True
      obtain u where t: "t = u @ [45]" using False True by (cases t rule: rev_cases) auto
      have u: "u \<noteq> []" using less.prems(2) s t by auto
      moreover have "\<not> double_dash u" "last u \<noteq> 45" using less.prems(4) s t u by (auto simp: double_dash_append2)
      moreover have "label_char (last u)" using less.prems(3) s t u by (simp add: list_all_iff)
      ultimately have "segment u" using less.prems s t by (intro less.hyps) (auto simp: label_char_def)
      then show ?thesis using segment.dash [OF _ c, of u] s t by simp
    next
      case False
      have "label_char (last t)" using less.prems(3) s \<open>t \<noteq> []\<close> by (simp add: list_all_iff)
      with False have "segment t" using less.prems s \<open>t \<noteq> []\<close>
        by (intro less.hyps) (auto simp: label_char_def double_dash_append)
      then show ?thesis using segment.more [OF _ c] s by simp
    qed
  qed
qed

lemma label_error_None: "label_error l = None \<longleftrightarrow> segment l \<and> 3 \<le> length l"
  using segment_checks [of l] checks_segment [of l] by (auto simp: label_error_def)

lemma labels_error_None: "labels_error ls = None \<longleftrightarrow> (\<forall>l\<in>set ls. segment l \<and> 3 \<le> length l)"
  by (induction ls) (auto simp flip: label_error_None split: option.splits)

lemma validateAccountName_string:
  "validateAccountName (JStr s) = Inr JNull \<longleftrightarrow>
     3 \<le> length s \<and> length s \<le> 16 \<and> (\<forall>l\<in>set (split_on 46 s). segment l \<and> 3 \<le> length l)"
  by (auto simp: validateAccountName_def Let_def js_truthy_def labels_error_None split: option.splits
      simp flip: labels_error_None)

section \<open>Separators\<close>

lemma with_commas_filter: "44 \<notin> set s \<Longrightarrow> filter (\<lambda>c. c \<noteq> 44) (with_commas p s) = s"
  by (induction p s rule: with_commas.induct) auto

lemma camelCase_length: "length (camelCase s) \<le> length s"
  by (induction s rule: camelCase.induct) auto

end
