(* ===== verification/Transports.thy ===== *)
theory Transports
  imports TypeBase "HOL-Library.Multiset"
begin

text \<open>
  \<open>api/transports\<close>: the options of a transport (\<open>base.js\<close>), the requests, answers and retries of the
  HTTP transport (\<open>http.js\<close>), and the WebSocket transport (\<open>ws.js\<close>) as a state machine whose
  steps are the calls of the client and the events of the socket. The network, the timers and the
  \<open>retry\<close> library are inputs; messages of the \<open>debug\<close> library and the event \<open>track-performance\<close>
  are not modelled. The invariant \<open>ws_inv\<close> holds in every reachable state, and shows that a
  callback is called at most once.
\<close>

section \<open>Options\<close>

type_synonym options = "(string \<times> jsval) list"

definition options_get :: "options \<Rightarrow> string \<Rightarrow> jsval" where
  "options_get opts p = (case map_of opts p of None \<Rightarrow> JUndef | Some v \<Rightarrow> v)"

definition has_own :: "options \<Rightarrow> string \<Rightarrow> bool" where
  "has_own opts k \<longleftrightarrow> k \<in> fst ` set opts"

fun object_assign :: "options \<Rightarrow> options \<Rightarrow> options" where
  "object_assign target [] = target"
| "object_assign target ((k, v) # r) = object_assign (assoc_set k v target) r"

text \<open>What a caller of \<open>send\<close> passes as \<open>data\<close>.\<close>

record request_data =
  d_id :: jsval
  d_method :: string
  d_params :: jsval

definition request_params :: "options \<Rightarrow> string \<Rightarrow> request_data \<Rightarrow> jsval" where
  "request_params opts api d =
     JArr [JStr (js (if js_truthy (options_get opts ''useAppbaseApi'') then ''condenser_api'' else api)),
       JStr (js (d_method d)), d_params d]"

text \<open>\<open>data.id || this.id++\<close>, with the new value of the counter\<close>

definition request_id :: "nat \<Rightarrow> request_data \<Rightarrow> jsval \<times> nat" where
  "request_id next_id d = (if js_truthy (d_id d) then (d_id d, next_id) else (JNum (int next_id), next_id + 1))"

section \<open>HTTP\<close>

datatype http_answer = HttpFailure | HttpBody jsval   \<comment> \<open>a failed request or status, or the parsed JSON\<close>

datatype rpc_error = NetworkError | InvalidResponseId | RpcError jsval

text \<open>The checks of \<open>jsonRpc\<close> on an answer.\<close>

definition jsonRpc_answer :: "jsval \<Rightarrow> http_answer \<Rightarrow> rpc_error + jsval" where
  "jsonRpc_answer rid a =
     (case a of
        HttpFailure \<Rightarrow> Inl NetworkError
      | HttpBody body \<Rightarrow>
          (case (js_get body ''id'', js_get body ''error'', js_get body ''result'') of
             (Inr i, Inr e, Inr r) \<Rightarrow>
               if i \<noteq> rid then Inl InvalidResponseId
               else if js_truthy e then Inl (RpcError e) else Inr r
           | _ \<Rightarrow> Inl NetworkError))"

definition nonRetriableOperations :: "options \<Rightarrow> jsval" where
  "nonRetriableOperations opts =
     (let o' = options_get opts ''nonRetriableOperations''
      in if js_truthy o' then o'
         else JArr [JStr (js ''broadcast_transaction''), JStr (js ''broadcast_transaction_with_callback''),
           JStr (js ''broadcast_transaction_synchronous''), JStr (js ''broadcast_block'')])"

text \<open>Whether \<open>retriable\<close> returns an operation of the \<open>retry\<close> library; \<open>some\<close> exists on arrays only.\<close>

definition retriable :: "options \<Rightarrow> request_data \<Rightarrow> js_error + bool" where
  "retriable opts d =
     (case nonRetriableOperations opts of
        JArr os \<Rightarrow> Inr (JStr (js (d_method d)) \<notin> set os \<and> js_truthy (options_get opts ''retry''))
      | _ \<Rightarrow> Inl TypeError)"

text \<open>
  The attempts of one request, answered in turn. The \<open>retry\<close> library decides after each failure
  whether there is another attempt (\<open>retry\<close>), and which of the errors is reported at the end
  (\<open>mainError\<close>); both see the errors so far. The result is the one call of the callback, with the
  number of requests made; \<^term>\<open>None\<close> while an attempt is still unanswered.
\<close>

record retry_operation =
  op_retry :: "rpc_error list \<Rightarrow> bool"
  op_mainError :: "rpc_error list \<Rightarrow> rpc_error"

fun http_attempts :: "retry_operation \<Rightarrow> jsval \<Rightarrow> rpc_error list \<Rightarrow> http_answer list \<Rightarrow> ((rpc_error + jsval) \<times> nat) option" where
  "http_attempts R rid errs [] = None"
| "http_attempts R rid errs (a # as) =
     (case jsonRpc_answer rid a of
        Inr r \<Rightarrow> Some (Inr r, Suc (length errs))
      | Inl e \<Rightarrow>
          (let errs' = errs @ [e]
           in if op_retry R errs' then http_attempts R rid errs' as
              else Some (Inl (op_mainError R errs'), length errs')))"

definition http_once :: "jsval \<Rightarrow> http_answer list \<Rightarrow> ((rpc_error + jsval) \<times> nat) option" where
  "http_once rid answers = (case answers of [] \<Rightarrow> None | a # _ \<Rightarrow> Some (jsonRpc_answer rid a, 1))"

text \<open>\<open>send\<close>: the parameters of the requests, the outcome and the new counter.\<close>

definition http_send ::
  "retry_operation \<Rightarrow> options \<Rightarrow> nat \<Rightarrow> string \<Rightarrow> request_data \<Rightarrow> http_answer list
     \<Rightarrow> js_error + jsval \<times> ((rpc_error + jsval) \<times> nat) option \<times> nat" where
  "http_send R opts next_id api d answers =
     (let (rid, next_id') = request_id next_id d
      in bindR (retriable opts d) (\<lambda>b.
           Inr (request_params opts api d,
             (if b then http_attempts R rid [] answers else http_once rid answers), next_id')))"

text \<open>The counts of requests: never more than the answers, and a result is the first good answer.\<close>

lemma http_attempts_count:
  "http_attempts R rid errs as = Some (r, n) \<Longrightarrow> length errs < n \<and> n \<le> length errs + length as"
  by (induction R rid errs as rule: http_attempts.induct) (fastforce split: sum.splits if_splits simp: Let_def)+

lemma http_attempts_result:
  "http_attempts R rid errs as = Some (Inr v, n) \<Longrightarrow>
     jsonRpc_answer rid (as ! (n - Suc (length errs))) = Inr v \<and>
     (\<forall>i < n - Suc (length errs). \<exists>e. jsonRpc_answer rid (as ! i) = Inl e)"
proof (induction R rid errs as rule: http_attempts.induct)
  case (2 R rid errs a as)
  show ?case
  proof (cases "jsonRpc_answer rid a")
    case (Inr r)
    with 2 show ?thesis by simp
  next
    case (Inl e)
    with 2(2) have r: "op_retry R (errs @ [e])" and h: "http_attempts R rid (errs @ [e]) as = Some (Inr v, n)"
      by (auto simp: Let_def split: if_splits)
    have n: "n - Suc (length errs) = Suc (n - Suc (length (errs @ [e])))"
      using http_attempts_count [OF h] by (simp, arith)
    from 2(1) [OF Inl refl r h] Inl show ?thesis unfolding n by (auto simp: nth_Cons split: nat.splits)
  qed
qed simp

text \<open>Without an option of its own, the transport repeats no request that broadcasts.\<close>

lemma retriable_default:
  "\<not> has_own opts ''nonRetriableOperations'' \<Longrightarrow>
     d_method d \<in> {''broadcast_transaction'', ''broadcast_transaction_with_callback'', ''broadcast_transaction_synchronous'', ''broadcast_block''} \<Longrightarrow>
     retriable opts d = Inr False"
proof -
  assume "\<not> has_own opts ''nonRetriableOperations''" "d_method d \<in> {''broadcast_transaction'', ''broadcast_transaction_with_callback'', ''broadcast_transaction_synchronous'', ''broadcast_block''}"
  moreover from this(1) have "options_get opts ''nonRetriableOperations'' = JUndef"
    unfolding options_get_def has_own_def by (metis map_of_eq_None_iff option.simps(4))
  ultimately show ?thesis by (auto simp: retriable_def nonRetriableOperations_def js_truthy_def Let_def)
qed

section \<open>WebSocket\<close>

text \<open>
  The promise of \<open>start\<close> and the socket it opens carry the same number. \<open>ws_waiting\<close> are the calls
  of \<open>send\<close> chained to a promise and not run yet, in order; a call is its number, its api and its data.
\<close>

datatype promise_state = Pending | Resolved | Rejected

datatype socket_state = SConnecting | SOpen | SFailed | SClosed

record ws_call =
  c_tag :: nat
  c_api :: string
  c_data :: request_data

record ws =
  ws_options :: options
  ws_requests :: "(jsval \<times> nat) list"     \<comment> \<open>the \<open>Map\<close> from message ids to deferrals, named by their call\<close>
  ws_inFlight :: nat
  ws_isOpen :: bool
  ws_id :: nat
  ws_startPromise :: "nat option"
  ws_promise :: "nat \<Rightarrow> promise_state"
  ws_socket :: "(nat \<times> socket_state) option"
  ws_waiting :: "(nat \<times> ws_call) list"
  ws_fresh :: nat                         \<comment> \<open>number of the next promise\<close>
  ws_calls :: nat                         \<comment> \<open>number of the next call\<close>

text \<open>What the environment sees: callbacks, messages on a socket, rejected promises of \<open>send\<close>, exceptions.\<close>

datatype ws_out =
    Callback nat "jsval + jsval"
  | WsWrite nat nat jsval jsval  \<comment> \<open>socket, call, id, parameters\<close>
  | SendRejected nat
  | WsThrow js_error

datatype ws_event =
    WsStart | WsSend string request_data | WsRun | WsStop | WsSetOptions options
  | EvOpen | EvOpenError | EvMessage "jsval option" | EvError jsval | EvClose

definition ws_new :: "options \<Rightarrow> ws" where
  "ws_new opts =
     \<lparr>ws_options = object_assign [(''id'', JNum 0)] opts, ws_requests = [], ws_inFlight = 0, ws_isOpen = False,
      ws_id = 0, ws_startPromise = None, ws_promise = (\<lambda>_. Pending), ws_socket = None, ws_waiting = [],
      ws_fresh = 0, ws_calls = 0\<rparr>"

text \<open>
  \<open>start\<close>; \<open>url_ok\<close> says which addresses the class \<open>WebSocket\<close> accepts. An exception of the
  constructor rejects the promise, which stays in \<open>startPromise\<close>.
\<close>

definition ws_start :: "(jsval \<Rightarrow> bool) \<Rightarrow> ws \<Rightarrow> nat \<times> ws" where
  "ws_start url_ok s =
     (case ws_startPromise s of
        Some p \<Rightarrow> (p, s)
      | None \<Rightarrow>
          (let p = ws_fresh s; s' = s\<lparr>ws_fresh := p + 1, ws_startPromise := Some p\<rparr>
           in (p, if url_ok (options_get (ws_options s) ''websocket'')
                  then s'\<lparr>ws_socket := Some (p, SConnecting), ws_promise := (ws_promise s)(p := Pending)\<rparr>
                  else s'\<lparr>ws_promise := (ws_promise s)(p := Rejected)\<rparr>)))"

definition ws_stop :: "ws \<Rightarrow> ws" where
  "ws_stop s = s\<lparr>ws_startPromise := None, ws_isOpen := False, ws_requests := [], ws_socket := None\<rparr>"

definition ws_setOptions :: "options \<Rightarrow> ws \<Rightarrow> ws" where
  "ws_setOptions opts s = ws_stop (s\<lparr>ws_options := object_assign (ws_options s) opts\<rparr>)"

definition ws_send :: "(jsval \<Rightarrow> bool) \<Rightarrow> string \<Rightarrow> request_data \<Rightarrow> ws \<Rightarrow> ws" where
  "ws_send url_ok api d s =
     (let (p, s') = ws_start url_ok s
      in s'\<lparr>ws_waiting := ws_waiting s' @ [(p, \<lparr>c_tag = ws_calls s', c_api = api, c_data = d\<rparr>)], ws_calls := ws_calls s' + 1\<rparr>)"

text \<open>The function \<open>send\<close> passes to \<open>then\<close>. Writing to no socket, or to a connecting one, throws.\<close>

definition ws_deferred :: "ws_call \<Rightarrow> ws \<Rightarrow> ws \<times> ws_out list" where
  "ws_deferred c s =
     (let (rid, next_id) = request_id (ws_id s) (c_data c);
          s' = s\<lparr>ws_id := next_id, ws_inFlight := ws_inFlight s + 1, ws_requests := assoc_set rid (c_tag c) (ws_requests s)\<rparr>
      in (s', case ws_socket s of
                None \<Rightarrow> [SendRejected (c_tag c)]
              | Some (k, SConnecting) \<Rightarrow> [SendRejected (c_tag c)]
              | Some (k, _) \<Rightarrow> [WsWrite k (c_tag c) rid (request_params (ws_options s) (c_api c) (c_data c))]))"

text \<open>The first call in the queue whose promise is settled.\<close>

fun take_ready :: "(nat \<Rightarrow> promise_state) \<Rightarrow> (nat \<times> ws_call) list \<Rightarrow> ((nat \<times> ws_call) \<times> (nat \<times> ws_call) list) option" where
  "take_ready P [] = None"
| "take_ready P (w # ws') =
     (if P (fst w) \<noteq> Pending then Some (w, ws')
      else map_option (\<lambda>(v, r). (v, w # r)) (take_ready P ws'))"

definition ws_run :: "ws \<Rightarrow> ws \<times> ws_out list" where
  "ws_run s =
     (case take_ready (ws_promise s) (ws_waiting s) of
        None \<Rightarrow> (s, [])
      | Some ((p, c), rest) \<Rightarrow>
          (let s' = s\<lparr>ws_waiting := rest\<rparr>
           in if ws_promise s p = Resolved then ws_deferred c s' else (s', [SendRejected (c_tag c)])))"

text \<open>
  \<open>onError\<close> and \<open>onClose\<close> iterate over the entries of the \<open>Map\<close>, which are pairs of a key and a
  request: the property \<open>deferral\<close> of the first pair is \<open>undefined\<close> and the loop throws.
\<close>

definition ws_onError :: "ws \<Rightarrow> ws \<times> ws_out list" where
  "ws_onError s = (if ws_requests s = [] then (ws_stop s, []) else (s, [WsThrow TypeError]))"

definition ws_onClose :: "ws \<Rightarrow> ws \<times> ws_out list" where
  "ws_onClose s = (if ws_requests s = [] then (s\<lparr>ws_requests := []\<rparr>, []) else (s, [WsThrow TypeError]))"

text \<open>\<open>onMessage\<close>: the panic for an unknown id is an \<open>AssertionError\<close> of the model.\<close>

definition ws_onMessage :: "jsval option \<Rightarrow> ws \<Rightarrow> ws \<times> ws_out list" where
  "ws_onMessage data s =
     (case data of
        None \<Rightarrow> (s, [WsThrow SyntaxError])
      | Some message \<Rightarrow>
          (case (js_get message ''id'', js_get message ''error'', js_get message ''result'') of
             (Inr i, Inr e, Inr r) \<Rightarrow>
               (case map_of (ws_requests s) i of
                  None \<Rightarrow> (s, [WsThrow AssertionError])
                | Some t \<Rightarrow>
                    (s\<lparr>ws_requests := filter (\<lambda>(k, _). k \<noteq> i) (ws_requests s)\<rparr>,
                     [Callback t (if js_truthy e then Inl e else Inr r)]))
           | _ \<Rightarrow> (s, [WsThrow TypeError])))"

text \<open>
  One step. The guards are the behaviour of sockets: a connecting socket opens or fails, an open one
  delivers messages, errors and at last its closing. A socket that \<open>stop\<close> has dropped has no handlers.
  \<open>onerror\<close> of a connecting socket resets \<open>startPromise\<close>; the handlers are installed by \<open>onopen\<close>.
\<close>

definition ws_onopen :: "nat \<Rightarrow> ws \<Rightarrow> ws" where
  "ws_onopen k s = s\<lparr>ws_isOpen := True, ws_promise := (ws_promise s)(k := Resolved), ws_socket := Some (k, SOpen)\<rparr>"

definition ws_onerror_connecting :: "nat \<Rightarrow> ws \<Rightarrow> ws" where
  "ws_onerror_connecting k s =
     s\<lparr>ws_startPromise := None, ws_promise := (ws_promise s)(k := Rejected), ws_socket := Some (k, SFailed)\<rparr>"

inductive ws_step :: "(jsval \<Rightarrow> bool) \<Rightarrow> ws \<Rightarrow> ws_event \<Rightarrow> ws \<times> ws_out list \<Rightarrow> bool" for url_ok where
  start: "ws_step url_ok s WsStart (snd (ws_start url_ok s), [])"
| send: "ws_step url_ok s (WsSend api d) (ws_send url_ok api d s, [])"
| run: "ws_step url_ok s WsRun (ws_run s)"
| stop: "ws_step url_ok s WsStop (ws_stop s, [])"
| options: "ws_step url_ok s (WsSetOptions opts) (ws_setOptions opts s, [])"
| opened: "ws_socket s = Some (k, SConnecting) \<Longrightarrow> ws_step url_ok s EvOpen (ws_onopen k s, [])"
| failed: "ws_socket s = Some (k, SConnecting) \<Longrightarrow> ws_step url_ok s EvOpenError (ws_onerror_connecting k s, [])"
| message: "ws_socket s = Some (k, SOpen) \<Longrightarrow> ws_step url_ok s (EvMessage data) (ws_onMessage data s)"
| error: "ws_socket s = Some (k, SOpen) \<Longrightarrow> ws_step url_ok s (EvError e) (ws_onError s)"
| closed: "ws_socket s = Some (k, SOpen) \<Longrightarrow>
    ws_step url_ok s EvClose (ws_onClose (s\<lparr>ws_socket := Some (k, SClosed)\<rparr>))"

inductive_cases ws_stepE: "ws_step url_ok s ev r"

text \<open>A history: the state reached from a new transport, and everything it has put out.\<close>

inductive ws_history :: "(jsval \<Rightarrow> bool) \<Rightarrow> options \<Rightarrow> ws \<Rightarrow> ws_out list \<Rightarrow> bool" for url_ok opts where
  init: "ws_history url_ok opts (ws_new opts) []"
| step: "ws_history url_ok opts s outs \<Longrightarrow> ws_step url_ok s ev (s', new) \<Longrightarrow> ws_history url_ok opts s' (outs @ new)"

section \<open>The invariant\<close>

text \<open>A predicate of the state and its history that a new transport has and every step keeps.\<close>

locale ws_invariant =
  fixes I :: "ws \<Rightarrow> ws_out list \<Rightarrow> bool"
  assumes init: "I (ws_new opts) []"
    and step: "ws_step ok s ev (s', new) \<Longrightarrow> I s outs \<Longrightarrow> I s' (outs @ new)"
begin

lemma history: "ws_history ok opts s outs \<Longrightarrow> I s outs"
  by (induction rule: ws_history.induct) (auto intro: init step)

end

definition callback_tags :: "ws_out list \<Rightarrow> nat list" where
  "callback_tags outs = concat (map (\<lambda>x. case x of Callback t _ \<Rightarrow> [t] | _ \<Rightarrow> []) outs)"

lemma callback_tags_simps [simp]:
  "callback_tags [] = []"
  "callback_tags (xs @ ys) = callback_tags xs @ callback_tags ys"
  "callback_tags (Callback t r # xs) = t # callback_tags xs"
  "callback_tags (WsWrite k c i p # xs) = callback_tags xs"
  "callback_tags (SendRejected t # xs) = callback_tags xs"
  "callback_tags (WsThrow e # xs) = callback_tags xs"
  by (simp_all add: callback_tags_def)

text \<open>
  The calls that are waiting to run, waiting for an answer, or answered, with multiplicity: every
  call counts once at most (a call whose request was dropped is in none of the three places).
\<close>

definition ws_tags :: "ws \<Rightarrow> ws_out list \<Rightarrow> nat multiset" where
  "ws_tags s outs =
     mset (map (c_tag \<circ> snd) (ws_waiting s)) + mset (map snd (ws_requests s)) + mset (callback_tags outs)"

definition ws_inv :: "ws \<Rightarrow> ws_out list \<Rightarrow> bool" where
  "ws_inv s outs \<longleftrightarrow> ws_tags s outs \<subseteq># mset [0..<ws_calls s] \<and> distinct (map fst (ws_requests s))"

lemma fst_assoc_set: "fst ` set (assoc_set k v r) = insert k (fst ` set r)"
  by (induction k v r rule: assoc_set.induct) auto

lemma distinct_assoc_set: "distinct (map fst r) \<Longrightarrow> distinct (map fst (assoc_set k v r))"
proof (induction k v r rule: assoc_set.induct)
  case (2 k v k' v' r)
  then show ?case using fst_assoc_set [of k v r] by (auto simp flip: set_map)
qed simp

lemma snd_assoc_set: "mset (map snd (assoc_set k v r)) \<subseteq># add_mset v (mset (map snd r))"
  by (induction k v r rule: assoc_set.induct) (auto simp: add_mset_commute)

lemma snd_filter_key:
  "map_of r k = Some v \<Longrightarrow> add_mset v (mset (map snd (filter (\<lambda>(k', _). k' \<noteq> k) r))) \<subseteq># mset (map snd r)"
proof (induction r)
  case (Cons x r)
  have "mset (map snd (filter (\<lambda>(k', _). k' \<noteq> k) r)) \<subseteq># mset (map snd r)"
    by (metis image_mset_subseteq_mono mset_filter mset_map multiset_filter_subset)
  with Cons show ?case
    by (cases x) (auto simp: add_mset_commute intro: subset_mset.trans split: if_splits)
qed simp

lemma take_ready_Some:
  "take_ready P xs = Some (w, r) \<Longrightarrow> mset xs = add_mset w (mset r) \<and> P (fst w) \<noteq> Pending"
  by (induction xs arbitrary: r) (auto split: if_splits)

text \<open>A step that adds no call and moves tags at most from one place to the next keeps the invariant.\<close>

lemma ws_inv_mono:
  assumes "ws_inv s outs" "ws_tags s' outs' \<subseteq># ws_tags s outs" "ws_calls s' = ws_calls s"
    "distinct (map fst (ws_requests s))\<Longrightarrow> distinct (map fst (ws_requests s'))"
  shows "ws_inv s' outs'"
  using assms by (auto simp: ws_inv_def intro: subset_mset.trans)

lemma ws_start_fields [simp]:
  "ws_waiting (snd (ws_start ok s)) = ws_waiting s" "ws_requests (snd (ws_start ok s)) = ws_requests s"
  "ws_calls (snd (ws_start ok s)) = ws_calls s" "ws_inFlight (snd (ws_start ok s)) = ws_inFlight s"
  by (auto simp: ws_start_def Let_def split: option.splits)

lemma ws_send_requests [simp]: "ws_requests (ws_send ok api d s) = ws_requests s"
  using ws_start_fields(2) [of ok s] by (auto simp: ws_send_def simp del: ws_start_fields split: prod.splits)

lemma ws_inv_start: "ws_inv s outs \<Longrightarrow> ws_inv (snd (ws_start ok s)) outs"
  by (erule ws_inv_mono) (simp_all add: ws_tags_def)

lemma ws_inv_send: "ws_inv s outs \<Longrightarrow> ws_inv (ws_send ok api d s) outs"
proof -
  assume i: "ws_inv s outs"
  obtain p s' where st: "ws_start ok s = (p, s')" by fastforce
  have "ws_waiting s' = ws_waiting s" "ws_requests s' = ws_requests s" "ws_calls s' = ws_calls s"
    using ws_start_fields [of ok s] by (simp_all add: st)
  with i show ?thesis by (simp add: ws_send_def st ws_inv_def ws_tags_def ac_simps)
qed

lemma ws_inv_stop: "ws_inv s outs \<Longrightarrow> ws_inv (ws_stop s) outs"
  by (erule ws_inv_mono) (simp_all add: ws_tags_def ws_stop_def)

lemma ws_inv_setOptions: "ws_inv s outs \<Longrightarrow> ws_inv (ws_setOptions opts s) outs"
  unfolding ws_setOptions_def by (rule ws_inv_stop, erule ws_inv_mono) (simp_all add: ws_tags_def)

lemma ws_inv_deferred:
  assumes "ws_inv s outs" "mset (ws_waiting s) = add_mset (p, c) (mset rest)"
    "ws_deferred c (s\<lparr>ws_waiting := rest\<rparr>) = (s', new)"
  shows "ws_inv s' (outs @ new)"
proof (rule ws_inv_mono [OF assms(1)])
  obtain rid k where rid: "request_id (ws_id s) (c_data c) = (rid, k)" by fastforce
  have f: "ws_requests s' = assoc_set rid (c_tag c) (ws_requests s)" "ws_waiting s' = rest" "ws_calls s' = ws_calls s"
    "callback_tags new = []"
    using assms(3) rid by (auto simp: ws_deferred_def Let_def split: option.splits socket_state.splits)
  have "mset (map (c_tag \<circ> snd) (ws_waiting s)) = add_mset (c_tag c) (mset (map (c_tag \<circ> snd) rest))"
    using assms(2) by (simp flip: image_mset.comp)
  then show "ws_tags s' (outs @ new) \<subseteq># ws_tags s outs"
    using snd_assoc_set [of rid "c_tag c" "ws_requests s"] by (simp add: ws_tags_def f)
  show "ws_calls s' = ws_calls s" by (rule f)
  show "distinct (map fst (ws_requests s)) \<Longrightarrow> distinct (map fst (ws_requests s'))"
    unfolding f by (rule distinct_assoc_set)
qed

lemma ws_inv_run: "ws_inv s outs \<Longrightarrow> ws_run s = (s', new) \<Longrightarrow> ws_inv s' (outs @ new)"
proof (cases "take_ready (ws_promise s) (ws_waiting s)")
  case (Some pr)
  assume i: "ws_inv s outs" and r: "ws_run s = (s', new)"
  obtain p c rest where pr: "pr = ((p, c), rest)" by (metis prod.exhaust)
  have w: "mset (ws_waiting s) = add_mset (p, c) (mset rest)"
    using take_ready_Some Some pr by blast
  show ?thesis
  proof (cases "ws_promise s p = Resolved")
    case True
    with r Some pr ws_inv_deferred [OF i w] show ?thesis by (simp add: ws_run_def)
  next
    case False
    have "mset (map (c_tag \<circ> snd) rest) \<subseteq># mset (map (c_tag \<circ> snd) (ws_waiting s))" using w by simp
    with False r Some pr show ?thesis
      by (intro ws_inv_mono [OF i]) (auto simp: ws_run_def ws_tags_def)
  qed
qed (simp add: ws_run_def)

lemma ws_inv_message:
  assumes "ws_inv s outs" "ws_onMessage data s = (s', new)"
  shows "ws_inv s' (outs @ new)"
proof (rule ws_inv_mono [OF assms(1)])
  show "ws_tags s' (outs @ new) \<subseteq># ws_tags s outs"
    using assms(2) snd_filter_key [of "ws_requests s"]
    by (auto simp: ws_onMessage_def ws_tags_def split: option.splits sum.splits)
qed (use assms(2) in \<open>auto simp: ws_onMessage_def distinct_map_filter split: option.splits sum.splits\<close>)

lemma ws_inv_step: "ws_step ok s ev (s', new) \<Longrightarrow> ws_inv s outs \<Longrightarrow> ws_inv s' (outs @ new)"
proof (erule ws_stepE, goal_cases)
  case (6 k)
  then show ?case by (auto elim!: ws_inv_mono simp: ws_onopen_def ws_tags_def)
next
  case (7 k)
  then show ?case by (auto elim!: ws_inv_mono simp: ws_onerror_connecting_def ws_tags_def)
next
  case (9 k e)
  then show ?case by (auto simp: ws_onError_def ws_inv_stop elim!: ws_inv_mono split: if_splits, simp add: ws_tags_def)
next
  case (10 k)
  then show ?case by (auto elim!: ws_inv_mono simp: ws_onClose_def ws_tags_def split: if_splits)
qed (auto simp: ws_inv_start ws_inv_send ws_inv_stop ws_inv_setOptions intro: ws_inv_run ws_inv_message)

interpretation tags: ws_invariant ws_inv
  by unfold_locales (simp add: ws_inv_def ws_tags_def ws_new_def, rule ws_inv_step)

text \<open>No callback is called twice.\<close>

lemma ws_callbacks_distinct:
  assumes "ws_history ok opts s outs"
  shows "distinct (callback_tags outs)"
proof -
  have "mset (callback_tags outs) \<subseteq># ws_tags s outs" by (simp add: ws_tags_def)
  also have "\<dots> \<subseteq># mset [0..<ws_calls s]" using tags.history [OF assms] by (simp only: ws_inv_def)
  finally have "mset (callback_tags outs) \<subseteq># mset [0..<ws_calls s]" .
  moreover have "\<And>t. count (mset [0..<ws_calls s]) t \<le> 1" by (simp add: count_mset_set')
  ultimately have "count (mset (callback_tags outs)) t \<le> 1" for t by (meson mset_subset_eq_count order_trans)
  then show ?thesis
    by (simp add: distinct_count_atmost_1 le_Suc_eq)
qed

section \<open>Answers and connections\<close>

text \<open>Every entry of the request map comes from a message written, or from a call that was rejected.\<close>

definition ws_sent :: "ws \<Rightarrow> ws_out list \<Rightarrow> bool" where
  "ws_sent s outs \<longleftrightarrow>
     (\<forall>(i, t) \<in> set (ws_requests s). (\<exists>k ps. WsWrite k t i ps \<in> set outs) \<or> SendRejected t \<in> set outs)"

lemma set_assoc_set: "set (assoc_set k v r) \<subseteq> insert (k, v) (set r)"
  by (induction k v r rule: assoc_set.induct) auto

lemma ws_sent_mono: "ws_sent s outs \<Longrightarrow> set (ws_requests s') \<subseteq> set (ws_requests s) \<Longrightarrow> ws_sent s' (outs @ new)"
  unfolding ws_sent_def by fastforce

lemma ws_sent_run: "ws_sent s outs \<Longrightarrow> ws_run s = (s', new) \<Longrightarrow> ws_sent s' (outs @ new)"
proof (cases "take_ready (ws_promise s) (ws_waiting s)")
  case (Some pr)
  assume i: "ws_sent s outs" and r: "ws_run s = (s', new)"
  obtain p c rest where pr: "pr = ((p, c), rest)" by (metis prod.exhaust)
  obtain rid k where rid: "request_id (ws_id s) (c_data c) = (rid, k)" by fastforce
  show ?thesis
  proof (cases "ws_promise s p = Resolved")
    case True
    have "set (ws_requests s') \<subseteq> insert (rid, c_tag c) (set (ws_requests s))"
      using True r Some pr rid set_assoc_set [of rid "c_tag c" "ws_requests s"]
      by (auto simp: ws_run_def ws_deferred_def Let_def)
    moreover have "(\<exists>k ps. WsWrite k (c_tag c) rid ps \<in> set new) \<or> SendRejected (c_tag c) \<in> set new"
      using True r Some pr rid by (auto simp: ws_run_def ws_deferred_def Let_def split: option.splits socket_state.splits)
    ultimately show ?thesis using i unfolding ws_sent_def by fastforce
  next
    case False
    with r Some pr show ?thesis by (intro ws_sent_mono [OF i]) (auto simp: ws_run_def)
  qed
qed (auto simp: ws_run_def)

lemma ws_sent_step: "ws_step ok s ev (s', new) \<Longrightarrow> ws_sent s outs \<Longrightarrow> ws_sent s' (outs @ new)"
proof (erule ws_stepE, goal_cases)
  case 3
  then show ?case using ws_sent_run [of s outs s' new] by simp
next
  case (8 k data)
  then show ?case
    by (intro ws_sent_mono [of s]) (auto simp: ws_onMessage_def split: option.splits sum.splits)
qed (auto simp: ws_sent_def ws_stop_def ws_setOptions_def ws_onopen_def ws_onerror_connecting_def
  ws_onError_def ws_onClose_def split: if_splits)

interpretation sent: ws_invariant ws_sent
  by unfold_locales (simp add: ws_sent_def ws_new_def, rule ws_sent_step)

text \<open>An open socket, and one that has been closed by the other side, is the one of \<open>startPromise\<close>.\<close>

definition ws_conn :: "ws \<Rightarrow> bool" where
  "ws_conn s \<longleftrightarrow>
     (\<forall>k. ws_socket s = Some (k, SConnecting) \<longrightarrow> ws_startPromise s = Some k) \<and>
     (\<forall>k st. ws_socket s = Some (k, st) \<longrightarrow> st = SOpen \<or> st = SClosed \<longrightarrow>
        ws_startPromise s = Some k \<and> ws_promise s k = Resolved \<and> ws_isOpen s) \<and>
     (\<forall>p. ws_startPromise s = Some p \<longrightarrow> p < ws_fresh s)"

lemma ws_conn_start: "ws_conn s \<Longrightarrow> ws_conn (snd (ws_start ok s))"
  by (auto simp: ws_conn_def ws_start_def Let_def split: option.splits)

lemma ws_run_fields:
  assumes "ws_run s = (s', new)"
  shows "ws_socket s' = ws_socket s" "ws_startPromise s' = ws_startPromise s" "ws_promise s' = ws_promise s"
    "ws_isOpen s' = ws_isOpen s" "ws_fresh s' = ws_fresh s"
  using assms by (auto simp: ws_run_def ws_deferred_def Let_def split: option.splits if_splits prod.splits)

lemma ws_conn_run: "ws_conn s \<Longrightarrow> ws_run s = (s', new) \<Longrightarrow> ws_conn s'"
  using ws_run_fields [of s s' new] by (simp add: ws_conn_def)

lemma ws_conn_send: "ws_conn s \<Longrightarrow> ws_conn (ws_send ok api d s)"
proof -
  assume "ws_conn s"
  moreover obtain p s' where st: "ws_start ok s = (p, s')" by fastforce
  ultimately have "ws_conn s'" using ws_conn_start [of s ok] by simp
  then show ?thesis by (simp add: ws_send_def st ws_conn_def)
qed

lemma ws_conn_step: "ws_step ok s ev (s', new) \<Longrightarrow> ws_conn s \<Longrightarrow> ws_conn s'"
proof (erule ws_stepE, goal_cases)
  case 1
  then show ?case by (simp add: ws_conn_start)
next
  case (2 api d)
  then show ?case by (simp add: ws_conn_send)
next
  case 3
  then show ?case using ws_conn_run [of s s' new] by simp
qed (auto simp: ws_conn_def ws_stop_def ws_setOptions_def ws_onopen_def
  ws_onerror_connecting_def ws_onMessage_def ws_onError_def ws_onClose_def split: if_splits option.splits sum.splits)

interpretation conn: ws_invariant "\<lambda>s outs. ws_conn s"
  by unfold_locales (simp add: ws_conn_def ws_new_def, rule ws_conn_step)

text \<open>The counter of requests in flight is never decremented.\<close>

lemma ws_inFlight_step: "ws_step ok s ev (s', new) \<Longrightarrow> ws_inFlight s \<le> ws_inFlight s'"
  by (erule ws_stepE)
    (auto simp: ws_stop_def ws_setOptions_def ws_onopen_def ws_onerror_connecting_def ws_onMessage_def ws_onError_def
      ws_onClose_def ws_run_def ws_deferred_def ws_send_def Let_def ws_start_def split: if_splits option.splits sum.splits prod.splits)

end
