(* ===== verification/Api.thy ===== *)
theory Api
  imports Transports Utils
begin

text \<open>
  \<open>api/methods.js\<close> and \<open>api/index.js\<close>: the table of remote methods and the calls generated from it,
  the options, transport and endpoints of a connection with the failover, the direct calls, and
  the streams of blocks, transactions and operations. Network and timers are the caller's inputs;
  logging is not modelled beyond the choice of the logger.
\<close>

section \<open>methods.js\<close>

type_synonym api_method = "string \<times> string \<times> string list option"

definition database_methods_1a :: "api_method list" where
  "database_methods_1a =
     [(''database_api'', ''set_subscribe_callback'', Some [''callback'', ''clearFilter'']),
      (''database_api'', ''set_pending_transaction_callback'', Some [''cb'']),
      (''database_api'', ''set_block_applied_callback'', Some [''cb'']),
      (''database_api'', ''cancel_all_subscriptions'', None),
      (''database_api'', ''get_trending_tags'', Some [''afterTag'', ''limit'']),
      (''database_api'', ''get_tags_used_by_author'', Some [''author'']),
      (''database_api'', ''get_post_discussions_by_payout'', Some [''query'']),
      (''database_api'', ''get_comment_discussions_by_payout'', Some [''query'']),
      (''database_api'', ''get_discussions_by_trending'', Some [''query'']),
      (''database_api'', ''get_discussions_by_trending30'', Some [''query'']),
      (''database_api'', ''get_discussions_by_created'', Some [''query'']),
      (''database_api'', ''get_discussions_by_active'', Some [''query'']),
      (''database_api'', ''get_discussions_by_cashout'', Some [''query'']),
      (''database_api'', ''get_discussions_by_payout'', Some [''query'']),
      (''database_api'', ''get_discussions_by_votes'', Some [''query'']),
      (''database_api'', ''get_discussions_by_children'', Some [''query'']),
      (''database_api'', ''get_discussions_by_hot'', Some [''query'']),
      (''database_api'', ''get_discussions_by_feed'', Some [''query'']),
      (''database_api'', ''get_discussions_by_blog'', Some [''query'']),
      (''database_api'', ''get_discussions_by_comments'', Some [''query'']),
      (''database_api'', ''get_discussions_by_promoted'', Some [''query'']),
      (''database_api'', ''get_block_header'', Some [''blockNum'']),
      (''database_api'', ''get_block'', Some [''blockNum'']),
      (''database_api'', ''get_ops_in_block'', Some [''blockNum'', ''onlyVirtual'']),
      (''database_api'', ''get_state'', Some [''path'']),
      (''database_api'', ''get_trending_categories'', Some [''after'', ''limit'']),
      (''database_api'', ''get_best_categories'', Some [''after'', ''limit'']),
      (''database_api'', ''get_active_categories'', Some [''after'', ''limit'']),
      (''database_api'', ''get_recent_categories'', Some [''after'', ''limit'']),
      (''database_api'', ''get_config'', None)]"

definition database_methods_1b :: "api_method list" where
  "database_methods_1b =
     [(''database_api'', ''get_dynamic_global_properties'', None),
      (''database_api'', ''get_chain_properties'', None),
      (''database_api'', ''get_feed_history'', None),
      (''database_api'', ''get_current_median_history_price'', None),
      (''database_api'', ''get_witness_schedule'', None),
      (''database_api'', ''get_hardfork_version'', None),
      (''database_api'', ''get_next_scheduled_hardfork'', None)]"

definition account_by_key_methods :: "api_method list" where
  "account_by_key_methods =
     [(''account_by_key_api'', ''get_key_references'', Some [''key''])]"

definition database_methods_2a :: "api_method list" where
  "database_methods_2a =
     [(''database_api'', ''get_accounts'', Some [''names'']),
      (''database_api'', ''get_account_references'', Some [''accountId'']),
      (''database_api'', ''lookup_account_names'', Some [''accountNames'']),
      (''database_api'', ''lookup_accounts'', Some [''lowerBoundName'', ''limit'']),
      (''database_api'', ''get_account_count'', None),
      (''database_api'', ''get_conversion_requests'', Some [''accountName'']),
      (''database_api'', ''get_account_history'', Some [''account'', ''from'', ''limit'']),
      (''database_api'', ''get_owner_history'', Some [''account'']),
      (''database_api'', ''get_recovery_request'', Some [''account'']),
      (''database_api'', ''get_escrow'', Some [''from'', ''escrowId'']),
      (''database_api'', ''get_withdraw_routes'', Some [''account'', ''withdrawRouteType'']),
      (''database_api'', ''get_account_bandwidth'', Some [''account'', ''bandwidthType'']),
      (''database_api'', ''get_savings_withdraw_from'', Some [''account'']),
      (''database_api'', ''get_savings_withdraw_to'', Some [''account'']),
      (''database_api'', ''get_order_book'', Some [''limit'']),
      (''database_api'', ''get_open_orders'', Some [''owner'']),
      (''database_api'', ''get_liquidity_queue'', Some [''startAccount'', ''limit'']),
      (''database_api'', ''get_transaction_hex'', Some [''trx'']),
      (''database_api'', ''get_transaction'', Some [''trxId'']),
      (''database_api'', ''get_required_signatures'', Some [''trx'', ''availableKeys'']),
      (''database_api'', ''get_potential_signatures'', Some [''trx'']),
      (''database_api'', ''verify_authority'', Some [''trx'']),
      (''database_api'', ''verify_account_authority'', Some [''nameOrId'', ''signers'']),
      (''database_api'', ''get_active_votes'', Some [''author'', ''permlink'']),
      (''database_api'', ''get_account_votes'', Some [''voter'']),
      (''database_api'', ''get_content'', Some [''author'', ''permlink'']),
      (''database_api'', ''get_content_replies'', Some [''author'', ''permlink'']),
      (''database_api'', ''get_discussions_by_author_before_date'', Some [''author'', ''startPermlink'', ''beforeDate'', ''limit'']),
      (''database_api'', ''get_replies_by_last_update'', Some [''startAuthor'', ''startPermlink'', ''limit'']),
      (''database_api'', ''get_witnesses'', Some [''witnessIds''])]"

definition database_methods_2b :: "api_method list" where
  "database_methods_2b =
     [(''database_api'', ''get_witness_by_account'', Some [''accountName'']),
      (''database_api'', ''get_witnesses_by_vote'', Some [''from'', ''limit'']),
      (''database_api'', ''lookup_witness_accounts'', Some [''lowerBoundName'', ''limit'']),
      (''database_api'', ''get_witness_count'', None),
      (''database_api'', ''get_active_witnesses'', None),
      (''database_api'', ''get_miner_queue'', None),
      (''database_api'', ''get_reward_fund'', Some [''name'']),
      (''database_api'', ''get_vesting_delegations'', Some [''account'', ''from'', ''limit''])]"

definition login_methods :: "api_method list" where
  "login_methods =
     [(''login_api'', ''login'', Some [''username'', ''password'']),
      (''login_api'', ''get_api_by_name'', Some [''database_api'']),
      (''login_api'', ''get_version'', None)]"

definition follow_methods :: "api_method list" where
  "follow_methods =
     [(''follow_api'', ''get_followers'', Some [''following'', ''startFollower'', ''followType'', ''limit'']),
      (''follow_api'', ''get_following'', Some [''follower'', ''startFollowing'', ''followType'', ''limit'']),
      (''follow_api'', ''get_follow_count'', Some [''account'']),
      (''follow_api'', ''get_feed_entries'', Some [''account'', ''entryId'', ''limit'']),
      (''follow_api'', ''get_feed'', Some [''account'', ''entryId'', ''limit'']),
      (''follow_api'', ''get_blog_entries'', Some [''account'', ''entryId'', ''limit'']),
      (''follow_api'', ''get_blog'', Some [''account'', ''entryId'', ''limit'']),
      (''follow_api'', ''get_account_reputations'', Some [''lowerBoundName'', ''limit'']),
      (''follow_api'', ''get_reblogged_by'', Some [''author'', ''permlink'']),
      (''follow_api'', ''get_blog_authors'', Some [''blogAccount''])]"

definition network_broadcast_methods :: "api_method list" where
  "network_broadcast_methods =
     [(''network_broadcast_api'', ''broadcast_transaction'', Some [''trx'']),
      (''network_broadcast_api'', ''broadcast_transaction_with_callback'', Some [''confirmationCallback'', ''trx'']),
      (''network_broadcast_api'', ''broadcast_transaction_synchronous'', Some [''trx'']),
      (''network_broadcast_api'', ''broadcast_block'', Some [''b'']),
      (''network_broadcast_api'', ''set_max_block_age'', Some [''maxBlockAge''])]"

definition database_methods_3 :: "api_method list" where
  "database_methods_3 =
     [(''database_api'', ''find_proposals'', Some [''id_set'']),
      (''database_api'', ''list_proposals'', Some [''start'', ''limit'', ''order_by'', ''order_direction'', ''status'']),
      (''database_api'', ''list_proposal_votes'', Some [''start'', ''limit'', ''order_by'', ''order_direction'', ''status'']),
      (''database_api'', ''get_nai_pool'', Some [])]"

definition methods :: "api_method list" where
  "methods = database_methods_1a @ database_methods_1b @ account_by_key_methods @ database_methods_2a @ database_methods_2b @ login_methods @ follow_methods @ network_broadcast_methods @ database_methods_3"

section \<open>Generated methods\<close>

text \<open>
  \<open>this[methodName] = (...args) => ...\<close>: the arguments become an object keyed by the parameter names,
  and \<open>this[methodName + "With"]\<close> reads them back in the order of the table. A missing argument is
  \<open>undefined\<close>; the argument after the last parameter is the callback.
\<close>

definition arg_at :: "jsval list \<Rightarrow> nat \<Rightarrow> jsval" where
  "arg_at args i = (if i < length args then args ! i else JUndef)"

definition args_to_options :: "string list \<Rightarrow> jsval list \<Rightarrow> options" where
  "args_to_options ps args =
     fold (\<lambda>(i, p) memo. assoc_set p (arg_at args i) memo) (enumerate 0 ps) []"

definition method_params :: "api_method \<Rightarrow> string list" where
  "method_params m = (case m of (_, _, ps) \<Rightarrow> case ps of None \<Rightarrow> [] | Some l \<Rightarrow> l)"

definition method_name :: "api_method \<Rightarrow> jsstring" where
  "method_name m = (case m of (_, method, _) \<Rightarrow> camelCase (js method))"

text \<open>The request of a call: the api, and the method with its parameters; then the callback.\<close>

definition method_with :: "api_method \<Rightarrow> options \<Rightarrow> string \<times> request_data" where
  "method_with m opts =
     (case m of (api, method, _) \<Rightarrow>
        (api, \<lparr>d_id = JUndef, d_method = method, d_params = JArr (map (options_get opts) (method_params m))\<rparr>))"

definition method_call :: "api_method \<Rightarrow> jsval list \<Rightarrow> (string \<times> request_data) \<times> jsval" where
  "method_call m args =
     (method_with m (args_to_options (method_params m) args), arg_at args (length (method_params m)))"

section \<open>The connection\<close>

text \<open>
  The state of the class \<open>Steem\<close>. Options are objects. \<open>s_config\<close> is the configuration of
  \<open>config.js\<close>; the default instance is created with the configuration itself as its options object,
  so that a change of one is a change of both while \<open>s_shared\<close> holds. A transport other than the two
  of the library is a class of the caller, named by its tag.
\<close>

datatype transport = HttpTransport options | WsTransport ws | CustomTransport nat options

record steem =
  s_options :: options
  s_shared :: bool
  s_config :: options
  s_transportType :: jsval
  s_transport :: transport
  s_logger :: jsval
  s_seqNo :: nat
  s_error_count :: nat
  s_api_index :: nat
  s_failover_threshold :: jsval
  s_alternatives :: jsval

text \<open>\<open>url.match("^((http|https)?://)")\<close> and the same for \<open>ws\<close>\<close>

definition url_scheme :: "string \<Rightarrow> jsstring \<Rightarrow> bool" where
  "url_scheme scheme url \<longleftrightarrow>
     starts_with (js (scheme @ ''://'')) url \<or> starts_with (js (scheme @ ''s://'')) url \<or> starts_with (js ''://'') url"

text \<open>The branches after the two that look at \<open>url\<close>; a string must name a transport, anything else is a class.\<close>

definition setTransport_other :: "options \<Rightarrow> steem \<Rightarrow> js_error + options \<times> steem" where
  "setTransport_other opts s =
     (let t = options_get opts ''transport''
      in if js_truthy t then
           (case t of
              JStr name \<Rightarrow>
                if name = js ''http'' then Inr (opts, s\<lparr>s_transportType := t, s_transport := HttpTransport opts\<rparr>)
                else if name = js ''ws'' then Inr (opts, s\<lparr>s_transportType := t, s_transport := WsTransport (ws_new opts)\<rparr>)
                else Inl TypeError
            | JFun c \<Rightarrow> Inr (opts, s\<lparr>s_transportType := t, s_transport := CustomTransport c opts\<rparr>)
            | _ \<Rightarrow> Inl TypeError)
         else Inr (opts, s\<lparr>s_transport := WsTransport (ws_new opts)\<rparr>))"

text \<open>\<open>_setTransport(options)\<close> also adds properties to its argument, which it returns here.\<close>

definition setTransport :: "options \<Rightarrow> steem \<Rightarrow> js_error + options \<times> steem" where
  "setTransport opts s =
     (case options_get opts ''url'' of
        JStr url \<Rightarrow>
          if url \<noteq> [] \<and> url_scheme ''http'' url then
            (let opts' = assoc_set ''transport'' (JStr (js ''http'')) (assoc_set ''uri'' (JStr url) opts)
             in Inr (opts', s\<lparr>s_transportType := JStr (js ''http''), s_options := opts', s_shared := False,
                  s_transport := HttpTransport opts'\<rparr>))
          else if url \<noteq> [] \<and> url_scheme ''ws'' url then
            (let opts' = assoc_set ''transport'' (JStr (js ''ws'')) (assoc_set ''websocket'' (JStr url) opts)
             in Inr (opts', s\<lparr>s_transportType := JStr (js ''ws''), s_options := opts', s_shared := False,
                  s_transport := WsTransport (ws_new opts')\<rparr>))
          else setTransport_other opts s
      | url \<Rightarrow> if js_truthy url then Inl TypeError else setTransport_other opts s)"

text \<open>\<open>_setLogger(options)\<close>; a logger of the caller is an object with the function \<open>log\<close>.\<close>

definition setLogger :: "options \<Rightarrow> steem \<Rightarrow> js_error + steem" where
  "setLogger opts s =
     (if \<not> has_own opts ''logger'' then Inr s
      else (let l = options_get opts ''logger''
            in case l of
                 JFun f \<Rightarrow> Inr (s\<lparr>s_logger := JObj [(''log'', l)]\<rparr>)
               | JUndef \<Rightarrow> Inr (if js_truthy (s_logger s) then s else s\<lparr>s_logger := JBool False\<rparr>)
               | _ \<Rightarrow>
                   if is_object l
                   then bindR (js_get l ''log'') (\<lambda>f.
                     case f of JFun _ \<Rightarrow> Inr (s\<lparr>s_logger := l\<rparr>) | _ \<Rightarrow> Inl ValueRequired)
                   else Inr (s\<lparr>s_logger := JBool False\<rparr>)))"

definition transport_setOptions :: "options \<Rightarrow> transport \<Rightarrow> transport" where
  "transport_setOptions opts t =
     (case t of
        HttpTransport o' \<Rightarrow> HttpTransport (object_assign o' opts)
      | WsTransport w \<Rightarrow> WsTransport (ws_setOptions opts w)
      | CustomTransport c o' \<Rightarrow> CustomTransport c o')"

text \<open>The elements the loop over \<open>alternative_api_endpoints\<close> sees.\<close>

definition endpoints :: "jsval \<Rightarrow> js_error + jsval list" where
  "endpoints v =
     (case v of
        JArr xs \<Rightarrow> Inr xs
      | JStr s \<Rightarrow> Inr (map (\<lambda>c. JStr [c]) s)
      | JUndef \<Rightarrow> Inl TypeError
      | JNull \<Rightarrow> Inl TypeError
      | _ \<Rightarrow> Inr [])"

text \<open>The index of the first endpoint equal to the url, zero when there is none.\<close>

fun endpoint_index :: "nat \<Rightarrow> jsval \<Rightarrow> jsval list \<Rightarrow> nat" where
  "endpoint_index i url [] = 0"
| "endpoint_index i url (e # es) = (if e = url then i else endpoint_index (Suc i) url es)"

text \<open>\<open>Object.assign(this.options, options)\<close> and \<open>config.set("address_prefix", p)\<close>\<close>

definition assign_options :: "options \<Rightarrow> steem \<Rightarrow> steem" where
  "assign_options opts s =
     s\<lparr>s_options := object_assign (s_options s) opts,
       s_config := (if s_shared s then object_assign (s_config s) opts else s_config s)\<rparr>"

definition config_set :: "string \<Rightarrow> jsval \<Rightarrow> steem \<Rightarrow> steem" where
  "config_set k v s =
     s\<lparr>s_config := assoc_set k v (s_config s),
       s_options := (if s_shared s then assoc_set k v (s_options s) else s_options s)\<rparr>"

definition setOptions :: "options \<Rightarrow> steem \<Rightarrow> js_error + steem" where
  "setOptions opts s0 =
     (let s1 = assign_options opts s0;
          s2 = (if has_own opts ''failover_threshold''
                then s1\<lparr>s_failover_threshold := options_get opts ''failover_threshold''\<rparr> else s1);
          s3 = (if has_own opts ''alternative_api_endpoints''
                then s2\<lparr>s_alternatives := options_get opts ''alternative_api_endpoints''\<rparr> else s2)
      in bindR (setLogger opts s3) (\<lambda>s3'.
         bindR (setTransport opts s3') (\<lambda>(opts', s4).
           let s5 = s4\<lparr>s_transport := transport_setOptions opts' (s_transport s4)\<rparr>;
               s6 = (if has_own opts ''useTestNet''
                     then config_set ''address_prefix''
                       (JStr (js (if js_truthy (options_get opts ''useTestNet'') then ''TST'' else ''BLT''))) s5
                     else s5)
           in if has_own opts ''url''
              then bindR (endpoints (s_alternatives s6)) (\<lambda>es.
                Inr (s6\<lparr>s_api_index := endpoint_index 0 (options_get opts ''url'') es\<rparr>))
              else Inr s6)))"

definition setWebSocket :: "jsval \<Rightarrow> steem \<Rightarrow> js_error + steem" where
  "setWebSocket url = setOptions [(''websocket'', url)]"

definition setUri :: "jsval \<Rightarrow> steem \<Rightarrow> js_error + steem" where
  "setUri url = setOptions [(''uri'', url)]"

text \<open>The constructor; the flag says whether the argument is the configuration object.\<close>

definition default_endpoints :: "jsval list" where
  "default_endpoints = [JStr (js ''https://rpc.blurt.world''), JStr (js ''https://rpc.blurt.world'')]"

definition Steem_new :: "bool \<Rightarrow> options \<Rightarrow> options \<Rightarrow> js_error + steem" where
  "Steem_new shared opts cfg =
     (let s0 = \<lparr>s_options = [], s_shared = False, s_config = cfg, s_transportType = JUndef, s_transport = HttpTransport [],
                s_logger = JUndef, s_seqNo = 0, s_error_count = 0, s_api_index = 0, s_failover_threshold = JUndef,
                s_alternatives = JUndef\<rparr>
      in bindR (setTransport opts s0) (\<lambda>(opts', s1).
         bindR (setLogger opts' s1) (\<lambda>s2.
           Inr (s2\<lparr>s_options := opts', s_shared := shared, s_config := (if shared then opts' else cfg),
             s_alternatives := JArr default_endpoints\<rparr>))))"

text \<open>
  \<open>notifyError(err, ignore)\<close>; the flag \<open>overseer\<close> is whether the error's text contains that word.
  The threshold is a primitive value, compared as a number.
\<close>

definition threshold_reached :: "nat \<Rightarrow> jsval \<Rightarrow> bool" where
  "threshold_reached n t \<longleftrightarrow>
     (case t of
        JNum k \<Rightarrow> int n \<ge> k
      | JNull \<Rightarrow> True
      | JBool b \<Rightarrow> int n \<ge> (if b then 1 else 0)
      | JStr s \<Rightarrow> js_Number s \<noteq> NumNaN \<and> \<not> numeric_gt (js_Number s) (int n)
      | _ \<Rightarrow> False)"

definition fail_over :: "steem \<Rightarrow> js_error + steem" where
  "fail_over s =
     bindR (endpoints (s_alternatives s)) (\<lambda>es.
       let i = s_api_index s + 1;
           i' = (if i \<ge> length es then 0 else i);
           nextEndpoint = (if i' < length es then es ! i' else JUndef)
       in setOptions [(''url'', nextEndpoint)] (s\<lparr>s_error_count := 0, s_api_index := i'\<rparr>))"

definition notifyError :: "bool \<Rightarrow> bool \<Rightarrow> steem \<Rightarrow> js_error + steem" where
  "notifyError overseer ignore s =
     (if ignore then Inr s
      else if s_failover_threshold s = JUndef \<or> s_alternatives s = JUndef then Inr s
      else if overseer then Inr s
      else (let s1 = s\<lparr>s_error_count := s_error_count s + 1\<rparr>
            in if threshold_reached (s_error_count s1) (s_failover_threshold s1) then fail_over s1 else Inr s1))"

section \<open>Direct calls\<close>

text \<open>
  \<open>call\<close> and \<open>signedCall\<close>: the calls of the callback, and the new state unless \<open>notifyError\<close> throws.
  \<open>call\<close> does not count errors of the remote method; \<open>signedCall\<close> calls back first and counts
  every error. The signing function of \<open>@steemit/rpc-auth\<close> is an argument: it throws, or gives a
  request with its id.
\<close>

datatype call_result = WrongTransport | SigningError js_error | CallError rpc_error | CallResult jsval

definition is_rpc_error :: "rpc_error \<Rightarrow> bool" where
  "is_rpc_error e = (case e of RpcError _ \<Rightarrow> True | _ \<Rightarrow> False)"

definition steem_call :: "(rpc_error \<Rightarrow> bool) \<Rightarrow> http_answer \<Rightarrow> steem \<Rightarrow> call_result list \<times> (js_error + steem)" where
  "steem_call overseer answer s =
     (if s_transportType s \<noteq> JStr (js ''http'') then ([WrongTransport], Inr s)
      else (let s1 = s\<lparr>s_seqNo := s_seqNo s + 1\<rparr>
            in case jsonRpc_answer (JNum (int (s_seqNo s1))) answer of
                 Inr r \<Rightarrow> ([CallResult r], Inr s1)
               | Inl e \<Rightarrow>
                   (case notifyError (overseer e) (is_rpc_error e) s1 of
                      Inl x \<Rightarrow> ([], Inl x)
                    | Inr s2 \<Rightarrow> ([CallError e], Inr s2))))"

definition signedCall ::
  "(jsval \<Rightarrow> js_error + jsval) \<Rightarrow> (rpc_error \<Rightarrow> bool) \<Rightarrow> http_answer \<Rightarrow> steem \<Rightarrow> call_result list \<times> (js_error + steem)" where
  "signedCall signRequest overseer answer s =
     (if s_transportType s \<noteq> JStr (js ''http'') then ([WrongTransport], Inr s)
      else (let s1 = s\<lparr>s_seqNo := s_seqNo s + 1\<rparr>
            in case signRequest (JNum (int (s_seqNo s1))) of
                 Inl x \<Rightarrow> ([SigningError x], Inr s1)
               | Inr rid \<Rightarrow>
                   (case jsonRpc_answer rid answer of
                      Inr r \<Rightarrow> ([CallResult r], Inr s1)
                    | Inl e \<Rightarrow> ([CallError e], notifyError (overseer e) False s1))))"

section \<open>Streams\<close>

text \<open>
  One answer of \<open>getDynamicGlobalProperties\<close> in \<open>streamBlockNumber\<close>: the block numbers passed to the
  callback and the new \<open>current\<close>, which starts as the empty string (\<^term>\<open>None\<close>).
  \<open>block_loop\<close> is the loop \<open>for (let i = current; i < blockId; i++)\<close>, which assigns \<open>current\<close>.
\<close>

function block_loop :: "int \<Rightarrow> int \<Rightarrow> int \<Rightarrow> int list \<times> int" where
  "block_loop blockId i current =
     (if i < blockId
      then (let (out, c) = block_loop blockId (i + 1) i in ((if i \<noteq> current then [i] else []) @ out, c))
      else ([], current))"
  by pat_completeness auto

termination
  by (relation "measure (\<lambda>(b, i, _). nat (b - i))") auto

declare block_loop.simps [simp del]

definition poll_block :: "int option \<Rightarrow> int \<Rightarrow> int list \<times> int option" where
  "poll_block current blockId =
     (if current = Some blockId then ([], current)
      else (case current of
              Some c \<Rightarrow>
                if c \<noteq> 0 then (let (out, c') = block_loop blockId c c in (out, Some c'))
                else ([blockId], Some blockId)
            | None \<Rightarrow> ([blockId], Some blockId)))"

fun stream_numbers :: "int option \<Rightarrow> int list \<Rightarrow> int list" where
  "stream_numbers current [] = []"
| "stream_numbers current (b # bs) = (let (out, c) = poll_block current b in out @ stream_numbers c bs)"

text \<open>\<open>streamBlock\<close>: the numbers whose block is requested, with \<open>last\<close>.\<close>

fun block_requests :: "int option \<Rightarrow> int list \<Rightarrow> int list" where
  "block_requests prev [] = []"
| "block_requests prev (n # ns) = (if Some n \<noteq> prev then [n] else []) @ block_requests (Some n) ns"

text \<open>
  \<open>streamTransactions\<close> and \<open>streamOperations\<close> on the results of \<open>getBlock\<close>: the values passed to the
  callback. A property \<open>operations\<close> or \<open>transactions\<close> that is not an array has no \<open>forEach\<close>.
\<close>

definition forEach :: "jsval \<Rightarrow> js_error + jsval list" where
  "forEach v = (case v of JArr xs \<Rightarrow> Inr xs | _ \<Rightarrow> Inl TypeError)"

definition block_transactions :: "jsval \<Rightarrow> js_error + jsval list" where
  "block_transactions result =
     (if \<not> js_truthy result then Inr []
      else bindR (js_get result ''transactions'') (\<lambda>ts. if js_truthy ts then forEach ts else Inr []))"

definition transaction_operations :: "jsval \<Rightarrow> js_error + jsval list" where
  "transaction_operations t = bindR (js_get t ''operations'') forEach"

definition block_operations :: "jsval \<Rightarrow> js_error + jsval list" where
  "block_operations result =
     bindR (block_transactions result) (\<lambda>ts. bindR (mapR transaction_operations ts) (\<lambda>xss. Inr (concat xss)))"

section \<open>The arguments of a call\<close>

lemma options_get_assoc_set: "options_get (assoc_set k v opts) k' = (if k' = k then v else options_get opts k')"
  by (induction k v opts rule: assoc_set.induct) (auto simp: options_get_def)

lemma options_get_fold:
  "distinct ps \<Longrightarrow> options_get (fold (\<lambda>(i, p) memo. assoc_set p (f i) memo) (enumerate n ps) opts) p =
     (case index_of p ps of None \<Rightarrow> options_get opts p | Some i \<Rightarrow> f (n + i))"
proof (induction ps arbitrary: n opts)
  case (Cons q ps)
  have "index_of q ps = None" if "q \<notin> set ps" for q :: string and ps using that by (induction ps) auto
  with Cons show ?case by (auto simp: options_get_assoc_set split: option.splits)
qed simp

lemma index_of_nth: "distinct ps \<Longrightarrow> i < length ps \<Longrightarrow> index_of (ps ! i) ps = Some i"
  by (induction ps arbitrary: i) (auto simp: nth_Cons split: nat.splits)

text \<open>Reading the options back in the order of the table gives the arguments, padded or cut to the table's length.\<close>

lemma args_to_options_back:
  assumes "distinct ps"
  shows "map (options_get (args_to_options ps args)) ps = map (arg_at args) [0..<length ps]"
proof (rule nth_equalityI)
  fix i assume "i < length (map (options_get (args_to_options ps args)) ps)"
  with assms show "map (options_get (args_to_options ps args)) ps ! i = map (arg_at args) [0..<length ps] ! i"
    by (simp add: args_to_options_def options_get_fold index_of_nth)
qed simp

lemma arg_at_take: "length args = n \<Longrightarrow> map (arg_at (args @ rest)) [0..<n] = args"
  by (rule nth_equalityI) (simp_all add: arg_at_def nth_append)

lemma methods_distinct_params: "list_all (\<lambda>m. distinct (method_params m)) methods"
  by code_simp

section \<open>Failover\<close>

lemma endpoint_index_nth: "distinct es \<Longrightarrow> i < length es \<Longrightarrow> endpoint_index k (es ! i) es = k + i"
  by (induction es arbitrary: i k) (auto simp: nth_Cons split: nat.splits)

lemma endpoint_index_bound: "endpoint_index k url es = 0 \<or> endpoint_index k url es < k + length es"
proof (induction es arbitrary: k)
  case (Cons e es)
  from Cons [of "Suc k"] show ?case by simp
qed simp

lemma endpoint_index_less: "es \<noteq> [] \<Longrightarrow> endpoint_index 0 url es < length es"
  using endpoint_index_bound [of 0 url es] by auto

lemma has_own_single [simp]: "has_own [(k, v)] k' \<longleftrightarrow> k' = k"
  by (auto simp: has_own_def)

lemma setOptions_http_url:
  assumes "s_alternatives s = JArr es" "url_scheme ''http'' url" "url \<noteq> []"
  shows "\<exists>s'. setOptions [(''url'', JStr url)] s = Inr s' \<and> s_alternatives s' = JArr es \<and>
    s_failover_threshold s' = s_failover_threshold s \<and> s_error_count s' = s_error_count s \<and>
    s_api_index s' = endpoint_index 0 (JStr url) es \<and>
    s_options s' = [(''url'', JStr url), (''uri'', JStr url), (''transport'', JStr (js ''http''))] \<and>
    s_transportType s' = JStr (js ''http'') \<and> s_transport s' = HttpTransport (s_options s')"
  using assms
  by (simp add: setOptions_def assign_options_def setLogger_def setTransport_def transport_setOptions_def options_get_def
      endpoints_def Let_def)

definition http_endpoints :: "jsstring list \<Rightarrow> bool" where
  "http_endpoints us \<longleftrightarrow> us \<noteq> [] \<and> distinct us \<and> list_all (\<lambda>u. u \<noteq> [] \<and> url_scheme ''http'' u) us"

text \<open>A connection that uses the endpoint with index \<open>i\<close> of the list and has counted \<open>n\<close> errors.\<close>

definition on_endpoint :: "jsstring list \<Rightarrow> int \<Rightarrow> nat \<Rightarrow> nat \<Rightarrow> steem \<Rightarrow> bool" where
  "on_endpoint us t i n s \<longleftrightarrow>
     s_alternatives s = JArr (map JStr us) \<and> s_failover_threshold s = JNum t \<and> s_api_index s = i \<and> s_error_count s = n"

text \<open>The connection sends its requests to an address: that of the options of its HTTP transport.\<close>

definition connected_to :: "jsstring \<Rightarrow> steem \<Rightarrow> bool" where
  "connected_to url s \<longleftrightarrow> s_transportType s = JStr (js ''http'') \<and> options_get (s_options s) ''url'' = JStr url \<and>
     (\<exists>opts. s_transport s = HttpTransport opts \<and> options_get opts ''uri'' = JStr url)"

definition notify_errors :: "nat \<Rightarrow> steem \<Rightarrow> js_error + steem" where
  "notify_errors k s = foldR (\<lambda>s _. notifyError False False s) s (replicate k ())"

lemma notify_errors_0 [simp]: "notify_errors 0 s = Inr s"
  by (simp add: notify_errors_def)

lemma notify_errors_Suc: "notify_errors (Suc k) s = bindR (notifyError False False s) (notify_errors k)"
proof -
  have "(\<lambda>s. foldR (\<lambda>s _. notifyError False False s) s (replicate k ())) = notify_errors k"
    by (rule ext) (simp add: notify_errors_def)
  then show ?thesis by (simp add: notify_errors_def)
qed

lemma notify_errors_add: "notify_errors (j + k) s = bindR (notify_errors j s) (notify_errors k)"
  by (induction j arbitrary: s) (simp_all add: notify_errors_Suc bindR_assoc, simp add: bindR_def split: sum.splits)

lemma notifyError_below:
  "on_endpoint us t i n s \<Longrightarrow> int (Suc n) < t \<Longrightarrow> notifyError False False s = Inr (s\<lparr>s_error_count := Suc n\<rparr>)"
  by (auto simp: on_endpoint_def notifyError_def threshold_reached_def Let_def)

lemma notifyError_failover:
  assumes "http_endpoints us" "on_endpoint us t i n s" "t \<le> int (Suc n)" "i < length us"
  shows "\<exists>s'. notifyError False False s = Inr s' \<and> on_endpoint us t (Suc i mod length us) 0 s' \<and>
    connected_to (us ! (Suc i mod length us)) s'"
proof -
  let ?j = "Suc i mod length us"
  have j: "(if length us \<le> Suc i then 0 else Suc i) = ?j" "?j < length us"
    using assms(1,4) by (cases "length us = Suc i"; auto simp: http_endpoints_def)+
  have url: "url_scheme ''http'' (us ! ?j)" "us ! ?j \<noteq> []"
    using assms(1) j(2) by (auto simp: http_endpoints_def list_all_iff)
  have ix: "endpoint_index 0 (JStr (us ! ?j)) (map JStr us) = ?j"
    using endpoint_index_nth [of "map JStr us" ?j 0] assms(1) j(2) by (simp add: http_endpoints_def distinct_map inj_on_def)
  let ?s = "s\<lparr>s_error_count := 0, s_api_index := ?j\<rparr>"
  have alt: "s_alternatives ?s = JArr (map JStr us)" using assms(2) by (simp add: on_endpoint_def)
  obtain s' where s': "setOptions [(''url'', JStr (us ! ?j))] ?s = Inr s'" "s_alternatives s' = JArr (map JStr us)"
    "s_failover_threshold s' = s_failover_threshold ?s" "s_error_count s' = s_error_count ?s"
    "s_api_index s' = endpoint_index 0 (JStr (us ! ?j)) (map JStr us)"
    "s_options s' = [(''url'', JStr (us ! ?j)), (''uri'', JStr (us ! ?j)), (''transport'', JStr (js ''http''))]"
    "s_transportType s' = JStr (js ''http'')" "s_transport s' = HttpTransport (s_options s')"
    using setOptions_http_url [OF alt url] by blast
  have "notifyError False False s = Inr s'"
    using assms(2,3) j s'(1)
    by (simp add: notifyError_def on_endpoint_def threshold_reached_def fail_over_def endpoints_def Let_def cong: if_cong)
  then show ?thesis using s' assms(2) ix by (auto simp: on_endpoint_def connected_to_def options_get_def)
qed

lemma notify_errors_below:
  "on_endpoint us t i n s \<Longrightarrow> int (n + k) < t \<Longrightarrow> notify_errors k s = Inr (s\<lparr>s_error_count := n + k\<rparr>)"
proof (induction k arbitrary: n s)
  case (Suc k)
  then have "notifyError False False s = Inr (s\<lparr>s_error_count := Suc n\<rparr>)" using notifyError_below [of us t i n s] by auto
  moreover have "on_endpoint us t i (Suc n) (s\<lparr>s_error_count := Suc n\<rparr>)" using Suc(2) by (simp add: on_endpoint_def)
  ultimately show ?case using Suc(1) [of "Suc n" "s\<lparr>s_error_count := Suc n\<rparr>"] Suc(3) by (simp add: notify_errors_Suc)
qed (simp add: on_endpoint_def)

lemma on_endpoint_count [simp]:
  "on_endpoint us t i n s \<Longrightarrow> on_endpoint us t i k (s\<lparr>s_error_count := k\<rparr>)"
  "connected_to u (s\<lparr>s_error_count := k\<rparr>) \<longleftrightarrow> connected_to u s"
  by (simp_all add: on_endpoint_def connected_to_def)

text \<open>As many errors as the threshold move the connection to the next endpoint.\<close>

lemma notify_errors_threshold:
  assumes "http_endpoints us" "on_endpoint us (int (Suc m)) i 0 s" "i < length us"
  shows "\<exists>s'. notify_errors (Suc m) s = Inr s' \<and> on_endpoint us (int (Suc m)) (Suc i mod length us) 0 s' \<and>
    connected_to (us ! (Suc i mod length us)) s'"
proof -
  let ?s1 = "s\<lparr>s_error_count := m\<rparr>"
  have s1: "notify_errors m s = Inr ?s1" "on_endpoint us (int (Suc m)) i m ?s1"
    using notify_errors_below [OF assms(2), of m] assms(2) by auto
  from notifyError_failover [OF assms(1) s1(2) order_refl assms(3)]
  obtain s2 where s2: "notifyError False False ?s1 = Inr s2" "on_endpoint us (int (Suc m)) (Suc i mod length us) 0 s2"
    "connected_to (us ! (Suc i mod length us)) s2" by blast
  have "notify_errors (m + 1) s = Inr s2"
    using s1 s2 by (simp add: notify_errors_add notify_errors_Suc del: add_Suc_right Suc_eq_plus1)
  with s2 show ?thesis by auto
qed

text \<open>Every round of errors moves one endpoint on, and the list is used cyclically.\<close>

lemma notify_errors_rounds:
  assumes "http_endpoints us" "on_endpoint us (int (Suc m)) i 0 s" "i < length us"
  shows "\<exists>s'. notify_errors (r * Suc m) s = Inr s' \<and> on_endpoint us (int (Suc m)) ((i + r) mod length us) 0 s' \<and>
    (if r = 0 then s' = s else connected_to (us ! ((i + r) mod length us)) s')"
proof (induction r)
  case 0
  with assms show ?case by simp
next
  case (Suc r)
  then obtain s1 where s1: "notify_errors (r * Suc m) s = Inr s1" "on_endpoint us (int (Suc m)) ((i + r) mod length us) 0 s1"
    by blast
  have "(i + r) mod length us < length us" using assms(3) by (intro mod_less_divisor, linarith)
  from notify_errors_threshold [OF assms(1) s1(2) this] obtain s2 where
    "notify_errors (Suc m) s1 = Inr s2" "on_endpoint us (int (Suc m)) ((i + Suc r) mod length us) 0 s2"
    "connected_to (us ! ((i + Suc r) mod length us)) s2"
    by (auto simp: mod_Suc_eq)
  moreover have "notify_errors (Suc r * Suc m) s = bindR (notify_errors (r * Suc m) s) (notify_errors (Suc m))"
    unfolding notify_errors_add [symmetric] by (simp add: ac_simps)
  ultimately show ?case using s1(1) by auto
qed

section \<open>The stream of block numbers\<close>

lemma block_loop_run: "i \<le> b \<Longrightarrow> block_loop b i (i - 1) = ([i..b - 1], b - 1)"
proof (induction "nat (b - i)" arbitrary: i)
  case (Suc n)
  then have "block_loop b (i + 1) i = ([i + 1..b - 1], b - 1)" using Suc(1) [of "i + 1"] by simp
  moreover have "i < b" using Suc(2) by simp
  ultimately show ?case by (simp add: block_loop.simps [of b i] upto_rec1)
qed (simp add: block_loop.simps)

text \<open>After the first answer, an answer emits the numbers after \<open>current\<close> and before the new block.\<close>

lemma poll_block_Some: "0 < c \<Longrightarrow> poll_block (Some c) b = ([c + 1..b - 1], Some (max c (b - 1)))"
proof (cases "c < b")
  case True
  assume "0 < c"
  with True show ?thesis
    using block_loop_run [of "c + 1" b] by (simp add: poll_block_def block_loop.simps [of b c] max_def)
next
  case False
  assume "0 < c"
  with False show ?thesis by (auto simp: poll_block_def block_loop.simps max_def)
qed

lemma foldl_max_ge: "c \<le> foldl max c (xs :: int list)"
  by (induction xs arbitrary: c) (auto intro: order_trans [OF max.cobounded1])

lemma upto_concat: "c \<le> m \<Longrightarrow> m \<le> k \<Longrightarrow> [c + 1..m] @ [m + 1..k] = [c + 1..k :: int]"
  using upto_split2 [of "c + 1" m k] by (cases "m = c") auto

lemma stream_numbers_Some:
  "0 < c \<Longrightarrow> stream_numbers (Some c) bs = [c + 1..foldl max c (map (\<lambda>b. b - 1) bs)]"
proof (induction bs arbitrary: c)
  case (Cons b bs)
  let ?m = "max c (b - 1)"
  have "[c + 1..b - 1] = [c + 1..?m]" by (auto simp: max_def)
  then have "stream_numbers (Some c) (b # bs) = [c + 1..?m] @ [?m + 1..foldl max ?m (map (\<lambda>b. b - 1) bs)]"
    using Cons(1) [of ?m] Cons(2) by (simp add: poll_block_Some)
  also have "\<dots> = [c + 1..foldl max ?m (map (\<lambda>b. b - 1) bs)]"
    by (rule upto_concat) (simp, rule foldl_max_ge)
  finally show ?case by simp
qed simp

lemma block_requests_distinct: "distinct ns \<Longrightarrow> prev \<notin> Some ` set ns \<Longrightarrow> block_requests prev ns = ns"
  by (induction ns arbitrary: prev) auto

end
