(* ===== verification/Json.thy ===== *)
theory Json
  imports Keys JSLib
begin

text \<open>
  \<open>JSON.stringify\<close> for the values of the model, as \<open>broadcast/index.js\<close> uses it for
  \<open>json_metadata\<close>. A value without a JSON form (\<open>undefined\<close> or a function) has none at the top, is
  \<open>null\<close> in an array and is left out of an object. The fields of a curve point belong to the library
  \<open>ecurve\<close>, and are outside the model.
\<close>

definition is_lead :: "code_unit \<Rightarrow> bool" where
  "is_lead c \<longleftrightarrow> 55296 \<le> c \<and> c \<le> 56319"

definition is_trail :: "code_unit \<Rightarrow> bool" where
  "is_trail c \<longleftrightarrow> 56320 \<le> c \<and> c \<le> 57343"

definition unicode_escape :: "code_unit \<Rightarrow> jsstring" where
  "unicode_escape c =
     [92, 117, hex_char (unat c div 4096), hex_char (unat c div 256 mod 16), hex_char (unat c div 16 mod 16), hex_char (unat c mod 16)]"

definition json_escape :: "code_unit \<Rightarrow> jsstring" where
  "json_escape c =
     (if c = 34 then [92, 34] else if c = 92 then [92, 92] else if c = 8 then [92, 98] else if c = 12 then [92, 102]
      else if c = 10 then [92, 110] else if c = 13 then [92, 114] else if c = 9 then [92, 116]
      else if c < 32 \<or> is_lead c \<or> is_trail c then unicode_escape c else [c])"

fun json_chars :: "jsstring \<Rightarrow> jsstring" where
  "json_chars (a # b # r) =
     (if is_lead a \<and> is_trail b then a # b # json_chars r else json_escape a @ json_chars (b # r))"
| "json_chars [a] = json_escape a"
| "json_chars [] = []"

definition json_quote :: "jsstring \<Rightarrow> jsstring" where
  "json_quote s = 34 # json_chars s @ [34]"

text \<open>\<open>date.toISOString()\<close>\<close>

definition iso_text :: "int \<Rightarrow> jsstring" where
  "iso_text ms = iso_seconds (ms div 1000) @ [46] @ digits_padded 3 (nat (ms mod 1000)) @ [90]"

definition json_array :: "jsstring list \<Rightarrow> jsstring" where
  "json_array xs = 91 # intersperse_with 44 xs @ [93]"

definition json_object :: "(jsstring \<times> jsstring) list \<Rightarrow> jsstring" where
  "json_object kvs = 123 # intersperse_with 44 (map (\<lambda>(k, v). json_quote k @ 58 # v) kvs) @ [125]"

definition json_bool :: "bool \<Rightarrow> jsstring" where
  "json_bool b = js (if b then ''true'' else ''false'')"

definition json_buffer :: "byte list \<Rightarrow> jsstring" where
  "json_buffer bs =
     json_object [(js ''type'', json_quote (js ''Buffer'')), (js ''data'', json_array (map (\<lambda>b. dec_nat (unat b)) bs))]"

definition json_long :: "bool \<Rightarrow> 64 word \<Rightarrow> jsstring" where
  "json_long u w =
     json_object [(js ''low'', dec_int (sint (ucast w :: 32 word))), (js ''high'', dec_int (sint (ucast (drop_bit 32 w) :: 32 word))),
       (js ''unsigned'', json_bool u)]"

fun JSON_stringify :: "jsval \<Rightarrow> js_error + jsstring option" where
  "JSON_stringify JUndef = Inr None"
| "JSON_stringify (JFun t) = Inr None"
| "JSON_stringify JNull = Inr (Some (js ''null''))"
| "JSON_stringify (JBool b) = Inr (Some (json_bool b))"
| "JSON_stringify (JNum n) = Inr (Some (dec_int n))"
| "JSON_stringify JNaN = Inr (Some (js ''null''))"
| "JSON_stringify (JStr s) = Inr (Some (json_quote s))"
| "JSON_stringify (JLong u w) = Inr (Some (json_long u w))"
| "JSON_stringify (JBuf bs) = Inr (Some (json_buffer bs))"
| "JSON_stringify (JDate None) = Inr (Some (js ''null''))"
| "JSON_stringify (JDate (Some t)) = Inr (Some (json_quote (iso_text t)))"
| "JSON_stringify (JArr xs) =
     bindR (mapR JSON_stringify xs) (\<lambda>ts.
       Inr (Some (json_array (map (\<lambda>t. case t of None \<Rightarrow> js ''null'' | Some s \<Rightarrow> s) ts))))"
| "JSON_stringify (JObj kvs) =
     bindR (mapR (\<lambda>(k, v). bindR (JSON_stringify v) (\<lambda>t. Inr (map_option (\<lambda>s. (js k, s)) t))) kvs) (\<lambda>ts.
       Inr (Some (json_object (List.map_filter (\<lambda>t. t) ts))))"
| "JSON_stringify (JPub None) = Inr (Some (json_object [(js ''Q'', js ''null'')]))"
| "JSON_stringify (JPub (Some q)) = Inl LibraryError"
| "JSON_stringify (JAddr a) = Inr (Some (json_object [(js ''addy'', json_buffer a)]))"
| "JSON_stringify (JOid space ty u inst) =
     Inr (Some (json_object [(js ''space'', dec_int space), (js ''type'', dec_int ty), (js ''instance'', json_long u inst)]))"

section \<open>Quoted strings are read back\<close>

text \<open>The reader of a JSON string after its opening quote, as \<open>JSON.parse\<close> specifies it.\<close>

definition hex4 :: "code_unit list \<Rightarrow> code_unit option" where
  "hex4 ds =
     (if length ds = 4 \<and> list_all (\<lambda>d. hex_digit_val d \<noteq> None) ds
      then Some (of_nat (foldl (\<lambda>n d. 16 * n + the (hex_digit_val d)) 0 ds)) else None)"

function json_unquote :: "jsstring \<Rightarrow> (jsstring \<times> jsstring) option" where
  "json_unquote [] = None"
| "json_unquote (c # r) =
     (if c = 34 then Some ([], r)
      else if c = 92 then
        (case r of
           [] \<Rightarrow> None
         | e # r' \<Rightarrow>
             if e = 117 then
               (case hex4 (take 4 r') of None \<Rightarrow> None
                | Some u \<Rightarrow> map_option (\<lambda>(s, t). (u # s, t)) (json_unquote (drop 4 r')))
             else
               (case map_of [(34, 34), (92, 92), (47, 47), (98, 8), (102, 12), (110, 10), (114, 13), (116, 9)] e of
                  None \<Rightarrow> None
                | Some u \<Rightarrow> map_option (\<lambda>(s, t). (u # s, t)) (json_unquote r')))
      else if c < 32 then None
      else map_option (\<lambda>(s, t). (c # s, t)) (json_unquote r))"
  by pat_completeness auto

termination
  by (relation "measure length") auto

declare json_unquote.simps [simp del]

lemma nat_base16: "16 * (16 * (16 * (n div 4096) + n div 256 mod 16) + n div 16 mod 16) + n mod 16 = (n :: nat)"
proof -
  have "n div 256 div 16 = n div 4096" "n div 16 div 16 = n div 256" by (simp_all flip: div_mult2_eq)
  then have "16 * (n div 4096) + n div 256 mod 16 = n div 256" "16 * (n div 256) + n div 16 mod 16 = n div 16"
    using mult_div_mod_eq [of 16 "n div 256"] mult_div_mod_eq [of 16 "n div 16"] by simp_all
  then show ?thesis by simp
qed

lemma json_unquote_unicode: "json_unquote (unicode_escape c @ r) = map_option (\<lambda>(s, t). (c # s, t)) (json_unquote r)"
proof -
  let ?n = "unat c"
  have d: "?n div 4096 < 16" using unsigned_less [of c] by (simp add: div_less_iff_less_mult)
  have "hex4 (take 4 (drop 2 (unicode_escape c @ r))) = Some c"
    using d nat_base16 [of ?n] by (simp add: hex4_def unicode_escape_def del: of_nat_add of_nat_mult)
  then show ?thesis by (simp add: unicode_escape_def json_unquote.simps(2) [of 92])
qed

lemma json_unquote_escape: "json_unquote (json_escape c @ r) = map_option (\<lambda>(s, t). (c # s, t)) (json_unquote r)"
  unfolding json_escape_def
  by (simp add: json_unquote_unicode, simp add: json_unquote.simps(2) [of 92] json_unquote.simps(2) [of c])

lemma json_unquote_pair:
  "is_lead a \<and> is_trail b \<Longrightarrow> json_unquote (a # b # r) = map_option (\<lambda>(s, t). (a # b # s, t)) (json_unquote r)"
proof -
  assume "is_lead a \<and> is_trail b"
  then have "32 \<le> a \<and> a \<noteq> 34 \<and> a \<noteq> 92" "32 \<le> b \<and> b \<noteq> 34 \<and> b \<noteq> 92"
    by (auto simp: is_lead_def is_trail_def word_le_nat_alt)
  moreover from this have "\<not> a < 32" "\<not> b < 32" by (simp_all add: not_less)
  ultimately show ?thesis
    by (simp add: json_unquote.simps(2) [of a] json_unquote.simps(2) [of b] option.map_comp comp_def split_def)
qed

lemma json_unquote_chars: "json_unquote (json_chars s @ 34 # r) = Some (s, r)"
proof (induction s rule: json_chars.induct)
  case (1 a b s)
  then show ?case by (auto simp: json_unquote_pair json_unquote_escape)
qed (simp_all add: json_unquote_escape json_unquote.simps(2) [of 34])

end
