(* ===== verification/Broadcast.thy ===== *)
theory Broadcast
  imports Api Json
begin

text \<open>
  \<open>broadcast/operations.js\<close>, \<open>broadcast/index.js\<close> and \<open>broadcast/helpers.js\<close>: the table of operations,
  the transactions built by the generated functions, the defaults \<open>_prepareTransaction\<close> adds, and
  the helpers that change the authorities of an account. The answers of the remote procedures and
  the time are inputs. Signing and sending are in \<open>Auth\<close> and \<open>Api\<close>.
\<close>

section \<open>operations.js\<close>

record broadcast_op =
  roles :: "string list"
  operation_id :: string
  params :: "string list"

definition posting_operations :: "broadcast_op list" where
  "posting_operations =
     [\<lparr>roles = [''posting'', ''active'', ''owner''], operation_id = ''vote'',
       params = [''voter'', ''author'', ''permlink'', ''weight'']\<rparr>,
      \<lparr>roles = [''posting'', ''active'', ''owner''], operation_id = ''comment'',
       params = [''parent_author'', ''parent_permlink'', ''author'', ''permlink'', ''title'', ''body'', ''json_metadata'']\<rparr>,
      \<lparr>roles = [''active'', ''owner''], operation_id = ''transfer'',
       params = [''from'', ''to'', ''amount'', ''memo'']\<rparr>,
      \<lparr>roles = [''active'', ''owner''], operation_id = ''transfer_to_vesting'',
       params = [''from'', ''to'', ''amount'']\<rparr>,
      \<lparr>roles = [''active'', ''owner''], operation_id = ''withdraw_vesting'',
       params = [''account'', ''vesting_shares'']\<rparr>,
      \<lparr>roles = [''active'', ''owner''], operation_id = ''price'',
       params = [''base'', ''quote'']\<rparr>,
      \<lparr>roles = [''active'', ''owner''], operation_id = ''account_create'',
       params = [''fee'', ''creator'', ''new_account_name'', ''owner'', ''active'', ''posting'', ''memo_key'', ''json_metadata'']\<rparr>,
      \<lparr>roles = [''active'', ''owner''], operation_id = ''account_update'',
       params = [''account'', ''owner'', ''active'', ''posting'', ''memo_key'', ''json_metadata'', ''posting_json_metadata'', ''extensions'']\<rparr>,
      \<lparr>roles = [''active'', ''owner''], operation_id = ''witness_update'',
       params = [''owner'', ''url'', ''block_signing_key'', ''props'', ''fee'']\<rparr>,
      \<lparr>roles = [''active'', ''owner''], operation_id = ''account_witness_vote'',
       params = [''account'', ''witness'', ''approve'']\<rparr>,
      \<lparr>roles = [''active'', ''owner''], operation_id = ''account_witness_proxy'',
       params = [''account'', ''proxy'']\<rparr>,
      \<lparr>roles = [''active'', ''owner''], operation_id = ''custom'',
       params = [''required_auths'', ''id'', ''data'']\<rparr>,
      \<lparr>roles = [''posting'', ''active'', ''owner''], operation_id = ''delete_comment'',
       params = [''author'', ''permlink'']\<rparr>,
      \<lparr>roles = [''posting'', ''active'', ''owner''], operation_id = ''custom_json'',
       params = [''required_auths'', ''required_posting_auths'', ''id'', ''json'']\<rparr>,
      \<lparr>roles = [''posting'', ''active'', ''owner''], operation_id = ''comment_options'',
       params = [''author'', ''permlink'', ''max_accepted_payout'', ''allow_votes'', ''allow_curation_rewards'', ''extensions'']\<rparr>,
      \<lparr>roles = [''active'', ''owner''], operation_id = ''set_withdraw_vesting_route'',
       params = [''from_account'', ''to_account'', ''percent'', ''auto_vest'']\<rparr>,
      \<lparr>roles = [''active'', ''owner''], operation_id = ''claim_account'',
       params = [''creator'', ''fee'', ''extensions'']\<rparr>,
      \<lparr>roles = [''active'', ''owner''], operation_id = ''create_claimed_account'',
       params = [''creator'', ''new_account_name'', ''owner'', ''active'', ''posting'', ''memo_key'', ''json_metadata'', ''extensions'']\<rparr>,
      \<lparr>roles = [''active'', ''owner''], operation_id = ''request_account_recovery'',
       params = [''recovery_account'', ''account_to_recover'', ''new_owner_authority'', ''extensions'']\<rparr>]"

definition account_operations :: "broadcast_op list" where
  "account_operations =
     [\<lparr>roles = [''owner''], operation_id = ''recover_account'',
       params = [''account_to_recover'', ''new_owner_authority'', ''recent_owner_authority'', ''extensions'']\<rparr>,
      \<lparr>roles = [''owner''], operation_id = ''change_recovery_account'',
       params = [''account_to_recover'', ''new_recovery_account'', ''extensions'']\<rparr>,
      \<lparr>roles = [''active'', ''owner''], operation_id = ''escrow_transfer'',
       params = [''from'', ''to'', ''agent'', ''escrow_id'', ''blurt_amount'', ''fee'', ''ratification_deadline'', ''escrow_expiration'', ''json_meta'']\<rparr>,
      \<lparr>roles = [''active'', ''owner''], operation_id = ''escrow_dispute'',
       params = [''from'', ''to'', ''agent'', ''who'', ''escrow_id'']\<rparr>,
      \<lparr>roles = [''active'', ''owner''], operation_id = ''escrow_release'',
       params = [''from'', ''to'', ''agent'', ''who'', ''receiver'', ''escrow_id'', ''blurt_amount'']\<rparr>,
      \<lparr>roles = [''active'', ''owner''], operation_id = ''escrow_approve'',
       params = [''from'', ''to'', ''agent'', ''who'', ''escrow_id'', ''approve'']\<rparr>,
      \<lparr>roles = [''active'', ''owner''], operation_id = ''transfer_to_savings'',
       params = [''from'', ''to'', ''amount'', ''memo'']\<rparr>,
      \<lparr>roles = [''active'', ''owner''], operation_id = ''transfer_from_savings'',
       params = [''from'', ''request_id'', ''to'', ''amount'', ''memo'']\<rparr>,
      \<lparr>roles = [''active'', ''owner''], operation_id = ''cancel_transfer_from_savings'',
       params = [''from'', ''request_id'']\<rparr>,
      \<lparr>roles = [''posting'', ''active'', ''owner''], operation_id = ''custom_binary'',
       params = [''id'', ''data'']\<rparr>,
      \<lparr>roles = [''owner''], operation_id = ''decline_voting_rights'',
       params = [''account'', ''decline'']\<rparr>,
      \<lparr>roles = [''active'', ''owner''], operation_id = ''reset_account'',
       params = [''reset_account'', ''account_to_reset'', ''new_owner_authority'']\<rparr>,
      \<lparr>roles = [''owner'', ''posting''], operation_id = ''set_reset_account'',
       params = [''account'', ''current_reset_account'', ''reset_account'']\<rparr>,
      \<lparr>roles = [''posting'', ''active'', ''owner''], operation_id = ''claim_reward_balance'',
       params = [''account'', ''reward_blurt'', ''reward_vests'']\<rparr>,
      \<lparr>roles = [''active'', ''owner''], operation_id = ''delegate_vesting_shares'',
       params = [''delegator'', ''delegatee'', ''vesting_shares'']\<rparr>,
      \<lparr>roles = [''active'', ''owner''], operation_id = ''witness_set_properties'',
       params = [''owner'', ''props'', ''extensions'']\<rparr>,
      \<lparr>roles = [''active'', ''owner''], operation_id = ''create_proposal'',
       params = [''creator'', ''receiver'', ''start_date'', ''end_date'', ''daily_pay'', ''subject'', ''permlink'', ''extensions'']\<rparr>,
      \<lparr>roles = [''active'', ''owner''], operation_id = ''update_proposal_votes'',
       params = [''voter'', ''proposal_ids'', ''approve'', ''extensions'']\<rparr>,
      \<lparr>roles = [''active'', ''owner''], operation_id = ''remove_proposal'',
       params = [''proposal_owner'', ''proposal_ids'', ''extensions'']\<rparr>,
      \<lparr>roles = [''posting'', ''active'', ''owner''], operation_id = ''comment_reward'',
       params = [''author'', ''permlink'', ''payout'']\<rparr>,
      \<lparr>roles = [''active'', ''owner''], operation_id = ''fill_vesting_withdraw'',
       params = [''from_account'', ''to_account'', ''withdrawn'', ''deposited'']\<rparr>,
      \<lparr>roles = [''posting'', ''active'', ''owner''], operation_id = ''fill_transfer_from_savings'',
       params = [''from'', ''to'', ''amount'', ''request_id'', ''memo'']\<rparr>]"

definition broadcast_operations :: "broadcast_op list" where
  "broadcast_operations = posting_operations @ account_operations"

section \<open>Generated functions\<close>

definition useCommentPermlink :: "broadcast_op \<Rightarrow> bool" where
  "useCommentPermlink op' \<longleftrightarrow> ''parent_author'' \<in> set (params op') \<and> ''parent_permlink'' \<in> set (params op')"

text \<open>\<open>v == null\<close>\<close>

definition is_nullish :: "jsval \<Rightarrow> bool" where
  "is_nullish v \<longleftrightarrow> v = JUndef \<or> v = JNull"

text \<open>\<open>toString\<close> of \<open>index.js\<close>; \<open>JSON.stringify\<close> gives \<open>undefined\<close> for a value without JSON form.\<close>

definition metadata_toString :: "jsval \<Rightarrow> js_error + jsval" where
  "metadata_toString v =
     (if is_object v
      then bindR (JSON_stringify v) (\<lambda>t. Inr (case t of None \<Rightarrow> JUndef | Some s \<Rightarrow> JStr s))
      else Inr v)"

text \<open>\<open>formatter.commentPermlink\<close> on arbitrary values: \<open>replace\<close> exists on strings only.\<close>

definition commentPermlink_value :: "env \<Rightarrow> int \<Rightarrow> jsval \<Rightarrow> jsval \<Rightarrow> js_error + jsval" where
  "commentPermlink_value E now author permlink =
     (case permlink of
        JStr p \<Rightarrow> bindR (js_String E author) (\<lambda>a. Inr (JStr (commentPermlink now a p)))
      | _ \<Rightarrow> Inl TypeError)"

text \<open>The operation \<open>specializedSendWith\<close> puts into the transaction.\<close>

definition operation_payload :: "env \<Rightarrow> int \<Rightarrow> broadcast_op \<Rightarrow> options \<Rightarrow> js_error + options" where
  "operation_payload E now op' opts =
     (let o1 = object_assign [] opts
      in bindR (if \<not> is_nullish (options_get opts ''json_metadata'')
                then bindR (metadata_toString (options_get opts ''json_metadata'')) (\<lambda>m. Inr (assoc_set ''json_metadata'' m o1))
                else Inr o1) (\<lambda>o2.
         if useCommentPermlink op' \<and> is_nullish (options_get opts ''permlink'')
         then bindR (commentPermlink_value E now (options_get opts ''parent_author'') (options_get opts ''parent_permlink''))
                (\<lambda>p. Inr (assoc_set ''permlink'' p o2))
         else Inr o2))"

text \<open>What is passed to \<open>steemBroadcast.send\<close>: the transaction, the keys by role and the callback.\<close>

record broadcast_send =
  b_tx :: options
  b_keys :: "(string \<times> jsval) list"
  b_callback :: jsval

definition specializedSendWith :: "env \<Rightarrow> int \<Rightarrow> broadcast_op \<Rightarrow> jsval \<Rightarrow> options \<Rightarrow> jsval \<Rightarrow> js_error + broadcast_send" where
  "specializedSendWith E now op' wif opts callback =
     bindR (operation_payload E now op' opts) (\<lambda>payload.
       Inr \<lparr>b_tx = [(''extensions'', JArr []), (''operations'', JArr [JArr [JStr (js (operation_id op')), JObj payload]])],
            b_keys = (case roles op' of [] \<Rightarrow> [] | r # _ \<Rightarrow> [(r, wif)]),
            b_callback = callback\<rparr>)"

definition specializedSend :: "env \<Rightarrow> int \<Rightarrow> broadcast_op \<Rightarrow> jsval \<Rightarrow> jsval list \<Rightarrow> js_error + broadcast_send" where
  "specializedSend E now op' wif args =
     specializedSendWith E now op' wif (args_to_options (params op') args) (arg_at args (length (params op')))"

definition operation_function_name :: "broadcast_op \<Rightarrow> jsstring" where
  "operation_function_name op' = camelCase (js (operation_id op'))"

section \<open>Defaults of a transaction\<close>

text \<open>
  \<open>_prepareTransaction\<close> on the answers of \<open>getDynamicGlobalProperties\<close> and \<open>getBlockHeader\<close>.
  \<open>readUInt32LE\<close> throws outside the buffer; the bitwise operation works on integers.
\<close>

definition readUInt32LE :: "byte list \<Rightarrow> nat \<Rightarrow> js_error + int" where
  "readUInt32LE bs i =
     (if i + 4 \<le> length bs
      then Inr (uint (bs ! i) + 2 ^ 8 * uint (bs ! (i + 1)) + 2 ^ 16 * uint (bs ! (i + 2)) + 2 ^ 24 * uint (bs ! (i + 3)))
      else Inl RangeError)"

lemma readUInt32LE_range: "readUInt32LE bs i = Inr n \<Longrightarrow> 0 \<le> n \<and> n < 2 ^ 32"
  using uint_lt2p [of "bs ! i"] uint_lt2p [of "bs ! (i + 1)"] uint_lt2p [of "bs ! (i + 2)"] uint_lt2p [of "bs ! (i + 3)"]
  by (auto simp: readUInt32LE_def split: if_splits)

definition truncate_div :: "int \<Rightarrow> int \<Rightarrow> int" where
  "truncate_div a b = (if 0 \<le> a then a div b else - (- a div b))"

definition refBlockNum :: "jsval \<Rightarrow> int" where
  "refBlockNum n =
     (case n of
        JNum k \<Rightarrow> (k - 1) mod 65536
      | JNull \<Rightarrow> 65535
      | JBool b \<Rightarrow> if b then 0 else 65535
      | JStr s \<Rightarrow>
          (case js_Number s of
             Dec m e \<Rightarrow> if 0 \<le> e then (m * 10 ^ nat e - 1) mod 65536
                        else truncate_div (m - 10 ^ nat (- e)) (10 ^ nat (- e)) mod 65536
           | _ \<Rightarrow> 0)
      | _ \<Rightarrow> 0)"

definition prepareTransaction :: "env \<Rightarrow> jsval \<Rightarrow> jsval \<Rightarrow> options \<Rightarrow> js_error + options" where
  "prepareTransaction E properties block tx =
     bindR (js_get properties ''time'') (\<lambda>time.
     bindR (js_String E time) (\<lambda>t.
     bindR (js_get properties ''last_irreversible_block_num'') (\<lambda>lib.
     bindR (if js_truthy block then js_get block ''previous'' else Inr (JStr (replicate 40 48))) (\<lambda>headBlockId.
     bindR (case headBlockId of JStr h \<Rightarrow> Inr (fromHex h) | _ \<Rightarrow> Inl TypeError) (\<lambda>bs.
     bindR (readUInt32LE bs 4) (\<lambda>prefix.
       Inr (object_assign
         [(''ref_block_num'', JNum (refBlockNum lib)), (''ref_block_prefix'', JNum prefix),
          (''expiration'', JDate (map_option (\<lambda>ms. ms + 600 * 1000) (date_getTime E (t @ [90]))))]
         tx)))))))"

section \<open>Authorities of an account\<close>

text \<open>
  The four functions of \<open>helpers.js\<close>, on the answer of \<open>getAccounts\<close> (an error and a result). They
  throw, call their callback with an error and a result, or call \<open>accountUpdate\<close>. The members of an
  authority are in arrays.
\<close>

datatype helper_out = HelperThrow js_error | HelperCallback jsval jsval | HelperUpdate "js_error + broadcast_send"

text \<open>\<open>===\<close>, where an object is identical to no other\<close>

definition strict_eq :: "jsval \<Rightarrow> jsval \<Rightarrow> bool" where
  "strict_eq a b \<longleftrightarrow> a = b \<and> a \<noteq> JNaN \<and> (is_object a \<longrightarrow> a = JNull)"

text \<open>The parameter pattern \<open>[userAccount]\<close>: only arrays and strings can be taken apart.\<close>

definition first_element :: "jsval \<Rightarrow> js_error + jsval" where
  "first_element result =
     (case result of
        JArr xs \<Rightarrow> Inr (case xs of [] \<Rightarrow> JUndef | x # _ \<Rightarrow> x)
      | JStr s \<Rightarrow> Inr (case s of [] \<Rightarrow> JUndef | c # _ \<Rightarrow> JStr [c])
      | _ \<Rightarrow> Inl TypeError)"

definition account_update_op :: broadcast_op where
  "account_update_op = hd (filter (\<lambda>op'. operation_id op' = ''account_update'') broadcast_operations)"

text \<open>The call of \<open>accountUpdate\<close>, the same in the four functions.\<close>

definition update_authority :: "env \<Rightarrow> int \<Rightarrow> jsval \<Rightarrow> jsval \<Rightarrow> string \<Rightarrow> jsval \<Rightarrow> jsval \<Rightarrow> js_error + broadcast_send" where
  "update_authority E now signingKey userAccount role updatedAuthority cb =
     bindR (js_get userAccount ''name'') (\<lambda>name.
     bindR (js_get userAccount ''memo_key'') (\<lambda>memo_key.
     bindR (js_get userAccount ''json_metadata'') (\<lambda>json_metadata.
       specializedSend E now account_update_op signingKey
         [name, if role = ''owner'' then updatedAuthority else JUndef,
          if role = ''active'' then updatedAuthority else JUndef,
          if role = ''posting'' then updatedAuthority else JUndef, memo_key, json_metadata, cb])))"

definition js_set :: "jsval \<Rightarrow> string \<Rightarrow> jsval \<Rightarrow> jsval" where
  "js_set obj k v = (case obj of JObj kvs \<Rightarrow> JObj (assoc_set k v kvs) | _ \<Rightarrow> obj)"

definition as_array :: "jsval \<Rightarrow> js_error + jsval list" where
  "as_array v = (case v of JArr xs \<Rightarrow> Inr xs | _ \<Rightarrow> Inl TypeError)"

text \<open>The new authority, or \<^term>\<open>None\<close> when the member is already there.\<close>

definition authority_add :: "string \<Rightarrow> jsval \<Rightarrow> jsval \<Rightarrow> jsval \<Rightarrow> js_error + jsval option" where
  "authority_add field member weight authority =
     bindR (js_get authority field) (\<lambda>auths.
     bindR (as_array auths) (\<lambda>xs.
     bindR (mapR (\<lambda>auth. js_index auth 0) xs) (\<lambda>keys.
       if list_ex (\<lambda>k. strict_eq k member) keys then Inr None
       else bindR (js_get authority ''weight_threshold'') (\<lambda>wt.
         Inr (Some (js_set authority field (JArr (xs @ [JArr [member, if js_truthy weight then weight else wt]]))))))))"

text \<open>The loop that removes the first entry of the member.\<close>

fun remove_first :: "jsval \<Rightarrow> jsval list \<Rightarrow> js_error + jsval list" where
  "remove_first member [] = Inr []"
| "remove_first member (user # us) =
     bindR (js_index user 0) (\<lambda>k.
       if strict_eq k member then Inr us else bindR (remove_first member us) (\<lambda>r. Inr (user # r)))"

definition authority_remove :: "string \<Rightarrow> jsval \<Rightarrow> jsval \<Rightarrow> js_error + jsval option" where
  "authority_remove field member authority =
     bindR (js_get authority field) (\<lambda>auths.
     bindR (as_array auths) (\<lambda>xs.
     bindR (remove_first member xs) (\<lambda>ys.
       Inr (if length ys = length xs then None else Some (js_set authority field (JArr ys))))))"

text \<open>The frame around both, from the parameters of the callback of \<open>getAccounts\<close> on.\<close>

definition with_account ::
  "(jsval \<Rightarrow> js_error + jsval option) \<Rightarrow> env \<Rightarrow> int \<Rightarrow> jsval \<Rightarrow> string \<Rightarrow> jsval \<Rightarrow> jsval \<Rightarrow> jsval \<Rightarrow> helper_out" where
  "with_account change E now signingKey role cb err result =
     (case first_element result of
        Inl e \<Rightarrow> HelperThrow e
      | Inr userAccount \<Rightarrow>
          if js_truthy err then HelperCallback err JNull
          else if \<not> js_truthy userAccount then HelperCallback (JStr (js ''Invalid account name'')) JNull
          else (case bindR (js_get userAccount role) change of
                  Inl e \<Rightarrow> HelperThrow e
                | Inr None \<Rightarrow> HelperCallback JNull JNull
                | Inr (Some authority) \<Rightarrow>
                    HelperUpdate (update_authority E now signingKey userAccount role authority cb)))"

definition addAccountAuth ::
  "env \<Rightarrow> int \<Rightarrow> jsval \<Rightarrow> jsval \<Rightarrow> string \<Rightarrow> jsval \<Rightarrow> jsval \<Rightarrow> jsval \<Rightarrow> jsval \<Rightarrow> helper_out" where
  "addAccountAuth E now signingKey authorizedUsername role weight cb err result =
     with_account (authority_add ''account_auths'' authorizedUsername weight) E now signingKey role cb err result"

definition removeAccountAuth ::
  "env \<Rightarrow> int \<Rightarrow> jsval \<Rightarrow> jsval \<Rightarrow> string \<Rightarrow> jsval \<Rightarrow> jsval \<Rightarrow> jsval \<Rightarrow> helper_out" where
  "removeAccountAuth E now signingKey authorizedUsername role cb err result =
     with_account (authority_remove ''account_auths'' authorizedUsername) E now signingKey role cb err result"

definition addKeyAuth ::
  "env \<Rightarrow> int \<Rightarrow> jsval \<Rightarrow> jsval \<Rightarrow> string \<Rightarrow> jsval \<Rightarrow> jsval \<Rightarrow> jsval \<Rightarrow> jsval \<Rightarrow> helper_out" where
  "addKeyAuth E now signingKey authorizedKey role weight cb err result =
     with_account (authority_add ''key_auths'' authorizedKey weight) E now signingKey role cb err result"

definition removeKeyAuth ::
  "env \<Rightarrow> int \<Rightarrow> jsval \<Rightarrow> jsval \<Rightarrow> string \<Rightarrow> jsval \<Rightarrow> jsval \<Rightarrow> jsval \<Rightarrow> helper_out" where
  "removeKeyAuth E now signingKey authorizedKey role cb err result =
     with_account (authority_remove ''key_auths'' authorizedKey) E now signingKey role cb err result"

section \<open>Lemmas\<close>

lemma broadcast_distinct_params: "list_all (\<lambda>op'. distinct (params op')) broadcast_operations"
  by code_simp

text \<open>Removing a member that was just added gives the authority back.\<close>

lemma remove_first_snoc:
  assumes "mapR (\<lambda>auth. js_index auth 0) xs = Inr keys" "\<not> list_ex (\<lambda>k. strict_eq k member) keys" "strict_eq member member"
  shows "remove_first member (xs @ [JArr [member, w]]) = Inr xs"
  using assms
proof (induction xs arbitrary: keys)
  case (Cons x xs)
  then show ?case by (auto simp: bindR_eq_Inr)
qed simp

lemma js_set_set: "js_set (js_set obj k v) k w = js_set obj k w"
proof -
  have "assoc_set k w (assoc_set k v kvs) = assoc_set k w kvs" for kvs :: options
    by (induction k v kvs rule: assoc_set.induct) auto
  then show ?thesis by (auto simp: js_set_def split: jsval.splits)
qed

lemma js_get_set_obj: "js_get (js_set (JObj kvs) k v) k = Inr v"
proof -
  have "map_of (assoc_set k v kvs) k = Some v" by (induction k v kvs rule: assoc_set.induct) auto
  then show ?thesis by (simp add: js_set_def)
qed

lemma js_set_same: "js_get (JObj kvs) k = Inr v \<Longrightarrow> v \<noteq> JUndef \<Longrightarrow> js_set (JObj kvs) k v = JObj kvs"
proof -
  have "map_of kvs k = Some v \<Longrightarrow> assoc_set k v kvs = kvs"
    by (induction kvs rule: assoc_set.induct) (auto split: if_splits)
  then show "js_get (JObj kvs) k = Inr v \<Longrightarrow> v \<noteq> JUndef \<Longrightarrow> ?thesis"
    by (auto simp: js_set_def split: option.splits)
qed

lemma authority_remove_add:
  assumes "authority_add field member weight (JObj kvs) = Inr (Some a)" "strict_eq member member"
  shows "authority_remove field member a = Inr (Some (JObj kvs))"
proof -
  obtain xs keys wt where g: "js_get (JObj kvs) field = Inr (JArr xs)" "mapR (\<lambda>auth. js_index auth 0) xs = Inr keys"
    "\<not> list_ex (\<lambda>k. strict_eq k member) keys"
    and a: "a = js_set (JObj kvs) field (JArr (xs @ [JArr [member, wt]]))"
    using assms(1) by (auto simp: authority_add_def as_array_def bindR_eq_Inr split: jsval.splits if_splits)
  have "js_set a field (JArr xs) = JObj kvs" using g(1) by (simp add: a js_set_set js_set_same)
  moreover have "js_get a field = Inr (JArr (xs @ [JArr [member, wt]]))" by (simp add: a js_get_set_obj)
  ultimately show ?thesis
    using remove_first_snoc [OF g(2,3) assms(2)] by (simp add: authority_remove_def as_array_def)
qed

text \<open>A member that is there is not added again.\<close>

lemma authority_add_again:
  assumes "authority_add field member weight (JObj kvs) = Inr (Some a)" "strict_eq member member"
  shows "authority_add field member weight' a = Inr None"
proof -
  obtain xs keys wt where g: "js_get (JObj kvs) field = Inr (JArr xs)" "mapR (\<lambda>auth. js_index auth 0) xs = Inr keys"
    and a: "a = js_set (JObj kvs) field (JArr (xs @ [JArr [member, wt]]))"
    using assms(1) by (auto simp: authority_add_def as_array_def bindR_eq_Inr split: jsval.splits if_splits)
  have "js_get a field = Inr (JArr (xs @ [JArr [member, wt]]))" by (simp add: a js_get_set_obj)
  moreover have "mapR (\<lambda>auth. js_index auth 0) (xs @ [JArr [member, wt]]) = Inr (keys @ [member])"
    using g(2) by (auto simp: mapR_eq_Inr intro!: list_all2_appendI)
  ultimately show ?thesis using assms(2) by (simp add: authority_add_def as_array_def)
qed

text \<open>
  The call of \<open>accountUpdate\<close>: the seventh of eight parameters is given the callback, and no callback is left.
\<close>

lemma update_authority_callback:
  assumes "update_authority E now signingKey userAccount role authority cb = Inr b"
  shows "b_callback b = JUndef \<and>
    (\<exists>payload. options_get (b_tx b) ''operations'' = JArr [JArr [JStr (js ''account_update''), JObj payload]] \<and>
       options_get payload ''posting_json_metadata'' = cb)"
proof -
  have op: "account_update_op = \<lparr>roles = [''active'', ''owner''], operation_id = ''account_update'',
    params = [''account'', ''owner'', ''active'', ''posting'', ''memo_key'', ''json_metadata'', ''posting_json_metadata'', ''extensions'']\<rparr>"
    by code_simp
  obtain name memo_key json_metadata where s: "specializedSend E now account_update_op signingKey
      [name, if role = ''owner'' then authority else JUndef, if role = ''active'' then authority else JUndef,
       if role = ''posting'' then authority else JUndef, memo_key, json_metadata, cb] = Inr b"
    using assms by (auto simp: update_authority_def bindR_eq_Inr)
  let ?opts = "args_to_options (params account_update_op) [name, if role = ''owner'' then authority else JUndef,
    if role = ''active'' then authority else JUndef, if role = ''posting'' then authority else JUndef, memo_key, json_metadata, cb]"
  obtain payload where p: "operation_payload E now account_update_op ?opts = Inr payload"
    "b = \<lparr>b_tx = [(''extensions'', JArr []), (''operations'', JArr [JArr [JStr (js ''account_update''), JObj payload]])],
      b_keys = [(''active'', signingKey)], b_callback = JUndef\<rparr>"
    using s by (auto simp: specializedSend_def specializedSendWith_def bindR_eq_Inr op arg_at_def)
  have "options_get (object_assign [] ?opts) ''posting_json_metadata'' = cb"
    by (simp add: op args_to_options_def enumerate_eq_zip arg_at_def upt_rec options_get_def)
  moreover have "options_get payload ''posting_json_metadata'' = options_get (object_assign [] ?opts) ''posting_json_metadata''"
    using p(1) by (auto simp: operation_payload_def op useCommentPermlink_def Let_def bindR_eq_Inr options_get_assoc_set split: if_splits)
  ultimately show ?thesis using p(2) by (simp add: options_get_def)
qed

end
