(* ===== verification/Search.thy ===== *)
theory Search
  imports Main
begin

text \<open>
  Loops that try one state after another until a test succeeds, with no bound on the number of
  attempts. Not returning is the value \<^term>\<open>None\<close>; the loop returns exactly when some attempt
  succeeds, with the first success.
\<close>

partial_function (option) search :: "('s \<Rightarrow> 'a option) \<Rightarrow> ('s \<Rightarrow> 's) \<Rightarrow> 's \<Rightarrow> 'a option" where
  [code]: "search test step s = (case test s of Some y \<Rightarrow> Some y | None \<Rightarrow> search test step (step s))"

lemma funpow_step: "(step ^^ i) (step s) = (step ^^ Suc i) s"
  by (simp add: funpow_swap1)

lemma search_first:
  assumes "test ((step ^^ i) s) = Some y" "\<forall>j < i. test ((step ^^ j) s) = None"
  shows "search test step s = Some y"
  using assms
proof (induction i arbitrary: s)
  case (Suc i)
  have "test s = None" using Suc(3) by (metis funpow_0 zero_less_Suc)
  moreover have "search test step (step s) = Some y"
    using Suc(2,3) by (intro Suc(1)) (auto simp: funpow_step simp del: funpow.simps)
  ultimately show ?case by (simp add: search.simps [of test step s])
qed (simp add: search.simps)

lemma search_Some_ex:
  assumes "search test step s = Some y"
  shows "\<exists>i. test ((step ^^ i) s) = Some y"
proof (rule search.raw_induct [where P = "\<lambda>test step s y. \<exists>i. test ((step ^^ i) s) = Some y", OF _ assms])
  fix f :: "('s \<Rightarrow> 'a option) \<Rightarrow> ('s \<Rightarrow> 's) \<Rightarrow> 's \<Rightarrow> 'a option" and test step s y
  assume IH: "\<And>test step s y. f test step s = Some y \<Longrightarrow> \<exists>i. test ((step ^^ i) s) = Some y"
    and r: "(case test s of Some y \<Rightarrow> Some y | None \<Rightarrow> f test step (step s)) = Some y"
  show "\<exists>i. test ((step ^^ i) s) = Some y"
  proof (cases "test s")
    case None
    with r IH obtain i where "test ((step ^^ i) (step s)) = Some y" by fastforce
    then have "test ((step ^^ Suc i) s) = Some y" by (simp add: funpow_swap1)
    then show ?thesis ..
  next
    case (Some z)
    with r have "test ((step ^^ 0) s) = Some y" by simp
    then show ?thesis ..
  qed
qed

text \<open>If some attempt succeeds, there is a first one.\<close>

lemma first_success:
  assumes "test ((step ^^ i) s) \<noteq> None"
  obtains m y where "test ((step ^^ m) s) = Some y" "\<forall>j < m. test ((step ^^ j) s) = None"
proof -
  define m where "m = (LEAST i. test ((step ^^ i) s) \<noteq> None)"
  have "test ((step ^^ m) s) \<noteq> None" unfolding m_def using assms by (rule LeastI)
  then obtain y where "test ((step ^^ m) s) = Some y" by auto
  moreover have "\<forall>j < m. test ((step ^^ j) s) = None" unfolding m_def by (auto dest: not_less_Least)
  ultimately show thesis by (rule that)
qed

lemma search_returns: "(\<exists>y. search test step s = Some y) \<longleftrightarrow> (\<exists>i y. test ((step ^^ i) s) = Some y)"
proof
  assume "\<exists>i y. test ((step ^^ i) s) = Some y"
  then obtain i where "test ((step ^^ i) s) \<noteq> None" by auto
  then obtain m y where "test ((step ^^ m) s) = Some y" "\<forall>j < m. test ((step ^^ j) s) = None" by (rule first_success)
  then have "search test step s = Some y" by (rule search_first)
  then show "\<exists>y. search test step s = Some y" ..
next
  assume "\<exists>y. search test step s = Some y"
  then obtain y where "search test step s = Some y" ..
  from search_Some_ex [OF this] obtain i where "test ((step ^^ i) s) = Some y" ..
  then show "\<exists>i y. test ((step ^^ i) s) = Some y" by (intro exI)
qed

text \<open>What is found is found at the first success.\<close>

lemma search_least:
  assumes "search test step s = Some y"
  shows "\<exists>i. test ((step ^^ i) s) = Some y \<and> (\<forall>j < i. test ((step ^^ j) s) = None)"
proof -
  obtain i where "test ((step ^^ i) s) \<noteq> None" using search_Some_ex [OF assms] by auto
  then obtain m z where m: "test ((step ^^ m) s) = Some z" "\<forall>j < m. test ((step ^^ j) s) = None" by (rule first_success)
  then have "search test step s = Some z" by (rule search_first)
  with assms m show ?thesis by auto
qed

end
