(* ===== verification/Ecdsa.thy ===== *)
theory Ecdsa
  imports JSValue Search
begin

text \<open>
  \<open>auth/ecc/src/ecsignature.js\<close> and \<open>auth/ecc/src/ecdsa.js\<close>: encodings of signatures, the
  deterministic choice of the nonce, signing, verification and the recovery of public keys. The big
  integers of \<open>bigi\<close> are integers; the conversions to and from bytes, the modular inverse, the points
  of \<open>ecurve\<close> and the HMAC are parameters of the model, with the laws the code relies on as the
  predicates \<open>curve_ok\<close>, \<open>bytes_ok\<close> and \<open>der_ok\<close>. The loop of the nonce may not end: it is a partial
  function, and its nonces are those of RFC 6979 (\<open>rfc6979_candidate\<close>), which the lemmas compare with the code.
\<close>

record 'p ecc =
  bi_fromBuffer :: "byte list \<Rightarrow> int"
  bi_toBuffer :: "int \<Rightarrow> byte list"           \<comment> \<open>\<open>toBuffer(32)\<close>\<close>
  bi_toBuffer_size :: "int \<Rightarrow> byte list"      \<comment> \<open>\<open>toBuffer({size: 32})\<close>\<close>
  bi_toDERInteger :: "int \<Rightarrow> byte list"
  bi_fromDERInteger :: "byte list \<Rightarrow> int"
  bi_modInverse :: "int \<Rightarrow> int \<Rightarrow> int"
  cv_n :: int
  cv_G :: 'p
  cv_multiply :: "'p \<Rightarrow> int \<Rightarrow> 'p"
  cv_multiplyTwo :: "'p \<Rightarrow> int \<Rightarrow> 'p \<Rightarrow> int \<Rightarrow> 'p"
  cv_isInfinity :: "'p \<Rightarrow> bool"
  cv_affineX :: "'p \<Rightarrow> int"
  cv_pointFromX :: "bool \<Rightarrow> int \<Rightarrow> js_error + 'p"
  cv_validate :: "'p \<Rightarrow> js_error + unit"
  cv_equals :: "'p \<Rightarrow> 'p \<Rightarrow> bool"
  cv_add :: "'p \<Rightarrow> 'p \<Rightarrow> 'p"
  cv_fromAffine :: "int \<Rightarrow> int \<Rightarrow> 'p"
  cv_point :: "'p \<Rightarrow> ec_point"                \<comment> \<open>affine coordinates and the \<open>compressed\<close> flag\<close>
  hmac_sha256 :: "byte list \<Rightarrow> byte list \<Rightarrow> byte list"   \<comment> \<open>data, then the secret\<close>

section \<open>ecsignature.js\<close>

record ec_signature =
  sig_r :: int
  sig_s :: int

text \<open>\<open>buffer.readUInt8(i)\<close> and \<open>assert\<close>\<close>

definition readUInt8 :: "byte list \<Rightarrow> nat \<Rightarrow> js_error + nat" where
  "readUInt8 bs i = (if i < length bs then Inr (unat (bs ! i)) else Inl RangeError)"

definition assertR :: "bool \<Rightarrow> js_error + unit" where
  "assertR b = (if b then Inr () else Inl AssertionError)"

definition parseCompact :: "'p ecc \<Rightarrow> byte list \<Rightarrow> js_error + bool \<times> nat \<times> ec_signature" where
  "parseCompact L buffer =
     bindR (assertR (length buffer = 65)) (\<lambda>_.
     bindR (readUInt8 buffer 0) (\<lambda>b0.
     bindR (assertR (27 \<le> b0 \<and> b0 < 35)) (\<lambda>_.
       let i = b0 - 27
       in Inr (4 \<le> i, i mod 4,
            \<lparr>sig_r = bi_fromBuffer L (take 32 (drop 1 buffer)), sig_s = bi_fromBuffer L (drop 33 buffer)\<rparr>))))"

text \<open>\<open>source.copy(target, start)\<close>: as much as fits\<close>

definition copy_into :: "byte list \<Rightarrow> byte list \<Rightarrow> nat \<Rightarrow> byte list" where
  "copy_into source target start =
     (let m = min (length source) (length target - start)
      in take start target @ take m source @ drop (start + m) target)"

definition compact_bytes :: "'p ecc \<Rightarrow> int \<Rightarrow> int \<Rightarrow> int \<Rightarrow> js_error + byte list" where
  "compact_bytes L i r s =
     (if 0 \<le> i \<and> i < 256
      then Inr (copy_into (bi_toBuffer L s) (copy_into (bi_toBuffer L r) (of_int i # replicate 64 0) 1) 33)
      else Inl RangeError)"

definition toCompact :: "'p ecc \<Rightarrow> ec_signature \<Rightarrow> int \<Rightarrow> bool \<Rightarrow> js_error + byte list" where
  "toCompact L sg i compressed = compact_bytes L ((if compressed then i + 4 else i) + 27) (sig_r sg) (sig_s sg)"

definition toDER :: "'p ecc \<Rightarrow> ec_signature \<Rightarrow> byte list" where
  "toDER L sg =
     (let rBa = bi_toDERInteger L (sig_r sg); sBa = bi_toDERInteger L (sig_s sg);
          body = [2, of_nat (length rBa)] @ rBa @ [2, of_nat (length sBa)] @ sBa
      in [48, of_nat (length body)] @ body)"

text \<open>The check for excessive padding of an integer\<close>

definition padding_ok :: "nat \<Rightarrow> byte list \<Rightarrow> js_error + unit" where
  "padding_ok len bs =
     (if len > 1
      then bindR (readUInt8 bs 0) (\<lambda>b0. if b0 = 0 then bindR (readUInt8 bs 1) (\<lambda>b1. assertR (128 \<le> b1)) else Inr ())
      else Inr ())"

definition fromDER :: "'p ecc \<Rightarrow> byte list \<Rightarrow> js_error + ec_signature" where
  "fromDER L buffer =
     bindR (readUInt8 buffer 0) (\<lambda>b0. bindR (assertR (b0 = 48)) (\<lambda>_.
     bindR (readUInt8 buffer 1) (\<lambda>b1. bindR (assertR (int b1 = int (length buffer) - 2)) (\<lambda>_.
     bindR (readUInt8 buffer 2) (\<lambda>b2. bindR (assertR (b2 = 2)) (\<lambda>_.
     bindR (readUInt8 buffer 3) (\<lambda>rLen. bindR (assertR (0 < rLen)) (\<lambda>_.
     bindR (readUInt8 buffer (4 + rLen)) (\<lambda>t. bindR (assertR (t = 2)) (\<lambda>_.
     bindR (readUInt8 buffer (4 + rLen + 1)) (\<lambda>sLen. bindR (assertR (0 < sLen)) (\<lambda>_.
       let offset = 4 + rLen; rB = take rLen (drop 4 buffer); sB = drop (offset + 2) buffer
       in bindR (padding_ok rLen rB) (\<lambda>_. bindR (padding_ok sLen sB) (\<lambda>_.
          bindR (assertR (offset + 2 + sLen = length buffer)) (\<lambda>_.
            let r = bi_fromDERInteger L rB; s = bi_fromDERInteger L sB
            in bindR (assertR (0 \<le> r)) (\<lambda>_. bindR (assertR (0 \<le> s)) (\<lambda>_. Inr \<lparr>sig_r = r, sig_s = s\<rparr>)))))))))))))))))"

definition parseScriptSignature :: "'p ecc \<Rightarrow> byte list \<Rightarrow> js_error + ec_signature \<times> nat" where
  "parseScriptSignature L buffer =
     bindR (if buffer = [] then Inl RangeError else Inr (unat (last buffer))) (\<lambda>hashType.
     bindR (assertR (0 < hashType mod 128 \<and> hashType mod 128 < 4)) (\<lambda>_.
     bindR (fromDER L (butlast buffer)) (\<lambda>sg. Inr (sg, hashType))))"

definition toScriptSignature :: "'p ecc \<Rightarrow> ec_signature \<Rightarrow> int \<Rightarrow> js_error + byte list" where
  "toScriptSignature L sg hashType =
     (if 0 \<le> hashType \<and> hashType < 256 then Inr (toDER L sg @ [of_int hashType]) else Inl RangeError)"

section \<open>ecdsa.js\<close>

text \<open>
  The generator of RFC 6979: its state is \<open>(k, v)\<close>. \<open>new Buffer(nonce)\<close> is a buffer of that many
  zeros.
\<close>

definition hash_with_nonce :: "env \<Rightarrow> byte list \<Rightarrow> nat \<Rightarrow> byte list" where
  "hash_with_nonce E hash nonce = (if nonce \<noteq> 0 then sha256 E (hash @ replicate nonce 0) else hash)"

definition drbg_init :: "'p ecc \<Rightarrow> byte list \<Rightarrow> int \<Rightarrow> byte list \<times> byte list" where
  "drbg_init L hash d =
     (let x = bi_toBuffer L d;
          v0 = replicate 32 1; k0 = replicate 32 0;
          k1 = hmac_sha256 L (v0 @ [0] @ x @ hash) k0;
          v1 = hmac_sha256 L v0 k1;
          k2 = hmac_sha256 L (v1 @ [1] @ x @ hash) k1;
          v2 = hmac_sha256 L v1 k2;
          v3 = hmac_sha256 L v2 k2
      in (k2, v3))"

definition drbg_next :: "'p ecc \<Rightarrow> byte list \<times> byte list \<Rightarrow> byte list \<times> byte list" where
  "drbg_next L st =
     (case st of (k, v) \<Rightarrow>
        let k' = hmac_sha256 L (v @ [0]) k; v' = hmac_sha256 L v k'; v'' = hmac_sha256 L v' k'
        in (k', v''))"

text \<open>The function \<open>checkSig\<close> of \<open>sign\<close>, with the values it assigns.\<close>

definition checkSig :: "'p ecc \<Rightarrow> int \<Rightarrow> int \<Rightarrow> int \<Rightarrow> (int \<times> int) option" where
  "checkSig L e d k =
     (let n = cv_n L; Q = cv_multiply L (cv_G L) k
      in if cv_isInfinity L Q then None
         else (let r = cv_affineX L Q mod n
               in if r = 0 then None
                  else (let s = (bi_modInverse L k n * (e + d * r)) mod n
                        in if s = 0 then None else Some (r, s))))"

definition attempt :: "'p ecc \<Rightarrow> int \<Rightarrow> int \<Rightarrow> byte list \<times> byte list \<Rightarrow> (int \<times> int) option" where
  "attempt L e d st =
     (let T = bi_fromBuffer L (snd st)
      in if T \<le> 0 \<or> cv_n L \<le> T then None else checkSig L e d T)"

definition k_loop :: "'p ecc \<Rightarrow> int \<Rightarrow> int \<Rightarrow> byte list \<times> byte list \<Rightarrow> (int \<times> int) option" where
  "k_loop L e d st = search (attempt L e d) (drbg_next L) st"

definition ecdsa_sign :: "env \<Rightarrow> 'p ecc \<Rightarrow> byte list \<Rightarrow> int \<Rightarrow> nat \<Rightarrow> (js_error + ec_signature) option" where
  "ecdsa_sign E L hash d nonce =
     (let e = bi_fromBuffer L hash; h = hash_with_nonce E hash nonce
      in if length h \<noteq> 32 then Some (Inl AssertionError)
         else map_option (\<lambda>(r, s).
                Inr \<lparr>sig_r = r, sig_s = (if s > cv_n L div 2 then cv_n L - s else s)\<rparr>)
              (k_loop L e d (drbg_init L h d)))"

definition verifyRaw :: "'p ecc \<Rightarrow> int \<Rightarrow> ec_signature \<Rightarrow> 'p \<Rightarrow> bool" where
  "verifyRaw L e sg Q \<longleftrightarrow>
     (let n = cv_n L; r = sig_r sg; s = sig_s sg
      in if r \<le> 0 \<or> n \<le> r then False
         else if s \<le> 0 \<or> n \<le> s then False
         else (let c = bi_modInverse L s n; u1 = (e * c) mod n; u2 = (r * c) mod n;
                   R = cv_multiplyTwo L (cv_G L) u1 Q u2
               in if cv_isInfinity L R then False else cv_affineX L R mod n = r))"

definition ecdsa_verify :: "'p ecc \<Rightarrow> byte list \<Rightarrow> ec_signature \<Rightarrow> 'p \<Rightarrow> bool" where
  "ecdsa_verify L hash sg Q = verifyRaw L (bi_fromBuffer L hash) sg Q"

definition recoverPubKey :: "'p ecc \<Rightarrow> int \<Rightarrow> ec_signature \<Rightarrow> int \<Rightarrow> js_error + 'p" where
  "recoverPubKey L e sg i =
     bindR (assertR (0 \<le> i \<and> i < 4)) (\<lambda>_.
       let n = cv_n L; r = sig_r sg; s = sig_s sg
       in bindR (assertR (0 < r \<and> r < n)) (\<lambda>_.
          bindR (assertR (0 < s \<and> s < n)) (\<lambda>_.
          bindR (cv_pointFromX L (odd i) (if 2 \<le> i then r + n else r)) (\<lambda>R.
          bindR (assertR (cv_isInfinity L (cv_multiply L R n))) (\<lambda>_.
            let Q = cv_multiply L (cv_multiplyTwo L R s (cv_G L) ((- e) mod n)) (bi_modInverse L r n)
            in bindR (cv_validate L Q) (\<lambda>_. Inr Q))))))"

fun recovery_loop :: "'p ecc \<Rightarrow> int \<Rightarrow> ec_signature \<Rightarrow> 'p \<Rightarrow> int list \<Rightarrow> js_error + int" where
  "recovery_loop L e sg Q [] = Inl NoRecoveryFactor"
| "recovery_loop L e sg Q (i # is) =
     bindR (recoverPubKey L e sg i) (\<lambda>Q'. if cv_equals L Q' Q then Inr i else recovery_loop L e sg Q is)"

definition calcPubKeyRecoveryParam :: "'p ecc \<Rightarrow> int \<Rightarrow> ec_signature \<Rightarrow> 'p \<Rightarrow> js_error + int" where
  "calcPubKeyRecoveryParam L e sg Q = recovery_loop L e sg Q [0, 1, 2, 3]"

section \<open>Signatures verify\<close>

text \<open>The laws of the curve group, of its order and of the modular inverse.\<close>

definition curve_ok :: "'p ecc \<Rightarrow> bool" where
  "curve_ok L \<longleftrightarrow> 1 < cv_n L \<and>
     (\<forall>x. 0 < x \<and> x < cv_n L \<longrightarrow> (x * bi_modInverse L x (cv_n L)) mod cv_n L = 1) \<and>
     (\<forall>j k. j mod cv_n L = k mod cv_n L \<longrightarrow> cv_multiply L (cv_G L) j = cv_multiply L (cv_G L) k) \<and>
     (\<forall>k. cv_isInfinity L (cv_multiply L (cv_G L) k) \<longleftrightarrow> k mod cv_n L = 0) \<and>
     (\<forall>a b d. cv_multiplyTwo L (cv_G L) a (cv_multiply L (cv_G L) d) b = cv_multiply L (cv_G L) (a + b * d)) \<and>
     (\<forall>k. cv_affineX L (cv_multiply L (cv_G L) (- k)) = cv_affineX L (cv_multiply L (cv_G L) k))"

text \<open>The number \<open>u1 + u2 d\<close> is the nonce, or its negative after the change to the lower \<open>s\<close>.\<close>

lemma nonce_recovered:
  fixes n k kinv c e d r s :: int
  assumes "(k * kinv) mod n = 1" "(s * c) mod n = 1" "s mod n = (g * (kinv * (e + d * r))) mod n" "g = 1 \<or> g = - 1"
  shows "((e * c) mod n + (r * c) mod n * d) mod n = (g * k) mod n"
proof -
  have gg: "g * g = 1" using assms(4) by auto
  have lin: "(a mod n + b mod n * d) mod n = (a + b * d) mod n" for a b d :: int
    by (rule mod_add_cong) (simp_all add: mod_mult_left_eq)
  have "((e * c) mod n + (r * c) mod n * d) mod n = (c * (e + d * r)) mod n"
    unfolding lin by (simp add: algebra_simps)
  also have "\<dots> = (c * (e + d * r) * (k * kinv)) mod n"
    using mod_mult_right_eq [of "c * (e + d * r)" "k * kinv" n] by (simp add: assms(1))
  also have "c * (e + d * r) * (k * kinv) = (g * g) * (c * (e + d * r) * (k * kinv))" by (simp only: gg mult_1)
  also have "\<dots> = g * k * c * (g * (kinv * (e + d * r)))" by (simp add: ac_simps)
  also have "\<dots> mod n = (g * k * c * s) mod n"
    using mod_mult_right_eq [of "g * k * c" "g * (kinv * (e + d * r))" n] mod_mult_right_eq [of "g * k * c" s n] assms(3)
    by simp
  also have "g * k * c * s = g * k * (s * c)" by (simp add: ac_simps)
  also have "\<dots> mod n = (g * k) mod n"
    using mod_mult_right_eq [of "g * k" "s * c" n] by (simp add: assms(2))
  finally show ?thesis .
qed

lemma attempt_Some:
  assumes "attempt L e d st = Some (r, s)"
  obtains k where "0 < k" "k < cv_n L" "r = cv_affineX L (cv_multiply L (cv_G L) k) mod cv_n L" "r \<noteq> 0"
    "s = (bi_modInverse L k (cv_n L) * (e + d * r)) mod cv_n L" "s \<noteq> 0"
  using assms by (force simp: attempt_def checkSig_def Let_def split: if_splits)

lemma curve_laws:
  assumes "curve_ok L"
  shows "1 < cv_n L"
    "0 < x \<Longrightarrow> x < cv_n L \<Longrightarrow> (x * bi_modInverse L x (cv_n L)) mod cv_n L = 1"
    "j mod cv_n L = k mod cv_n L \<Longrightarrow> cv_multiply L (cv_G L) j = cv_multiply L (cv_G L) k"
    "cv_isInfinity L (cv_multiply L (cv_G L) k) \<longleftrightarrow> k mod cv_n L = 0"
    "cv_multiplyTwo L (cv_G L) a (cv_multiply L (cv_G L) d) b = cv_multiply L (cv_G L) (a + b * d)"
    "cv_affineX L (cv_multiply L (cv_G L) (- k)) = cv_affineX L (cv_multiply L (cv_G L) k)"
proof -
  note c = assms [unfolded curve_ok_def]
  note c2 = c [THEN conjunct2] note c3 = c2 [THEN conjunct2] note c4 = c3 [THEN conjunct2]
  note c5 = c4 [THEN conjunct2] note c6 = c5 [THEN conjunct2]
  show "1 < cv_n L" by (rule c [THEN conjunct1])
  show "0 < x \<Longrightarrow> x < cv_n L \<Longrightarrow> (x * bi_modInverse L x (cv_n L)) mod cv_n L = 1"
    by (rule c2 [THEN conjunct1, rule_format], rule conjI)
  show "j mod cv_n L = k mod cv_n L \<Longrightarrow> cv_multiply L (cv_G L) j = cv_multiply L (cv_G L) k"
    by (rule c3 [THEN conjunct1, rule_format])
  show "cv_isInfinity L (cv_multiply L (cv_G L) k) \<longleftrightarrow> k mod cv_n L = 0"
    by (rule c4 [THEN conjunct1, rule_format])
  show "cv_multiplyTwo L (cv_G L) a (cv_multiply L (cv_G L) d) b = cv_multiply L (cv_G L) (a + b * d)"
    by (rule c5 [THEN conjunct1, rule_format])
  show "cv_affineX L (cv_multiply L (cv_G L) (- k)) = cv_affineX L (cv_multiply L (cv_G L) k)"
    by (rule c6 [rule_format])
qed

lemma mod_pos: "1 < n \<Longrightarrow> x mod n \<noteq> 0 \<Longrightarrow> 0 < x mod n \<and> x mod n < (n :: int)"
  using pos_mod_bound [of n x] pos_mod_sign [of n x] by linarith

text \<open>Verification succeeds for \<open>s\<close> and for its negative.\<close>

lemma verifyRaw_attempt:
  assumes C: "curve_ok L" and k: "0 < k" "k < cv_n L"
    and r: "r = cv_affineX L (cv_multiply L (cv_G L) k) mod cv_n L" "r \<noteq> 0"
    and s: "0 < s" "s < cv_n L" "s mod cv_n L = (g * (bi_modInverse L k (cv_n L) * (e + d * r))) mod cv_n L"
    and g: "g = 1 \<or> g = - 1"
  shows "verifyRaw L e \<lparr>sig_r = r, sig_s = s\<rparr> (cv_multiply L (cv_G L) d)"
proof -
  let ?n = "cv_n L" and ?c = "bi_modInverse L s (cv_n L)"
  let ?u = "(e * ?c) mod ?n + (r * ?c) mod ?n * d"
  have r': "0 < r" "r < ?n"
    using r mod_pos [OF curve_laws(1) [OF C]] by auto
  have u: "?u mod ?n = (g * k) mod ?n"
    by (rule nonce_recovered [OF curve_laws(2) [OF C k] curve_laws(2) [OF C s(1,2)] s(3) g])
  have R: "cv_multiplyTwo L (cv_G L) ((e * ?c) mod ?n) (cv_multiply L (cv_G L) d) ((r * ?c) mod ?n) =
    cv_multiply L (cv_G L) (g * k)"
    unfolding curve_laws(5) [OF C] by (rule curve_laws(3) [OF C u])
  have "(g * k) mod ?n \<noteq> 0" using k g by (auto simp: zmod_zminus1_eq_if dest: zdvd_not_zless)
  then have "\<not> cv_isInfinity L (cv_multiply L (cv_G L) (g * k))" by (simp add: curve_laws(4) [OF C])
  moreover have "cv_affineX L (cv_multiply L (cv_G L) (g * k)) mod ?n = r"
    using g r(1) curve_laws(6) [OF C, of k] by auto
  ultimately show ?thesis using r' s(1,2) by (simp add: verifyRaw_def Let_def R)
qed

lemma ecdsa_sign_Inr:
  assumes "ecdsa_sign E L hash d nonce = Some (Inr sg)"
  obtains st r s where "attempt L (bi_fromBuffer L hash) d st = Some (r, s)" "sig_r sg = r"
    "sig_s sg = (if s > cv_n L div 2 then cv_n L - s else s)"
proof -
  obtain r s where rs: "k_loop L (bi_fromBuffer L hash) d (drbg_init L (hash_with_nonce E hash nonce) d) = Some (r, s)"
    "sg = \<lparr>sig_r = r, sig_s = (if s > cv_n L div 2 then cv_n L - s else s)\<rparr>"
    using assms by (auto simp: ecdsa_sign_def Let_def split: if_splits)
  obtain i where "attempt L (bi_fromBuffer L hash) d ((drbg_next L ^^ i) (drbg_init L (hash_with_nonce E hash nonce) d)) = Some (r, s)"
    using search_Some_ex rs(1) unfolding k_loop_def by metis
  then show ?thesis using rs(2) by (intro that) simp_all
qed

text \<open>A signature of the library has a low \<open>s\<close> and verifies with the public key.\<close>

lemma ecdsa_sign_verifies:
  assumes C: "curve_ok L" and sg: "ecdsa_sign E L hash d nonce = Some (Inr sg)"
  shows "ecdsa_verify L hash sg (cv_multiply L (cv_G L) d) \<and> 0 < sig_s sg \<and> sig_s sg \<le> cv_n L div 2"
proof -
  let ?n = "cv_n L" and ?e = "bi_fromBuffer L hash"
  obtain st r s where a: "attempt L ?e d st = Some (r, s)" and r: "sig_r sg = r"
    and s: "sig_s sg = (if s > ?n div 2 then ?n - s else s)"
    using sg by (rule ecdsa_sign_Inr)
  obtain k where k: "0 < k" "k < ?n" "r = cv_affineX L (cv_multiply L (cv_G L) k) mod ?n" "r \<noteq> 0"
    and se: "s = (bi_modInverse L k ?n * (?e + d * r)) mod ?n" "s \<noteq> 0"
    using a by (rule attempt_Some)
  have n: "1 < ?n" by (rule curve_laws(1) [OF C])
  have s': "0 < s" "s < ?n" using se mod_pos [OF n] by auto
  define g :: int where "g = (if s > ?n div 2 then - 1 else 1)"
  have "sig_s sg mod ?n = (g * (bi_modInverse L k ?n * (?e + d * r))) mod ?n"
    unfolding s g_def se(1) by (auto simp: mod_diff_right_eq mod_minus_eq)
  moreover have "0 < sig_s sg" "sig_s sg < ?n" "sig_s sg \<le> ?n div 2" using s s' by auto
  moreover have "sg = \<lparr>sig_r = r, sig_s = sig_s sg\<rparr>" using r by simp
  ultimately show ?thesis
    using verifyRaw_attempt [OF C k(1-4), of "sig_s sg" g ?e d] g_def by (auto simp: ecdsa_verify_def)
qed

section \<open>The nonce is that of RFC 6979\<close>

text \<open>
  RFC 6979, section 3.2, as it is written there: the state \<open>(K, V)\<close> after the steps b to g, and after each return to the step
  h, which makes the candidate from the next \<open>V\<close>. \<open>x\<close> is the private key and \<open>h1\<close> the hash, as bytes.
\<close>

definition rfc6979_start :: "'p ecc \<Rightarrow> byte list \<Rightarrow> byte list \<Rightarrow> byte list \<times> byte list" where
  "rfc6979_start L x h1 =
     (let hmac = (\<lambda>K m. hmac_sha256 L m K);
          V = replicate 32 1; K = hmac (replicate 32 0) (V @ [0] @ x @ h1);
          V1 = hmac K V; K1 = hmac K (V1 @ [1] @ x @ h1)
      in (K1, hmac K1 V1))"

primrec rfc6979_state :: "'p ecc \<Rightarrow> byte list \<Rightarrow> byte list \<Rightarrow> nat \<Rightarrow> byte list \<times> byte list" where
  "rfc6979_state L x h1 0 = rfc6979_start L x h1"
| "rfc6979_state L x h1 (Suc i) =
     (let hmac = (\<lambda>K m. hmac_sha256 L m K); (K, V) = rfc6979_state L x h1 i;
          T = hmac K V; K1 = hmac K (T @ [0])
      in (K1, hmac K1 T))"

definition rfc6979_candidate :: "'p ecc \<Rightarrow> byte list \<Rightarrow> byte list \<Rightarrow> nat \<Rightarrow> int" where
  "rfc6979_candidate L x h1 i = (case rfc6979_state L x h1 i of (K, V) \<Rightarrow> bi_fromBuffer L (hmac_sha256 L V K))"

text \<open>The nonces that ECDSA allows: in the range, and neither \<open>r\<close> nor \<open>s\<close> is zero\<close>

definition nonce_r :: "'p ecc \<Rightarrow> int \<Rightarrow> int" where
  "nonce_r L k = cv_affineX L (cv_multiply L (cv_G L) k) mod cv_n L"

definition allowed_nonce :: "'p ecc \<Rightarrow> int \<Rightarrow> int \<Rightarrow> int \<Rightarrow> bool" where
  "allowed_nonce L e d k \<longleftrightarrow> 0 < k \<and> k < cv_n L \<and> nonce_r L k \<noteq> 0 \<and> (e + d * nonce_r L k) mod cv_n L \<noteq> 0"

lemma generator_rfc6979:
  "(drbg_next L ^^ i) (drbg_init L h d) =
     (case rfc6979_state L (bi_toBuffer L d) h i of (K, V) \<Rightarrow> (K, hmac_sha256 L V K))"
proof (induction i)
  case 0
  show ?case by (simp add: drbg_init_def rfc6979_start_def Let_def)
next
  case (Suc i)
  then show ?case by (simp add: drbg_next_def Let_def split: prod.split)
qed

lemma inverse_zero:
  fixes n k i y :: int
  assumes "(k * i) mod n = 1"
  shows "(i * y) mod n = 0 \<longleftrightarrow> y mod n = 0"
proof -
  have "y mod n = (k * i mod n * y) mod n" by (simp add: assms)
  also have "\<dots> = (k * (i * y)) mod n" by (simp only: mod_mult_left_eq mult.assoc)
  also have "\<dots> = (k * (i * y mod n)) mod n" by (simp add: mod_mult_right_eq)
  finally have "(i * y) mod n = 0 \<Longrightarrow> y mod n = 0" by simp
  moreover have "y mod n = 0 \<Longrightarrow> (i * y) mod n = 0" by (metis mod_mult_right_eq mult_zero_right mod_0)
  ultimately show ?thesis by (rule iffI)
qed

lemma attempt_allowed:
  assumes C: "curve_ok L" and k: "k = bi_fromBuffer L (snd st)"
  shows "attempt L e d st =
    (if allowed_nonce L e d k
     then Some (nonce_r L k, (bi_modInverse L k (cv_n L) * (e + d * nonce_r L k)) mod cv_n L) else None)"
proof (cases "0 < k \<and> k < cv_n L")
  case True
  then have "\<not> cv_isInfinity L (cv_multiply L (cv_G L) k)" by (simp add: curve_laws(4) [OF C])
  with True show ?thesis
    using inverse_zero [OF curve_laws(2) [OF C], of k]
    by (simp add: attempt_def checkSig_def allowed_nonce_def nonce_r_def k [symmetric] Let_def)
qed (auto simp: attempt_def allowed_nonce_def k [symmetric] Let_def)

text \<open>\<open>s\<close>, or its negative, times the nonce is the number that is signed.\<close>

lemma low_s_equation:
  fixes n k i y :: int
  assumes "1 < n" "(k * i) mod n = 1" "s = (i * y) mod n" "s \<noteq> 0" "t = (if s > n div 2 then n - s else s)"
  shows "0 < t \<and> t \<le> n div 2 \<and> ((k * t) mod n = y mod n \<or> (k * t) mod n = (- y) mod n)"
proof -
  have s: "0 < s" "s < n" using mod_pos [OF assms(1), of "i * y"] assms(3,4) by auto
  have "(k * s) mod n = (k * i mod n * y) mod n" unfolding assms(3) by (simp only: mod_mult_right_eq mod_mult_left_eq mult.assoc)
  then have ks: "(k * s) mod n = y mod n" by (simp add: assms(2))
  then have "(k * (n - s)) mod n = (- y) mod n"
    by (metis (no_types) mod_minus_eq minus_mult_right mod_mult_self4 right_diff_distrib diff_conv_add_uminus add.commute mult.commute mod_mult_self1)
  with s ks assms(5) show ?thesis by auto
qed

lemma ecdsa_sign_rfc6979:
  fixes d :: int
  assumes C: "curve_ok L" and "length (hash_with_nonce E hash nonce) = 32"
  defines "e \<equiv> bi_fromBuffer L hash" and "k \<equiv> rfc6979_candidate L (bi_toBuffer L d) (hash_with_nonce E hash nonce)"
  shows "case ecdsa_sign E L hash d nonce of
      None \<Rightarrow> \<forall>i. \<not> allowed_nonce L e d (k i)
    | Some (Inl _) \<Rightarrow> False
    | Some (Inr sg) \<Rightarrow> \<exists>i. allowed_nonce L e d (k i) \<and> (\<forall>j < i. \<not> allowed_nonce L e d (k j)) \<and>
        sig_r sg = nonce_r L (k i) \<and> 0 < sig_s sg \<and> sig_s sg \<le> cv_n L div 2 \<and>
        ((k i * sig_s sg) mod cv_n L = (e + d * sig_r sg) mod cv_n L \<or>
         (k i * sig_s sg) mod cv_n L = (- (e + d * sig_r sg)) mod cv_n L)"
proof -
  let ?n = "cv_n L" and ?st = "\<lambda>i. (drbg_next L ^^ i) (drbg_init L (hash_with_nonce E hash nonce) d)"
  have T: "k i = bi_fromBuffer L (snd (?st i))" for i
    by (simp add: generator_rfc6979 k_def rfc6979_candidate_def split: prod.split)
  note a = attempt_allowed [OF C T]
  let ?loop = "search (attempt L e d) (drbg_next L) (drbg_init L (hash_with_nonce E hash nonce) d)"
  have sign: "ecdsa_sign E L hash d nonce = map_option (\<lambda>(r, s). Inr \<lparr>sig_r = r, sig_s = (if s > ?n div 2 then ?n - s else s)\<rparr>) ?loop"
    using assms(2) by (simp add: ecdsa_sign_def k_loop_def e_def Let_def)
  show ?thesis
  proof (cases ?loop)
    case None
    then have "attempt L e d (?st i) = None" for i
      using search_returns [of "attempt L e d" "drbg_next L" "drbg_init L (hash_with_nonce E hash nonce) d"] by (cases "attempt L e d (?st i)") auto
    then have "\<not> allowed_nonce L e d (k i)" for i using a [of e d i] by (auto split: if_splits)
    then show ?thesis by (simp add: sign None)
  next
    case (Some rs)
    then obtain i where i: "attempt L e d (?st i) = Some rs" "\<forall>j < i. attempt L e d (?st j) = None"
      using search_least [of "attempt L e d" "drbg_next L" "drbg_init L (hash_with_nonce E hash nonce) d"] by auto
    have al: "allowed_nonce L e d (k i)" "rs = (nonce_r L (k i), (bi_modInverse L (k i) ?n * (e + d * nonce_r L (k i))) mod ?n)"
      using i(1) a [of e d i] by (auto split: if_splits)
    have "\<forall>j < i. \<not> allowed_nonce L e d (k j)" using i(2) a [of e d] by (auto split: if_splits)
    moreover have inv: "(k i * bi_modInverse L (k i) ?n) mod ?n = 1"
      using al(1) by (intro curve_laws(2) [OF C]) (simp_all add: allowed_nonce_def)
    have "snd rs \<noteq> 0" using al inverse_zero [OF inv] by (simp add: allowed_nonce_def)
    note low = low_s_equation [OF curve_laws(1) [OF C] inv _ this refl, of "e + d * nonce_r L (k i)"]
    ultimately show ?thesis using al low by (auto simp: sign Some)
  qed
qed

section \<open>Recovery of the key\<close>

text \<open>A recovery parameter is one of the four, and gives the key.\<close>

lemma recovery_loop_Inr:
  "recovery_loop L e sg Q is = Inr i \<Longrightarrow> i \<in> set is \<and> (\<exists>Q'. recoverPubKey L e sg i = Inr Q' \<and> cv_equals L Q' Q)"
  by (induction L e sg Q "is" rule: recovery_loop.induct) (auto simp: bindR_eq_Inr split: if_splits)

section \<open>Encodings are read back\<close>

text \<open>What the conversions of \<open>bigi\<close> give for one number: 32 bytes, and a minimal positive DER integer.\<close>

definition bytes_ok :: "'p ecc \<Rightarrow> int \<Rightarrow> bool" where
  "bytes_ok L x \<longleftrightarrow> length (bi_toBuffer L x) = 32 \<and> bi_fromBuffer L (bi_toBuffer L x) = x"

definition der_ok :: "'p ecc \<Rightarrow> int \<Rightarrow> bool" where
  "der_ok L x \<longleftrightarrow> 0 \<le> x \<and> bi_fromDERInteger L (bi_toDERInteger L x) = x \<and>
     0 < length (bi_toDERInteger L x) \<and> length (bi_toDERInteger L x) \<le> 33 \<and>
     (1 < length (bi_toDERInteger L x) \<and> bi_toDERInteger L x ! 0 = 0 \<longrightarrow> 128 \<le> bi_toDERInteger L x ! 1)"

lemma compact_bytes_eq:
  assumes "length (bi_toBuffer L r) = 32" "length (bi_toBuffer L s) = 32" "0 \<le> i" "i < 256"
  shows "compact_bytes L i r s = Inr (of_int i # bi_toBuffer L r @ bi_toBuffer L s)"
  using assms by (simp add: compact_bytes_def copy_into_def Let_def)

lemma less4_cases: "i < 4 \<Longrightarrow> i = 0 \<or> i = 1 \<or> i = 2 \<or> i = (3 :: nat)"
  by linarith

lemma parseCompact_toCompact:
  assumes "bytes_ok L (sig_r sg)" "bytes_ok L (sig_s sg)" "i < 4"
  shows "bindR (toCompact L sg (int i) compressed) (parseCompact L) = Inr (compressed, i, sg)"
proof -
  let ?j = "(if compressed then int i + 4 else int i) + 27"
  have "toCompact L sg (int i) compressed = Inr (of_int ?j # bi_toBuffer L (sig_r sg) @ bi_toBuffer L (sig_s sg))"
    unfolding toCompact_def using assms by (intro compact_bytes_eq) (auto simp: bytes_ok_def)
  moreover have "unat (of_int ?j :: byte) = nat ?j"
    using less4_cases [OF assms(3)] by (cases compressed) auto
  ultimately show ?thesis
    using less4_cases [OF assms(3)] assms
    by (cases compressed) (auto simp: parseCompact_def assertR_def readUInt8_def bytes_ok_def Let_def)
qed

lemma padding_ok_der:
  "der_ok L x \<Longrightarrow> padding_ok (length (bi_toDERInteger L x)) (bi_toDERInteger L x) = Inr ()"
  by (auto simp: padding_ok_def der_ok_def readUInt8_def assertR_def unat_eq_zero word_le_nat_alt)

lemma fromDER_toDER:
  assumes "der_ok L (sig_r sg)" "der_ok L (sig_s sg)"
  shows "fromDER L (toDER L sg) = Inr sg"
proof -
  let ?r = "bi_toDERInteger L (sig_r sg)" and ?s = "bi_toDERInteger L (sig_s sg)"
  have l: "0 < length ?r" "length ?r \<le> 33" "0 < length ?s" "length ?s \<le> 33" using assms by (auto simp: der_ok_def)
  have u: "unat (of_nat (length ?r) :: byte) = length ?r" "unat (of_nat (length ?s) :: byte) = length ?s"
    "unat (of_nat (4 + length ?r + length ?s) :: byte) = 4 + length ?r + length ?s"
    using l by (simp_all add: unat_of_nat del: of_nat_add)
  let ?D = "48 # of_nat (4 + length ?r + length ?s) # 2 # of_nat (length ?r) # ?r @ 2 # of_nat (length ?s) # ?s"
  have d: "toDER L sg = ?D" by (simp add: toDER_def Let_def)
  have n: "readUInt8 ?D 0 = Inr 48" "readUInt8 ?D 1 = Inr (4 + length ?r + length ?s)" "readUInt8 ?D 2 = Inr 2"
    "readUInt8 ?D 3 = Inr (length ?r)" "readUInt8 ?D (4 + length ?r) = Inr 2"
    "readUInt8 ?D (4 + length ?r + 1) = Inr (length ?s)"
    using u by (simp_all add: readUInt8_def nth_Cons' nth_append del: of_nat_add)
  have t: "take (length ?r) (drop 4 ?D) = ?r" "drop (4 + length ?r + 2) ?D = ?s"
    by (simp_all add: drop_Cons' numeral_eq_Suc)
  have p: "int (length ?D) - 2 = int (4 + length ?r + length ?s)" "4 + length ?r + 2 + length ?s = length ?D" by simp_all
  have v: "bi_fromDERInteger L ?r = sig_r sg" "bi_fromDERInteger L ?s = sig_s sg" "0 \<le> sig_r sg" "0 \<le> sig_s sg"
    using assms by (simp_all add: der_ok_def)
  show ?thesis
    unfolding fromDER_def d
    by (simp only: n t p v l bindR_Inr assertR_def Let_def padding_ok_der [OF assms(1)] padding_ok_der [OF assms(2)]
      refl simp_thms if_True ec_signature.surjective [symmetric] unit_eq) simp
qed

end
