(* ===== verification/PrivateKeys.thy ===== *)
theory PrivateKeys
  imports Ecdsa Keys
begin

text \<open>
  \<open>auth/ecc/src/key_private.js\<close>, the derivation \<open>child\<close> of \<open>key_public.js\<close> and \<open>brain_key.js\<close>: private
  keys, their wallet import format, the shared secret of two keys, derived keys. A private key is
  its number \<open>d\<close>. The cache \<open>public_key\<close> holds what a recomputation gives.
\<close>

section \<open>key\_private.js\<close>

definition PrivateKey_fromBuffer :: "'p ecc \<Rightarrow> jsval \<Rightarrow> js_error + int" where
  "PrivateKey_fromBuffer L buf =
     (case buf of
        JBuf bs \<Rightarrow> if bs = [] then Inl EmptyBuffer else Inr (bi_fromBuffer L bs)
      | _ \<Rightarrow> Inl BufferRequired)"

definition PrivateKey_fromSeed :: "env \<Rightarrow> 'p ecc \<Rightarrow> jsval \<Rightarrow> js_error + int" where
  "PrivateKey_fromSeed E L seed =
     (case seed of
        JStr s \<Rightarrow> PrivateKey_fromBuffer L (JBuf (sha256 E (node_encode s)))
      | _ \<Rightarrow> Inl SeedRequired)"

text \<open>
  The checksums are compared as text: \<open>toString()\<close> decodes UTF-8, and turns every byte that is not
  part of a character into the replacement character.
\<close>

definition wif_checksum :: "env \<Rightarrow> byte list \<Rightarrow> byte list" where
  "wif_checksum E private_key = take 4 (sha256 E (sha256 E private_key))"

definition PrivateKey_fromWif :: "env \<Rightarrow> 'p ecc \<Rightarrow> jsstring \<Rightarrow> js_error + int" where
  "PrivateKey_fromWif E L wif =
     bindR (base58_decode E wif) (\<lambda>private_wif.
     bindR (readUInt8 private_wif 0) (\<lambda>version.
     bindR (assertR (version = 128)) (\<lambda>_.
       let private_key = take (length private_wif - 4) private_wif;
           checksum = drop (length private_wif - 4) private_wif
       in if node_decode checksum \<noteq> node_decode (wif_checksum E private_key) then Inl InvalidWif
          else PrivateKey_fromBuffer L (JBuf (drop 1 private_key)))))"

definition PrivateKey_isWif :: "env \<Rightarrow> 'p ecc \<Rightarrow> jsstring \<Rightarrow> bool" where
  "PrivateKey_isWif E L text' = (case PrivateKey_fromWif E L text' of Inl _ \<Rightarrow> False | Inr _ \<Rightarrow> True)"

definition PrivateKey_toBuffer :: "'p ecc \<Rightarrow> int \<Rightarrow> byte list" where
  "PrivateKey_toBuffer L d = bi_toBuffer L d"

definition wif_bytes :: "env \<Rightarrow> byte list \<Rightarrow> byte list" where
  "wif_bytes E key = (let private_key = 128 # key in private_key @ wif_checksum E private_key)"

definition PrivateKey_toWif :: "env \<Rightarrow> 'p ecc \<Rightarrow> int \<Rightarrow> jsstring" where
  "PrivateKey_toWif E L d = base58_encode E (wif_bytes E (PrivateKey_toBuffer L d))"

definition toPublicKeyPoint :: "'p ecc \<Rightarrow> int \<Rightarrow> 'p" where
  "toPublicKeyPoint L d = cv_multiply L (cv_G L) d"

text \<open>\<open>toPublic()\<close> as a value of the serializer: \<open>PublicKey.fromPoint\<close> of the point\<close>

definition PrivateKey_toPublic :: "'p ecc \<Rightarrow> int \<Rightarrow> ec_point option" where
  "PrivateKey_toPublic L d = Some (cv_point L (toPublicKeyPoint L d))"

definition PrivateKey_fromHex :: "'p ecc \<Rightarrow> jsstring \<Rightarrow> js_error + int" where
  "PrivateKey_fromHex L hex = PrivateKey_fromBuffer L (JBuf (fromHex hex))"

definition PrivateKey_toHex :: "'p ecc \<Rightarrow> int \<Rightarrow> jsstring" where
  "PrivateKey_toHex L d = toHex (PrivateKey_toBuffer L d)"

text \<open>\<open>toPublic(data)\<close>: a key, or the text of one\<close>

definition toPublic_arg :: "env \<Rightarrow> jsval \<Rightarrow> js_error + ec_point option" where
  "toPublic_arg E data =
     (case data of
        JPub Q \<Rightarrow> if Q \<noteq> None then Inr Q else Inl TypeError
      | JStr s \<Rightarrow> bindR (fromStringOrThrow E s (address_prefix E)) (\<lambda>v. case v of JPub Q \<Rightarrow> Inr Q | _ \<Rightarrow> Inl TypeError)
      | _ \<Rightarrow> Inl TypeError)"

definition get_shared_secret :: "env \<Rightarrow> 'p ecc \<Rightarrow> int \<Rightarrow> jsval \<Rightarrow> js_error + byte list" where
  "get_shared_secret E L d public_key =
     bindR (toPublic_arg E public_key) (\<lambda>Q.
     bindR (PublicKey_toUncompressed E Q) (\<lambda>U.
       case U of
         JPub (Some q) \<Rightarrow>
           (let KB = point_getEncoded E q (pt_compressed q);
                KBP = cv_fromAffine L (bi_fromBuffer L (take 32 (drop 1 KB))) (bi_fromBuffer L (take 32 (drop 33 KB)));
                r = PrivateKey_toBuffer L d;
                P = cv_multiply L KBP (bi_fromBuffer L r)
            in Inr (sha512 E (bi_toBuffer_size L (cv_affineX L P))))
       | _ \<Rightarrow> Inl TypeError))"

definition child_number :: "env \<Rightarrow> 'p ecc \<Rightarrow> 'p \<Rightarrow> byte list \<Rightarrow> int" where
  "child_number E L Q offset = bi_fromBuffer L (sha256 E (PublicKey_toBuffer E (Some (cv_point L Q)) @ offset))"

definition PrivateKey_child :: "env \<Rightarrow> 'p ecc \<Rightarrow> int \<Rightarrow> byte list \<Rightarrow> js_error + int" where
  "PrivateKey_child E L d offset =
     (let c = child_number E L (toPublicKeyPoint L d) offset
      in if cv_n L \<le> c then Inl ChildOutOfBounds
         else (let derived = d + c in if derived = 0 then Inl ChildInvalid else Inr derived))"

section \<open>key\_public.js: child\<close>

definition PublicKey_child :: "env \<Rightarrow> 'p ecc \<Rightarrow> 'p \<Rightarrow> jsval \<Rightarrow> js_error + 'p" where
  "PublicKey_child E L Q offset =
     (case offset of
        JBuf bs \<Rightarrow>
          if length bs \<noteq> 32 then Inl AssertionError
          else (let c = child_number E L Q bs
                in if cv_n L \<le> c then Inl ChildOutOfBounds
                   else (let Q' = cv_add L Q (cv_multiply L (cv_G L) c)
                         in if cv_isInfinity L Q' then Inl ChildInvalid else Inr Q'))
      | _ \<Rightarrow> Inl AssertionError)"

section \<open>brain\_key.js\<close>

text \<open>\<open>s.split(/[\t\n\v\f\r ]+/).join(" ")\<close>: every run of white space is one space.\<close>

definition ascii_ws :: "code_unit \<Rightarrow> bool" where
  "ascii_ws c \<longleftrightarrow> 9 \<le> c \<and> c \<le> 13 \<or> c = 32"

fun collapse_ws :: "bool \<Rightarrow> jsstring \<Rightarrow> jsstring" where
  "collapse_ws in_run [] = []"
| "collapse_ws in_run (c # s) =
     (if ascii_ws c then (if in_run then [] else [32]) @ collapse_ws True s else c # collapse_ws False s)"

definition normalize_brain_key :: "jsstring \<Rightarrow> jsstring" where
  "normalize_brain_key s = collapse_ws False (js_trim s)"

section \<open>Lemmas\<close>

text \<open>What the code relies on for one private key: its bytes, their base-58 text, and the hash.\<close>

definition wif_ok :: "env \<Rightarrow> byte list \<Rightarrow> bool" where
  "wif_ok E key \<longleftrightarrow> key \<noteq> [] \<and> length (wif_checksum E (128 # key)) = 4 \<and>
     base58_decode E (base58_encode E (wif_bytes E key)) = Inr (wif_bytes E key)"

lemma fromWif_bytes:
  assumes "wif_ok E key"
  shows "PrivateKey_fromWif E L (base58_encode E (wif_bytes E key)) = Inr (bi_fromBuffer L key)"
  using assms
  by (simp add: PrivateKey_fromWif_def wif_ok_def wif_bytes_def readUInt8_def assertR_def PrivateKey_fromBuffer_def Let_def)

lemma fromWif_toWif:
  assumes "bytes_ok L d" "wif_ok E (bi_toBuffer L d)"
  shows "PrivateKey_fromWif E L (PrivateKey_toWif E L d) = Inr d"
  using fromWif_bytes [OF assms(2), of L] assms(1) by (simp add: PrivateKey_toWif_def PrivateKey_toBuffer_def bytes_ok_def)

text \<open>Every checksum with the same replacement characters is accepted.\<close>

lemma fromWif_text_checksum:
  assumes "base58_decode E wif = Inr (128 # key @ chk)" "length chk = 4" "key \<noteq> []"
    "node_decode chk = node_decode (wif_checksum E (128 # key))"
  shows "PrivateKey_fromWif E L wif = Inr (bi_fromBuffer L key)"
  using assms by (simp add: PrivateKey_fromWif_def readUInt8_def assertR_def PrivateKey_fromBuffer_def Let_def)

text \<open>A derived private key belongs to the derived public key, unless their sum is the order of the curve.\<close>

definition add_ok :: "'p ecc \<Rightarrow> bool" where
  "add_ok L \<longleftrightarrow> (\<forall>a b. cv_add L (cv_multiply L (cv_G L) a) (cv_multiply L (cv_G L) b) = cv_multiply L (cv_G L) (a + b))"

lemma child_commutes:
  assumes "curve_ok L" "add_ok L" "length offset = 32" "PrivateKey_child E L d offset = Inr d'"
  shows "PublicKey_child E L (toPublicKeyPoint L d) (JBuf offset) =
    (if d' mod cv_n L = 0 then Inl ChildInvalid else Inr (toPublicKeyPoint L d'))"
  using assms(2-4) curve_laws(4) [OF assms(1)]
  by (auto simp: PrivateKey_child_def PublicKey_child_def add_ok_def toPublicKeyPoint_def Let_def split: if_splits)

text \<open>
  The laws behind the shared secret: the uncompressed form of a key of the library gives its point
  back, and multiples of multiples are multiples.
\<close>

definition key_point_ok :: "env \<Rightarrow> 'p ecc \<Rightarrow> int \<Rightarrow> bool" where
  "key_point_ok E L d \<longleftrightarrow>
     (case point_decodeFrom E (point_getEncoded E (cv_point L (toPublicKeyPoint L d)) False) of
        Inl _ \<Rightarrow> False
      | Inr q \<Rightarrow>
          (let KB = point_getEncoded E q (pt_compressed q)
           in cv_fromAffine L (bi_fromBuffer L (take 32 (drop 1 KB))) (bi_fromBuffer L (take 32 (drop 33 KB)))
                = toPublicKeyPoint L d))"

definition mult_ok :: "'p ecc \<Rightarrow> bool" where
  "mult_ok L \<longleftrightarrow> (\<forall>a b. cv_multiply L (cv_multiply L (cv_G L) a) b = cv_multiply L (cv_G L) (a * b))"

lemma get_shared_secret_key:
  assumes "mult_ok L" "key_point_ok E L b" "bytes_ok L a"
  shows "get_shared_secret E L a (JPub (PrivateKey_toPublic L b)) =
    Inr (sha512 E (bi_toBuffer_size L (cv_affineX L (cv_multiply L (cv_G L) (b * a)))))"
proof -
  obtain q where "point_decodeFrom E (point_getEncoded E (cv_point L (toPublicKeyPoint L b)) False) = Inr q"
    "cv_fromAffine L (bi_fromBuffer L (take 32 (drop 1 (point_getEncoded E q (pt_compressed q)))))
      (bi_fromBuffer L (take 32 (drop 33 (point_getEncoded E q (pt_compressed q))))) = toPublicKeyPoint L b"
    using assms(2) by (auto simp: key_point_ok_def Let_def split: sum.splits)
  with assms(1,3) show ?thesis
    by (simp add: get_shared_secret_def toPublic_arg_def PrivateKey_toPublic_def PublicKey_toUncompressed_def
      PrivateKey_toBuffer_def bytes_ok_def mult_ok_def toPublicKeyPoint_def Let_def)
qed

text \<open>Normalising a brain key twice changes nothing more.\<close>

fun single_spaced :: "bool \<Rightarrow> jsstring \<Rightarrow> bool" where
  "single_spaced b [] \<longleftrightarrow> True"
| "single_spaced b (c # s) \<longleftrightarrow> (if ascii_ws c then c = 32 \<and> \<not> b \<and> single_spaced True s else single_spaced False s)"

lemma ascii_ws_space [simp]: "ascii_ws 32"
  by (simp add: ascii_ws_def)

lemma collapse_single_spaced: "single_spaced b (collapse_ws b s)"
  by (induction b s rule: collapse_ws.induct) auto

lemma single_spaced_collapse: "single_spaced b s \<Longrightarrow> collapse_ws b s = s"
  by (induction b s rule: single_spaced.induct) (auto split: if_splits)

lemma collapse_last: "s \<noteq> [] \<Longrightarrow> \<not> ascii_ws (last s) \<Longrightarrow> collapse_ws b s \<noteq> [] \<and> last (collapse_ws b s) = last s"
  by (induction b s rule: collapse_ws.induct) (auto split: if_splits)

lemma collapse_hd: "s \<noteq> [] \<Longrightarrow> \<not> ascii_ws (hd s) \<Longrightarrow> hd (collapse_ws b s) = hd s"
  by (cases s) auto

lemma js_trim_bounds: "js_trim s \<noteq> [] \<Longrightarrow> \<not> is_ws (hd (js_trim s)) \<and> \<not> is_ws (last (js_trim s))"
proof -
  let ?l = "dropWhile is_ws s" and ?r = "dropWhile is_ws (rev (dropWhile is_ws s))"
  assume ne: "js_trim s \<noteq> []"
  then have r: "?r \<noteq> []" by (simp add: js_trim_def)
  have "?l \<noteq> []" using r by (cases "?l") auto
  then have "\<not> is_ws (hd ?l)" by (rule hd_dropWhile)
  moreover obtain ys where "rev ?l = ys @ ?r" by (metis takeWhile_dropWhile_id)
  then have "?l = rev ?r @ rev ys" by (metis rev_append rev_rev_ident)
  then have "hd ?l = hd (rev ?r)" using r by (metis hd_append2 rev_is_Nil_conv)
  moreover have "\<not> is_ws (hd ?r)" using r by (rule hd_dropWhile)
  ultimately show ?thesis using r by (simp add: js_trim_def last_rev)
qed

lemma js_trim_id: "s = [] \<or> \<not> is_ws (hd s) \<and> \<not> is_ws (last s) \<Longrightarrow> js_trim s = s"
proof -
  have d: "t = [] \<or> \<not> is_ws (hd t) \<Longrightarrow> dropWhile is_ws t = t" for t by (cases t) auto
  assume "s = [] \<or> \<not> is_ws (hd s) \<and> \<not> is_ws (last s)"
  then show ?thesis using d [of s] d [of "rev s"] by (auto simp: js_trim_def hd_rev)
qed

lemma ascii_ws_is_ws: "ascii_ws c \<Longrightarrow> is_ws c"
  by (auto simp: ascii_ws_def is_ws_def)

lemma normalize_idem: "normalize_brain_key (normalize_brain_key s) = normalize_brain_key s"
proof -
  let ?t = "js_trim s"
  have "collapse_ws False ?t = [] \<or> \<not> is_ws (hd (collapse_ws False ?t)) \<and> \<not> is_ws (last (collapse_ws False ?t))"
  proof (cases "?t = []")
    case False
    then have e: "\<not> is_ws (hd ?t)" "\<not> is_ws (last ?t)" using js_trim_bounds by auto
    then have "\<not> ascii_ws (hd ?t)" "\<not> ascii_ws (last ?t)" using ascii_ws_is_ws by blast+
    then show ?thesis using collapse_last [OF False, of False] collapse_hd [OF False, of False] e by simp
  qed simp
  then show ?thesis
    unfolding normalize_brain_key_def by (simp add: js_trim_id single_spaced_collapse collapse_single_spaced)
qed

end
