(* ===== verification/Signing.thy ===== *)
theory Signing
  imports PrivateKeys Schema Broadcast
begin

text \<open>
  \<open>auth/ecc/src/signature.js\<close> and \<open>auth/index.js\<close>: signatures with a recovery parameter, keys derived
  from a name and a password, and the signing of transactions. Signing repeats with another nonce
  until the encoded signature has the canonical length; like the choice of the nonce it may not
  return.
\<close>

section \<open>signature.js\<close>

record signature =
  s_r :: int
  s_s :: int
  s_i :: int

definition ec_of :: "signature \<Rightarrow> ec_signature" where
  "ec_of sg = \<lparr>sig_r = s_r sg, sig_s = s_s sg\<rparr>"

definition Signature_fromBuffer :: "'p ecc \<Rightarrow> byte list \<Rightarrow> js_error + signature" where
  "Signature_fromBuffer L buf =
     bindR (assertR (length buf = 65)) (\<lambda>_.
     bindR (readUInt8 buf 0) (\<lambda>i.
     bindR (assertR (27 \<le> i \<and> i < 35)) (\<lambda>_.
       Inr \<lparr>s_r = bi_fromBuffer L (take 32 (drop 1 buf)), s_s = bi_fromBuffer L (drop 33 buf), s_i = int i\<rparr>)))"

definition Signature_toBuffer :: "'p ecc \<Rightarrow> signature \<Rightarrow> js_error + byte list" where
  "Signature_toBuffer L sg = compact_bytes L (s_i sg) (s_r sg) (s_s sg)"

text \<open>The bits kept by \<open>i & 3\<close> after \<open>i -= 27\<close>\<close>

definition recoverPublicKey :: "'p ecc \<Rightarrow> signature \<Rightarrow> byte list \<Rightarrow> js_error + 'p" where
  "recoverPublicKey L sg sha256_buffer =
     recoverPubKey L (bi_fromBuffer L sha256_buffer) (ec_of sg) ((s_i sg - 27) mod 4)"

definition recoverPublicKeyFromBuffer :: "env \<Rightarrow> 'p ecc \<Rightarrow> signature \<Rightarrow> byte list \<Rightarrow> js_error + 'p" where
  "recoverPublicKeyFromBuffer E L sg buffer = recoverPublicKey L sg (sha256 E buffer)"

text \<open>A private key as an argument: its text, an object with the property \<open>d\<close>, or nothing.\<close>

datatype key_arg = KeyText jsstring | KeyObject int | KeyMissing

definition toPrivateObj :: "env \<Rightarrow> 'p ecc \<Rightarrow> key_arg \<Rightarrow> js_error + int" where
  "toPrivateObj E L o' =
     (case o' of
        KeyText s \<Rightarrow> if s = [] then Inl AssertionError else PrivateKey_fromWif E L s
      | KeyObject d \<Rightarrow> Inr d
      | KeyMissing \<Rightarrow> Inl AssertionError)"

text \<open>The lengths of the two integers in the DER encoding; past its end there is no number.\<close>

definition der_at :: "byte list \<Rightarrow> nat \<Rightarrow> nat option" where
  "der_at der i = (if i < length der then Some (unat (der ! i)) else None)"

definition canonical_der :: "byte list \<Rightarrow> bool" where
  "canonical_der der \<longleftrightarrow>
     (case der_at der 3 of None \<Rightarrow> False | Some lenR \<Rightarrow> lenR = 32 \<and> der_at der (5 + lenR) = Some 32)"

text \<open>
  One turn of the loop: \<^term>\<open>None\<close> goes on with the next nonce, \<^term>\<open>Some None\<close> is an attempt
  that does not return.
\<close>

definition sign_attempt :: "env \<Rightarrow> 'p ecc \<Rightarrow> byte list \<Rightarrow> int \<Rightarrow> nat \<Rightarrow> (js_error + signature) option option" where
  "sign_attempt E L hash d nonce =
     (case ecdsa_sign E L hash d nonce of
        None \<Rightarrow> Some None
      | Some (Inl e) \<Rightarrow> Some (Some (Inl e))
      | Some (Inr sg) \<Rightarrow>
          if canonical_der (toDER L sg)
          then Some (Some (bindR (calcPubKeyRecoveryParam L (bi_fromBuffer L hash) sg (toPublicKeyPoint L d)) (\<lambda>i.
                 Inr \<lparr>s_r = sig_r sg, s_s = sig_s sg, s_i = i + 31\<rparr>)))
          else None)"

definition signBufferSha256 :: "env \<Rightarrow> 'p ecc \<Rightarrow> byte list \<Rightarrow> key_arg \<Rightarrow> (js_error + signature) option" where
  "signBufferSha256 E L buf_sha256 private_key =
     (if length buf_sha256 \<noteq> 32 then Some (Inl BufferRequired)
      else (case toPrivateObj E L private_key of
              Inl e \<Rightarrow> Some (Inl e)
            | Inr d \<Rightarrow> Option.bind (search (sign_attempt E L buf_sha256 d) Suc 0) (\<lambda>r. r)))"

definition signBuffer :: "env \<Rightarrow> 'p ecc \<Rightarrow> byte list \<Rightarrow> key_arg \<Rightarrow> (js_error + signature) option" where
  "signBuffer E L buf private_key = signBufferSha256 E L (sha256 E buf) private_key"

definition Signature_sign :: "env \<Rightarrow> 'p ecc \<Rightarrow> jsstring \<Rightarrow> key_arg \<Rightarrow> (js_error + signature) option" where
  "Signature_sign E L s private_key = signBuffer E L (node_encode s) private_key"

definition verifyHash :: "'p ecc \<Rightarrow> signature \<Rightarrow> byte list \<Rightarrow> 'p \<Rightarrow> js_error + bool" where
  "verifyHash L sg hash Q = bindR (assertR (length hash = 32)) (\<lambda>_. Inr (ecdsa_verify L hash (ec_of sg) Q))"

definition verifyBuffer :: "env \<Rightarrow> 'p ecc \<Rightarrow> signature \<Rightarrow> byte list \<Rightarrow> 'p \<Rightarrow> js_error + bool" where
  "verifyBuffer E L sg buf Q = verifyHash L sg (sha256 E buf) Q"

definition Signature_fromHex :: "'p ecc \<Rightarrow> jsstring \<Rightarrow> js_error + signature" where
  "Signature_fromHex L hex = Signature_fromBuffer L (fromHex hex)"

definition Signature_toHex :: "'p ecc \<Rightarrow> signature \<Rightarrow> js_error + jsstring" where
  "Signature_toHex L sg = bindR (Signature_toBuffer L sg) (\<lambda>bs. Inr (toHex bs))"

definition signHex :: "env \<Rightarrow> 'p ecc \<Rightarrow> jsstring \<Rightarrow> key_arg \<Rightarrow> (js_error + signature) option" where
  "signHex E L hex private_key = signBuffer E L (fromHex hex) private_key"

definition verifyHex :: "env \<Rightarrow> 'p ecc \<Rightarrow> signature \<Rightarrow> jsstring \<Rightarrow> 'p \<Rightarrow> js_error + bool" where
  "verifyHex E L sg hex Q = verifyBuffer E L sg (fromHex hex) Q"

section \<open>auth/index.js: keys\<close>

definition seed_hash :: "env \<Rightarrow> jsstring \<Rightarrow> jsstring \<Rightarrow> jsstring \<Rightarrow> byte list" where
  "seed_hash E name password role = sha256 E (node_encode (normalize_brain_key (name @ role @ password)))"

definition role_public_key :: "env \<Rightarrow> 'p ecc \<Rightarrow> jsstring \<Rightarrow> jsstring \<Rightarrow> jsstring \<Rightarrow> jsstring" where
  "role_public_key E L name password role =
     toPublicKeyString E (address_prefix E)
       (Some (cv_point L (cv_multiply L (cv_G L) (bi_fromBuffer L (seed_hash E name password role)))))"

definition generateKeys :: "env \<Rightarrow> 'p ecc \<Rightarrow> jsstring \<Rightarrow> jsstring \<Rightarrow> jsstring list \<Rightarrow> (jsstring \<times> jsstring) list" where
  "generateKeys E L name password rs =
     fold (\<lambda>role pubKeys. assoc_set role (role_public_key E L name password role) pubKeys) rs []"

definition Auth_toWif :: "env \<Rightarrow> jsstring \<Rightarrow> jsstring \<Rightarrow> jsstring \<Rightarrow> jsstring" where
  "Auth_toWif E name password role = base58_encode E (wif_bytes E (seed_hash E name password role))"

definition wifToPublic :: "env \<Rightarrow> 'p ecc \<Rightarrow> jsstring \<Rightarrow> js_error + jsstring" where
  "wifToPublic E L privWif =
     bindR (PrivateKey_fromWif E L privWif) (\<lambda>d.
       Inr (toPublicKeyString E (address_prefix E) (PrivateKey_toPublic L d)))"

definition wifIsValid :: "env \<Rightarrow> 'p ecc \<Rightarrow> jsstring \<Rightarrow> jsstring \<Rightarrow> js_error + bool" where
  "wifIsValid E L privWif pubWif = bindR (wifToPublic E L privWif) (\<lambda>p. Inr (p = pubWif))"

definition getPrivateKeys ::
  "env \<Rightarrow> 'p ecc \<Rightarrow> jsstring \<Rightarrow> jsstring \<Rightarrow> jsstring list \<Rightarrow> js_error + (jsstring \<times> jsstring) list" where
  "getPrivateKeys E L name password rs =
     foldR (\<lambda>privKeys role.
       let wif = Auth_toWif E name password role
       in bindR (wifToPublic E L wif) (\<lambda>p.
            Inr (assoc_set (role @ js ''Pubkey'') p (assoc_set role wif privKeys)))) [] rs"

definition Auth_isWif :: "env \<Rightarrow> jsstring \<Rightarrow> bool" where
  "Auth_isWif E privWif =
     (case base58_decode E privWif of
        Inl _ \<Rightarrow> False
      | Inr bufWif \<Rightarrow>
          (let privKey = take (length bufWif - 4) bufWif; checksum = drop (length bufWif - 4) bufWif
           in node_decode checksum = node_decode (wif_checksum E privKey)))"

definition isPubkey :: "env \<Rightarrow> jsstring \<Rightarrow> jsstring \<Rightarrow> bool" where
  "isPubkey E pubkey prefix \<longleftrightarrow> PublicKey_fromString E pubkey prefix \<noteq> JNull"

text \<open>\<open>verify\<close>: the first key of every role of \<open>auths\<close> against the generated one\<close>

definition Auth_verify :: "env \<Rightarrow> 'p ecc \<Rightarrow> jsstring \<Rightarrow> jsstring \<Rightarrow> (string \<times> jsval) list \<Rightarrow> js_error + bool" where
  "Auth_verify E L name password auths =
     (let rs = map (js \<circ> fst) auths; pubKeys = generateKeys E L name password rs
      in foldR (\<lambda>hasKey (role, auth).
           bindR (js_index auth 0) (\<lambda>a. bindR (js_index a 0) (\<lambda>k.
             Inr (hasKey \<or> (case map_of pubKeys (js role) of None \<Rightarrow> False | Some p \<Rightarrow> k = JStr p))))) False auths)"

section \<open>auth/index.js: transactions\<close>

text \<open>
  \<open>signTransaction\<close> signs with every key of the object; a signing that does not return makes the
  whole call not return.
\<close>

fun sign_all :: "env \<Rightarrow> 'p ecc \<Rightarrow> byte list \<Rightarrow> key_arg list \<Rightarrow> (js_error + byte list list) option" where
  "sign_all E L buf [] = Some (Inr [])"
| "sign_all E L buf (k # ks) =
     (case signBuffer E L buf k of
        None \<Rightarrow> None
      | Some sg \<Rightarrow>
          (case bindR sg (Signature_toBuffer L) of
             Inl e \<Rightarrow> Some (Inl e)
           | Inr bs \<Rightarrow> map_option (\<lambda>r. bindR r (\<lambda>rest. Inr (bs # rest))) (sign_all E L buf ks)))"

definition old_signatures :: "jsval \<Rightarrow> jsval list" where
  "old_signatures v = (if js_truthy v then (case v of JArr xs \<Rightarrow> xs | _ \<Rightarrow> [v]) else [])"

definition signTransaction :: "env \<Rightarrow> 'p ecc \<Rightarrow> options \<Rightarrow> key_arg list \<Rightarrow> (js_error + jsval) option" where
  "signTransaction E L trx keys =
     (let signatures = old_signatures (options_get trx ''signatures''); cid = fromHex (chain_id E)
      in case toBuffer (op_transaction E) (JObj trx) of
           Inl e \<Rightarrow> Some (Inl e)
         | Inr buf \<Rightarrow>
             map_option (\<lambda>r. bindR r (\<lambda>sigs.
               toObject (op_signed_transaction E)
                 (JObj (assoc_set ''signatures'' (JArr (signatures @ map JBuf sigs)) trx))
                 \<lparr>use_default = False, annotate = False\<rparr>))
               (sign_all E L (cid @ buf) keys))"

section \<open>Signatures\<close>

lemma signBufferSha256_Inr:
  assumes "signBufferSha256 E L hash key = Some (Inr sg)"
  obtains d nonce i where "toPrivateObj E L key = Inr d" "ecdsa_sign E L hash d nonce = Some (Inr (ec_of sg))"
    "calcPubKeyRecoveryParam L (bi_fromBuffer L hash) (ec_of sg) (toPublicKeyPoint L d) = Inr i" "s_i sg = i + 31"
    "length hash = 32"
proof -
  obtain d where d: "toPrivateObj E L key = Inr d" "search (sign_attempt E L hash d) Suc 0 = Some (Some (Inr sg))" "length hash = 32"
    using assms by (auto simp: signBufferSha256_def bind_eq_Some_conv split: if_splits sum.splits)
  obtain n where "sign_attempt E L hash d ((Suc ^^ n) 0) = Some (Some (Inr sg))" using search_Some_ex [OF d(2)] ..
  then obtain eg i where "ecdsa_sign E L hash d n = Some (Inr eg)"
    "calcPubKeyRecoveryParam L (bi_fromBuffer L hash) eg (toPublicKeyPoint L d) = Inr i"
    "sg = \<lparr>s_r = sig_r eg, s_s = sig_s eg, s_i = i + 31\<rparr>"
    by (auto simp: sign_attempt_def bindR_eq_Inr split: option.splits sum.splits if_splits)
  moreover from this have "ec_of sg = eg" by (simp add: ec_of_def)
  ultimately show ?thesis using d by (intro that [of d n i]) simp_all
qed

text \<open>A signature verifies with the key that made it, and the key can be recovered from it.\<close>

lemma signature_verifies:
  assumes "curve_ok L" "signBufferSha256 E L hash key = Some (Inr sg)" "toPrivateObj E L key = Inr d"
  shows "verifyHash L sg hash (toPublicKeyPoint L d) = Inr True"
  using assms(2)
proof (rule signBufferSha256_Inr)
  fix d' nonce i
  assume s: "toPrivateObj E L key = Inr d'" "ecdsa_sign E L hash d' nonce = Some (Inr (ec_of sg))" "length hash = 32"
  with assms(3) have "d' = d" by simp
  with ecdsa_sign_verifies [OF assms(1) s(2)] s(3) show ?thesis
    by (simp add: verifyHash_def assertR_def toPublicKeyPoint_def)
qed

lemma signature_recovers:
  assumes "signBufferSha256 E L hash key = Some (Inr sg)" "toPrivateObj E L key = Inr d"
  shows "\<exists>Q. recoverPublicKey L sg hash = Inr Q \<and> cv_equals L Q (toPublicKeyPoint L d)"
  using assms(1)
proof (rule signBufferSha256_Inr)
  fix d' nonce i
  assume s: "toPrivateObj E L key = Inr d'" "s_i sg = i + 31"
    "calcPubKeyRecoveryParam L (bi_fromBuffer L hash) (ec_of sg) (toPublicKeyPoint L d') = Inr i"
  with assms(2) have d: "d' = d" by simp
  obtain Q where i: "i \<in> {0, 1, 2, 3}" and Q: "recoverPubKey L (bi_fromBuffer L hash) (ec_of sg) i = Inr Q"
    "cv_equals L Q (toPublicKeyPoint L d)"
    using recovery_loop_Inr [of L "bi_fromBuffer L hash" "ec_of sg" "toPublicKeyPoint L d" "[0, 1, 2, 3]" i] s(3) d
    by (auto simp: calcPubKeyRecoveryParam_def)
  have "(s_i sg - 27) mod 4 = i" using i by (auto simp: s(2))
  with Q show ?thesis by (simp add: recoverPublicKey_def)
qed

lemma signature_i_range:
  assumes "signBufferSha256 E L hash key = Some (Inr sg)"
  shows "31 \<le> s_i sg \<and> s_i sg < 35"
  using assms
proof (rule signBufferSha256_Inr)
  fix d nonce i
  assume "calcPubKeyRecoveryParam L (bi_fromBuffer L hash) (ec_of sg) (toPublicKeyPoint L d) = Inr i" "s_i sg = i + 31"
  then show ?thesis
    using recovery_loop_Inr [of L "bi_fromBuffer L hash" "ec_of sg" "toPublicKeyPoint L d" "[0, 1, 2, 3]" i]
    by (auto simp: calcPubKeyRecoveryParam_def)
qed

lemma Signature_fromBuffer_toBuffer:
  assumes "bytes_ok L (s_r sg)" "bytes_ok L (s_s sg)" "27 \<le> s_i sg" "s_i sg < 35"
  shows "bindR (Signature_toBuffer L sg) (Signature_fromBuffer L) = Inr sg"
proof -
  have b: "Signature_toBuffer L sg = Inr (of_int (s_i sg) # bi_toBuffer L (s_r sg) @ bi_toBuffer L (s_s sg))"
    unfolding Signature_toBuffer_def using assms by (intro compact_bytes_eq) (auto simp: bytes_ok_def)
  have "unat (of_int (s_i sg) :: byte) = nat (s_i sg)"
    using assms(3,4) by (simp add: unat_eq_nat_uint uint_word_of_int_eq take_bit_eq_mod)
  with assms show ?thesis
    by (simp add: b Signature_fromBuffer_def assertR_def readUInt8_def bytes_ok_def nat_less_iff le_nat_iff)
qed

text \<open>All signatures of a transaction are by its keys, in order.\<close>

lemma sign_all_Inr:
  "sign_all E L buf ks = Some (Inr sigs) \<Longrightarrow>
     list_all2 (\<lambda>k bs. \<exists>sg. signBuffer E L buf k = Some (Inr sg) \<and> Signature_toBuffer L sg = Inr bs) ks sigs"
proof (induction ks arbitrary: sigs)
  case (Cons k ks)
  then obtain sg bs where "signBuffer E L buf k = Some (Inr sg)" "Signature_toBuffer L sg = Inr bs"
    and r: "map_option (\<lambda>r. bindR r (\<lambda>rest. Inr (bs # rest))) (sign_all E L buf ks) = Some (Inr sigs)"
    by (auto simp: bindR_eq_Inr split: option.splits sum.splits)
  moreover obtain rest where "sign_all E L buf ks = Some (Inr rest)" "sigs = bs # rest"
    using r by (auto simp: bindR_eq_Inr)
  ultimately show ?case using Cons.IH by auto
qed simp

section \<open>Keys from a password\<close>

lemma map_of_assoc_set: "map_of (assoc_set k v xs) k' = (if k' = k then Some v else map_of xs k')"
  by (induction k v xs rule: assoc_set.induct) auto

lemma map_of_generateKeys:
  "map_of (generateKeys E L name password rs) role =
     (if role \<in> set rs then Some (role_public_key E L name password role) else None)"
proof -
  have "map_of (fold (\<lambda>role pubKeys. assoc_set role (role_public_key E L name password role) pubKeys) rs acc) role =
    (if role \<in> set rs then Some (role_public_key E L name password role) else map_of acc role)" for acc
    by (induction rs arbitrary: acc) (auto simp: map_of_assoc_set)
  from this [of "[]"] show ?thesis by (simp add: generateKeys_def)
qed

text \<open>The public key of the text made by \<open>toWif\<close> is the one \<open>generateKeys\<close> lists.\<close>

lemma wifToPublic_toWif:
  assumes "wif_ok E (seed_hash E name password role)"
  shows "wifToPublic E L (Auth_toWif E name password role) = Inr (role_public_key E L name password role)"
  using fromWif_bytes [OF assms, of L]
  by (simp add: wifToPublic_def Auth_toWif_def role_public_key_def PrivateKey_toPublic_def toPublicKeyPoint_def)

end
