(* ===== verification/Memo.thy ===== *)
theory Memo
  imports Signing
begin

text \<open>
  \<open>auth/ecc/src/aes.js\<close> and \<open>auth/memo.js\<close>: encryption with the secret shared by two keys, nonces,
  and encrypted memos. The cipher of \<open>browserify-aes\<close> is a parameter: the functions of key, vector
  and message. The state of the self test of \<open>memo.js\<close> is the argument \<open>works\<close>, whose value is
  \<open>encryption_test\<close>.
\<close>

section \<open>aes.js\<close>

record aes =
  aes_cipher :: "byte list \<Rightarrow> byte list \<Rightarrow> byte list \<Rightarrow> js_error + byte list"
  aes_decipher :: "byte list \<Rightarrow> byte list \<Rightarrow> byte list \<Rightarrow> js_error + byte list"

text \<open>\<open>toPrivateObj\<close> and \<open>toPublicObj\<close>, where nothing (or an unreadable public key) is a \<open>TypeError\<close>\<close>

definition aes_private :: "env \<Rightarrow> 'p ecc \<Rightarrow> key_arg \<Rightarrow> js_error + int" where
  "aes_private E L o' =
     (case o' of
        KeyText s \<Rightarrow> if s = [] then Inl TypeError else PrivateKey_fromWif E L s
      | KeyObject d \<Rightarrow> Inr d
      | KeyMissing \<Rightarrow> Inl TypeError)"

definition toPublicObj :: "env \<Rightarrow> jsval \<Rightarrow> jsval" where
  "toPublicObj E o' =
     (case o' of
        JPub (Some q) \<Rightarrow> o'
      | JStr s \<Rightarrow> if s = [] then o' else PublicKey_fromString E s (address_prefix E)
      | _ \<Rightarrow> if js_truthy o' then JNull else o')"

definition aes_public :: "env \<Rightarrow> jsval \<Rightarrow> js_error + jsval" where
  "aes_public E o' = (if js_truthy (toPublicObj E o') then Inr (toPublicObj E o') else Inl TypeError)"

definition toLongObj :: "jsval \<Rightarrow> js_error + jsval" where
  "toLongObj o' =
     (case o' of
        JLong u w \<Rightarrow> Inr o'
      | JStr s \<Rightarrow> if s = [] then Inl TypeError else bindR (Long_fromString s) (\<lambda>w. Inr (JLong False w))
      | _ \<Rightarrow> Inl TypeError)"

definition aes_message :: "jsval \<Rightarrow> js_error + byte list" where
  "aes_message m = (case m of JBuf bs \<Rightarrow> Inr bs | JStr s \<Rightarrow> Inr (map ucast s) | _ \<Rightarrow> Inl TypeError)"

text \<open>The hash of the nonce and the secret, and the check: its key, vector and check number.\<close>

definition encryption_key :: "env \<Rightarrow> jsval \<Rightarrow> byte list \<Rightarrow> js_error + byte list" where
  "encryption_key E nonce S =
     bindR (writeUint64 (ByteBuffer_new DEFAULT_CAPACITY True) nonce) (\<lambda>b1.
     bindR (bb_append b1 (toBinaryString S)) (\<lambda>b2.
     bindR (bb_copy b2 0 (bb_offset b2)) (\<lambda>c. Inr (sha512 E (bb_toBuffer c)))))"

definition check_number :: "env \<Rightarrow> byte list \<Rightarrow> js_error + int" where
  "check_number E key =
     bindR (readUint32 (fromBinary (take 4 (sha256 E key)) True)) (\<lambda>(v, _).
       case v of JNum n \<Rightarrow> Inr n | _ \<Rightarrow> Inl TypeError)"

text \<open>
  \<open>crypt\<close>: a checksum that is not false decrypts, and none encrypts. A checksum of zero is false.
  The result is the nonce, the message and the check number.
\<close>

definition crypt ::
  "env \<Rightarrow> 'p ecc \<Rightarrow> aes \<Rightarrow> key_arg \<Rightarrow> jsval \<Rightarrow> jsval \<Rightarrow> jsval \<Rightarrow> jsval \<Rightarrow> js_error + jsval \<times> byte list \<times> int" where
  "crypt E L A private_key pub_key nonce0 message0 checksum =
     bindR (aes_private E L private_key) (\<lambda>d.
     bindR (aes_public E pub_key) (\<lambda>Q.
     bindR (toLongObj nonce0) (\<lambda>nonce.
     bindR (aes_message message0) (\<lambda>message.
     if js_truthy checksum \<and> \<not> is_number checksum then Inl TypeError
     else bindR (get_shared_secret E L d Q) (\<lambda>S.
     bindR (encryption_key E nonce S) (\<lambda>ek.
     let iv = take 16 (drop 32 ek); key = take 32 ek
     in bindR (check_number E ek) (\<lambda>check.
        if js_truthy checksum
        then (if JNum check \<noteq> checksum then Inl InvalidWif
              else bindR (aes_decipher A key iv message) (\<lambda>m. Inr (nonce, m, check)))
        else bindR (aes_cipher A key iv message) (\<lambda>m. Inr (nonce, m, check)))))))))"

definition aes_encrypt ::
  "env \<Rightarrow> 'p ecc \<Rightarrow> aes \<Rightarrow> key_arg \<Rightarrow> jsval \<Rightarrow> jsval \<Rightarrow> jsval \<Rightarrow> js_error + jsval \<times> byte list \<times> int" where
  "aes_encrypt E L A private_key pub_key message nonce = crypt E L A private_key pub_key nonce message JUndef"

definition aes_decrypt ::
  "env \<Rightarrow> 'p ecc \<Rightarrow> aes \<Rightarrow> key_arg \<Rightarrow> jsval \<Rightarrow> jsval \<Rightarrow> jsval \<Rightarrow> jsval \<Rightarrow> js_error + byte list" where
  "aes_decrypt E L A private_key pub_key nonce message checksum =
     bindR (crypt E L A private_key pub_key nonce message checksum) (\<lambda>(_, m, _). Inr m)"

text \<open>\<open>uniqueNonce()\<close> at a time in milliseconds, with the counter \<open>unique_nonce_entropy\<close>\<close>

definition uniqueNonce :: "int \<Rightarrow> nat \<Rightarrow> jsstring \<times> nat" where
  "uniqueNonce now entropy =
     (let entropy' = entropy + 1;
          long = (push_bit 16 (Long_fromNumber (Some now)) :: 64 word) OR Long_fromNumber (Some (int (entropy' mod 65535)))
      in (Long_toString False long, entropy'))"

section \<open>memo.js\<close>

definition memo_private :: "env \<Rightarrow> 'p ecc \<Rightarrow> key_arg \<Rightarrow> js_error + int" where
  "memo_private E L o' = toPrivateObj E L o'"

definition is_hash_memo :: "jsstring \<Rightarrow> bool" where
  "is_hash_memo memo \<longleftrightarrow> memo \<noteq> [] \<and> hd memo = 35"

text \<open>\<open>mbuf.readVString()\<close>, or the whole buffer as UTF-8 when that throws\<close>

definition read_memo :: "byte list \<Rightarrow> js_error + jsstring" where
  "read_memo bs =
     (case readVString (fromBinary bs True) of
        Inr (s, _) \<Rightarrow> Inr s
      | Inl Hang \<Rightarrow> Inl Hang
      | Inl _ \<Rightarrow> Inr (node_decode bs))"

definition memo_decode :: "env \<Rightarrow> 'p ecc \<Rightarrow> aes \<Rightarrow> bool \<Rightarrow> key_arg \<Rightarrow> jsval \<Rightarrow> js_error + jsstring" where
  "memo_decode E L A works private_key memo0 =
     (case memo0 of
        JStr memo \<Rightarrow>
          if memo = [] then Inl AssertionError
          else if \<not> is_hash_memo memo then Inr memo
          else if private_key = KeyMissing \<or> private_key = KeyText [] then Inl AssertionError
          else if \<not> works then Inl UnsupportedType
          else bindR (memo_private E L private_key) (\<lambda>d.
               bindR (base58_decode E (drop 1 memo)) (\<lambda>bytes.
               bindR (fromBuffer (op_encrypted_memo E) bytes) (\<lambda>m.
               bindR (js_get m ''from'') (\<lambda>from'. bindR (js_get m ''to'') (\<lambda>to'.
               bindR (js_get m ''nonce'') (\<lambda>nonce. bindR (js_get m ''check'') (\<lambda>check.
               bindR (js_get m ''encrypted'') (\<lambda>encrypted.
               bindR (js_toString E from') (\<lambda>from_text. bindR (js_toString E to') (\<lambda>to_text.
                 let pubkey = toPublicKeyString E (address_prefix E) (PrivateKey_toPublic L d);
                     otherpub = (if pubkey = from_text then to_text else from_text)
                 in bindR (aes_decrypt E L A (KeyObject d) (JStr otherpub) nonce encrypted check) (\<lambda>plain.
                    bindR (read_memo plain) (\<lambda>s. Inr (35 # s)))))))))))))
      | _ \<Rightarrow> Inl AssertionError)"

definition memo_encode ::
  "env \<Rightarrow> 'p ecc \<Rightarrow> aes \<Rightarrow> bool \<Rightarrow> key_arg \<Rightarrow> jsval \<Rightarrow> jsval \<Rightarrow> jsval \<Rightarrow> js_error + jsstring" where
  "memo_encode E L A works private_key pub_key memo0 nonce0 =
     (case memo0 of
        JStr memo \<Rightarrow>
          if memo = [] then Inl AssertionError
          else if \<not> is_hash_memo memo then Inr memo
          else if private_key = KeyMissing \<or> private_key = KeyText [] then Inl AssertionError
          else if \<not> js_truthy pub_key then Inl AssertionError
          else if \<not> works then Inl UnsupportedType
          else bindR (memo_private E L private_key) (\<lambda>d.
               let Q = toPublicObj E pub_key
               in bindR (writeVString (ByteBuffer_new DEFAULT_CAPACITY True) (JStr (drop 1 memo))) (\<lambda>mbuf.
                  bindR (bb_copy mbuf 0 (bb_offset mbuf)) (\<lambda>c.
                  bindR (aes_encrypt E L A (KeyObject d) Q (JBuf (bb_toBuffer c)) nonce0) (\<lambda>(nonce, message, checksum).
                  bindR (fromObject (op_encrypted_memo E)
                    (JObj [(''from'', JPub (PrivateKey_toPublic L d)), (''to'', Q), (''nonce'', nonce),
                       (''check'', JNum checksum), (''encrypted'', JBuf message)])) (\<lambda>m.
                  bindR (toBuffer (op_encrypted_memo E) m) (\<lambda>bytes.
                    Inr (35 # base58_encode E bytes)))))))
      | _ \<Rightarrow> Inl AssertionError)"

text \<open>The self test: the memo with a Chinese character, encrypted and decrypted by the same key.\<close>

definition encryption_test :: "env \<Rightarrow> 'p ecc \<Rightarrow> aes \<Rightarrow> jsstring \<Rightarrow> bool" where
  "encryption_test E L A nonce =
     (let wif = js ''5JdeC9P7Pbd1uGdFVEsJ41EkEnADbbHGq6p1BwFxm6txNBsQnsw'';
          pubkey = js ''BLT8m5UgaFAAYQRuaNejYdS8FVLVp9Ss3K1qAVk5de6F8s3HnVbvA'';
          text' = js ''#memo'' @ [29233]
      in bindR (memo_encode E L A True (KeyText wif) (JStr pubkey) (JStr text') (JStr nonce))
           (\<lambda>c. memo_decode E L A True (KeyText wif) (JStr c)) = Inr text')"

section \<open>Memos are read back\<close>

text \<open>What the code relies on in the libraries for one private key, and in the cipher.\<close>

definition memo_key_ok :: "env \<Rightarrow> 'p ecc \<Rightarrow> int \<Rightarrow> bool" where
  "memo_key_ok E L d \<longleftrightarrow> key_point_ok E L d \<and> bytes_ok L d \<and> key_valid E (JPub (PrivateKey_toPublic L d)) \<and>
     base58_ok E (PublicKey_toBuffer E (PrivateKey_toPublic L d))"

definition aes_ok :: "aes \<Rightarrow> bool" where
  "aes_ok A \<longleftrightarrow> (\<forall>key iv m. \<exists>c. aes_cipher A key iv m = Inr c \<and> aes_decipher A key iv c = Inr m \<and> length c \<le> length m + 16)"

definition shared_secret :: "env \<Rightarrow> 'p ecc \<Rightarrow> int \<Rightarrow> int \<Rightarrow> byte list" where
  "shared_secret E L a b = sha512 E (bi_toBuffer_size L (cv_affineX L (cv_multiply L (cv_G L) (b * a))))"

lemma shared_secret_sym: "shared_secret E L a b = shared_secret E L b a"
  by (simp add: shared_secret_def mult.commute)

lemma public_point: "PrivateKey_toPublic L d = Some (cv_point L (toPublicKeyPoint L d))"
  by (simp add: PrivateKey_toPublic_def)

lemma memo_key_secret:
  "mult_ok L \<Longrightarrow> memo_key_ok E L a \<Longrightarrow> memo_key_ok E L b \<Longrightarrow>
     get_shared_secret E L a (JPub (PrivateKey_toPublic L b)) = Inr (shared_secret E L a b)"
  by (simp add: memo_key_ok_def get_shared_secret_key shared_secret_def)

abbreviation key_text :: "env \<Rightarrow> 'p ecc \<Rightarrow> int \<Rightarrow> jsstring" where
  "key_text E L d \<equiv> toPublicKeyString E (address_prefix E) (PrivateKey_toPublic L d)"

lemma key_text_read:
  assumes "memo_key_ok E L d" "address_prefix E \<noteq> []"
  shows "toPublicObj E (JStr (key_text E L d)) = JPub (PrivateKey_toPublic L d)"
proof -
  have "fromStringOrThrow E (key_text E L d) (address_prefix E) = Inr (JPub (PrivateKey_toPublic L d))"
    using assms(1) by (intro fromStringOrThrow_toPublicKeyString) (auto simp: memo_key_ok_def public_point)
  moreover have "key_text E L d \<noteq> []" using assms(2) by (simp add: toPublicKeyString_def Let_def)
  ultimately show ?thesis by (simp add: toPublicObj_def PublicKey_fromString_def)
qed

lemma toPublicObj_key [simp]: "toPublicObj E (JPub (PrivateKey_toPublic L d)) = JPub (PrivateKey_toPublic L d)"
  by (simp add: toPublicObj_def public_point)

lemma writeUint64_signed: "writeUint64 b (JLong u w) = writeUint64 b (JLong True w)"
  by (simp add: writeUint64_def long_arg_def)

lemma encryption_key_eq: "encryption_key E (JLong u w) S = Inr (sha512 E (bytes64 w @ S))"
proof -
  let ?b0 = "ByteBuffer_new DEFAULT_CAPACITY True"
  obtain b1 where b1: "writeUint64 ?b0 (JLong True w) = Inr b1" "bb_appended ?b0 (bytes64 w) b1"
    using bb_u64.append_enc [of "JLong True w" ?b0] by auto
  obtain b2 where b2: "bb_append b1 (toBinaryString S) = Inr b2" "bb_appended b1 S b2"
    using bb_append_bytes [of b1 S] b1(2) by (auto simp: bb_appended_def)
  obtain c where "bb_copy b2 0 (bb_offset b2) = Inr c" "bb_toBuffer c = bb_contents b2"
    using bb_copy_contents [of b2] b2(2) by (auto simp: bb_appended_def)
  with b1 b2 show ?thesis by (simp add: encryption_key_def writeUint64_signed [of _ u] bb_appended_def)
qed

lemma check_number_range:
  assumes "4 \<le> length (sha256 E key)"
  shows "\<exists>n. check_number E key = Inr n \<and> 0 \<le> n \<and> n \<le> 4294967295"
proof -
  let ?w = "word32_of (take 4 (sha256 E key))"
  have "check_number E key = Inr (uint ?w)"
    using assms by (simp add: check_number_def readUint32_def bb_read_def fromBinary_def order_def)
  moreover have "0 \<le> uint ?w" "uint ?w < 2 ^ 32" using unsigned_less [of ?w] by simp_all
  ultimately show ?thesis by simp
qed

text \<open>Both directions of \<open>crypt\<close> for two keys that share a secret.\<close>

lemma crypt_encrypt:
  assumes "mult_ok L" "memo_key_ok E L a" "memo_key_ok E L b" "toLongObj nonce = Inr (JLong u w)"
    "ek = sha512 E (bytes64 w @ shared_secret E L a b)" "check_number E ek = Inr n"
    "aes_cipher A (take 32 ek) (take 16 (drop 32 ek)) m = Inr c"
  shows "aes_encrypt E L A (KeyObject a) (JPub (PrivateKey_toPublic L b)) (JBuf m) nonce = Inr (JLong u w, c, n)"
  using assms
  by (simp add: aes_encrypt_def crypt_def aes_private_def aes_public_def aes_message_def memo_key_secret encryption_key_eq
    js_truthy_def Let_def)

lemma crypt_decrypt:
  assumes "mult_ok L" "memo_key_ok E L a" "memo_key_ok E L b"
    "toPublicObj E pub = JPub (PrivateKey_toPublic L b)"
    "ek = sha512 E (bytes64 w @ shared_secret E L a b)" "check_number E ek = Inr n" "n \<noteq> 0"
    "aes_decipher A (take 32 ek) (take 16 (drop 32 ek)) c = Inr m"
  shows "aes_decrypt E L A (KeyObject a) pub (JLong u w) (JBuf c) (JNum n) = Inr m"
  using assms
  by (simp add: aes_decrypt_def crypt_def aes_private_def aes_public_def aes_message_def memo_key_secret encryption_key_eq
    js_truthy_def is_number_def toLongObj_def Let_def)

text \<open>The serialized memo: its canonical value has an unsigned nonce.\<close>

definition memo_value :: "'p ecc \<Rightarrow> int \<Rightarrow> int \<Rightarrow> bool \<Rightarrow> 64 word \<Rightarrow> int \<Rightarrow> byte list \<Rightarrow> jsval" where
  "memo_value L a b u w n c =
     JObj [(''from'', JPub (PrivateKey_toPublic L a)), (''to'', JPub (PrivateKey_toPublic L b)), (''nonce'', JLong u w),
       (''check'', JNum n), (''encrypted'', JBuf c)]"

lemma memo_value_valid:
  assumes "memo_key_ok E L a" "memo_key_ok E L b" "0 \<le> n" "n \<le> 4294967295" "length c < 2147483648"
  shows "valid E encrypted_memo_schema (memo_value L a b True w n c)"
  using assms by (simp add: memo_value_def encrypted_memo_schema_def record_valid_def memo_key_ok_def)

lemma long_text_unsigned: "0 \<le> long_value u w \<Longrightarrow> 45 \<notin> set (Long_toString u w)"
proof -
  assume "0 \<le> long_value u w"
  then have "Long_toString u w = dec_nat (nat (long_value u w))" by (simp add: Long_toString_eq dec_int_def)
  moreover have "\<forall>c \<in> set (dec_nat (nat (long_value u w))). is_digit c" using dec_nat_digits by (simp add: list_all_iff)
  moreover have "\<not> is_digit 45" by (simp add: is_digit_def)
  ultimately show ?thesis by metis
qed

lemma v_unsigned_long: "0 \<le> long_value u w \<Longrightarrow> v_unsigned E (JLong u w) = Inr (JLong u w)"
  using long_text_unsigned [of u w] by (simp add: v_unsigned_def is_empty_def)

lemma memo_fromObject:
  assumes "0 \<le> long_value u w" "0 \<le> n" "n \<le> 4294967295"
  shows "fromObject (op_encrypted_memo E) (memo_value L a b u w n c) = Inr (memo_value L a b u w n c)"
  using assms
  by (simp add: require_range_num MIN_SAFE_INT_def MAX_SAFE_INT_def memo_value_def op_encrypted_memo_def Serializer_def Serializer_fromObject_def with_cause_def public_key_def
    uint64_def uint32_def ranged_int_def string_binary_def required_def is_empty_def has_Q_def public_point v_unsigned_long
    to_long_def is_long_def new_Buffer_def)

lemma memo_append_signed:
  assumes "0 \<le> long_value u w"
  shows "toBuffer (op_encrypted_memo E) (memo_value L a b u w n c) = toBuffer (op_encrypted_memo E) (memo_value L a b True w n c)"
proof (cases u)
  case False
  have "appendByteBuffer (uint64 E) bf (JLong False w) = appendByteBuffer (uint64 E) bf (JLong True w)" for bf
  proof -
    have "0 \<le> long_value True w" by (simp add: long_value_def)
    with assms False show ?thesis
      by (simp add: uint64_def v_unsigned_long to_long_def is_long_def is_empty_def writeUint64_signed [of _ False])
  qed
  with False show ?thesis
    by (simp add: memo_value_def toBuffer_def toByteBuffer_def op_encrypted_memo_def Serializer_def append_cause_def
      cong: sum.case_cong if_cong)
qed simp

lemma memo_toBuffer:
  assumes "memo_key_ok E L a" "memo_key_ok E L b" "0 \<le> n" "n \<le> 4294967295" "length c < 2147483648" "0 \<le> long_value u w"
  shows "toBuffer (op_encrypted_memo E) (memo_value L a b u w n c) =
      Inr (wire E encrypted_memo_schema (memo_value L a b True w n c))"
    "fromBuffer (op_encrypted_memo E) (wire E encrypted_memo_schema (memo_value L a b True w n c)) =
      Inr (memo_value L a b True w n c)"
  using is_codec_toBuffer [OF denote_codec memo_value_valid [OF assms(1-5), of w]]
    is_codec_fromBuffer [OF denote_codec memo_value_valid [OF assms(1-5), of w]] memo_append_signed [OF assms(6), of E L a b n c]
  by (simp_all add: denote_encrypted_memo)

lemma vstring_to_buffer:
  assumes "wf16 s"
  shows "\<exists>mb c. writeVString (ByteBuffer_new DEFAULT_CAPACITY True) (JStr s) = Inr mb \<and>
    bb_copy mb 0 (bb_offset mb) = Inr c \<and> bb_toBuffer c = vstring_bytes s"
  using writeVString_appends [of "ByteBuffer_new DEFAULT_CAPACITY True" s] bb_copy_contents assms
  by (fastforce simp: bb_appended_def)

lemma length_vstring: "length (vstring_bytes s) \<le> 5 + length (node_encode s)"
  by (simp add: vstring_bytes_def length_varint32 calculateVarint32_def)

lemma read_memo_vstring: "vstring_ok s \<Longrightarrow> read_memo (vstring_bytes s) = Inr s"
  using readVString_bytes [of "fromBinary (vstring_bytes s) True" s "[]"] by (simp add: read_memo_def)

text \<open>The parts of one encrypted memo.\<close>

definition memo_parts ::
  "env \<Rightarrow> 'p ecc \<Rightarrow> aes \<Rightarrow> int \<Rightarrow> int \<Rightarrow> jsval \<Rightarrow> jsstring \<Rightarrow> bool \<Rightarrow> 64 word \<Rightarrow> int \<Rightarrow> byte list \<Rightarrow> bool" where
  "memo_parts E L A a b nonce s u w n c \<longleftrightarrow>
     (let ek = sha512 E (bytes64 w @ shared_secret E L a b); key = take 32 ek; iv = take 16 (drop 32 ek)
      in toLongObj nonce = Inr (JLong u w) \<and> 0 \<le> long_value u w \<and> check_number E ek = Inr n \<and> 0 \<le> n \<and> n \<le> 4294967295 \<and>
         aes_cipher A key iv (vstring_bytes s) = Inr c \<and> aes_decipher A key iv c = Inr (vstring_bytes s) \<and>
         length c < 2147483648)"

lemma memo_encode_parts:
  assumes "mult_ok L" "memo_key_ok E L a" "memo_key_ok E L b" "memo_parts E L A a b nonce s u w n c" "wf16 s"
  shows "memo_encode E L A True (KeyObject a) (JPub (PrivateKey_toPublic L b)) (JStr (35 # s)) nonce =
    Inr (35 # base58_encode E (wire E encrypted_memo_schema (memo_value L a b True w n c)))"
proof -
  let ?ek = "sha512 E (bytes64 w @ shared_secret E L a b)"
  have p: "toLongObj nonce = Inr (JLong u w)" "0 \<le> long_value u w" "check_number E ?ek = Inr n" "0 \<le> n" "n \<le> 4294967295"
    "aes_cipher A (take 32 ?ek) (take 16 (drop 32 ?ek)) (vstring_bytes s) = Inr c" "length c < 2147483648"
    using assms(4) by (simp_all add: memo_parts_def Let_def)
  obtain mb c' where mb: "writeVString (ByteBuffer_new DEFAULT_CAPACITY True) (JStr s) = Inr mb"
    "bb_copy mb 0 (bb_offset mb) = Inr c'" "bb_toBuffer c' = vstring_bytes s"
    using vstring_to_buffer [OF assms(5)] by blast
  have "aes_encrypt E L A (KeyObject a) (JPub (PrivateKey_toPublic L b)) (JBuf (vstring_bytes s)) nonce = Inr (JLong u w, c, n)"
    using assms(1-3) p by (intro crypt_encrypt) simp_all
  moreover have "fromObject (op_encrypted_memo E) (JObj [(''from'', JPub (PrivateKey_toPublic L a)),
      (''to'', JPub (PrivateKey_toPublic L b)), (''nonce'', JLong u w), (''check'', JNum n), (''encrypted'', JBuf c)]) =
      Inr (memo_value L a b u w n c)"
    using memo_fromObject [OF p(2,4,5), of E L a b c] by (simp add: memo_value_def)
  ultimately show ?thesis
    using mb memo_toBuffer(1) [OF assms(2,3) p(4,5,7,2)]
    by (simp add: memo_encode_def is_hash_memo_def memo_private_def toPrivateObj_def js_truthy_def)
qed

lemma memo_decode_parts:
  assumes "mult_ok L" "memo_key_ok E L a" "memo_key_ok E L b" "memo_parts E L A a b nonce s u w n c" "vstring_ok s"
    "address_prefix E \<noteq> []" "n \<noteq> 0" "d = a \<or> d = b"
    "base58_decode E t = Inr (wire E encrypted_memo_schema (memo_value L a b True w n c))"
  shows "memo_decode E L A True (KeyObject d) (JStr (35 # t)) = Inr (35 # s)"
proof -
  let ?ek = "sha512 E (bytes64 w @ shared_secret E L a b)"
  let ?other = "if key_text E L d = key_text E L a then key_text E L b else key_text E L a"
  have p: "0 \<le> long_value u w" "check_number E ?ek = Inr n" "0 \<le> n" "n \<le> 4294967295"
    "aes_decipher A (take 32 ?ek) (take 16 (drop 32 ?ek)) c = Inr (vstring_bytes s)" "length c < 2147483648"
    using assms(4) by (simp_all add: memo_parts_def Let_def)
  have k: "memo_key_ok E L d" using assms(2,3,8) by auto
  have pub: "PrivateKey_toPublic L x = PrivateKey_toPublic L y"
    if "memo_key_ok E L x" "memo_key_ok E L y" "key_text E L x = key_text E L y" for x y
  proof -
    have "JPub (PrivateKey_toPublic L x) = toPublicObj E (JStr (key_text E L x))"
      by (rule key_text_read [OF that(1) assms(6), symmetric])
    also have "\<dots> = JPub (PrivateKey_toPublic L y)"
      unfolding that(3) by (rule key_text_read [OF that(2) assms(6)])
    finally show ?thesis by (rule jsval.inject(9) [THEN iffD1])
  qed
  define o' where "o' = (if d = a then b else a)"
  have o': "memo_key_ok E L o'" "shared_secret E L d o' = shared_secret E L a b"
    using assms(2,3,8) by (auto simp: o'_def shared_secret_sym)
  have "toPublicObj E (JStr ?other) = JPub (PrivateKey_toPublic L o')"
  proof (cases "d = a")
    case True
    then show ?thesis using key_text_read [OF assms(3,6)] by (simp only: o'_def if_True refl)
  next
    case False
    with assms(8) have d: "d = b" "o' = a" by (simp_all add: o'_def)
    show ?thesis
    proof (cases "key_text E L b = key_text E L a")
      case True
      then show ?thesis using d key_text_read [OF assms(3,6)] pub [OF assms(3,2) True] by (simp only: if_True refl)
    next
      case False
      then show ?thesis using d key_text_read [OF assms(2,6)] by (simp only: if_False refl)
    qed
  qed
  then have "aes_decrypt E L A (KeyObject d) (JStr ?other) (JLong True w) (JBuf c) (JNum n) = Inr (vstring_bytes s)"
  proof (rule crypt_decrypt [OF assms(1) k o'(1)])
    show "?ek = sha512 E (bytes64 w @ shared_secret E L d o')" by (simp only: o'(2))
  qed (use p assms(7) in simp_all)
  moreover have "fromBuffer (op_encrypted_memo E) (wire E encrypted_memo_schema (memo_value L a b True w n c)) =
      Inr (memo_value L a b True w n c)"
    using memo_toBuffer(2) [OF assms(2,3) p(3,4,6,1)] .
  ultimately show ?thesis
    using assms(9) read_memo_vstring [OF assms(5)]
    by (simp add: memo_decode_def is_hash_memo_def memo_private_def toPrivateObj_def memo_value_def js_toString_def Let_def)
qed

text \<open>An encrypted memo is read back by its sender and by its receiver, when its check number is not zero.\<close>

lemma memo_roundtrip:
  assumes "mult_ok L" "memo_key_ok E L a" "memo_key_ok E L b" "aes_ok A" "address_prefix E \<noteq> []"
    "wf16 s" "length (node_encode s) < 2147483600" "toLongObj nonce = Inr (JLong u w)" "0 \<le> long_value u w"
    "4 \<le> length (sha256 E (sha512 E (bytes64 w @ shared_secret E L a b)))"
    "check_number E (sha512 E (bytes64 w @ shared_secret E L a b)) \<noteq> Inr 0"
    "\<forall>bs. base58_decode E (base58_encode E bs) = Inr bs" "d = a \<or> d = b"
  shows "bindR (memo_encode E L A True (KeyObject a) (JPub (PrivateKey_toPublic L b)) (JStr (35 # s)) nonce)
      (\<lambda>t. memo_decode E L A True (KeyObject d) (JStr t)) = Inr (35 # s)"
proof -
  let ?ek = "sha512 E (bytes64 w @ shared_secret E L a b)"
  obtain n where n: "check_number E ?ek = Inr n" "0 \<le> n" "n \<le> 4294967295"
    using check_number_range [OF assms(10)] by blast
  obtain c where c: "aes_cipher A (take 32 ?ek) (take 16 (drop 32 ?ek)) (vstring_bytes s) = Inr c"
    "aes_decipher A (take 32 ?ek) (take 16 (drop 32 ?ek)) c = Inr (vstring_bytes s)" "length c \<le> length (vstring_bytes s) + 16"
    using assms(4) unfolding aes_ok_def by blast
  have "memo_parts E L A a b nonce s u w n c"
    using assms(7-9) n c length_vstring [of s] by (simp add: memo_parts_def Let_def)
  moreover have "vstring_ok s" using assms(6,7) by (simp add: vstring_ok_def)
  moreover have "n \<noteq> 0" using n(1) assms(11) by auto
  ultimately show ?thesis
    using memo_encode_parts [OF assms(1-3), of A nonce s u w n c] memo_decode_parts [OF assms(1-3), of A nonce s u w n c d]
      assms(5,6,12,13) by simp
qed

section \<open>Nonces\<close>

text \<open>Within the range of dates the bits of the time and of the counter do not overlap.\<close>

lemma nonce_word:
  assumes "0 \<le> now" "now < 2 ^ 47" "e < 65535"
  shows "unat ((push_bit 16 (of_int now) :: 64 word) OR of_nat e) = nat now * 65536 + e"
proof -
  have n: "unat (of_int now :: 64 word) = nat now"
    using assms(1,2) by (simp add: unat_eq_nat_uint uint_word_of_int_eq take_bit_int_eq_self)
  have "nat now < 2 ^ 47" using assms(1,2) by (simp add: nat_less_iff)
  then have "unat (push_bit 16 (of_int now) :: 64 word) = nat now * 65536"
    using unat_push_bit [of "of_int now :: 64 word" 16] by (simp add: n)
  moreover have "unat (of_nat e :: 64 word) = e" using assms(3) by (simp add: unat_of_nat)
  ultimately show ?thesis
    using unat_or_disjoint [of "of_nat e :: 64 word" 16 "push_bit 16 (of_int now)" "nat now"] assms(3) by simp
qed

end
