(* ===== verification/Sending.thy ===== *)
theory Sending
  imports Signing
begin

text \<open>
  \<open>steemBroadcast.send\<close> of \<open>broadcast/index.js\<close>: the transaction of a generated function gets its
  defaults, is signed, and is passed to \<open>broadcastTransactionSynchronous\<close>; the answers of the three
  remote procedures are inputs. The lemmas put together what is known of the parts: the bytes
  signed are those of the prepared transaction after the chain id, and every signature verifies
  with its key.
\<close>

section \<open>send\<close>

text \<open>A key as the generated functions pass it: text, or nothing.\<close>

definition key_of_value :: "jsval \<Rightarrow> key_arg" where
  "key_of_value v = (case v of JStr s \<Rightarrow> KeyText s | _ \<Rightarrow> KeyMissing)"

definition send_signed :: "env \<Rightarrow> 'p ecc \<Rightarrow> jsval \<Rightarrow> jsval \<Rightarrow> options \<Rightarrow> key_arg list \<Rightarrow> (js_error + jsval) option" where
  "send_signed E L properties block tx keys =
     (case prepareTransaction E properties block tx of
        Inl e \<Rightarrow> Some (Inl e)
      | Inr transaction \<Rightarrow> signTransaction E L transaction keys)"

text \<open>
  The outcome for the callback: \<open>Object.assign({}, result, signedTransaction)\<close> on the result of the
  last call, or the first error. Both are objects; the argument \<open>answer\<close> maps the signed transaction
  to the answer.
\<close>

definition own_fields :: "jsval \<Rightarrow> options" where
  "own_fields v = (case v of JObj kvs \<Rightarrow> kvs | _ \<Rightarrow> [])"

definition steemBroadcast_send ::
  "env \<Rightarrow> 'p ecc \<Rightarrow> jsval \<Rightarrow> jsval \<Rightarrow> (jsval \<Rightarrow> js_error + jsval) \<Rightarrow> options \<Rightarrow> key_arg list \<Rightarrow> (js_error + jsval) option" where
  "steemBroadcast_send E L properties block answer tx keys =
     map_option (\<lambda>r. bindR r (\<lambda>signed. bindR (answer signed) (\<lambda>result.
         Inr (JObj (object_assign (object_assign [] (own_fields result)) (own_fields signed))))))
       (send_signed E L properties block tx keys)"

definition send_operation ::
  "env \<Rightarrow> 'p ecc \<Rightarrow> jsval \<Rightarrow> jsval \<Rightarrow> (jsval \<Rightarrow> js_error + jsval) \<Rightarrow> broadcast_send \<Rightarrow> (js_error + jsval) option" where
  "send_operation E L properties block answer b =
     steemBroadcast_send E L properties block answer (b_tx b) (map (key_of_value \<circ> snd) (b_keys b))"

section \<open>Signatures of a transaction\<close>

lemma sign_all_verifies:
  assumes "curve_ok L" "sign_all E L buf ks = Some (Inr bss)" "list_all2 (\<lambda>k d. toPrivateObj E L k = Inr d) ks ds"
  shows "\<exists>sgs. mapR (Signature_toBuffer L) sgs = Inr bss \<and>
    list_all2 (\<lambda>sg d. verifyBuffer E L sg buf (toPublicKeyPoint L d) = Inr True \<and>
      (\<exists>Q. recoverPublicKeyFromBuffer E L sg buf = Inr Q \<and> cv_equals L Q (toPublicKeyPoint L d))) sgs ds"
  using sign_all_Inr [OF assms(2)] assms(3)
proof (induction ks bss arbitrary: ds rule: list_all2_induct)
  case Nil
  then show ?case by (intro exI [of _ "[]"]) simp
next
  case (Cons k ks bs bss)
  then obtain d ds' where ds: "ds = d # ds'" "toPrivateObj E L k = Inr d"
    "list_all2 (\<lambda>k d. toPrivateObj E L k = Inr d) ks ds'"
    by (auto simp: list_all2_Cons1)
  from Cons(3) [OF ds(3)] obtain sgs where IH: "mapR (Signature_toBuffer L) sgs = Inr bss"
    "list_all2 (\<lambda>sg d. verifyBuffer E L sg buf (toPublicKeyPoint L d) = Inr True \<and>
      (\<exists>Q. recoverPublicKeyFromBuffer E L sg buf = Inr Q \<and> cv_equals L Q (toPublicKeyPoint L d))) sgs ds'"
    by blast
  from Cons(1) obtain sg where sg: "signBufferSha256 E L (sha256 E buf) k = Some (Inr sg)" "Signature_toBuffer L sg = Inr bs"
    by (auto simp: signBuffer_def)
  from signature_verifies [OF assms(1) sg(1) ds(2)] signature_recovers [OF sg(1) ds(2)] IH sg(2) show ?case
    by (intro exI [of _ "sg # sgs"]) (simp add: ds(1) verifyBuffer_def recoverPublicKeyFromBuffer_def)
qed

lemma signTransaction_Inr:
  assumes "signTransaction E L trx keys = Some (Inr out)"
  obtains buf bss where "toBuffer (op_transaction E) (JObj trx) = Inr buf"
    "sign_all E L (fromHex (chain_id E) @ buf) keys = Some (Inr bss)"
    "toObject (op_signed_transaction E)
       (JObj (assoc_set ''signatures'' (JArr (old_signatures (options_get trx ''signatures'') @ map JBuf bss)) trx))
       \<lparr>use_default = False, annotate = False\<rparr> = Inr out"
  using assms by (auto simp: signTransaction_def Let_def bindR_eq_Inr split: sum.splits)

text \<open>The defaults of a transaction do not replace its own fields.\<close>

lemma object_assign_other: "k \<notin> fst ` set xs \<Longrightarrow> options_get (object_assign target xs) k = options_get target k"
  by (induction target xs rule: object_assign.induct) (auto simp: options_get_assoc_set)

lemma object_assign_keeps:
  "distinct (map fst xs) \<Longrightarrow> map_of xs k = Some v \<Longrightarrow> options_get (object_assign target xs) k = v"
proof (induction target xs rule: object_assign.induct)
  case (2 target k' w r)
  show ?case
  proof (cases "k = k'")
    case True
    with 2(2,3) show ?thesis by (simp add: object_assign_other options_get_assoc_set)
  next
    case False
    with 2 show ?thesis by simp
  qed
qed simp

end
