(* ===== verification/Examples.thy ===== *)
theory Examples
  imports Memo Sending
begin

text \<open>
  Concrete instances of the parameters, for the examples of the properties: simple functions with the
  laws the code relies on. The curve is the cyclic group of order seven, a point being an integer
  modulo seven; the bytes of a number are its last byte after zeros; base 58 and the cipher change
  nothing; a hash is constant.
\<close>

section \<open>The libraries\<close>

definition example_env :: env where
  "example_env =
     \<lparr>address_prefix = js ''BLT'', chain_id = [],
      point_decodeFrom = (\<lambda>bs. if length bs = 33 \<or> length bs = 65
                              then Inr \<lparr>pt_x = uint (bs ! 32), pt_y = 0, pt_compressed = (length bs = 33)\<rparr>
                              else Inl LibraryError),
      point_getEncoded = (\<lambda>q c. (if c then 2 # replicate 31 0 @ [of_int (pt_x q)]
                                 else 4 # replicate 31 0 @ [of_int (pt_x q)] @ replicate 32 0)),
      base58_encode = map ucast, base58_decode = (\<lambda>s. Inr (map ucast s)),
      sha256 = (\<lambda>bs. replicate 32 1), sha512 = (\<lambda>bs. replicate 64 7), ripemd160 = (\<lambda>bs. replicate 20 7),
      date_parse_other = (\<lambda>s. None), date_toString = (\<lambda>t. []), fun_toString = (\<lambda>t. [])\<rparr>"

definition inverse7 :: "int \<Rightarrow> int" where
  "inverse7 x = (let y = x mod 7 in (y * y * y * y * y) mod 7)"

definition example_ecc :: "int ecc" where
  "example_ecc =
     \<lparr>bi_fromBuffer = (\<lambda>bs. uint (last bs)), bi_toBuffer = (\<lambda>x. replicate 31 0 @ [of_int x]),
      bi_toBuffer_size = (\<lambda>x. replicate 31 0 @ [of_int x]),
      bi_toDERInteger = (\<lambda>x. replicate 31 1 @ [of_int x]), bi_fromDERInteger = (\<lambda>bs. uint (last bs)),
      bi_modInverse = (\<lambda>x n. inverse7 x), cv_n = 7, cv_G = 1, cv_multiply = (\<lambda>P k. (P * k) mod 7),
      cv_multiplyTwo = (\<lambda>P a Q b. (P * a + Q * b) mod 7), cv_isInfinity = (\<lambda>P. P mod 7 = 0),
      cv_affineX = (\<lambda>P. min (P mod 7) ((- P) mod 7)),
      cv_pointFromX = (\<lambda>odd' x. if 1 \<le> x \<and> x \<le> 3 then Inr (if odd' then 7 - x else x) else Inl LibraryError),
      cv_validate = (\<lambda>P. Inr ()), cv_equals = (=), cv_add = (\<lambda>P Q. (P + Q) mod 7), cv_fromAffine = (\<lambda>x y. x),
      cv_point = (\<lambda>P. \<lparr>pt_x = P, pt_y = 0, pt_compressed = True\<rparr>), hmac_sha256 = (\<lambda>d k. replicate 31 0 @ [3])\<rparr>"

definition example_aes :: aes where
  "example_aes = \<lparr>aes_cipher = (\<lambda>k iv m. Inr m), aes_decipher = (\<lambda>k iv m. Inr m)\<rparr>"

lemma example_curve: "curve_ok example_ecc"
proof -
  have inv: "(x * inverse7 x) mod 7 = 1" if "0 < x" "x < 7" for x :: int
  proof -
    from that have "x = 1 \<or> x = 2 \<or> x = 3 \<or> x = 4 \<or> x = 5 \<or> x = 6" by linarith
    then show ?thesis by (auto simp: inverse7_def Let_def)
  qed
  moreover have "(a + d mod 7 * b) mod 7 = (a + b * d) mod (7::int)" for a b d
    by (metis mod_add_right_eq mod_mult_left_eq mult.commute)
  moreover have "min ((- k) mod 7) ((- ((- k) mod 7)) mod 7) = min (k mod 7) ((- (k mod 7)) mod (7::int))" for k
    by (simp add: mod_minus_eq min.commute)
  ultimately show ?thesis
    unfolding curve_ok_def example_ecc_def by simp
qed

lemma example_laws:
  "mult_ok example_ecc" "add_ok example_ecc" "aes_ok example_aes"
proof -
  show "mult_ok example_ecc" "add_ok example_ecc"
    by (auto simp: mult_ok_def add_ok_def example_ecc_def mod_add_eq mod_mult_left_eq)
  show "aes_ok example_aes" by (auto simp: aes_ok_def example_aes_def)
qed

lemma example_bytes:
  assumes "0 \<le> x" "x < 256"
  shows "bytes_ok example_ecc x" "0 < x \<Longrightarrow> der_ok example_ecc x"
proof -
  have "uint (of_int x :: byte) = x" using assms by (simp add: uint_word_of_int_eq take_bit_eq_mod)
  with assms show "bytes_ok example_ecc x" "0 < x \<Longrightarrow> der_ok example_ecc x"
    by (simp_all add: bytes_ok_def der_ok_def example_ecc_def nth_append)
qed

section \<open>A transaction\<close>

definition str_buf :: "string \<Rightarrow> jsval" where
  "str_buf s = JBuf (map of_char s)"

definition example_transaction :: jsval where
  "example_transaction =
     JObj [(''ref_block_num'', JNum 34294), (''ref_block_prefix'', JNum 3707022213), (''expiration'', JNum 1459986120),
       (''operations'', JArr [JArr [JNum 2, JObj [(''from'', str_buf ''alice''), (''to'', str_buf ''bob''),
            (''amount'', JStr (js ''1.000 BLURT'')), (''memo'', str_buf ''hi'')]]]),
       (''extensions'', JArr [])]"

lemma example_fields:
  "string_valid (str_buf ''alice'')" "string_valid (str_buf ''bob'')" "string_valid (str_buf ''hi'')"
  "asset_valid (JStr (js ''1.000 BLURT''))"
  by code_simp+

lemma example_transaction_valid: "valid example_env transaction_schema example_transaction"
proof -
  have "variant_valid (map (valid E) operation_schemas) (JArr [JNum 2, v]) = valid E transfer_schema v" for E v
    by (simp add: variant_valid_def operation_schemas_def)
  then show ?thesis
    by (simp add: transaction_schema_def example_transaction_def record_valid_def array_valid_def set_valid_def
      operation_schema_def transfer_schema_def example_fields sortOperation_def st_static_variant_def st_void_def
      array_sort_def del: string_valid.simps asset_valid.simps)
qed

section \<open>Signing\<close>

text \<open>The generator of the example always yields three: with the key one it signs, with the key two it never ends.\<close>

lemma example_sign: "ecdsa_sign example_env example_ecc (replicate 32 1) 1 0 = Some (Inr \<lparr>sig_r = 3, sig_s = 1\<rparr>)"
  by code_simp

lemma example_stuck: "attempt example_ecc 1 2 ((drbg_next example_ecc ^^ i) (drbg_init example_ecc (hash_with_nonce example_env (replicate 32 1) 0) 2)) = None"
proof -
  have n: "drbg_next example_ecc st = (replicate 31 0 @ [3], replicate 31 0 @ [3])" for st
    by (cases st) (simp add: drbg_next_def example_ecc_def Let_def)
  have "(drbg_next example_ecc ^^ i) (drbg_init example_ecc h d) = (replicate 31 0 @ [3], replicate 31 0 @ [3])" for h d
  proof (cases i)
    case 0
    then show ?thesis by (simp add: drbg_init_def example_ecc_def Let_def)
  next
    case (Suc j)
    then show ?thesis by (simp add: n)
  qed
  moreover have "attempt example_ecc 1 2 (replicate 31 0 @ [3], replicate 31 0 @ [3]) = None" by code_simp
  ultimately show ?thesis by simp
qed

definition example_unsigned :: options where
 "example_unsigned = [(''ref_block_num'', JNum 34294), (''ref_block_prefix'', JNum 3707022213), (''expiration'', JNum 1459986120),
       (''operations'', JArr []), (''extensions'', JArr [])]"

lemma example_buffer_sign: "signBuffer example_env example_ecc buf (KeyObject 1) = Some (Inr \<lparr>s_r = 3, s_s = 1, s_i = 32\<rparr>)"
proof -
  have "signBufferSha256 example_env example_ecc (replicate 32 1) (KeyObject 1) = Some (Inr \<lparr>s_r = 3, s_s = 1, s_i = 32\<rparr>)"
    by code_simp
  then show ?thesis by (simp add: signBuffer_def example_env_def)
qed

lemma example_valid: "valid E transaction_schema (JObj example_unsigned)"
  by (simp add: transaction_schema_def example_unsigned_def record_valid_def array_valid_def set_valid_def
      operation_schema_def sortOperation_def st_static_variant_def st_void_def array_sort_def)

abbreviation plain :: debug where
  "plain \<equiv> \<lparr>use_default = False, annotate = False\<rparr>"

lemma example_object_fields:
  "toObject (uint16 example_env) (JNum 34294) plain = Inr (JNum 34294)"
  "toObject (uint32 example_env) (JNum 3707022213) plain = Inr (JNum 3707022213)"
  "toObject (time_point_sec example_env) (JNum 1459986120) plain = Inr (JStr (js ''2016-04-06T23:42:00''))"
  by code_simp+

lemma example_signed_object: "toObject (op_signed_transaction example_env) (JObj (assoc_set ''signatures'' (JArr [JBuf bs]) example_unsigned)) plain =
  Inr (JObj [(''ref_block_num'', JNum 34294), (''ref_block_prefix'', JNum 3707022213), (''expiration'', JStr (js ''2016-04-06T23:42:00'')),
       (''operations'', JArr []), (''extensions'', JArr []), (''signatures'', JArr [JStr (toHex bs)])])"
  by (simp add: op_signed_transaction_def example_unsigned_def Serializer_def Serializer_toObject_def
    st_array_def st_set_def operation_def st_static_variant_def st_void_def sortOperation_def array_sort_def st_bytes_def
     required_def is_empty_def or_empty_def set_validate_def js_elems_def example_object_fields with_cause_def toString_hex_def)

lemma example_signed: "signTransaction example_env example_ecc example_unsigned [KeyObject 1] =
  Some (Inr (JObj [(''ref_block_num'', JNum 34294), (''ref_block_prefix'', JNum 3707022213), (''expiration'', JStr (js ''2016-04-06T23:42:00'')),
       (''operations'', JArr []), (''extensions'', JArr []), (''signatures'', JArr [JStr (toHex (32 # replicate 31 0 @ 3 # replicate 31 0 @ [1]))])]))"
proof -
  have "Signature_toBuffer example_ecc \<lparr>s_r = 3, s_s = 1, s_i = 32\<rparr> = Inr (32 # replicate 31 0 @ 3 # replicate 31 0 @ [1])" by code_simp
  then show ?thesis
    using is_codec_toBuffer [OF denote_codec example_valid, of example_env] example_signed_object
    by (simp add: signTransaction_def denote_transaction old_signatures_def js_truthy_def example_buffer_sign options_get_def example_unsigned_def del: toHex_def)
qed

section \<open>A WebSocket connection\<close>

definition example_data :: request_data where
  "example_data = \<lparr>d_id = JUndef, d_method = ''get_block'', d_params = JArr [JNum 1]\<rparr>"

definition example_opening :: ws where
  "example_opening = snd (ws_start (\<lambda>u. True) (ws_new []))"

definition example_open :: ws where
  "example_open = ws_onopen 0 example_opening"

lemma example_history: "ws_history (\<lambda>u. True) [] example_open []"
proof -
  have "ws_history (\<lambda>u. True) [] example_opening ([] @ [])"
    unfolding example_opening_def by (rule ws_history.step [OF ws_history.init ws_step.start])
  moreover have "ws_step (\<lambda>u. True) example_opening EvOpen (example_open, [])"
    unfolding example_open_def by (rule ws_step.opened) (simp add: example_opening_def ws_start_def ws_new_def)
  ultimately have "ws_history (\<lambda>u. True) [] example_open (([] @ []) @ [])" by (rule ws_history.step)
  then show ?thesis by simp
qed

lemma example_closed: "\<exists>s outs. ws_history (\<lambda>u. True) [] s outs \<and> ws_socket s = Some (0, SClosed) \<and> ws_waiting s = []"
proof -
  have "ws_step (\<lambda>u. True) example_open EvClose (ws_onClose (example_open\<lparr>ws_socket := Some (0, SClosed)\<rparr>))"
    by (rule ws_step.closed) (simp add: example_open_def ws_onopen_def)
  moreover obtain s' new where r: "ws_onClose (example_open\<lparr>ws_socket := Some (0, SClosed)\<rparr>) = (s', new)" by fastforce
  ultimately have "ws_history (\<lambda>u. True) [] s' ([] @ new)" using ws_history.step [OF example_history] by simp
  moreover have "ws_socket s' = Some (0, SClosed)" "ws_waiting s' = []"
    using r by (auto simp: ws_onClose_def example_open_def ws_onopen_def example_opening_def ws_start_def ws_new_def)
  ultimately show ?thesis by blast
qed

text \<open>A request that is written and answered.\<close>

lemma example_answered: "\<exists>s outs. ws_history (\<lambda>u. True) [] s outs \<and> callback_tags outs = [0]"
proof -
  let ?s1 = "ws_send (\<lambda>u. True) ''condenser_api'' example_data example_open"
  let ?m = "JObj [(''id'', JNum 0), (''result'', JNum 5)]"
  obtain s2 o2 where r2: "ws_run ?s1 = (s2, o2)" by fastforce
  obtain s3 o3 where r3: "ws_onMessage (Some ?m) s2 = (s3, o3)" by fastforce
  have f: "ws_socket s2 = Some (0, SOpen)" "callback_tags o2 = []" "map_of (ws_requests s2) (JNum 0) = Some 0"
    using r2 by (auto simp: ws_run_def ws_deferred_def ws_send_def ws_start_def example_open_def ws_onopen_def
      example_opening_def ws_new_def request_id_def example_data_def js_truthy_def)
  have "ws_history (\<lambda>u. True) [] ?s1 ([] @ [])" by (rule ws_history.step [OF example_history ws_step.send])
  then have "ws_history (\<lambda>u. True) [] s2 (([] @ []) @ o2)" by (rule ws_history.step) (use ws_step.run [of _ ?s1] r2 in simp)
  then have "ws_history (\<lambda>u. True) [] s3 ((([] @ []) @ o2) @ o3)"
    by (rule ws_history.step) (use ws_step.message [OF f(1), of _ "Some ?m"] r3 in simp)
  moreover have "callback_tags o3 = [0]" using r3 f(3) by (auto simp: ws_onMessage_def js_truthy_def)
  ultimately have "ws_history (\<lambda>u. True) [] s3 ((([] @ []) @ o2) @ o3) \<and> callback_tags ((([] @ []) @ o2) @ o3) = [0]"
    using f(2) by simp
  then show ?thesis by blast
qed

section \<open>An HTTP connection\<close>

definition example_connection :: steem where
  "example_connection =
     \<lparr>s_options = [(''url'', JStr (js ''https://a''))], s_shared = False, s_config = [], s_transportType = JStr (js ''http''),
      s_transport = HttpTransport [], s_logger = JUndef, s_seqNo = 0, s_error_count = 0, s_api_index = 0,
      s_failover_threshold = JNum 3, s_alternatives = JArr [JStr (js ''https://a''), JStr (js ''https://b'')]\<rparr>"

lemma example_new: "\<exists>s. Steem_new False [(''url'', JStr (js ''https://a'')), (''failover_threshold'', JNum 1)] [] = Inr s"
proof -
  have "url_scheme ''http'' (js ''https://a'')" "js ''https://a'' \<noteq> []" by code_simp+
  then show ?thesis by (simp add: Steem_new_def setTransport_def setLogger_def has_own_def options_get_def Let_def)
qed

section \<open>An account\<close>

definition example_authority :: jsval where
  "example_authority = JObj [(''weight_threshold'', JNum 1), (''key_auths'', JArr [])]"

definition example_account :: jsval where
  "example_account =
     JObj [(''name'', JStr (js ''alice'')), (''memo_key'', JStr (js ''M'')), (''json_metadata'', JStr []),
       (''posting'', example_authority)]"

lemma example_helper:
  "\<exists>b. addKeyAuth example_env 0 (JStr []) (JStr (js ''K'')) ''posting'' JUndef (JFun 1) JNull (JArr [example_account]) =
      HelperUpdate (Inr b)"
proof -
  have "case addKeyAuth example_env 0 (JStr []) (JStr (js ''K'')) ''posting'' JUndef (JFun 1) JNull (JArr [example_account]) of
      HelperUpdate (Inr b) \<Rightarrow> True | _ \<Rightarrow> False" unfolding example_account_def example_authority_def by code_simp
  then show ?thesis by (auto split: helper_out.splits sum.splits)
qed

end
