(* ===== verification/Doubles.thy ===== *)
theory Doubles
  imports JSLib "HOL-Library.Log_Nat"
begin

text \<open>
  The fractional numbers of the language: IEEE doubles with their signed zeros, infinities and
  \<open>NaN\<close>, the arithmetic that rounds to nearest with ties to even, and the conversions between
  numbers and text that the TypeScript library uses (\<open>parseFloat\<close>, \<open>toFixed\<close>, \<open>Math.round\<close>, the
  shortest decimal text). A finite double is its sign and the exact rational magnitude. The main
  fact is the relative error of one rounding, and from it the exactness of the fixed-point amounts
  the library moves through doubles.
\<close>

section \<open>Rounding\<close>

text \<open>The exponent of the leading bit of a positive rational.\<close>

definition floor_log2 :: "rat \<Rightarrow> int" where
  "floor_log2 x =
     (let (n, d) = quotient_of x; l = bitlen n - bitlen d
      in if 2 powi l \<le> x then l else l - 1)"

definition round_half_even :: "rat \<Rightarrow> int" where
  "round_half_even x =
     (let f = \<lfloor>x\<rfloor>; r = x - of_int f
      in if r < 1 / 2 then f else if 1 / 2 < r then f + 1 else if even f then f else f + 1)"

text \<open>The exponent of the unit in the last place: 53 significant bits, subnormals below.\<close>

definition ulp_exp :: "rat \<Rightarrow> int" where
  "ulp_exp x = max (floor_log2 x - 52) (- 1074)"

definition round_mag :: "rat \<Rightarrow> rat" where
  "round_mag x =
     (if x \<le> 0 then 0
      else (let e = ulp_exp x in of_int (round_half_even (x / 2 powi e)) * 2 powi e))"

datatype double = NaN | Infin bool | Fin bool rat   \<comment> \<open>the flag is the sign bit\<close>

definition to_double :: "bool \<Rightarrow> rat \<Rightarrow> double" where
  "to_double s x = (let r = round_mag x in if 2 powi 1024 \<le> r then Infin s else Fin s r)"

text \<open>A result is rounded from its exact value; \<open>s\<close> is the sign of an exact zero.\<close>

definition round_signed :: "bool \<Rightarrow> rat \<Rightarrow> double" where
  "round_signed s x = (if x = 0 then Fin s 0 else to_double (x < 0) \<bar>x\<bar>)"

definition dbl_val :: "bool \<Rightarrow> rat \<Rightarrow> rat" where
  "dbl_val s m = (if s then - m else m)"

definition dbl_of_int :: "int \<Rightarrow> double" where
  "dbl_of_int n = round_signed False (of_int n)"

section \<open>Arithmetic\<close>

fun dbl_neg :: "double \<Rightarrow> double" where
  "dbl_neg NaN = NaN"
| "dbl_neg (Infin s) = Infin (\<not> s)"
| "dbl_neg (Fin s m) = Fin (\<not> s) m"

fun dbl_add :: "double \<Rightarrow> double \<Rightarrow> double" where
  "dbl_add (Fin s m) (Fin t n) = round_signed (s \<and> t) (dbl_val s m + dbl_val t n)"
| "dbl_add (Infin s) (Infin t) = (if s = t then Infin s else NaN)"
| "dbl_add (Infin s) (Fin t n) = Infin s"
| "dbl_add (Fin s m) (Infin t) = Infin t"
| "dbl_add _ _ = NaN"

definition dbl_sub :: "double \<Rightarrow> double \<Rightarrow> double" where
  "dbl_sub x y = dbl_add x (dbl_neg y)"

fun dbl_mul :: "double \<Rightarrow> double \<Rightarrow> double" where
  "dbl_mul (Fin s m) (Fin t n) = to_double (s \<noteq> t) (m * n)"
| "dbl_mul (Infin s) (Infin t) = Infin (s \<noteq> t)"
| "dbl_mul (Infin s) (Fin t n) = (if n = 0 then NaN else Infin (s \<noteq> t))"
| "dbl_mul (Fin s m) (Infin t) = (if m = 0 then NaN else Infin (s \<noteq> t))"
| "dbl_mul _ _ = NaN"

fun dbl_div :: "double \<Rightarrow> double \<Rightarrow> double" where
  "dbl_div (Fin s m) (Fin t n) =
     (if n = 0 then (if m = 0 then NaN else Infin (s \<noteq> t)) else to_double (s \<noteq> t) (m / n))"
| "dbl_div (Infin s) (Infin t) = NaN"
| "dbl_div (Infin s) (Fin t n) = Infin (s \<noteq> t)"
| "dbl_div (Fin s m) (Infin t) = Fin (s \<noteq> t) 0"
| "dbl_div _ _ = NaN"

text \<open>\<open>x < y\<close> and \<open>x === y\<close>: the zeros are equal, \<open>NaN\<close> compares with nothing.\<close>

fun dbl_less :: "double \<Rightarrow> double \<Rightarrow> bool" where
  "dbl_less (Fin s m) (Fin t n) \<longleftrightarrow> dbl_val s m < dbl_val t n"
| "dbl_less (Infin s) (Infin t) \<longleftrightarrow> s \<and> \<not> t"
| "dbl_less (Infin s) (Fin t n) \<longleftrightarrow> s"
| "dbl_less (Fin s m) (Infin t) \<longleftrightarrow> \<not> t"
| "dbl_less _ _ \<longleftrightarrow> False"

fun dbl_eq :: "double \<Rightarrow> double \<Rightarrow> bool" where
  "dbl_eq (Fin s m) (Fin t n) \<longleftrightarrow> dbl_val s m = dbl_val t n"
| "dbl_eq (Infin s) (Infin t) \<longleftrightarrow> s = t"
| "dbl_eq _ _ \<longleftrightarrow> False"

fun dbl_finite :: "double \<Rightarrow> bool" where
  "dbl_finite (Fin s m) = True"
| "dbl_finite _ = False"

text \<open>\<open>Math.round\<close> and \<open>Math.floor\<close>: the result keeps the sign of a negative argument that rounds to zero.\<close>

fun Math_round :: "double \<Rightarrow> double" where
  "Math_round (Fin s m) = (let i = \<lfloor>dbl_val s m + 1 / 2\<rfloor> in Fin s (of_int \<bar>i\<bar>))"
| "Math_round x = x"

text \<open>The integer a double holds, and the integer it is truncated to.\<close>

fun dbl_int :: "double \<Rightarrow> int option" where
  "dbl_int (Fin s m) = (if m = of_int \<lfloor>m\<rfloor> then Some (if s then - \<lfloor>m\<rfloor> else \<lfloor>m\<rfloor>) else None)"
| "dbl_int _ = None"

fun dbl_trunc :: "double \<Rightarrow> int option" where
  "dbl_trunc (Fin s m) = Some (if s then - \<lfloor>m\<rfloor> else \<lfloor>m\<rfloor>)"
| "dbl_trunc _ = None"

section \<open>Numbers and text\<close>

text \<open>
  \<open>Number.parseFloat\<close>: after leading white space, the longest prefix that is a decimal literal;
  an exponent counts only when it has digits.
\<close>

definition exponent_prefix :: "jsstring \<Rightarrow> int" where
  "exponent_prefix s =
     (case s of [] \<Rightarrow> 0
      | c # r \<Rightarrow>
          if c = 101 \<or> c = 69
          then (let (sg, d) = parse_sign r in sg * int (digits_val (takeWhile is_digit d)))
          else 0)"

definition decimal_prefix :: "jsstring \<Rightarrow> rat option" where
  "decimal_prefix s =
     (let w = takeWhile is_digit s; r = dropWhile is_digit s;
          f = (if take 1 r = [46] then takeWhile is_digit (drop 1 r) else []);
          r' = (if take 1 r = [46] then dropWhile is_digit (drop 1 r) else r)
      in if w = [] \<and> f = [] then None
         else Some (of_nat (digits_val (w @ f)) * 10 powi (exponent_prefix r' - int (length f))))"

definition parseFloat :: "jsstring \<Rightarrow> double" where
  "parseFloat s0 =
     (let (sg, s) = parse_sign (dropWhile is_ws s0)
      in if starts_with (js ''Infinity'') s then Infin (sg < 0)
         else (case decimal_prefix s of None \<Rightarrow> NaN | Some q \<Rightarrow> to_double (sg < 0) q))"

text \<open>
  The text of a double: the shortest digits that are read back as the same double, the closest of
  them when there are two, laid out in positional or in exponent notation.
\<close>

definition floor_log10 :: "rat \<Rightarrow> int" where
  "floor_log10 x =
     (if 1 \<le> x then int (length (dec_nat (nat \<lfloor>x\<rfloor>))) - 1
      else - int (length (dec_nat (nat (\<lceil>1 / x\<rceil> - 1)))))"

definition digit_candidates :: "rat \<Rightarrow> int \<Rightarrow> nat \<Rightarrow> nat list" where
  "digit_candidates x n k =
     (let y = x / 10 powi (n - int k); lo = nat \<lfloor>y\<rfloor>; hi = nat \<lceil>y\<rceil>
      in filter (\<lambda>s. round_mag (of_nat s * 10 powi (n - int k)) = x)
           (if y - of_nat lo \<le> of_nat hi - y then [lo, hi] else [hi, lo]))"

definition shortest_digits :: "rat \<Rightarrow> int \<Rightarrow> jsstring \<times> int" where
  "shortest_digits x n =
     (case filter (\<lambda>k. digit_candidates x n k \<noteq> []) [1..<18] of
        k # _ \<Rightarrow> (let s = hd (digit_candidates x n k)
                  in if s = 10 ^ k then ([49], n + 1) else (dec_nat s, n))
      | [] \<Rightarrow> ([48], n))"

definition layout_digits :: "jsstring \<Rightarrow> int \<Rightarrow> jsstring" where
  "layout_digits ds n =
     (let k = int (length ds); e = n - 1;
          et = (if e < 0 then 45 # dec_nat (nat (- e)) else 43 # dec_nat (nat e))
      in if k \<le> n \<and> n \<le> 21 then ds @ replicate (nat (n - k)) 48
         else if 0 < n \<and> n \<le> 21 then take (nat n) ds @ 46 # drop (nat n) ds
         else if - 6 < n \<and> n \<le> 0 then 48 # 46 # replicate (nat (- n)) 48 @ ds
         else if k = 1 then ds @ 101 # et
         else take 1 ds @ 46 # drop 1 ds @ 101 # et)"

definition mag_toString :: "rat \<Rightarrow> jsstring" where
  "mag_toString m =
     (if m = 0 then [48]
      else (let (ds, n) = shortest_digits m (floor_log10 m + 1) in layout_digits ds n))"

fun dbl_toString :: "double \<Rightarrow> jsstring" where
  "dbl_toString NaN = js ''NaN''"
| "dbl_toString (Infin s) = (if s then js ''-Infinity'' else js ''Infinity'')"
| "dbl_toString (Fin s m) = (if s \<and> m \<noteq> 0 then 45 # mag_toString m else mag_toString m)"

text \<open>\<open>x.toFixed(f)\<close>: the closest multiple of \<open>10 ^ -f\<close>, the larger of two.\<close>

definition fixed_text :: "nat \<Rightarrow> nat \<Rightarrow> jsstring" where
  "fixed_text n f =
     (let m = dec_nat n; z = replicate (Suc f - length m) 48 @ m
      in if f = 0 then m else take (length z - f) z @ 46 # drop (length z - f) z)"

fun toFixed :: "nat \<Rightarrow> double \<Rightarrow> jsstring" where
  "toFixed f NaN = js ''NaN''"
| "toFixed f (Infin s) = dbl_toString (Infin s)"
| "toFixed f (Fin s m) =
     (let t = (if 10 ^ 21 \<le> m then mag_toString m else fixed_text (nat \<lfloor>m * 10 ^ f + 1 / 2\<rfloor>) f)
      in if s \<and> m \<noteq> 0 then 45 # t else t)"

section \<open>The error of one rounding\<close>

lemma bitlen_rat:
  assumes "0 < (n :: int)"
  shows "(2 :: rat) powi (bitlen n - 1) \<le> of_int n" "of_int n < (2 :: rat) powi bitlen n"
proof -
  have b: "0 < bitlen n" using assms bitlen_nonneg [of n] bitlen_eq_zero_iff [of n] by linarith
  have "2 ^ nat (bitlen n - 1) \<le> n" and "n < 2 ^ nat (bitlen n)"
    using bitlen_bounds [OF assms] by simp_all
  then have "(of_int (2 ^ nat (bitlen n - 1)) :: rat) \<le> of_int n" "(of_int n :: rat) < of_int (2 ^ nat (bitlen n))"
    by (simp_all only: of_int_le_iff of_int_less_iff)
  then show "(2 :: rat) powi (bitlen n - 1) \<le> of_int n" "of_int n < (2 :: rat) powi bitlen n"
    using b by (simp_all add: power_int_def)
qed

lemma floor_log2_bounds:
  assumes "0 < x"
  shows "2 powi floor_log2 x \<le> x" "x < 2 powi (floor_log2 x + 1)"
proof -
  obtain n d where q: "quotient_of x = (n, d)" by (cases "quotient_of x") auto
  have d: "0 < d" using quotient_of_denom_pos [OF q] .
  have x: "x = of_int n / of_int d" using quotient_of_div [OF q] .
  have n: "0 < n" using assms d unfolding x by (simp add: zero_less_divide_iff)
  let ?l = "bitlen n - bitlen d"
  note bn = bitlen_rat [OF n] and bd = bitlen_rat [OF d]
  have dd: "(0 :: rat) < of_int d" using d by simp
  have "(2 :: rat) powi (?l - 1) * of_int d \<le> 2 powi (?l - 1) * 2 powi bitlen d"
    using bd by (intro mult_left_mono) simp_all
  also have "\<dots> = 2 powi (bitlen n - 1)" by (simp add: power_int_add [symmetric])
  finally have lo: "2 powi (?l - 1) \<le> x" using bn dd unfolding x by (simp add: field_simps)
  have "2 powi bitlen n = (2 :: rat) powi (?l + 1) * 2 powi (bitlen d - 1)"
    by (simp add: power_int_add [symmetric])
  also have "\<dots> \<le> 2 powi (?l + 1) * of_int d"
    using bd by (intro mult_left_mono) simp_all
  finally have hi: "x < 2 powi (?l + 1)" using bn dd unfolding x by (simp add: field_simps)
  show "2 powi floor_log2 x \<le> x" "x < 2 powi (floor_log2 x + 1)"
    using lo hi by (simp_all add: floor_log2_def q Let_def)
qed

lemma floor_log2_eq:
  assumes "2 powi l \<le> x" "x < 2 powi (l + 1)"
  shows "floor_log2 x = l"
proof -
  have "0 < (2 :: rat) powi l" by (intro zero_less_power_int) simp
  with assms(1) have x: "0 < x" by linarith
  note b = floor_log2_bounds [OF x]
  have m: "a < b'" if "(2 :: rat) powi a < 2 powi b'" for a b' :: int
    using that by (metis not_less one_le_numeral power_int_increasing)
  have "floor_log2 x < l + 1" by (rule m) (use b assms in linarith)
  moreover have "l < floor_log2 x + 1" by (rule m) (use b assms in linarith)
  ultimately show ?thesis by linarith
qed

lemma round_half_even_error: "\<bar>of_int (round_half_even x) - x\<bar> \<le> 1 / 2"
proof -
  have "of_int \<lfloor>x\<rfloor> \<le> x" "x < of_int \<lfloor>x\<rfloor> + 1" by linarith+
  then show ?thesis by (simp add: round_half_even_def Let_def abs_le_iff)
qed

lemma round_half_even_int [simp]: "round_half_even (of_int n) = n"
  by (simp add: round_half_even_def)

lemma round_mag_error_ulp: "0 < x \<Longrightarrow> \<bar>round_mag x - x\<bar> \<le> 2 powi ulp_exp x / 2"
proof -
  assume x: "0 < x"
  let ?u = "2 powi ulp_exp x :: rat"
  have u: "0 < ?u" by simp
  have "round_mag x - x = (of_int (round_half_even (x / ?u)) - x / ?u) * ?u"
    using x u by (simp add: round_mag_def Let_def field_simps)
  then have "\<bar>round_mag x - x\<bar> = \<bar>of_int (round_half_even (x / ?u)) - x / ?u\<bar> * ?u"
    using u by (simp add: abs_mult)
  also have "\<dots> \<le> 1 / 2 * ?u"
    using round_half_even_error [of "x / ?u"] u by (intro mult_right_mono) simp_all
  finally show ?thesis by simp
qed

text \<open>A normal number is rounded with a relative error of at most \<open>2 ^ -53\<close>.\<close>

lemma round_mag_error:
  assumes "2 powi (- 1022) \<le> x"
  shows "\<bar>round_mag x - x\<bar> \<le> x / 2 ^ 53"
proof -
  have "0 < (2 :: rat) powi (- 1022)" by (intro zero_less_power_int) simp
  with assms have x: "0 < x" by linarith
  have "- 1022 \<le> floor_log2 x"
  proof (rule ccontr)
    assume "\<not> - 1022 \<le> floor_log2 x"
    then have "(2 :: rat) powi (floor_log2 x + 1) \<le> 2 powi (- 1022)" by (intro power_int_increasing) simp_all
    then show False using floor_log2_bounds(2) [OF x] assms by linarith
  qed
  then have e: "ulp_exp x = floor_log2 x - 52" by (simp add: ulp_exp_def)
  have "(2 :: rat) powi ulp_exp x / 2 = 2 powi floor_log2 x / 2 ^ 53"
    by (simp add: e power_int_diff)
  also have "\<dots> \<le> x / 2 ^ 53" using floor_log2_bounds(1) [OF x] by (intro divide_right_mono) simp_all
  finally show ?thesis using round_mag_error_ulp [OF x] by linarith
qed

lemma round_mag_nonneg [simp]: "0 \<le> round_mag x"
proof (cases "0 < x")
  case True
  have "0 \<le> x / 2 powi ulp_exp x" using True by simp
  then have "0 \<le> \<lfloor>x / 2 powi ulp_exp x\<rfloor>" by (simp only: zero_le_floor)
  then have "0 \<le> round_half_even (x / 2 powi ulp_exp x)" by (auto simp: round_half_even_def Let_def)
  then show ?thesis using True by (simp add: round_mag_def Let_def)
qed (simp add: round_mag_def)

lemma round_mag_0 [simp]: "round_mag 0 = 0"
  by (simp add: round_mag_def)

text \<open>Integers of up to 53 bits are doubles.\<close>

lemma round_mag_of_nat:
  assumes "n < 2 ^ 53"
  shows "round_mag (of_nat n) = of_nat n"
proof (cases "n = 0")
  case False
  let ?x = "of_nat n :: rat"
  have x: "1 \<le> ?x" using False by (simp add: of_nat_0_less_iff [symmetric])
  then have x0: "0 < ?x" by linarith
  have "(of_nat n :: rat) < of_nat (2 ^ 53)" using assms by (simp only: of_nat_less_iff)
  then have x53: "?x < 2 powi 53" by (simp add: power_int_def)
  have "floor_log2 ?x < 53"
  proof (rule ccontr)
    assume "\<not> floor_log2 ?x < 53"
    then have "(2 :: rat) powi 53 \<le> 2 powi floor_log2 ?x" by (intro power_int_increasing) simp_all
    then show False using floor_log2_bounds(1) [OF x0] x53 by linarith
  qed
  moreover have "0 \<le> floor_log2 ?x"
  proof (rule ccontr)
    assume "\<not> 0 \<le> floor_log2 ?x"
    then have "(2 :: rat) powi (floor_log2 ?x + 1) \<le> 2 powi 0" by (intro power_int_increasing) simp_all
    then show False using floor_log2_bounds(2) [OF x0] x by simp
  qed
  ultimately obtain k where e: "ulp_exp ?x = - int k"
    using that [of "nat (52 - floor_log2 ?x)"] by (simp add: ulp_exp_def)
  have u: "2 powi ulp_exp ?x = 1 / (2 :: rat) ^ k" by (simp add: e power_int_minus divide_inverse)
  have "?x / 2 powi ulp_exp ?x = of_int (int n * 2 ^ k)" by (simp add: u)
  then have "round_half_even (?x / 2 powi ulp_exp ?x) = int n * 2 ^ k" by (simp only: round_half_even_int)
  then show ?thesis
    using x0 unfolding round_mag_def Let_def by (simp add: u)
qed simp

section \<open>Fixed-point amounts\<close>

lemma to_double_normal:
  assumes "2 powi (- 1022) \<le> x" "x \<le> 2 ^ 60"
  shows "to_double s x = Fin s (round_mag x)"
proof -
  have "x / 2 ^ 53 \<le> 2 ^ 60 / 2 ^ 53" using assms(2) by (intro divide_right_mono) simp_all
  then have "round_mag x \<le> 2 ^ 60 + 2 ^ 60 / 2 ^ 53" using round_mag_error [OF assms(1)] assms(2) by linarith
  also have "\<dots> < 2 powi 61" by (simp add: power_int_def)
  also have "\<dots> \<le> (2 :: rat) powi 1024" by (rule power_int_increasing) simp_all
  finally show ?thesis by (simp add: to_double_def Let_def)
qed

lemma to_double_of_nat: "n < 2 ^ 53 \<Longrightarrow> to_double s (of_nat n) = Fin s (of_nat n)"
proof (cases "n = 0")
  case False
  assume n: "n < 2 ^ 53"
  have "(2 :: rat) powi (- 1022) \<le> 2 powi 0" by (rule power_int_increasing) simp_all
  moreover have "1 \<le> (of_nat n :: rat)" using False by (simp add: Suc_le_eq flip: of_nat_1 of_nat_Suc)
  moreover have "(of_nat n :: rat) \<le> of_nat (2 ^ 60)" using n by (intro of_nat_mono) simp
  ultimately show ?thesis using to_double_normal [of "of_nat n" s] round_mag_of_nat [OF n] by simp
qed (simp add: to_double_def)

text \<open>
  An amount of \<open>k\<close> units of \<open>10 ^ -p\<close>: the double nearest to it stays within half a unit, and
  so does its product with \<open>10 ^ p\<close>, as long as \<open>k\<close> has at most 51 bits.
\<close>

lemma amount_double:
  assumes "0 < k" "k < 2 ^ 52" "p \<le> 15"
  obtains a where "to_double s (of_nat k / 10 ^ p) = Fin s a"
    "\<bar>a * 10 ^ p - of_nat k\<bar> \<le> of_nat k / 2 ^ 53" "0 < a" "a * 10 ^ p \<le> 2 ^ 53"
proof -
  let ?x = "of_nat k / 10 ^ p :: rat" and ?k = "of_nat k :: rat"
  have k: "1 \<le> ?k" using assms(1) by (simp add: Suc_le_eq flip: of_nat_1 of_nat_Suc)
  have "?k \<le> of_nat (2 ^ 52)" using assms(2) by (intro of_nat_mono) simp
  then have k52: "?k \<le> 2 ^ 52" by simp
  have p15: "(10 :: rat) ^ p \<le> 10 ^ 15" using assms(3) by (intro power_increasing) simp_all
  have p1: "1 \<le> (10 :: rat) ^ p" by simp
  have "(2 :: rat) powi (- 1022) \<le> 2 powi (- 50)" by (rule power_int_increasing) simp_all
  also have "(2 :: rat) powi (- 50) = 1 / 2 ^ 50" by (simp only: power_int_minus power_int_numeral inverse_eq_divide)
  also have "(1 :: rat) / 2 ^ 50 \<le> 1 / 10 ^ 15" by simp
  also have "\<dots> \<le> 1 / 10 ^ p" using p15 by (intro divide_left_mono) simp_all
  also have "\<dots> \<le> ?x" using k by (intro divide_right_mono) simp_all
  finally have lo: "2 powi (- 1022) \<le> ?x" .
  have "?x \<le> ?k / 1" using p1 k by (intro divide_left_mono) simp_all
  with k52 have hi: "?x \<le> 2 ^ 60" by simp
  let ?a = "round_mag ?x"
  have x0: "0 < ?x" using k by simp
  have e: "\<bar>?a - ?x\<bar> \<le> ?x / 2 ^ 53" by (rule round_mag_error [OF lo])
  have "?a * 10 ^ p - ?k = (?a - ?x) * 10 ^ p" by (simp add: algebra_simps)
  then have "\<bar>?a * 10 ^ p - ?k\<bar> = \<bar>?a - ?x\<bar> * 10 ^ p" by (simp add: abs_mult)
  also have "\<dots> \<le> ?x / 2 ^ 53 * 10 ^ p" using e by (intro mult_right_mono) simp_all
  also have "\<dots> = ?k / 2 ^ 53" by simp
  finally have e': "\<bar>?a * 10 ^ p - ?k\<bar> \<le> ?k / 2 ^ 53" .
  moreover have "0 < ?a" using e x0 by (simp add: abs_le_iff)
  moreover have "?a * 10 ^ p \<le> 2 ^ 53"
  proof -
    have "?k / 2 ^ 53 \<le> 2 ^ 52" using k52 by simp
    moreover have "(2 :: rat) ^ 53 = 2 ^ 52 + 2 ^ 52" by simp
    ultimately show ?thesis using e' k52 unfolding abs_le_iff by linarith
  qed
  ultimately show ?thesis using that [of ?a] to_double_normal [OF lo hi] by blast
qed

lemma floor_near: "\<bar>y - of_nat k\<bar> < 1 / 2 \<Longrightarrow> \<lfloor>y + 1 / 2 :: rat\<rfloor> = int k"
proof (rule floor_unique)
  assume "\<bar>y - of_nat k\<bar> < 1 / 2"
  then have "y - of_nat k < 1 / 2" "- (y - of_nat k) < 1 / 2" unfolding abs_less_iff by blast+
  then show "of_int (int k) \<le> y + 1 / 2" "y + 1 / 2 < of_int (int k) + 1" by simp_all
qed

lemma round_scaled_amount:
  assumes "k < 2 ^ 51" "p \<le> 15" "to_double s (of_nat k / 10 ^ p) = Fin s a"
  obtains b where "dbl_mul (Fin s a) (Fin False (10 ^ p)) = Fin s b" "\<lfloor>b + 1 / 2\<rfloor> = int k" "0 \<le> b" "b \<noteq> 0 \<or> k = 0"
proof (cases "k = 0")
  case True
  then have "a = 0" using assms(3) by (simp add: to_double_def)
  moreover have "\<lfloor>0 + 1 / 2 :: rat\<rfloor> = int 0" by (rule floor_near) simp
  ultimately show ?thesis using that [of 0] True by (simp add: to_double_def)
next
  case False
  let ?k = "of_nat k :: rat" and ?y = "a * 10 ^ p"
  have k52: "k < 2 ^ 52" using assms(1) by simp
  obtain a' where "to_double s (?k / 10 ^ p) = Fin s a'" "\<bar>a' * 10 ^ p - ?k\<bar> \<le> ?k / 2 ^ 53" "0 < a'" "a' * 10 ^ p \<le> 2 ^ 53"
    by (rule amount_double [of k p s]) (use False k52 assms(2) in auto)
  with assms(3) have a: "\<bar>?y - ?k\<bar> \<le> ?k / 2 ^ 53" "0 < a" "?y \<le> 2 ^ 53" by auto
  have k1: "1 \<le> ?k" using False by (simp add: Suc_le_eq flip: of_nat_1 of_nat_Suc)
  have "?k \<le> of_nat (2 ^ 51 - 1)" using assms(1) by (intro of_nat_mono) simp
  then have k51: "?k \<le> 2 ^ 51 - 1" by (simp add: of_nat_diff)
  have "?k / 2 ^ 53 \<le> ?k / 2" using k1 by (intro divide_left_mono) simp_all
  with a(1) k1 have y1: "1 / 2 \<le> ?y" unfolding abs_le_iff by linarith
  have "(2 :: rat) powi (- 1022) \<le> 2 powi (- 1)" by (rule power_int_increasing) simp_all
  with y1 have lo: "2 powi (- 1022) \<le> ?y" by simp
  have hi: "?y \<le> 2 ^ 60" using a(3) by simp
  have m: "dbl_mul (Fin s a) (Fin False (10 ^ p)) = Fin s (round_mag ?y)"
    using to_double_normal [OF lo hi] by simp
  have "\<bar>round_mag ?y - ?y\<bar> \<le> ?y / 2 ^ 53" by (rule round_mag_error [OF lo])
  with a(1) k51 have "\<bar>round_mag ?y - ?k\<bar> < 1 / 2"
    unfolding abs_less_iff abs_le_iff by (simp add: field_simps)
  then have f: "\<lfloor>round_mag ?y + 1 / 2\<rfloor> = int k" by (rule floor_near)
  have "0 \<le> round_mag ?y" by simp
  moreover have "round_mag ?y \<noteq> 0" using \<open>\<bar>round_mag ?y - ?k\<bar> < 1 / 2\<close> k1 by auto
  ultimately show ?thesis using that m f by blast
qed

text \<open>\<open>toFixed\<close> prints the amount again.\<close>

lemma toFixed_amount:
  assumes "k < 2 ^ 52" "p \<le> 15" "to_double False (of_nat k / 10 ^ p) = Fin False a"
  shows "toFixed p (Fin False a) = fixed_text k p"
proof (cases "k = 0")
  case True
  then have "a = 0" using assms(3) by (simp add: to_double_def)
  then show ?thesis using True by simp
next
  case False
  let ?k = "of_nat k :: rat"
  obtain a' where "to_double False (?k / 10 ^ p) = Fin False a'" "\<bar>a' * 10 ^ p - ?k\<bar> \<le> ?k / 2 ^ 53" "0 < a'" "a' * 10 ^ p \<le> 2 ^ 53"
    by (rule amount_double [of k p False]) (use False assms in auto)
  with assms(3) have a: "\<bar>a * 10 ^ p - ?k\<bar> \<le> ?k / 2 ^ 53" "0 < a" "a * 10 ^ p \<le> 2 ^ 53" by auto
  have "?k \<le> of_nat (2 ^ 52 - 1)" using assms(1) by (intro of_nat_mono) simp
  then have "?k \<le> 2 ^ 52 - 1" by (simp add: of_nat_diff)
  then have "?k / 2 ^ 53 < 1 / 2" by simp
  with a(1) have "\<bar>a * 10 ^ p - ?k\<bar> < 1 / 2" by (rule le_less_trans)
  then have f: "\<lfloor>a * 10 ^ p + 1 / 2\<rfloor> = int k" by (rule floor_near)
  have "a * 1 \<le> a * 10 ^ p" using a(2) by (intro mult_left_mono) simp_all
  then have "a \<le> 2 ^ 53" using a(3) by linarith
  then have "\<not> 10 ^ 21 \<le> a" by simp
  then show ?thesis using f by simp
qed

section \<open>Evaluation\<close>

lemma floor_rat_numeral [simp]: "\<lfloor>numeral a / numeral b :: rat\<rfloor> = numeral a div numeral b"
  using floor_divide_of_int_eq [of "numeral a" "numeral b", where ?'a = rat] by simp

text \<open>The rounding of a rational whose leading bit is known.\<close>

lemma round_mag_eval:
  assumes "2 powi l \<le> x" "x < 2 powi (l + 1)" "- 1022 \<le> l"
  shows "round_mag x = of_int (round_half_even (x / 2 powi (l - 52))) * 2 powi (l - 52)"
proof -
  have "0 < (2 :: rat) powi l" by (intro zero_less_power_int) simp
  with assms(1) have "0 < x" by linarith
  moreover have "ulp_exp x = l - 52"
    using assms(3) by (simp only: ulp_exp_def floor_log2_eq [OF assms(1,2)])
  ultimately show ?thesis by (simp add: round_mag_def Let_def)
qed

text \<open>Integers of up to 53 bits pass through the doubles unchanged.\<close>

lemma dbl_of_int_Fin: "\<bar>n\<bar> < 2 ^ 53 \<Longrightarrow> dbl_of_int n = Fin (n < 0) (of_int \<bar>n\<bar>)"
proof -
  assume "\<bar>n\<bar> < 2 ^ 53"
  then have "nat \<bar>n\<bar> < 2 ^ 53" by (simp add: nat_less_iff)
  from to_double_of_nat [OF this, of "n < 0"] show ?thesis
    by (simp add: dbl_of_int_def round_signed_def)
qed

lemma dbl_int_of_int:
  assumes "\<bar>n\<bar> < 2 ^ 53"
  shows "dbl_int (dbl_of_int n) = Some n" "dbl_trunc (dbl_of_int n) = Some n"
  by (cases "n < 0"; simp add: dbl_of_int_Fin [OF assms])+

end
