(* ===== verification/Assets.thy ===== *)
theory Assets
  imports Doubles Decimals
begin

text \<open>
  The TypeScript library \<open>client-libs/dblurt\<close>: its values and exceptions, and its assets and prices
  (\<open>chain/asset.ts\<close>), whose amounts are doubles. The lemmas show on which amounts these doubles
  are as good as the integers of the chain: text to asset and back is the identity below 52 bits.
\<close>

section \<open>Values and exceptions of the library\<close>

record asset_ts =
  as_amount :: double
  as_symbol :: jsstring

text \<open>
  The values its functions are called with: plain data and the instances of its own classes
  \<open>Asset\<close>, \<open>PublicKey\<close> (key and prefix) and \<open>HexBuffer\<close>.
\<close>

datatype tsval =
    UndefV | NullV | BoolV bool | NumV double | StrV jsstring | BufV "byte list"
  | ArrV "tsval list" | ObjV "(string \<times> tsval) list"
  | AssetV asset_ts | PubV "byte list" jsstring | HexV "byte list"

text \<open>
  An exception of the language or of \<open>bytebuffer\<close>, a failed \<open>assert\<close>, an \<open>Error\<close> of the library
  (named by the constant part of its message), one whose message was prefixed with \<open>key: \<close>, and one
  wrapped in a \<open>VError\<close>.
\<close>

datatype ts_error =
    Js js_error | AssertFail string | Thrown string | At jsstring ts_error | Wrapped string ts_error

definition ts_truthy :: "tsval \<Rightarrow> bool" where
  "ts_truthy v \<longleftrightarrow>
     (case v of UndefV \<Rightarrow> False | NullV \<Rightarrow> False | BoolV b \<Rightarrow> b | NumV d \<Rightarrow> d \<noteq> NaN \<and> \<not> dbl_eq d (Fin False 0)
      | StrV s \<Rightarrow> s \<noteq> [] | _ \<Rightarrow> True)"

definition assert_that :: "bool \<Rightarrow> string \<Rightarrow> ts_error + unit" where
  "assert_that c message = (if c then Inr () else Inl (AssertFail message))"

section \<open>Asset\<close>

definition asset_symbols :: "jsstring list" where
  "asset_symbols = map js [''BLURT'', ''HIVE'', ''VESTS'', ''HBD'', ''TESTS'', ''TBD'', ''SBD'', ''STEEM'']"

text \<open>An optional argument counts only when it is truthy.\<close>

definition expected :: "jsstring option \<Rightarrow> jsstring \<Rightarrow> bool" where
  "expected e0 s \<longleftrightarrow> (case e0 of None \<Rightarrow> True | Some e \<Rightarrow> e = [] \<or> s = e)"

definition Asset_fromString :: "jsstring \<Rightarrow> jsstring option \<Rightarrow> ts_error + asset_ts" where
  "Asset_fromString string expectedSymbol =
     (let parts = split_on 32 string; amountString = parts ! 0; amount = parseFloat amountString
      in if length parts < 2 \<or> parts ! 1 \<notin> set asset_symbols then Inl (Thrown ''Invalid asset symbol'')
         else if \<not> expected expectedSymbol (parts ! 1) then Inl (Thrown ''Invalid asset, expected symbol'')
         else if \<not> dbl_finite amount then Inl (Thrown ''Invalid asset amount'')
         else Inr \<lparr>as_amount = amount, as_symbol = parts ! 1\<rparr>)"

definition Asset_from :: "tsval \<Rightarrow> jsstring option \<Rightarrow> ts_error + asset_ts" where
  "Asset_from v expectedSymbol =
     (case v of
        AssetV a \<Rightarrow> if expected expectedSymbol (as_symbol a) then Inr a else Inl (Thrown ''Invalid asset, expected symbol'')
      | NumV d \<Rightarrow>
          if dbl_finite d
          then Inr \<lparr>as_amount = d, as_symbol = (case expectedSymbol of Some s \<Rightarrow> if s = [] then js ''STEEM'' else s | None \<Rightarrow> js ''STEEM'')\<rparr>
          else Inl (Thrown ''Invalid asset'')
      | StrV s \<Rightarrow> Asset_fromString s expectedSymbol
      | _ \<Rightarrow> Inl (Thrown ''Invalid asset''))"

definition Asset_min :: "asset_ts \<Rightarrow> asset_ts \<Rightarrow> ts_error + asset_ts" where
  "Asset_min a b =
     bindR (assert_that (as_symbol a = as_symbol b) ''can not compare assets with different symbols'') (\<lambda>_.
       Inr (if dbl_less (as_amount a) (as_amount b) then a else b))"

definition Asset_max :: "asset_ts \<Rightarrow> asset_ts \<Rightarrow> ts_error + asset_ts" where
  "Asset_max a b =
     bindR (assert_that (as_symbol a = as_symbol b) ''can not compare assets with different symbols'') (\<lambda>_.
       Inr (if dbl_less (as_amount b) (as_amount a) then a else b))"

text \<open>\<open>getPrecision\<close> is \<open>undefined\<close> for a symbol outside the list.\<close>

definition getPrecision :: "asset_ts \<Rightarrow> nat option" where
  "getPrecision a =
     (if as_symbol a \<in> set (map js [''BLURT'', ''TESTS'', ''TBD'', ''HIVE'', ''HBD'', ''SBD'', ''STEEM'']) then Some 3
      else if as_symbol a = js ''VESTS'' then Some 6 else None)"

definition steem_symbols :: "asset_ts \<Rightarrow> ts_error + asset_ts" where
  "steem_symbols a =
     (if as_symbol a = js ''HIVE'' then Asset_from (NumV (as_amount a)) (Some (js ''STEEM''))
      else if as_symbol a = js ''HBD'' then Asset_from (NumV (as_amount a)) (Some (js ''SBD''))
      else Inr a)"

definition Asset_toString :: "asset_ts \<Rightarrow> jsstring" where
  "Asset_toString a =
     toFixed (case getPrecision a of Some p \<Rightarrow> p | None \<Rightarrow> 0) (as_amount a) @ 32 # as_symbol a"

text \<open>The four operations: the argument as an asset of the same symbol, then the double.\<close>

definition asset_op :: "(double \<Rightarrow> double \<Rightarrow> double) \<Rightarrow> string \<Rightarrow> asset_ts \<Rightarrow> tsval \<Rightarrow> ts_error + asset_ts" where
  "asset_op f message a v =
     bindR (Asset_from v (Some (as_symbol a))) (\<lambda>other.
     bindR (assert_that (as_symbol a = as_symbol other) message) (\<lambda>_.
       Inr \<lparr>as_amount = f (as_amount a) (as_amount other), as_symbol = as_symbol a\<rparr>))"

definition Asset_add :: "asset_ts \<Rightarrow> tsval \<Rightarrow> ts_error + asset_ts" where
  "Asset_add = asset_op dbl_add ''can not add with different symbols''"

definition Asset_subtract :: "asset_ts \<Rightarrow> tsval \<Rightarrow> ts_error + asset_ts" where
  "Asset_subtract = asset_op dbl_sub ''can not subtract with different symbols''"

definition Asset_multiply :: "asset_ts \<Rightarrow> tsval \<Rightarrow> ts_error + asset_ts" where
  "Asset_multiply = asset_op dbl_mul ''can not multiply with different symbols''"

definition Asset_divide :: "asset_ts \<Rightarrow> tsval \<Rightarrow> ts_error + asset_ts" where
  "Asset_divide = asset_op dbl_div ''can not divide with different symbols''"

section \<open>Price\<close>

record price_ts =
  pr_base :: asset_ts
  pr_quote :: asset_ts

definition new_Price :: "asset_ts \<Rightarrow> asset_ts \<Rightarrow> ts_error + price_ts" where
  "new_Price base quote =
     bindR (assert_that (\<not> dbl_eq (as_amount base) (Fin False 0) \<and> \<not> dbl_eq (as_amount quote) (Fin False 0))
              ''base and quote assets must be non-zero'') (\<lambda>_.
     bindR (assert_that (as_symbol base \<noteq> as_symbol quote) ''base and quote can not have the same symbol'') (\<lambda>_.
       Inr \<lparr>pr_base = base, pr_quote = quote\<rparr>))"

definition Price_from :: "tsval \<Rightarrow> tsval \<Rightarrow> ts_error + price_ts" where
  "Price_from base quote =
     bindR (Asset_from base None) (\<lambda>b. bindR (Asset_from quote None) (\<lambda>q. new_Price b q))"

definition Price_toString :: "price_ts \<Rightarrow> jsstring" where
  "Price_toString p = Asset_toString (pr_base p) @ 58 # Asset_toString (pr_quote p)"

definition Price_convert :: "price_ts \<Rightarrow> asset_ts \<Rightarrow> ts_error + asset_ts" where
  "Price_convert p a =
     (let base = pr_base p; quote = pr_quote p
      in if as_symbol a = as_symbol base then
           bindR (assert_that (dbl_less (Fin False 0) (as_amount base)) []) (\<lambda>_.
             Inr \<lparr>as_amount = dbl_div (dbl_mul (as_amount a) (as_amount quote)) (as_amount base),
                  as_symbol = as_symbol quote\<rparr>)
         else if as_symbol a = as_symbol quote then
           bindR (assert_that (dbl_less (Fin False 0) (as_amount quote)) []) (\<lambda>_.
             Inr \<lparr>as_amount = dbl_div (dbl_mul (as_amount a) (as_amount base)) (as_amount quote),
                  as_symbol = as_symbol base\<rparr>)
         else Inl (Thrown ''Can not convert''))"

text \<open>\<open>chain/misc.ts\<close>: the price of a vesting share, one to one while either fund is empty.\<close>

definition getVestingSharePrice :: "tsval \<Rightarrow> tsval \<Rightarrow> ts_error + price_ts" where
  "getVestingSharePrice total_vesting_fund_hive total_vesting_shares =
     bindR (Asset_from total_vesting_fund_hive None) (\<lambda>totalVestingFund.
     bindR (Asset_from total_vesting_shares None) (\<lambda>totalVestingShares.
       if dbl_eq (as_amount totalVestingFund) (Fin False 0) \<or> dbl_eq (as_amount totalVestingShares) (Fin False 0)
       then new_Price \<lparr>as_amount = dbl_of_int 1, as_symbol = js ''VESTS''\<rparr> \<lparr>as_amount = dbl_of_int 1, as_symbol = js ''HIVE''\<rparr>
       else new_Price totalVestingShares totalVestingFund))"

section \<open>Text and amount\<close>

lemma fixed_text_implied: "fixed_text n p = implied_point (dec_nat n) p"
proof -
  have "0 < length (dec_nat n)" by simp
  then have "Suc 0 \<le> length (dec_nat n)" by (simp only: Suc_le_eq)
  then show ?thesis
    by (cases "p = 0") (auto simp: fixed_text_def implied_point_def pad_front_def Let_def)
qed

text \<open>A numeral with \<open>p\<close> decimal places is read as its value.\<close>

lemma parseFloat_digits:
  assumes "list_all is_digit w" "list_all is_digit f" "w \<noteq> []"
  shows "parseFloat (w @ (if f = [] then [] else 46 # f)) =
    to_double False (of_nat (digits_val (w @ f)) / 10 ^ length f)"
proof -
  let ?s = "w @ (if f = [] then [] else 46 # f)"
  obtain c r where w: "w = c # r" using assms(3) by (cases w) auto
  have c: "is_digit c" using assms(1) w by simp
  have d: "\<not> is_digit 46" by (simp add: is_digit_def)
  have tr: "dropWhile is_ws ?s = ?s" using c w by (simp add: digit_not_ws)
  have sg: "parse_sign ?s = (1, ?s)" using digit_not_sign [OF c] w by (simp add: parse_sign_def)
  have inf: "\<not> starts_with (js ''Infinity'') ?s"
    using c w by (auto simp: starts_with_def js_def is_digit_def)
  have t: "takeWhile is_digit (w @ 46 # t) = w" "dropWhile is_digit (w @ 46 # t) = 46 # t" for t
    using assms(1) d by (simp_all add: takeWhile_append dropWhile_append list_all_iff)
  have e: "(10 :: rat) powi (- int n) = 1 / 10 ^ n" for n
    by (simp add: power_int_minus divide_inverse)
  have "decimal_prefix ?s = Some (of_nat (digits_val (w @ f)) / 10 ^ length f)"
  proof (cases "f = []")
    case True
    then show ?thesis using assms(1,3) by (simp add: decimal_prefix_def exponent_prefix_def)
  next
    case False
    then show ?thesis using assms t by (simp add: decimal_prefix_def exponent_prefix_def Let_def e)
  qed
  then show ?thesis using tr sg inf by (simp add: parseFloat_def)
qed

lemma parseFloat_fixed: "parseFloat (fixed_text n p) = to_double False (of_nat n / 10 ^ p)"
proof -
  obtain w f where wf: "implied_point (dec_nat n) p = w @ (if p = 0 then [] else 46 # f)" "length f = p" "w \<noteq> []"
      "list_all is_digit w" "list_all is_digit f" "digits_val (w @ f) = n"
    using implied_point_split [of "dec_nat n" p] by (metis dec_nat_digits dec_nat_not_Nil digits_val_dec_nat)
  have "(if p = 0 then [] else 46 # f) = (if f = [] then [] else 46 # f)" using wf(2) by auto
  then show ?thesis using wf parseFloat_digits [OF wf(4,5,3)] by (simp add: fixed_text_implied)
qed

text \<open>The text of an amount holds no blank.\<close>

lemma fixed_text_no_blank: "32 \<notin> set (fixed_text n p)"
proof -
  obtain w f where wf: "implied_point (dec_nat n) p = w @ (if p = 0 then [] else 46 # f)"
      "list_all is_digit w" "list_all is_digit f"
    using implied_point_split [of "dec_nat n" p] by (metis dec_nat_digits dec_nat_not_Nil)
  then show ?thesis using digits_no [of w 32] digits_no [of f 32] by (simp add: fixed_text_implied is_digit_def)
qed

definition precision_of :: "jsstring \<Rightarrow> nat" where
  "precision_of sy = (if sy = js ''VESTS'' then 6 else 3)"

definition amount_text :: "nat \<Rightarrow> jsstring \<Rightarrow> jsstring" where
  "amount_text k sy = fixed_text k (precision_of sy) @ 32 # sy"

lemma asset_symbols_set: "sy \<in> set asset_symbols \<longleftrightarrow>
  sy = js ''BLURT'' \<or> sy = js ''HIVE'' \<or> sy = js ''VESTS'' \<or> sy = js ''HBD'' \<or> sy = js ''TESTS'' \<or> sy = js ''TBD''
  \<or> sy = js ''SBD'' \<or> sy = js ''STEEM''"
  by (auto simp: asset_symbols_def)

lemma symbol_no_blank: "sy \<in> set asset_symbols \<Longrightarrow> 32 \<notin> set sy"
  by (auto simp: asset_symbols_set js_def)

lemma getPrecision_symbol: "as_symbol a \<in> set asset_symbols \<Longrightarrow> getPrecision a = Some (precision_of (as_symbol a))"
  by (auto simp: asset_symbols_set getPrecision_def precision_of_def js_def)

lemma fromString_amount:
  assumes "k < 2 ^ 52" "sy \<in> set asset_symbols"
  obtains a where "Asset_fromString (amount_text k sy) None = Inr \<lparr>as_amount = Fin False a, as_symbol = sy\<rparr>"
    "to_double False (of_nat k / 10 ^ precision_of sy) = Fin False a"
proof -
  have p: "precision_of sy \<le> 15" by (simp add: precision_of_def)
  obtain a where a: "to_double False (of_nat k / 10 ^ precision_of sy) = Fin False a"
  proof (cases "k = 0")
    case True
    then show ?thesis using that by (simp add: to_double_def)
  next
    case False
    then show ?thesis using amount_double [OF _ assms(1) p] that by blast
  qed
  have "split_on 32 (amount_text k sy) = [fixed_text k (precision_of sy), sy]"
    using split_on_once [OF fixed_text_no_blank, of k "precision_of sy" sy]
      split_on_none [OF symbol_no_blank [OF assms(2)]] by (simp add: amount_text_def)
  then have "Asset_fromString (amount_text k sy) None = Inr \<lparr>as_amount = Fin False a, as_symbol = sy\<rparr>"
    using assms(2) a by (simp add: Asset_fromString_def Let_def expected_def parseFloat_fixed)
  then show ?thesis using a that by blast
qed

text \<open>Reading the text of an asset and printing it again is the identity below 52 bits.\<close>

lemma fromString_toString:
  assumes "k < 2 ^ 52" "sy \<in> set asset_symbols"
  shows "map_sum id Asset_toString (Asset_fromString (amount_text k sy) None) = Inr (amount_text k sy)"
proof -
  obtain a where a: "Asset_fromString (amount_text k sy) None = Inr \<lparr>as_amount = Fin False a, as_symbol = sy\<rparr>"
    "to_double False (of_nat k / 10 ^ precision_of sy) = Fin False a" by (rule fromString_amount [OF assms])
  have "toFixed (precision_of sy) (Fin False a) = fixed_text k (precision_of sy)"
    by (rule toFixed_amount [OF assms(1) _ a(2)]) (simp add: precision_of_def)
  then show ?thesis
    using a(1) assms(2) getPrecision_symbol [of "\<lparr>as_amount = Fin False a, as_symbol = sy\<rparr>"]
    by (simp add: Asset_toString_def amount_text_def del: toFixed.simps)
qed

text \<open>An amount between the two bounds whose product is not its number of units.\<close>

lemma round_mag_example:
  "round_mag (4294994912509237 / 1000000) = 2251814292689643 / 524288"
  "round_mag (35184598323275671875 / 8192) = 8589989825018475 / 2"
proof -
  have scale: "(2 :: rat) powi (32 - 52) = 1 / 1048576" "(2 :: rat) powi (51 - 52) = 1 / 2"
    by (simp_all add: power_int_def power_one_over)
  have "round_mag (4294994912509237 / 1000000) =
      of_int (round_half_even (4294994912509237 / 1000000 / 2 powi (32 - 52))) * 2 powi (32 - 52)"
    by (rule round_mag_eval) simp_all
  then show "round_mag (4294994912509237 / 1000000) = 2251814292689643 / 524288"
    unfolding scale by (simp add: round_half_even_def Let_def)
  have "round_mag (35184598323275671875 / 8192) =
      of_int (round_half_even (35184598323275671875 / 8192 / 2 powi (51 - 52))) * 2 powi (51 - 52)"
    by (rule round_mag_eval) simp_all
  then show "round_mag (35184598323275671875 / 8192) = 8589989825018475 / 2"
    unfolding scale by (simp add: round_half_even_def Let_def)
qed

lemma to_double_below: "round_mag x < 2 ^ 64 \<Longrightarrow> to_double s x = Fin s (round_mag x)"
proof -
  assume "round_mag x < 2 ^ 64"
  moreover have "(2 :: rat) ^ 64 \<le> 2 ^ 1024" by (rule power_increasing) simp_all
  ultimately show ?thesis by (simp add: to_double_def Let_def)
qed

lemma inexact_amount:
  "\<exists>a. Asset_fromString (js ''4294994912.509237 VESTS'') None =
       Inr \<lparr>as_amount = Fin False a, as_symbol = js ''VESTS''\<rparr> \<and>
     dbl_trunc (Math_round (dbl_mul (Fin False a) (dbl_of_int 1000000))) = Some 4294994912509238"
proof -
  have t: "js ''4294994912.509237 VESTS'' = amount_text 4294994912509237 (js ''VESTS'')"
    by (simp add: amount_text_def precision_of_def fixed_text_def dec_nat.simps Let_def js_def)
  have p: "precision_of (js ''VESTS'') = 6" "js ''VESTS'' \<in> set asset_symbols" by (simp_all add: precision_of_def asset_symbols_def)
  obtain a where a: "Asset_fromString (js ''4294994912.509237 VESTS'') None = Inr \<lparr>as_amount = Fin False a, as_symbol = js ''VESTS''\<rparr>"
    "to_double False (4294994912509237 / 1000000) = Fin False a"
    using fromString_amount [of 4294994912509237 "js ''VESTS''"] p unfolding t by auto
  then have "a = 2251814292689643 / 524288" by (simp add: to_double_below round_mag_example)
  then have "a * 1000000 = 35184598323275671875 / 8192" by simp
  then have "to_double False (a * 1000000) = Fin False (8589989825018475 / 2)"
    by (simp only:) (simp add: to_double_below round_mag_example)
  moreover have "dbl_of_int 1000000 = Fin False 1000000" by (subst dbl_of_int_Fin) simp_all
  ultimately have "dbl_mul (Fin False a) (dbl_of_int 1000000) = Fin False (8589989825018475 / 2)" by simp
  then show ?thesis using a(1) by (simp add: dbl_val_def del: dbl_mul.simps)
qed

end
