(* ===== verification/TsKeys.thy ===== *)
theory TsKeys
  imports Assets PrivateKeys
begin

text \<open>
  Keys of the TypeScript library (\<open>client-libs/dblurt/src/crypto.ts\<close>): the checksummed base-58 texts
  of public and private keys, the two key classes and \<open>isWif\<close>. The curve is the package
  \<open>secp256k1\<close>, a parameter; hashes and base 58 are those of the environment. The lemmas relate
  the texts to those of \<open>blurtjs\<close>: a key printed by one library is read by the other.
\<close>

section \<open>The curve\<close>

record secp256k1 =
  publicKeyVerify :: "byte list \<Rightarrow> bool"
  privateKeyVerify :: "byte list \<Rightarrow> bool"
  publicKeyCreate :: "byte list \<Rightarrow> ts_error + byte list"
  secp_sign :: "byte list \<Rightarrow> byte list \<Rightarrow> byte list \<Rightarrow> ts_error + byte list \<times> int"
    \<comment> \<open>message, key and the \<open>data\<close> of the options; signature and recovery number\<close>
  secp_verify :: "byte list \<Rightarrow> byte list \<Rightarrow> byte list \<Rightarrow> ts_error + bool"
  secp_recover :: "byte list \<Rightarrow> byte list \<Rightarrow> int \<Rightarrow> ts_error + byte list"

definition js_err :: "js_error + 'a \<Rightarrow> ts_error + 'a" where
  "js_err r = (case r of Inl e \<Rightarrow> Inl (Js e) | Inr x \<Rightarrow> Inr x)"

lemma js_err_simps [simp]: "js_err (Inl e) = Inl (Js e)" "js_err (Inr x) = Inr x"
  by (simp_all add: js_err_def)

lemma js_err_eq_Inr: "js_err r = Inr x \<longleftrightarrow> r = Inr x"
  by (cases r) simp_all

definition DEFAULT_ADDRESS_PREFIX :: jsstring where
  "DEFAULT_ADDRESS_PREFIX = js ''BLT''"

definition DEFAULT_CHAIN_ID :: "byte list" where
  "DEFAULT_CHAIN_ID = fromHex (js ''cd8d90f29ae273abec3eaa7731e25934c63eb654d55080caff2ebb7f5df6381f'')"

definition NETWORK_ID :: "byte list" where
  "NETWORK_ID = [0x80]"

section \<open>Texts of keys\<close>

definition doubleSha256 :: "env \<Rightarrow> byte list \<Rightarrow> byte list" where
  "doubleSha256 E input = sha256 E (sha256 E input)"

text \<open>\<open>buffer.slice(0, -4)\<close> and \<open>buffer.slice(-4)\<close>\<close>

definition split_checksum :: "byte list \<Rightarrow> byte list \<times> byte list" where
  "split_checksum bs = (take (length bs - 4) bs, drop (length bs - 4) bs)"

definition encodePublic :: "env \<Rightarrow> byte list \<Rightarrow> jsstring \<Rightarrow> jsstring" where
  "encodePublic E key prefix =
     (let checksum = ripemd160 E key in prefix @ base58_encode E (key @ take 4 checksum))"

definition decodePublic :: "env \<Rightarrow> jsstring \<Rightarrow> ts_error + byte list \<times> jsstring" where
  "decodePublic E encodedKey =
     (let prefix = take 3 encodedKey
      in bindR (assert_that (length prefix = 3) ''public key invalid prefix'') (\<lambda>_.
         bindR (js_err (base58_decode E (drop 3 encodedKey))) (\<lambda>buffer.
         let (key, checksum) = split_checksum buffer; checksumVerify = take 4 (ripemd160 E key)
         in bindR (assert_that (checksumVerify = checksum) ''public key checksum mismatch'') (\<lambda>_.
              Inr (key, prefix)))))"

definition encodePrivate :: "env \<Rightarrow> byte list \<Rightarrow> ts_error + jsstring" where
  "encodePrivate E key =
     (case key of [] \<Rightarrow> Inl (Js RangeError)
      | network # _ \<Rightarrow>
          bindR (assert_that (network = 0x80) ''private key network id mismatch'') (\<lambda>_.
          let checksum = doubleSha256 E key in Inr (base58_encode E (key @ take 4 checksum))))"

definition decodePrivate :: "env \<Rightarrow> jsstring \<Rightarrow> ts_error + byte list" where
  "decodePrivate E encodedKey =
     bindR (js_err (base58_decode E encodedKey)) (\<lambda>buffer.
     bindR (assert_that (take 1 buffer = NETWORK_ID) ''private key network id mismatch'') (\<lambda>_.
     let (key, checksum) = split_checksum buffer; checksumVerify = take 4 (doubleSha256 E key)
     in bindR (assert_that (checksumVerify = checksum) ''private key checksum mismatch'') (\<lambda>_. Inr key)))"

text \<open>\<open>isWif\<close> compares the checksums as decoded text, and does not look at the network byte.\<close>

definition ts_isWif :: "env \<Rightarrow> jsstring \<Rightarrow> bool" where
  "ts_isWif E privWif =
     (case base58_decode E privWif of
        Inl _ \<Rightarrow> False
      | Inr bufWif \<Rightarrow>
          (let (privKey, checksum) = split_checksum bufWif;
               newChecksum = take 4 (sha256 E (sha256 E privKey))
           in node_decode checksum = node_decode newChecksum))"

section \<open>PublicKey\<close>

text \<open>An instance is the pair of its \<open>key\<close> and its \<open>prefix\<close>.\<close>

type_synonym ts_public = "byte list \<times> jsstring"

definition new_PublicKey :: "secp256k1 \<Rightarrow> byte list \<Rightarrow> jsstring option \<Rightarrow> ts_error + ts_public" where
  "new_PublicKey S key prefix =
     bindR (assert_that (publicKeyVerify S key) ''invalid public key'') (\<lambda>_.
       Inr (key, case prefix of None \<Rightarrow> DEFAULT_ADDRESS_PREFIX | Some p \<Rightarrow> p))"

definition ts_PublicKey_fromString :: "env \<Rightarrow> secp256k1 \<Rightarrow> jsstring \<Rightarrow> ts_error + ts_public" where
  "ts_PublicKey_fromString E S wif =
     bindR (decodePublic E wif) (\<lambda>(key, prefix). new_PublicKey S key (Some prefix))"

text \<open>\<open>PublicKey.from\<close>: only a string has the characters that \<open>fromString\<close> slices.\<close>

definition PublicKey_from :: "env \<Rightarrow> secp256k1 \<Rightarrow> tsval \<Rightarrow> ts_error + ts_public" where
  "PublicKey_from E S v =
     (case v of
        PubV key prefix \<Rightarrow> Inr (key, prefix)
      | StrV s \<Rightarrow> ts_PublicKey_fromString E S s
      | _ \<Rightarrow> Inl (Js TypeError))"

definition ts_PublicKey_toString :: "env \<Rightarrow> ts_public \<Rightarrow> jsstring" where
  "ts_PublicKey_toString E pk = encodePublic E (fst pk) (snd pk)"

section \<open>PrivateKey\<close>

text \<open>An instance is its \<open>key\<close>.\<close>

definition new_PrivateKey :: "secp256k1 \<Rightarrow> byte list \<Rightarrow> ts_error + byte list" where
  "new_PrivateKey S key =
     bindR (assert_that (privateKeyVerify S key) ''invalid private key'') (\<lambda>_. Inr key)"

definition ts_PrivateKey_fromString :: "env \<Rightarrow> secp256k1 \<Rightarrow> jsstring \<Rightarrow> ts_error + byte list" where
  "ts_PrivateKey_fromString E S wif =
     bindR (decodePrivate E wif) (\<lambda>key. new_PrivateKey S (drop 1 key))"

definition ts_PrivateKey_fromSeed :: "env \<Rightarrow> secp256k1 \<Rightarrow> jsstring \<Rightarrow> ts_error + byte list" where
  "ts_PrivateKey_fromSeed E S seed = new_PrivateKey S (sha256 E (node_encode seed))"

definition PrivateKey_fromLogin :: "env \<Rightarrow> secp256k1 \<Rightarrow> jsstring \<Rightarrow> jsstring \<Rightarrow> jsstring \<Rightarrow> ts_error + byte list" where
  "PrivateKey_fromLogin E S username password role =
     (let seed = username @ role @ password in ts_PrivateKey_fromSeed E S seed)"

definition PrivateKey_from :: "env \<Rightarrow> secp256k1 \<Rightarrow> jsstring + byte list \<Rightarrow> ts_error + byte list" where
  "PrivateKey_from E S v =
     (case v of Inl s \<Rightarrow> ts_PrivateKey_fromString E S s | Inr key \<Rightarrow> new_PrivateKey S key)"

definition createPublic :: "secp256k1 \<Rightarrow> byte list \<Rightarrow> jsstring option \<Rightarrow> ts_error + ts_public" where
  "createPublic S key prefix = bindR (publicKeyCreate S key) (\<lambda>pk. new_PublicKey S pk prefix)"

definition ts_PrivateKey_toString :: "env \<Rightarrow> byte list \<Rightarrow> ts_error + jsstring" where
  "ts_PrivateKey_toString E key = encodePrivate E (NETWORK_ID @ key)"

definition PrivateKey_inspect :: "env \<Rightarrow> byte list \<Rightarrow> ts_error + jsstring" where
  "PrivateKey_inspect E key =
     bindR (ts_PrivateKey_toString E key) (\<lambda>k.
       Inr (js ''PrivateKey: '' @ take 6 k @ js ''...'' @ drop (length k - 6) k))"

section \<open>Texts are read back\<close>

lemma split_checksum_append [simp]: "length c = 4 \<Longrightarrow> split_checksum (body @ c) = (body, c)"
  by (simp add: split_checksum_def)

lemma decodePublic_encode:
  assumes "base58_ok E key" "length prefix = 3"
  shows "decodePublic E (encodePublic E key prefix) = Inr (key, prefix)"
proof -
  have "length (take 4 (ripemd160 E key)) = 4" using assms(1) by (simp add: base58_ok_def)
  then show ?thesis
    using assms by (simp add: decodePublic_def encodePublic_def assert_that_def base58_ok_def Let_def)
qed

text \<open>The library of JavaScript and the library of TypeScript print the same text.\<close>

lemma encodePublic_toPublicKeyString:
  "encodePublic E (PublicKey_toBuffer E Q) prefix = toPublicKeyString E prefix Q"
  by (simp add: encodePublic_def toPublicKeyString_def Let_def)

lemma wif_toString: "ts_PrivateKey_toString E key = Inr (base58_encode E (wif_bytes E key))"
  by (simp add: ts_PrivateKey_toString_def encodePrivate_def NETWORK_ID_def assert_that_def wif_bytes_def
      wif_checksum_def doubleSha256_def Let_def)

lemma decodePrivate_wif:
  assumes "base58_decode E s = Inr (wif_bytes E key)" "4 \<le> length (sha256 E (sha256 E (128 # key)))"
  shows "decodePrivate E s = Inr (128 # key)"
proof -
  have "length (take 4 (sha256 E (sha256 E (128 # key)))) = 4" using assms(2) by simp
  then show ?thesis
    using assms split_checksum_append [of "take 4 (sha256 E (sha256 E (128 # key)))" "128 # key"]
    by (simp add: decodePrivate_def wif_bytes_def wif_checksum_def assert_that_def NETWORK_ID_def doubleSha256_def Let_def)
qed

lemma decodePrivate_Inr:
  "decodePrivate E s = Inr key \<Longrightarrow>
     \<exists>bs. base58_decode E s = Inr bs \<and> take 1 bs = [128] \<and> key = take (length bs - 4) bs \<and>
       drop (length bs - 4) bs = take 4 (doubleSha256 E key)"
  by (auto simp: decodePrivate_def bindR_eq_Inr js_err_eq_Inr assert_that_def split_checksum_def NETWORK_ID_def Let_def
      split: if_splits)

end
