(* ===== verification/TsSerializer.thy ===== *)
theory TsSerializer
  imports TsKeys TypeBase
begin

text \<open>
  The serializers of the TypeScript library (\<open>client-libs/dblurt/src/chain/serializer.ts\<close>): one
  function per type that appends a value to the same \<open>ByteBuffer\<close>, and the combinators for
  arrays, flat maps, objects, optional values and static variants. An exception of a field is
  rethrown with the key in front of its message.
\<close>

type_synonym serializer = "bytebuffer \<Rightarrow> tsval \<Rightarrow> ts_error + bytebuffer"

section \<open>Language operations on values\<close>

text \<open>A number as the integer writers of \<open>ByteBuffer\<close> take it: a fraction is not an integer.\<close>

definition num_js :: "int option \<Rightarrow> jsval" where
  "num_js n = (case n of Some i \<Rightarrow> JNum i | None \<Rightarrow> JNaN)"

fun prim_js :: "tsval \<Rightarrow> jsval" where
  "prim_js (NumV d) = num_js (dbl_int d)"
| "prim_js (StrV s) = JStr s"
| "prim_js _ = JUndef"

text \<open>The 64-bit writers truncate a number (\<open>Long.fromNumber\<close>) and parse a string.\<close>

fun long_js :: "tsval \<Rightarrow> jsval" where
  "long_js (NumV d) = num_js (dbl_trunc d)"
| "long_js (StrV s) = JStr s"
| "long_js _ = JUndef"

text \<open>\<open>data[key]\<close>\<close>

fun ts_get :: "tsval \<Rightarrow> string \<Rightarrow> ts_error + tsval" where
  "ts_get UndefV k = Inl (Js TypeError)"
| "ts_get NullV k = Inl (Js TypeError)"
| "ts_get (ObjV kvs) k = Inr (case map_of kvs k of None \<Rightarrow> UndefV | Some v \<Rightarrow> v)"
| "ts_get (ArrV xs) k = Inr (if k = ''length'' then NumV (dbl_of_int (int (length xs))) else UndefV)"
| "ts_get (StrV s) k = Inr (if k = ''length'' then NumV (dbl_of_int (int (length s))) else UndefV)"
| "ts_get (BufV bs) k = Inr (if k = ''length'' then NumV (dbl_of_int (int (length bs))) else UndefV)"
| "ts_get (AssetV a) k =
     Inr (if k = ''amount'' then NumV (as_amount a) else if k = ''symbol'' then StrV (as_symbol a) else UndefV)"
| "ts_get (PubV key prefix) k = Inr (if k = ''key'' then BufV key else if k = ''prefix'' then StrV prefix else UndefV)"
| "ts_get (HexV bs) k = Inr (if k = ''buffer'' then BufV bs else UndefV)"
| "ts_get v k = Inr UndefV"

text \<open>\<open>for (const item of data)\<close>: strings are iterated by code point.\<close>

definition high_unit :: "code_unit \<Rightarrow> bool" where
  "high_unit c \<longleftrightarrow> 55296 \<le> c \<and> c \<le> 56319"

definition low_unit :: "code_unit \<Rightarrow> bool" where
  "low_unit c \<longleftrightarrow> 56320 \<le> c \<and> c \<le> 57343"

fun code_points :: "jsstring \<Rightarrow> jsstring list" where
  "code_points (a # b # r) =
     (if high_unit a \<and> low_unit b then [a, b] # code_points r else [a] # code_points (b # r))"
| "code_points [a] = [[a]]"
| "code_points [] = []"

fun ts_iter :: "tsval \<Rightarrow> ts_error + tsval list" where
  "ts_iter (ArrV xs) = Inr xs"
| "ts_iter (StrV s) = Inr (map StrV (code_points s))"
| "ts_iter (BufV bs) = Inr (map (\<lambda>b. NumV (dbl_of_int (uint b))) bs)"
| "ts_iter _ = Inl (Js TypeError)"

text \<open>\<open>const [a, b] = data\<close>: what is missing is \<open>undefined\<close>.\<close>

definition ts_pair :: "tsval \<Rightarrow> ts_error + tsval \<times> tsval" where
  "ts_pair v =
     bindR (ts_iter v) (\<lambda>xs.
       Inr (case xs of [] \<Rightarrow> (UndefV, UndefV) | [a] \<Rightarrow> (a, UndefV) | a # b # _ \<Rightarrow> (a, b)))"

text \<open>\<open>String(v)\<close>\<close>

fun ts_String :: "env \<Rightarrow> tsval \<Rightarrow> jsstring" where
  "ts_String E UndefV = js ''undefined''"
| "ts_String E NullV = js ''null''"
| "ts_String E (BoolV b) = js (if b then ''true'' else ''false'')"
| "ts_String E (NumV d) = dbl_toString d"
| "ts_String E (StrV s) = s"
| "ts_String E (BufV bs) = node_decode bs"
| "ts_String E (ArrV xs) =
     intersperse_with 44 (map (\<lambda>x. if x = UndefV \<or> x = NullV then [] else ts_String E x) xs)"
| "ts_String E (ObjV kvs) = js ''[object Object]''"
| "ts_String E (AssetV a) = Asset_toString a"
| "ts_String E (PubV key prefix) = encodePublic E key prefix"
| "ts_String E (HexV bs) = toHex bs"

section \<open>Primitive types\<close>

definition VoidSerializer :: serializer where
  "VoidSerializer b data = Inl (Thrown ''Void can not be serialized'')"

definition StringSerializer :: serializer where
  "StringSerializer b data = js_err (writeVString b (prim_js data))"

definition writeInt8 :: "bytebuffer \<Rightarrow> jsval \<Rightarrow> js_error + bytebuffer" where
  "writeInt8 b v = (case v of JNum n \<Rightarrow> bb_write 1 [of_int n] b | _ \<Rightarrow> Inl TypeError)"

definition Int8Serializer :: serializer where
  "Int8Serializer b data = js_err (writeInt8 b (prim_js data))"

definition Int16Serializer :: serializer where
  "Int16Serializer b data = js_err (writeInt16 b (prim_js data))"

definition Int32Serializer :: serializer where
  "Int32Serializer b data = js_err (writeInt32 b (prim_js data))"

definition Int64Serializer :: serializer where
  "Int64Serializer b data = js_err (writeInt64 b (long_js data))"

definition UInt8Serializer :: serializer where
  "UInt8Serializer b data = js_err (writeUint8 b (prim_js data))"

definition UInt16Serializer :: serializer where
  "UInt16Serializer b data = js_err (writeUint16 b (prim_js data))"

definition UInt32Serializer :: serializer where
  "UInt32Serializer b data = js_err (writeUint32 b (prim_js data))"

definition UInt64Serializer :: serializer where
  "UInt64Serializer b data = js_err (writeUint64 b (long_js data))"

definition BooleanSerializer :: serializer where
  "BooleanSerializer b data = js_err (writeInt8 b (JNum (if ts_truthy data then 1 else 0)))"

section \<open>Assets, dates, keys and bytes\<close>

text \<open>\<open>asset.symbol.charCodeAt(i) || 0\<close>\<close>

definition symbol_code :: "jsstring \<Rightarrow> nat \<Rightarrow> int" where
  "symbol_code s i = (if i < length s then uint (s ! i) else 0)"

definition AssetSerializer :: serializer where
  "AssetSerializer b data =
     bindR (bindR (Asset_from data None) steem_symbols) (\<lambda>asset.
       case getPrecision asset of
         None \<Rightarrow> bindR (js_err (writeInt64 b JNaN)) (\<lambda>_. Inl (Js TypeError))
       | Some precision \<Rightarrow>
           bindR (js_err (writeInt64 b (num_js (dbl_trunc (Math_round
             (dbl_mul (as_amount asset) (dbl_of_int (10 ^ precision)))))))) (\<lambda>b1.
           bindR (js_err (writeUint8 b1 (JNum (int precision)))) (\<lambda>b2.
             foldR (\<lambda>b' i. js_err (writeUint8 b' (JNum (symbol_code (as_symbol asset) i)))) b2 [0..<7])))"

text \<open>\<open>Math.floor(new Date(data + "Z").getTime() / 1000)\<close>; the quotient of a time value is exact enough
  that its floor is that of the rational.\<close>

definition DateSerializer :: "env \<Rightarrow> serializer" where
  "DateSerializer E b data =
     js_err (writeUint32 b (num_js (map_option (\<lambda>ms. ms div 1000) (date_getTime E (ts_String E data @ [90])))))"

text \<open>\<open>buffer.append(bytes)\<close>\<close>

definition append_bytes :: "bytebuffer \<Rightarrow> byte list \<Rightarrow> ts_error + bytebuffer" where
  "append_bytes b bs =
     (if bb_offset b > length (bb_view b) then Inl (Js RangeError)
      else if bs = [] then Inr b else js_err (bb_write (length bs) bs b))"

definition ends_with :: "jsstring \<Rightarrow> jsstring \<Rightarrow> bool" where
  "ends_with t s \<longleftrightarrow> length t \<le> length s \<and> drop (length s - length t) s = t"

definition null_key_suffix :: jsstring where
  "null_key_suffix = js ''1111111111111111111111111111111114T1Anm''"

definition PublicKeySerializer :: "env \<Rightarrow> secp256k1 \<Rightarrow> serializer" where
  "PublicKeySerializer E S b data =
     (if data = NullV \<or> (case data of StrV s \<Rightarrow> ends_with null_key_suffix s | _ \<Rightarrow> False)
      then append_bytes b (replicate 33 0)
      else bindR (PublicKey_from E S data) (\<lambda>(key, prefix). append_bytes b key))"

text \<open>\<open>Buffer.from(value)\<close> for what is neither a buffer nor a string: numbers are taken modulo 256.\<close>

fun elem_byte :: "env \<Rightarrow> tsval \<Rightarrow> byte" where
  "elem_byte E (NumV d) = (case dbl_trunc d of Some n \<Rightarrow> of_int n | None \<Rightarrow> 0)"
| "elem_byte E (BoolV t) = (if t then 1 else 0)"
| "elem_byte E UndefV = 0"
| "elem_byte E NullV = 0"
| "elem_byte E v = ucast (numeric_int32 (js_Number (ts_String E v)))"

definition array_like :: "(string \<times> tsval) list \<Rightarrow> nat \<Rightarrow> tsval list" where
  "array_like kvs n =
     map (\<lambda>i. case map_of (map (\<lambda>(k, x). (js k, x)) kvs) (dec_nat i) of None \<Rightarrow> UndefV | Some x \<Rightarrow> x) [0..<n]"

definition Buffer_from_object :: "env \<Rightarrow> tsval \<Rightarrow> ts_error + byte list" where
  "Buffer_from_object E v =
     (case v of
        ArrV xs \<Rightarrow> Inr (map (elem_byte E) xs)
      | ObjV kvs \<Rightarrow>
          (case map_of kvs ''length'' of
             Some (NumV d) \<Rightarrow> Inr (map (elem_byte E) (array_like kvs (case dbl_trunc d of Some n \<Rightarrow> nat n | None \<Rightarrow> 0)))
           | Some UndefV \<Rightarrow> Inl (Js TypeError)
           | Some _ \<Rightarrow> Inr []
           | None \<Rightarrow>
               (case (map_of kvs ''type'', map_of kvs ''data'') of
                  (Some (StrV t), Some (ArrV xs)) \<Rightarrow>
                    if t = js ''Buffer'' then Inr (map (elem_byte E) xs) else Inl (Js TypeError)
                | _ \<Rightarrow> Inl (Js TypeError)))
      | _ \<Rightarrow> Inl (Js TypeError))"

definition HexBuffer_from :: "env \<Rightarrow> tsval \<Rightarrow> ts_error + byte list" where
  "HexBuffer_from E v =
     (case v of HexV bs \<Rightarrow> Inr bs | BufV bs \<Rightarrow> Inr bs | StrV s \<Rightarrow> Inr (fromHex s) | _ \<Rightarrow> Buffer_from_object E v)"

text \<open>A \<open>size\<close> of zero counts as none.\<close>

definition BinarySerializer :: "env \<Rightarrow> nat option \<Rightarrow> serializer" where
  "BinarySerializer E size' b data =
     bindR (HexBuffer_from E data) (\<lambda>buffer.
     bindR (if size' \<noteq> None \<and> size' \<noteq> Some 0
            then (if Some (length buffer) \<noteq> size' then Inl (Thrown ''Unable to serialize binary'') else Inr b)
            else js_err (writeVarint32 b (JNum (int (length buffer))))) (\<lambda>b1.
       append_bytes b1 buffer))"

section \<open>Combinators\<close>

definition StaticVariantSerializer :: "serializer list \<Rightarrow> serializer" where
  "StaticVariantSerializer itemSerializers b data =
     bindR (ts_pair data) (\<lambda>(id, item).
     bindR (js_err (writeVarint32 b (prim_js id))) (\<lambda>b1.
       case prim_js id of
         JNum n \<Rightarrow> if 0 \<le> n \<and> nat n < length itemSerializers then (itemSerializers ! nat n) b1 item else Inl (Js TypeError)
       | _ \<Rightarrow> Inl (Js TypeError)))"

definition FlatMapSerializer :: "serializer \<Rightarrow> serializer \<Rightarrow> serializer" where
  "FlatMapSerializer keySerializer valueSerializer b data =
     bindR (ts_get data ''length'') (\<lambda>len.
     bindR (js_err (writeVarint32 b (prim_js len))) (\<lambda>b1.
     bindR (ts_iter data) (foldR (\<lambda>b' entry.
       bindR (ts_pair entry) (\<lambda>(key, v).
       bindR (keySerializer b' key) (\<lambda>b2. valueSerializer b2 v))) b1)))"

definition ArraySerializer :: "serializer \<Rightarrow> serializer" where
  "ArraySerializer itemSerializer b data =
     bindR (ts_get data ''length'') (\<lambda>len.
     bindR (js_err (writeVarint32 b (prim_js len))) (\<lambda>b1.
     bindR (ts_iter data) (foldR itemSerializer b1)))"

text \<open>A call that does not return throws nothing.\<close>

definition at_key :: "jsstring \<Rightarrow> ts_error + 'a \<Rightarrow> ts_error + 'a" where
  "at_key key r = (case r of Inl e \<Rightarrow> Inl (if e = Js Hang then e else At key e) | Inr x \<Rightarrow> Inr x)"

fun ObjectSerializer :: "(string \<times> serializer) list \<Rightarrow> serializer" where
  "ObjectSerializer [] b data = Inr b"
| "ObjectSerializer ((key, ser) # keySerializers) b data =
     bindR (at_key (js key) (bindR (ts_get data key) (ser b))) (\<lambda>b1. ObjectSerializer keySerializers b1 data)"

definition OptionalSerializer :: "serializer \<Rightarrow> serializer" where
  "OptionalSerializer valueSerializer b data =
     (if ts_truthy data
      then bindR (js_err (writeInt8 b (JNum 1))) (\<lambda>b1. valueSerializer b1 data)
      else js_err (writeInt8 b (JNum 0)))"

definition OperationDataSerializer :: "nat \<Rightarrow> (string \<times> serializer) list \<Rightarrow> serializer" where
  "OperationDataSerializer operationId definitions b data =
     bindR (js_err (writeVarint32 b (JNum (int operationId)))) (\<lambda>b1. ObjectSerializer definitions b1 data)"

section \<open>Compound types\<close>

definition AuthoritySerializer :: "env \<Rightarrow> secp256k1 \<Rightarrow> serializer" where
  "AuthoritySerializer E S = ObjectSerializer
     [(''weight_threshold'', UInt32Serializer),
      (''account_auths'', FlatMapSerializer StringSerializer UInt16Serializer),
      (''key_auths'', FlatMapSerializer (PublicKeySerializer E S) UInt16Serializer)]"

definition BeneficiarySerializer :: serializer where
  "BeneficiarySerializer = ObjectSerializer
     [(''account'', StringSerializer),
      (''weight'', UInt16Serializer)]"

definition PriceSerializer :: serializer where
  "PriceSerializer = ObjectSerializer
     [(''base'', AssetSerializer),
      (''quote'', AssetSerializer)]"

definition SignedBlockHeaderSerializer :: "env \<Rightarrow> serializer" where
  "SignedBlockHeaderSerializer E = ObjectSerializer
     [(''previous'', BinarySerializer E (Some 20)),
      (''timestamp'', DateSerializer E),
      (''witness'', StringSerializer),
      (''transaction_merkle_root'', BinarySerializer E (Some 20)),
      (''extensions'', ArraySerializer VoidSerializer),
      (''witness_signature'', BinarySerializer E (Some 65))]"

definition ChainPropertiesSerializer :: serializer where
  "ChainPropertiesSerializer = ObjectSerializer
     [(''account_creation_fee'', AssetSerializer),
      (''maximum_block_size'', UInt32Serializer),
      (''hbd_interest_rate'', UInt16Serializer)]"

end
