(* ===== verification/TsOperations.thy ===== *)
theory TsOperations
  imports TsSerializer
begin

text \<open>
  The operations of the TypeScript library (\<open>client-libs/dblurt/src/chain/serializer.ts\<close>): one
  definition per entry of \<open>OperationSerializers\<close>, with the number and the fields of the source, the
  dispatch on the name of an operation, and the transaction.
\<close>

section \<open>Operations\<close>

definition tsop_account_create :: "env \<Rightarrow> secp256k1 \<Rightarrow> serializer" where
  "tsop_account_create E S = OperationDataSerializer 5
     [(''fee'', AssetSerializer),
      (''creator'', StringSerializer),
      (''new_account_name'', StringSerializer),
      (''owner'', AuthoritySerializer E S),
      (''active'', AuthoritySerializer E S),
      (''posting'', AuthoritySerializer E S),
      (''memo_key'', PublicKeySerializer E S),
      (''json_metadata'', StringSerializer)]"

definition tsop_account_create_with_delegation :: "env \<Rightarrow> secp256k1 \<Rightarrow> serializer" where
  "tsop_account_create_with_delegation E S = OperationDataSerializer 41
     [(''fee'', AssetSerializer),
      (''delegation'', AssetSerializer),
      (''creator'', StringSerializer),
      (''new_account_name'', StringSerializer),
      (''owner'', AuthoritySerializer E S),
      (''active'', AuthoritySerializer E S),
      (''posting'', AuthoritySerializer E S),
      (''memo_key'', PublicKeySerializer E S),
      (''json_metadata'', StringSerializer),
      (''extensions'', ArraySerializer VoidSerializer)]"

definition tsop_account_update :: "env \<Rightarrow> secp256k1 \<Rightarrow> serializer" where
  "tsop_account_update E S = OperationDataSerializer 6
     [(''account'', StringSerializer),
      (''owner'', OptionalSerializer (AuthoritySerializer E S)),
      (''active'', OptionalSerializer (AuthoritySerializer E S)),
      (''posting'', OptionalSerializer (AuthoritySerializer E S)),
      (''memo_key'', OptionalSerializer (AuthoritySerializer E S)),
      (''json_metadata'', StringSerializer),
      (''posting_json_metadata'', StringSerializer),
      (''extensions'', ArraySerializer VoidSerializer)]"

definition tsop_account_witness_proxy :: "env \<Rightarrow> secp256k1 \<Rightarrow> serializer" where
  "tsop_account_witness_proxy E S = OperationDataSerializer 9
     [(''account'', StringSerializer),
      (''proxy'', StringSerializer)]"

definition tsop_account_witness_vote :: "env \<Rightarrow> secp256k1 \<Rightarrow> serializer" where
  "tsop_account_witness_vote E S = OperationDataSerializer 8
     [(''account'', StringSerializer),
      (''witness'', StringSerializer),
      (''approve'', BooleanSerializer)]"

definition tsop_cancel_transfer_from_savings :: "env \<Rightarrow> secp256k1 \<Rightarrow> serializer" where
  "tsop_cancel_transfer_from_savings E S = OperationDataSerializer 26
     [(''from'', StringSerializer),
      (''request_id'', UInt32Serializer)]"

definition tsop_change_recovery_account :: "env \<Rightarrow> secp256k1 \<Rightarrow> serializer" where
  "tsop_change_recovery_account E S = OperationDataSerializer 19
     [(''account_to_recover'', StringSerializer),
      (''new_recovery_account'', StringSerializer),
      (''extensions'', ArraySerializer VoidSerializer)]"

definition tsop_claim_account :: "env \<Rightarrow> secp256k1 \<Rightarrow> serializer" where
  "tsop_claim_account E S = OperationDataSerializer 15
     [(''creator'', StringSerializer),
      (''fee'', AssetSerializer),
      (''extensions'', ArraySerializer VoidSerializer)]"

definition tsop_claim_reward_balance :: "env \<Rightarrow> secp256k1 \<Rightarrow> serializer" where
  "tsop_claim_reward_balance E S = OperationDataSerializer 31
     [(''account'', StringSerializer),
      (''reward_blurt'', AssetSerializer),
      (''reward_vests'', AssetSerializer)]"

definition tsop_comment :: "env \<Rightarrow> secp256k1 \<Rightarrow> serializer" where
  "tsop_comment E S = OperationDataSerializer 1
     [(''parent_author'', StringSerializer),
      (''parent_permlink'', StringSerializer),
      (''author'', StringSerializer),
      (''permlink'', StringSerializer),
      (''title'', StringSerializer),
      (''body'', StringSerializer),
      (''json_metadata'', StringSerializer)]"

definition tsop_comment_options :: "env \<Rightarrow> secp256k1 \<Rightarrow> serializer" where
  "tsop_comment_options E S = OperationDataSerializer 13
     [(''author'', StringSerializer),
      (''permlink'', StringSerializer),
      (''max_accepted_payout'', AssetSerializer),
      (''allow_votes'', BooleanSerializer),
      (''allow_curation_rewards'', BooleanSerializer),
      (''extensions'', ArraySerializer (StaticVariantSerializer [ObjectSerializer [(''beneficiaries'', ArraySerializer BeneficiarySerializer),
      (''percent_blurt'', UInt16Serializer)]]))]"

definition tsop_convert :: "env \<Rightarrow> secp256k1 \<Rightarrow> serializer" where
  "tsop_convert E S = OperationDataSerializer 8
     [(''owner'', StringSerializer),
      (''requestid'', UInt32Serializer),
      (''amount'', AssetSerializer)]"

definition tsop_create_claimed_account :: "env \<Rightarrow> secp256k1 \<Rightarrow> serializer" where
  "tsop_create_claimed_account E S = OperationDataSerializer 16
     [(''creator'', StringSerializer),
      (''new_account_name'', StringSerializer),
      (''owner'', AuthoritySerializer E S),
      (''active'', AuthoritySerializer E S),
      (''posting'', AuthoritySerializer E S),
      (''memo_key'', PublicKeySerializer E S),
      (''json_metadata'', StringSerializer),
      (''extensions'', ArraySerializer VoidSerializer)]"

definition tsop_custom :: "env \<Rightarrow> secp256k1 \<Rightarrow> serializer" where
  "tsop_custom E S = OperationDataSerializer 10
     [(''required_auths'', ArraySerializer StringSerializer),
      (''id'', UInt16Serializer),
      (''data'', BinarySerializer E None)]"

definition tsop_custom_binary :: "env \<Rightarrow> secp256k1 \<Rightarrow> serializer" where
  "tsop_custom_binary E S = OperationDataSerializer 27
     [(''required_owner_auths'', ArraySerializer StringSerializer),
      (''required_active_auths'', ArraySerializer StringSerializer),
      (''required_posting_auths'', ArraySerializer StringSerializer),
      (''required_auths'', ArraySerializer (AuthoritySerializer E S)),
      (''id'', StringSerializer),
      (''data'', BinarySerializer E None)]"

definition tsop_custom_json :: "env \<Rightarrow> secp256k1 \<Rightarrow> serializer" where
  "tsop_custom_json E S = OperationDataSerializer 12
     [(''required_auths'', ArraySerializer StringSerializer),
      (''required_posting_auths'', ArraySerializer StringSerializer),
      (''id'', StringSerializer),
      (''json'', StringSerializer)]"

definition tsop_decline_voting_rights :: "env \<Rightarrow> secp256k1 \<Rightarrow> serializer" where
  "tsop_decline_voting_rights E S = OperationDataSerializer 28
     [(''account'', StringSerializer),
      (''decline'', BooleanSerializer)]"

definition tsop_delegate_vesting_shares :: "env \<Rightarrow> secp256k1 \<Rightarrow> serializer" where
  "tsop_delegate_vesting_shares E S = OperationDataSerializer 32
     [(''delegator'', StringSerializer),
      (''delegatee'', StringSerializer),
      (''vesting_shares'', AssetSerializer)]"

definition tsop_delete_comment :: "env \<Rightarrow> secp256k1 \<Rightarrow> serializer" where
  "tsop_delete_comment E S = OperationDataSerializer 17
     [(''author'', StringSerializer),
      (''permlink'', StringSerializer)]"

definition tsop_escrow_approve :: "env \<Rightarrow> secp256k1 \<Rightarrow> serializer" where
  "tsop_escrow_approve E S = OperationDataSerializer 23
     [(''from'', StringSerializer),
      (''to'', StringSerializer),
      (''agent'', StringSerializer),
      (''who'', StringSerializer),
      (''escrow_id'', UInt32Serializer),
      (''approve'', BooleanSerializer)]"

definition tsop_escrow_dispute :: "env \<Rightarrow> secp256k1 \<Rightarrow> serializer" where
  "tsop_escrow_dispute E S = OperationDataSerializer 21
     [(''from'', StringSerializer),
      (''to'', StringSerializer),
      (''agent'', StringSerializer),
      (''who'', StringSerializer),
      (''escrow_id'', UInt32Serializer)]"

definition tsop_escrow_release :: "env \<Rightarrow> secp256k1 \<Rightarrow> serializer" where
  "tsop_escrow_release E S = OperationDataSerializer 22
     [(''from'', StringSerializer),
      (''to'', StringSerializer),
      (''agent'', StringSerializer),
      (''who'', StringSerializer),
      (''receiver'', StringSerializer),
      (''escrow_id'', UInt32Serializer),
      (''hbd_amount'', AssetSerializer),
      (''hive_amount'', AssetSerializer)]"

definition tsop_escrow_transfer :: "env \<Rightarrow> secp256k1 \<Rightarrow> serializer" where
  "tsop_escrow_transfer E S = OperationDataSerializer 20
     [(''from'', StringSerializer),
      (''to'', StringSerializer),
      (''hbd_amount'', AssetSerializer),
      (''hive_amount'', AssetSerializer),
      (''escrow_id'', UInt32Serializer),
      (''agent'', StringSerializer),
      (''fee'', AssetSerializer),
      (''json_meta'', StringSerializer),
      (''ratification_deadline'', DateSerializer E),
      (''escrow_expiration'', DateSerializer E)]"

definition tsop_feed_publish :: "env \<Rightarrow> secp256k1 \<Rightarrow> serializer" where
  "tsop_feed_publish E S = OperationDataSerializer 7
     [(''publisher'', StringSerializer),
      (''exchange_rate'', PriceSerializer)]"

definition tsop_limit_order_cancel :: "env \<Rightarrow> secp256k1 \<Rightarrow> serializer" where
  "tsop_limit_order_cancel E S = OperationDataSerializer 6
     [(''owner'', StringSerializer),
      (''orderid'', UInt32Serializer)]"

definition tsop_limit_order_create :: "env \<Rightarrow> secp256k1 \<Rightarrow> serializer" where
  "tsop_limit_order_create E S = OperationDataSerializer 5
     [(''owner'', StringSerializer),
      (''orderid'', UInt32Serializer),
      (''amount_to_sell'', AssetSerializer),
      (''min_to_receive'', AssetSerializer),
      (''fill_or_kill'', BooleanSerializer),
      (''expiration'', DateSerializer E)]"

definition tsop_limit_order_create2 :: "env \<Rightarrow> secp256k1 \<Rightarrow> serializer" where
  "tsop_limit_order_create2 E S = OperationDataSerializer 21
     [(''owner'', StringSerializer),
      (''orderid'', UInt32Serializer),
      (''amount_to_sell'', AssetSerializer),
      (''fill_or_kill'', BooleanSerializer),
      (''exchange_rate'', PriceSerializer),
      (''expiration'', DateSerializer E)]"

definition tsop_recover_account :: "env \<Rightarrow> secp256k1 \<Rightarrow> serializer" where
  "tsop_recover_account E S = OperationDataSerializer 18
     [(''account_to_recover'', StringSerializer),
      (''new_owner_authority'', AuthoritySerializer E S),
      (''recent_owner_authority'', AuthoritySerializer E S),
      (''extensions'', ArraySerializer VoidSerializer)]"

definition tsop_report_over_production :: "env \<Rightarrow> secp256k1 \<Rightarrow> serializer" where
  "tsop_report_over_production E S = OperationDataSerializer 16
     [(''reporter'', StringSerializer),
      (''first_block'', SignedBlockHeaderSerializer E),
      (''second_block'', SignedBlockHeaderSerializer E)]"

definition tsop_request_account_recovery :: "env \<Rightarrow> secp256k1 \<Rightarrow> serializer" where
  "tsop_request_account_recovery E S = OperationDataSerializer 17
     [(''recovery_account'', StringSerializer),
      (''account_to_recover'', StringSerializer),
      (''new_owner_authority'', AuthoritySerializer E S),
      (''extensions'', ArraySerializer VoidSerializer)]"

definition tsop_reset_account :: "env \<Rightarrow> secp256k1 \<Rightarrow> serializer" where
  "tsop_reset_account E S = OperationDataSerializer 29
     [(''reset_account'', StringSerializer),
      (''account_to_reset'', StringSerializer),
      (''new_owner_authority'', AuthoritySerializer E S)]"

definition tsop_set_reset_account :: "env \<Rightarrow> secp256k1 \<Rightarrow> serializer" where
  "tsop_set_reset_account E S = OperationDataSerializer 30
     [(''account'', StringSerializer),
      (''current_reset_account'', StringSerializer),
      (''reset_account'', StringSerializer)]"

definition tsop_set_withdraw_vesting_route :: "env \<Rightarrow> secp256k1 \<Rightarrow> serializer" where
  "tsop_set_withdraw_vesting_route E S = OperationDataSerializer 20
     [(''from_account'', StringSerializer),
      (''to_account'', StringSerializer),
      (''percent'', UInt16Serializer),
      (''auto_vest'', BooleanSerializer)]"

definition tsop_transfer :: "env \<Rightarrow> secp256k1 \<Rightarrow> serializer" where
  "tsop_transfer E S = OperationDataSerializer 2
     [(''from'', StringSerializer),
      (''to'', StringSerializer),
      (''amount'', AssetSerializer),
      (''memo'', StringSerializer)]"

definition tsop_transfer_from_savings :: "env \<Rightarrow> secp256k1 \<Rightarrow> serializer" where
  "tsop_transfer_from_savings E S = OperationDataSerializer 25
     [(''from'', StringSerializer),
      (''request_id'', UInt32Serializer),
      (''to'', StringSerializer),
      (''amount'', AssetSerializer),
      (''memo'', StringSerializer)]"

definition tsop_transfer_to_savings :: "env \<Rightarrow> secp256k1 \<Rightarrow> serializer" where
  "tsop_transfer_to_savings E S = OperationDataSerializer 24
     [(''from'', StringSerializer),
      (''to'', StringSerializer),
      (''amount'', AssetSerializer),
      (''memo'', StringSerializer)]"

definition tsop_transfer_to_vesting :: "env \<Rightarrow> secp256k1 \<Rightarrow> serializer" where
  "tsop_transfer_to_vesting E S = OperationDataSerializer 3
     [(''from'', StringSerializer),
      (''to'', StringSerializer),
      (''amount'', AssetSerializer)]"

definition tsop_vote :: "env \<Rightarrow> secp256k1 \<Rightarrow> serializer" where
  "tsop_vote E S = OperationDataSerializer 0
     [(''voter'', StringSerializer),
      (''author'', StringSerializer),
      (''permlink'', StringSerializer),
      (''weight'', Int16Serializer)]"

definition tsop_withdraw_vesting :: "env \<Rightarrow> secp256k1 \<Rightarrow> serializer" where
  "tsop_withdraw_vesting E S = OperationDataSerializer 4
     [(''account'', StringSerializer),
      (''vesting_shares'', AssetSerializer)]"

definition tsop_witness_update :: "env \<Rightarrow> secp256k1 \<Rightarrow> serializer" where
  "tsop_witness_update E S = OperationDataSerializer 11
     [(''owner'', StringSerializer),
      (''url'', StringSerializer),
      (''block_signing_key'', PublicKeySerializer E S),
      (''props'', ChainPropertiesSerializer),
      (''fee'', AssetSerializer)]"

definition tsop_witness_set_properties :: "env \<Rightarrow> secp256k1 \<Rightarrow> serializer" where
  "tsop_witness_set_properties E S = OperationDataSerializer 33
     [(''owner'', StringSerializer),
      (''props'', FlatMapSerializer StringSerializer (BinarySerializer E None)),
      (''extensions'', ArraySerializer VoidSerializer)]"

definition tsop_account_update2 :: "env \<Rightarrow> secp256k1 \<Rightarrow> serializer" where
  "tsop_account_update2 E S = OperationDataSerializer 47
     [(''account'', StringSerializer),
      (''owner'', OptionalSerializer (AuthoritySerializer E S)),
      (''active'', OptionalSerializer (AuthoritySerializer E S)),
      (''posting'', OptionalSerializer (AuthoritySerializer E S)),
      (''memo_key'', OptionalSerializer (PublicKeySerializer E S)),
      (''json_metadata'', StringSerializer),
      (''posting_json_metadata'', StringSerializer),
      (''extensions'', ArraySerializer VoidSerializer)]"

definition tsop_create_proposal :: "env \<Rightarrow> secp256k1 \<Rightarrow> serializer" where
  "tsop_create_proposal E S = OperationDataSerializer 34
     [(''creator'', StringSerializer),
      (''receiver'', StringSerializer),
      (''start_date'', DateSerializer E),
      (''end_date'', DateSerializer E),
      (''daily_pay'', AssetSerializer),
      (''subject'', StringSerializer),
      (''permlink'', StringSerializer),
      (''extensions'', ArraySerializer VoidSerializer)]"

definition tsop_update_proposal_votes :: "env \<Rightarrow> secp256k1 \<Rightarrow> serializer" where
  "tsop_update_proposal_votes E S = OperationDataSerializer 35
     [(''voter'', StringSerializer),
      (''proposal_ids'', ArraySerializer Int64Serializer),
      (''approve'', BooleanSerializer),
      (''extensions'', ArraySerializer VoidSerializer)]"

definition tsop_remove_proposal :: "env \<Rightarrow> secp256k1 \<Rightarrow> serializer" where
  "tsop_remove_proposal E S = OperationDataSerializer 36
     [(''proposal_owner'', StringSerializer),
      (''proposal_ids'', ArraySerializer Int64Serializer),
      (''extensions'', ArraySerializer VoidSerializer)]"

section \<open>The table and its dispatch\<close>

definition OperationSerializers :: "env \<Rightarrow> secp256k1 \<Rightarrow> (string \<times> serializer) list" where
  "OperationSerializers E S =
     [(''account_create'', tsop_account_create E S),
      (''account_create_with_delegation'', tsop_account_create_with_delegation E S),
      (''account_update'', tsop_account_update E S),
      (''account_witness_proxy'', tsop_account_witness_proxy E S),
      (''account_witness_vote'', tsop_account_witness_vote E S),
      (''cancel_transfer_from_savings'', tsop_cancel_transfer_from_savings E S),
      (''change_recovery_account'', tsop_change_recovery_account E S),
      (''claim_account'', tsop_claim_account E S),
      (''claim_reward_balance'', tsop_claim_reward_balance E S),
      (''comment'', tsop_comment E S),
      (''comment_options'', tsop_comment_options E S),
      (''convert'', tsop_convert E S),
      (''create_claimed_account'', tsop_create_claimed_account E S),
      (''custom'', tsop_custom E S),
      (''custom_binary'', tsop_custom_binary E S),
      (''custom_json'', tsop_custom_json E S),
      (''decline_voting_rights'', tsop_decline_voting_rights E S),
      (''delegate_vesting_shares'', tsop_delegate_vesting_shares E S),
      (''delete_comment'', tsop_delete_comment E S),
      (''escrow_approve'', tsop_escrow_approve E S),
      (''escrow_dispute'', tsop_escrow_dispute E S),
      (''escrow_release'', tsop_escrow_release E S),
      (''escrow_transfer'', tsop_escrow_transfer E S),
      (''feed_publish'', tsop_feed_publish E S),
      (''limit_order_cancel'', tsop_limit_order_cancel E S),
      (''limit_order_create'', tsop_limit_order_create E S),
      (''limit_order_create2'', tsop_limit_order_create2 E S),
      (''recover_account'', tsop_recover_account E S),
      (''report_over_production'', tsop_report_over_production E S),
      (''request_account_recovery'', tsop_request_account_recovery E S),
      (''reset_account'', tsop_reset_account E S),
      (''set_reset_account'', tsop_set_reset_account E S),
      (''set_withdraw_vesting_route'', tsop_set_withdraw_vesting_route E S),
      (''transfer'', tsop_transfer E S),
      (''transfer_from_savings'', tsop_transfer_from_savings E S),
      (''transfer_to_savings'', tsop_transfer_to_savings E S),
      (''transfer_to_vesting'', tsop_transfer_to_vesting E S),
      (''vote'', tsop_vote E S),
      (''withdraw_vesting'', tsop_withdraw_vesting E S),
      (''witness_update'', tsop_witness_update E S),
      (''witness_set_properties'', tsop_witness_set_properties E S),
      (''account_update2'', tsop_account_update2 E S),
      (''create_proposal'', tsop_create_proposal E S),
      (''update_proposal_votes'', tsop_update_proposal_votes E S),
      (''remove_proposal'', tsop_remove_proposal E S)]"

text \<open>\<open>v[0]\<close> and \<open>v[1]\<close>\<close>

fun ts_index :: "tsval \<Rightarrow> nat \<Rightarrow> ts_error + tsval" where
  "ts_index UndefV i = Inl (Js TypeError)"
| "ts_index NullV i = Inl (Js TypeError)"
| "ts_index (ArrV xs) i = Inr (if i < length xs then xs ! i else UndefV)"
| "ts_index (StrV s) i = Inr (if i < length s then StrV [s ! i] else UndefV)"
| "ts_index (BufV bs) i = Inr (if i < length bs then NumV (dbl_of_int (uint (bs ! i))) else UndefV)"
| "ts_index (ObjV kvs) i =
     Inr (case map_of (map (\<lambda>(k, x). (js k, x)) kvs) (dec_nat i) of None \<Rightarrow> UndefV | Some x \<Rightarrow> x)"
| "ts_index v i = Inr UndefV"

text \<open>
  The table is an object: a name that it inherits from \<open>Object.prototype\<close> is found there. Called on
  a buffer, \<open>constructor\<close> and \<open>toString\<close> return without writing anything; the others throw.
\<close>

definition inherited_serializer :: "jsstring \<Rightarrow> serializer" where
  "inherited_serializer name b data =
     (if name = js ''constructor'' \<or> name = js ''toString'' then Inr b else Inl (Js TypeError))"

definition find_serializer :: "env \<Rightarrow> secp256k1 \<Rightarrow> jsstring \<Rightarrow> serializer option" where
  "find_serializer E S name =
     (case map_of (map (\<lambda>(k, ser). (js k, ser)) (OperationSerializers E S)) name of
        Some ser \<Rightarrow> Some ser
      | None \<Rightarrow> if inherited name then Some (inherited_serializer name) else None)"

definition OperationSerializer :: "env \<Rightarrow> secp256k1 \<Rightarrow> serializer" where
  "OperationSerializer E S b operation =
     bindR (ts_index operation 0) (\<lambda>op0.
       let name = ts_String E op0
       in case find_serializer E S name of
            None \<Rightarrow> Inl (Thrown ''No serializer for operation'')
          | Some ser \<Rightarrow> at_key name (bindR (ts_index operation 1) (ser b)))"

definition TransactionSerializer :: "env \<Rightarrow> secp256k1 \<Rightarrow> serializer" where
  "TransactionSerializer E S = ObjectSerializer
     [(''ref_block_num'', UInt16Serializer),
      (''ref_block_prefix'', UInt32Serializer),
      (''expiration'', DateSerializer E),
      (''operations'', ArraySerializer (OperationSerializer E S)),
      (''extensions'', ArraySerializer StringSerializer)]"

end
