(* ===== verification/Agreement.thy ===== *)
theory Agreement
  imports Schema TsOperations
begin

text \<open>
  The two client libraries of the repository write the same bytes. The locale \<open>writer\<close> is the
  contract of a function that appends a value to a buffer; the serializers of \<open>blurtjs\<close>
  (\<open>auth/serializer\<close>) and of \<open>dblurt\<close> (\<open>chain/serializer.ts\<close>) are both writers for one wire
  format of the plain values a program hands to them, for every schema of the protocol. For the 29
  operations that the two tables declare alike, the libraries agree on every transaction.
\<close>

section \<open>Writers\<close>

locale writer =
  fixes wr :: "bytebuffer \<Rightarrow> 'v \<Rightarrow> 'e + bytebuffer"
    and enc :: "'v \<Rightarrow> byte list"
    and valid :: "'v \<Rightarrow> bool"
  assumes write_enc: "valid v \<Longrightarrow> bb_ok b \<Longrightarrow> \<exists>b'. wr b v = Inr b' \<and> bb_appended b (enc v) b'"
begin

lemma write_all:
  "list_all valid vs \<Longrightarrow> bb_ok b \<Longrightarrow> \<exists>b'. foldR wr b vs = Inr b' \<and> bb_appended b (concat (map enc vs)) b'"
proof (induction vs arbitrary: b)
  case (Cons v vs)
  have "\<exists>b'. bindR (wr b v) (\<lambda>b1. foldR wr b1 vs) = Inr b' \<and> bb_appended b (enc v @ concat (map enc vs)) b'"
    using Cons by (intro bindR_appended write_enc) auto
  then show ?case by simp
qed (simp add: bb_appended_refl)

lemma write_all_counted:
  assumes "bb_ok b" "\<exists>b1. size_write = Inr b1 \<and> bb_appended b (varint32_bytes (of_nat (length vs))) b1"
    "list_all valid vs"
  shows "\<exists>b'. bindR size_write (\<lambda>b1. foldR wr b1 vs) = Inr b' \<and> bb_appended b (counted enc vs) b'"
  unfolding counted_def using assms(1,2) write_all [OF assms(3)] by (intro bindR_appended) auto

text \<open>What a writer writes into a new buffer.\<close>

lemma write_new:
  assumes "valid v"
  obtains b' where "wr (ByteBuffer_new DEFAULT_CAPACITY True) v = Inr b'" "bb_contents b' = enc v" "bb_ok b'"
  using write_enc [OF assms, of "ByteBuffer_new DEFAULT_CAPACITY True"] that
  by (auto simp: bb_appended_def bb_ok_def bb_contents_def ByteBuffer_new_def)

end

text \<open>A codec is a writer.\<close>

sublocale codec \<subseteq> writer append enc valid
  by unfold_locales (rule append_enc)

lemma writerI:
  "(\<And>v b. V v \<Longrightarrow> bb_ok b \<Longrightarrow> \<exists>b'. wr b v = Inr b' \<and> bb_appended b (enc v) b') \<Longrightarrow> writer wr enc V"
  by unfold_locales

lemma writer_js_err:
  "writer wr enc V \<Longrightarrow> writer (\<lambda>b v. js_err (wr b v)) enc V"
  unfolding writer_def by (metis js_err_simps(2))

section \<open>Plain values\<close>

text \<open>The value of the TypeScript library for a plain value of the other.\<close>

fun to_ts :: "jsval \<Rightarrow> tsval" where
  "to_ts JNull = NullV"
| "to_ts (JBool t) = BoolV t"
| "to_ts (JNum n) = NumV (dbl_of_int n)"
| "to_ts JNaN = NumV NaN"
| "to_ts (JStr s) = StrV s"
| "to_ts (JBuf bs) = BufV bs"
| "to_ts (JArr xs) = ArrV (map to_ts xs)"
| "to_ts (JObj kvs) = ObjV (map (\<lambda>(k, v). (k, to_ts v)) kvs)"
| "to_ts _ = UndefV"

lemma map_of_to_ts: "map_of (map (\<lambda>(k, v). (k, to_ts v)) kvs) k = map_option to_ts (map_of kvs k)"
  by (induction kvs) auto

lemma ts_get_to_ts: "ts_get (to_ts (JObj kvs)) k = Inr (to_ts (case map_of kvs k of None \<Rightarrow> JUndef | Some v \<Rightarrow> v))"
  by (simp add: map_of_to_ts split: option.split)

lemma num_in_53: "num_in lo hi v \<Longrightarrow> - (2 ^ 53) < lo \<Longrightarrow> hi < 2 ^ 53 \<Longrightarrow> \<exists>n. v = JNum n \<and> \<bar>n\<bar> < 2 ^ 53 \<and> lo \<le> n \<and> n \<le> hi"
  by (auto elim!: num_inE)

lemma prim_js_num:
  "num_in lo hi v \<Longrightarrow> - (2 ^ 53) < lo \<Longrightarrow> hi < 2 ^ 53 \<Longrightarrow> prim_js (to_ts v) = v \<and> long_js (to_ts v) = v"
  by (drule (2) num_in_53) (auto simp: dbl_int_of_int num_js_def)

section \<open>Integers, text, booleans and times\<close>

text \<open>The raw 64-bit numbers: what a program writes as an integer literal.\<close>

definition raw_long :: "jsval \<Rightarrow> byte list" where
  "raw_long v = bytes64 (of_int (the_num v))"

fun raw_string :: "jsval \<Rightarrow> bool" where
  "raw_string (JStr s) \<longleftrightarrow> vstring_ok s"
| "raw_string _ \<longleftrightarrow> False"

fun raw_string_wire :: "jsval \<Rightarrow> byte list" where
  "raw_string_wire (JStr s) = vstring_bytes s"
| "raw_string_wire _ = []"

fun raw_bytes :: "nat option \<Rightarrow> jsval \<Rightarrow> bool" where
  "raw_bytes n (JStr s) \<longleftrightarrow> bytes_valid n (JBuf (fromHex s)) \<and> n \<noteq> Some 0"
| "raw_bytes n _ \<longleftrightarrow> False"

fun raw_bytes_wire :: "nat option \<Rightarrow> jsval \<Rightarrow> byte list" where
  "raw_bytes_wire n (JStr s) = bytes_wire n (JBuf (fromHex s))"
| "raw_bytes_wire n _ = []"

text \<open>A time as text, in the format in which the library prints it.\<close>

definition text_seconds :: "jsstring \<Rightarrow> int option" where
  "text_seconds s = parse_iso (s @ [90])"

fun raw_time :: "jsval \<Rightarrow> bool" where
  "raw_time (JStr s) \<longleftrightarrow>
     (case text_seconds s of Some t \<Rightarrow> 0 \<le> t \<and> t < 4294967296 \<and> s = iso_seconds t | None \<Rightarrow> False)"
| "raw_time _ \<longleftrightarrow> False"

fun raw_time_wire :: "jsval \<Rightarrow> byte list" where
  "raw_time_wire (JStr s) = (case text_seconds s of Some t \<Rightarrow> bytes32 (of_int t) | None \<Rightarrow> [])"
| "raw_time_wire _ = []"

lemma iso_seconds_last: "iso_seconds t \<noteq> [] \<and> last (iso_seconds t) \<noteq> 90"
proof -
  let ?d = "digits_padded 2 (nat (t mod 86400 mod 60))"
  have "list_all is_digit ?d" "?d \<noteq> []"
    using digits_padded_digits by (auto simp: digits_padded_def)
  then have "is_digit (last ?d)" by (simp add: list_all_iff)
  moreover have "iso_seconds t \<noteq> [] \<and> last (iso_seconds t) = last ?d"
    using \<open>?d \<noteq> []\<close> by (simp add: iso_seconds_def Let_def)
  moreover have "\<not> is_digit 90" by (simp add: is_digit_def)
  ultimately show ?thesis by metis
qed

lemma string_raw: "writer (appendByteBuffer (st_string E)) raw_string_wire raw_string"
proof (rule writerI)
  fix v b assume "raw_string v" "bb_ok b"
  then show "\<exists>b'. appendByteBuffer (st_string E) b v = Inr b' \<and> bb_appended b (raw_string_wire v) b'"
    using bb_vstring.append_enc by (cases v) (auto simp: st_string_def js_toString_def)
qed

lemma string_ts: "writer (\<lambda>b v. StringSerializer b (to_ts v)) raw_string_wire raw_string"
proof (rule writerI)
  fix v b assume "raw_string v" "bb_ok b"
  then show "\<exists>b'. StringSerializer b (to_ts v) = Inr b' \<and> bb_appended b (raw_string_wire v) b'"
    using bb_vstring.append_enc by (cases v) (fastforce simp: StringSerializer_def)+
qed

lemma bytes_raw: "writer (appendByteBuffer (st_bytes E n)) (raw_bytes_wire n) (raw_bytes n)"
proof (rule writerI)
  fix v b assume v: "raw_bytes n v" "bb_ok b"
  then obtain s where s: "v = JStr s" "bytes_valid n (JBuf (fromHex s))" by (cases v) auto
  have "appendByteBuffer (st_bytes E n) b (JStr s) = appendByteBuffer (st_bytes E n) b (JBuf (fromHex s))"
    by (cases n) (simp_all add: st_bytes_def required_def is_empty_def Let_def)
  then show "\<exists>b'. appendByteBuffer (st_bytes E n) b v = Inr b' \<and> bb_appended b (raw_bytes_wire n v) b'"
    using is_codec_append [OF bytes_codec s(2) v(2)] s(1) by simp
qed

lemma append_bytes_appends: "bb_ok b \<Longrightarrow> \<exists>b'. append_bytes b bs = Inr b' \<and> bb_appended b bs b'"
  using bb_write_appends [of b bs "length bs"]
  by (auto simp: append_bytes_def bb_ok_def bb_appended_refl)

lemma write_size_ts:
  "bb_ok b \<Longrightarrow> n < 2147483648 \<Longrightarrow>
     \<exists>b'. js_err (writeVarint32 b (JNum (int n))) = Inr b' \<and> bb_appended b (varint32_bytes (of_nat n)) b'"
  using write_size [of b n] by (auto simp: js_err_eq_Inr)

lemma bytes_ts: "writer (\<lambda>b v. BinarySerializer E n b (to_ts v)) (raw_bytes_wire n) (raw_bytes n)"
proof (rule writerI)
  fix v b assume v: "raw_bytes n v" and b: "bb_ok b"
  then obtain s where s: "v = JStr s" "bytes_valid n (JBuf (fromHex s))" "n \<noteq> Some 0" by (cases v) auto
  let ?bs = "fromHex s"
  show "\<exists>b'. BinarySerializer E n b (to_ts v) = Inr b' \<and> bb_appended b (raw_bytes_wire n v) b'"
  proof (cases n)
    case None
    have "\<exists>b'. bindR (js_err (writeVarint32 b (JNum (int (length ?bs))))) (\<lambda>b1. append_bytes b1 ?bs) = Inr b'
        \<and> bb_appended b (varint32_bytes (of_nat (length ?bs)) @ ?bs) b'"
      using s None by (intro bindR_appended write_size_ts append_bytes_appends b) simp_all
    then show ?thesis using s None by (simp add: BinarySerializer_def HexBuffer_from_def bytes_wire_def prefixed_bytes_def)
  next
    case (Some k)
    then show ?thesis
      using s append_bytes_appends [OF b, of ?bs] by (simp add: BinarySerializer_def HexBuffer_from_def bytes_wire_def)
  qed
qed

lemma bool_ts: "writer (\<lambda>b v. BooleanSerializer b (to_ts v)) bool_byte is_bool"
proof (rule writerI)
  fix v b assume "is_bool v" "bb_ok b"
  then show "\<exists>b'. BooleanSerializer b (to_ts v) = Inr b' \<and> bb_appended b (bool_byte v) b'"
    using bb_write_appends [of b _ 1]
    by (cases v) (auto simp: BooleanSerializer_def writeInt8_def ts_truthy_def js_err_eq_Inr)
qed

lemma raw_timeE:
  assumes "raw_time v"
  obtains t where "v = JStr (iso_seconds t)" "0 \<le> t" "t < 4294967296" "raw_time_wire v = bytes32 (of_int t)"
    "date_getTime E (iso_seconds t @ [90]) = Some (t * 1000)"
  using assms that by (cases v) (auto simp: text_seconds_def date_getTime_def split: option.splits)

lemma time_raw: "writer (appendByteBuffer (time_point_sec E)) raw_time_wire raw_time"
proof (rule writerI)
  fix v b assume v: "raw_time v" and b: "bb_ok b"
  from v obtain t where t: "v = JStr (iso_seconds t)" "0 \<le> t" "t < 4294967296" "raw_time_wire v = bytes32 (of_int t)"
      "date_getTime E (iso_seconds t @ [90]) = Some (t * 1000)" by (rule raw_timeE)
  then show "\<exists>b'. appendByteBuffer (time_point_sec E) b v = Inr b' \<and> bb_appended b (raw_time_wire v) b'"
    using bb_u32.append_enc [of "JNum t" b] b iso_seconds_last
    by (simp add: time_point_sec_def is_number_def time_fromObject_def required_def is_empty_def seconds_of_def)
qed

lemma time_ts: "writer (\<lambda>b v. DateSerializer E b (to_ts v)) raw_time_wire raw_time"
proof (rule writerI)
  fix v b assume v: "raw_time v" and b: "bb_ok b"
  from v obtain t where t: "v = JStr (iso_seconds t)" "0 \<le> t" "t < 4294967296" "raw_time_wire v = bytes32 (of_int t)"
      "date_getTime E (iso_seconds t @ [90]) = Some (t * 1000)" by (rule raw_timeE)
  then show "\<exists>b'. DateSerializer E b (to_ts v) = Inr b' \<and> bb_appended b (raw_time_wire v) b'"
    using bb_u32.append_enc [of "JNum t" b] b by (simp add: DateSerializer_def num_js_def js_err_eq_Inr)
qed

section \<open>Assets and keys\<close>

text \<open>
  The symbols both libraries write as they are (the TypeScript library writes \<open>HIVE\<close> and \<open>HBD\<close> under
  other names), each with its precision, and amounts of at most 51 bits.
\<close>

definition shared_symbols :: "jsstring list" where
  "shared_symbols = map js [''BLURT'', ''VESTS'', ''TESTS'', ''TBD'', ''SBD'', ''STEEM'']"

fun raw_asset :: "jsval \<Rightarrow> bool" where
  "raw_asset (JStr s) \<longleftrightarrow>
     (case asset_parse s of (a, p, sy) \<Rightarrow> s = amount_text a sy \<and> a < 2 ^ 51 \<and> p = precision_of sy \<and> sy \<in> set shared_symbols)"
| "raw_asset _ \<longleftrightarrow> False"

lemma amount_text_asset_text: "amount_text k sy = asset_text k (precision_of sy) sy"
  by (simp add: amount_text_def asset_text_def fixed_text_implied)

lemma shared_symbol_facts:
  assumes "sy \<in> set shared_symbols"
  shows "sy \<in> set asset_symbols" "symbol_ok sy" "sy \<noteq> js ''HIVE''" "sy \<noteq> js ''HBD''" "length sy \<le> 7"
  using assms
  by (auto simp: shared_symbols_def asset_symbols_def js_def symbol_ok_def symbol_char_def is_digit_def)

lemma raw_assetE:
  assumes "raw_asset v"
  obtains k sy where "v = JStr (amount_text k sy)" "k < 2 ^ 51" "sy \<in> set shared_symbols"
    "asset_wire v = bytes64 (of_nat k) @ symbol_bytes (precision_of sy) sy"
proof (cases v)
  case (JStr s)
  obtain a p sy where "asset_parse s = (a, p, sy)" by (cases "asset_parse s") auto
  then show ?thesis using assms that [of a sy] JStr by simp
qed (use assms in simp_all)

lemma asset_raw: "writer (appendByteBuffer (asset E)) asset_wire raw_asset"
proof (rule writerI)
  fix v b assume v: "raw_asset v" and b: "bb_ok b"
  from v obtain k sy where k: "v = JStr (amount_text k sy)" "k < 2 ^ 51" "sy \<in> set shared_symbols"
    "asset_wire v = bytes64 (of_nat k) @ symbol_bytes (precision_of sy) sy" by (rule raw_assetE)
  have s: "symbol_ok sy" "k < 2 ^ 63" "precision_of sy < 256"
    using shared_symbol_facts [OF k(3)] k(2) by (simp_all add: precision_of_def)
  have "\<exists>b'. bindR (writeInt64 b (JLong False (of_nat k))) (\<lambda>b1. write_symbol b1 (JNum (int (precision_of sy))) sy) = Inr b'
      \<and> bb_appended b (bytes64 (of_nat k) @ symbol_bytes (precision_of sy) sy) b'"
    using bb_i64.append_enc [of "JLong False (of_nat k)" b] b s
    by (intro bindR_appended write_symbol_appends) simp_all
  then show "\<exists>b'. appendByteBuffer (asset E) b v = Inr b' \<and> bb_appended b (asset_wire v) b'"
    using k s by (simp add: asset_def asset_append_def amount_text_asset_text asset_append_text_eq js_truthy_def)
qed

text \<open>The seven bytes of the symbol, one \<open>writeUint8\<close> each.\<close>

lemma write_codes:
  assumes "bb_ok b"
  shows "\<exists>b'. foldR (\<lambda>b' i. js_err (writeUint8 b' (JNum (f i)))) b is = Inr b' \<and> bb_appended b (map (\<lambda>i. of_int (f i)) is) b'"
  using assms
proof (induction "is" arbitrary: b)
  case (Cons i "is")
  have "\<exists>b'. bindR (js_err (writeUint8 b (JNum (f i)))) (\<lambda>b1. foldR (\<lambda>b' i. js_err (writeUint8 b' (JNum (f i)))) b1 is) = Inr b'
      \<and> bb_appended b ([of_int (f i)] @ map (\<lambda>i. of_int (f i)) is) b'"
    using bb_write_appends [OF Cons.prems, of "[of_int (f i)]" 1]
    by (intro bindR_appended Cons.IH) (auto simp: writeUint8_def js_err_eq_Inr)
  then show ?case by simp
qed (simp add: bb_appended_refl)

lemma symbol_codes:
  assumes "sy \<in> set shared_symbols"
  shows "map (\<lambda>i. of_int (symbol_code sy i)) [0..<7] = (map ucast sy @ replicate (7 - length sy) 0 :: byte list)"
proof (rule nth_equalityI)
  show "length (map (\<lambda>i. of_int (symbol_code sy i)) [0..<7]) = length (map ucast sy @ replicate (7 - length sy) (0 :: byte))"
    using shared_symbol_facts(5) [OF assms] by simp
next
  fix i assume "i < length (map (\<lambda>i. of_int (symbol_code sy i) :: byte) [0..<7])"
  moreover have "(of_int (uint c) :: byte) = ucast c" for c :: code_unit
    by (simp add: word_of_int_uint)
  ultimately show "map (\<lambda>i. of_int (symbol_code sy i)) [0..<7] ! i = (map ucast sy @ replicate (7 - length sy) 0 :: byte list) ! i"
    by (simp add: symbol_code_def nth_append)
qed

text \<open>The symbol that is written: two symbols are written under their older names.\<close>

definition written_symbol :: "jsstring \<Rightarrow> jsstring" where
  "written_symbol sy = (if sy = js ''HIVE'' then js ''STEEM'' else if sy = js ''HBD'' then js ''SBD'' else sy)"

lemma written_symbol_shared: "sy \<in> set asset_symbols \<Longrightarrow> written_symbol sy \<in> set shared_symbols"
  by (auto simp: asset_symbols_set written_symbol_def shared_symbols_def)

lemma written_symbol_precision: "sy \<in> set asset_symbols \<Longrightarrow> precision_of (written_symbol sy) = precision_of sy"
  by (auto simp: written_symbol_def precision_of_def js_def)

text \<open>What is written for an asset whose product with the power of ten is rounded to \<open>m\<close>\<close>

lemma asset_serializer_writes:
  assumes a: "Asset_fromString t None = Inr \<lparr>as_amount = Fin False a, as_symbol = sy\<rparr>" and sy: "sy \<in> set asset_symbols"
    and m: "dbl_trunc (Math_round (dbl_mul (Fin False a) (dbl_of_int (10 ^ precision_of sy)))) = Some (int m)" "m < 2 ^ 53"
    and b: "bb_ok b"
  shows "\<exists>b'. AssetSerializer b (StrV t) = Inr b' \<and>
    bb_appended b (bytes64 (of_nat m) @ symbol_bytes (precision_of sy) (written_symbol sy)) b'"
proof -
  let ?sy = "written_symbol sy"
  let ?A = "\<lparr>as_amount = Fin False a, as_symbol = ?sy\<rparr>"
  have s: "bindR (Asset_from (StrV t) None) steem_symbols = Inr ?A"
    by (simp add: a Asset_from_def steem_symbols_def written_symbol_def expected_def js_def)
  have p: "getPrecision ?A = Some (precision_of sy)"
    using getPrecision_symbol [of ?A] shared_symbol_facts(1) [OF written_symbol_shared [OF sy]] written_symbol_precision [OF sy] by simp
  have w: "js_err (writeInt64 b (JNum (int m))) = js_err (writeInt64 b (JLong False (of_nat m)))"
    using m(2) by (simp add: writeInt64_def long_arg_def Long_fromNumber_def)
  have "AssetSerializer b (StrV t) =
      bindR (js_err (writeInt64 b (JLong False (of_nat m)))) (\<lambda>b1.
      bindR (js_err (writeUint8 b1 (JNum (int (precision_of sy))))) (\<lambda>b2.
        foldR (\<lambda>b' i. js_err (writeUint8 b' (JNum (symbol_code ?sy i)))) b2 [0..<7]))"
    using m(1) by (simp add: AssetSerializer_def s p w num_js_def del: dbl_mul.simps)
  moreover have "\<exists>b'. bindR (js_err (writeInt64 b (JLong False (of_nat m)))) (\<lambda>b1.
      bindR (js_err (writeUint8 b1 (JNum (int (precision_of sy))))) (\<lambda>b2.
        foldR (\<lambda>b' i. js_err (writeUint8 b' (JNum (symbol_code ?sy i)))) b2 [0..<7])) = Inr b'
      \<and> bb_appended b (bytes64 (of_nat m) @ [of_nat (precision_of sy)] @ map (\<lambda>i. of_int (symbol_code ?sy i)) [0..<7]) b'"
    using bb_i64.append_enc [of "JLong False (of_nat m)" b] bb_u8.append_enc [of "JNum (int (precision_of sy))"] b
    by (intro bindR_appended write_codes) (auto simp: js_err_eq_Inr precision_of_def)
  ultimately show ?thesis using symbol_codes [OF written_symbol_shared [OF sy]] by (simp add: symbol_bytes_def)
qed

lemma asset_serializer_amount:
  assumes k: "k < 2 ^ 51" and sy: "sy \<in> set asset_symbols" and b: "bb_ok b"
  shows "\<exists>b'. AssetSerializer b (StrV (amount_text k sy)) = Inr b' \<and>
    bb_appended b (bytes64 (of_nat k) @ symbol_bytes (precision_of sy) (written_symbol sy)) b'"
proof -
  have p: "precision_of sy \<le> 15" "dbl_of_int (10 ^ precision_of sy) = Fin False (10 ^ precision_of sy)"
    by (simp_all add: precision_of_def dbl_of_int_Fin)
  have "k < 2 ^ 52" using k by simp
  then obtain a where a: "Asset_fromString (amount_text k sy) None = Inr \<lparr>as_amount = Fin False a, as_symbol = sy\<rparr>"
    "to_double False (of_nat k / 10 ^ precision_of sy) = Fin False a" using sy by (rule fromString_amount)
  obtain c where "dbl_mul (Fin False a) (Fin False (10 ^ precision_of sy)) = Fin False c" "\<lfloor>c + 1 / 2\<rfloor> = int k"
    by (rule round_scaled_amount [OF k p(1) a(2)])
  then have "dbl_trunc (Math_round (dbl_mul (Fin False a) (dbl_of_int (10 ^ precision_of sy)))) = Some (int k)"
    by (simp add: p(2) dbl_val_def del: dbl_mul.simps)
  then show ?thesis by (rule asset_serializer_writes [OF a(1) sy _ _ b]) (use k in simp)
qed

lemma asset_serializer_ts: "writer (\<lambda>b v. AssetSerializer b (to_ts v)) asset_wire raw_asset"
proof (rule writerI)
  fix v b assume v: "raw_asset v" and b: "bb_ok b"
  from v obtain k sy where k: "v = JStr (amount_text k sy)" "k < 2 ^ 51" "sy \<in> set shared_symbols"
    "asset_wire v = bytes64 (of_nat k) @ symbol_bytes (precision_of sy) sy" by (rule raw_assetE)
  note sy = shared_symbol_facts [OF k(3)]
  from asset_serializer_amount [OF k(2) sy(1) b] k(1,4) sy(3,4)
  show "\<exists>b'. AssetSerializer b (to_ts v) = Inr b' \<and> bb_appended b (asset_wire v) b'" by (simp add: written_symbol_def)
qed

lemma inexact_asset:
  assumes "bb_ok b"
  shows "\<exists>b'. AssetSerializer b (StrV (js ''4294994912.509237 VESTS'')) = Inr b' \<and>
    bb_appended b (bytes64 4294994912509238 @ symbol_bytes 6 (js ''VESTS'')) b'"
proof -
  have p: "precision_of (js ''VESTS'') = 6" "js ''VESTS'' \<in> set asset_symbols" "written_symbol (js ''VESTS'') = js ''VESTS''"
    by (simp_all add: precision_of_def asset_symbols_def written_symbol_def js_def)
  obtain a where a: "Asset_fromString (js ''4294994912.509237 VESTS'') None = Inr \<lparr>as_amount = Fin False a, as_symbol = js ''VESTS''\<rparr>"
    "dbl_trunc (Math_round (dbl_mul (Fin False a) (dbl_of_int 1000000))) = Some 4294994912509238" using inexact_amount by blast
  have "dbl_trunc (Math_round (dbl_mul (Fin False a) (dbl_of_int (10 ^ precision_of (js ''VESTS''))))) = Some (int 4294994912509238)"
    using a(2) by (simp add: p(1) del: dbl_mul.simps)
  from asset_serializer_writes [OF a(1) p(2) this _ assms] show ?thesis by (simp add: p)
qed
text \<open>
  The text of a key that both curve libraries accept: its bytes pass \<open>publicKeyVerify\<close>, and \<open>ecurve\<close>
  decodes them to a point that it encodes in the same bytes.
\<close>

fun raw_key :: "env \<Rightarrow> secp256k1 \<Rightarrow> jsval \<Rightarrow> bool" where
  "raw_key E S (JStr s) \<longleftrightarrow>
     length (address_prefix E) = 3 \<and> \<not> ends_with null_key_suffix s \<and>
     (case decodePublic E s of
        Inl _ \<Rightarrow> False
      | Inr (key, prefix) \<Rightarrow> prefix = address_prefix E \<and> publicKeyVerify S key \<and> key \<noteq> null_key_bytes \<and>
          (case point_decodeFrom E key of Inl _ \<Rightarrow> False | Inr q \<Rightarrow> point_getEncoded E q (pt_compressed q) = key))"
| "raw_key E S _ \<longleftrightarrow> False"

fun raw_key_wire :: "env \<Rightarrow> jsval \<Rightarrow> byte list" where
  "raw_key_wire E (JStr s) = (case decodePublic E s of Inl _ \<Rightarrow> [] | Inr (key, prefix) \<Rightarrow> key)"
| "raw_key_wire E _ = []"

lemma decodePublic_checked:
  assumes "decodePublic E s = Inr (key, prefix)"
  shows "checked_base58 E s prefix = Inr key" "prefix = take 3 s" "length prefix = 3"
  using assms
  by (auto simp: decodePublic_def bindR_eq_Inr js_err_eq_Inr assert_that_def split_checksum_def checked_base58_def Let_def
      split: if_splits)

lemma raw_keyE:
  assumes "raw_key E S v"
  obtains s key q where "v = JStr s" "decodePublic E s = Inr (key, address_prefix E)" "publicKeyVerify S key"
    "key \<noteq> null_key_bytes" "point_decodeFrom E key = Inr q" "point_getEncoded E q (pt_compressed q) = key"
    "\<not> ends_with null_key_suffix s" "raw_key_wire E v = key"
  using assms that by (cases v) (auto split: sum.splits)

lemma key_raw: "writer (appendByteBuffer (public_key E)) (raw_key_wire E) (raw_key E S)"
proof (rule writerI)
  fix v b assume v: "raw_key E S v" and b: "bb_ok b"
  from v obtain s key q where s: "v = JStr s" "decodePublic E s = Inr (key, address_prefix E)"
    "key \<noteq> null_key_bytes" "point_decodeFrom E key = Inr q" "point_getEncoded E q (pt_compressed q) = key"
    "raw_key_wire E v = key" by (rule raw_keyE)
  have "fromStringOrThrow E s (address_prefix E) = Inr (JPub (Some q))"
    using decodePublic_checked(1) [OF s(2)] s(3,4)
    by (simp add: fromStringOrThrow_def PublicKey_fromBuffer_def null_key_hex)
  moreover have "length s \<noteq> 0"
    using decodePublic_checked(2,3) [OF s(2)] by auto
  ultimately have "appendByteBuffer (public_key E) b v = bb_append b (toBinaryString key)"
    using s(1,5) by (simp add: public_key_def required_def is_empty_def toPublic_def resolve_def has_Q_def key_from_text_def
        fp_public_key_write_def js_truthy_def PublicKey_toBuffer_def)
  then show "\<exists>b'. appendByteBuffer (public_key E) b v = Inr b' \<and> bb_appended b (raw_key_wire E v) b'"
    using bb_append_bytes [OF b, of key] s(6) by simp
qed

lemma key_ts: "writer (\<lambda>b v. PublicKeySerializer E S b (to_ts v)) (raw_key_wire E) (raw_key E S)"
proof (rule writerI)
  fix v b assume v: "raw_key E S v" and b: "bb_ok b"
  from v obtain s key where s: "v = JStr s" "decodePublic E s = Inr (key, address_prefix E)" "publicKeyVerify S key"
    "\<not> ends_with null_key_suffix s" "raw_key_wire E v = key" by (rule raw_keyE)
  then have "PublicKeySerializer E S b (to_ts v) = append_bytes b key"
    by (simp add: PublicKeySerializer_def PublicKey_from_def ts_PublicKey_fromString_def new_PublicKey_def assert_that_def)
  then show "\<exists>b'. PublicKeySerializer E S b (to_ts v) = Inr b' \<and> bb_appended b (raw_key_wire E v) b'"
    using append_bytes_appends [OF b, of key] s(5) by simp
qed

section \<open>Containers\<close>

lemma foldR_map: "foldR f s (map g xs) = foldR (\<lambda>s x. f s (g x)) s xs"
  by (induction xs arbitrary: s) simp_all

lemma array_raw:
  assumes "writer (appendByteBuffer st) enc V"
  shows "writer (appendByteBuffer (st_array E st)) (\<lambda>v. counted enc (the_arr v)) (array_valid E st V)"
proof (rule writerI)
  fix v b assume v: "array_valid E st V v" and b: "bb_ok b"
  from v obtain xs where x: "v = JArr xs" "length xs < 2147483648" "list_all V xs" "sortOperation E (JArr xs) st = Inr (JArr xs)"
    by (rule array_validE)
  show "\<exists>b'. appendByteBuffer (st_array E st) b v = Inr b' \<and> bb_appended b (counted enc (the_arr v)) b'"
    using writer.write_all_counted [OF assms b write_size [OF b x(2)] x(3)] x
    by (simp add: st_array_def append_elems_def js_elems_def)
qed

lemma set_raw:
  assumes "writer (appendByteBuffer st) enc V"
  shows "writer (appendByteBuffer (st_set E st)) (\<lambda>v. counted enc (the_arr v)) (set_valid E st V)"
proof (rule writerI)
  fix v b assume v: "set_valid E st V v" and b: "bb_ok b"
  from v obtain xs where x: "v = JArr xs" "length xs < 2147483648" "list_all V xs" "sortOperation E (JArr xs) st = Inr (JArr xs)"
    "check_dups DuplicateSet [] xs = Inr ()" by (auto simp: set_valid_def elim!: array_validE)
  show "\<exists>b'. appendByteBuffer (st_set E st) b v = Inr b' \<and> bb_appended b (counted enc (the_arr v)) b'"
    using writer.write_all_counted [OF assms b write_size [OF b x(2)] x(3)] x
    by (simp add: st_set_def append_elems_def js_elems_def or_empty_def js_truthy_def set_validate_def Let_def)
qed

lemma entryE:
  assumes "entry_valid kV xV e"
  obtains k x where "e = JArr [k, x]" "kV k" "xV x"
  using assms that by (auto simp: entry_valid_def split: jsval.splits list.splits)

lemma map_raw:
  assumes "writer (appendByteBuffer kst) kenc kV" "writer (appendByteBuffer xst) xenc xV"
  shows "writer (appendByteBuffer (st_map E kst xst)) (\<lambda>v. counted (entry_wire kenc xenc) (the_arr v)) (map_valid E kst kV xV)"
proof (rule writerI)
  have e: "writer (append_entry kst xst) (entry_wire kenc xenc) (entry_valid kV xV)"
  proof (rule writerI)
    fix e b assume "entry_valid kV xV e" "bb_ok b"
    then obtain k x where k: "e = JArr [k, x]" "kV k" "xV x" by (elim entryE)
    then have "\<exists>b'. bindR (appendByteBuffer kst b k) (\<lambda>b1. appendByteBuffer xst b1 x) = Inr b' \<and> bb_appended b (kenc k @ xenc x) b'"
      using writer.write_enc [OF assms(1) k(2) \<open>bb_ok b\<close>] writer.write_enc [OF assms(2) k(3)] by (intro bindR_appended) auto
    then show "\<exists>b'. append_entry kst xst b e = Inr b' \<and> bb_appended b (entry_wire kenc xenc e) b'"
      using k by (simp add: append_entry_def entry_wire_def)
  qed
  fix v b assume v: "map_valid E kst kV xV v" and b: "bb_ok b"
  from v obtain xs where x: "v = JArr xs" "length xs < 2147483648" "list_all (entry_valid kV xV) xs"
    "sortOperation E (JArr xs) kst = Inr (JArr xs)" "check_entries [] xs = Inr ()" by (auto simp: map_valid_def elim!: array_validE)
  show "\<exists>b'. appendByteBuffer (st_map E kst xst) b v = Inr b' \<and> bb_appended b (counted (entry_wire kenc xenc) (the_arr v)) b'"
    using writer.write_all_counted [OF e b write_size [OF b x(2)] x(3)] x by (simp add: st_map_def js_elems_def map_validate_def)
qed

text \<open>The arrays and flat maps of the TypeScript library: the length, then the elements in their order.\<close>

lemma length_ts: "n < 2147483648 \<Longrightarrow> prim_js (NumV (dbl_of_int (int n))) = JNum (int n)"
  by (simp add: dbl_int_of_int num_js_def)

lemma array_ts:
  assumes "writer (\<lambda>b v. ser b (to_ts v)) enc V" "\<And>v. V' v \<Longrightarrow> \<exists>xs. v = JArr xs \<and> length xs < 2147483648 \<and> list_all V xs"
  shows "writer (\<lambda>b v. ArraySerializer ser b (to_ts v)) (\<lambda>v. counted enc (the_arr v)) V'"
proof (rule writerI)
  fix v b assume "V' v" and b: "bb_ok b"
  with assms(2) obtain xs where x: "v = JArr xs" "length xs < 2147483648" "list_all V xs" by blast
  show "\<exists>b'. ArraySerializer ser b (to_ts v) = Inr b' \<and> bb_appended b (counted enc (the_arr v)) b'"
    using writer.write_all_counted [OF assms(1) b write_size_ts [OF b x(2)] x(3)] x
    by (simp add: ArraySerializer_def length_ts foldR_map del: prim_js.simps)
qed

lemma map_ts:
  assumes "writer (\<lambda>b v. kser b (to_ts v)) kenc kV" "writer (\<lambda>b v. xser b (to_ts v)) xenc xV"
  shows "writer (\<lambda>b v. FlatMapSerializer kser xser b (to_ts v)) (\<lambda>v. counted (entry_wire kenc xenc) (the_arr v)) (map_valid E kst kV xV)"
proof (rule writerI)
  let ?entry = "\<lambda>b e. bindR (ts_pair e) (\<lambda>(key, v). bindR (kser b key) (\<lambda>b2. xser b2 v))"
  have e: "writer (\<lambda>b e. ?entry b (to_ts e)) (entry_wire kenc xenc) (entry_valid kV xV)"
  proof (rule writerI)
    fix e b assume "entry_valid kV xV e" "bb_ok b"
    then obtain k x where k: "e = JArr [k, x]" "kV k" "xV x" by (elim entryE)
    then have "\<exists>b'. bindR (kser b (to_ts k)) (\<lambda>b1. xser b1 (to_ts x)) = Inr b' \<and> bb_appended b (kenc k @ xenc x) b'"
      using writer.write_enc [OF assms(1) k(2) \<open>bb_ok b\<close>] writer.write_enc [OF assms(2) k(3)] by (intro bindR_appended) auto
    then show "\<exists>b'. ?entry b (to_ts e) = Inr b' \<and> bb_appended b (entry_wire kenc xenc e) b'"
      using k by (simp add: ts_pair_def entry_wire_def)
  qed
  fix v b assume v: "map_valid E kst kV xV v" and b: "bb_ok b"
  from v obtain xs where x: "v = JArr xs" "length xs < 2147483648" "list_all (entry_valid kV xV) xs"
    by (auto simp: map_valid_def elim!: array_validE)
  show "\<exists>b'. FlatMapSerializer kser xser b (to_ts v) = Inr b' \<and> bb_appended b (counted (entry_wire kenc xenc) (the_arr v)) b'"
    using writer.write_all_counted [OF e b write_size_ts [OF b x(2)] x(3)] x
    by (simp add: FlatMapSerializer_def length_ts foldR_map del: prim_js.simps)
qed

definition raw_optional :: "(jsval \<Rightarrow> bool) \<Rightarrow> jsval \<Rightarrow> bool" where
  "raw_optional V v \<longleftrightarrow> v = JUndef \<or> (v \<noteq> JNull \<and> V v \<and> ts_truthy (to_ts v))"

lemma optional_raw:
  assumes "writer (appendByteBuffer st) enc V"
  shows "writer (appendByteBuffer (st_optional st)) (optional_wire enc) (raw_optional V)"
proof (rule writerI)
  fix v b assume v: "raw_optional V v" and b: "bb_ok b"
  have f: "\<exists>b'. writeUint8 b (JNum 1) = Inr b' \<and> bb_appended b [1] b'" using write_flag [OF b, of True] by simp
  show "\<exists>b'. appendByteBuffer (st_optional st) b v = Inr b' \<and> bb_appended b (optional_wire enc v) b'"
  proof (cases "v = JUndef")
    case True
    then show ?thesis using write_flag [OF b, of False] by (simp add: st_optional_def optional_wire_def)
  next
    case False
    with v have v': "V v" "v \<noteq> JNull" by (auto simp: raw_optional_def)
    have "\<exists>b'. bindR (writeUint8 b (JNum 1)) (\<lambda>b1. appendByteBuffer st b1 v) = Inr b' \<and> bb_appended b ([1] @ enc v) b'"
      using f writer.write_enc [OF assms v'(1)] by (intro bindR_appended) auto
    with False v' show ?thesis by (simp add: st_optional_def optional_wire_def)
  qed
qed

lemma optional_ts:
  assumes "writer (\<lambda>b v. ser b (to_ts v)) enc V"
  shows "writer (\<lambda>b v. OptionalSerializer ser b (to_ts v)) (optional_wire enc) (raw_optional V)"
proof (rule writerI)
  fix v b assume v: "raw_optional V v" and b: "bb_ok b"
  have f: "\<exists>b'. js_err (writeInt8 b (JNum n)) = Inr b' \<and> bb_appended b [of_int n] b'" for n
    using bb_write_appends [OF b, of "[of_int n]" 1] by (auto simp: writeInt8_def js_err_eq_Inr)
  show "\<exists>b'. OptionalSerializer ser b (to_ts v) = Inr b' \<and> bb_appended b (optional_wire enc v) b'"
  proof (cases "v = JUndef")
    case True
    then show ?thesis using f [of 0] by (simp add: OptionalSerializer_def optional_wire_def ts_truthy_def)
  next
    case False
    with v have v': "V v" "ts_truthy (to_ts v)" by (auto simp: raw_optional_def)
    have "\<exists>b'. bindR (js_err (writeInt8 b (JNum 1))) (\<lambda>b1. ser b1 (to_ts v)) = Inr b' \<and> bb_appended b ([1] @ enc v) b'"
      using f [of 1] writer.write_enc [OF assms v'(1)] by (intro bindR_appended) auto
    with False v' show ?thesis by (simp add: OptionalSerializer_def optional_wire_def)
  qed
qed

section \<open>Records\<close>

definition field_of :: "jsval \<Rightarrow> string \<Rightarrow> jsval" where
  "field_of v k = (case v of JObj kvs \<Rightarrow> (case map_of kvs k of None \<Rightarrow> JUndef | Some x \<Rightarrow> x) | _ \<Rightarrow> JUndef)"

definition raw_record :: "(string \<times> (jsval \<Rightarrow> bool)) list \<Rightarrow> jsval \<Rightarrow> bool" where
  "raw_record Vs v \<longleftrightarrow> (case v of JObj _ \<Rightarrow> list_all (\<lambda>(k, V). V (field_of v k)) Vs | _ \<Rightarrow> False)"

definition raw_record_wire :: "(string \<times> (jsval \<Rightarrow> byte list)) list \<Rightarrow> jsval \<Rightarrow> byte list" where
  "raw_record_wire encs v = concat (map (\<lambda>(k, enc). enc (field_of v k)) encs)"

text \<open>A list of fields, each with its writer.\<close>

inductive fields_writer ::
  "(string \<times> (bytebuffer \<Rightarrow> jsval \<Rightarrow> 'e + bytebuffer)) list \<Rightarrow> (string \<times> (jsval \<Rightarrow> byte list)) list \<Rightarrow> (string \<times> (jsval \<Rightarrow> bool)) list \<Rightarrow> bool"
where
  Nil: "fields_writer [] [] []"
| Cons: "writer wr enc V \<Longrightarrow> fields_writer fs encs Vs \<Longrightarrow> fields_writer ((k, wr) # fs) ((k, enc) # encs) ((k, V) # Vs)"

inductive_cases fields_writer_NilE: "fields_writer [] encs Vs"
inductive_cases fields_writer_ConsE: "fields_writer ((k, wr) # fs) encs Vs"

lemma fields_raw:
  assumes "fields_writer (map (\<lambda>(k, st). (k, appendByteBuffer st)) fs) encs Vs" "list_all (\<lambda>(k, V). V (field_of (JObj kvs) k)) Vs" "bb_ok b"
  shows "\<exists>b'. append_fields E name (JObj kvs) b fs = Inr b' \<and> bb_appended b (raw_record_wire encs (JObj kvs)) b'"
  using assms
proof (induction fs arbitrary: encs Vs b)
  case Nil
  then show ?case by (auto elim: fields_writer_NilE simp: raw_record_wire_def bb_appended_refl)
next
  case (Cons f fs)
  obtain k st where f: "f = (k, st)" by (cases f)
  from Cons.prems(1) f obtain enc encs' V Vs' where e: "encs = (k, enc) # encs'" "Vs = (k, V) # Vs'"
      "writer (appendByteBuffer st) enc V" "fields_writer (map (\<lambda>(k, st). (k, appendByteBuffer st)) fs) encs' Vs'"
    by (auto elim!: fields_writer_ConsE)
  let ?x = "field_of (JObj kvs) k"
  have g: "js_get (JObj kvs) k = Inr ?x" by (simp add: field_of_def)
  obtain b1 where b1: "appendByteBuffer st b ?x = Inr b1" "bb_appended b (enc ?x) b1"
    using writer.write_enc [OF e(3) _ Cons.prems(3)] Cons.prems(2) e(2) by auto
  obtain b2 where b2: "append_fields E name (JObj kvs) b1 fs = Inr b2" "bb_appended b1 (raw_record_wire encs' (JObj kvs)) b2"
    using Cons.IH [OF e(4) _ bb_appended_ok [OF b1(2)]] Cons.prems(2) e(2) by auto
  show ?case
    using b1 b2 bb_appended_trans [OF b1(2) b2(2)] f e g
    by (simp add: append_cause_def raw_record_wire_def del: js_get.simps)
qed

lemma serializer_raw:
  assumes "fields_writer (map (\<lambda>(k, st). (k, appendByteBuffer st)) fs) encs Vs"
  shows "writer (appendByteBuffer (Serializer E name fs)) (raw_record_wire encs) (raw_record Vs)"
  by (rule writerI) (use fields_raw [OF assms] in \<open>auto simp: raw_record_def Serializer_def split: jsval.splits\<close>)

lemma fields_ts:
  assumes "fields_writer (map (\<lambda>(k, ser). (k, \<lambda>b v. ser b (to_ts v))) fs) encs Vs"
    "list_all (\<lambda>(k, V). V (field_of (JObj kvs) k)) Vs" "bb_ok b"
  shows "\<exists>b'. ObjectSerializer fs b (to_ts (JObj kvs)) = Inr b' \<and> bb_appended b (raw_record_wire encs (JObj kvs)) b'"
  using assms
proof (induction fs arbitrary: encs Vs b)
  case Nil
  then show ?case by (auto elim: fields_writer_NilE simp: raw_record_wire_def bb_appended_refl)
next
  case (Cons f fs)
  obtain k ser where f: "f = (k, ser)" by (cases f)
  from Cons.prems(1) f obtain enc encs' V Vs' where e: "encs = (k, enc) # encs'" "Vs = (k, V) # Vs'"
      "writer (\<lambda>b v. ser b (to_ts v)) enc V" "fields_writer (map (\<lambda>(k, ser). (k, \<lambda>b v. ser b (to_ts v))) fs) encs' Vs'"
    by (auto elim: fields_writer_ConsE)
  let ?x = "field_of (JObj kvs) k"
  have g: "ts_get (to_ts (JObj kvs)) k = Inr (to_ts ?x)" unfolding ts_get_to_ts by (simp add: field_of_def)
  obtain b1 where b1: "ser b (to_ts ?x) = Inr b1" "bb_appended b (enc ?x) b1"
    using writer.write_enc [OF e(3) _ Cons.prems(3)] Cons.prems(2) e(2) by auto
  obtain b2 where b2: "ObjectSerializer fs b1 (to_ts (JObj kvs)) = Inr b2" "bb_appended b1 (raw_record_wire encs' (JObj kvs)) b2"
    using Cons.IH [OF e(4) _ bb_appended_ok [OF b1(2)]] Cons.prems(2) e(2) by auto
  show ?case
    using b1 b2 bb_appended_trans [OF b1(2) b2(2)] f e g
    by (simp add: at_key_def raw_record_wire_def del: ts_get.simps to_ts.simps)
qed

lemma object_ts:
  assumes "fields_writer (map (\<lambda>(k, ser). (k, \<lambda>b v. ser b (to_ts v))) fs) encs Vs"
  shows "writer (\<lambda>b v. ObjectSerializer fs b (to_ts v)) (raw_record_wire encs) (raw_record Vs)"
  by (rule writerI) (use fields_ts [OF assms] in \<open>auto simp: raw_record_def simp del: to_ts.simps split: jsval.splits\<close>)

section \<open>Numbers\<close>

lemma int_writer:
  assumes "codec app read enc (num_in lo hi)" "- (2 ^ 53) < lo" "hi < 2 ^ 53"
  shows "writer (\<lambda>b v. js_err (app b (prim_js (to_ts v)))) enc (num_in lo hi)"
proof (rule writerI)
  fix v b assume "num_in lo hi v" "bb_ok b"
  then show "\<exists>b'. js_err (app b (prim_js (to_ts v))) = Inr b' \<and> bb_appended b (enc v) b'"
    using codec.append_enc [OF assms(1)] prim_js_num [OF _ assms(2,3)] by (auto simp: js_err_eq_Inr)
qed

lemma long_raw: "num_in 0 9007199254740991 v \<Longrightarrow> bb_ok b \<Longrightarrow> \<exists>b'. writeInt64 b v = Inr b' \<and> bb_appended b (raw_long v) b'"
  by (auto elim!: num_inE simp: writeInt64_def long_arg_def Long_fromNumber_def raw_long_def bb_ok_def order_def
      intro!: bb_write_appends)

lemma codec_writer: "is_codec st enc V \<Longrightarrow> writer (appendByteBuffer st) enc V"
  by (rule writerI) (rule is_codec_append)

end
