(* ===== verification/Texts.thy ===== *)
theory Texts
  imports Agreement Decimals ObjectId Json Examples
begin

text \<open>
  Texts of values that are read back: 64-bit numbers, decimal points, object identifiers, times, and
  strings quoted for JSON.
\<close>

section \<open>Numbers\<close>

text \<open>
  Every 64-bit number, signed or unsigned, is read back from its decimal text. Validated decimal
  text below \<open>2 ^ 63\<close> is converted exactly; the overflow check ignores the zeros at the end of a
  text, so that ten to the nineteenth passes it and is converted to another number.
\<close>

theorem decimal_longs:
  "Long_fromString (Long_toString uns w) = Inr w \<and>
   (list_all is_digit s \<and> s \<noteq> [] \<and> digits_val s < 2 ^ 63 \<longrightarrow>
      to_long E (JStr s) = Inr (JLong False (of_nat (digits_val s))) \<and> uint (of_nat (digits_val s) :: 64 word) = int (digits_val s)) \<and>
   to_long E (JStr (49 # replicate 19 48)) = Inr (JLong False (10 ^ 19)) \<and> sint (10 ^ 19 :: 64 word) < 0"
proof -
  have "digits_val (strip_zeros s) \<le> digits_val s" if "list_all is_digit s"
    using strip_zeros_le that by blast
  moreover have "uint (of_nat n :: 64 word) = int n" if "n < 2 ^ 63" for n
    using that by (simp add: unsigned_of_nat take_bit_nat_eq_self)
  moreover have "to_long E (JStr (49 # replicate 19 48)) = Inr (JLong False (10 ^ 19))"
  proof -
    have "list_all is_digit (49 # replicate 19 48)" "digits_val (strip_zeros (49 # replicate 19 48)) < 2 ^ 63" by code_simp+
    moreover have "digits_val (49 # replicate 19 48) = 10 ^ 19" by (simp add: digits_val_Cons digit_val_def)
    ultimately show ?thesis using to_long_digits [of "49 # replicate 19 48" E] by simp
  qed
  moreover have "sint (10 ^ 19 :: 64 word) < 0" by code_simp
  ultimately show ?thesis
    using to_long_digits [of s E] Long_fromString_toString by (auto intro: order_le_less_trans)
qed

theorem decimal_longs_witness: "to_long example_env (JStr (js ''42'')) = Inr (JLong False 42)"
proof -
  have "list_all is_digit (js ''42'')" "js ''42'' \<noteq> []" "digits_val (js ''42'') = 42" by code_simp+
  with decimal_longs [where s = "js ''42''" and E = example_env and uns = False and w = 0] show ?thesis by simp
qed

text \<open>
  The decimal point put into a text of digits by \<open>fromImpliedDecimal\<close> is taken out again by
  \<open>toImpliedDecimal\<close>: the digits denote the same number.
\<close>

theorem implied_decimals:
  assumes "list_all is_digit s" "s \<noteq> []"
  shows "\<exists>t u. fromImpliedDecimal E (JStr s) p = Inr u \<and> toImpliedDecimal E (JStr u) p = Inr t \<and> digits_val t = digits_val s"
  using toImplied_fromImplied [OF assms, of E p] by (auto simp: fromImpliedDecimal_def number_text_def is_number_def js_toString_def)

theorem implied_decimals_witness:
  "\<exists>t u. fromImpliedDecimal example_env (JStr (js ''5'')) 3 = Inr u \<and> toImpliedDecimal example_env (JStr u) 3 = Inr t \<and> digits_val t = 5"
proof -
  have d: "list_all is_digit (js ''5'')" "js ''5'' \<noteq> []" "digits_val (js ''5'') = 5" by code_simp+
  from implied_decimals [OF d(1,2)] d(3) show ?thesis by simp
qed

text \<open>
  A three-part identifier packed into 64 bits is unpacked to its parts when its space is below
  128; the packing puts the parts side by side.
\<close>

theorem object_ids:
  assumes "0 \<le> space" "space < 128" "0 \<le> type" "type < 256" "unat inst < 2 ^ 48"
  shows "ObjectId_fromLong True (ObjectId_toLong space type inst) = Inr (JOid space type True inst) \<and>
    unat (ObjectId_toLong space type inst) = nat space * 2 ^ 56 + nat type * 2 ^ 48 + unat inst"
  using ObjectId_fromLong_toLong [OF assms] ObjectId_toLong_unat [of space type inst] assms by simp

theorem object_ids_witness: "ObjectId_fromLong True (ObjectId_toLong 1 2 3) = Inr (JOid 1 2 True 3)"
  using object_ids [of 1 2 3] by simp

section \<open>Times and strings\<close>

lemma parseInt_dec_int: "0 \<le> t \<Longrightarrow> parseInt (dec_int t) = Some t"
proof -
  assume t: "0 \<le> t"
  let ?s = "dec_nat (nat t)"
  have d: "list_all is_digit ?s" "?s \<noteq> []" by simp_all
  have "120 \<notin> set (take 2 ?s)" "88 \<notin> set (take 2 ?s)"
    using d(1) by (auto simp: list_all_iff is_digit_def dest!: in_set_takeD)
  moreover have "120 \<in> set (js ''0x'')" "88 \<in> set (js ''0X'')" by code_simp+
  ultimately have "take 2 ?s \<noteq> js ''0x'' \<and> take 2 ?s \<noteq> js ''0X''" by metis
  moreover have "dropWhile is_ws ?s = ?s" using d by (cases ?s) (auto simp: digit_not_ws)
  moreover have "parse_digits ?s = Some (int (digits_val ?s))" using d by (simp add: parse_digits_def takeWhile_all)
  ultimately show ?thesis using t d(1) by (simp add: parseInt_def dec_int_def parse_sign_digits)
qed

text \<open>
  A time in seconds is printed so that it is read back as the same second, from 1970 to the year
  9999: leap years, months and days are those of the calendar on both ways.
\<close>

theorem time_text_roundtrip:
  assumes "0 \<le> t" "t \<le> 4294967295"
  shows "bindR (toObject (time_point_sec E) (JNum t) \<lparr>use_default = False, annotate = False\<rparr>) (fromObject (time_point_sec E)) =
    Inr (JNum t)"
proof -
  have "parse_iso (iso_seconds t @ [90]) = Some t" using assms by (intro parse_iso_seconds) simp_all
  then have "date_getTime E (iso_seconds t @ [90]) = Some (t * 1000)" by (simp add: date_getTime_def)
  with assms show ?thesis
    by (simp add: time_point_sec_def time_text_def time_fromObject_def seconds_of_def required_def is_empty_def
      iso_seconds_last require_range_num js_parseInt_def parseInt_dec_int num_of_def js_truthy_def is_number_def
      MIN_SAFE_INT_def MAX_SAFE_INT_def)
qed

theorem time_text_roundtrip_witness:
  "bindR (toObject (time_point_sec example_env) (JNum 1583020799) \<lparr>use_default = False, annotate = False\<rparr>)
     (fromObject (time_point_sec example_env)) = Inr (JNum 1583020799)"
  by (rule time_text_roundtrip) simp_all

text \<open>
  A string quoted for JSON is read back as that string by the specification of \<open>JSON.parse\<close>,
  unpaired surrogates included.
\<close>

theorem json_strings:
  "JSON_stringify (JStr s) = Inr (Some (34 # json_chars s @ [34])) \<and> json_unquote (json_chars s @ 34 # rest) = Some (s, rest)"
  by (simp add: json_quote_def json_unquote_chars)

end
