(* ===== verification/Deviations.thy ===== *)
theory Deviations
  imports Schema Sorting Broadcast Sending Examples
begin

text \<open>
  What the code of \<open>blurtjs\<close> does where it does not do what it means to: values that cannot be read or
  written, sets that are refused, requests that are lost with their connection, options that
  replace the transport, and helpers that misplace their callback or hide an error.
\<close>

section \<open>Values\<close>

text \<open>
  The null key, thirty-three zero bytes, is read as a key without a point, but cannot be
  written: the type \<open>public_key\<close> converts it to bytes by its point.
\<close>

theorem null_key_not_written:
  "fromBuffer (public_key E) null_key_bytes = Inr (JPub None) \<and>
   appendByteBuffer (public_key E) b (JPub None) = Inl TypeError"
proof -
  have "fixed_data_read (fromBinary null_key_bytes True) 33 =
    Inr (null_key_bytes, bb_advance 33 (fromBinary null_key_bytes True))"
    by (rule fixed_data_read_bytes [of _ _ "[]"]) (simp_all add: null_key_bytes_def)
  moreover have "PublicKey_fromBuffer E null_key_bytes = Inr (JPub None)"
    using PublicKey_fromBuffer_toBuffer [of E None] by (simp add: PublicKey_toBuffer_def)
  ultimately show ?thesis
    by (simp add: public_key_def fromBuffer_def fp_public_key_read_def required_def is_empty_def toPublic_def
      resolve_def has_Q_def key_from_text_def)
qed

text \<open>
  No asset with a numerical identifier can be read: from a precision byte of sixteen on, every
  input makes \<open>asset\<close> and \<open>asset_symbol\<close> throw.
\<close>

theorem nai_never_read:
  assumes "readInt64 b = Inr (amount, b1)" "readUint8 b1 = Inr (JNum p, b2)" "16 \<le> p"
  shows "(\<exists>e. fromByteBuffer (asset E) b = Inl e) \<and> (\<exists>e. fromByteBuffer (asset_symbol E) b1 = Inl e)"
proof -
  have "\<exists>e. read_nai b2 = Inl e" by (cases "bb_copy b2 (bb_offset b2 - 1) (bb_offset b2 + 3)") (simp_all add: read_nai_def)
  with assms show ?thesis by (simp add: asset_def asset_read_def asset_symbol_def asset_symbol_read_def)
qed

theorem nai_never_read_witness:
  "\<exists>e. fromByteBuffer (asset example_env) (fromBinary (bytes64 0 @ [35, 1, 2, 3]) True) = Inl e"
proof -
  let ?b = "fromBinary (bytes64 0 @ [35, 1, 2, 3]) True"
  have b: "bb_input ?b" "bb_remaining ?b = bytes64 0 @ [35, 1, 2, 3]" by simp_all
  have r1: "readInt64 ?b = Inr (JLong False 0, bb_advance 8 ?b)"
    using bb_i64.read_enc [of "JLong False 0" ?b "[35, 1, 2, 3]"] by simp
  have "bb_input (bb_advance 8 ?b)" "bb_remaining (bb_advance 8 ?b) = [35, 1, 2, 3]"
    using b bb_advance_input [of ?b "bytes64 0" "[35, 1, 2, 3]"] by simp_all
  then have r2: "readUint8 (bb_advance 8 ?b) = Inr (JNum 35, bb_advance 1 (bb_advance 8 ?b))"
    using bb_u8.read_enc [of "JNum 35" "bb_advance 8 ?b" "[1, 2, 3]"] by simp
  from nai_never_read [OF r1 r2] show ?thesis by simp
qed

text \<open>
  A set of texts is checked for duplicates and sorted: the result is the sorted list when the
  texts are different, and independent of the order they came in; a duplicate is refused, and
  so is every text that names a property of \<open>Object.prototype\<close>.
\<close>

theorem set_of_texts:
  assumes "nosort st = False" "st_compare st = None" "set ss = set ts" "distinct ss" "distinct ts"
  shows "set_validate E st (JArr (map JStr ss)) = set_validate E st (JArr (map JStr ts)) \<and>
    set_validate E st (JArr (map JStr ss)) =
      (if list_all (\<lambda>s. \<not> inherited s) ss then Inr (JArr (map JStr (sort ss))) else Inl DuplicateSet) \<and>
    (s \<in> set ss \<longrightarrow> set_validate E st (JArr (map JStr (s # ss))) = Inl DuplicateSet)"
proof -
  have "sort ss = sort ts"
    using assms(3-5) by (metis sorted_distinct_set_unique sorted_sort distinct_sort set_sort)
  with assms(3-5) show ?thesis
    by (simp add: set_validate_strings [OF assms(1,2)] list_all_iff flip: list.simps(9))
qed

theorem set_of_texts_witness:
  "set_validate example_env (st_string example_env) (JArr (map JStr [js ''bob'', js ''alice''])) =
   set_validate example_env (st_string example_env) (JArr (map JStr [js ''alice'', js ''bob'']))"
proof -
  have "nosort (st_string example_env) = False" "st_compare (st_string example_env) = None" by (simp_all add: st_string_def)
  moreover have "js ''alice'' \<noteq> js ''bob''" by code_simp
  ultimately show ?thesis
    using set_of_texts [of "st_string example_env" "[js ''bob'', js ''alice'']" "[js ''alice'', js ''bob'']"] by auto
qed

section \<open>Connections\<close>

text \<open>
  When an open socket fails or closes while requests are unanswered, the handler throws: it calls
  no callback, and the failed requests stay where they are. The callbacks of these requests are
  not called by the loss of the connection.
\<close>

theorem lost_requests:
  assumes "ws_requests s \<noteq> []" "ws_step url_ok s ev (s', outs)" "ev = EvClose \<or> ev = EvError e"
  shows "outs = [WsThrow TypeError] \<and> ws_requests s' = ws_requests s"
  using assms by (auto elim!: ws_stepE simp: ws_onError_def ws_onClose_def)

theorem lost_requests_witness:
  "\<exists>s'. ws_step (\<lambda>u. True) (example_open\<lparr>ws_requests := [(JNum 0, 0)]\<rparr>) EvClose (s', [WsThrow TypeError]) \<and> ws_requests s' = [(JNum 0, 0)]"
proof -
  let ?s = "example_open\<lparr>ws_requests := [(JNum 0, 0)]\<rparr>"
  obtain s' outs where st: "ws_step (\<lambda>u. True) ?s EvClose (s', outs)"
    using ws_step.closed [of ?s 0] by (auto simp: ws_onClose_def example_open_def ws_onopen_def)
  from lost_requests [OF _ st] show ?thesis using st by auto
qed

text \<open>
  A connection that the other side has closed is never opened again by \<open>send\<close>: \<open>startPromise\<close> is
  still the resolved one, so the next request is written to the closed socket.
\<close>

theorem no_reconnection:
  assumes "ws_history url_ok opts s outs" "ws_socket s = Some (k, SClosed)" "ws_waiting s = []"
  shows "ws_fresh (ws_send url_ok api d s) = ws_fresh s \<and>
    (\<exists>s'. ws_run (ws_send url_ok api d s) = (s', [WsWrite k (ws_calls s) (fst (request_id (ws_id s) d)) (request_params (ws_options s) api d)]) \<and>
       ws_socket s' = Some (k, SClosed))"
proof -
  have "ws_conn s" by (rule conn.history [OF assms(1)])
  with assms(2) have p: "ws_startPromise s = Some k" "ws_promise s k = Resolved" by (auto simp: ws_conn_def)
  then have "ws_send url_ok api d s = s\<lparr>ws_waiting := [(k, \<lparr>c_tag = ws_calls s, c_api = api, c_data = d\<rparr>)], ws_calls := ws_calls s + 1\<rparr>"
    using assms(3) by (simp add: ws_send_def ws_start_def)
  with p assms(2) show ?thesis by (simp add: ws_run_def ws_deferred_def Let_def split_beta)
qed

theorem no_reconnection_witness:
  "\<exists>s. ws_socket s = Some (0, SClosed) \<and> ws_fresh (ws_send (\<lambda>u. True) ''condenser_api'' example_data s) = ws_fresh s"
proof -
  obtain s outs where h: "ws_history (\<lambda>u. True) [] s outs" "ws_socket s = Some (0, SClosed)" "ws_waiting s = []"
    using example_closed by blast
  from no_reconnection [OF h] h show ?thesis by blast
qed

text \<open>
  The failover is off in a new connection: the constructor stores no \<open>failover_threshold\<close>,
  whatever the options say, and without one an error is neither counted nor acted upon.
\<close>

theorem no_failover_by_default:
  assumes "Steem_new shared opts cfg = Inr s"
  shows "notifyError overseer ignore s = Inr s"
proof -
  have u': "s_failover_threshold s1 = s_failover_threshold s0" if "setTransport_other o1 s0 = Inr (o2, s1)" for o1 s0 o2 s1
    using that by (auto simp: setTransport_other_def Let_def split: jsval.splits if_splits)
  have u: "s_failover_threshold s1 = s_failover_threshold s0" if "setTransport o1 s0 = Inr (o2, s1)" for o1 s0 o2 s1
    using that by (auto simp: setTransport_def Let_def dest: u' split: jsval.splits if_splits)
  have l: "s_failover_threshold s1 = s_failover_threshold s0" if "setLogger o1 s0 = Inr s1" for o1 s0 s1
    using that by (auto simp: setLogger_def Let_def bindR_eq_Inr split: jsval.splits if_splits)
  have "s_failover_threshold s = JUndef"
    using assms by (auto simp: Steem_new_def Let_def bindR_eq_Inr dest!: u l)
  then show ?thesis by (simp add: notifyError_def)
qed

theorem no_failover_by_default_witness:
  "\<exists>s. Steem_new False [(''url'', JStr (js ''https://a'')), (''failover_threshold'', JNum 1)] [] = Inr s \<and> notifyError False False s = Inr s"
proof -
  obtain s where s: "Steem_new False [(''url'', JStr (js ''https://a'')), (''failover_threshold'', JNum 1)] [] = Inr s"
    using example_new by blast
  from no_failover_by_default [OF s] s show ?thesis by blast
qed

text \<open>
  Setting any option without \<open>url\<close> or \<open>transport\<close> replaces the transport by a new WebSocket
  transport, while the type that \<open>call\<close> looks at stays what it was.
\<close>

theorem options_drop_transport:
  assumes "\<not> has_own opts ''url''" "\<not> has_own opts ''transport''" "\<not> has_own opts ''logger''"
  shows "\<exists>s' w. setOptions opts s = Inr s' \<and> s_transport s' = WsTransport w \<and> s_transportType s' = s_transportType s"
proof -
  have "options_get opts k = JUndef" if "\<not> has_own opts k" for k
    using that by (auto simp: options_get_def has_own_def map_of_eq_None_iff split: option.splits dest: map_of_SomeD)
      (force dest: map_of_SomeD)
  with assms show ?thesis
    by (simp add: setOptions_def setLogger_def setTransport_def setTransport_other_def js_truthy_def
      transport_setOptions_def assign_options_def config_set_def Let_def)
qed

theorem options_drop_transport_witness:
  "\<exists>s' w. setOptions [(''failover_threshold'', JNum 2)] example_connection = Inr s' \<and> s_transport s' = WsTransport w \<and>
    s_transportType s' = JStr (js ''http'')"
  using options_drop_transport [of "[(''failover_threshold'', JNum 2)]" example_connection]
  by (simp add: example_connection_def)

section \<open>Helpers\<close>

text \<open>
  A helper that changes an authority calls \<open>accountUpdate\<close> with one argument too few: its
  callback becomes the operation's \<open>posting_json_metadata\<close>, and the broadcast has no callback.
\<close>

theorem helper_callback_misplaced:
  assumes "with_account change E now signingKey role cb err result = HelperUpdate (Inr b)"
  shows "b_callback b = JUndef \<and>
    (\<exists>payload. options_get (b_tx b) ''operations'' = JArr [JArr [JStr (js ''account_update''), JObj payload]] \<and>
       options_get payload ''posting_json_metadata'' = cb)"
proof -
  obtain userAccount authority where "update_authority E now signingKey userAccount role authority cb = Inr b"
    using assms by (auto simp: with_account_def split: sum.splits option.splits if_splits)
  then show ?thesis by (rule update_authority_callback)
qed

theorem helper_callback_misplaced_witness:
  "\<exists>b. addKeyAuth example_env 0 (JStr []) (JStr (js ''K'')) ''posting'' JUndef (JFun 1) JNull (JArr [example_account]) =
      HelperUpdate (Inr b) \<and> b_callback b = JUndef"
proof -
  obtain b where b: "addKeyAuth example_env 0 (JStr []) (JStr (js ''K'')) ''posting'' JUndef (JFun 1) JNull (JArr [example_account]) =
      HelperUpdate (Inr b)" using example_helper by blast
  from helper_callback_misplaced [OF b [unfolded addKeyAuth_def]] b show ?thesis by blast
qed

text \<open>
  When \<open>getAccounts\<close> fails without a result, the helpers do not report its error: taking the
  missing result apart throws in the callback before the error is looked at.
\<close>

theorem helper_error_throws:
  "addAccountAuth E now signingKey name role weight cb err JUndef = HelperThrow TypeError \<and>
   removeAccountAuth E now signingKey name role cb err JUndef = HelperThrow TypeError \<and>
   addKeyAuth E now signingKey key role weight cb err JUndef = HelperThrow TypeError \<and>
   removeKeyAuth E now signingKey key role cb err JUndef = HelperThrow TypeError"
  by (simp add: addAccountAuth_def removeAccountAuth_def addKeyAuth_def removeKeyAuth_def with_account_def first_element_def)

end
