(* ===== verification/Formatter.thy ===== *)
theory Formatter
  imports Doubles Utils PrivateKeys
begin

text \<open>
  The numerical functions of \<open>formatter.js\<close> of \<open>blurtjs\<close>, on doubles, and the random keys of
  \<open>auth/ecc/src/key_utils.js\<close>. The logarithm of the engine, the clock and the generator of random
  bytes are arguments; the text that the browser gives as entropy is one as well.
\<close>

section \<open>Vests and account values\<close>

text \<open>\<open>text.split(" ")[0]\<close> as a number\<close>

definition first_number :: "jsstring \<Rightarrow> double" where
  "first_number s = parseFloat (split_on 32 s ! 0)"

record global_properties =
  total_vesting_shares :: jsstring
  total_vesting_fund_steem :: jsstring

record account =
  ac_name :: jsstring
  ac_vesting_shares :: jsstring
  ac_balance :: jsstring
  ac_savings_balance :: jsstring

definition vestingSteem :: "account \<Rightarrow> global_properties \<Rightarrow> double" where
  "vestingSteem account gprops =
     (let vests = first_number (ac_vesting_shares account);
          total_vests = first_number (total_vesting_shares gprops);
          total_vest_steem = first_number (total_vesting_fund_steem gprops)
      in dbl_mul total_vest_steem (dbl_div vests total_vests))"

definition calculateSaving :: "jsstring list \<Rightarrow> double" where
  "calculateSaving savings_withdraws =
     foldl (\<lambda>savings_pending withdraw.
       case split_on 32 withdraw of
         amount # asset # _ \<Rightarrow> if asset = js ''BLURT'' then dbl_add savings_pending (parseFloat amount) else savings_pending
       | _ \<Rightarrow> savings_pending) (Fin False 0) savings_withdraws"

text \<open>
  What is not given is asked from the node: \<open>state_props\<close> and \<open>withdraws\<close> are its answers to
  \<open>getState\<close> and \<open>getSavingsWithdrawFrom\<close>. A vesting balance of zero counts as not given.
\<close>

definition given_number :: "double option \<Rightarrow> double option" where
  "given_number v = (case v of Some d \<Rightarrow> if d = NaN \<or> dbl_eq d (Fin False 0) then None else Some d | None \<Rightarrow> None)"

definition estimateAccountValue ::
  "account \<Rightarrow> global_properties option \<Rightarrow> jsstring list option \<Rightarrow> double option \<Rightarrow> global_properties \<Rightarrow> jsstring list \<Rightarrow> jsstring" where
  "estimateAccountValue account gprops savings_withdraws vesting_steem state_props withdraws =
     (let vesting = (case given_number vesting_steem of
                       Some d \<Rightarrow> d
                     | None \<Rightarrow> vestingSteem account (case gprops of Some g \<Rightarrow> g | None \<Rightarrow> state_props));
          savings_pending = calculateSaving (case savings_withdraws of Some ws \<Rightarrow> ws | None \<Rightarrow> withdraws);
          balance_steem = first_number (ac_balance account);
          saving_balance_steem = first_number (ac_savings_balance account);
          total_steem = dbl_add (dbl_add (dbl_add vesting balance_steem) saving_balance_steem) savings_pending
      in toFixed 2 total_steem)"

definition vestToSteem :: "jsstring \<Rightarrow> jsstring \<Rightarrow> jsstring \<Rightarrow> double" where
  "vestToSteem vestingShares totalVestingShares totalVestingFundSteem =
     dbl_mul (parseFloat totalVestingFundSteem) (dbl_div (parseFloat vestingShares) (parseFloat totalVestingShares))"

definition formatter_amount :: "double \<Rightarrow> jsstring \<Rightarrow> jsstring" where
  "formatter_amount amount asset = toFixed 3 amount @ 32 # asset"

lemma vestingSteem_vestToSteem:
  "vestingSteem account gprops =
     vestToSteem (split_on 32 (ac_vesting_shares account) ! 0) (split_on 32 (total_vesting_shares gprops) ! 0)
       (split_on 32 (total_vesting_fund_steem gprops) ! 0)"
  by (simp add: vestingSteem_def vestToSteem_def first_number_def Let_def)

section \<open>Reputation\<close>

text \<open>\<open>parseInt\<close> of a text and of a number, which is printed first: the sign of a zero is kept.\<close>

definition parseInt_double :: "jsstring \<Rightarrow> double" where
  "parseInt_double s =
     (case parseInt s of
        None \<Rightarrow> NaN
      | Some n \<Rightarrow> if n = 0 \<and> dropWhile is_ws s \<noteq> [] \<and> hd (dropWhile is_ws s) = 45 then Fin True 0 else dbl_of_int n)"

definition dbl_max_zero :: "double \<Rightarrow> double" where
  "dbl_max_zero x = (if x = NaN then NaN else if dbl_less (Fin False 0) x then x else Fin False 0)"

definition reputation :: "(double \<Rightarrow> double) \<Rightarrow> jsstring \<Rightarrow> double" where
  "reputation Math_log text' =
     (let rep0 = dbl_toString (parseInt_double text');
          neg = (rep0 \<noteq> [] \<and> hd rep0 = 45);
          str = (if neg then tl rep0 else rep0);
          leadingDigits = parseInt_double (take 4 str);
          log = dbl_div (Math_log leadingDigits) (Math_log (dbl_of_int 10));
          n = dbl_of_int (int (length str) - 1);
          out = dbl_add n (dbl_sub log (parseInt_double (dbl_toString log)));
          out1 = (if out = NaN then Fin False 0 else out);
          out2 = dbl_max_zero (dbl_sub out1 (dbl_of_int 9));
          out3 = dbl_mul (dbl_of_int (if neg then - 1 else 1)) out2;
          out4 = dbl_add (dbl_mul out3 (dbl_of_int 9)) (dbl_of_int 25)
      in parseInt_double (dbl_toString out4))"

section \<open>Random keys\<close>

text \<open>The state of \<open>key_utils.js\<close>: a position, a count, and a buffer of 101 bytes\<close>

record entropy_state =
  entropyPos :: nat
  entropyCount :: nat
  entropyArray :: "byte list"

text \<open>The buffer keeps the low byte of the sum; a sum above the safe integers puts zero there.\<close>

definition add_number :: "entropy_state \<Rightarrow> int \<Rightarrow> entropy_state" where
  "add_number s i =
     (let pos = entropyPos s mod 101; i2 = uint (entropyArray s ! pos) + i
      in s\<lparr>entropyPos := entropyPos s + 1,
           entropyArray := (entropyArray s)[pos := (if i2 > 9007199254740991 then 0 else of_int i2)]\<rparr>)"

definition addEntropy :: "int list \<Rightarrow> entropy_state \<Rightarrow> entropy_state" where
  "addEntropy ints st = foldl add_number (st\<lparr>entropyCount := entropyCount st + 1\<rparr>) ints"

datatype entropy_error = EntropyTooShort | NotABuffer

text \<open>
  \<open>elapsed\<close> are the readings of the clock, in milliseconds after the start: the entropy is hashed
  once for every reading below a quarter of a second. Without any, it is still a string, which
  \<open>Buffer.concat\<close> refuses.
\<close>

definition random32ByteBuffer :: "env \<Rightarrow> jsstring \<Rightarrow> int list \<Rightarrow> byte list \<Rightarrow> entropy_error + byte list" where
  "random32ByteBuffer E entropy elapsed random =
     (if length entropy < 32 then Inl EntropyTooShort
      else (let rounds = length (takeWhile (\<lambda>t. t < 250) elapsed)
            in if rounds = 0 then Inl NotABuffer
               else Inr (sha256 E ((sha256 E ^^ rounds) (node_encode entropy) @ random))))"

definition get_random_key ::
  "env \<Rightarrow> 'p ecc \<Rightarrow> jsstring \<Rightarrow> int list \<Rightarrow> byte list \<Rightarrow> entropy_error + (js_error + int)" where
  "get_random_key E L entropy elapsed random =
     bindR (random32ByteBuffer E entropy elapsed random) (\<lambda>bs. Inr (PrivateKey_fromBuffer L (JBuf bs)))"

text \<open>\<open>createSuggestedPassword\<close>: 32 characters of the text of a random key\<close>

definition createSuggestedPassword ::
  "env \<Rightarrow> 'p ecc \<Rightarrow> jsstring \<Rightarrow> int list \<Rightarrow> byte list \<Rightarrow> entropy_error + (js_error + jsstring)" where
  "createSuggestedPassword E L entropy elapsed random =
     bindR (get_random_key E L entropy elapsed random) (\<lambda>r.
       Inr (bindR r (\<lambda>d. Inr (take 32 (drop 3 (PrivateKey_toWif E L d))))))"

lemma addEntropy_length: "length (entropyArray (addEntropy ints st)) = length (entropyArray st)"
proof -
  have "length (entropyArray (foldl add_number s ints)) = length (entropyArray s)" for s
    by (induction ints arbitrary: s) (simp_all add: add_number_def Let_def)
  from this [of "st\<lparr>entropyCount := entropyCount st + 1\<rparr>"] show ?thesis by (simp add: addEntropy_def)
qed

end
