(* ===== verification/TsSigning.thy ===== *)
theory TsSigning
  imports TsOperations Search
begin

text \<open>
  Signatures and transactions of the TypeScript library (\<open>client-libs/dblurt/src/crypto.ts\<close>, and
  \<open>copy\<close> of \<open>utils.ts\<close>). The loop of \<open>sign\<close> has no bound in the code; since its counter is one
  byte of the data for the nonce, it returns exactly when one of 256 attempts ends it.
\<close>

section \<open>Signature\<close>

record ts_signature =
  sg_data :: "byte list"
  sg_recovery :: int

definition new_Signature :: "byte list \<Rightarrow> int \<Rightarrow> ts_error + ts_signature" where
  "new_Signature data recovery =
     bindR (assert_that (length data = 64) ''invalid signature'') (\<lambda>_. Inr \<lparr>sg_data = data, sg_recovery = recovery\<rparr>)"

definition ts_Signature_fromBuffer :: "byte list \<Rightarrow> ts_error + ts_signature" where
  "ts_Signature_fromBuffer buffer =
     bindR (assert_that (length buffer = 65) ''invalid signature'') (\<lambda>_.
     let recovery = uint (buffer ! 0) - 31; data = drop 1 buffer
     in new_Signature data recovery)"

definition ts_Signature_fromString :: "jsstring \<Rightarrow> ts_error + ts_signature" where
  "ts_Signature_fromString string = ts_Signature_fromBuffer (fromHex string)"

definition recover :: "secp256k1 \<Rightarrow> ts_signature \<Rightarrow> byte list \<Rightarrow> jsstring option \<Rightarrow> ts_error + ts_public" where
  "recover S sg message prefix =
     bindR (secp_recover S message (sg_data sg) (sg_recovery sg)) (\<lambda>key. new_PublicKey S key prefix)"

text \<open>\<open>writeUInt8\<close> checks its range.\<close>

definition ts_Signature_toBuffer :: "ts_signature \<Rightarrow> ts_error + byte list" where
  "ts_Signature_toBuffer sg =
     (let i = sg_recovery sg + 31
      in if 0 \<le> i \<and> i < 256 then Inr (copy_into (sg_data sg) (of_int i # replicate 64 0) 1) else Inl (Js RangeError))"

text \<open>\<open>("00" + x.toString(16)).slice(-2)\<close> of every byte, joined; the match takes the text apart and
  puts it together again.\<close>

definition ts_Signature_toString :: "ts_signature \<Rightarrow> ts_error + jsstring" where
  "ts_Signature_toString sg = bindR (ts_Signature_toBuffer sg) (\<lambda>bs. Inr (toHex bs))"

definition ts_verify :: "secp256k1 \<Rightarrow> ts_public \<Rightarrow> byte list \<Rightarrow> ts_signature \<Rightarrow> ts_error + bool" where
  "ts_verify S pk message sg = secp_verify S message (sg_data sg) (fst pk)"

section \<open>Signing\<close>

text \<open>An element past the end is \<open>undefined\<close>: it has no bits and is not zero.\<close>

definition high_bit_at :: "byte list \<Rightarrow> nat \<Rightarrow> bool" where
  "high_bit_at bs i \<longleftrightarrow> i < length bs \<and> bs ! i AND 0x80 \<noteq> 0"

definition zero_at :: "byte list \<Rightarrow> nat \<Rightarrow> bool" where
  "zero_at bs i \<longleftrightarrow> i < length bs \<and> bs ! i = 0"

definition isCanonicalSignature :: "byte list \<Rightarrow> bool" where
  "isCanonicalSignature signature \<longleftrightarrow>
     \<not> high_bit_at signature 0 \<and> \<not> (zero_at signature 0 \<and> \<not> high_bit_at signature 1) \<and>
     \<not> high_bit_at signature 32 \<and> \<not> (zero_at signature 32 \<and> \<not> high_bit_at signature 33)"

text \<open>\<open>Buffer.alloc(1, attempts)\<close> keeps the low byte of the counter.\<close>

definition ts_sign_attempt :: "env \<Rightarrow> secp256k1 \<Rightarrow> byte list \<Rightarrow> byte list \<Rightarrow> nat \<Rightarrow> (ts_error + ts_signature) option" where
  "ts_sign_attempt E S key message attempts =
     (case secp_sign S message key (sha256 E (message @ [of_nat attempts])) of
        Inl e \<Rightarrow> Some (Inl e)
      | Inr (signature, recovery) \<Rightarrow>
          if isCanonicalSignature signature then Some (new_Signature signature recovery) else None)"

definition PrivateKey_sign :: "env \<Rightarrow> secp256k1 \<Rightarrow> byte list \<Rightarrow> byte list \<Rightarrow> (ts_error + ts_signature) option" where
  "PrivateKey_sign E S key message = search (ts_sign_attempt E S key message) Suc 1"

section \<open>copy\<close>

text \<open>
  \<open>JSON.parse(JSON.stringify(v))\<close>: the classes of the library have a \<open>toJSON\<close>, a buffer becomes an
  object, what has no JSON form is left out of an object and is \<open>null\<close> in an array. A finite number
  is printed so that it is read back; the sign of zero is lost.
\<close>

definition or_null :: "tsval option \<Rightarrow> tsval" where
  "or_null v = (case v of None \<Rightarrow> NullV | Some w \<Rightarrow> w)"

fun json_copy :: "env \<Rightarrow> tsval \<Rightarrow> tsval option" where
  "json_copy E UndefV = None"
| "json_copy E (NumV d) = Some (if dbl_finite d then if dbl_eq d (Fin False 0) then NumV (Fin False 0) else NumV d else NullV)"
| "json_copy E (BufV bs) =
     Some (ObjV [(''type'', StrV (js ''Buffer'')), (''data'', ArrV (map (\<lambda>b. NumV (dbl_of_int (uint b))) bs))])"
| "json_copy E (ArrV xs) = Some (ArrV (map (\<lambda>x. or_null (json_copy E x)) xs))"
| "json_copy E (ObjV kvs) = Some (ObjV (concat (map (\<lambda>(k, v). case json_copy E v of None \<Rightarrow> [] | Some w \<Rightarrow> [(k, w)]) kvs)))"
| "json_copy E (AssetV a) = Some (StrV (Asset_toString a))"
| "json_copy E (PubV key prefix) = Some (StrV (encodePublic E key prefix))"
| "json_copy E (HexV bs) = Some (StrV (toHex bs))"
| "json_copy E v = Some v"

section \<open>Transactions\<close>

definition bb_flip :: "bytebuffer \<Rightarrow> bytebuffer" where
  "bb_flip b = b\<lparr>bb_limit := bb_offset b, bb_offset := 0\<rparr>"

definition transactionDigest :: "env \<Rightarrow> secp256k1 \<Rightarrow> tsval \<Rightarrow> byte list option \<Rightarrow> ts_error + byte list" where
  "transactionDigest E S transaction chainId =
     bindR (case TransactionSerializer E S (ByteBuffer_new DEFAULT_CAPACITY True) transaction of
              Inl cause \<Rightarrow> Inl (if cause = Js Hang then cause else Wrapped ''Unable to serialize transaction'' cause)
            | Inr buffer \<Rightarrow> Inr (bb_flip buffer)) (\<lambda>buffer.
       Inr (sha256 E ((case chainId of None \<Rightarrow> DEFAULT_CHAIN_ID | Some c \<Rightarrow> c) @ bb_toBuffer buffer)))"

text \<open>The keys sign in their order; \<^term>\<open>None\<close> is a call that does not return.\<close>

fun sign_each :: "env \<Rightarrow> secp256k1 \<Rightarrow> byte list \<Rightarrow> byte list list \<Rightarrow> (ts_error + tsval list) option" where
  "sign_each E S digest [] = Some (Inr [])"
| "sign_each E S digest (key # keys) =
     (case PrivateKey_sign E S key digest of
        None \<Rightarrow> None
      | Some (Inl e) \<Rightarrow> Some (Inl e)
      | Some (Inr sg) \<Rightarrow>
          (case ts_Signature_toString sg of
             Inl e \<Rightarrow> Some (Inl e)
           | Inr s \<Rightarrow> map_option (\<lambda>r. bindR r (\<lambda>ss. Inr (StrV s # ss))) (sign_each E S digest keys)))"

definition set_field :: "string \<Rightarrow> tsval \<Rightarrow> (string \<times> tsval) list \<Rightarrow> (string \<times> tsval) list" where
  "set_field k v kvs = (if k \<in> fst ` set kvs then map (\<lambda>(k', w). (k', if k' = k then v else w)) kvs else kvs @ [(k, v)])"

text \<open>
  \<open>signTransaction\<close> of a transaction that serializes, hence of an object. Signatures that are there
  and not an array have no \<open>push\<close>.
\<close>

definition ts_signTransaction ::
  "env \<Rightarrow> secp256k1 \<Rightarrow> (string \<times> tsval) list \<Rightarrow> byte list list \<Rightarrow> byte list option \<Rightarrow> (ts_error + tsval) option" where
  "ts_signTransaction E S transaction keys chainId =
     (case transactionDigest E S (ObjV transaction) chainId of
        Inl e \<Rightarrow> Some (Inl e)
      | Inr digest \<Rightarrow>
          (let signed = (case json_copy E (ObjV transaction) of Some (ObjV kvs) \<Rightarrow> kvs | _ \<Rightarrow> []);
               old = (case map_of signed ''signatures'' of Some v \<Rightarrow> if ts_truthy v then v else ArrV [] | None \<Rightarrow> ArrV [])
           in case old of
                ArrV ss \<Rightarrow>
                  map_option (\<lambda>r. bindR r (\<lambda>new. Inr (ObjV (set_field ''signatures'' (ArrV (ss @ new)) signed))))
                    (sign_each E S digest keys)
              | v \<Rightarrow> if keys = [] then Some (Inr (ObjV signed))
                     else (case PrivateKey_sign E S (hd keys) digest of
                             None \<Rightarrow> None
                           | Some (Inl e) \<Rightarrow> Some (Inl e)
                           | Some (Inr sg) \<Rightarrow>
                               Some (case ts_Signature_toString sg of Inl e \<Rightarrow> Inl e | Inr s \<Rightarrow> Inl (Js TypeError)))))"

section \<open>When signing returns\<close>

lemma funpow_Suc_from: "(Suc ^^ i) n = n + i"
  by (induction i) simp_all

text \<open>The attempts repeat with period 256.\<close>

lemma ts_sign_attempt_period: "ts_sign_attempt E S key message (n + 256 * k) = ts_sign_attempt E S key message n"
proof -
  have "(of_nat (n + 256 * k) :: byte) = of_nat n"
    unfolding word_of_nat_eq_iff by (simp add: take_bit_eq_mod)
  then show ?thesis by (simp only: ts_sign_attempt_def)
qed

lemma sign_returns:
  "(\<exists>r. PrivateKey_sign E S key message = Some r) \<longleftrightarrow> (\<exists>n \<in> {1..256}. ts_sign_attempt E S key message n \<noteq> None)"
proof
  assume "\<exists>r. PrivateKey_sign E S key message = Some r"
  then obtain i y where i: "ts_sign_attempt E S key message (1 + i) = Some y"
    by (auto simp: PrivateKey_sign_def search_returns funpow_Suc_from)
  have "1 + i = (i mod 256 + 1) + 256 * (i div 256)" by simp
  then have "ts_sign_attempt E S key message (i mod 256 + 1) = Some y"
    using i ts_sign_attempt_period [of E S key message "i mod 256 + 1" "i div 256"] by simp
  moreover have "i mod 256 + 1 \<in> {1..256}" by (simp add: Suc_le_eq)
  ultimately show "\<exists>n \<in> {1..256}. ts_sign_attempt E S key message n \<noteq> None" by blast
next
  assume "\<exists>n \<in> {1..256}. ts_sign_attempt E S key message n \<noteq> None"
  then obtain n y where "1 \<le> n" "ts_sign_attempt E S key message n = Some y" by auto
  then have "ts_sign_attempt E S key message ((Suc ^^ (n - 1)) 1) = Some y" by (simp add: funpow_Suc_from)
  then show "\<exists>r. PrivateKey_sign E S key message = Some r"
    unfolding PrivateKey_sign_def search_returns by blast
qed

text \<open>What it returns is canonical, and was made by the curve for this message and key.\<close>

lemma sign_result:
  assumes "PrivateKey_sign E S key message = Some (Inr sg)"
  shows "\<exists>n \<ge> 1. secp_sign S message key (sha256 E (message @ [of_nat n])) = Inr (sg_data sg, sg_recovery sg) \<and>
    isCanonicalSignature (sg_data sg) \<and> length (sg_data sg) = 64"
proof -
  obtain i where i: "ts_sign_attempt E S key message (1 + i) = Some (Inr sg)"
    using search_Some_ex [OF assms [unfolded PrivateKey_sign_def]] by (auto simp: funpow_Suc_from)
  then show ?thesis
    by (intro exI [of _ "1 + i"])
      (auto simp: ts_sign_attempt_def new_Signature_def bindR_eq_Inr assert_that_def split: sum.splits if_splits)
qed

section \<open>Encodings of signatures\<close>

text \<open>The curve library numbers the points a signature may come from by 0 to 3.\<close>

definition recovery_ok :: "secp256k1 \<Rightarrow> bool" where
  "recovery_ok S \<longleftrightarrow> (\<forall>m k d sg r. secp_sign S m k d = Inr (sg, r) \<longrightarrow> 0 \<le> r \<and> r \<le> 3)"

lemma ts_toBuffer_eq:
  assumes "length (sg_data sg) = 64" "0 \<le> sg_recovery sg + 31" "sg_recovery sg + 31 < 256"
  shows "ts_Signature_toBuffer sg = Inr (of_int (sg_recovery sg + 31) # sg_data sg)"
  using assms by (simp add: ts_Signature_toBuffer_def copy_into_def Let_def)

lemma ts_fromBuffer_toBuffer:
  assumes "length (sg_data sg) = 64" "0 \<le> sg_recovery sg + 31" "sg_recovery sg + 31 < 256"
  shows "bindR (ts_Signature_toBuffer sg) ts_Signature_fromBuffer = Inr sg"
    and "bindR (ts_Signature_toString sg) ts_Signature_fromString = Inr sg"
proof -
  have u: "uint (of_int (sg_recovery sg + 31) :: byte) = sg_recovery sg + 31"
    using assms(2,3) by (simp only: word_of_int_inverse [OF refl] uint_word_of_int) simp
  show "bindR (ts_Signature_toBuffer sg) ts_Signature_fromBuffer = Inr sg"
    using u by (simp add: ts_toBuffer_eq [OF assms] ts_Signature_fromBuffer_def new_Signature_def assert_that_def assms(1) Let_def)
  then show "bindR (ts_Signature_toString sg) ts_Signature_fromString = Inr sg"
    by (simp add: ts_Signature_toString_def ts_Signature_fromString_def ts_toBuffer_eq [OF assms] fromHex_toHex)
qed

section \<open>Copies\<close>

text \<open>Plain data without \<open>undefined\<close> is copied as it is.\<close>

fun plain_ts :: "tsval \<Rightarrow> bool" where
  "plain_ts NullV \<longleftrightarrow> True"
| "plain_ts (BoolV b) \<longleftrightarrow> True"
| "plain_ts (NumV d) \<longleftrightarrow> dbl_finite d \<and> (dbl_eq d (Fin False 0) \<longrightarrow> d = Fin False 0)"
| "plain_ts (StrV s) \<longleftrightarrow> True"
| "plain_ts (ArrV xs) \<longleftrightarrow> (\<forall>x \<in> set xs. plain_ts x)"
| "plain_ts (ObjV kvs) \<longleftrightarrow> (\<forall>kv \<in> set kvs. plain_ts (snd kv))"
| "plain_ts v \<longleftrightarrow> False"

lemma json_copy_plain: "plain_ts v \<Longrightarrow> json_copy E v = Some v"
proof (induction v rule: plain_ts.induct)
  case (5 xs)
  then have "map (\<lambda>x. or_null (json_copy E x)) xs = xs" by (intro map_idI) (simp add: or_null_def)
  then show ?case by simp
next
  case (6 kvs)
  have "concat (map (\<lambda>(k, v). case json_copy E v of None \<Rightarrow> [] | Some w \<Rightarrow> [(k, w)]) kvs) = concat (map (\<lambda>kv. [kv]) kvs)"
    using 6 by (intro arg_cong [of _ _ concat] map_cong) (auto split: prod.split)
  then show ?case by simp
qed auto

lemma plain_parts:
  "concat (map (\<lambda>(k, v). case f v of None \<Rightarrow> [] | Some w \<Rightarrow> [(k, w)]) kvs) = kvs' \<Longrightarrow>
     kv \<in> set kvs' \<Longrightarrow> \<exists>v. (fst kv, v) \<in> set kvs \<and> f v = Some (snd kv)"
  by (force split: option.splits)

text \<open>A copy is plain data.\<close>

lemma json_copy_is_plain: "json_copy E v = Some w \<Longrightarrow> plain_ts w"
proof (induction v arbitrary: w rule: json_copy.induct)
  case (2 E d)
  then show ?case by auto
next
  case (3 E bs)
  have "plain_ts (NumV (dbl_of_int (uint b)))" for b :: byte
  proof -
    have "uint b < 2 ^ 8" "0 \<le> uint b" using uint_bounded [of b] by auto
    then have "dbl_of_int (uint b) = Fin False (of_int (uint b))" by (subst dbl_of_int_Fin) auto
    then show ?thesis by (simp add: dbl_val_def)
  qed
  with 3 show ?case by auto
next
  case (4 E xs)
  then show ?case by (force simp: or_null_def split: option.splits)
next
  case (5 E kvs)
  from 5(2) obtain kvs' where w: "w = ObjV kvs'"
    "concat (map (\<lambda>(k, v). case json_copy E v of None \<Rightarrow> [] | Some w \<Rightarrow> [(k, w)]) kvs) = kvs'" by auto
  show ?case using 5(1) plain_parts [OF w(2)] unfolding w(1) plain_ts.simps by metis
qed auto

section \<open>Signed transactions\<close>

lemma sign_each_Inr:
  "sign_each E S digest keys = Some (Inr ss) \<Longrightarrow>
     list_all2 (\<lambda>key v. \<exists>sg s. PrivateKey_sign E S key digest = Some (Inr sg) \<and> ts_Signature_toString sg = Inr s \<and> v = StrV s) keys ss"
proof (induction keys arbitrary: ss)
  case (Cons key keys)
  then show ?case
    by (auto simp: bindR_eq_Inr split: option.splits sum.splits)
qed simp

text \<open>A value is the text of the signature of a key.\<close>

definition signed_by :: "env \<Rightarrow> secp256k1 \<Rightarrow> byte list \<Rightarrow> byte list \<Rightarrow> tsval \<Rightarrow> bool" where
  "signed_by E S digest key v \<longleftrightarrow>
     (\<exists>sg s. PrivateKey_sign E S key digest = Some (Inr sg) \<and> ts_Signature_toString sg = Inr s \<and> v = StrV s)"

lemma signTransaction_parts:
  assumes "ts_signTransaction E S tx keys chainId = Some (Inr v)" "''signatures'' \<notin> fst ` set tx"
  obtains digest copied sigs where "transactionDigest E S (ObjV tx) chainId = Inr digest"
    "json_copy E (ObjV tx) = Some (ObjV copied)" "v = ObjV (copied @ [(''signatures'', ArrV sigs)])"
    "list_all2 (signed_by E S digest) keys sigs"
proof -
  obtain copied where c: "json_copy E (ObjV tx) = Some (ObjV copied)" by simp
  then have k: "''signatures'' \<notin> fst ` set copied" using assms(2) by (force split: option.splits)
  then have m: "map_of copied ''signatures'' = None" by (simp add: map_of_eq_None_iff)
  from assms(1) obtain digest where d: "transactionDigest E S (ObjV tx) chainId = Inr digest"
    by (auto simp: ts_signTransaction_def split: sum.splits)
  from assms(1) c m d obtain sigs where s: "sign_each E S digest keys = Some (Inr sigs)"
    "v = ObjV (set_field ''signatures'' (ArrV sigs) copied)"
    by (auto simp: ts_signTransaction_def bindR_eq_Inr Let_def simp del: json_copy.simps)
  have "list_all2 (signed_by E S digest) keys sigs"
    using sign_each_Inr [OF s(1)] by (rule list_all2_mono) (auto simp: signed_by_def)
  with that d c s(2) k show ?thesis by (simp add: set_field_def del: json_copy.simps)
qed

end
