(* ===== verification/Interop.thy ===== *)
theory Interop
  imports Agreement TsSigning Signing
begin

text \<open>
  The agreement of the two libraries over the schemas of the protocol: both write the plain values of
  a schema in the same format, the 29 operations that they declare alike, and transactions of them;
  hence the digests that they sign are the same. They also agree on the texts of keys.
\<close>

section \<open>Schemas\<close>

primrec raw_valid :: "env \<Rightarrow> secp256k1 \<Rightarrow> schema \<Rightarrow> jsval \<Rightarrow> bool" where
  "raw_valid E S TUint8 = num_in 0 255"
| "raw_valid E S TUint16 = num_in 0 65535"
| "raw_valid E S TInt16 = num_in (- 32768) 32767"
| "raw_valid E S TUint32 = num_in 0 4294967295"
| "raw_valid E S TVarint32 = (\<lambda>v. False)"
| "raw_valid E S TUint64 = num_in 0 9007199254740991"
| "raw_valid E S TInt64 = num_in 0 9007199254740991"
| "raw_valid E S TString = raw_string"
| "raw_valid E S TStringBinary = (\<lambda>v. False)"
| "raw_valid E S (TBytes n) = raw_bytes n"
| "raw_valid E S TBool = is_bool"
| "raw_valid E S TVoid = (\<lambda>v. False)"
| "raw_valid E S TTime = raw_time"
| "raw_valid E S TPublicKey = raw_key E S"
| "raw_valid E S TAsset = raw_asset"
| "raw_valid E S TAssetSymbol = (\<lambda>v. False)"
| "raw_valid E S (TArray t) = array_valid E (denote E t) (raw_valid E S t)"
| "raw_valid E S (TSet t) = set_valid E (denote E t) (raw_valid E S t)"
| "raw_valid E S (TMap k t) = map_valid E (denote E k) (raw_valid E S k) (raw_valid E S t)"
| "raw_valid E S (TOptional t) = raw_optional (raw_valid E S t)"
| "raw_valid E S (TVariant ts) = (\<lambda>v. False)"
| "raw_valid E S (TSerializer name fs) = raw_record (map (map_prod id (raw_valid E S)) fs)"

primrec raw_wire :: "env \<Rightarrow> schema \<Rightarrow> jsval \<Rightarrow> byte list" where
  "raw_wire E TUint8 = (\<lambda>v. [of_int (the_num v)])"
| "raw_wire E TUint16 = (\<lambda>v. bytes16 (of_int (the_num v)))"
| "raw_wire E TInt16 = (\<lambda>v. bytes16 (of_int (the_num v)))"
| "raw_wire E TUint32 = (\<lambda>v. bytes32 (of_int (the_num v)))"
| "raw_wire E TVarint32 = (\<lambda>v. [])"
| "raw_wire E TUint64 = raw_long"
| "raw_wire E TInt64 = raw_long"
| "raw_wire E TString = raw_string_wire"
| "raw_wire E TStringBinary = (\<lambda>v. [])"
| "raw_wire E (TBytes n) = raw_bytes_wire n"
| "raw_wire E TBool = bool_byte"
| "raw_wire E TVoid = (\<lambda>v. [])"
| "raw_wire E TTime = raw_time_wire"
| "raw_wire E TPublicKey = raw_key_wire E"
| "raw_wire E TAsset = asset_wire"
| "raw_wire E TAssetSymbol = (\<lambda>v. [])"
| "raw_wire E (TArray t) = (\<lambda>v. counted (raw_wire E t) (the_arr v))"
| "raw_wire E (TSet t) = (\<lambda>v. counted (raw_wire E t) (the_arr v))"
| "raw_wire E (TMap k t) = (\<lambda>v. counted (entry_wire (raw_wire E k) (raw_wire E t)) (the_arr v))"
| "raw_wire E (TOptional t) = optional_wire (raw_wire E t)"
| "raw_wire E (TVariant ts) = (\<lambda>v. [])"
| "raw_wire E (TSerializer name fs) = raw_record_wire (map (map_prod id (raw_wire E)) fs)"

text \<open>The serializer of the TypeScript library for a schema.\<close>

primrec ts_denote :: "env \<Rightarrow> secp256k1 \<Rightarrow> schema \<Rightarrow> serializer" where
  "ts_denote E S TUint8 = UInt8Serializer"
| "ts_denote E S TUint16 = UInt16Serializer"
| "ts_denote E S TInt16 = Int16Serializer"
| "ts_denote E S TUint32 = UInt32Serializer"
| "ts_denote E S TVarint32 = VoidSerializer"
| "ts_denote E S TUint64 = Int64Serializer"
| "ts_denote E S TInt64 = Int64Serializer"
| "ts_denote E S TString = StringSerializer"
| "ts_denote E S TStringBinary = VoidSerializer"
| "ts_denote E S (TBytes n) = BinarySerializer E n"
| "ts_denote E S TBool = BooleanSerializer"
| "ts_denote E S TVoid = VoidSerializer"
| "ts_denote E S TTime = DateSerializer E"
| "ts_denote E S TPublicKey = PublicKeySerializer E S"
| "ts_denote E S TAsset = AssetSerializer"
| "ts_denote E S TAssetSymbol = VoidSerializer"
| "ts_denote E S (TArray t) = ArraySerializer (ts_denote E S t)"
| "ts_denote E S (TSet t) = ArraySerializer (ts_denote E S t)"
| "ts_denote E S (TMap k t) = FlatMapSerializer (ts_denote E S k) (ts_denote E S t)"
| "ts_denote E S (TOptional t) = OptionalSerializer (ts_denote E S t)"
| "ts_denote E S (TVariant ts) = StaticVariantSerializer (map (ts_denote E S) ts)"
| "ts_denote E S (TSerializer name fs) = ObjectSerializer (map (map_prod id (ts_denote E S)) fs)"

section \<open>Both libraries write the schemas\<close>

lemma to_long_num:
  assumes "num_in 0 9007199254740991 v"
  obtains n where "v = JNum n" "0 \<le> n" "n \<le> 9007199254740991" "to_long E v = Inr (JLong False (of_int n))"
proof -
  obtain n where n: "v = JNum n" "0 \<le> n" "n \<le> 9007199254740991" using assms by (auto elim!: num_inE)
  then have "to_long E v = Inr (JLong False (of_int n))"
    by (simp add: to_long_def is_empty_def is_long_def no_overflow64_def is_string_def is_number_def outside_safe_def
        js_gt_def js_lt_def numeric_lt_def MAX_SAFE_INT_def MIN_SAFE_INT_def)
  with n that show ?thesis by blast
qed

lemma long_raw_append:
  assumes v: "num_in 0 9007199254740991 v" and b: "bb_ok b"
  shows "\<exists>b'. appendByteBuffer (uint64 E) b v = Inr b' \<and> bb_appended b (raw_long v) b'"
    and "\<exists>b'. appendByteBuffer (int64 E) b v = Inr b' \<and> bb_appended b (raw_long v) b'"
proof -
  obtain n where n: "v = JNum n" "0 \<le> n" "n \<le> 9007199254740991" "to_long E v = Inr (JLong False (of_int n))"
    using to_long_num [OF v] .
  have w: "writeUint64 b (JLong False (of_int n)) = writeInt64 b v" "writeInt64 b (JLong False (of_int n)) = writeInt64 b v"
    using n by (simp_all add: writeUint64_def writeInt64_def long_arg_def Long_fromNumber_def)
  have d: "45 \<notin> set (dec_int n)" using n(2) digits_no [of "dec_nat (nat n)" 45] by (simp add: dec_int_def)
  have "appendByteBuffer (uint64 E) b v = writeInt64 b v" "appendByteBuffer (int64 E) b v = writeInt64 b v"
    using n(1,4) w d by (simp_all add: uint64_def int64_def v_unsigned_def required_def is_empty_def)
  then show "\<exists>b'. appendByteBuffer (uint64 E) b v = Inr b' \<and> bb_appended b (raw_long v) b'"
    "\<exists>b'. appendByteBuffer (int64 E) b v = Inr b' \<and> bb_appended b (raw_long v) b'"
    using long_raw [OF v b] by simp_all
qed

lemma fields_writerI:
  "(\<And>k t. (k, t) \<in> set fs \<Longrightarrow> writer (wr t) (enc t) (V t)) \<Longrightarrow>
     fields_writer (map (\<lambda>(k, t). (k, wr t)) fs) (map (map_prod id enc) fs) (map (map_prod id V) fs)"
proof (induction fs)
  case (Cons f fs)
  obtain k t where f: "f = (k, t)" by (cases f)
  have "fields_writer ((k, wr t) # map (\<lambda>(k, t). (k, wr t)) fs) ((k, enc t) # map (map_prod id enc) fs)
      ((k, V t) # map (map_prod id V) fs)"
  proof (rule fields_writer.Cons)
    show "writer (wr t) (enc t) (V t)" by (rule Cons.prems [of k]) (simp add: f)
    show "fields_writer (map (\<lambda>(k, t). (k, wr t)) fs) (map (map_prod id enc) fs) (map (map_prod id V) fs)"
      by (rule Cons.IH) (rule Cons.prems, rule list.set_intros(2))
  qed
  moreover have "map_prod id enc (k, t) = (k, enc t)" "map_prod id V (k, t) = (k, V t)" by simp_all
  ultimately show ?case unfolding f list.map prod.case by (simp only:)
qed (simp add: fields_writer.Nil)

lemma denote_writer: "writer (appendByteBuffer (denote E t)) (raw_wire E t) (raw_valid E S t)"
proof (induction t)
  case TUint64
  show ?case by (rule writerI) (simp add: long_raw_append)
next
  case TInt64
  show ?case by (rule writerI) (simp add: long_raw_append)
next
  case (TSerializer name fs)
  have "fields_writer (map (\<lambda>(k, t). (k, appendByteBuffer (denote E t))) fs)
      (map (map_prod id (raw_wire E)) fs) (map (map_prod id (raw_valid E S)) fs)"
    using TSerializer by (intro fields_writerI) (auto simp: snds.simps)
  then show ?case by (auto intro!: serializer_raw simp: comp_def case_prod_unfold map_prod_def)
qed (auto intro: string_raw bytes_raw time_raw key_raw asset_raw array_raw set_raw map_raw optional_raw
       codec_writer codec_intros writerI)

lemma ts_int_writers:
  "writer (\<lambda>b v. UInt8Serializer b (to_ts v)) (\<lambda>v. [of_int (the_num v)]) (num_in 0 255)"
  "writer (\<lambda>b v. UInt16Serializer b (to_ts v)) (\<lambda>v. bytes16 (of_int (the_num v))) (num_in 0 65535)"
  "writer (\<lambda>b v. Int16Serializer b (to_ts v)) (\<lambda>v. bytes16 (of_int (the_num v))) (num_in (- 32768) 32767)"
  "writer (\<lambda>b v. UInt32Serializer b (to_ts v)) (\<lambda>v. bytes32 (of_int (the_num v))) (num_in 0 4294967295)"
  using int_writer [OF bb_u8.codec_axioms] int_writer [OF bb_u16.codec_axioms] int_writer [OF bb_i16.codec_axioms]
    int_writer [OF bb_u32.codec_axioms]
  by (simp_all add: UInt8Serializer_def UInt16Serializer_def Int16Serializer_def UInt32Serializer_def)

lemma ts_long_writer: "writer (\<lambda>b v. Int64Serializer b (to_ts v)) raw_long (num_in 0 9007199254740991)"
proof (rule writerI)
  fix v b assume v: "num_in 0 9007199254740991 v" and b: "bb_ok b"
  have "long_js (to_ts v) = v" using prim_js_num [OF v] by simp
  then show "\<exists>b'. Int64Serializer b (to_ts v) = Inr b' \<and> bb_appended b (raw_long v) b'"
    using long_raw [OF v b] by (auto simp: Int64Serializer_def js_err_eq_Inr)
qed

lemma set_valid_array: "set_valid E st V v \<Longrightarrow> array_valid E st V v"
  by (simp add: set_valid_def)

lemma array_valid_elems: "array_valid E st V v \<Longrightarrow> \<exists>xs. v = JArr xs \<and> length xs < 2147483648 \<and> list_all V xs"
  by (auto elim!: array_validE)

lemma ts_denote_writer: "writer (\<lambda>b v. ts_denote E S t b (to_ts v)) (raw_wire E t) (raw_valid E S t)"
proof (induction t)
  case (TArray t)
  then show ?case by (simp add: array_ts array_valid_elems)
next
  case (TSet t)
  then show ?case
    by (simp only: ts_denote.simps raw_wire.simps raw_valid.simps) (rule array_ts, assumption, auto dest!: set_valid_array array_valid_elems)
next
  case (TSerializer name fs)
  have "fields_writer (map (\<lambda>(k, t). (k, \<lambda>b v. ts_denote E S t b (to_ts v))) fs)
      (map (map_prod id (raw_wire E)) fs) (map (map_prod id (raw_valid E S)) fs)"
    using TSerializer by (intro fields_writerI) (auto simp: snds.simps)
  then show ?case by (auto intro!: object_ts simp: comp_def case_prod_unfold map_prod_def)
qed (auto intro: string_ts bytes_ts bool_ts time_ts key_ts asset_serializer_ts map_ts optional_ts ts_int_writers ts_long_writer writerI)

section \<open>The shared operations\<close>

text \<open>The operations that both tables declare with the same number and the same fields.\<close>

definition shared_operations :: "(string \<times> nat \<times> schema) list" where
  "shared_operations =
     [(''vote'', 0, vote_schema),
      (''comment'', 1, comment_schema),
      (''transfer'', 2, transfer_schema),
      (''transfer_to_vesting'', 3, transfer_to_vesting_schema),
      (''withdraw_vesting'', 4, withdraw_vesting_schema),
      (''account_create'', 5, account_create_schema),
      (''account_witness_vote'', 8, account_witness_vote_schema),
      (''account_witness_proxy'', 9, account_witness_proxy_schema),
      (''custom'', 10, custom_schema),
      (''custom_json'', 12, custom_json_schema),
      (''claim_account'', 15, claim_account_schema),
      (''create_claimed_account'', 16, create_claimed_account_schema),
      (''request_account_recovery'', 17, request_account_recovery_schema),
      (''recover_account'', 18, recover_account_schema),
      (''change_recovery_account'', 19, change_recovery_account_schema),
      (''escrow_dispute'', 21, escrow_dispute_schema),
      (''escrow_approve'', 23, escrow_approve_schema),
      (''transfer_to_savings'', 24, transfer_to_savings_schema),
      (''transfer_from_savings'', 25, transfer_from_savings_schema),
      (''cancel_transfer_from_savings'', 26, cancel_transfer_from_savings_schema),
      (''custom_binary'', 27, custom_binary_schema),
      (''decline_voting_rights'', 28, decline_voting_rights_schema),
      (''reset_account'', 29, reset_account_schema),
      (''set_reset_account'', 30, set_reset_account_schema),
      (''claim_reward_balance'', 31, claim_reward_balance_schema),
      (''delegate_vesting_shares'', 32, delegate_vesting_shares_schema),
      (''create_proposal'', 34, create_proposal_schema),
      (''update_proposal_votes'', 35, update_proposal_votes_schema),
      (''remove_proposal'', 36, remove_proposal_schema)]"

definition numbered :: "nat \<Rightarrow> serializer \<Rightarrow> serializer" where
  "numbered n ser b data = bindR (js_err (writeVarint32 b (JNum (int n)))) (\<lambda>b1. ser b1 data)"

lemma OperationData_numbered: "OperationDataSerializer n fs = numbered n (ObjectSerializer fs)"
  by (simp add: fun_eq_iff OperationDataSerializer_def numbered_def)

lemmas shared_defs =
  tsop_vote_def vote_schema_def tsop_comment_def comment_schema_def tsop_transfer_def
  transfer_schema_def tsop_transfer_to_vesting_def transfer_to_vesting_schema_def
  tsop_withdraw_vesting_def withdraw_vesting_schema_def tsop_account_create_def
  account_create_schema_def tsop_account_witness_vote_def account_witness_vote_schema_def
  tsop_account_witness_proxy_def account_witness_proxy_schema_def tsop_custom_def custom_schema_def
  tsop_custom_json_def custom_json_schema_def tsop_claim_account_def claim_account_schema_def
  tsop_create_claimed_account_def create_claimed_account_schema_def
  tsop_request_account_recovery_def request_account_recovery_schema_def tsop_recover_account_def
  recover_account_schema_def tsop_change_recovery_account_def change_recovery_account_schema_def
  tsop_escrow_dispute_def escrow_dispute_schema_def tsop_escrow_approve_def
  escrow_approve_schema_def tsop_transfer_to_savings_def transfer_to_savings_schema_def
  tsop_transfer_from_savings_def transfer_from_savings_schema_def
  tsop_cancel_transfer_from_savings_def cancel_transfer_from_savings_schema_def
  tsop_custom_binary_def custom_binary_schema_def tsop_decline_voting_rights_def
  decline_voting_rights_schema_def tsop_reset_account_def reset_account_schema_def
  tsop_set_reset_account_def set_reset_account_schema_def tsop_claim_reward_balance_def
  claim_reward_balance_schema_def tsop_delegate_vesting_shares_def
  delegate_vesting_shares_schema_def tsop_create_proposal_def create_proposal_schema_def
  tsop_update_proposal_votes_def update_proposal_votes_schema_def tsop_remove_proposal_def
  remove_proposal_schema_def

lemma ts_authority: "ts_denote E S authority_schema = AuthoritySerializer E S"
  by (simp add: authority_schema_def AuthoritySerializer_def)

lemma tsop_denotes:
  "tsop_vote E S = numbered 0 (ts_denote E S vote_schema)"
  "tsop_comment E S = numbered 1 (ts_denote E S comment_schema)"
  "tsop_transfer E S = numbered 2 (ts_denote E S transfer_schema)"
  "tsop_transfer_to_vesting E S = numbered 3 (ts_denote E S transfer_to_vesting_schema)"
  "tsop_withdraw_vesting E S = numbered 4 (ts_denote E S withdraw_vesting_schema)"
  "tsop_account_create E S = numbered 5 (ts_denote E S account_create_schema)"
  "tsop_account_witness_vote E S = numbered 8 (ts_denote E S account_witness_vote_schema)"
  "tsop_account_witness_proxy E S = numbered 9 (ts_denote E S account_witness_proxy_schema)"
  "tsop_custom E S = numbered 10 (ts_denote E S custom_schema)"
  "tsop_custom_json E S = numbered 12 (ts_denote E S custom_json_schema)"
  "tsop_claim_account E S = numbered 15 (ts_denote E S claim_account_schema)"
  "tsop_create_claimed_account E S = numbered 16 (ts_denote E S create_claimed_account_schema)"
  "tsop_request_account_recovery E S = numbered 17 (ts_denote E S request_account_recovery_schema)"
  "tsop_recover_account E S = numbered 18 (ts_denote E S recover_account_schema)"
  "tsop_change_recovery_account E S = numbered 19 (ts_denote E S change_recovery_account_schema)"
  "tsop_escrow_dispute E S = numbered 21 (ts_denote E S escrow_dispute_schema)"
  "tsop_escrow_approve E S = numbered 23 (ts_denote E S escrow_approve_schema)"
  "tsop_transfer_to_savings E S = numbered 24 (ts_denote E S transfer_to_savings_schema)"
  "tsop_transfer_from_savings E S = numbered 25 (ts_denote E S transfer_from_savings_schema)"
  "tsop_cancel_transfer_from_savings E S = numbered 26 (ts_denote E S cancel_transfer_from_savings_schema)"
  "tsop_custom_binary E S = numbered 27 (ts_denote E S custom_binary_schema)"
  "tsop_decline_voting_rights E S = numbered 28 (ts_denote E S decline_voting_rights_schema)"
  "tsop_reset_account E S = numbered 29 (ts_denote E S reset_account_schema)"
  "tsop_set_reset_account E S = numbered 30 (ts_denote E S set_reset_account_schema)"
  "tsop_claim_reward_balance E S = numbered 31 (ts_denote E S claim_reward_balance_schema)"
  "tsop_delegate_vesting_shares E S = numbered 32 (ts_denote E S delegate_vesting_shares_schema)"
  "tsop_create_proposal E S = numbered 34 (ts_denote E S create_proposal_schema)"
  "tsop_update_proposal_votes E S = numbered 35 (ts_denote E S update_proposal_votes_schema)"
  "tsop_remove_proposal E S = numbered 36 (ts_denote E S remove_proposal_schema)"
  by (simp_all add: shared_defs ts_authority OperationData_numbered)

lemma tsop_lookup:
  "map_of (OperationSerializers E S) ''vote'' = Some (tsop_vote E S)"
  "map_of (OperationSerializers E S) ''comment'' = Some (tsop_comment E S)"
  "map_of (OperationSerializers E S) ''transfer'' = Some (tsop_transfer E S)"
  "map_of (OperationSerializers E S) ''transfer_to_vesting'' = Some (tsop_transfer_to_vesting E S)"
  "map_of (OperationSerializers E S) ''withdraw_vesting'' = Some (tsop_withdraw_vesting E S)"
  "map_of (OperationSerializers E S) ''account_create'' = Some (tsop_account_create E S)"
  "map_of (OperationSerializers E S) ''account_witness_vote'' = Some (tsop_account_witness_vote E S)"
  "map_of (OperationSerializers E S) ''account_witness_proxy'' = Some (tsop_account_witness_proxy E S)"
  "map_of (OperationSerializers E S) ''custom'' = Some (tsop_custom E S)"
  "map_of (OperationSerializers E S) ''custom_json'' = Some (tsop_custom_json E S)"
  "map_of (OperationSerializers E S) ''claim_account'' = Some (tsop_claim_account E S)"
  "map_of (OperationSerializers E S) ''create_claimed_account'' = Some (tsop_create_claimed_account E S)"
  "map_of (OperationSerializers E S) ''request_account_recovery'' = Some (tsop_request_account_recovery E S)"
  "map_of (OperationSerializers E S) ''recover_account'' = Some (tsop_recover_account E S)"
  "map_of (OperationSerializers E S) ''change_recovery_account'' = Some (tsop_change_recovery_account E S)"
  "map_of (OperationSerializers E S) ''escrow_dispute'' = Some (tsop_escrow_dispute E S)"
  "map_of (OperationSerializers E S) ''escrow_approve'' = Some (tsop_escrow_approve E S)"
  "map_of (OperationSerializers E S) ''transfer_to_savings'' = Some (tsop_transfer_to_savings E S)"
  "map_of (OperationSerializers E S) ''transfer_from_savings'' = Some (tsop_transfer_from_savings E S)"
  "map_of (OperationSerializers E S) ''cancel_transfer_from_savings'' = Some (tsop_cancel_transfer_from_savings E S)"
  "map_of (OperationSerializers E S) ''custom_binary'' = Some (tsop_custom_binary E S)"
  "map_of (OperationSerializers E S) ''decline_voting_rights'' = Some (tsop_decline_voting_rights E S)"
  "map_of (OperationSerializers E S) ''reset_account'' = Some (tsop_reset_account E S)"
  "map_of (OperationSerializers E S) ''set_reset_account'' = Some (tsop_set_reset_account E S)"
  "map_of (OperationSerializers E S) ''claim_reward_balance'' = Some (tsop_claim_reward_balance E S)"
  "map_of (OperationSerializers E S) ''delegate_vesting_shares'' = Some (tsop_delegate_vesting_shares E S)"
  "map_of (OperationSerializers E S) ''create_proposal'' = Some (tsop_create_proposal E S)"
  "map_of (OperationSerializers E S) ''update_proposal_votes'' = Some (tsop_update_proposal_votes E S)"
  "map_of (OperationSerializers E S) ''remove_proposal'' = Some (tsop_remove_proposal E S)"
  by (simp_all add: OperationSerializers_def)

lemma shared_ts:
  "list_all (\<lambda>(name, n, t). map_of (OperationSerializers E S) name = Some (numbered n (ts_denote E S t))) shared_operations"
  by (simp add: shared_operations_def tsop_lookup tsop_denotes)

lemma shared_raw:
  "list_all (\<lambda>(name, n, t). n < length operation_schemas \<and> operation_schemas ! n = t \<and>
     (\<exists>fs. t = TSerializer (OpStr name) fs)) shared_operations"
  by (simp add: shared_operations_def operation_schemas_def shared_defs)

section \<open>Operations and transactions\<close>

lemma map_of_key:
  assumes "inj g"
  shows "map_of (map (\<lambda>(k, v). (g k, f v)) kvs) (g k) = map_option f (map_of kvs k)"
  by (induction kvs) (auto simp: inj_eq [OF assms])

lemma word_of_char: "(of_char c :: 16 word) = of_nat (of_char c)"
  by (cases c) (simp add: of_char_def)

lemma inj_js: "inj js"
proof -
  have u: "unat (of_char e :: 16 word) = of_char e" for e
  proof -
    have "(of_char e :: nat) < 65536" using nat_of_char_less_256 [of e] by (rule less_trans) simp
    then show ?thesis unfolding word_of_char by (simp add: unat_of_nat)
  qed
  have "inj (of_char :: char \<Rightarrow> 16 word)"
    by (rule injI) (metis u of_char_eq_iff)
  then show ?thesis by (auto simp: js_def [abs_def] inj_def inj_map_eq_map)
qed

lemma find_pos_at:
  "n < length ops \<Longrightarrow> operation_name (ops ! n) = Some (OpStr name) \<Longrightarrow> distinct (map operation_name ops) \<Longrightarrow>
     find_pos pos (JStr (js name)) ops = JNum (int (pos + n))"
proof (induction ops arbitrary: n pos)
  case (Cons op ops)
  have nm: "op_name_val x = JStr (js name) \<longleftrightarrow> x = Some (OpStr name)" for x
    using inj_js by (auto simp: op_name_val_def inj_eq split: option.splits op_name.splits)
  show ?case
  proof (cases n)
    case 0
    then show ?thesis using Cons.prems(2) by (simp add: nm)
  next
    case (Suc m)
    then have m: "m < length ops" "operation_name (ops ! m) = Some (OpStr name)" using Cons.prems by auto
    then have "Some (OpStr name) \<in> operation_name ` set ops" by (metis image_eqI nth_mem)
    with Cons.prems(3) have "operation_name op \<noteq> Some (OpStr name)" by auto
    with Cons.IH [OF m, of "Suc pos"] Cons.prems(3) Suc show ?thesis by (simp add: nm)
  qed
qed simp

lemma distinct_operations: "distinct (map operation_name (st_operations E))"
proof -
  have "distinct (map fst chain_operations)" by code_simp
  moreover have "map operation_name (st_operations E) = map (\<lambda>name. Some (OpStr name)) (map fst chain_operations)"
    by (simp add: st_operations_def chain_operations_def operation_defs)
  ultimately show ?thesis by (simp add: distinct_map inj_on_def)
qed

lemma st_operations_denote: "st_operations E = map (denote E) operation_schemas"
  by (simp add: operation_schemas_def st_operations_def schema_denotes)

lemma denote_name: "operation_name (denote E (TSerializer nm fs)) = Some nm"
  by (simp add: Serializer_def)

text \<open>An operation as a program writes it: its name, and an object with its fields.\<close>

fun raw_operation :: "env \<Rightarrow> secp256k1 \<Rightarrow> jsval \<Rightarrow> bool" where
  "raw_operation E S (JArr [JStr s, data]) \<longleftrightarrow>
     (case map_of (map (\<lambda>(name, op). (js name, op)) shared_operations) s of
        Some (n, t) \<Rightarrow> raw_valid E S t data
      | None \<Rightarrow> False)"
| "raw_operation E S _ \<longleftrightarrow> False"

fun raw_operation_wire :: "env \<Rightarrow> jsval \<Rightarrow> byte list" where
  "raw_operation_wire E (JArr [JStr s, data]) =
     (case map_of (map (\<lambda>(name, op). (js name, op)) shared_operations) s of
        Some (n, t) \<Rightarrow> varint32_bytes (of_nat n) @ raw_wire E t data
      | None \<Rightarrow> [])"
| "raw_operation_wire E _ = []"

lemma raw_operationE:
  assumes "raw_operation E S v"
  obtains name n t data where "v = JArr [JStr (js name), data]" "(name, n, t) \<in> set shared_operations"
    "raw_valid E S t data" "raw_operation_wire E v = varint32_bytes (of_nat n) @ raw_wire E t data"
proof -
  from assms obtain s data where v: "v = JArr [JStr s, data]"
    by (cases "(E, S, v)" rule: raw_operation.cases) auto
  let ?tab = "map (\<lambda>(name, op). (js name, op)) shared_operations"
  from assms v obtain n t where nt: "map_of ?tab s = Some (n, t)" "raw_valid E S t data"
    by (auto split: option.splits)
  from map_of_SomeD [OF nt(1)] obtain name where "s = js name" "(name, n, t) \<in> set shared_operations" by auto
  with v nt that show ?thesis by auto
qed

lemma operation_raw: "writer (appendByteBuffer (operation E)) (raw_operation_wire E) (raw_operation E S)"
proof (rule writerI)
  fix v b assume v: "raw_operation E S v" and b: "bb_ok b"
  from v obtain name n t data where o: "v = JArr [JStr (js name), data]" "(name, n, t) \<in> set shared_operations"
    "raw_valid E S t data" "raw_operation_wire E v = varint32_bytes (of_nat n) @ raw_wire E t data"
    by (rule raw_operationE)
  from shared_raw o(2) obtain fs where n: "n < length operation_schemas" "operation_schemas ! n = t"
    "t = TSerializer (OpStr name) fs"
    by (auto simp: list_all_iff)
  have st: "n < length (st_operations E)" "st_operations E ! n = denote E t"
    using n by (simp_all add: st_operations_denote)
  have id: "opTypeId (st_operations E) (JStr (js name)) = JNum (int n)"
    using find_pos_at [OF st(1) _ distinct_operations, of name 0] st n(3) denote_name
    by (simp add: opTypeId_def is_number_def)
  have "\<exists>b'. bindR (writeVarint32 b (JNum (int n))) (\<lambda>b1. appendByteBuffer (denote E t) b1 data) = Inr b'
      \<and> bb_appended b (varint32_bytes (of_nat n) @ raw_wire E t data) b'"
    using write_size [OF b, of n] writer.write_enc [OF denote_writer o(3)] n by (intro bindR_appended) (auto simp: operation_schemas_def)
  then show "\<exists>b'. appendByteBuffer (operation E) b v = Inr b' \<and> bb_appended b (raw_operation_wire E v) b'"
    using o n id st by (simp add: operation_def st_static_variant_def variant_parts_def required_def is_empty_def op_at_def)
qed

lemma operation_ts: "writer (\<lambda>b v. OperationSerializer E S b (to_ts v)) (raw_operation_wire E) (raw_operation E S)"
proof (rule writerI)
  fix v b assume v: "raw_operation E S v" and b: "bb_ok b"
  from v obtain name n t data where o: "v = JArr [JStr (js name), data]" "(name, n, t) \<in> set shared_operations"
    "raw_valid E S t data" "raw_operation_wire E v = varint32_bytes (of_nat n) @ raw_wire E t data"
    by (rule raw_operationE)
  have "map_of (OperationSerializers E S) name = Some (numbered n (ts_denote E S t))"
    using shared_ts [of E S] o(2) by (auto simp: list_all_iff)
  then have f: "find_serializer E S (js name) = Some (numbered n (ts_denote E S t))"
    using map_of_key [OF inj_js, of "\<lambda>ser. ser" "OperationSerializers E S" name] by (simp add: find_serializer_def)
  have "n < 2147483648"
    using shared_raw o(2) by (auto simp: list_all_iff operation_schemas_def)
  then have "\<exists>b'. numbered n (ts_denote E S t) b (to_ts data) = Inr b' \<and>
      bb_appended b (varint32_bytes (of_nat n) @ raw_wire E t data) b'"
    unfolding numbered_def
    using write_size_ts [OF b] writer.write_enc [OF ts_denote_writer o(3)] by (intro bindR_appended) auto
  then show "\<exists>b'. OperationSerializer E S b (to_ts v) = Inr b' \<and> bb_appended b (raw_operation_wire E v) b'"
    using o f by (auto simp: OperationSerializer_def at_key_def)
qed

text \<open>A transaction of such operations, without extensions.\<close>

definition raw_operations :: "env \<Rightarrow> secp256k1 \<Rightarrow> jsval \<Rightarrow> bool" where
  "raw_operations E S v \<longleftrightarrow> (case v of JArr ops \<Rightarrow> length ops < 2147483648 \<and> list_all (raw_operation E S) ops | _ \<Rightarrow> False)"

definition raw_transaction :: "env \<Rightarrow> secp256k1 \<Rightarrow> jsval \<Rightarrow> bool" where
  "raw_transaction E S = raw_record
     [(''ref_block_num'', raw_valid E S TUint16),
      (''ref_block_prefix'', raw_valid E S TUint32),
      (''expiration'', raw_valid E S TTime),
      (''operations'', raw_operations E S),
      (''extensions'', \<lambda>v. v = JArr [])]"

definition raw_transaction_wire :: "env \<Rightarrow> jsval \<Rightarrow> byte list" where
  "raw_transaction_wire E = raw_record_wire
     [(''ref_block_num'', raw_wire E TUint16),
      (''ref_block_prefix'', raw_wire E TUint32),
      (''expiration'', raw_wire E TTime),
      (''operations'', \<lambda>v. counted (raw_operation_wire E) (the_arr v)),
      (''extensions'', \<lambda>v. counted (\<lambda>x. []) (the_arr v))]"

lemma raw_operations_valid: "raw_operations E S v \<Longrightarrow> array_valid E (operation E) (raw_operation E S) v"
  by (auto simp: raw_operations_def array_valid_def operation_def st_static_variant_def sortOperation_def split: jsval.splits)

lemma writer_mono: "writer wr enc V \<Longrightarrow> (\<And>v. V' v \<Longrightarrow> V v) \<Longrightarrow> writer wr enc V'"
  by (auto simp: writer_def)

lemma transaction_raw: "writer (appendByteBuffer (op_transaction E)) (raw_transaction_wire E) (raw_transaction E S)"
proof -
  have ops: "writer (appendByteBuffer (st_array E (operation E))) (\<lambda>v. counted (raw_operation_wire E) (the_arr v)) (raw_operations E S)"
    by (rule writer_mono [OF array_raw [OF operation_raw] raw_operations_valid])
  have ext: "writer (appendByteBuffer (st_set E future_extensions)) (\<lambda>v. counted (\<lambda>x. []) (the_arr v)) (\<lambda>v. v = JArr [])"
  proof (rule writer_mono [OF set_raw [of _ _ "\<lambda>x. False"]])
    show "v = JArr [] \<Longrightarrow> set_valid E future_extensions (\<lambda>x. False) v" for v
      by (simp add: set_valid_def array_valid_def sortOperation_def array_sort_def)
  qed (simp add: writer_def)
  show ?thesis
    unfolding op_transaction_def raw_transaction_wire_def raw_transaction_def
    by (rule serializer_raw)
      (use ops ext denote_writer [of E TUint16 S] denote_writer [of E TUint32 S] denote_writer [of E TTime S] in
        \<open>auto intro!: fields_writer.intros\<close>)
qed

lemma transaction_ts: "writer (\<lambda>b v. TransactionSerializer E S b (to_ts v)) (raw_transaction_wire E) (raw_transaction E S)"
proof -
  have ops: "writer (\<lambda>b v. ArraySerializer (OperationSerializer E S) b (to_ts v)) (\<lambda>v. counted (raw_operation_wire E) (the_arr v))
      (raw_operations E S)"
    by (rule array_ts [OF operation_ts]) (auto simp: raw_operations_def split: jsval.splits)
  have ext: "writer (\<lambda>b v. ArraySerializer StringSerializer b (to_ts v)) (\<lambda>v. counted (\<lambda>x. []) (the_arr v)) (\<lambda>v. v = JArr [])"
    by (rule array_ts [of _ _ "\<lambda>x. False"]) (auto simp: writer_def)
  show ?thesis
    unfolding TransactionSerializer_def raw_transaction_wire_def raw_transaction_def
    by (rule object_ts)
      (use ops ext ts_denote_writer [of E S TUint16] ts_denote_writer [of E S TUint32] ts_denote_writer [of E S TTime] in
        \<open>auto intro!: fields_writer.intros\<close>)
qed

section \<open>The numbers of the operations\<close>

text \<open>Every entry of the table of serializers\<close>

lemmas tsop_defs =
  tsop_account_create_def tsop_account_create_with_delegation_def tsop_account_update_def
  tsop_account_witness_proxy_def tsop_account_witness_vote_def tsop_cancel_transfer_from_savings_def
  tsop_change_recovery_account_def tsop_claim_account_def tsop_claim_reward_balance_def
  tsop_comment_def tsop_comment_options_def tsop_convert_def tsop_create_claimed_account_def
  tsop_custom_def tsop_custom_binary_def tsop_custom_json_def tsop_decline_voting_rights_def
  tsop_delegate_vesting_shares_def tsop_delete_comment_def tsop_escrow_approve_def
  tsop_escrow_dispute_def tsop_escrow_release_def tsop_escrow_transfer_def tsop_feed_publish_def
  tsop_limit_order_cancel_def tsop_limit_order_create_def tsop_limit_order_create2_def
  tsop_recover_account_def tsop_report_over_production_def tsop_request_account_recovery_def
  tsop_reset_account_def tsop_set_reset_account_def tsop_set_withdraw_vesting_route_def
  tsop_transfer_def tsop_transfer_from_savings_def tsop_transfer_to_savings_def
  tsop_transfer_to_vesting_def tsop_vote_def tsop_withdraw_vesting_def tsop_witness_update_def
  tsop_witness_set_properties_def tsop_account_update2_def tsop_create_proposal_def
  tsop_update_proposal_votes_def tsop_remove_proposal_def

definition ts_operation_numbers :: "(string \<times> int) list" where
  "ts_operation_numbers =
     [(''account_create'', 5), (''account_create_with_delegation'', 41), (''account_update'', 6),
      (''account_witness_proxy'', 9), (''account_witness_vote'', 8), (''cancel_transfer_from_savings'', 26),
      (''change_recovery_account'', 19), (''claim_account'', 15), (''claim_reward_balance'', 31), (''comment'', 1),
      (''comment_options'', 13), (''convert'', 8), (''create_claimed_account'', 16), (''custom'', 10),
      (''custom_binary'', 27), (''custom_json'', 12), (''decline_voting_rights'', 28), (''delegate_vesting_shares'', 32),
      (''delete_comment'', 17), (''escrow_approve'', 23), (''escrow_dispute'', 21), (''escrow_release'', 22),
      (''escrow_transfer'', 20), (''feed_publish'', 7), (''limit_order_cancel'', 6), (''limit_order_create'', 5),
      (''limit_order_create2'', 21), (''recover_account'', 18), (''report_over_production'', 16),
      (''request_account_recovery'', 17), (''reset_account'', 29), (''set_reset_account'', 30),
      (''set_withdraw_vesting_route'', 20), (''transfer'', 2), (''transfer_from_savings'', 25),
      (''transfer_to_savings'', 24), (''transfer_to_vesting'', 3), (''vote'', 0), (''withdraw_vesting'', 4),
      (''witness_update'', 11), (''witness_set_properties'', 33), (''account_update2'', 47), (''create_proposal'', 34),
      (''update_proposal_votes'', 35), (''remove_proposal'', 36)]"

text \<open>What an entry of the table of serializers does with a number: it writes it before the fields.\<close>

definition writes_number :: "int \<Rightarrow> serializer \<Rightarrow> bool" where
  "writes_number n ser \<longleftrightarrow> (\<exists>fs. ser = OperationDataSerializer (nat n) fs)"

lemma tsop_numbers:
  "list_all2 (\<lambda>(name, n) (name', ser). name = name' \<and> writes_number n ser) ts_operation_numbers (OperationSerializers E S)"
proof -
  have w: "writes_number n (OperationDataSerializer k fs)" if "nat n = k" for n k fs
    using that unfolding writes_number_def by blast
  show ?thesis
    unfolding ts_operation_numbers_def OperationSerializers_def list_all2_Cons list_all2_Nil case_prod_conv tsop_defs
    by (intro conjI refl TrueI w) simp_all
qed

section \<open>Digests and keys\<close>

lemma transaction_bytes: "raw_transaction E S tx \<Longrightarrow> toBuffer (op_transaction E) tx = Inr (raw_transaction_wire E tx)"
proof -
  assume tx: "raw_transaction E S tx"
  obtain b where b: "appendByteBuffer (op_transaction E) (ByteBuffer_new DEFAULT_CAPACITY True) tx = Inr b"
    "bb_contents b = raw_transaction_wire E tx" "bb_ok b"
    using writer.write_new [OF transaction_raw tx] .
  obtain c where "bb_copy b 0 (bb_offset b) = Inr c" "bb_toBuffer c = bb_contents b"
    using bb_copy_contents [OF b(3)] by blast
  with b show ?thesis by (simp add: toBuffer_def toByteBuffer_def)
qed

lemma transaction_digest:
  "raw_transaction E S tx \<Longrightarrow>
     transactionDigest E S (to_ts tx) (Some chainId) = Inr (sha256 E (chainId @ raw_transaction_wire E tx))"
proof -
  assume tx: "raw_transaction E S tx"
  obtain b where b: "TransactionSerializer E S (ByteBuffer_new DEFAULT_CAPACITY True) (to_ts tx) = Inr b"
    "bb_contents b = raw_transaction_wire E tx" "bb_ok b"
    using writer.write_new [OF transaction_ts tx] .
  have "bb_toBuffer (bb_flip b) = bb_contents b" by (simp add: bb_toBuffer_def bb_flip_def bb_contents_def)
  with b show ?thesis by (simp add: transactionDigest_def)
qed

text \<open>A private key that the TypeScript library reads is read by the other as the same number.\<close>

lemma fromString_fromWif:
  assumes "ts_PrivateKey_fromString E S s = Inr key" "key \<noteq> []"
  shows "PrivateKey_fromWif E L s = Inr (bi_fromBuffer L key)"
proof -
  obtain k where k: "decodePrivate E s = Inr k" "key = drop 1 k"
    using assms(1) by (auto simp: ts_PrivateKey_fromString_def new_PrivateKey_def bindR_eq_Inr assert_that_def split: if_splits)
  from decodePrivate_Inr [OF k(1)] obtain bs where bs: "base58_decode E s = Inr bs" "take 1 bs = [128]"
    "k = take (length bs - 4) bs" "drop (length bs - 4) bs = take 4 (doubleSha256 E k)" by blast
  from bs(2) have "bs \<noteq> []" "bs ! 0 = 128" by (cases bs; simp)+
  then have "readUInt8 bs 0 = Inr 128" by (simp add: readUInt8_def)
  moreover have "drop (length bs - 4) bs = wif_checksum E k" using bs(4) by (simp add: wif_checksum_def doubleSha256_def)
  ultimately show ?thesis
    using bs(1,3) k(2) assms(2)
    by (simp add: PrivateKey_fromWif_def assertR_def PrivateKey_fromBuffer_def Let_def)
qed

text \<open>The keys of a login: one library normalizes the white space of the seed, the other does not.\<close>

lemma fromLogin_toWif:
  assumes "normalize_brain_key (name @ role @ password) = name @ role @ password"
    "privateKeyVerify S (seed_hash E name password role)"
  shows "bindR (PrivateKey_fromLogin E S name password role) (ts_PrivateKey_toString E) = Inr (Auth_toWif E name password role)"
  using assms
  by (simp add: PrivateKey_fromLogin_def ts_PrivateKey_fromSeed_def new_PrivateKey_def assert_that_def seed_hash_def
      Auth_toWif_def wif_toString Let_def)

end
