(* ===== verification/WebNames.thy ===== *)
theory WebNames
  imports Utils PrivateKeys
begin

text \<open>
  Names, memos and paths of the web interfaces (\<open>ui/condenser\<close> and \<open>ui/wallet\<close>, in \<open>src/app\<close>): the checks of
  account names and of memos in \<open>utils/ChainValidation.js\<close>, and \<open>ResolveRoute.js\<close>. The lists of names in
  \<open>BadActorList.js\<close> and \<open>GDPRUserList.js\<close> are arguments; a message is the key of its translation. The checks of names are
  proved to agree with those of \<open>blurtjs\<close>, and the paths of accounts and posts to be resolved.
\<close>

section \<open>ChainValidation.js\<close>

definition chain_label_error :: "jsstring \<Rightarrow> string option" where
  "chain_label_error label =
     (if \<not> (label \<noteq> [] \<and> is_lower (hd label)) then Some ''each_account_segment_should_start_with_a_letter''
      else if \<not> list_all label_char label then Some ''each_account_segment_should_have_only_letters_digits_or_dashes''
      else if double_dash label then Some ''each_account_segment_should_have_only_one_dash_in_a_row''
      else if \<not> (is_lower (last label) \<or> is_digit (last label))
      then Some ''each_account_segment_should_end_with_a_letter_or_digit''
      else if \<not> 3 \<le> length label then Some ''each_account_segment_should_be_longer''
      else None)"

fun chain_labels_error :: "jsstring list \<Rightarrow> string option" where
  "chain_labels_error [] = None"
| "chain_labels_error (l # ls) = (case chain_label_error l of None \<Rightarrow> chain_labels_error ls | Some e \<Rightarrow> Some e)"

definition validate_account_name :: "jsstring list \<Rightarrow> jsstring \<Rightarrow> string option" where
  "validate_account_name badActors value =
     (if value = [] then Some ''account_name_should_not_be_empty''
      else if length value < 3 then Some ''account_name_should_be_longer''
      else if length value > 16 then Some ''account_name_should_be_shorter''
      else if value \<in> set badActors then Some ''badactor''
      else chain_labels_error (split_on 46 value))"

definition VerifiedExchangeList :: "jsstring list" where
  "VerifiedExchangeList =
     map js [''bittrex'', ''blocktrades'', ''changelly'', ''deepcrypto8'', ''gopax-deposit'', ''hitbtc-exchange'', ''poloniex'',
       ''upbit-exchange'', ''onepagex'']"

definition validate_account_name_with_memo :: "jsstring list \<Rightarrow> jsstring \<Rightarrow> jsstring \<Rightarrow> string option" where
  "validate_account_name_with_memo badActors name memo =
     (if name \<in> set VerifiedExchangeList \<and> memo = [] then Some ''verified_exchange_no_memo''
      else validate_account_name badActors name)"

text \<open>\<open>/5[HJK]\w{40,45}/i\<close> anywhere in a word\<close>

fun looks_like_key :: "jsstring \<Rightarrow> bool" where
  "looks_like_key (a # b # r) \<longleftrightarrow>
     a = 53 \<and> b \<in> {72, 74, 75, 104, 106, 107} \<and> 40 \<le> length (takeWhile word_char r) \<or> looks_like_key (b # r)"
| "looks_like_key _ \<longleftrightarrow> False"

text \<open>The first word that is too long and fails a test decides; \<open>fromSeed\<close> may throw.\<close>

fun memo_words_error ::
  "env \<Rightarrow> 'p ecc \<Rightarrow> jsstring \<Rightarrow> jsstring \<Rightarrow> jsstring list \<Rightarrow> js_error + string option" where
  "memo_words_error E L username memokey [] = Inr None"
| "memo_words_error E L username memokey (w # ws) =
     (if length w < 39 then memo_words_error E L username memokey ws
      else if looks_like_key w then Inr (Some ''memo_has_privatekey'')
      else if PrivateKey_isWif E L w then Inr (Some ''memo_is_privatekey'')
      else bindR (PrivateKey_fromSeed E L (JStr (username @ js ''memo'' @ w))) (\<lambda>d.
             if memokey = toPublicKeyString E (address_prefix E) (PrivateKey_toPublic L d)
             then Inr (Some ''memo_is_password'')
             else memo_words_error E L username memokey ws))"

definition validate_memo_field ::
  "env \<Rightarrow> 'p ecc \<Rightarrow> jsstring \<Rightarrow> jsstring \<Rightarrow> jsstring \<Rightarrow> js_error + string option" where
  "validate_memo_field E L value username memokey =
     memo_words_error E L username memokey (filter (\<lambda>v. v \<noteq> []) (split_on 32 value))"

section \<open>ResolveRoute.js\<close>

record route =
  page :: string
  route_params :: "jsstring list option"

definition the_page :: "string \<Rightarrow> route" where
  "the_page p = \<lparr>page = p, route_params = None\<rparr>"

definition page_of :: "string \<Rightarrow> jsstring list \<Rightarrow> route" where
  "page_of p ps = \<lparr>page = p, route_params = Some ps\<rparr>"

text \<open>\<open>[\w\.\d-]\<close> and \<open>[\w\d-]\<close>\<close>

definition name_char :: "code_unit \<Rightarrow> bool" where
  "name_char c \<longleftrightarrow> word_char c \<or> c = 46 \<or> c = 45"

definition tag_char :: "code_unit \<Rightarrow> bool" where
  "tag_char c \<longleftrightarrow> word_char c \<or> c = 45"

text \<open>
  \<open>(@[\w\.\d-]+)\<close>: the text with its sign, and what follows. No character that may follow belongs to the
  class, so that the longest match is the only one.
\<close>

definition at_name :: "jsstring \<Rightarrow> (jsstring \<times> jsstring) option" where
  "at_name s =
     (case s of
        c # r \<Rightarrow> if c = 64 \<and> takeWhile name_char r \<noteq> [] then Some (64 # takeWhile name_char r, dropWhile name_char r) else None
      | [] \<Rightarrow> None)"

definition after_slash :: "jsstring \<Rightarrow> jsstring option" where
  "after_slash s = (case s of c # r \<Rightarrow> if c = 47 then Some r else None | [] \<Rightarrow> None)"

definition user_path :: "jsstring \<Rightarrow> (jsstring \<times> jsstring) option" where
  "user_path path = Option.bind (after_slash path) at_name"

text \<open>\<open>\/?$\<close>\<close>

definition at_end :: "jsstring \<Rightarrow> bool" where
  "at_end s \<longleftrightarrow> s = [] \<or> s = [47]"

definition match_feed :: "jsstring \<Rightarrow> jsstring list option" where
  "match_feed path =
     (case user_path path of
        Some (u, r) \<Rightarrow> if r \<in> {js ''/feed'', js ''/feed/''} then Some [u] else None
      | None \<Rightarrow> None)"

definition match_profile1 :: "jsstring \<Rightarrow> jsstring list option" where
  "match_profile1 path = (case user_path path of Some (u, r) \<Rightarrow> if at_end r then Some [u] else None | None \<Rightarrow> None)"

definition match_profile2 :: "string list \<Rightarrow> jsstring \<Rightarrow> jsstring list option" where
  "match_profile2 sections path =
     (case user_path path of
        Some (u, r) \<Rightarrow>
          (case filter (\<lambda>x. r = 47 # js x \<or> r = 47 # js x @ [47]) sections of
             x # _ \<Rightarrow> Some [u, js x]
           | [] \<Rightarrow> None)
      | None \<Rightarrow> None)"

definition match_post_no_category :: "jsstring \<Rightarrow> jsstring list option" where
  "match_post_no_category path =
     (case user_path path of
        Some (u, r) \<Rightarrow>
          (case after_slash r of
             Some r' \<Rightarrow> if takeWhile tag_char r' \<noteq> [] then Some [u, takeWhile tag_char r'] else None
           | None \<Rightarrow> None)
      | None \<Rightarrow> None)"

text \<open>
  \<open>/^\/([\w\d\-\/]+)\/(\@[\w\d\.-]+)\/([\w\d-]+)\/?($|\?)/\<close>: the category reaches up to the slash before
  the first \<open>@\<close>. The last group is empty or the question mark.
\<close>

definition match_post :: "jsstring \<Rightarrow> jsstring list option" where
  "match_post path =
     (case after_slash path of
        None \<Rightarrow> None
      | Some r \<Rightarrow>
          (let cat = takeWhile (\<lambda>c. tag_char c \<or> c = 47) r; rest = dropWhile (\<lambda>c. tag_char c \<or> c = 47) r
           in if 2 \<le> length cat \<and> last cat = 47
              then (case at_name rest of
                      Some (u, r2) \<Rightarrow>
                        (case after_slash r2 of
                           Some r3 \<Rightarrow>
                             (let permlink = takeWhile tag_char r3; r4 = dropWhile tag_char r3;
                                  r5 = (case after_slash r4 of Some t \<Rightarrow> t | None \<Rightarrow> r4)
                              in if permlink = [] then None
                                 else if r5 = [] then Some [butlast cat, u, permlink, []]
                                 else if hd r5 = 63 then Some [butlast cat, u, permlink, [63]]
                                 else None)
                         | None \<Rightarrow> None)
                    | None \<Rightarrow> None)
              else None))"

definition categories :: "string list" where
  "categories = [''hot'', ''trending'', ''promoted'', ''payout'', ''payout_comments'', ''created'']"

definition match_category1 :: "jsstring \<Rightarrow> jsstring list option" where
  "match_category1 path =
     (case filter (\<lambda>x. path = 47 # js x \<or> path = 47 # js x @ [47]) categories of x # _ \<Rightarrow> Some [js x] | [] \<Rightarrow> None)"

definition match_category2 :: "jsstring \<Rightarrow> jsstring list option" where
  "match_category2 path =
     (case filter (\<lambda>x. starts_with (47 # js x @ [47]) path) categories of
        x # _ \<Rightarrow>
          (let r = drop (length x + 2) path
           in if takeWhile tag_char r \<noteq> [] \<and> at_end (dropWhile tag_char r) then Some [js x, takeWhile tag_char r] else None)
      | [] \<Rightarrow> None)"

text \<open>\<open>a || b\<close> of two matches, and \<open>GDPRUserList.includes(user.substring(1))\<close>\<close>

definition or_match :: "'a option \<Rightarrow> 'a option \<Rightarrow> 'a option" where
  "or_match a b = (case a of Some m \<Rightarrow> Some m | None \<Rightarrow> b)"

definition unless_listed :: "jsstring list \<Rightarrow> jsstring \<Rightarrow> route \<Rightarrow> route" where
  "unless_listed gdpr user r = (if drop 1 user \<in> set gdpr then the_page ''NotFound'' else r)"

text \<open>The fixed paths, the last two under flags of the environment\<close>

definition fixed_page :: "(string \<times> string) list \<Rightarrow> bool \<Rightarrow> bool \<Rightarrow> jsstring \<Rightarrow> string option" where
  "fixed_page pages development offline path =
     (if path = js ''/xss/test'' \<and> development then Some ''XSSTest''
      else if path = js ''/benchmark'' \<and> offline then Some ''Benchmark''
      else map_of (map (\<lambda>(k, v). (js k, v)) pages) path)"

definition condenser_pages :: "(string \<times> string) list" where
  "condenser_pages =
     [(''/about.html'', ''About''), (''/welcome'', ''Welcome''), (''/faq.html'', ''Faq''), (''/login.html'', ''Login''),
      (''/privacy.html'', ''Privacy''), (''/support.html'', ''Support''), (''/tags'', ''Tags''), (''/tos.html'', ''Tos''),
      (''/change_password'', ''ChangePassword''), (''/recover_account_step_1'', ''RecoverAccountStep1''),
      (''/~witnesses'', ''Witnesses''), (''/submit.html'', ''SubmitPost'')]"

definition condenser_sections :: "string list" where
  "condenser_sections =
     [''blog'', ''posts'', ''comments'', ''transfers'', ''curation-rewards'', ''author-rewards'', ''permissions'', ''created'',
      ''recent-replies'', ''notifications'', ''feed'', ''password'', ''followed'', ''followers'', ''settings'']"

definition condenser_resolveRoute :: "jsstring list \<Rightarrow> bool \<Rightarrow> bool \<Rightarrow> jsstring \<Rightarrow> route" where
  "condenser_resolveRoute gdpr development offline path =
     (if path = js ''/'' then page_of ''PostsIndex'' [js ''hot'']
      else case fixed_page condenser_pages development offline path of
        Some p \<Rightarrow> the_page p
      | None \<Rightarrow>
      (case match_feed path of
        Some m \<Rightarrow> unless_listed gdpr (m ! 0) (page_of ''PostsIndex'' [js ''home'', m ! 0])
      | None \<Rightarrow>
      (case or_match (match_profile1 path) (match_profile2 condenser_sections path) of
        Some m \<Rightarrow> unless_listed gdpr (m ! 0) (page_of ''UserProfile'' m)
      | None \<Rightarrow>
      (case match_post_no_category path of
        Some m \<Rightarrow> unless_listed gdpr (m ! 0) (page_of ''PostNoCategory'' m)
      | None \<Rightarrow>
      (case match_post path of
        Some m \<Rightarrow> unless_listed gdpr (m ! 1) (page_of ''Post'' m)
      | None \<Rightarrow>
      (case or_match (match_category1 path) (match_category2 path) of
        Some m \<Rightarrow> page_of ''PostsIndex'' m
      | None \<Rightarrow> the_page ''NotFound''))))))"

definition wallet_pages :: "(string \<times> string) list" where
  "wallet_pages =
     [(''/'', ''WalletIndex''), (''/about.html'', ''About''), (''/welcome'', ''Welcome''), (''/faq.html'', ''Faq''), (''/login.html'', ''Login''),
      (''/privacy.html'', ''Privacy''), (''/support.html'', ''Support''), (''/tos.html'', ''Tos''),
      (''/change_password'', ''ChangePassword''), (''/create_account'', ''CreateAccount''), (''/approval'', ''Approval''),
      (''/recover_account_step_1'', ''RecoverAccountStep1''), (''/recover_account_step_2'', ''RecoverAccountStep2''),
      (''/market'', ''Market''), (''/~witnesses'', ''Witnesses''), (''/proposals'', ''Proposals'')]"

definition wallet_sections :: "string list" where
  "wallet_sections =
     [''transfers'', ''curation-rewards'', ''author-rewards'', ''permissions'', ''communities'', ''password'', ''settings'', ''delegations'']"

definition wallet_resolveRoute :: "jsstring list \<Rightarrow> bool \<Rightarrow> bool \<Rightarrow> jsstring \<Rightarrow> route" where
  "wallet_resolveRoute gdpr development offline path =
     (case fixed_page wallet_pages development offline path of
        Some p \<Rightarrow> the_page p
      | None \<Rightarrow>
      (case or_match (match_profile1 path) (match_profile2 wallet_sections path) of
        Some m \<Rightarrow> unless_listed gdpr (m ! 0) (page_of ''UserProfile'' m)
      | None \<Rightarrow> the_page ''NotFound''))"

section \<open>Names and memos\<close>

lemma chain_labels_error_None: "chain_labels_error ls = None \<longleftrightarrow> labels_error ls = None"
proof -
  have "chain_label_error l = None \<longleftrightarrow> label_error l = None" for l
    by (auto simp: chain_label_error_def label_error_def)
  moreover have "chain_labels_error (l # ls) = None \<longleftrightarrow> chain_label_error l = None \<and> chain_labels_error ls = None"
    "labels_error (l # ls) = None \<longleftrightarrow> label_error l = None \<and> labels_error ls = None" for l ls
    by (auto split: option.splits)
  ultimately show ?thesis by (induction ls) (simp_all del: chain_labels_error.simps(2) labels_error.simps(2))
qed

lemma validate_account_name_None:
  "validate_account_name bad s = None \<longleftrightarrow> validateAccountName (JStr s) = Inr JNull \<and> s \<notin> set bad"
  by (auto simp: validate_account_name_def validateAccountName_string chain_labels_error_None labels_error_None)

text \<open>A word passes when it is short or fails none of the tests.\<close>

definition memo_word_ok :: "env \<Rightarrow> 'p ecc \<Rightarrow> jsstring \<Rightarrow> jsstring \<Rightarrow> jsstring \<Rightarrow> bool" where
  "memo_word_ok E L username memokey w \<longleftrightarrow>
     length w < 39 \<or> \<not> looks_like_key w \<and> \<not> PrivateKey_isWif E L w \<and>
       (\<exists>d. PrivateKey_fromSeed E L (JStr (username @ js ''memo'' @ w)) = Inr d \<and>
          memokey \<noteq> toPublicKeyString E (address_prefix E) (PrivateKey_toPublic L d))"

lemma memo_words_ok:
  "memo_words_error E L username memokey ws = Inr None \<longleftrightarrow> (\<forall>w \<in> set ws. memo_word_ok E L username memokey w)"
  by (induction ws) (auto simp: memo_word_ok_def bindR_eq_Inr)

lemma key_in_word: "a = 53 \<Longrightarrow> b \<in> {72, 74, 75, 104, 106, 107} \<Longrightarrow> list_all word_char k \<Longrightarrow> 40 \<le> length k \<Longrightarrow>
  looks_like_key (u @ a # b # k @ v)"
proof (induction u)
  case Nil
  have "length k \<le> length (takeWhile word_char (k @ v))" using Nil(3) by (simp add: takeWhile_append list_all_iff)
  with Nil show ?case by simp
next
  case (Cons x u)
  then show ?case by (cases u) simp_all
qed

lemma looks_like_key_iff:
  "looks_like_key w \<longleftrightarrow> (\<exists>u a b k v. w = u @ a # b # k @ v \<and> a = 53 \<and> b \<in> {72, 74, 75, 104, 106, 107} \<and> list_all word_char k \<and>
     40 \<le> length k)"
proof
  show "looks_like_key w \<Longrightarrow> \<exists>u a b k v. w = u @ a # b # k @ v \<and> a = 53 \<and> b \<in> {72, 74, 75, 104, 106, 107} \<and> list_all word_char k \<and>
     40 \<le> length k"
  proof (induction w rule: looks_like_key.induct)
    case (1 a b r)
    show ?case
    proof (cases "looks_like_key (b # r)")
      case True
      with 1 obtain u a' b' k v where "b # r = u @ a' # b' # k @ v" "a' = 53" "b' \<in> {72, 74, 75, 104, 106, 107}"
        "list_all word_char k" "40 \<le> length k" by blast
      then show ?thesis by (intro exI [of _ "a # u"]) auto
    next
      case False
      with 1 have "a # b # r = [] @ a # b # takeWhile word_char r @ dropWhile word_char r \<and> a = 53 \<and> b \<in> {72, 74, 75, 104, 106, 107} \<and>
          list_all word_char (takeWhile word_char r) \<and> 40 \<le> length (takeWhile word_char r)"
        by (auto simp: list_all_iff dest: set_takeWhileD)
      then show ?thesis by blast
    qed
  qed simp_all
qed (blast intro: key_in_word)

lemma validate_memo_field_ok:
  "validate_memo_field E L value username memokey = Inr None \<longleftrightarrow> (\<forall>w \<in> set (split_on 32 value). memo_word_ok E L username memokey w)"
  by (auto simp: validate_memo_field_def memo_words_ok memo_word_ok_def)

section \<open>Routes of accounts and posts\<close>

lemma name_char_facts [simp]: "\<not> name_char 47" "\<not> name_char 64" "\<not> tag_char 64" "\<not> tag_char 47" "\<not> tag_char 63"
  by (simp_all add: name_char_def tag_char_def word_char_def is_lower_def is_digit_def)

lemma split_on_chars: "c \<in> set s \<Longrightarrow> c = d \<or> (\<exists>l \<in> set (split_on d s). c \<in> set l)"
  by (induction s) (auto split: list.splits)

lemma account_name_chars:
  assumes "validateAccountName (JStr s) = Inr JNull"
  shows "s \<noteq> []" "\<forall>c \<in> set s. name_char c"
proof -
  have v: "3 \<le> length s" "\<forall>l\<in>set (split_on 46 s). segment l" using assms by (auto simp: validateAccountName_string)
  then show "s \<noteq> []" by auto
  have "label_char c" if "l \<in> set (split_on 46 s)" "c \<in> set l" for l c
    using v(2) that segment_checks [of l] by (auto simp: list_all_iff)
  then show "\<forall>c \<in> set s. name_char c"
    using split_on_chars [of _ s 46] by (fastforce simp: label_char_def name_char_def word_char_def)
qed

lemma takeWhile_until: "list_all P a \<Longrightarrow> b = [] \<or> \<not> P (hd b) \<Longrightarrow> takeWhile P (a @ b) = a \<and> dropWhile P (a @ b) = b"
  by (cases b) (auto simp: list_all_iff takeWhile_append dropWhile_append)

lemma at_name_eq:
  assumes "s \<noteq> []" "list_all name_char s" "r = [] \<or> \<not> name_char (hd r)"
  shows "at_name (64 # s @ r) = Some (64 # s, r)"
  using takeWhile_until [OF assms(2,3)] assms(1) by (simp add: at_name_def)

lemma fixed_page_None:
  assumes "64 \<in> set path" "list_all (\<lambda>(k, v). 64 \<notin> set (js k)) pages"
  shows "fixed_page pages development offline path = None"
proof -
  have "64 \<notin> set (js ''/xss/test'')" "64 \<notin> set (js ''/benchmark'')" by (simp_all add: js_def)
  moreover have "path \<notin> fst ` set (map (\<lambda>(k, v). (js k, v)) pages)" using assms by (auto simp: list_all_iff)
  ultimately show ?thesis using assms(1) by (auto simp: fixed_page_def map_of_eq_None_iff)
qed

lemma fixed_pages_plain:
  "list_all (\<lambda>(k, v). 64 \<notin> set (js k)) condenser_pages" "list_all (\<lambda>(k, v). 64 \<notin> set (js k)) wallet_pages"
  by (simp_all add: condenser_pages_def wallet_pages_def js_def)

lemma user_path_eq:
  "s \<noteq> [] \<Longrightarrow> list_all name_char s \<Longrightarrow> r = [] \<or> \<not> name_char (hd r) \<Longrightarrow> user_path (47 # 64 # s @ r) = Some (64 # s, r)"
  using at_name_eq [of s r] by (simp add: user_path_def after_slash_def)

lemmas condenser_unfold = condenser_resolveRoute_def match_feed_def match_profile1_def match_profile2_def
  match_post_no_category_def or_match_def unless_listed_def

lemma profile_route:
  assumes "s \<noteq> []" "list_all name_char s" "s \<notin> set gdpr"
  shows "condenser_resolveRoute gdpr development offline (47 # 64 # s) = page_of ''UserProfile'' [64 # s]"
    "wallet_resolveRoute gdpr development offline (47 # 64 # s) = page_of ''UserProfile'' [64 # s]"
proof -
  have u: "user_path (47 # 64 # s) = Some (64 # s, [])" using user_path_eq [of s "[]"] assms by simp
  have f: "fixed_page condenser_pages development offline (47 # 64 # s) = None"
    "fixed_page wallet_pages development offline (47 # 64 # s) = None"
    by (rule fixed_page_None; simp add: fixed_pages_plain)+
  show "condenser_resolveRoute gdpr development offline (47 # 64 # s) = page_of ''UserProfile'' [64 # s]"
    using assms(3) by (simp add: condenser_unfold f u js_def at_end_def)
  show "wallet_resolveRoute gdpr development offline (47 # 64 # s) = page_of ''UserProfile'' [64 # s]"
    using assms(3) by (simp add: wallet_resolveRoute_def match_profile1_def or_match_def unless_listed_def f u at_end_def)
qed

lemma post_routes:
  assumes s: "s \<noteq> []" "list_all name_char s" "s \<notin> set gdpr" and p: "p \<noteq> []" "list_all tag_char p" "p \<notin> js ` set condenser_sections"
    and t: "t \<noteq> []" "list_all tag_char t"
  shows "condenser_resolveRoute gdpr development offline (47 # 64 # s @ 47 # p) = page_of ''PostNoCategory'' [64 # s, p]"
    "condenser_resolveRoute gdpr development offline (47 # t @ 47 # 64 # s @ 47 # p) = page_of ''Post'' [t, 64 # s, p, []]"
proof -
  have u: "user_path (47 # 64 # s @ 47 # p) = Some (64 # s, 47 # p)" using user_path_eq [of s "47 # p"] s by simp
  have f: "fixed_page condenser_pages development offline (47 # 64 # s @ 47 # p) = None"
    "fixed_page condenser_pages development offline (47 # t @ 47 # 64 # s @ 47 # p) = None"
    by (rule fixed_page_None; simp add: fixed_pages_plain)+
  have slash: "47 \<notin> set p" using p(2) by (auto simp: list_all_iff)
  have "p \<noteq> js x @ [47]" for x using slash by auto
  moreover have "p \<noteq> js x" if "x \<in> set condenser_sections" for x using p(3) that by auto
  ultimately have sec: "filter (\<lambda>x. p = js x \<or> p = js x @ [47]) condenser_sections = []" by (auto simp: filter_empty_conv)
  have feed: "47 # p \<notin> {js ''/feed'', js ''/feed/''}"
  proof -
    have "''feed'' \<in> set condenser_sections" by (simp add: condenser_sections_def)
    then have "p \<noteq> js ''feed''" using p(3) by blast
    moreover have "p \<noteq> js ''feed'' @ [47]" using slash by auto
    ultimately show ?thesis by (auto simp: js_def)
  qed
  have e: "\<not> at_end (47 # p)" using p(1) by (simp add: at_end_def)
  have w: "takeWhile tag_char p = p" "dropWhile tag_char p = []" using takeWhile_until [OF p(2), of "[]"] by simp_all
  show "condenser_resolveRoute gdpr development offline (47 # 64 # s @ 47 # p) = page_of ''PostNoCategory'' [64 # s, p]"
    using s(3) p(1) feed e sec by (simp add: condenser_unfold f(1) u w after_slash_def js_def [of "''/''"])
  obtain c t' where "t = c # t'" "tag_char c" using t by (cases t) auto
  then have c: "t = c # t'" "c \<noteq> 64" by auto
  have n: "user_path (47 # t @ 47 # 64 # s @ 47 # p) = None" using c by (simp add: user_path_def after_slash_def at_name_def)
  let ?P = "\<lambda>c. tag_char c \<or> c = 47"
  have "list_all ?P (t @ [47])" using t(2) by (auto simp: list_all_iff)
  then have tw: "takeWhile ?P (t @ 47 # 64 # s @ 47 # p) = t @ [47]" "dropWhile ?P (t @ 47 # 64 # s @ 47 # p) = 64 # s @ 47 # p"
    using takeWhile_until [of ?P "t @ [47]" "64 # s @ 47 # p"] by simp_all
  have "at_name (64 # s @ 47 # p) = Some (64 # s, 47 # p)" using at_name_eq [of s "47 # p"] s by simp
  then have "match_post (47 # t @ 47 # 64 # s @ 47 # p) = Some [t, 64 # s, p, []]"
    using t(1) p(1) by (simp add: match_post_def after_slash_def tw w Let_def Suc_le_eq)
  then show "condenser_resolveRoute gdpr development offline (47 # t @ 47 # 64 # s @ 47 # p) = page_of ''Post'' [t, 64 # s, p, []]"
    using s(3) t(1) by (simp add: condenser_unfold f(2) n js_def [of "''/''"])
qed

end
