(* ===== verification/TsClient.thy ===== *)
theory TsClient
  imports TsSigning Json
begin

text \<open>
  The client of the TypeScript library (\<open>client-libs/dblurt/src/client.ts\<close>, \<open>retryingFetch\<close> of
  \<open>utils.ts\<close>): its options, the request of a call, the loop that sends it again and fails over to
  other addresses, and what a response becomes. The outcome of every attempt of \<open>fetch\<close> and the
  clock are arguments; a loop that goes on for ever has the value \<^term>\<open>None\<close>.
\<close>

section \<open>Options\<close>

datatype address = OneAddress jsstring | Addresses "jsstring list"

text \<open>An option that is missing is \<^term>\<open>None\<close>; the agent is passed on and not looked at.\<close>

record client_options =
  opt_chainId :: "jsstring option"
  opt_addressPrefix :: "jsstring option"
  opt_timeout :: "int option"
  opt_failoverThreshold :: "int option"
  opt_consoleOnFailover :: "bool option"
  opt_backoff :: "(int \<Rightarrow> int) option"
  opt_agent :: bool

record client =
  cl_address :: address
  cl_currentAddress :: "jsstring option"
  cl_chainId :: "byte list"
  cl_addressPrefix :: jsstring
  cl_timeout :: int
  cl_backoff :: "int \<Rightarrow> int"
  cl_failoverThreshold :: int
  cl_consoleOnFailover :: bool

definition defaultBackoff :: "int \<Rightarrow> int" where
  "defaultBackoff tries = min ((tries * 10) ^ 2) (10 * 1000)"

definition nonzero_or :: "int option \<Rightarrow> int \<Rightarrow> int" where
  "nonzero_or v d = (case v of None \<Rightarrow> d | Some n \<Rightarrow> if n = 0 then d else n)"

definition text_or :: "jsstring option \<Rightarrow> jsstring \<Rightarrow> jsstring" where
  "text_or v d = (case v of None \<Rightarrow> d | Some s \<Rightarrow> if s = [] then d else s)"

definition new_Client :: "address \<Rightarrow> client_options \<Rightarrow> ts_error + client" where
  "new_Client address options =
     (let chainId = (case opt_chainId options of
                       None \<Rightarrow> DEFAULT_CHAIN_ID | Some s \<Rightarrow> if s = [] then DEFAULT_CHAIN_ID else fromHex s)
      in bindR (assert_that (length chainId = 32) ''invalid chain id'') (\<lambda>_.
           Inr \<lparr>cl_address = address,
                cl_currentAddress = (case address of OneAddress a \<Rightarrow> Some a | Addresses [] \<Rightarrow> None | Addresses (a # _) \<Rightarrow> Some a),
                cl_chainId = chainId,
                cl_addressPrefix = text_or (opt_addressPrefix options) DEFAULT_ADDRESS_PREFIX,
                cl_timeout = nonzero_or (opt_timeout options) (60 * 1000),
                cl_backoff = (case opt_backoff options of None \<Rightarrow> defaultBackoff | Some f \<Rightarrow> f),
                cl_failoverThreshold = nonzero_or (opt_failoverThreshold options) 3,
                cl_consoleOnFailover = (opt_consoleOnFailover options = Some True)\<rparr>))"

text \<open>\<open>copy(options)\<close> drops the functions among the options.\<close>

definition Client_testnet :: "client_options option \<Rightarrow> ts_error + client" where
  "Client_testnet options =
     (let opts = (case options of
            Some o' \<Rightarrow> o'\<lparr>opt_backoff := None\<rparr>
          | None \<Rightarrow> \<lparr>opt_chainId = None, opt_addressPrefix = None, opt_timeout = None, opt_failoverThreshold = None,
                     opt_consoleOnFailover = None, opt_backoff = None, opt_agent = False\<rparr>)
      in new_Client (OneAddress (js ''https://hive-test-beeabode.roelandp.nl''))
           (opts\<lparr>opt_addressPrefix := Some (js ''BLT''),
                 opt_chainId := Some (js ''cd8d90f29ae273abec3eaa7731e25934c63eb654d55080caff2ebb7f5df6381f'')\<rparr>))"

section \<open>Requests\<close>

text \<open>
  The replacer of the body: a buffer, and every object whose \<open>type\<close> is \<open>"Buffer"\<close>, becomes its bytes in
  hexadecimal.
\<close>

definition is_buffer_object :: "(string \<times> tsval) list \<Rightarrow> bool" where
  "is_buffer_object kvs \<longleftrightarrow> map_of kvs ''type'' = Some (StrV (js ''Buffer''))"

definition Buffer_from :: "env \<Rightarrow> tsval \<Rightarrow> ts_error + byte list" where
  "Buffer_from E v =
     (case v of BufV bs \<Rightarrow> Inr bs | StrV s \<Rightarrow> Inr (node_encode s) | _ \<Rightarrow> Buffer_from_object E v)"

fun body_value :: "env \<Rightarrow> tsval \<Rightarrow> ts_error + tsval" where
  "body_value E (BufV bs) = Inr (StrV (toHex bs))"
| "body_value E (ArrV xs) = bindR (mapR (body_value E) xs) (\<lambda>ys. Inr (ArrV ys))"
| "body_value E (ObjV kvs) =
     (if is_buffer_object kvs
      then bindR (Buffer_from E (case map_of kvs ''data'' of None \<Rightarrow> UndefV | Some d \<Rightarrow> d)) (\<lambda>bs. Inr (StrV (toHex bs)))
      else bindR (mapR (\<lambda>(k, v). bindR (body_value E v) (\<lambda>w. Inr (k, w))) kvs) (\<lambda>ws. Inr (ObjV ws)))"
| "body_value E (AssetV a) = Inr (StrV (Asset_toString a))"
| "body_value E (PubV key prefix) = Inr (StrV (encodePublic E key prefix))"
| "body_value E (HexV bs) = Inr (StrV (toHex bs))"
| "body_value E v = Inr v"

text \<open>\<open>JSON.stringify\<close> of what the replacer leaves\<close>

fun json_print :: "tsval \<Rightarrow> jsstring option" where
  "json_print UndefV = None"
| "json_print NullV = Some (js ''null'')"
| "json_print (BoolV b) = Some (json_bool b)"
| "json_print (NumV d) = Some (if dbl_finite d then dbl_toString d else js ''null'')"
| "json_print (StrV s) = Some (json_quote s)"
| "json_print (ArrV xs) =
     Some (json_array (map (\<lambda>x. case json_print x of None \<Rightarrow> js ''null'' | Some t \<Rightarrow> t) xs))"
| "json_print (ObjV kvs) =
     Some (json_object (concat (map (\<lambda>(k, v). case json_print v of None \<Rightarrow> [] | Some t \<Rightarrow> [(js k, t)]) kvs)))"
| "json_print v = None"

definition call_request :: "jsstring \<Rightarrow> jsstring \<Rightarrow> tsval \<Rightarrow> (string \<times> tsval) list" where
  "call_request api method params =
     (if api = js ''bridge''
      then [(''id'', NumV (Fin False 0)), (''jsonrpc'', StrV (js ''2.0'')), (''method'', StrV (api @ 46 # method)), (''params'', params)]
      else [(''id'', StrV (js ''0'')), (''jsonrpc'', StrV (js ''2.0'')), (''method'', StrV (js ''call'')),
            (''params'', ArrV [StrV api, StrV method, params])])"

definition call_body :: "env \<Rightarrow> jsstring \<Rightarrow> jsstring \<Rightarrow> tsval \<Rightarrow> ts_error + jsstring option" where
  "call_body E api method params =
     bindR (body_value E (ObjV (call_request api method params))) (\<lambda>v. Inr (json_print v))"

text \<open>The timeout of the attempts: none for a broadcast\<close>

definition fetchTimeout :: "jsstring \<Rightarrow> jsstring \<Rightarrow> (int \<Rightarrow> int) option" where
  "fetchTimeout api method =
     (if api \<noteq> js ''network_broadcast_api'' \<and> \<not> starts_with (js ''broadcast_transaction'') method
      then Some (\<lambda>tries. (tries + 1) * 500) else None)"

section \<open>retryingFetch\<close>

text \<open>What a rejected \<open>fetch\<close> or a response that is not \<open>ok\<close> leaves: its \<open>code\<close> is missing, a text or a number.\<close>

datatype err_code = NoCode | TextCode jsstring | NumCode int

datatype fetch_attempt = Answer tsval | Failure err_code

datatype fetch_error = TriedTooOften int | Rethrown err_code | NotAFunction

definition timeoutErrors :: "jsstring list" where
  "timeoutErrors = map js [''timeout'', ''ENOTFOUND'', ''ECONNREFUSED'', ''database lock'']"

fun contains :: "jsstring \<Rightarrow> jsstring \<Rightarrow> bool" where
  "contains p [] \<longleftrightarrow> p = []"
| "contains p (c # s) \<longleftrightarrow> starts_with p (c # s) \<or> contains p s"

definition no_code :: "err_code \<Rightarrow> bool" where
  "no_code e \<longleftrightarrow> (case e of NoCode \<Rightarrow> True | TextCode s \<Rightarrow> s = [] | NumCode n \<Rightarrow> n = 0)"

definition is_failover_error :: "err_code \<Rightarrow> fetch_error + bool" where
  "is_failover_error e =
     (if no_code e then Inr False
      else case e of TextCode s \<Rightarrow> Inr (\<exists>fe \<in> set timeoutErrors. contains fe s) | _ \<Rightarrow> Inl NotAFunction)"

record fetch_state =
  fs_current :: "jsstring option"
  fs_start :: int
  fs_tries :: int
  fs_round :: int

text \<open>\<open>failover\<close>: the address after the current one; the first one when it is the last.\<close>

fun index_in :: "'a \<Rightarrow> 'a list \<Rightarrow> nat option" where
  "index_in x [] = None"
| "index_in x (y # ys) = (if x = y then Some 0 else map_option Suc (index_in x ys))"

definition failover :: "jsstring option \<Rightarrow> jsstring list \<Rightarrow> jsstring option" where
  "failover url urls =
     (let next = (case Option.bind url (\<lambda>u. index_in u urls) of None \<Rightarrow> 0 | Some i \<Rightarrow> i + 1);
          target = (if length urls = next then 0 else next)
      in if target < length urls then Some (urls ! target) else None)"

text \<open>
  The handler of an exception: \<open>now\<close> is the time at which it checks the timeout, \<open>now'\<close> the time at
  which it restarts the clock. It throws, or goes on with the next attempt after a pause.
\<close>

definition catch_handler ::
  "address \<Rightarrow> int \<Rightarrow> int \<Rightarrow> int \<Rightarrow> int \<Rightarrow> err_code \<Rightarrow> fetch_state \<Rightarrow> fetch_error + fetch_state" where
  "catch_handler allAddresses timeout failoverThreshold now now' e st =
     bindR (if timeout \<noteq> 0 \<and> now - fs_start st > timeout
            then (case allAddresses of
                    Addresses urls \<Rightarrow>
                      if no_code e then Inr (st\<lparr>fs_current := failover (fs_current st) urls\<rparr>)
                      else bindR (is_failover_error e) (\<lambda>isFailoverError.
                             if isFailoverError \<and> length urls > 1
                             then (if fs_round st < failoverThreshold
                                   then Inr (st\<lparr>fs_start := now', fs_tries := - 1,
                                                fs_round := (if failoverThreshold > 0 then fs_round st + 1 else fs_round st),
                                                fs_current := failover (fs_current st) urls\<rparr>)
                                   else Inl (TriedTooOften failoverThreshold))
                             else Inl (Rethrown e))
                  | OneAddress _ \<Rightarrow> bindR (is_failover_error e) (\<lambda>_. Inl (Rethrown e)))
            else Inr st) (\<lambda>st'. Inr (st'\<lparr>fs_tries := fs_tries st' + 1\<rparr>))"

text \<open>
  The loop over the outcomes: attempt \<open>i\<close> ends at the times \<open>snd (outs i)\<close>.
\<close>

type_synonym outcomes = "nat \<Rightarrow> fetch_attempt \<times> int \<times> int"

definition fetch_test ::
  "address \<Rightarrow> int \<Rightarrow> int \<Rightarrow> outcomes \<Rightarrow> nat \<times> fetch_state \<Rightarrow> (fetch_error + tsval \<times> jsstring option) option" where
  "fetch_test allAddresses timeout failoverThreshold outs s =
     (case s of (i, st) \<Rightarrow> case outs i of
        (Answer response, _) \<Rightarrow> Some (Inr (response, fs_current st))
      | (Failure e, now, now') \<Rightarrow>
          (case catch_handler allAddresses timeout failoverThreshold now now' e st of Inl er \<Rightarrow> Some (Inl er) | Inr _ \<Rightarrow> None))"

definition fetch_next :: "address \<Rightarrow> int \<Rightarrow> int \<Rightarrow> outcomes \<Rightarrow> nat \<times> fetch_state \<Rightarrow> nat \<times> fetch_state" where
  "fetch_next allAddresses timeout failoverThreshold outs s =
     (case s of (i, st) \<Rightarrow> case outs i of
        (Answer response, _) \<Rightarrow> s
      | (Failure e, now, now') \<Rightarrow>
          (case catch_handler allAddresses timeout failoverThreshold now now' e st of Inl er \<Rightarrow> s | Inr st' \<Rightarrow> (Suc i, st')))"

definition fetch_start :: "jsstring option \<Rightarrow> int \<Rightarrow> nat \<times> fetch_state" where
  "fetch_start currentAddress start =
     (0, \<lparr>fs_current = currentAddress, fs_start = start, fs_tries = 0, fs_round = 0\<rparr>)"

definition retryingFetch ::
  "jsstring option \<Rightarrow> address \<Rightarrow> int \<Rightarrow> int \<Rightarrow> int \<Rightarrow> outcomes \<Rightarrow> (fetch_error + tsval \<times> jsstring option) option" where
  "retryingFetch currentAddress allAddresses timeout failoverThreshold start outs =
     search (fetch_test allAddresses timeout failoverThreshold outs) (fetch_next allAddresses timeout failoverThreshold outs)
       (fetch_start currentAddress start)"

section \<open>Responses\<close>

text \<open>
  A response of a node. An error has a message and, when it comes from an exception of the chain, a
  stack of entries with a format and the object of its data. The message of an entry has the holes
  \<open>${name}\<close>: letters and underscores in any case.
\<close>

record node_error =
  er_message :: jsstring
  er_stack :: "(jsstring \<times> (string \<times> tsval) list) list"

record node_response =
  rs_id :: tsval
  rs_error :: "node_error option"
  rs_result :: tsval

definition hole_char :: "code_unit \<Rightarrow> bool" where
  "hole_char c \<longleftrightarrow> 97 \<le> c \<and> c \<le> 122 \<or> 65 \<le> c \<and> c \<le> 90 \<or> c = 95"

text \<open>The name of a hole that starts here, and what follows it\<close>

definition hole_at :: "jsstring \<Rightarrow> (jsstring \<times> jsstring) option" where
  "hole_at s =
     (case s of
        a # b # r \<Rightarrow>
          (let key = takeWhile hole_char r; r' = dropWhile hole_char r
           in if a = 36 \<and> b = 123 \<and> key \<noteq> [] \<and> r' \<noteq> [] \<and> hd r' = 125 then Some (key, tl r') else None)
      | _ \<Rightarrow> None)"

lemma hole_at_shorter: "hole_at s = Some (key, r) \<Longrightarrow> length r < length s"
proof -
  assume h: "hole_at s = Some (key, r)"
  then obtain a b t where s: "s = a # b # t" "r = tl (dropWhile hole_char t)"
    by (auto simp: hole_at_def Let_def split: list.splits if_splits)
  have "length (dropWhile hole_char t) \<le> length t" by (rule length_dropWhile_le)
  with s show ?thesis by simp
qed

definition formatValue :: "env \<Rightarrow> tsval \<Rightarrow> jsstring" where
  "formatValue E v =
     (case v of
        NullV \<Rightarrow> js ''null''
      | ArrV xs \<Rightarrow> (case json_print v of None \<Rightarrow> [] | Some t \<Rightarrow> t)
      | ObjV kvs \<Rightarrow> (case json_print v of None \<Rightarrow> [] | Some t \<Rightarrow> t)
      | _ \<Rightarrow> ts_String E v)"

text \<open>\<open>topData[key]\<close>, which may be inherited: then it is a function, printed as such, or the prototype.\<close>

definition inherited_text :: "jsstring \<Rightarrow> jsstring" where
  "inherited_text key =
     (if key = js ''__proto__'' then js ''{}''
      else js ''function '' @ (if key = js ''constructor'' then js ''Object'' else key) @ js ''() { [native code] }'')"

definition hole_value :: "env \<Rightarrow> (jsstring \<times> tsval) list \<Rightarrow> jsstring \<Rightarrow> jsstring option" where
  "hole_value E topData key =
     (case map_of topData key of
        Some v \<Rightarrow> if ts_truthy v then Some (formatValue E v) else None
      | None \<Rightarrow> if inherited key then Some (inherited_text key) else None)"

function fill_holes :: "env \<Rightarrow> (jsstring \<times> tsval) list \<Rightarrow> jsstring \<Rightarrow> jsstring \<times> (jsstring \<times> tsval) list" where
  "fill_holes E topData s =
     (case s of
        [] \<Rightarrow> ([], topData)
      | c # r \<Rightarrow>
          (case hole_at s of
             None \<Rightarrow> (case fill_holes E topData r of (t, rest) \<Rightarrow> (c # t, rest))
           | Some (key, r') \<Rightarrow>
               (case hole_value E topData key of
                  None \<Rightarrow> (case fill_holes E topData r' of (t, rest) \<Rightarrow> (take (length s - length r') s @ t, rest))
                | Some v \<Rightarrow>
                    (case fill_holes E (filter (\<lambda>kv. fst kv \<noteq> key) topData) r' of (t, rest) \<Rightarrow> (v @ t, rest)))))"
  by pat_completeness auto
termination
  by (relation "measure (\<lambda>(E, d, s). length s)") (auto dest: hole_at_shorter)

declare fill_holes.simps [simp del]

definition error_message :: "env \<Rightarrow> node_error \<Rightarrow> jsstring" where
  "error_message E er =
     (case er_stack er of
        [] \<Rightarrow> er_message er
      | (format, data) # _ \<Rightarrow>
          (let topData = (case json_copy E (ObjV data) of Some (ObjV kvs) \<Rightarrow> map (\<lambda>(k, v). (js k, v)) kvs | _ \<Rightarrow> []);
               (message, rest) = fill_holes E topData format;
               unformattedData = map (\<lambda>(k, v). k @ 61 # formatValue E v) rest
           in if unformattedData = [] then message else message @ 32 # intersperse_with 32 unformattedData))"

text \<open>\<open>assert.equal(response.id, request.id)\<close> is the loose equality with \<open>0\<close> or \<open>"0"\<close>.\<close>

definition zero_text :: "jsstring \<Rightarrow> bool" where
  "zero_text s \<longleftrightarrow> (case js_Number s of Dec m e \<Rightarrow> m = 0 | _ \<Rightarrow> False)"

definition id_matches :: "env \<Rightarrow> bool \<Rightarrow> tsval \<Rightarrow> bool" where
  "id_matches E numeric v \<longleftrightarrow>
     (case v of
        UndefV \<Rightarrow> False
      | NullV \<Rightarrow> False
      | BoolV b \<Rightarrow> \<not> b
      | NumV d \<Rightarrow> dbl_eq d (Fin False 0)
      | _ \<Rightarrow> if numeric then zero_text (ts_String E v) else ts_String E v = js ''0'')"

datatype call_error = FetchError fetch_error | RPCError jsstring | WrongId

definition ts_call_result :: "env \<Rightarrow> jsstring \<Rightarrow> node_response \<Rightarrow> call_error + tsval" where
  "ts_call_result E api response =
     (case rs_error response of
        Some er \<Rightarrow> Inl (RPCError (error_message E er))
      | None \<Rightarrow> if id_matches E (api = js ''bridge'') (rs_id response) then Inr (rs_result response) else Inl WrongId)"

text \<open>
  \<open>call\<close>: the body, the attempts and the response; the address of the answer becomes the current one.
  \<open>parse\<close> is the response of a JSON value.
\<close>

definition client_call ::
  "env \<Rightarrow> (tsval \<Rightarrow> node_response) \<Rightarrow> client \<Rightarrow> jsstring \<Rightarrow> jsstring \<Rightarrow> tsval \<Rightarrow> int \<Rightarrow> outcomes \<Rightarrow>
     ((ts_error + call_error) + tsval) option \<times> client" where
  "client_call E parse c api method params start outs =
     (case call_body E api method params of
        Inl e \<Rightarrow> (Some (Inl (Inl e)), c)
      | Inr body \<Rightarrow>
          (case retryingFetch (cl_currentAddress c) (cl_address c) (cl_timeout c) (cl_failoverThreshold c) start outs of
             None \<Rightarrow> (None, c)
           | Some (Inl e) \<Rightarrow> (Some (Inl (Inr (FetchError e))), c)
           | Some (Inr (response, address)) \<Rightarrow>
               (Some (case ts_call_result E api (parse response) of Inl e \<Rightarrow> Inl (Inr e) | Inr v \<Rightarrow> Inr v),
                c\<lparr>cl_currentAddress := address\<rparr>)))"

section \<open>What the loop does\<close>

lemma funpow_invariant: "P s \<Longrightarrow> (\<And>s. P s \<Longrightarrow> P (f s)) \<Longrightarrow> P ((f ^^ i) s)"
  by (induction i) auto

text \<open>Failing over stays within the addresses.\<close>

lemma failover_in: "urls \<noteq> [] \<Longrightarrow> \<exists>a \<in> set urls. failover url urls = Some a"
proof -
  have "index_in u urls = Some i \<Longrightarrow> i < length urls" for u i
    by (induction urls arbitrary: i) (auto split: if_splits)
  then have "index_in u urls = Some i \<Longrightarrow> Suc i \<noteq> length urls \<Longrightarrow> Suc i < length urls" for u i
    by (metis Suc_lessI)
  moreover assume "urls \<noteq> []"
  ultimately show ?thesis by (cases url) (auto simp: failover_def Let_def split: option.split)
qed

lemma failover_next:
  assumes "distinct urls" "i < length urls"
  shows "failover (Some (urls ! i)) urls = Some (urls ! (Suc i mod length urls))"
proof -
  have "index_in (urls ! i) urls = Some i"
    using assms by (induction urls arbitrary: i) (auto simp: nth_Cons' split: if_splits)
  then show ?thesis using assms by (auto simp: failover_def Let_def mod_Suc)
qed

definition configured :: "address \<Rightarrow> jsstring option \<Rightarrow> bool" where
  "configured a cur \<longleftrightarrow> (case a of OneAddress u \<Rightarrow> cur = Some u | Addresses urls \<Rightarrow> \<exists>u \<in> set urls. cur = Some u)"

lemma catch_configured:
  assumes "catch_handler a timeout th now now' e st = Inr st'" "configured a (fs_current st)"
  shows "configured a (fs_current st')"
proof -
  have "\<exists>u \<in> set urls. failover x urls = Some u" if "a = Addresses urls" for urls x
  proof -
    have "urls \<noteq> []" using assms(2) that by (auto simp: configured_def)
    then show ?thesis by (rule failover_in)
  qed
  with assms show ?thesis
    by (auto simp: catch_handler_def configured_def bindR_eq_Inr split: if_splits address.splits)
qed

lemma fetch_configured:
  fixes s :: "nat \<times> fetch_state"
  assumes "configured a (fs_current (snd s))"
  shows "configured a (fs_current (snd ((fetch_next a timeout th outs ^^ i) s)))"
proof (rule funpow_invariant [where P = "\<lambda>s. configured a (fs_current (snd s))", OF assms])
  fix s :: "nat \<times> fetch_state" assume "configured a (fs_current (snd s))"
  then show "configured a (fs_current (snd (fetch_next a timeout th outs s)))"
    by (auto simp: fetch_next_def catch_configured split: prod.split fetch_attempt.split sum.split)
qed

lemma retryingFetch_configured:
  assumes "configured a cur" "retryingFetch cur a timeout th start outs = Some (Inr (v, cur'))"
  shows "configured a cur'"
proof -
  obtain i where "fetch_test a timeout th outs ((fetch_next a timeout th outs ^^ i) (fetch_start cur start)) = Some (Inr (v, cur'))"
    using search_Some_ex [OF assms(2) [unfolded retryingFetch_def]] ..
  moreover have "configured a (fs_current (snd ((fetch_next a timeout th outs ^^ i) (fetch_start cur start))))"
    by (rule fetch_configured) (simp add: fetch_start_def assms(1))
  ultimately show ?thesis
    by (auto simp: fetch_test_def split: prod.splits fetch_attempt.splits sum.splits)
qed

text \<open>Failures without a code are retried for ever when there is a list of addresses.\<close>

lemma no_code_never_returns:
  assumes "\<And>i. \<exists>e now now'. outs i = (Failure e, now, now') \<and> no_code e"
  shows "retryingFetch cur (Addresses urls) timeout th start outs = None"
proof -
  have "fetch_test (Addresses urls) timeout th outs s = None" for s
  proof -
    obtain i st where s: "s = (i, st)" by (cases s)
    obtain e now now' where "outs i = (Failure e, now, now')" "no_code e" using assms by blast
    with s show ?thesis by (simp add: fetch_test_def catch_handler_def)
  qed
  then have "\<nexists>y. retryingFetch cur (Addresses urls) timeout th start outs = Some y"
    unfolding retryingFetch_def search_returns by simp
  then show ?thesis by simp
qed

text \<open>
  With one address, failures before the deadline (or all of them, without a timeout) are retried. The first answer is returned; the first
  failure after the deadline is thrown, or a \<open>TypeError\<close> when its code is a number.
\<close>

definition thrown_again :: "err_code \<Rightarrow> fetch_error" where
  "thrown_again e = (case e of NumCode n \<Rightarrow> if n = 0 then Rethrown e else NotAFunction | _ \<Rightarrow> Rethrown e)"

lemma one_address_attempts:
  assumes early: "\<And>i. i < n \<Longrightarrow> \<exists>e now now'. outs i = (Failure e, now, now') \<and> (timeout = 0 \<or> now - start \<le> timeout)"
  shows "outs n = (Answer v, now, now') \<Longrightarrow> retryingFetch cur (OneAddress a) timeout th start outs = Some (Inr (v, cur))"
    and "outs n = (Failure e, now, now') \<Longrightarrow> timeout \<noteq> 0 \<Longrightarrow> now - start > timeout \<Longrightarrow>
      retryingFetch cur (OneAddress a) timeout th start outs = Some (Inl (thrown_again e))"
proof -
  let ?next = "fetch_next (OneAddress a) timeout th outs" and ?test = "fetch_test (OneAddress a) timeout th outs"
  let ?st = "\<lambda>i t. (i, \<lparr>fs_current = cur, fs_start = start, fs_tries = t, fs_round = 0\<rparr>)"
  have st: "i \<le> n \<Longrightarrow> \<exists>t. (?next ^^ i) (fetch_start cur start) = ?st i t" for i
  proof (induction i)
    case (Suc i)
    then obtain t where t: "(?next ^^ i) (fetch_start cur start) = ?st i t" by auto
    obtain e now now' where "outs i = (Failure e, now, now')" "timeout = 0 \<or> now - start \<le> timeout" using early [of i] Suc.prems by auto
    then have "?next (?st i t) = ?st (Suc i) (t + 1)" by (auto simp: fetch_next_def catch_handler_def)
    with t show ?case by simp
  qed (simp add: fetch_start_def)
  have before: "?test ((?next ^^ i) (fetch_start cur start)) = None" if "i < n" for i
  proof -
    obtain t where "(?next ^^ i) (fetch_start cur start) = ?st i t" using st [of i] \<open>i < n\<close> by auto
    moreover obtain e now now' where "outs i = (Failure e, now, now')" "timeout = 0 \<or> now - start \<le> timeout" using early [OF \<open>i < n\<close>] by auto
    ultimately show ?thesis by (auto simp: fetch_test_def catch_handler_def)
  qed
  have found: "retryingFetch cur (OneAddress a) timeout th start outs = Some r"
    if "?test ((?next ^^ n) (fetch_start cur start)) = Some r" for r
    unfolding retryingFetch_def using search_first [of ?test n ?next] that before by blast
  obtain t where n: "(?next ^^ n) (fetch_start cur start) = ?st n t" using st [of n] by auto
  show "outs n = (Answer v, now, now') \<Longrightarrow> retryingFetch cur (OneAddress a) timeout th start outs = Some (Inr (v, cur))"
    by (rule found) (simp add: n fetch_test_def)
  show "outs n = (Failure e, now, now') \<Longrightarrow> timeout \<noteq> 0 \<Longrightarrow> now - start > timeout \<Longrightarrow>
      retryingFetch cur (OneAddress a) timeout th start outs = Some (Inl (thrown_again e))"
    by (rule found) (simp add: n fetch_test_def catch_handler_def is_failover_error_def no_code_def thrown_again_def split: err_code.split)
qed

text \<open>Timeouts with a code: after \<open>failoverThreshold\<close> changes of the address the next one is thrown.\<close>

lemma threshold_exhausted:
  fixes outs :: outcomes and n :: nat
  assumes urls: "distinct urls" "1 < length urls" and th: "timeout \<noteq> 0"
    and code: "fe \<in> set timeoutErrors" "contains fe c" "c \<noteq> []"
    and late: "\<And>i. outs i = (Failure (TextCode c), now i, now' i)"
      "\<And>i. i \<le> n \<Longrightarrow> now i - (if i = 0 then start else now' (i - 1)) > timeout"
  shows "retryingFetch (Some (urls ! 0)) (Addresses urls) timeout (int n) start outs = Some (Inl (TriedTooOften (int n)))"
    and "i \<le> n \<Longrightarrow> fs_current (snd ((fetch_next (Addresses urls) timeout (int n) outs ^^ i) (fetch_start (Some (urls ! 0)) start))) =
      Some (urls ! (i mod length urls))"
proof -
  let ?next = "fetch_next (Addresses urls) timeout (int n) outs" and ?test = "fetch_test (Addresses urls) timeout (int n) outs"
  let ?st = "\<lambda>i. (i, \<lparr>fs_current = Some (urls ! (i mod length urls)), fs_start = (if i = 0 then start else now' (i - 1)),
      fs_tries = 0, fs_round = int i\<rparr>)"
  have f: "is_failover_error (TextCode c) = Inr True" "\<not> no_code (TextCode c)"
    using code by (auto simp: is_failover_error_def no_code_def)
  have st: "i \<le> n \<Longrightarrow> (?next ^^ i) (fetch_start (Some (urls ! 0)) start) = ?st i" for i
  proof (induction i)
    case (Suc i)
    have "i mod length urls < length urls" using urls(2) by (intro mod_less_divisor) linarith
    from failover_next [OF urls(1) this] have "failover (Some (urls ! (i mod length urls))) urls = Some (urls ! (Suc i mod length urls))"
      by (simp only: mod_Suc_eq)
    then have "?next (?st i) = ?st (Suc i)"
      using late(1) [of i] late(2) [of i] f th urls Suc.prems by (simp add: fetch_next_def catch_handler_def)
    with Suc show ?case by simp
  qed (use urls in \<open>simp add: fetch_start_def\<close>)
  then show "i \<le> n \<Longrightarrow> fs_current (snd ((?next ^^ i) (fetch_start (Some (urls ! 0)) start))) = Some (urls ! (i mod length urls))"
    by simp
  have "?test (?st i) = None" if "i < n" for i
    using late(1) [of i] late(2) [of i] that f th urls by (auto simp: fetch_test_def catch_handler_def)
  moreover have "?test (?st n) = Some (Inl (TriedTooOften (int n)))"
    using late(1) [of n] late(2) [of n] f th urls by (auto simp: fetch_test_def catch_handler_def)
  ultimately show "retryingFetch (Some (urls ! 0)) (Addresses urls) timeout (int n) start outs = Some (Inl (TriedTooOften (int n)))"
    unfolding retryingFetch_def using search_first [of ?test n ?next "fetch_start (Some (urls ! 0)) start"] st by simp
qed

text \<open>Any sequence of calls keeps the address in the configuration.\<close>

type_synonym call_input = "jsstring \<times> jsstring \<times> tsval \<times> int \<times> outcomes"

definition client_calls :: "env \<Rightarrow> (tsval \<Rightarrow> node_response) \<Rightarrow> client \<Rightarrow> call_input list \<Rightarrow> client" where
  "client_calls E parse c calls =
     foldl (\<lambda>c (api, method, ps, start, outs). snd (client_call E parse c api method ps start outs)) c calls"

lemma client_call_configured:
  "configured (cl_address c) (cl_currentAddress c) \<Longrightarrow>
     cl_address (snd (client_call E parse c api method ps start outs)) = cl_address c \<and>
     configured (cl_address c) (cl_currentAddress (snd (client_call E parse c api method ps start outs)))"
  by (auto simp: client_call_def dest: retryingFetch_configured split: sum.split option.split)

lemma client_calls_configured:
  "configured (cl_address c) (cl_currentAddress c) \<Longrightarrow>
     cl_address (client_calls E parse c calls) = cl_address c \<and>
     configured (cl_address c) (cl_currentAddress (client_calls E parse c calls))"
proof (induction calls arbitrary: c)
  case (Cons x calls)
  obtain api name ps start outs where x: "x = (api, name, ps, start, outs)" by (cases x)
  let ?c = "snd (client_call E parse c api name ps start outs)"
  have 1: "cl_address ?c = cl_address c" "configured (cl_address c) (cl_currentAddress ?c)"
    using client_call_configured [OF Cons.prems] by auto
  then show ?case using Cons.IH [of ?c] x by (simp add: client_calls_def)
qed (simp add: client_calls_def)

lemma new_Client_configured:
  "new_Client a options = Inr c \<Longrightarrow> a \<noteq> Addresses [] \<Longrightarrow> cl_address c = a \<and> configured a (cl_currentAddress c)"
  by (auto simp: new_Client_def configured_def bindR_eq_Inr Let_def split: address.split list.split)

end
