(* ===== verification/TsHelpers.thy ===== *)
theory TsHelpers
  imports Interop TsClient Broadcast
begin

text \<open>
  The helpers of the TypeScript library (\<open>client-libs/dblurt/src/helpers\<close>): the remote procedures of
  the database, resource-credit and hivemind interfaces as requests, the manabar, broadcasting, and
  the iteration over blocks; with \<open>chain/account.ts\<close>, \<open>getVests\<close> of \<open>chain/misc.ts\<close> and the filter and
  the witness operation of \<open>utils.ts\<close>.
\<close>

section \<open>Remote procedures\<close>

text \<open>The interface, the method and the parameters that a helper hands to \<open>client.call\<close>; missing
  parameters are the empty list.\<close>

type_synonym rpc = "jsstring \<times> jsstring \<times> tsval"

definition condenser :: "string \<Rightarrow> tsval list \<Rightarrow> rpc" where
  "condenser method args = (js ''condenser_api'', js method, ArrV args)"

definition num :: "int \<Rightarrow> tsval" where
  "num n = NumV (dbl_of_int n)"

definition getDynamicGlobalProperties :: rpc where
  "getDynamicGlobalProperties = condenser ''get_dynamic_global_properties'' []"

definition getChainProperties :: rpc where
  "getChainProperties = condenser ''get_chain_properties'' []"

definition getState :: "jsstring \<Rightarrow> rpc" where
  "getState path = condenser ''get_state'' [StrV path]"

text \<open>\<open>Price.from\<close> of the answer\<close>

definition getCurrentMedianHistoryPrice :: "tsval \<Rightarrow> rpc \<times> (ts_error + price_ts)" where
  "getCurrentMedianHistoryPrice answer =
     (condenser ''get_current_median_history_price'' [],
      bindR (ts_get answer ''base'') (\<lambda>base. bindR (ts_get answer ''quote'') (\<lambda>quote. Price_from base quote)))"

definition getVestingDelegations :: "jsstring \<Rightarrow> jsstring option \<Rightarrow> int option \<Rightarrow> rpc" where
  "getVestingDelegations account from limit =
     condenser ''get_vesting_delegations''
       [StrV account, StrV (case from of None \<Rightarrow> [] | Some s \<Rightarrow> s), num (case limit of None \<Rightarrow> 1000 | Some n \<Rightarrow> n)]"

definition getConfig :: rpc where
  "getConfig = condenser ''get_config'' []"

definition getBlockHeader :: "tsval \<Rightarrow> rpc" where
  "getBlockHeader blockNum = condenser ''get_block_header'' [blockNum]"

definition getBlock :: "tsval \<Rightarrow> rpc" where
  "getBlock blockNum = condenser ''get_block'' [blockNum]"

definition getOperations_request :: "tsval \<Rightarrow> bool option \<Rightarrow> rpc" where
  "getOperations_request blockNum onlyVirtual =
     condenser ''get_ops_in_block'' [blockNum, BoolV (onlyVirtual = Some True)]"

definition getDiscussions :: "jsstring \<Rightarrow> tsval \<Rightarrow> rpc" where
  "getDiscussions by' query = (js ''condenser_api'', js ''get_discussions_by_'' @ by', ArrV [query])"

definition getAccounts :: "jsstring list \<Rightarrow> rpc" where
  "getAccounts usernames = condenser ''get_accounts'' [ArrV (map StrV usernames)]"

definition getTransaction :: "jsstring \<Rightarrow> rpc" where
  "getTransaction txId = condenser ''get_transaction'' [StrV txId]"

definition getAccountHistory :: "jsstring \<Rightarrow> int \<Rightarrow> int \<Rightarrow> tsval list option \<Rightarrow> ts_error + rpc" where
  "getAccountHistory account from limit operation_bitmask =
     (let args = [StrV account, num from, num limit]
      in case operation_bitmask of
           None \<Rightarrow> Inr (condenser ''get_account_history'' args)
         | Some bitmask \<Rightarrow>
             if length bitmask \<noteq> 2 then Inl (Thrown ''operation_bitmask should be generated by the helper function'')
             else Inr (condenser ''get_account_history'' (args @ bitmask)))"

definition verifyAuthority :: "tsval \<Rightarrow> rpc" where
  "verifyAuthority stx = condenser ''verify_authority'' [stx]"

definition getVersion :: rpc where
  "getVersion = condenser ''get_version'' []"

definition hivemind :: "string \<Rightarrow> tsval \<Rightarrow> rpc" where
  "hivemind method args = (js ''bridge'', js method, if args = UndefV then ArrV [] else args)"

definition getRankedPosts :: "tsval \<Rightarrow> rpc" where
  "getRankedPosts options = hivemind ''get_ranked_posts'' options"

definition getAccountPosts :: "tsval \<Rightarrow> rpc" where
  "getAccountPosts options = hivemind ''get_account_posts'' options"

definition getCommunity :: "tsval \<Rightarrow> rpc" where
  "getCommunity options = hivemind ''get_community'' options"

definition listAllSubscriptions :: "tsval \<Rightarrow> rpc" where
  "listAllSubscriptions account = hivemind ''list_all_subscriptions'' account"

definition getAccountNotifications :: "tsval \<Rightarrow> rpc" where
  "getAccountNotifications options = hivemind ''account_notifications'' options"

definition listCommunities :: "tsval \<Rightarrow> rpc" where
  "listCommunities options = hivemind ''list_communities'' options"

section \<open>Resource credits and voting power\<close>

definition rc_call :: "string \<Rightarrow> tsval \<Rightarrow> rpc" where
  "rc_call method args = (js ''rc_api'', js method, args)"

definition findRCAccounts :: "jsstring list \<Rightarrow> tsval \<Rightarrow> rpc \<times> (ts_error + tsval)" where
  "findRCAccounts usernames answer =
     (rc_call ''find_rc_accounts'' (ObjV [(''accounts'', ArrV (map StrV usernames))]), ts_get answer ''rc_accounts'')"

definition getResourceParams :: "tsval \<Rightarrow> rpc \<times> (ts_error + tsval)" where
  "getResourceParams answer = (rc_call ''get_resource_params'' (ObjV []), ts_get answer ''resource_params'')"

definition getResourcePool :: "tsval \<Rightarrow> rpc \<times> (ts_error + tsval)" where
  "getResourcePool answer = (rc_call ''get_resource_pool'' (ObjV []), ts_get answer ''resource_pool'')"

text \<open>\<open>Number(v)\<close>, also of the operands of arithmetic operators\<close>

definition numeric_double :: "numeric \<Rightarrow> double" where
  "numeric_double x =
     (case x of NumNaN \<Rightarrow> NaN | Inf neg \<Rightarrow> Infin neg | Dec m e \<Rightarrow> round_signed (m < 0) (of_int \<bar>m\<bar> * 10 powi e))"

definition ts_Number :: "env \<Rightarrow> tsval \<Rightarrow> double" where
  "ts_Number E v =
     (case v of
        UndefV \<Rightarrow> NaN | NullV \<Rightarrow> Fin False 0 | BoolV b \<Rightarrow> dbl_of_int (if b then 1 else 0) | NumV d \<Rightarrow> d
      | _ \<Rightarrow> numeric_double (js_Number (ts_String E v)))"

definition Math_min :: "double \<Rightarrow> double \<Rightarrow> double" where
  "Math_min a b =
     (if a = NaN \<or> b = NaN then NaN else if dbl_less a b then a else if dbl_less b a then b
      else case a of Fin True q \<Rightarrow> a | _ \<Rightarrow> b)"

record manabar =
  mb_current_mana :: double
  mb_max_mana :: double
  mb_percentage :: double

definition calculateManabar :: "env \<Rightarrow> int \<Rightarrow> double \<Rightarrow> tsval \<Rightarrow> tsval \<Rightarrow> manabar" where
  "calculateManabar E now max_mana current_mana0 last_update_time =
     (let delta = dbl_sub (dbl_div (dbl_of_int now) (dbl_of_int 1000)) (ts_Number E last_update_time);
          current_mana = dbl_add (ts_Number E current_mana0) (dbl_div (dbl_mul delta max_mana) (dbl_of_int 432000));
          percentage = Math_round (dbl_mul (dbl_div current_mana max_mana) (dbl_of_int 10000));
          percentage' = (if \<not> dbl_finite percentage \<or> dbl_less percentage (Fin False 0) then Fin False 0
                         else if dbl_less (dbl_of_int 10000) percentage then dbl_of_int 10000 else percentage)
      in \<lparr>mb_current_mana = current_mana, mb_max_mana = max_mana, mb_percentage = percentage'\<rparr>)"

definition manabar_of :: "env \<Rightarrow> int \<Rightarrow> double \<Rightarrow> tsval \<Rightarrow> ts_error + manabar" where
  "manabar_of E now max_mana bar =
     bindR (ts_get bar ''current_mana'') (\<lambda>current_mana. bindR (ts_get bar ''last_update_time'') (\<lambda>last_update_time.
       Inr (calculateManabar E now max_mana current_mana last_update_time)))"

definition calculateRCMana :: "env \<Rightarrow> int \<Rightarrow> tsval \<Rightarrow> ts_error + manabar" where
  "calculateRCMana E now rc_account =
     bindR (ts_get rc_account ''max_rc'') (\<lambda>max_rc. bindR (ts_get rc_account ''rc_manabar'') (\<lambda>rc_manabar.
       manabar_of E now (ts_Number E max_rc) rc_manabar))"

text \<open>\<open>chain/misc.ts\<close>: the vests of an account. \<open>Math.min\<close> of the withdraw rate and what is left to withdraw.\<close>

definition getVests :: "env \<Rightarrow> tsval \<Rightarrow> bool \<Rightarrow> bool \<Rightarrow> ts_error + double" where
  "getVests E account subtract_delegated add_received =
     bindR (bindR (ts_get account ''vesting_shares'') (\<lambda>v. Asset_from v None)) (\<lambda>vests.
     bindR (bindR (ts_get account ''delegated_vesting_shares'') (\<lambda>v. Asset_from v None)) (\<lambda>vests_delegated.
     bindR (bindR (ts_get account ''received_vesting_shares'') (\<lambda>v. Asset_from v None)) (\<lambda>vests_received.
     bindR (bindR (ts_get account ''vesting_withdraw_rate'') (\<lambda>v. Asset_from v None)) (\<lambda>withdraw_rate.
     bindR (ts_get account ''to_withdraw'') (\<lambda>to_withdraw. bindR (ts_get account ''withdrawn'') (\<lambda>withdrawn.
     let already_withdrawn = dbl_div (dbl_sub (ts_Number E to_withdraw) (ts_Number E withdrawn)) (dbl_of_int 1000000);
         withdraw_vests = Math_min (as_amount withdraw_rate) already_withdrawn
     in bindR (Asset_subtract vests (NumV withdraw_vests)) (\<lambda>v1.
        bindR (if subtract_delegated then Asset_subtract v1 (AssetV vests_delegated) else Inr v1) (\<lambda>v2.
        bindR (if add_received then Asset_add v2 (AssetV vests_received) else Inr v2) (\<lambda>v3.
          Inr (as_amount v3))))))))))"

definition calculateVPMana :: "env \<Rightarrow> int \<Rightarrow> tsval \<Rightarrow> ts_error + manabar" where
  "calculateVPMana E now account =
     bindR (getVests E account True True) (\<lambda>vests. bindR (ts_get account ''voting_manabar'') (\<lambda>bar.
       manabar_of E now (dbl_mul vests (dbl_of_int 1000000)) bar))"

definition getRCMana :: "env \<Rightarrow> int \<Rightarrow> jsstring \<Rightarrow> tsval \<Rightarrow> rpc \<times> (ts_error + manabar)" where
  "getRCMana E now username answer =
     (case findRCAccounts [username] answer of (request, accounts) \<Rightarrow>
        (request, bindR (bindR accounts (\<lambda>v. ts_index v 0)) (calculateRCMana E now)))"

definition getVPMana :: "env \<Rightarrow> int \<Rightarrow> jsstring \<Rightarrow> tsval \<Rightarrow> rpc \<times> (ts_error + manabar)" where
  "getVPMana E now username answer =
     (condenser ''get_accounts'' [ArrV [StrV username]], bindR (ts_index answer 0) (calculateVPMana E now))"

section \<open>Broadcasting\<close>

text \<open>\<open>chain/account.ts\<close>: \<open>Authority.from\<close> of a key, of an authority or of an object with its fields.\<close>

definition Authority_from :: "tsval \<Rightarrow> ts_error + tsval" where
  "Authority_from v =
     (case v of
        StrV s \<Rightarrow> Inr (ObjV [(''weight_threshold'', num 1), (''account_auths'', ArrV []), (''key_auths'', ArrV [ArrV [v, num 1]])])
      | PubV k p \<Rightarrow> Inr (ObjV [(''weight_threshold'', num 1), (''account_auths'', ArrV []), (''key_auths'', ArrV [ArrV [v, num 1]])])
      | _ \<Rightarrow>
          bindR (ts_get v ''weight_threshold'') (\<lambda>w. bindR (ts_get v ''account_auths'') (\<lambda>a. bindR (ts_get v ''key_auths'') (\<lambda>k.
            Inr (ObjV [(''weight_threshold'', w), (''account_auths'', a), (''key_auths'', k)])))))"

definition op :: "string \<Rightarrow> tsval \<Rightarrow> tsval" where
  "op name data = ArrV [StrV (js name), data]"

text \<open>The operations that the convenience functions send\<close>

definition comment_ops :: "tsval \<Rightarrow> tsval list" where
  "comment_ops comment = [op ''comment'' comment]"

definition commentWithOptions_ops :: "tsval \<Rightarrow> tsval \<Rightarrow> tsval list" where
  "commentWithOptions_ops comment options = [op ''comment'' comment, op ''comment_options'' options]"

definition vote_ops :: "tsval \<Rightarrow> tsval list" where
  "vote_ops vote = [op ''vote'' vote]"

definition transfer_ops :: "tsval \<Rightarrow> tsval list" where
  "transfer_ops data = [op ''transfer'' data]"

definition json_ops :: "tsval \<Rightarrow> tsval list" where
  "json_ops data = [op ''custom_json'' data]"

definition updateAccount_ops :: "tsval \<Rightarrow> tsval list" where
  "updateAccount_ops data = [op ''account_update'' data]"

definition delegateVestingShares_ops :: "tsval \<Rightarrow> tsval list" where
  "delegateVestingShares_ops options = [op ''delegate_vesting_shares'' options]"

text \<open>The answer of \<open>getDynamicGlobalProperties\<close>, as far as it is used\<close>

record dynamic_properties =
  dp_head_block_number :: int
  dp_head_block_id :: jsstring
  dp_time :: jsstring
  dp_last_irreversible :: int

definition expireTime :: int where
  "expireTime = 60 * 1000"

text \<open>\<open>toISOString().slice(0, -5)\<close>; the range of a time value is \<open>8.64e15\<close>.\<close>

definition expiration_text :: "int option \<Rightarrow> ts_error + jsstring" where
  "expiration_text ms =
     (case ms of
        Some t \<Rightarrow> if \<bar>t\<bar> \<le> 8640000000000000 then (let s = iso_text t in Inr (take (length s - 5) s)) else Inl (Js RangeError)
      | None \<Rightarrow> Inl (Js RangeError))"

definition prepare_send :: "env \<Rightarrow> dynamic_properties \<Rightarrow> tsval list \<Rightarrow> ts_error + (string \<times> tsval) list" where
  "prepare_send E props operations =
     (let ref_block_num = dp_head_block_number props mod 65536
      in bindR (js_err (readUInt32LE (fromHex (dp_head_block_id props)) 4)) (\<lambda>ref_block_prefix.
         bindR (expiration_text (map_option (\<lambda>ms. ms + expireTime) (date_getTime E (dp_time props @ [90])))) (\<lambda>expiration.
           Inr [(''expiration'', StrV expiration), (''extensions'', ArrV []), (''operations'', ArrV operations),
                (''ref_block_num'', num ref_block_num), (''ref_block_prefix'', num ref_block_prefix)])))"

definition ts_sign ::
  "env \<Rightarrow> secp256k1 \<Rightarrow> client \<Rightarrow> (string \<times> tsval) list \<Rightarrow> byte list list \<Rightarrow> (ts_error + tsval) option" where
  "ts_sign E S c tx keys = ts_signTransaction E S tx keys (Some (cl_chainId c))"

definition ts_send :: "tsval \<Rightarrow> rpc" where
  "ts_send transaction = condenser ''broadcast_transaction_synchronous'' [transaction]"

text \<open>
  \<open>sendOperations\<close> on the properties that the node reports; \<open>answer\<close> is the node's answer to the
  signed transaction.
\<close>

definition sendOperations ::
  "env \<Rightarrow> secp256k1 \<Rightarrow> client \<Rightarrow> dynamic_properties \<Rightarrow> tsval list \<Rightarrow> byte list list \<Rightarrow> (rpc \<Rightarrow> ts_error + tsval) \<Rightarrow>
     (ts_error + tsval) option" where
  "sendOperations E S c props operations keys answer =
     (case prepare_send E props operations of
        Inl e \<Rightarrow> Some (Inl e)
      | Inr tx \<Rightarrow>
          map_option (\<lambda>signed.
            bindR (bindR signed (\<lambda>s. answer (ts_send s))) (\<lambda>result.
            bindR (ts_get result ''expired'') (\<lambda>expired.
            bindR (assert_that (expired = BoolV False) ''transaction expired'') (\<lambda>_. Inr result))))
            (ts_sign E S c tx keys))"

text \<open>
  \<open>createTestAccount\<close>: the operations it sends. \<open>in_mocha\<close> is whether the global object has \<open>it\<close>; the
  creation fee is asked from the node only for a positive fee.
\<close>

record account_auths =
  ca_owner :: tsval
  ca_active :: tsval
  ca_posting :: tsval
  ca_memoKey :: tsval

record create_options =
  co_username :: jsstring
  co_password :: "jsstring option"
  co_auths :: "account_auths option"
  co_creator :: jsstring
  co_fee :: tsval
  co_delegation :: tsval
  co_metadata :: tsval

definition login_public :: "env \<Rightarrow> secp256k1 \<Rightarrow> client \<Rightarrow> jsstring \<Rightarrow> jsstring \<Rightarrow> string \<Rightarrow> ts_error + tsval" where
  "login_public E S c username password role =
     bindR (PrivateKey_fromLogin E S username password (js role)) (\<lambda>key.
     bindR (createPublic S key (Some (cl_addressPrefix c))) (\<lambda>(k, p). Inr (PubV k p)))"

definition auths_keys :: "env \<Rightarrow> secp256k1 \<Rightarrow> account_auths option \<Rightarrow> ts_error + tsval \<times> tsval \<times> tsval \<times> tsval" where
  "auths_keys E S auths =
     (case auths of
        None \<Rightarrow> Inl (Thrown ''Must specify either password or auths'')
      | Some a \<Rightarrow>
          bindR (Authority_from (ca_owner a)) (\<lambda>owner. bindR (Authority_from (ca_active a)) (\<lambda>active.
          bindR (Authority_from (ca_posting a)) (\<lambda>posting. bindR (PublicKey_from E S (ca_memoKey a)) (\<lambda>(k, p).
            Inr (owner, active, posting, PubV k p))))))"

definition account_keys :: "env \<Rightarrow> secp256k1 \<Rightarrow> client \<Rightarrow> create_options \<Rightarrow> ts_error + tsval \<times> tsval \<times> tsval \<times> tsval" where
  "account_keys E S c options =
     (case co_password options of
        Some password \<Rightarrow>
          if password \<noteq> [] then
            (let login = login_public E S c (co_username options) password
             in bindR (bindR (login ''owner'') Authority_from) (\<lambda>owner.
                bindR (bindR (login ''active'') Authority_from) (\<lambda>active.
                bindR (bindR (login ''posting'') Authority_from) (\<lambda>posting.
                bindR (login ''memo'') (\<lambda>memo_key. Inr (owner, active, posting, memo_key))))))
          else auths_keys E S (co_auths options)
      | None \<Rightarrow> auths_keys E S (co_auths options))"

definition or_zero :: "tsval \<Rightarrow> tsval" where
  "or_zero v = (if ts_truthy v then v else num 0)"

definition createTestAccount_ops ::
  "env \<Rightarrow> secp256k1 \<Rightarrow> client \<Rightarrow> bool \<Rightarrow> tsval \<Rightarrow> create_options \<Rightarrow> ts_error + tsval list" where
  "createTestAccount_ops E S c in_mocha account_creation_fee options =
     bindR (assert_that in_mocha ''helper to be used only for mocha tests'') (\<lambda>_.
     bindR (account_keys E S c options) (\<lambda>(owner, active, posting, memo_key).
     bindR (Asset_from (or_zero (co_delegation options)) (Some (js ''VESTS''))) (\<lambda>delegation.
     bindR (Asset_from (or_zero (co_fee options)) (Some (js ''TESTS''))) (\<lambda>fee.
     bindR (if dbl_less (Fin False 0) (as_amount fee)
            then bindR (Asset_from account_creation_fee None) (\<lambda>creationFee.
                   if dbl_eq (as_amount fee) (as_amount creationFee) then Inr () else Inl (Thrown ''Fee must be exactly ''))
            else Inr ()) (\<lambda>_.
       let creator = StrV (co_creator options); username = StrV (co_username options);
           metadata = co_metadata options;
           json_metadata = (if ts_truthy metadata
                            then (case Option.bind (json_copy E metadata) json_print of Some t \<Rightarrow> StrV t | None \<Rightarrow> UndefV)
                            else StrV []);
           claim_op = op ''claim_account''
             (ObjV [(''creator'', creator), (''extensions'', ArrV []), (''fee'', AssetV fee)]);
           create_op = op ''create_claimed_account''
             (ObjV [(''active'', active), (''creator'', creator), (''extensions'', ArrV []), (''json_metadata'', json_metadata),
                    (''memo_key'', memo_key), (''new_account_name'', username), (''owner'', owner), (''posting'', posting)]);
           delegate_op = op ''delegate_vesting_shares''
             (ObjV [(''delegatee'', username), (''delegator'', creator), (''vesting_shares'', AssetV delegation)])
       in Inr ([claim_op, create_op] @ (if dbl_less (Fin False 0) (as_amount delegation) then [delegate_op] else [])))))))"

section \<open>Blocks\<close>

datatype block_mode = Irreversible | Latest

record stream_options =
  so_from :: "int option"
  so_to :: "int option"
  so_mode :: block_mode

datatype stream_arg = NoOptions | FromBlock int | StreamOptions stream_options

definition getCurrentBlockNum :: "block_mode \<Rightarrow> dynamic_properties \<Rightarrow> int" where
  "getCurrentBlockNum mode props =
     (case mode of Irreversible \<Rightarrow> dp_last_irreversible props | Latest \<Rightarrow> dp_head_block_number props)"

definition getCurrentBlockHeader :: "block_mode \<Rightarrow> dynamic_properties \<Rightarrow> rpc" where
  "getCurrentBlockHeader mode props = getBlockHeader (num (getCurrentBlockNum mode props))"

definition getCurrentBlock :: "block_mode \<Rightarrow> dynamic_properties \<Rightarrow> rpc" where
  "getCurrentBlock mode props = getBlock (num (getCurrentBlockNum mode props))"

definition stream_defaults :: "stream_arg \<Rightarrow> stream_options" where
  "stream_defaults a =
     (case a of
        NoOptions \<Rightarrow> \<lparr>so_from = None, so_to = None, so_mode = Irreversible\<rparr>
      | FromBlock n \<Rightarrow> \<lparr>so_from = (if n = 0 then None else Some n), so_to = None, so_mode = Irreversible\<rparr>
      | StreamOptions so \<Rightarrow> so)"

text \<open>The inner loop: the numbers it yields, the next \<open>seen\<close>, and whether the generator has returned.\<close>

function yield_blocks :: "int option \<Rightarrow> int \<Rightarrow> int \<Rightarrow> int list \<times> int \<times> bool" where
  "yield_blocks to current seen =
     (if current > seen
      then (if to \<noteq> None \<and> seen + 1 > the to then ([seen], seen + 1, True)
            else (case yield_blocks to current (seen + 1) of (ns, s, d) \<Rightarrow> (seen # ns, s, d)))
      else ([], seen, False))"
  by pat_completeness auto
termination by (relation "measure (\<lambda>(to, current, seen). nat (current - seen))") auto

declare yield_blocks.simps [simp del]

text \<open>The outer loop over the block numbers of successive polls: what has been yielded after them\<close>

fun poll_blocks :: "int option \<Rightarrow> int \<Rightarrow> int list \<Rightarrow> int list \<times> bool" where
  "poll_blocks to seen [] = ([], False)"
| "poll_blocks to seen (current # polls) =
     (case yield_blocks to current seen of (ns, seen', done) \<Rightarrow>
        if done then (ns, True) else (case poll_blocks to seen' polls of (ms, d) \<Rightarrow> (ns @ ms, d)))"

definition getBlockNumbers :: "stream_arg \<Rightarrow> int \<Rightarrow> int list \<Rightarrow> ts_error + int list \<times> bool" where
  "getBlockNumbers a current polls =
     (let options = stream_defaults a
      in if so_from options \<noteq> None \<and> the (so_from options) > current
         then Inl (Thrown ''From can't be larger than current block num'')
         else (let seen = (case so_from options of Some f \<Rightarrow> f | None \<Rightarrow> current)
               in Inr (poll_blocks (so_to options) seen (current # polls))))"

definition getBlocks :: "stream_arg \<Rightarrow> int \<Rightarrow> int list \<Rightarrow> ts_error + rpc list \<times> bool" where
  "getBlocks a current polls =
     bindR (getBlockNumbers a current polls) (\<lambda>(ns, d). Inr (map (\<lambda>n. getBlock (num n)) ns, d))"

text \<open>\<open>operations\<close> gives the operations that the node reports for a block.\<close>

definition getOperations :: "(rpc \<Rightarrow> tsval list) \<Rightarrow> stream_arg \<Rightarrow> int \<Rightarrow> int list \<Rightarrow> ts_error + tsval list \<times> bool" where
  "getOperations operations a current polls =
     bindR (getBlockNumbers a current polls) (\<lambda>(ns, d).
       Inr (concat (map (\<lambda>n. operations (getOperations_request (num n) None)) ns), d))"

section \<open>Filters and the properties of a witness\<close>

definition operationOrders :: "(string \<times> int) list" where
  "operationOrders =
     [(''vote'', 0), (''comment'', 1), (''transfer'', 2), (''transfer_to_vesting'', 3), (''withdraw_vesting'', 4),
      (''limit_order_create'', 5), (''limit_order_cancel'', 6), (''feed_publish'', 7), (''convert'', 8),
      (''account_create'', 9), (''account_update'', 10), (''witness_update'', 11), (''account_witness_vote'', 12),
      (''account_witness_proxy'', 13), (''pow'', 14), (''custom'', 15), (''report_over_production'', 16),
      (''delete_comment'', 17), (''custom_json'', 18), (''comment_options'', 19), (''set_withdraw_vesting_route'', 20), (''limit_order_create2'', 21), (''claim_account'', 22), (''create_claimed_account'', 23),
      (''request_account_recovery'', 24), (''recover_account'', 25), (''change_recovery_account'', 26),
      (''escrow_transfer'', 27), (''escrow_dispute'', 28), (''escrow_release'', 29), (''pow2'', 30),
      (''escrow_approve'', 31), (''transfer_to_savings'', 32), (''transfer_from_savings'', 33),
      (''cancel_transfer_from_savings'', 34), (''custom_binary'', 35), (''decline_voting_rights'', 36),
      (''reset_account'', 37), (''set_reset_account'', 38), (''claim_reward_balance'', 39),
      (''delegate_vesting_shares'', 40), (''account_create_with_delegation'', 41), (''witness_set_properties'', 42),
      (''account_update2'', 43), (''create_proposal'', 44), (''update_proposal_votes'', 45), (''remove_proposal'', 46), (''update_proposal'', 47), (''fill_convert_request'', 48), (''author_reward'', 49), (''curation_reward'', 50), (''comment_reward'', 51), (''liquidity_reward'', 52), (''interest'', 53), (''fill_vesting_withdraw'', 54), (''fill_order'', 55), (''shutdown_witness'', 56), (''fill_transfer_from_savings'', 57), (''hardfork'', 58), (''comment_payout_update'', 59), (''return_vesting_delegation'', 60), (''comment_benefactor_reward'', 61), (''producer_reward'', 62), (''clear_null_account_balance'', 63), (''proposal_pay'', 64), (''sps_fund'', 65), (''hardfork_hive'', 66), (''hardfork_hive_restore'', 67), (''delayed_voting'', 68),
      (''consolidate_treasury_balance'', 69), (''effective_comment_vote'', 70), (''ineffective_delete_comment'', 71), (''sps_convert'', 72)]"

text \<open>\<open>JSBI.leftShift(1, n)\<close>; a negative count shifts to the right.\<close>

definition shift_one :: "int \<Rightarrow> int" where
  "shift_one n = (if 0 \<le> n then 2 ^ nat n else 1 div 2 ^ nat (- n))"

definition redFunction :: "int \<Rightarrow> int \<times> int \<Rightarrow> int \<times> int" where
  "redFunction allowedOperation acc =
     (case acc of (low, high) \<Rightarrow>
        if allowedOperation < 64 then (low OR shift_one allowedOperation, high)
        else (low, high OR shift_one (allowedOperation - 64)))"

definition bitmask_value :: "int \<Rightarrow> tsval" where
  "bitmask_value v = (if v \<noteq> 0 then StrV (dec_int v) else NullV)"

definition makeBitMaskFilter :: "int list \<Rightarrow> tsval list" where
  "makeBitMaskFilter allowedOperations =
     (case fold redFunction allowedOperations (0, 0) of (low, high) \<Rightarrow> [bitmask_value low, bitmask_value high])"

definition serialize_hex :: "serializer \<Rightarrow> tsval \<Rightarrow> ts_error + jsstring" where
  "serialize_hex ser data =
     bindR (ser (ByteBuffer_new DEFAULT_CAPACITY True) data) (\<lambda>b. Inr (toHex (bb_toBuffer (bb_flip b))))"

definition witness_prop_type :: "env \<Rightarrow> secp256k1 \<Rightarrow> string \<Rightarrow> serializer option" where
  "witness_prop_type E S key =
     (if key \<in> {''key'', ''new_signing_key''} then Some (PublicKeySerializer E S)
      else if key \<in> {''account_subsidy_budget'', ''account_subsidy_decay'', ''maximum_block_size''} then Some UInt32Serializer
      else if key = ''hbd_interest_rate'' then Some UInt16Serializer
      else if key = ''url'' then Some StringSerializer
      else if key = ''hbd_exchange_rate'' then Some PriceSerializer
      else if key = ''account_creation_fee'' then Some AssetSerializer
      else None)"

text \<open>The order of \<open>localeCompare\<close> on the nine names\<close>

definition witness_prop_names :: "string list" where
  "witness_prop_names =
     [''account_creation_fee'', ''account_subsidy_budget'', ''account_subsidy_decay'', ''hbd_exchange_rate'',
      ''hbd_interest_rate'', ''key'', ''maximum_block_size'', ''new_signing_key'', ''url'']"

definition buildWitnessUpdateOp :: "env \<Rightarrow> secp256k1 \<Rightarrow> jsstring \<Rightarrow> (string \<times> tsval) list \<Rightarrow> ts_error + tsval" where
  "buildWitnessUpdateOp E S owner props =
     bindR (mapR (\<lambda>(key, v).
       case witness_prop_type E S key of
         None \<Rightarrow> Inl (Thrown ''Unknown witness prop'')
       | Some ser \<Rightarrow> bindR (serialize_hex ser v) (\<lambda>hex. Inr (key, hex))) props) (\<lambda>ps.
       Inr (op ''witness_set_properties''
         (ObjV [(''extensions'', ArrV []), (''owner'', StrV owner),
                (''props'', ArrV (map (\<lambda>(key, hex). ArrV [StrV (js key), StrV hex])
                   (sort_key (\<lambda>(key, hex). case index_in key witness_prop_names of Some i \<Rightarrow> i | None \<Rightarrow> 0) ps)))])))"

section \<open>The blocks are consecutive\<close>

lemma yield_blocks_None: "yield_blocks None current seen = ([seen..current - 1], max seen current, False)"
proof (induction "nat (current - seen)" arbitrary: seen)
  case 0
  then show ?case by (simp add: yield_blocks.simps)
next
  case (Suc n)
  then have "yield_blocks None current (seen + 1) = ([seen + 1..current - 1], max (seen + 1) current, False)" by simp
  moreover have "seen < current" using Suc(2) by simp
  ultimately show ?case by (simp add: yield_blocks.simps [of None current seen] upto_rec1 max_def)
qed

lemma yield_blocks_Some:
  "seen \<le> t \<Longrightarrow> yield_blocks (Some t) current seen =
     ([seen..min t (current - 1)], min (max seen current) (t + 1), t < current)"
proof (induction "nat (current - seen)" arbitrary: seen)
  case 0
  then show ?case by (simp add: yield_blocks.simps)
next
  case (Suc n)
  have c: "seen < current" using Suc(2) by simp
  show ?case
  proof (cases "seen = t")
    case True
    with c show ?thesis by (simp add: yield_blocks.simps [of "Some t" current t])
  next
    case False
    then have "yield_blocks (Some t) current (seen + 1) =
        ([seen + 1..min t (current - 1)], min (max (seen + 1) current) (t + 1), t < current)"
      using Suc by simp
    with c False Suc(3) show ?thesis
      by (simp add: yield_blocks.simps [of "Some t" current seen] upto_rec1 max_def)
  qed
qed

lemma fold_max_ge: "seen \<le> fold max polls (seen :: int)"
  by (induction polls arbitrary: seen) (auto intro: order_trans max.cobounded2)

lemma upto_join: "a \<le> b \<Longrightarrow> b \<le> m \<Longrightarrow> [a..b - 1] @ [b..m - 1] = [a..m - 1 :: int]"
  by (cases "b = m") (simp_all add: upto_split1 [of a b "m - 1"])

lemma poll_blocks_None: "poll_blocks None seen polls = ([seen..fold max polls seen - 1], False)"
proof (induction polls arbitrary: seen)
  case (Cons c polls)
  let ?m = "fold max polls (max c seen)"
  have "[seen..c - 1] @ [max c seen..?m - 1] = [seen..?m - 1]"
    using fold_max_ge [of "max c seen" polls] upto_join [of seen c ?m] by (cases "seen \<le> c") (auto simp: max_def)
  then show ?case using Cons by (simp add: yield_blocks_None max.commute)
qed simp

lemma poll_blocks_Some:
  "seen \<le> t \<Longrightarrow> poll_blocks (Some t) seen polls =
     ([seen..min t (fold max polls seen - 1)], t < fold max polls seen)"
proof (induction polls arbitrary: seen)
  case (Cons c polls)
  let ?m = "fold max polls (max c seen)"
  have m: "max c seen \<le> ?m" by (rule fold_max_ge)
  show ?case
  proof (cases "t < c")
    case True
    with m Cons.prems show ?thesis by (simp add: yield_blocks_Some)
  next
    case False
    have "[seen..c - 1] @ [max c seen..min t (?m - 1)] = [seen..min t (?m - 1)]"
      using m False upto_join [of seen c "min (t + 1) ?m"] Cons.prems
      by (cases "seen \<le> c") (auto simp: max_def min_def)
    with False Cons show ?thesis by (simp add: yield_blocks_Some max.commute min_absorb2)
  qed
qed simp

text \<open>
  \<open>getBlockNumbers\<close> yields consecutive numbers, from the first one up to the one before the highest
  block that a poll has reported, and not beyond \<open>to\<close>.
\<close>

lemma getBlockNumbers_range:
  assumes "so_from (stream_defaults a) = Some f" "f \<le> current" "case so_to (stream_defaults a) of None \<Rightarrow> True | Some t \<Rightarrow> f \<le> t"
  shows "getBlockNumbers a current polls =
    (let m = fold max polls current - 1
     in Inr (case so_to (stream_defaults a) of None \<Rightarrow> ([f..m], False) | Some t \<Rightarrow> ([f..min t m], t \<le> m)))"
proof -
  have "fold max (current # polls) f = fold max polls current" using assms(2) by (simp add: max_def)
  then show ?thesis
    using assms poll_blocks_None [of f "current # polls"] poll_blocks_Some [of f _ "current # polls"]
    by (auto simp: getBlockNumbers_def Let_def split: option.splits simp del: poll_blocks.simps)
qed

section \<open>The percentage of a manabar\<close>

lemma Math_round_int: "Math_round x = Fin s q \<Longrightarrow> q \<in> \<int>"
  by (cases x) (auto simp: Let_def)

lemma manabar_percentage:
  "\<exists>s q. mb_percentage (calculateManabar E now max_mana current_mana last_update_time) = Fin s q \<and>
     q \<in> \<int> \<and> 0 \<le> dbl_val s q \<and> dbl_val s q \<le> 10000"
proof -
  have "\<exists>s q. (if \<not> dbl_finite p \<or> dbl_less p (Fin False 0) then Fin False 0
      else if dbl_less (dbl_of_int 10000) p then dbl_of_int 10000 else p) = Fin s q \<and>
      q \<in> \<int> \<and> 0 \<le> dbl_val s q \<and> dbl_val s q \<le> 10000" if p: "\<And>s q. p = Fin s q \<Longrightarrow> q \<in> \<int>" for p
  proof (cases p)
    case (Fin s q)
    have k: "dbl_of_int 10000 = Fin False 10000" by (simp add: dbl_of_int_Fin)
    show ?thesis using Fin p by (auto simp: k dbl_val_def)
  next
    case NaN
    then show ?thesis by (intro exI [of _ False] exI [of _ 0]) (simp add: dbl_val_def)
  next
    case (Infin x)
    then show ?thesis by (intro exI [of _ False] exI [of _ 0]) (simp add: dbl_val_def)
  qed
  from this [OF Math_round_int] show ?thesis by (simp only: calculateManabar_def Let_def manabar.select_convs)
qed

section \<open>The bits of a filter\<close>

lemma bit_shift_one: "bit (shift_one n) i \<longleftrightarrow> n = int i"
proof (cases "0 \<le> n")
  case False
  then have "1 div (2 :: int) ^ nat (- n) = 0" by (simp add: div_pos_pos_trivial)
  with False show ?thesis by (simp add: shift_one_def)
qed (auto simp: shift_one_def bit_exp_iff)

lemma fold_redFunction_bits:
  assumes "fold redFunction ops (low, high) = (low', high')"
  shows "bit low' i \<longleftrightarrow> bit low i \<or> int i \<in> set ops \<and> i < 64"
    and "bit high' i \<longleftrightarrow> bit high i \<or> int i + 64 \<in> set ops"
  using assms
proof (induction ops arbitrary: low high)
  case (Cons n ops)
  {
    case 1
    then show ?case using Cons(1) [of "fst (redFunction n (low, high))" "snd (redFunction n (low, high))"]
      by (auto simp: redFunction_def bit_or_iff bit_shift_one)
  next
    case 2
    then show ?case using Cons(2) [of "fst (redFunction n (low, high))" "snd (redFunction n (low, high))"]
      by (auto simp: redFunction_def bit_or_iff bit_shift_one)
  }
qed simp_all

section \<open>What is broadcast\<close>

lemma sendOperations_parts:
  assumes "sendOperations E S c props operations keys answer = Some (Inr result)"
  obtains tx signed where "prepare_send E props operations = Inr tx"
    "ts_signTransaction E S tx keys (Some (cl_chainId c)) = Some (Inr signed)"
    "answer (ts_send signed) = Inr result" "ts_get result ''expired'' = Inr (BoolV False)"
  using assms by (force simp: sendOperations_def ts_sign_def bindR_eq_Inr assert_that_def split: sum.splits if_splits)

text \<open>The transaction that \<open>sendOperations\<close> prepares from plain operations, as plain data\<close>

definition prepared :: "int \<Rightarrow> int \<Rightarrow> int \<Rightarrow> jsval list \<Rightarrow> jsval" where
  "prepared head prefix t ops =
     JObj [(''expiration'', JStr (iso_seconds (t + 60))), (''extensions'', JArr []), (''operations'', JArr ops),
           (''ref_block_num'', JNum (head mod 65536)), (''ref_block_prefix'', JNum prefix)]"

lemma expiration_seconds:
  assumes "0 \<le> t" "t < 4294967236"
  shows "expiration_text (Some (t * 1000 + expireTime)) = Inr (iso_seconds (t + 60))"
proof -
  have "t * 1000 + 60000 = (t + 60) * 1000" by simp
  then have "(t * 1000 + 60000) div 1000 = t + 60" "(t * 1000 + 60000) mod 1000 = 0"
    by (simp_all only: nonzero_mult_div_cancel_right mod_mult_self2_is_0)
  moreover have "length (digits_padded 3 0) = 3" by (simp add: digits_padded_def)
  ultimately show ?thesis using assms by (simp add: expiration_text_def expireTime_def iso_text_def Let_def)
qed

lemma prepare_send_plain:
  assumes "dp_time props = iso_seconds t" "0 \<le> t" "t < 4294967236"
    and "readUInt32LE (fromHex (dp_head_block_id props)) 4 = Inr prefix"
    and "list_all (raw_operation E S) ops" "length ops < 2147483648"
  shows "\<exists>kvs. prepare_send E props (map to_ts ops) = Inr kvs \<and>
    ObjV kvs = to_ts (prepared (dp_head_block_number props) prefix t ops) \<and>
    raw_transaction E S (prepared (dp_head_block_number props) prefix t ops)"
proof -
  have "date_getTime E (iso_seconds t @ [90]) = Some (t * 1000)"
    using assms(2,3) by (simp add: date_getTime_def parse_iso_seconds)
  then have p: "prepare_send E props (map to_ts ops) =
      Inr [(''expiration'', StrV (iso_seconds (t + 60))), (''extensions'', ArrV []), (''operations'', ArrV (map to_ts ops)),
        (''ref_block_num'', num (dp_head_block_number props mod 65536)), (''ref_block_prefix'', num prefix)]"
    using assms(1,4) expiration_seconds [OF assms(2,3)] by (simp add: prepare_send_def Let_def)
  have "0 \<le> prefix \<and> prefix \<le> 4294967295"
    using readUInt32LE_range [OF assms(4)] by simp
  moreover have "raw_time (JStr (iso_seconds (t + 60)))"
    using assms(2,3) by (simp add: text_seconds_def parse_iso_seconds)
  ultimately have "raw_transaction E S (prepared (dp_head_block_number props) prefix t ops)"
    using assms(5,6)
    by (simp add: raw_transaction_def raw_record_def prepared_def field_of_def raw_operations_def del: raw_time.simps)
  with p show ?thesis by (simp add: prepared_def num_def)
qed

end
