(* ===== verification/Mobile.thy ===== *)
theory Mobile
  imports TsHelpers Formatter
begin

text \<open>
  The mobile application's use of \<open>dblurt\<close> (\<open>ui/letsblurt/src/providers/blurt/dblurtApi.ts\<close>, with
  \<open>constants/blockchain.ts\<close>, \<open>utils/jsonUtils.ts\<close> and \<open>utils/estimateVoteAmount.ts\<close>): the choice of servers, the check of
  passwords, and the operations it broadcasts. The node is a function from requests to answers; a
  function of the application that catches an exception returns a value in its place. Printing to
  the console is left out. The lemmas show which key a transfer needs, what becomes of a master
  password, and that the list of servers keeps its members.
\<close>

section \<open>Servers\<close>

definition BLURT_MAINNETS :: "jsstring list" where
  "BLURT_MAINNETS =
     map js [''https://rpc.blurt.world'', ''https://rpc.nerdtopia.de'', ''https://blurt.ecosynthesizer.com'',
       ''https://kentzz.blurt.world'', ''https://blurt-rpc.saboin.com'']"

definition client_settings :: client_options where
  "client_settings =
     \<lparr>opt_chainId = Some (js ''cd8d90f29ae273abec3eaa7731e25934c63eb654d55080caff2ebb7f5df6381f''),
      opt_addressPrefix = Some (js ''BLT''), opt_timeout = Some 5000, opt_failoverThreshold = Some 10,
      opt_consoleOnFailover = Some True, opt_backoff = None, opt_agent = False\<rparr>"

definition app_client :: "jsstring list \<Rightarrow> ts_error + client" where
  "app_client servers = new_Client (Addresses servers) client_settings"

text \<open>\<open>stored\<close> is what \<open>JSON.parse\<close> makes of the stored settings; the second result is the client afterwards.\<close>

definition reorder_servers :: "tsval \<Rightarrow> client \<Rightarrow> (ts_error + tsval) \<times> client" where
  "reorder_servers rpc c =
     (case rpc of
        StrV s \<Rightarrow>
          if s \<in> set BLURT_MAINNETS
          then (case app_client (s # remove1 s BLURT_MAINNETS) of
                  Inl e \<Rightarrow> (Inl e, c) | Inr c' \<Rightarrow> (Inr (BoolV True), c'))
          else (Inr NullV, c)
      | _ \<Rightarrow> (Inr NullV, c))"

definition setBlockchainClient :: "ts_error + tsval \<Rightarrow> jsstring option \<Rightarrow> client \<Rightarrow> (ts_error + tsval) \<times> client" where
  "setBlockchainClient stored server c =
     (case stored of
        Inl e \<Rightarrow> (Inl e, c)
      | Inr blockchains \<Rightarrow>
          if server = None \<or> server = Some [] then
            (case ts_get blockchains ''rpc'' of
               Inl e \<Rightarrow> (Inl e, c)
             | Inr rpc \<Rightarrow>
                 if rpc = StrV (BLURT_MAINNETS ! 0) then (Inr (BoolV True), c)
                 else if \<not> ts_truthy blockchains then (Inr NullV, c)
                 else reorder_servers rpc c)
          else reorder_servers (StrV (the server)) c)"

section \<open>The node\<close>

text \<open>What the node answers to a request, and the properties it reports to \<open>sendOperations\<close>\<close>

record network =
  net_call :: "rpc \<Rightarrow> ts_error + tsval"
  net_props :: "ts_error + dynamic_properties"

definition app_send ::
  "env \<Rightarrow> secp256k1 \<Rightarrow> client \<Rightarrow> network \<Rightarrow> tsval list \<Rightarrow> byte list \<Rightarrow> (ts_error + tsval) option" where
  "app_send E S c net ops key =
     (case net_props net of
        Inl e \<Rightarrow> Some (Inl e)
      | Inr props \<Rightarrow> sendOperations E S c props ops [key] (net_call net))"

text \<open>\<open>try { return await r } catch { return null }\<close>, and the same with \<open>null\<close> for a result that is not truthy\<close>

definition null_on_error :: "ts_error + tsval \<Rightarrow> tsval" where
  "null_on_error r = (case r of Inl e \<Rightarrow> NullV | Inr v \<Rightarrow> v)"

definition truthy_or_null :: "ts_error + tsval \<Rightarrow> tsval" where
  "truthy_or_null r = (case r of Inl e \<Rightarrow> NullV | Inr v \<Rightarrow> if ts_truthy v then v else NullV)"

definition getRewardFund :: "network \<Rightarrow> tsval" where
  "getRewardFund net = null_on_error (net_call net (condenser ''get_reward_fund'' [StrV (js ''post'')]))"

definition getFeedHistory :: "network \<Rightarrow> tsval" where
  "getFeedHistory net = null_on_error (net_call net (condenser ''get_feed_history'' []))"

definition app_getChainProperties :: "network \<Rightarrow> tsval" where
  "app_getChainProperties net = null_on_error (net_call net (condenser ''get_chain_properties'' []))"

definition app_getDynamicGlobalProperties :: "network \<Rightarrow> tsval" where
  "app_getDynamicGlobalProperties net = null_on_error (net_call net getDynamicGlobalProperties)"

definition fetchLatestBlock :: "network \<Rightarrow> tsval" where
  "fetchLatestBlock net =
     null_on_error (bindR (net_props net) (\<lambda>props. net_call net (getCurrentBlock Irreversible props)))"

text \<open>\<open>n == 0\<close>\<close>

definition loose_zero :: "env \<Rightarrow> tsval \<Rightarrow> bool" where
  "loose_zero E v \<longleftrightarrow> v \<noteq> UndefV \<and> v \<noteq> NullV \<and> dbl_eq (ts_Number E v) (Fin False 0)"

definition app_getAccount :: "env \<Rightarrow> network \<Rightarrow> jsstring \<Rightarrow> tsval" where
  "app_getAccount E net username =
     null_on_error (bindR (net_call net (getAccounts [username])) (\<lambda>accounts.
       bindR (ts_get accounts ''length'') (\<lambda>n. if loose_zero E n then Inr NullV else ts_index accounts 0)))"

definition checkUsernameAvailable :: "env \<Rightarrow> network \<Rightarrow> jsstring \<Rightarrow> bool" where
  "checkUsernameAvailable E net username \<longleftrightarrow> \<not> ts_truthy (app_getAccount E net username)"

definition fetchAccountState :: "network \<Rightarrow> jsstring \<Rightarrow> tsval" where
  "fetchAccountState net username = truthy_or_null (net_call net (getState (64 # username)))"

definition fetchFollows :: "network \<Rightarrow> jsstring \<Rightarrow> ts_error + tsval" where
  "fetchFollows net username = net_call net (condenser ''get_follow_count'' [StrV username])"

definition fetchFollowings :: "network \<Rightarrow> jsstring \<Rightarrow> jsstring \<Rightarrow> jsstring option \<Rightarrow> int option \<Rightarrow> tsval" where
  "fetchFollowings net follower startFollowing followType limit =
     truthy_or_null (net_call net (condenser ''get_following''
       [StrV follower, StrV startFollowing, StrV (case followType of None \<Rightarrow> js ''blog'' | Some t \<Rightarrow> t),
        num (case limit of None \<Rightarrow> 1000 | Some n \<Rightarrow> n)]))"

definition fetchFollowers :: "network \<Rightarrow> jsstring \<Rightarrow> jsstring \<Rightarrow> jsstring option \<Rightarrow> int option \<Rightarrow> tsval" where
  "fetchFollowers net username startFollowing followType limit =
     truthy_or_null (net_call net (condenser ''get_followers''
       [StrV username, StrV startFollowing, StrV (case followType of None \<Rightarrow> js ''blog'' | Some t \<Rightarrow> t),
        num (case limit of None \<Rightarrow> 1000 | Some n \<Rightarrow> n)]))"

definition isFollowing :: "network \<Rightarrow> jsstring \<Rightarrow> jsstring \<Rightarrow> tsval" where
  "isFollowing net username author =
     null_on_error (bindR (net_call net (condenser ''get_following'' [StrV username, StrV author, StrV (js ''blog''), num 1])) (\<lambda>result.
       bindR (ts_index result 0) (\<lambda>first.
         if \<not> ts_truthy first then Inr (BoolV False)
         else bindR (ts_get first ''follower'') (\<lambda>f. bindR (ts_get first ''following'') (\<lambda>g.
                Inr (BoolV (f = StrV username \<and> g = StrV author)))))))"

definition fetchCommunityList :: "network \<Rightarrow> jsstring \<Rightarrow> tsval" where
  "fetchCommunityList net username =
     truthy_or_null (net_call net (hivemind ''list_all_subscriptions'' (ObjV [(''account'', StrV username)])))"

definition fetchCommunity :: "network \<Rightarrow> jsstring \<Rightarrow> jsstring \<Rightarrow> ts_error + tsval" where
  "fetchCommunity net tag observer =
     bindR (net_call net (hivemind ''get_community'' (ObjV [(''name'', StrV tag), (''observer'', StrV observer)]))) (\<lambda>community.
       Inr (if ts_truthy community then community else ObjV []))"

definition getActiveVotes :: "network \<Rightarrow> jsstring \<Rightarrow> jsstring \<Rightarrow> ts_error + tsval" where
  "getActiveVotes net author permlink = net_call net (condenser ''get_active_votes'' [StrV author, StrV permlink])"

section \<open>Keys and passwords\<close>

definition app_wifToPublic :: "env \<Rightarrow> secp256k1 \<Rightarrow> client \<Rightarrow> jsstring \<Rightarrow> ts_error + jsstring" where
  "app_wifToPublic E S c privWif =
     bindR (ts_PrivateKey_fromString E S privWif) (\<lambda>privateKey.
     bindR (createPublic S privateKey (Some (cl_addressPrefix c))) (\<lambda>pk. Inr (ts_PublicKey_toString E pk)))"

text \<open>\<open>s == v\<close> for a string \<open>s\<close>\<close>

definition loose_text_eq :: "env \<Rightarrow> jsstring \<Rightarrow> tsval \<Rightarrow> bool" where
  "loose_text_eq E s v \<longleftrightarrow>
     (case v of
        UndefV \<Rightarrow> False | NullV \<Rightarrow> False
      | BoolV b \<Rightarrow> dbl_eq (ts_Number E (StrV s)) (dbl_of_int (if b then 1 else 0))
      | NumV d \<Rightarrow> dbl_eq (ts_Number E (StrV s)) d
      | _ \<Rightarrow> s = ts_String E v)"

definition app_wifIsValid :: "env \<Rightarrow> secp256k1 \<Rightarrow> client \<Rightarrow> jsstring \<Rightarrow> tsval \<Rightarrow> ts_error + bool" where
  "app_wifIsValid E S c privWif pubWif =
     bindR (app_wifToPublic E S c privWif) (\<lambda>s. Inr (loose_text_eq E s pubWif))"

text \<open>\<open>random\<close> is the text of ten random bytes.\<close>

definition generateMasterPassword :: "env \<Rightarrow> secp256k1 \<Rightarrow> jsstring \<Rightarrow> ts_error + jsstring" where
  "generateMasterPassword E S random =
     bindR (bindR (ts_PrivateKey_fromSeed E S random) (ts_PrivateKey_toString E)) (\<lambda>w. Inr (80 # w))"

definition getRequestedPassword :: "env \<Rightarrow> secp256k1 \<Rightarrow> jsstring \<Rightarrow> jsstring \<Rightarrow> jsstring \<Rightarrow> ts_error + jsstring" where
  "getRequestedPassword E S username password type' =
     bindR (PrivateKey_fromLogin E S username password type') (ts_PrivateKey_toString E)"

datatype key_type = MEMO | POSTING | ACTIVE | OWNER | MASTER

text \<open>The numbers of the enumeration order the types of keys.\<close>

primrec key_level :: "key_type \<Rightarrow> nat" where
  "key_level MEMO = 0"
| "key_level POSTING = 1"
| "key_level ACTIVE = 2"
| "key_level OWNER = 3"
| "key_level MASTER = 4"

instantiation key_type :: linorder
begin

definition less_eq_key_type :: "key_type \<Rightarrow> key_type \<Rightarrow> bool" where
  "less_eq_key_type a b \<longleftrightarrow> key_level a \<le> key_level b"

definition less_key_type :: "key_type \<Rightarrow> key_type \<Rightarrow> bool" where
  "less_key_type a b \<longleftrightarrow> key_level a < key_level b"

instance
proof
  fix a b :: key_type
  show "a \<le> b \<Longrightarrow> b \<le> a \<Longrightarrow> a = b"
    by (cases a; cases b) (simp_all add: less_eq_key_type_def)
qed (auto simp: less_eq_key_type_def less_key_type_def)

end

text \<open>\<open>account[role].key_auths[0][0]\<close>\<close>

definition first_key :: "string \<Rightarrow> tsval \<Rightarrow> ts_error + tsval" where
  "first_key role ac =
     bindR (ts_get ac role) (\<lambda>r. bindR (ts_get r ''key_auths'') (\<lambda>auths. bindR (ts_index auths 0) (\<lambda>p. ts_index p 0)))"

text \<open>A password that does not start with \<open>5\<close> is taken for a master password.\<close>

definition verifyPassoword ::
  "env \<Rightarrow> secp256k1 \<Rightarrow> client \<Rightarrow> network \<Rightarrow> jsstring \<Rightarrow> jsstring \<Rightarrow> ts_error + tsval \<times> key_type option" where
  "verifyPassoword E S c net username password =
     (let ac = app_getAccount E net username
      in if \<not> ts_truthy ac then Inr (NullV, None)
         else bindR (first_key ''posting'' ac) (\<lambda>postingPublicKey.
           if \<not> (password \<noteq> [] \<and> hd password = 53) then
             bindR (getRequestedPassword E S username password (js ''posting'')) (\<lambda>postingPrivateKey.
             bindR (app_wifIsValid E S c postingPrivateKey postingPublicKey) (\<lambda>valid.
               Inr (if valid then (ac, Some MASTER) else (NullV, None))))
           else
             bindR (app_wifIsValid E S c password postingPublicKey) (\<lambda>valid.
             if valid then Inr (ac, Some POSTING)
             else bindR (first_key ''active'' ac) (\<lambda>activePublicKey.
               bindR (app_wifIsValid E S c password activePublicKey) (\<lambda>valid.
               if valid then Inr (ac, Some ACTIVE)
               else bindR (first_key ''owner'' ac) (\<lambda>ownerPublicKey.
                 bindR (app_wifIsValid E S c password ownerPublicKey) (\<lambda>valid.
                   Inr (if valid then (ac, Some OWNER) else (NullV, None)))))))))"

section \<open>Broadcasts\<close>

text \<open>\<open>try { return await r } catch { return v }\<close>; a call that does not return is \<^term>\<open>None\<close>.\<close>

definition caught :: "tsval \<Rightarrow> (ts_error + tsval) option \<Rightarrow> (ts_error + tsval) option" where
  "caught v r = map_option (\<lambda>r. Inr (case r of Inl e \<Rightarrow> v | Inr w \<Rightarrow> w)) r"

definition caught_truthy :: "(ts_error + tsval) option \<Rightarrow> (ts_error + tsval) option" where
  "caught_truthy r = map_option (\<lambda>r. Inr (truthy_or_null r)) r"

definition invalid_password :: tsval where
  "invalid_password = ObjV [(''success'', BoolV False), (''message'', StrV (js ''the password is invalid''))]"

text \<open>
  The frame of the functions that broadcast: the password is verified for an account, then it is read as
  a private key. A key is an object, hence true.
\<close>

definition with_password ::
  "env \<Rightarrow> secp256k1 \<Rightarrow> client \<Rightarrow> network \<Rightarrow> jsstring \<Rightarrow> jsstring \<Rightarrow> tsval \<Rightarrow>
     (tsval \<Rightarrow> byte list \<Rightarrow> (ts_error + tsval) option) \<Rightarrow> (ts_error + tsval) option" where
  "with_password E S c net username password invalid f =
     (case verifyPassoword E S c net username password of
        Inl e \<Rightarrow> Some (Inl e)
      | Inr (ac, _) \<Rightarrow>
          if \<not> ts_truthy ac then Some (Inr invalid)
          else (case PrivateKey_from E S (Inl password) of Inl e \<Rightarrow> Some (Inl e) | Inr privateKey \<Rightarrow> f ac privateKey))"

text \<open>\<open>JSON.stringify\<close>\<close>

definition stringify :: "env \<Rightarrow> tsval \<Rightarrow> tsval" where
  "stringify E v = (case Option.bind (json_copy E v) json_print of Some t \<Rightarrow> StrV t | None \<Rightarrow> UndefV)"

text \<open>The fees that \<open>updateFollow\<close> and \<open>reblog\<close> compute are not used.\<close>

definition follow_operation :: "env \<Rightarrow> jsstring \<Rightarrow> tsval \<Rightarrow> tsval" where
  "follow_operation E user json =
     ObjV [(''required_auths'', ArrV []), (''required_posting_auths'', ArrV [StrV user]), (''id'', StrV (js ''follow'')),
           (''json'', stringify E json)]"

definition updateFollow ::
  "env \<Rightarrow> secp256k1 \<Rightarrow> client \<Rightarrow> network \<Rightarrow> jsstring \<Rightarrow> jsstring \<Rightarrow> jsstring \<Rightarrow> jsstring \<Rightarrow> (ts_error + tsval) option" where
  "updateFollow E S c net follower password following action =
     with_password E S c net follower password NullV (\<lambda>ac privateKey.
       let what = (if action = [] then [] else [StrV action]);
           json = ArrV [StrV (js ''follow''),
                    ObjV [(''follower'', StrV follower), (''following'', StrV following), (''what'', ArrV what)]]
       in caught_truthy (app_send E S c net (json_ops (follow_operation E follower json)) privateKey))"

definition reblog ::
  "env \<Rightarrow> secp256k1 \<Rightarrow> client \<Rightarrow> network \<Rightarrow> jsstring \<Rightarrow> jsstring \<Rightarrow> jsstring \<Rightarrow> jsstring \<Rightarrow> (ts_error + tsval) option" where
  "reblog E S c net username password author permlink =
     with_password E S c net username password invalid_password (\<lambda>ac privateKey.
       let json = ArrV [StrV (js ''reblog''),
                    ObjV [(''account'', StrV username), (''author'', StrV author), (''permlink'', StrV permlink)]]
       in caught UndefV (app_send E S c net (json_ops (follow_operation E username json)) privateKey))"

definition submitVote ::
  "env \<Rightarrow> secp256k1 \<Rightarrow> client \<Rightarrow> network \<Rightarrow> jsstring \<Rightarrow> jsstring \<Rightarrow> jsstring \<Rightarrow> jsstring \<Rightarrow> double \<Rightarrow> (ts_error + tsval) option" where
  "submitVote E S c net voter password author permlink votingWeight =
     with_password E S c net voter password NullV (\<lambda>ac privateKey.
       let vote = ObjV [(''voter'', StrV voter), (''author'', StrV author), (''permlink'', StrV permlink),
                        (''weight'', NumV (dbl_mul votingWeight (dbl_of_int 100)))]
       in caught_truthy (app_send E S c net (vote_ops vote) privateKey))"

record posting_content =
  pc_author :: jsstring
  pc_title :: jsstring
  pc_body :: jsstring
  pc_parent_author :: jsstring
  pc_parent_permlink :: jsstring
  pc_json_metadata :: jsstring
  pc_permlink :: jsstring

definition posting_object :: "posting_content \<Rightarrow> tsval" where
  "posting_object p =
     ObjV [(''parent_author'', StrV (pc_parent_author p)), (''parent_permlink'', StrV (pc_parent_permlink p)),
           (''author'', StrV (pc_author p)), (''permlink'', StrV (pc_permlink p)), (''body'', StrV (pc_body p)),
           (''json_metadata'', StrV (pc_json_metadata p)), (''title'', StrV (pc_title p))]"

definition broadcastPost ::
  "env \<Rightarrow> secp256k1 \<Rightarrow> client \<Rightarrow> network \<Rightarrow> posting_content \<Rightarrow> jsstring \<Rightarrow> tsval \<Rightarrow> (ts_error + tsval) option" where
  "broadcastPost E S c net postingData password options =
     with_password E S c net (pc_author postingData) password NullV (\<lambda>ac privateKey.
       let opArray = [op ''comment'' (posting_object postingData)]
                     @ (if ts_truthy options then [op ''comment_options'' options] else [])
       in caught_truthy (app_send E S c net opArray privateKey))"

text \<open>
  The patch of the texts (\<open>patch\<close>, of a package) is made and not used: the new body is sent.
\<close>

definition broadcastPostUpdate ::
  "env \<Rightarrow> secp256k1 \<Rightarrow> client \<Rightarrow> network \<Rightarrow> (jsstring \<Rightarrow> jsstring \<Rightarrow> ts_error + jsstring) \<Rightarrow>
     jsstring \<Rightarrow> jsstring \<Rightarrow> jsstring \<Rightarrow> posting_content \<Rightarrow> jsstring \<Rightarrow> (ts_error + tsval) option" where
  "broadcastPostUpdate E S c net patch originalBody originalPermlink originalParentPermlink postingContent password =
     (case verifyPassoword E S c net (pc_author postingContent) password of
        Inl e \<Rightarrow> Some (Inl e)
      | Inr (ac, _) \<Rightarrow>
          if \<not> ts_truthy ac then Some (Inr invalid_password)
          else if originalBody = [] then
            Some (Inr (ObjV [(''success'', BoolV False), (''message'', StrV (js ''Nothing in the body''))]))
          else (case patch originalBody (pc_body postingContent) of
                  Inl e \<Rightarrow> Some (Inl e)
                | Inr _ \<Rightarrow>
                    broadcastPost E S c net
                      (postingContent\<lparr>pc_parent_permlink := originalParentPermlink, pc_permlink := originalPermlink\<rparr>)
                      password UndefV))"

text \<open>\<open>photoBuf\<close> are the bytes of the picture; the signature is returned even if it does not verify.\<close>

definition signImage ::
  "env \<Rightarrow> secp256k1 \<Rightarrow> client \<Rightarrow> network \<Rightarrow> byte list \<Rightarrow> jsstring \<Rightarrow> jsstring \<Rightarrow> (ts_error + ts_signature option) option" where
  "signImage E S c net photoBuf username password =
     (case verifyPassoword E S c net username password of
        Inl e \<Rightarrow> Some (Inl e)
      | Inr (ac, _) \<Rightarrow>
          if \<not> ts_truthy ac then Some (Inr None)
          else (case ts_PrivateKey_fromString E S password of
                  Inl e \<Rightarrow> Some (Inl e)
                | Inr privateKey \<Rightarrow>
                    (let hash = sha256 E (node_encode (js ''ImageSigningChallenge'') @ photoBuf)
                     in case PrivateKey_sign E S privateKey hash of
                          None \<Rightarrow> None
                        | Some (Inl e) \<Rightarrow> Some (Inl e)
                        | Some (Inr signature) \<Rightarrow>
                            Some (bindR (createPublic S privateKey None) (\<lambda>pk.
                                  bindR (ts_verify S pk hash signature) (\<lambda>_. Inr (Some signature)))))))"

definition jsonStringify :: "env \<Rightarrow> tsval \<Rightarrow> tsval" where
  "jsonStringify E jsonMetadata = (if ts_truthy jsonMetadata then stringify E jsonMetadata else StrV [])"

text \<open>\<open>verifyPassoword\<close> returns an object, and it is the object that is tested: the test never fails.\<close>

definition broadcastProfileUpdate ::
  "env \<Rightarrow> secp256k1 \<Rightarrow> client \<Rightarrow> network \<Rightarrow> jsstring \<Rightarrow> jsstring \<Rightarrow> tsval \<Rightarrow> (ts_error + tsval) option" where
  "broadcastProfileUpdate E S c net username password profile =
     (case verifyPassoword E S c net username password of
        Inl e \<Rightarrow> Some (Inl e)
      | Inr _ \<Rightarrow>
          (case PrivateKey_from E S (Inl password) of
             Inl e \<Rightarrow> Some (Inl e)
           | Inr privateKey \<Rightarrow>
               (let metadata = jsonStringify E (ObjV [(''profile'', profile)]);
                    opArray = [op ''account_update''
                      (ObjV [(''account'', StrV username), (''json_metadata'', metadata),
                             (''posting_json_metadata'', metadata), (''extensions'', ArrV [])])]
                in caught NullV (app_send E S c net opArray privateKey))))"

definition claimRewardBalance ::
  "env \<Rightarrow> secp256k1 \<Rightarrow> client \<Rightarrow> network \<Rightarrow> jsstring \<Rightarrow> jsstring \<Rightarrow> (ts_error + tsval) option" where
  "claimRewardBalance E S c net username password =
     with_password E S c net username password invalid_password (\<lambda>ac privateKey.
       case bindR (ts_get ac ''reward_blurt_balance'') (\<lambda>balance. bindR (ts_get ac ''reward_vesting_balance'') (\<lambda>vests.
              Inr [op ''claim_reward_balance''
                (ObjV [(''account'', StrV username), (''reward_blurt'', balance), (''reward_vests'', vests)])])) of
         Inl e \<Rightarrow> Some (Inl e)
       | Inr opArray \<Rightarrow> caught NullV (app_send E S c net opArray privateKey))"

datatype TransactionReturnCodes =
  NO_ACCOUNT | INVALID_PASSWORD | NEED_HIGHER_PASSWORD | TRANSACTION_ERROR | TRANSACTION_SUCCESS

text \<open>Exceptions of \<open>transfer\<close> are not caught. A missing type of key would be the number zero.\<close>

definition transferToken ::
  "env \<Rightarrow> secp256k1 \<Rightarrow> client \<Rightarrow> network \<Rightarrow> jsstring \<Rightarrow> jsstring \<Rightarrow> jsstring \<Rightarrow> jsstring \<Rightarrow> jsstring \<Rightarrow>
     (ts_error + TransactionReturnCodes) option" where
  "transferToken E S c net username password to' amount memo =
     (case verifyPassoword E S c net username password of
        Inl e \<Rightarrow> Some (Inl e)
      | Inr (ac, keyType) \<Rightarrow>
          if \<not> ts_truthy ac then Some (Inr NO_ACCOUNT)
          else if (case keyType of None \<Rightarrow> True | Some k \<Rightarrow> k < ACTIVE) then Some (Inr NEED_HIGHER_PASSWORD)
          else (case PrivateKey_from E S (Inl password) of
                  Inl e \<Rightarrow> Some (Inl e)
                | Inr privateKey \<Rightarrow>
                    (let args = ObjV [(''from'', StrV username), (''to'', StrV to'), (''amount'', StrV amount), (''memo'', StrV memo)]
                     in map_option (\<lambda>r. bindR r (\<lambda>result. Inr (if ts_truthy result then TRANSACTION_SUCCESS else TRANSACTION_ERROR)))
                          (app_send E S c net (transfer_ops args) privateKey))))"

text \<open>\<open>createAccount\<close>: exceptions are caught only while broadcasting.\<close>

definition key_authority :: "ts_public \<Rightarrow> tsval" where
  "key_authority pk =
     ObjV [(''weight_threshold'', num 1), (''account_auths'', ArrV []),
           (''key_auths'', ArrV [ArrV [PubV (fst pk) (snd pk), num 1]])]"

text \<open>The keys of the new account, derived from its password\<close>

definition new_account_keys ::
  "env \<Rightarrow> secp256k1 \<Rightarrow> client \<Rightarrow> jsstring \<Rightarrow> jsstring \<Rightarrow> ts_error + ts_public \<times> ts_public \<times> ts_public \<times> ts_public" where
  "new_account_keys E S c username password =
     (let login = (\<lambda>role. PrivateKey_fromLogin E S username password (js role));
          public = (\<lambda>key. createPublic S key (Some (cl_addressPrefix c)))
      in bindR (login ''owner'') (\<lambda>ownerKey. bindR (login ''active'') (\<lambda>activeKey.
         bindR (login ''posting'') (\<lambda>postingKey. bindR (bindR (login ''memo'') public) (\<lambda>memoKey.
         bindR (public ownerKey) (\<lambda>owner. bindR (public activeKey) (\<lambda>active. bindR (public postingKey) (\<lambda>posting.
           Inr (owner, active, posting, memoKey)))))))))"

definition createAccount ::
  "env \<Rightarrow> secp256k1 \<Rightarrow> client \<Rightarrow> network \<Rightarrow> jsstring \<Rightarrow> jsstring \<Rightarrow> jsstring \<Rightarrow> jsstring \<Rightarrow> jsstring \<Rightarrow>
     (ts_error + bool) option" where
  "createAccount E S c net username password creator creatorActiveKey creationFee =
     (case bindR (ts_PrivateKey_fromString E S creatorActiveKey) (\<lambda>creatorKey.
           bindR (new_account_keys E S c username password) (\<lambda>(owner, active, posting, memoKey).
             Inr (creatorKey, [op ''account_create''
               (ObjV [(''fee'', StrV creationFee), (''creator'', StrV creator), (''new_account_name'', StrV username),
                      (''owner'', key_authority owner), (''active'', key_authority active),
                      (''posting'', key_authority posting), (''memo_key'', PubV (fst memoKey) (snd memoKey)),
                      (''json_metadata'', StrV []), (''extensions'', ArrV [])])]))) of
        Inl e \<Rightarrow> Some (Inl e)
      | Inr (creatorKey, operations) \<Rightarrow>
          map_option (\<lambda>r. Inr (case r of Inl e \<Rightarrow> False | Inr result \<Rightarrow> ts_truthy result)) (app_send E S c net operations creatorKey))"

section \<open>Votes and reputation\<close>

text \<open>A value that is not truthy counts as zero; only a string has \<open>split\<close>.\<close>

definition parseToken :: "tsval \<Rightarrow> ts_error + double" where
  "parseToken strVal =
     (if \<not> ts_truthy strVal then Inr (Fin False 0)
      else case strVal of StrV s \<Rightarrow> Inr (parseFloat (split_on 32 s ! 0)) | _ \<Rightarrow> Inl (Js TypeError))"

definition app_vestToSteem :: "jsstring \<Rightarrow> jsstring \<Rightarrow> jsstring \<Rightarrow> jsstring" where
  "app_vestToSteem vestingShares totalVestingShares totalVestingFundSteem =
     toFixed 0 (vestToSteem vestingShares totalVestingShares totalVestingFundSteem)"

definition vestsToRshares :: "double \<Rightarrow> double \<Rightarrow> double \<Rightarrow> double" where
  "vestsToRshares vests votingPower votePerc =
     (if \<not> ts_truthy (NumV vests) \<or> \<not> ts_truthy (NumV votingPower) \<or> \<not> ts_truthy (NumV votePerc) then Fin False 0
      else (let vestStr = dbl_toString (dbl_mul vests (dbl_of_int 1000000));
                vestingShares = parseInt_double vestStr;
                power = dbl_add (dbl_div (dbl_div (dbl_mul votingPower votePerc) (dbl_of_int 10000)) (dbl_of_int 50)) (dbl_of_int 1)
            in dbl_div (dbl_mul power vestingShares) (dbl_of_int 10000)))"

record vote_account =
  va_voting_power :: double
  va_vesting_shares :: tsval
  va_received_vesting_shares :: tsval
  va_delegated_vesting_shares :: tsval

record chain_fund =
  cf_steemPerMVests :: double
  cf_base :: double
  cf_quote :: double
  cf_fundRecentClaims :: tsval
  cf_fundRewardBalance :: double
  cf_sbdPrintRate :: double
  cf_chainProps :: tsval

definition fetchGlobalProps :: "network \<Rightarrow> ts_error + chain_fund" where
  "fetchGlobalProps net =
     (let rewardFund = getRewardFund net; chainProperties = app_getChainProperties net; one = dbl_of_int 1
      in bindR (ts_get rewardFund ''recent_claims'') (\<lambda>fundRecentClaims.
         bindR (bindR (ts_get rewardFund ''reward_balance'') parseToken) (\<lambda>fundRewardBalance.
           Inr \<lparr>cf_steemPerMVests = one, cf_base = one, cf_quote = one, cf_fundRecentClaims = fundRecentClaims,
                cf_fundRewardBalance = fundRewardBalance, cf_sbdPrintRate = one, cf_chainProps = chainProperties\<rparr>)))"

definition estimateVoteAmount :: "env \<Rightarrow> vote_account \<Rightarrow> chain_fund \<Rightarrow> double \<Rightarrow> ts_error + jsstring" where
  "estimateVoteAmount E ac fund voteWeight =
     bindR (parseToken (va_vesting_shares ac)) (\<lambda>own. bindR (parseToken (va_received_vesting_shares ac)) (\<lambda>received.
     bindR (parseToken (va_delegated_vesting_shares ac)) (\<lambda>delegated.
       let totalVests = dbl_sub (dbl_add own received) delegated;
           votePct = dbl_mul voteWeight (dbl_of_int 10000);
           rShares = vestsToRshares totalVests (va_voting_power ac) votePct
       in Inr (toFixed 2 (dbl_div
            (dbl_mul (dbl_mul (dbl_div rShares (ts_Number E (cf_fundRecentClaims fund))) (cf_fundRewardBalance fund))
              (dbl_div (cf_base fund) (cf_quote fund))) (dbl_of_int 2))))))"

text \<open>The logarithm is that of the engine; \<open>Math.max(x, 0)\<close> is \<^term>\<open>dbl_max_zero\<close>.\<close>

definition calculateReputation :: "(double \<Rightarrow> double) \<Rightarrow> double \<Rightarrow> double" where
  "calculateReputation Math_log10 rep0 =
     (let multi = dbl_of_int (if dbl_less rep0 (Fin False 0) then - 9 else 9);
          magnitude = (case rep0 of Fin s m \<Rightarrow> Fin False m | Infin s \<Rightarrow> Infin False | NaN \<Rightarrow> NaN);
          rep = dbl_max_zero (dbl_sub (Math_log10 magnitude) (dbl_of_int 9))
      in dbl_add (dbl_mul rep multi) (dbl_of_int 25))"

text \<open>\<open>about.profile && about.profile[field] ? ... : null\<close>\<close>

definition profile_field :: "string \<Rightarrow> tsval \<Rightarrow> ts_error + tsval" where
  "profile_field field about =
     bindR (ts_get about ''profile'') (\<lambda>profile.
       if \<not> ts_truthy profile then Inr NullV
       else bindR (ts_get profile field) (\<lambda>v. Inr (if ts_truthy v then v else NullV)))"

definition getName :: "tsval \<Rightarrow> ts_error + tsval" where
  "getName = profile_field ''name''"

definition getAvatar :: "tsval \<Rightarrow> ts_error + tsval" where
  "getAvatar = profile_field ''profile_image''"

section \<open>Who can do what\<close>

text \<open>
  The text of a private key starts with \<open>5\<close>: the network byte, 32 bytes of key and four of checksum in
  base 58. The checks of \<open>verifyPassoword\<close> rest on it.
\<close>

definition wif_lead :: "env \<Rightarrow> secp256k1 \<Rightarrow> bool" where
  "wif_lead E S \<longleftrightarrow> (\<forall>s key. ts_PrivateKey_fromString E S s = Inr key \<longrightarrow> s \<noteq> [] \<and> hd s = 53)"

definition role_name :: "key_type \<Rightarrow> string" where
  "role_name k = (case k of POSTING \<Rightarrow> ''posting'' | ACTIVE \<Rightarrow> ''active'' | _ \<Rightarrow> ''owner'')"

lemma verified_account:
  "verifyPassoword E S c net username password = Inr (ac, kt) \<Longrightarrow> ts_truthy ac \<Longrightarrow>
     ac = app_getAccount E net username \<and> kt \<noteq> None"
  by (auto simp: verifyPassoword_def Let_def ts_truthy_def bindR_eq_Inr split: if_splits)

lemma verified_key:
  assumes "verifyPassoword E S c net username password = Inr (ac, Some k)"
  shows "if k = MASTER then \<not> (password \<noteq> [] \<and> hd password = 53)
    else \<exists>pub. first_key (role_name k) ac = Inr pub \<and> app_wifIsValid E S c password pub = Inr True"
  using assms by (auto simp: verifyPassoword_def Let_def bindR_eq_Inr role_name_def split: if_splits)

lemma master_not_a_key:
  assumes "wif_lead E S" "\<not> (password \<noteq> [] \<and> hd password = 53)"
  shows "\<exists>e. ts_PrivateKey_fromString E S password = Inl e"
  using assms by (cases "ts_PrivateKey_fromString E S password") (auto simp: wif_lead_def)

lemma transferToken_success:
  assumes "wif_lead E S" "transferToken E S c net username password to' amount memo = Some (Inr TRANSACTION_SUCCESS)"
  shows "\<exists>k pub key result. k \<in> {ACTIVE, OWNER} \<and> first_key (role_name k) (app_getAccount E net username) = Inr pub \<and>
    app_wifIsValid E S c password pub = Inr True \<and> ts_PrivateKey_fromString E S password = Inr key \<and>
    app_send E S c net (transfer_ops (ObjV [(''from'', StrV username), (''to'', StrV to'), (''amount'', StrV amount), (''memo'', StrV memo)])) key =
      Some (Inr result) \<and> ts_truthy result"
proof -
  from assms(2) obtain ac k key result where v: "verifyPassoword E S c net username password = Inr (ac, Some k)" "ts_truthy ac" "\<not> k < ACTIVE"
    "ts_PrivateKey_fromString E S password = Inr key"
    "app_send E S c net (transfer_ops (ObjV [(''from'', StrV username), (''to'', StrV to'), (''amount'', StrV amount), (''memo'', StrV memo)])) key =
      Some (Inr result)" "ts_truthy result"
    by (auto simp: transferToken_def PrivateKey_from_def bindR_eq_Inr Let_def split: sum.splits option.splits if_splits)
  have "k \<noteq> MASTER" using verified_key [OF v(1)] assms(1) v(4) by (auto simp: wif_lead_def)
  moreover have "k \<notin> {MEMO, POSTING}" using v(3) by (auto simp: less_key_type_def)
  ultimately have "k \<in> {ACTIVE, OWNER}" by (cases k) auto
  with v verified_account [OF v(1,2)] verified_key [OF v(1)] show ?thesis by fastforce
qed

text \<open>A master password is verified and then refused as a private key: nothing is ever sent with it.\<close>

lemma with_password_master:
  assumes "verifyPassoword E S c net username password = Inr (ac, Some MASTER)" "ts_truthy ac"
    "ts_PrivateKey_fromString E S password = Inl e"
  shows "with_password E S c net username password invalid f = Some (Inl e)"
  using assms by (simp add: with_password_def PrivateKey_from_def)

section \<open>The servers stay\<close>

text \<open>The life of the client: requests, and changes of the order of the servers\<close>

datatype app_event = Request call_input | SetServers "ts_error + tsval" "jsstring option"

definition app_step :: "env \<Rightarrow> (tsval \<Rightarrow> node_response) \<Rightarrow> client \<Rightarrow> app_event \<Rightarrow> client" where
  "app_step E parse c ev =
     (case ev of
        Request (api, name, args, start, outs) \<Rightarrow> snd (client_call E parse c api name args start outs)
      | SetServers stored server \<Rightarrow> snd (setBlockchainClient stored server c))"

inductive reachable_client :: "env \<Rightarrow> (tsval \<Rightarrow> node_response) \<Rightarrow> client \<Rightarrow> bool" for E parse where
  start: "app_client BLURT_MAINNETS = Inr c \<Longrightarrow> reachable_client E parse c"
| step: "reachable_client E parse c \<Longrightarrow> reachable_client E parse (app_step E parse c ev)"

definition blurt_servers :: "client \<Rightarrow> bool" where
  "blurt_servers c \<longleftrightarrow>
     (\<exists>urls. cl_address c = Addresses urls \<and> mset urls = mset BLURT_MAINNETS \<and> configured (cl_address c) (cl_currentAddress c)) \<and>
     cl_timeout c = 5000 \<and> cl_failoverThreshold c = 10 \<and> cl_chainId c = DEFAULT_CHAIN_ID \<and> cl_addressPrefix c = js ''BLT''"

lemma app_client_servers:
  assumes "mset urls = mset BLURT_MAINNETS" "app_client urls = Inr c"
  shows "blurt_servers c \<and> cl_address c = Addresses urls"
proof -
  have "urls \<noteq> []" using assms(1) by (auto simp: BLURT_MAINNETS_def)
  moreover have "js ''cd8d90f29ae273abec3eaa7731e25934c63eb654d55080caff2ebb7f5df6381f'' \<noteq> []" "js ''BLT'' \<noteq> []" by (simp_all add: js_def)
  ultimately show ?thesis
    using assms
    by (auto simp: app_client_def new_Client_def client_settings_def blurt_servers_def configured_def nonzero_or_def text_or_def
        bindR_eq_Inr DEFAULT_CHAIN_ID_def Let_def split: list.split)
qed

lemma reorder_servers_same:
  assumes "blurt_servers c"
  shows "blurt_servers (snd (reorder_servers rpc c))"
proof (cases "snd (reorder_servers rpc c) = c")
  case False
  then obtain s where s: "s \<in> set BLURT_MAINNETS" "app_client (s # remove1 s BLURT_MAINNETS) = Inr (snd (reorder_servers rpc c))"
    by (auto simp: reorder_servers_def split: tsval.splits if_splits sum.splits)
  then show ?thesis using app_client_servers [of "s # remove1 s BLURT_MAINNETS"] by simp
qed (use assms in simp)

lemma client_call_fields:
  "blurt_servers c \<Longrightarrow> blurt_servers (snd (client_call E parse c api name args start outs))"
  by (auto simp: blurt_servers_def client_call_def dest: retryingFetch_configured split: sum.split option.split)

lemma app_step_servers: "blurt_servers c \<Longrightarrow> blurt_servers (app_step E parse c ev)"
  by (auto simp: app_step_def setBlockchainClient_def reorder_servers_same client_call_fields
      split: app_event.split prod.split sum.split)

lemma reachable_servers: "reachable_client E parse c \<Longrightarrow> blurt_servers c"
proof (induction rule: reachable_client.induct)
  case (start c)
  then show ?case using app_client_servers [of BLURT_MAINNETS c] by simp
qed (rule app_step_servers)

end
