(* ===== verification/TsExamples.thy ===== *)
theory TsExamples
  imports Examples TsHelpers Mobile
begin

text \<open>
  Examples for the properties of the TypeScript library: an instance of the package \<open>secp256k1\<close>, a
  transaction as a program writes it, the properties that a node reports, and outcomes of \<open>fetch\<close>.
\<close>

section \<open>The curve and a transaction\<close>

definition example_secp :: secp256k1 where
  "example_secp =
     \<lparr>publicKeyVerify = (\<lambda>key. length key = 33), privateKeyVerify = (\<lambda>key. length key = 32),
      publicKeyCreate = (\<lambda>key. Inr (2 # key)), secp_sign = (\<lambda>message key data. Inr (replicate 64 1, 0)),
      secp_verify = (\<lambda>message signature key. Inr True), secp_recover = (\<lambda>message signature recovery. Inr (replicate 33 2))\<rparr>"

definition example_transfer :: jsval where
  "example_transfer =
     JArr [JStr (js ''transfer''),
       JObj [(''from'', JStr (js ''alice'')), (''to'', JStr (js ''bob'')), (''amount'', JStr (js ''1.000 BLURT'')), (''memo'', JStr (js ''hi''))]]"

definition example_raw :: jsval where
  "example_raw =
     JObj [(''ref_block_num'', JNum 34294), (''ref_block_prefix'', JNum 3707022213), (''expiration'', JStr (js ''2016-04-06T23:42:00'')),
       (''operations'', JArr [example_transfer]), (''extensions'', JArr [])]"

lemma example_transfer_raw: "raw_operation E S example_transfer"
proof -
  have "vstring_ok (js ''alice'')" "vstring_ok (js ''bob'')" "vstring_ok (js ''hi'')" "raw_asset (JStr (js ''1.000 BLURT''))"
    by code_simp+
  moreover have "map_of (map (\<lambda>(name, op). (js name, op)) shared_operations) (js ''transfer'') = Some (2, transfer_schema)"
    unfolding map_of_key [OF inj_js] by (simp add: shared_operations_def)
  ultimately show ?thesis
    by (simp add: example_transfer_def transfer_schema_def raw_record_def field_of_def del: raw_asset.simps)
qed

lemma example_raw_valid: "raw_transaction E S example_raw"
proof -
  have "raw_time (JStr (js ''2016-04-06T23:42:00''))" by code_simp
  then show ?thesis
    by (simp add: raw_transaction_def example_raw_def raw_record_def field_of_def raw_operations_def example_transfer_raw
        del: raw_time.simps)
qed

section \<open>A broadcast\<close>

definition example_props :: dynamic_properties where
  "example_props =
     \<lparr>dp_head_block_number = 100, dp_head_block_id = js ''0000006400000007'', dp_time = js ''2016-04-06T23:42:00'',
      dp_last_irreversible = 90\<rparr>"

definition example_client :: client where
  "example_client =
     \<lparr>cl_address = OneAddress (js ''https://a''), cl_currentAddress = Some (js ''https://a''), cl_chainId = replicate 32 0,
      cl_addressPrefix = js ''BLT'', cl_timeout = 60000, cl_backoff = defaultBackoff, cl_failoverThreshold = 3,
      cl_consoleOnFailover = False\<rparr>"

definition example_answer :: tsval where
  "example_answer = ObjV [(''expired'', BoolV False)]"

lemma example_props_facts:
  "dp_time example_props = iso_seconds 1459986120" "0 \<le> (1459986120 :: int)" "(1459986120 :: int) < 4294967236"
  "readUInt32LE (fromHex (dp_head_block_id example_props)) 4 = Inr 117440512"
  "dp_head_block_number example_props = 100" "cl_chainId example_client = replicate 32 0"
  by code_simp+

lemma example_key_signs:
  "PrivateKey_sign E example_secp key message = Some (Inr \<lparr>sg_data = replicate 64 1, sg_recovery = 0\<rparr>)"
proof -
  have "isCanonicalSignature (replicate 64 1)" by code_simp
  then have "ts_sign_attempt E example_secp key message 1 = Some (Inr \<lparr>sg_data = replicate 64 1, sg_recovery = 0\<rparr>)"
    by (simp add: ts_sign_attempt_def example_secp_def new_Signature_def assert_that_def)
  then show ?thesis by (simp add: PrivateKey_sign_def search.simps)
qed

lemma example_signature_text: "\<exists>s. ts_Signature_toString \<lparr>sg_data = replicate 64 1, sg_recovery = 0\<rparr> = Inr s"
  by (simp add: ts_Signature_toString_def ts_Signature_toBuffer_def)

lemma example_sent:
  assumes "\<And>s. answer (ts_send s) = Inr example_answer"
  shows "sendOperations E example_secp example_client example_props (map to_ts [example_transfer]) [replicate 32 5] answer =
    Some (Inr example_answer)"
proof -
  obtain s where s: "ts_Signature_toString \<lparr>sg_data = replicate 64 1, sg_recovery = 0\<rparr> = Inr s"
    using example_signature_text ..
  let ?tx = "prepared (dp_head_block_number example_props) 117440512 1459986120 [example_transfer]"
  obtain kvs where k: "prepare_send E example_props [to_ts example_transfer] = Inr kvs"
    "ObjV kvs = to_ts ?tx" "raw_transaction E example_secp ?tx"
    using prepare_send_plain [OF example_props_facts(1-4), of E example_secp "[example_transfer]"] example_transfer_raw by auto
  have d: "transactionDigest E example_secp (ObjV kvs) (Some ch) =
      Inr (sha256 E (ch @ raw_transaction_wire E ?tx))" for ch
    unfolding k(2) by (rule transaction_digest [OF k(3)])
  obtain c where c: "json_copy E (ObjV kvs) = Some (ObjV c)" by simp
  moreover have "''signatures'' \<notin> fst ` set kvs" using k(2) by (simp add: prepared_def)
  ultimately have "map_of c ''signatures'' = None" by (force simp: map_of_eq_None_iff split: option.splits)
  then show ?thesis
    using s c assms by (simp add: sendOperations_def k(1) ts_sign_def ts_signTransaction_def d example_key_signs example_answer_def
        assert_that_def del: json_copy.simps)
qed

section \<open>The mobile application\<close>

text \<open>Base 58 in which only texts that start with \<open>5\<close> have the network byte of a private key\<close>

definition lead_env :: env where
  "lead_env = example_env
     \<lparr>base58_encode := (\<lambda>bs. case bs of [] \<Rightarrow> [] | b # r \<Rightarrow> (if b = 128 then 53 else ucast b) # map ucast r),
      base58_decode := (\<lambda>s. case s of [] \<Rightarrow> Inl LibraryError
                              | c # r \<Rightarrow> if c = 53 then Inr (128 # map ucast r) else Inl LibraryError)\<rparr>"

lemma lead_env_wif: "wif_lead lead_env S"
  by (auto simp: wif_lead_def lead_env_def ts_PrivateKey_fromString_def decodePrivate_def bindR_eq_Inr js_err_eq_Inr
      split: list.splits if_splits)

definition example_password :: jsstring where
  "example_password = 53 # map ucast (replicate 32 5 @ replicate 4 1 :: byte list)"

definition example_key_text :: jsstring where
  "example_key_text = js ''BLT'' @ map ucast (2 # replicate 32 5 @ replicate 4 7 :: byte list)"

definition key_role :: "jsstring \<Rightarrow> tsval" where
  "key_role k = ObjV [(''key_auths'', ArrV [ArrV [StrV k, num 1]])]"

text \<open>Alice, with one key for all roles or with this key for the active role only\<close>

definition example_network :: "jsstring \<Rightarrow> network" where
  "example_network posting =
     \<lparr>net_call = (\<lambda>(api, name, args).
        if name = js ''get_accounts''
        then Inr (ArrV [ObjV [(''posting'', key_role posting), (''active'', key_role example_key_text), (''owner'', key_role [])]])
        else Inr example_answer),
      net_props = Inr example_props\<rparr>"

lemma example_network_facts:
  "app_getAccount lead_env (example_network k) u =
     ObjV [(''posting'', key_role k), (''active'', key_role example_key_text), (''owner'', key_role [])]"
  "net_call (example_network k) (ts_send s) = Inr example_answer" "net_props (example_network k) = Inr example_props"
proof -
  have one: "dbl_of_int 1 = Fin False 1" by (simp add: dbl_of_int_Fin)
  show "app_getAccount lead_env (example_network k) u =
     ObjV [(''posting'', key_role k), (''active'', key_role example_key_text), (''owner'', key_role [])]"
    by (simp add: app_getAccount_def example_network_def getAccounts_def condenser_def null_on_error_def loose_zero_def
        ts_Number_def one dbl_val_def)
  show "net_call (example_network k) (ts_send s) = Inr example_answer" "net_props (example_network k) = Inr example_props"
    by (simp_all add: example_network_def ts_send_def condenser_def js_def)
qed

lemma example_password_facts:
  "ts_PrivateKey_fromString lead_env example_secp example_password = Inr (replicate 32 5)"
  "app_wifToPublic lead_env example_secp example_client example_password = Inr example_key_text"
  "hd example_password = 53" "example_password \<noteq> []"
  by code_simp+

text \<open>The posting key made of a master password, and a private key that is not Alice's\<close>

definition example_master_key :: jsstring where
  "example_master_key = js ''BLT'' @ map ucast (2 # replicate 32 1 @ replicate 4 7 :: byte list)"

definition other_password :: jsstring where
  "other_password = 53 # map ucast (replicate 32 6 @ replicate 4 1 :: byte list)"

lemma example_master_facts:
  "getRequestedPassword lead_env example_secp (js ''alice'') (js ''secret'') (js ''posting'') =
     Inr (53 # replicate 36 1)"
  "app_wifToPublic lead_env example_secp example_client (53 # replicate 36 1) = Inr example_master_key"
  "\<not> (js ''secret'' \<noteq> [] \<and> hd (js ''secret'') = 53)"
  by code_simp+

lemma other_password_facts:
  "ts_PrivateKey_fromString lead_env example_secp other_password = Inr (replicate 32 6)"
  "app_wifToPublic lead_env example_secp example_client other_password =
     Inr (js ''BLT'' @ map ucast (2 # replicate 32 6 @ replicate 4 7 :: byte list))"
  "hd other_password = 53" "other_password \<noteq> []"
  "js ''BLT'' @ map ucast (2 # replicate 32 6 @ replicate 4 7 :: byte list) \<noteq> example_key_text"
  "js ''BLT'' @ map ucast (2 # replicate 32 6 @ replicate 4 7 :: byte list) \<noteq> []"
  "example_key_text \<noteq> []"
  by code_simp+

lemma key_role_first:
  "ts_get (ObjV kvs) role = Inr (key_role k) \<Longrightarrow> first_key role (ObjV kvs) = Inr (StrV k)"
  by (simp add: first_key_def key_role_def)

lemma example_first_keys:
  "first_key ''posting'' (ObjV [(''posting'', key_role k), (''active'', key_role a), (''owner'', key_role w)]) = Inr (StrV k)"
  "first_key ''active'' (ObjV [(''posting'', key_role k), (''active'', key_role a), (''owner'', key_role w)]) = Inr (StrV a)"
  "first_key ''owner'' (ObjV [(''posting'', key_role k), (''active'', key_role a), (''owner'', key_role w)]) = Inr (StrV w)"
  by (simp_all add: key_role_first)

lemma example_password_active:
  "verifyPassoword lead_env example_secp example_client (example_network []) (js ''alice'') example_password =
     Inr (app_getAccount lead_env (example_network []) (js ''alice''), Some ACTIVE)"
  by (simp add: verifyPassoword_def Let_def example_network_facts example_first_keys app_wifIsValid_def loose_text_eq_def
      ts_truthy_def
      example_password_facts other_password_facts(7))

lemma example_transfer_succeeds:
  "transferToken lead_env example_secp example_client (example_network []) (js ''alice'') example_password (js ''bob'') (js ''1.000 BLURT'')
     (js ''hi'') = Some (Inr TRANSACTION_SUCCESS)"
proof -
  have ops: "transfer_ops (ObjV [(''from'', StrV (js ''alice'')), (''to'', StrV (js ''bob'')), (''amount'', StrV (js ''1.000 BLURT'')),
      (''memo'', StrV (js ''hi''))]) = map to_ts [example_transfer]"
    by (simp add: transfer_ops_def op_def example_transfer_def)
  show ?thesis
    by (simp add: transferToken_def example_password_active PrivateKey_from_def example_password_facts ops app_send_def
        example_network_facts example_sent less_key_type_def example_answer_def Let_def ts_truthy_def del: list.map)
qed

lemma example_master_verified:
  "verifyPassoword lead_env example_secp example_client (example_network example_master_key) (js ''alice'') (js ''secret'') =
     Inr (app_getAccount lead_env (example_network example_master_key) (js ''alice''), Some MASTER)"
  "ts_truthy (app_getAccount lead_env (example_network example_master_key) (js ''alice''))"
  using example_master_facts(3)
  by (simp_all add: verifyPassoword_def Let_def example_network_facts example_first_keys app_wifIsValid_def loose_text_eq_def
      ts_truthy_def
      example_master_facts(1,2))

lemma example_other_rejected:
  "verifyPassoword lead_env example_secp example_client (example_network []) (js ''alice'') other_password = Inr (NullV, None)"
  "\<not> ts_truthy NullV" "ts_PrivateKey_fromString lead_env example_secp other_password = Inr (replicate 32 6)"
  using other_password_facts
  by (simp_all add: verifyPassoword_def Let_def example_network_facts example_first_keys app_wifIsValid_def loose_text_eq_def
      ts_truthy_def)

lemma app_client_starts: "\<exists>c. app_client BLURT_MAINNETS = Inr c"
proof -
  have "\<not> isl (app_client BLURT_MAINNETS)" by code_simp
  then show ?thesis by (cases "app_client BLURT_MAINNETS") simp_all
qed

end
