(* ===== verification/Further.thy ===== *)
theory Further
  imports Schema Api Broadcast Memo Sending Formatter Interop WebNames TsExamples
begin

text \<open>
  Further properties of the two libraries and of the applications: the numbers of operations, encodings of signatures, nonces of
  memos, streams of blocks, changes of authorities, manabars, the filters of an account's history, the parameters of generated functions,
  addresses of a client, texts of keys, names of accounts, and the profile of the mobile application.
\<close>

section \<open>Numbers, encodings and nonces\<close>

text \<open>
  The variants of an operation stand at the positions that the chain assigns to their names: a
  type id selects the operation of that number, and no other.
\<close>

theorem operation_numbers:
  "map (\<lambda>st. operation_name st) (st_operations E) = map (\<lambda>(name, i). Some (OpStr name)) chain_operations \<and>
   map snd chain_operations = map int [0..<length (st_operations E)]"
  by (simp add: st_operations_def chain_operations_def operation_defs)

text \<open>
  Signatures survive their encodings: the DER form of \<open>r\<close> and \<open>s\<close>, and the 65 bytes with the
  recovery parameter, are read back.
\<close>

theorem signature_encodings:
  assumes "der_ok L (s_r sg)" "der_ok L (s_s sg)" "bytes_ok L (s_r sg)" "bytes_ok L (s_s sg)" "27 \<le> s_i sg" "s_i sg < 35"
  shows "fromDER L (toDER L (ec_of sg)) = Inr (ec_of sg) \<and> bindR (Signature_toBuffer L sg) (Signature_fromBuffer L) = Inr sg \<and>
    bindR (Signature_toHex L sg) (Signature_fromHex L) = Inr sg"
  using fromDER_toDER [of L "ec_of sg"] Signature_fromBuffer_toBuffer [OF assms(3-6)] assms(1,2)
  by (auto simp: ec_of_def Signature_toHex_def Signature_fromHex_def bindR_eq_Inr fromHex_toHex)

theorem signature_encodings_witness:
  "bindR (Signature_toHex example_ecc \<lparr>s_r = 3, s_s = 1, s_i = 32\<rparr>) (Signature_fromHex example_ecc) =
     Inr \<lparr>s_r = 3, s_s = 1, s_i = 32\<rparr>"
  using signature_encodings [of example_ecc "\<lparr>s_r = 3, s_s = 1, s_i = 32\<rparr>"] example_bytes by simp

lemma Long_fromNumber_exact: "0 \<le> n \<Longrightarrow> n < 2 ^ 62 \<Longrightarrow> Long_fromNumber (Some n) = of_int n"
  by (simp add: Long_fromNumber_def)

text \<open>
  Nonces are not repeated: two calls of \<open>uniqueNonce\<close> give the same text only in the same
  millisecond and with counters that agree modulo 65535.
\<close>

theorem nonces_differ:
  assumes "0 \<le> now" "now < 2 ^ 47" "0 \<le> now'" "now' < 2 ^ 47"
    and "fst (uniqueNonce now e) = fst (uniqueNonce now' e')"
  shows "now = now' \<and> snd (uniqueNonce now e) mod 65535 = snd (uniqueNonce now' e') mod 65535"
proof -
  let ?n = "\<lambda>now e. (push_bit 16 (of_int now) :: 64 word) OR of_nat ((e + 1) mod 65535)"
  have m: "int ((e + 1) mod 65535) < 2 ^ 62" for e
  proof -
    have "(e + 1) mod 65535 < 65535" by simp
    then have "int ((e + 1) mod 65535) < 65535" by linarith
    then show ?thesis by simp
  qed
  have t: "fst (uniqueNonce now e) = Long_toString False (?n now e)" if "0 \<le> now" "now < 2 ^ 47" for now e
    using Long_fromNumber_exact [of now] Long_fromNumber_exact [OF _ m, of e] that
    by (simp add: uniqueNonce_def Let_def del: of_nat_mod)
  have "Long_toString False (?n now e) = Long_toString False (?n now' e')"
    using assms(5) t [OF assms(1,2)] t [OF assms(3,4)] by simp
  then have "?n now e = ?n now' e'" by (metis Long_fromString_toString sum.inject(2))
  then have "unat (?n now e) = unat (?n now' e')" by (rule arg_cong)
  then have eq: "nat now * 65536 + (e + 1) mod 65535 = nat now' * 65536 + (e' + 1) mod 65535"
    using nonce_word [OF assms(1,2), of "(e + 1) mod 65535"] nonce_word [OF assms(3,4), of "(e' + 1) mod 65535"] by simp
  then have "nat now = nat now'"
    using mod_less_divisor [of 65535 "e + 1"] mod_less_divisor [of 65535 "e' + 1"] by linarith
  with eq assms(1,3) show ?thesis by (simp add: uniqueNonce_def Let_def)
qed

theorem nonces_differ_witness: "(7::int) = 7 \<and> snd (uniqueNonce 7 2) mod 65535 = snd (uniqueNonce 7 65537) mod 65535"
  by (rule nonces_differ) (simp_all add: uniqueNonce_def)

section \<open>Streams and authorities\<close>

text \<open>
  The stream of block numbers starts with the first answer of the node and goes on with every
  number after it, once and in order, up to the block before the greatest number that was
  answered, however the answers jump, repeat or go back. \<open>streamBlock\<close> requests each of them once.
\<close>

theorem stream_consecutive:
  assumes "0 < b"
  shows "stream_numbers None (b # bs) = [b..foldl max b (map (\<lambda>x. x - 1) bs)] \<and>
    block_requests None (stream_numbers None (b # bs)) = stream_numbers None (b # bs)"
proof -
  have "b \<le> foldl max b (map (\<lambda>x. x - 1) bs)" by (rule foldl_max_ge)
  then have "stream_numbers None (b # bs) = [b..foldl max b (map (\<lambda>x. x - 1) bs)]"
    using stream_numbers_Some [OF assms, of bs] by (simp add: poll_block_def upto_rec1)
  then show ?thesis by (simp add: block_requests_distinct)
qed

theorem stream_consecutive_witness: "stream_numbers None [5, 5, 9, 7, 10] = [5, 6, 7, 8, 9]"
  using stream_consecutive [of 5 "[5, 9, 7, 10]"] by (simp add: upto_rec1)

text \<open>
  Removing a member from the authority to which it was just added gives the authority back, and
  adding a member that is already there changes nothing.
\<close>

theorem authority_add_remove:
  assumes "authority_add field member weight (JObj kvs) = Inr (Some a)" "strict_eq member member"
  shows "authority_remove field member a = Inr (Some (JObj kvs)) \<and> authority_add field member weight' a = Inr None"
  using authority_remove_add [OF assms] authority_add_again [OF assms] by blast

theorem authority_add_remove_witness:
  "authority_add ''key_auths'' (JStr (js ''K'')) JUndef example_authority =
     Inr (Some (JObj [(''weight_threshold'', JNum 1), (''key_auths'', JArr [JArr [JStr (js ''K''), JNum 1]])])) \<and>
   authority_remove ''key_auths'' (JStr (js ''K'')) (JObj [(''weight_threshold'', JNum 1), (''key_auths'', JArr [JArr [JStr (js ''K''), JNum 1]])]) =
     Inr (Some example_authority)"
proof -
  have a: "authority_add ''key_auths'' (JStr (js ''K'')) JUndef example_authority =
     Inr (Some (JObj [(''weight_threshold'', JNum 1), (''key_auths'', JArr [JArr [JStr (js ''K''), JNum 1]])]))" by code_simp
  from authority_add_remove [OF a [unfolded example_authority_def]] a show ?thesis
    by (simp add: example_authority_def strict_eq_def is_object_def)
qed

section \<open>Manabars and filters of the TypeScript library\<close>

text \<open>
  The percentage of a manabar is an integer between 0 and 10000, in hundredths of a percent, for all
  inputs: missing or malformed numbers, a clock behind the node and a bar without a maximum included.
\<close>

theorem manabar_bounded:
  "\<exists>s q. mb_percentage (calculateManabar E now max_mana current_mana last_update_time) = Fin s q \<and>
     q \<in> \<int> \<and> 0 \<le> dbl_val s q \<and> dbl_val s q \<le> 10000"
  by (rule manabar_percentage)

text \<open>
  The two filters of \<open>makeBitMaskFilter\<close> have exactly the bits of the operations asked for, the second
  one those from 64 on. The table of numbers to ask with is not that of the chain: only the first
  five names have the number of their operation.
\<close>

theorem history_filter:
  "\<exists>low high. makeBitMaskFilter ops = [bitmask_value low, bitmask_value high] \<and>
     (\<forall>i. bit low i \<longleftrightarrow> int i \<in> set ops \<and> i < 64) \<and> (\<forall>i. bit high i \<longleftrightarrow> int i + 64 \<in> set ops) \<and>
     filter (\<lambda>(name, n). map_of chain_operations name = Some n) operationOrders =
       [(''vote'', 0), (''comment'', 1), (''transfer'', 2), (''transfer_to_vesting'', 3), (''withdraw_vesting'', 4)]"
proof -
  obtain low high where lh: "fold redFunction ops (0, 0) = (low, high)" by fastforce
  have "filter (\<lambda>(name, n). map_of chain_operations name = Some n) operationOrders =
       [(''vote'', 0), (''comment'', 1), (''transfer'', 2), (''transfer_to_vesting'', 3), (''withdraw_vesting'', 4)]"
    by code_simp
  moreover have "makeBitMaskFilter ops = [bitmask_value low, bitmask_value high]" by (simp add: makeBitMaskFilter_def lh)
  moreover have "\<forall>i. bit low i \<longleftrightarrow> int i \<in> set ops \<and> i < 64" "\<forall>i. bit high i \<longleftrightarrow> int i + 64 \<in> set ops"
    using fold_redFunction_bits [OF lh] by simp_all
  ultimately show ?thesis by blast
qed

section \<open>Generated functions\<close>

text \<open>
  A generated method passes its arguments through an object and back: the parameters of the
  request are the arguments in their order, missing ones are \<open>undefined\<close>, further ones are dropped,
  and the callback is the argument after the last parameter. This holds for every method of the table.
\<close>

theorem method_arguments:
  assumes "m \<in> set methods"
  shows "d_params (snd (fst (method_call m args))) = JArr (map (arg_at args) [0..<length (method_params m)]) \<and>
    snd (method_call m args) = arg_at args (length (method_params m)) \<and>
    (length args = length (method_params m) \<longrightarrow> d_params (snd (fst (method_call m (args @ [cb])))) = JArr args)"
proof -
  have d: "distinct (method_params m)" using methods_distinct_params assms by (simp add: list_all_iff)
  show ?thesis
    using args_to_options_back [OF d] arg_at_take [OF refl, of args "[cb]"]
    by (cases m) (auto simp: method_call_def method_with_def)
qed

theorem method_arguments_witness:
  "d_params (snd (fst (method_call (''follow_api'', ''get_feed'', Some [''account'', ''entryId'', ''limit'']) [JNum 1, JNum 2]))) =
     JArr [JNum 1, JNum 2, JUndef]"
  using method_arguments [of "(''follow_api'', ''get_feed'', Some [''account'', ''entryId'', ''limit''])" "[JNum 1, JNum 2]"]
  by (simp add: methods_def follow_methods_def method_params_def arg_at_def upt_rec)

text \<open>
  The parameters of a generated broadcast function are the fields of its operation in the wire
  format, in their order, for all but two entries of the table: \<open>price\<close> is not an operation, and
  \<open>custom_binary\<close> lists two of six fields. Seven operations of the chain have no function.
\<close>

definition operation_fields :: "schema \<Rightarrow> (op_name \<times> string list) list" where
  "operation_fields t = (case t of TSerializer name fs \<Rightarrow> [(name, map fst fs)] | _ \<Rightarrow> [])"

theorem broadcast_parameters:
  "map operation_id (filter (\<lambda>op'. (OpStr (operation_id op'), params op') \<notin> set (concat (map operation_fields operation_schemas)))
     broadcast_operations) = [''price'', ''custom_binary''] \<and>
   filter (\<lambda>name. name \<notin> operation_id ` set broadcast_operations) (map fst chain_operations) =
     [''author_reward'', ''curation_reward'', ''shutdown_witness'', ''hardfork'', ''comment_payout_update'',
      ''return_vesting_delegation'', ''comment_benefactor_reward'']"
  by (rule conjI; code_simp)

section \<open>Keys, numbers and addresses of the TypeScript library\<close>

text \<open>
  A private key in wallet import format that \<open>dblurt\<close> accepts is accepted by \<open>blurtjs\<close>, as the
  number that its bytes encode: the checks of \<open>dblurt\<close> refine those of \<open>blurtjs\<close>.
\<close>

theorem wif_read_by_both:
  assumes "ts_PrivateKey_fromString E S s = Inr key" "key \<noteq> []"
  shows "PrivateKey_fromWif E L s = Inr (bi_fromBuffer L key)"
  by (rule fromString_fromWif [OF assms])

theorem wif_read_by_both_witness:
  "PrivateKey_fromWif example_env example_ecc (map ucast ((128 :: byte) # replicate 32 5 @ replicate 4 1)) = Inr 5"
proof -
  have "ts_PrivateKey_fromString example_env example_secp (map ucast ((128 :: byte) # replicate 32 5 @ replicate 4 1)) = Inr (replicate 32 5)"
    "bi_fromBuffer example_ecc (replicate 32 5) = 5"
    by code_simp+
  then show ?thesis using wif_read_by_both [of example_env example_secp _ "replicate 32 5" example_ecc] by simp
qed

text \<open>
  The numbers of the operations in \<open>dblurt\<close>: an entry of its table of serializers writes the number
  of the list, and eleven of the forty-five differ from those of the chain. Three operations of
  the chain are written as another one, seven that the chain does not have are written with the
  number of one it has, and \<open>account_update2\<close> with a number that the chain does not have.
\<close>

theorem diverging_numbers:
  "list_all2 (\<lambda>(name, n) (name', ser). name = name' \<and> writes_number n ser) ts_operation_numbers (OperationSerializers E S) \<and>
   filter (\<lambda>(name, n). map_of chain_operations name \<noteq> Some n) ts_operation_numbers =
     [(''account_create_with_delegation'', 41), (''convert'', 8), (''delete_comment'', 17), (''feed_publish'', 7),
      (''limit_order_cancel'', 6), (''limit_order_create'', 5), (''limit_order_create2'', 21),
      (''report_over_production'', 16), (''set_withdraw_vesting_route'', 20), (''witness_update'', 11), (''account_update2'', 47)]"
proof
  show "filter (\<lambda>(name, n). map_of chain_operations name \<noteq> Some n) ts_operation_numbers =
     [(''account_create_with_delegation'', 41), (''convert'', 8), (''delete_comment'', 17), (''feed_publish'', 7),
      (''limit_order_cancel'', 6), (''limit_order_create'', 5), (''limit_order_create2'', 21),
      (''report_over_production'', 16), (''set_withdraw_vesting_route'', 20), (''witness_update'', 11), (''account_update2'', 47)]"
    by code_simp
qed (rule tsop_numbers)

text \<open>
  A client only talks to its addresses: whatever calls it makes and however they end, its current
  address is the one address or a member of the list it was created with.
\<close>

theorem client_addresses:
  assumes "new_Client a options = Inr c" "a \<noteq> Addresses []"
  shows "configured a (cl_currentAddress (client_calls E parse c calls))"
  using new_Client_configured [OF assms] client_calls_configured [of c E parse calls] by simp

theorem client_addresses_witness:
  "\<exists>c. new_Client (Addresses [js ''a'', js ''b''])
       \<lparr>opt_chainId = None, opt_addressPrefix = None, opt_timeout = None, opt_failoverThreshold = None, opt_consoleOnFailover = None,
        opt_backoff = None, opt_agent = False\<rparr> = Inr c \<and>
     configured (Addresses [js ''a'', js ''b'']) (cl_currentAddress (client_calls example_env (\<lambda>v. undefined) c []))"
proof -
  let ?a = "Addresses [js ''a'', js ''b'']"
  let ?o = "\<lparr>opt_chainId = None, opt_addressPrefix = None, opt_timeout = None, opt_failoverThreshold = None,
    opt_consoleOnFailover = None, opt_backoff = None, opt_agent = False\<rparr>"
  have "length DEFAULT_CHAIN_ID = 32" by code_simp
  then obtain c where c: "new_Client ?a ?o = Inr c" by (simp add: new_Client_def assert_that_def)
  have "configured ?a (cl_currentAddress (client_calls example_env (\<lambda>v. undefined) c []))"
    by (rule client_addresses [OF c]) simp
  with c show ?thesis by blast
qed

section \<open>Applications\<close>

text \<open>
  The web interfaces and \<open>blurtjs\<close> accept the same names of accounts, except for the names on
  the list of bad actors, which the interfaces refuse.
\<close>

theorem web_names_agree:
  "validate_account_name bad s = None \<longleftrightarrow> validateAccountName (JStr s) = Inr JNull \<and> s \<notin> set bad"
  by (rule validate_account_name_None)

text \<open>
  The mobile application does not refuse a wrong password for a change of the profile. If the check rejects
  a password that is the text of some private key, then a reblog and a claim of rewards answer that the password is
  invalid, and the change of the profile is signed with this key and sent.
\<close>

theorem profile_update_unchecked:
  assumes "verifyPassoword E S c net username password = Inr (ac, kt)" "\<not> ts_truthy ac"
    "ts_PrivateKey_fromString E S password = Inr key"
  shows "reblog E S c net username password author permlink = Some (Inr invalid_password) \<and>
    claimRewardBalance E S c net username password = Some (Inr invalid_password) \<and>
    broadcastProfileUpdate E S c net username password profile =
       (let metadata = jsonStringify E (ObjV [(''profile'', profile)])
        in caught NullV (app_send E S c net [op ''account_update''
             (ObjV [(''account'', StrV username), (''json_metadata'', metadata), (''posting_json_metadata'', metadata),
                    (''extensions'', ArrV [])])] key))"
  using assms by (simp add: reblog_def claimRewardBalance_def with_password_def broadcastProfileUpdate_def PrivateKey_from_def Let_def)

theorem profile_update_unchecked_witness:
  "reblog lead_env example_secp example_client (example_network []) (js ''alice'') other_password (js ''bob'') (js ''post'') = Some (Inr invalid_password)"
  using profile_update_unchecked [OF example_other_rejected] by blast

end
