(* ===== verification/WebKeys.thy ===== *)
theory WebKeys
  imports TsKeys Signing Json
begin

text \<open>
  Keys and logins of the web interfaces (\<open>ui/wallet\<close> and \<open>ui/condenser\<close>, in \<open>src/app\<close>): the weight that keys have in
  an authority and the choice of a key to sign with (\<open>redux/AuthSaga.js\<close>), logins with a password or a private key
  (\<open>redux/UserSaga.js\<close>), the data of a saved login (\<open>utils/UserUtil.js\<close>), and the keys in the state
  (\<open>redux/UserReducer.js\<close>). A saga is the list of the actions it dispatches. What the node answers, the extension that keeps keys
  and the merging of maps are arguments; loading the lists of followed accounts and printing are left out. The lemmas show which keys are
  kept in the state and in the browser; \<open>held_key\<close> and \<open>key_of_account\<close> say that the state holds a key, and that a key is right for an account.
\<close>

section \<open>AuthSaga.js\<close>

text \<open>An authority of the chain, and an account as far as the code reads it\<close>

record authority =
  weight_threshold :: int
  account_auths :: "(jsstring \<times> int) list"
  key_auths :: "(jsstring \<times> int) list"

record web_account =
  wa_name :: jsstring
  wa_posting :: authority
  wa_active :: authority
  wa_owner :: authority
  wa_memo_key :: jsstring

datatype web_role = Posting | Active | Owner

datatype auth_level = NoAuth | PartialAuth | FullAuth

primrec role_authority :: "web_role \<Rightarrow> web_account \<Rightarrow> authority" where
  "role_authority Posting ac = wa_posting ac"
| "role_authority Active ac = wa_active ac"
| "role_authority Owner ac = wa_owner ac"

primrec role_text :: "web_role \<Rightarrow> string" where
  "role_text Posting = ''posting''"
| "role_text Active = ''active''"
| "role_text Owner = ''owner''"

definition role_key :: "web_role \<Rightarrow> string" where
  "role_key role = role_text role @ ''_private''"

text \<open>A map of private keys; a key of the map may have the value \<open>undefined\<close>.\<close>

type_synonym key_map = "(string \<times> int option) list"

definition get_key :: "key_map \<Rightarrow> string \<Rightarrow> int option" where
  "get_key m k = (case map_of m k of Some v \<Rightarrow> v | None \<Rightarrow> None)"

definition public_text :: "env \<Rightarrow> 'p ecc \<Rightarrow> int \<Rightarrow> jsstring" where
  "public_text E L d = toPublicKeyString E (address_prefix E) (PrivateKey_toPublic L d)"

definition toPub :: "env \<Rightarrow> 'p ecc \<Rightarrow> int option \<Rightarrow> jsstring" where
  "toPub E L k = (case k of Some d \<Rightarrow> public_text E L d | None \<Rightarrow> js ''-'')"

definition pubkeyThreshold :: "jsstring list \<Rightarrow> authority \<Rightarrow> int" where
  "pubkeyThreshold pubkeys auth =
     foldl (\<lambda>available (k, w). if k \<in> set pubkeys then available + w else available) 0 (key_auths auth)"

text \<open>
  What \<open>getAccountsAsync\<close> gives: an array, or a \<open>List\<close> of the package \<open>immutable\<close>. The loop over the accounts is bounded by \<open>size\<close>,
  which an array does not have: it does not run. For a \<open>List\<close> the account, instead of its authority, is passed on, and reading its
  \<open>key_auths\<close> throws.
\<close>

datatype accounts_reply = ReplyArray "web_account list" | ReplyList "web_account list"

definition threshold ::
  "(jsstring list \<Rightarrow> ts_error + accounts_reply) \<Rightarrow> jsstring list \<Rightarrow> authority \<Rightarrow> ts_error + int" where
  "threshold getAccounts pubkeys auth =
     (if pubkeys = [] then Inr 0
      else (let t = pubkeyThreshold pubkeys auth; aaNames = map fst (account_auths auth)
            in if aaNames = [] then Inr t
               else bindR (getAccounts aaNames) (\<lambda>aaAccounts.
                      case aaAccounts of
                        ReplyArray _ \<Rightarrow> Inr t
                      | ReplyList [] \<Rightarrow> Inr t
                      | ReplyList (aaAccount # _) \<Rightarrow> Inl (Js TypeError))))"

definition authStr ::
  "(jsstring list \<Rightarrow> ts_error + accounts_reply) \<Rightarrow> jsstring list \<Rightarrow> authority \<Rightarrow> ts_error + auth_level" where
  "authStr getAccounts pubkeys auth =
     bindR (threshold getAccounts pubkeys auth) (\<lambda>t.
       Inr (if weight_threshold auth \<le> t then FullAuth else if 0 < t then PartialAuth else NoAuth))"

record auth_levels =
  al_posting :: auth_level
  al_active :: auth_level
  al_owner :: auth_level
  al_memo :: auth_level

definition level_of_key ::
  "env \<Rightarrow> 'p ecc \<Rightarrow> (jsstring list \<Rightarrow> ts_error + accounts_reply) \<Rightarrow> int option \<Rightarrow> authority \<Rightarrow> ts_error + auth_level" where
  "level_of_key E L getAccounts key auth =
     (case key of Some d \<Rightarrow> authStr getAccounts [toPub E L key] auth | None \<Rightarrow> Inr NoAuth)"

text \<open>
  The levels of the keys and the public keys that were used. The condenser takes the active key
  for the owner key. Without keys, or without an entry for the posting key, nothing happens.
\<close>

definition accountAuthLookup ::
  "string \<Rightarrow> env \<Rightarrow> 'p ecc \<Rightarrow> (jsstring list \<Rightarrow> ts_error + accounts_reply) \<Rightarrow> web_account \<Rightarrow> key_map option \<Rightarrow> key_map option \<Rightarrow>
     ts_error + (auth_levels \<times> jsstring \<times> jsstring) option" where
  "accountAuthLookup owner_entry E L getAccounts ac given stored =
     (case (case given of Some keys \<Rightarrow> Some keys | None \<Rightarrow> stored) of
        None \<Rightarrow> Inr None
      | Some keys \<Rightarrow>
          if ''posting_private'' \<notin> fst ` set keys then Inr None
          else (let posting = get_key keys ''posting_private''; active = get_key keys ''active_private'';
                    owner = get_key keys owner_entry; memo = get_key keys ''memo_private''
                in bindR (level_of_key E L getAccounts posting (wa_posting ac)) (\<lambda>p.
                   bindR (level_of_key E L getAccounts active (wa_active ac)) (\<lambda>a.
                   bindR (level_of_key E L getAccounts owner (wa_owner ac)) (\<lambda>w.
                     Inr (Some (\<lparr>al_posting = p, al_active = a, al_owner = w,
                                 al_memo = (if wa_memo_key ac = toPub E L memo then FullAuth else NoAuth)\<rparr>,
                                toPub E L posting, toPub E L active)))))))"

definition wallet_owner_entry :: string where
  "wallet_owner_entry = ''owner_private''"

definition condenser_owner_entry :: string where
  "condenser_owner_entry = ''active_private''"

definition postingOps :: "jsstring list" where
  "postingOps = map js [''vote'', ''comment'', ''delete_comment'', ''custom_json'', ''claim_reward_balance'']"

definition signing_roles :: "jsstring \<Rightarrow> web_role list" where
  "signing_roles opType = (if opType \<in> set postingOps then [Posting, Active] else [Active, Owner])"

text \<open>A text or \<open>undefined\<close>, as a condition\<close>

definition given_text :: "jsstring option \<Rightarrow> bool" where
  "given_text t \<longleftrightarrow> (case t of Some s \<Rightarrow> s \<noteq> [] | None \<Rightarrow> False)"

text \<open>The key of a password for a role: the password itself, or the key made of it\<close>

definition password_key :: "env \<Rightarrow> 'p ecc \<Rightarrow> jsstring \<Rightarrow> string \<Rightarrow> jsstring \<Rightarrow> ts_error + int" where
  "password_key E L username role password =
     (case PrivateKey_fromWif E L password of
        Inr d \<Rightarrow> Inr d
      | Inl _ \<Rightarrow> js_err (PrivateKey_fromSeed E L (JStr (username @ js role @ password))))"

definition candidate_key ::
  "env \<Rightarrow> 'p ecc \<Rightarrow> jsstring \<Rightarrow> jsstring option \<Rightarrow> key_map option \<Rightarrow> web_role \<Rightarrow> ts_error + int option" where
  "candidate_key E L username password private_keys role =
     (if given_text password then bindR (password_key E L username (role_text role) (the password)) (\<lambda>d. Inr (Some d))
      else Inr (case private_keys of Some m \<Rightarrow> get_key m (role_key role) | None \<Rightarrow> None))"

fun first_full_key ::
  "env \<Rightarrow> 'p ecc \<Rightarrow> (jsstring list \<Rightarrow> ts_error + accounts_reply) \<Rightarrow> web_account \<Rightarrow> (web_role \<Rightarrow> ts_error + int option) \<Rightarrow>
     web_role list \<Rightarrow> ts_error + int option" where
  "first_full_key E L getAccounts ac key_of [] = Inr None"
| "first_full_key E L getAccounts ac key_of (role # rest) =
     bindR (key_of role) (\<lambda>key.
       case key of
         None \<Rightarrow> first_full_key E L getAccounts ac key_of rest
       | Some d \<Rightarrow>
           bindR (authStr getAccounts [public_text E L d] (role_authority role ac)) (\<lambda>level.
             if level = FullAuth then Inr (Some d) else first_full_key E L getAccounts ac key_of rest))"

text \<open>\<open>current\<close> is the name and the map of keys of the user who is logged in, \<open>getAccount\<close> what the saga of that name gives.\<close>

definition findSigningKey ::
  "env \<Rightarrow> 'p ecc \<Rightarrow> (jsstring list \<Rightarrow> ts_error + accounts_reply) \<Rightarrow> (jsstring \<Rightarrow> ts_error + web_account option) \<Rightarrow>
     (jsstring option \<times> key_map option) option \<Rightarrow> jsstring \<Rightarrow> jsstring option \<Rightarrow> jsstring option \<Rightarrow> ts_error + int option" where
  "findSigningKey E L getAccounts getAccount current opType username0 password =
     (let currentUsername = Option.bind current fst;
          username1 = (if given_text username0 then username0 else currentUsername)
      in if \<not> given_text username1 then Inr None
         else (let username = (if 47 \<in> set (the username1) then split_on 47 (the username1) ! 0 else the username1);
                   private_keys = (if currentUsername = Some username then snd (the current) else Some [])
               in bindR (getAccount username) (\<lambda>account.
                  case account of
                    None \<Rightarrow> Inl (Thrown ''Account not found'')
                  | Some ac \<Rightarrow>
                      first_full_key E L getAccounts ac (candidate_key E L username password private_keys) (signing_roles opType))))"

section \<open>UserUtil.js\<close>

text \<open>\<open>value || ''\<close> in a template\<close>

definition text_or_empty :: "jsstring option \<Rightarrow> jsstring" where
  "text_or_empty t = (case t of Some s \<Rightarrow> s | None \<Rightarrow> [])"

definition packLoginData :: "jsstring \<Rightarrow> jsstring \<Rightarrow> jsstring option \<Rightarrow> jsstring option \<Rightarrow> jsstring option \<Rightarrow> jsstring" where
  "packLoginData username password memoWif login_owner_pubkey login_with_keychain =
     toHex (node_encode (username @ 9 # password @ 9 # text_or_empty memoWif @ 9 # text_or_empty login_owner_pubkey @ 9 #
       text_or_empty login_with_keychain))"

definition extractLoginData :: "jsstring \<Rightarrow> jsstring list" where
  "extractLoginData data = split_on 9 (node_decode (fromHex data))"

text \<open>An element of an array, or \<open>undefined\<close>\<close>

definition element :: "'a list \<Rightarrow> nat \<Rightarrow> 'a option" where
  "element xs i = (if i < length xs then Some (xs ! i) else None)"

definition isLoggedInWithKeychain :: "bool \<Rightarrow> jsstring option \<Rightarrow> bool" where
  "isLoggedInWithKeychain hasCompatibleKeychain autopost2 \<longleftrightarrow>
     given_text autopost2 \<and> hasCompatibleKeychain \<and> given_text (element (extractLoginData (the autopost2)) 4)"

section \<open>UserSaga.js: logins\<close>

text \<open>
  What a saga dispatches or does outside: an error of the login, levels of the keys of an account, a user with keys,
  with the public owner key of the password and whether the extension holds the keys, the removal of the saved login, a record of
  a failed login, a login or logout at the server, and the request to save the login.
\<close>

datatype user_action =
    LoginFailed jsstring
  | SetAuthority jsstring auth_levels
  | SetUser jsstring "key_map option" "jsstring option" bool
  | HideLoginWarning
  | RemoveSavedLogin
  | RecordAttempt jsstring "jsstring option" "jsstring option" bool
  | ServerLogin jsstring "(string \<times> jsstring) list"
  | ServerLogout
  | SaveLogin

record login_input =
  li_username :: "jsstring option"
  li_password :: "jsstring option"
  li_useKeychain :: bool
  li_saveLogin :: bool
  li_operationType :: bool

text \<open>
  The saved login of the browser, whether the server knows an account, its challenge, the levels of keys in the
  state, and the answer of the extension to a request for a signature (an error message or a signature)
\<close>

record login_context =
  lc_autopost2 :: "jsstring option"
  lc_offchain_account :: bool
  lc_login_challenge :: "jsstring option"
  lc_authority :: "jsstring \<rightharpoonup> auth_levels"
  lc_keychain_signs :: "jsstring \<Rightarrow> jsstring + jsstring"

record login_data =
  ld_username :: "jsstring option"
  ld_password :: "jsstring option"
  ld_memoWif :: "jsstring option"
  ld_owner_pubkey :: "jsstring option"
  ld_keychain :: "jsstring option"
  ld_autopost :: bool

fun text_contains :: "jsstring \<Rightarrow> jsstring \<Rightarrow> bool" where
  "text_contains pat [] \<longleftrightarrow> pat = []"
| "text_contains pat (c # s) \<longleftrightarrow> starts_with pat (c # s) \<or> text_contains pat s"

definition clean :: "jsstring option \<Rightarrow> jsstring option" where
  "clean value =
     (case value of
        None \<Rightarrow> None
      | Some s \<Rightarrow> if s = [] \<or> text_contains (js ''null'') s \<or> text_contains (js ''undefined'') s then None else Some s)"

definition login_credentials :: "login_context \<Rightarrow> login_input \<Rightarrow> login_data" where
  "login_credentials ctx i =
     (if \<not> given_text (li_username i) \<and> \<not> given_text (li_password i) \<and> given_text (lc_autopost2 ctx)
      then (let d = extractLoginData (the (lc_autopost2 ctx))
            in \<lparr>ld_username = element d 0, ld_password = element d 1, ld_memoWif = clean (element d 2),
                ld_owner_pubkey = clean (element d 3), ld_keychain = element d 4, ld_autopost = True\<rparr>)
      else \<lparr>ld_username = li_username i, ld_password = li_password i, ld_memoWif = None, ld_owner_pubkey = None,
            ld_keychain = None, ld_autopost = False\<rparr>)"

text \<open>\<open>alice/active\<close>: the name and the role\<close>

definition split_role :: "jsstring \<Rightarrow> jsstring \<times> jsstring option" where
  "split_role username =
     (if 47 \<in> set username then (split_on 47 username ! 0, element (split_on 47 username) 1) else (username, None))"

definition is_role :: "jsstring option \<Rightarrow> string \<Rightarrow> bool" where
  "is_role userProvidedRole role \<longleftrightarrow> \<not> given_text userProvidedRole \<or> userProvidedRole = Some (js role)"

definition seed_key :: "env \<Rightarrow> 'p ecc \<Rightarrow> jsstring \<Rightarrow> jsstring \<Rightarrow> string \<Rightarrow> ts_error + int" where
  "seed_key E L username password role = js_err (PrivateKey_fromSeed E L (JStr (username @ js role @ password)))"

definition seed_role_key ::
  "env \<Rightarrow> 'p ecc \<Rightarrow> jsstring \<Rightarrow> jsstring \<Rightarrow> jsstring option \<Rightarrow> string \<Rightarrow> ts_error + int option" where
  "seed_role_key E L username password userProvidedRole role =
     (if is_role userProvidedRole role then bindR (seed_key E L username password role) (\<lambda>d. Inr (Some d)) else Inr None)"

text \<open>
  The keys of a password: those of the three roles that were asked for, and the memo key. A password that is no private key has the owner
  key made of it only in the wallet (\<open>with_owner\<close>). The other results are the public owner key of the password and the public key of a
  private key.
\<close>

definition login_keys ::
  "bool \<Rightarrow> env \<Rightarrow> 'p ecc \<Rightarrow> jsstring \<Rightarrow> jsstring option \<Rightarrow> login_data \<Rightarrow>
     ts_error + key_map \<times> jsstring option \<times> jsstring option" where
  "login_keys with_owner E L username userProvidedRole d =
     (let password = the (ld_password d); wif = PrivateKey_fromWif E L password
      in bindR (case wif of
            Inr private_key \<Rightarrow>
              (let role = (\<lambda>r. if is_role userProvidedRole r then Some private_key else None)
               in Inr ([(''posting_private'', role ''posting''), (''active_private'', role ''active''),
                        (''owner_private'', role ''owner''), (''memo_private'', Some private_key)],
                       ld_owner_pubkey d, Some (public_text E L private_key)))
          | Inl _ \<Rightarrow>
              bindR (seed_key E L username password ''owner'') (\<lambda>own.
              bindR (seed_role_key E L username password userProvidedRole ''posting'') (\<lambda>posting.
              bindR (seed_role_key E L username password userProvidedRole ''active'') (\<lambda>active.
              bindR (if with_owner then seed_role_key E L username password userProvidedRole ''owner'' else Inr None) (\<lambda>owner.
              bindR (seed_key E L username password ''memo'') (\<lambda>memo.
                Inr ([(''posting_private'', posting), (''active_private'', active)]
                       @ (if with_owner then [(''owner_private'', owner)] else []) @ [(''memo_private'', Some memo)],
                     Some (public_text E L own), None)))))))
          (\<lambda>(keys, owner_pubkey, wif_pubkey).
             if given_text (ld_memoWif d)
             then bindR (js_err (PrivateKey_fromWif E L (the (ld_memoWif d)))) (\<lambda>memo.
                    Inr (assoc_set ''memo_private'' (Some memo) keys, owner_pubkey, wif_pubkey))
             else Inr (keys, owner_pubkey, wif_pubkey)))"

definition remove_key :: "string \<Rightarrow> key_map \<Rightarrow> key_map" where
  "remove_key k keys = filter (\<lambda>(n, v). n \<noteq> k) keys"

definition remove_unless :: "bool \<Rightarrow> string \<Rightarrow> key_map \<Rightarrow> key_map" where
  "remove_unless c k keys = (if c then keys else remove_key k keys)"

definition no_full_level :: "auth_levels \<Rightarrow> bool" where
  "no_full_level l \<longleftrightarrow> FullAuth \<notin> {al_posting l, al_active l, al_owner l, al_memo l}"

definition first_auth_key :: "authority \<Rightarrow> jsstring option" where
  "first_auth_key auth = (case key_auths auth of [] \<Rightarrow> None | (k, w) # _ \<Rightarrow> Some k)"

definition generated_type :: "jsstring \<Rightarrow> bool" where
  "generated_type password \<longleftrightarrow> hd password = 80 \<and> 40 < length password"

text \<open>
  What is decided from the keys: the actions so far, and the keys that stay, or \<^term>\<open>None\<close> if the saga returns. The
  levels are read back from the state under the name that was given.
\<close>

definition wallet_authorize ::
  "env \<Rightarrow> 'p ecc \<Rightarrow> (jsstring list \<Rightarrow> ts_error + accounts_reply) \<Rightarrow> login_context \<Rightarrow> web_account \<Rightarrow> jsstring \<Rightarrow> jsstring \<Rightarrow>
     key_map \<Rightarrow> jsstring option \<Rightarrow> ts_error + user_action list \<times> key_map option" where
  "wallet_authorize E L getAccounts ctx ac username password private_keys login_owner_pubkey =
     bindR (accountAuthLookup wallet_owner_entry E L getAccounts ac (Some private_keys) None) (\<lambda>found.
       let state = (case found of Some (levels, _) \<Rightarrow> (lc_authority ctx)(wa_name ac \<mapsto> levels) | None \<Rightarrow> lc_authority ctx);
           set_authority = (case found of Some (levels, _) \<Rightarrow> [SetAuthority (wa_name ac) levels] | None \<Rightarrow> [])
       in case state username of
            None \<Rightarrow> Inl (Js TypeError)
          | Some l \<Rightarrow>
              if no_full_level l
              then Inr (set_authority @ [RemoveSavedLogin,
                          RecordAttempt username login_owner_pubkey (first_auth_key (wa_owner ac)) (generated_type password),
                          LoginFailed (js ''Incorrect Password'')], None)
              else Inr (set_authority,
                     Some (remove_unless (al_memo l = FullAuth) ''memo_private''
                       (remove_unless (al_owner l = FullAuth) ''owner_private''
                         (remove_unless (al_active l = FullAuth) ''active_private''
                           (remove_unless (al_posting l = FullAuth) ''posting_private'' private_keys))))))"

text \<open>
  The condenser refuses keys with the authority of the active or owner role, and an account whose posting key is one of these keys. The
  message of this refusal is shortened.
\<close>

definition condenser_authorize ::
  "env \<Rightarrow> 'p ecc \<Rightarrow> (jsstring list \<Rightarrow> ts_error + accounts_reply) \<Rightarrow> login_context \<Rightarrow> web_account \<Rightarrow> jsstring \<Rightarrow> jsstring \<Rightarrow>
     key_map \<Rightarrow> jsstring option \<Rightarrow> jsstring option \<Rightarrow> ts_error + user_action list \<times> key_map option" where
  "condenser_authorize E L getAccounts ctx ac username password private_keys login_owner_pubkey login_wif_owner_pubkey =
     bindR (accountAuthLookup condenser_owner_entry E L getAccounts ac (Some private_keys) None) (\<lambda>found.
       let state = (case found of Some (levels, _) \<Rightarrow> (lc_authority ctx)(wa_name ac \<mapsto> levels) | None \<Rightarrow> lc_authority ctx);
           set_authority = (case found of Some (levels, _) \<Rightarrow> [SetAuthority (wa_name ac) levels] | None \<Rightarrow> []);
           owner_pubkey = first_auth_key (wa_owner ac); active_pubkey = first_auth_key (wa_active ac);
           posting_pubkey = first_auth_key (wa_posting ac)
       in case state username of
            None \<Rightarrow> Inl (Js TypeError)
          | Some l0 \<Rightarrow>
              if al_active l0 = FullAuth then Inr (set_authority @ [LoginFailed (js ''active_login_blocked'')], None)
              else if al_owner l0 = FullAuth then Inr (set_authority @ [LoginFailed (js ''owner_login_blocked'')], None)
              else
                (let l = l0\<lparr>al_active := NoAuth\<rparr>; acts = set_authority @ [SetAuthority (wa_name ac) l]
                 in if no_full_level l then
                      Inr (acts @ [HideLoginWarning, RemoveSavedLogin]
                             @ (if login_owner_pubkey = owner_pubkey \<or> login_wif_owner_pubkey = owner_pubkey
                                then [LoginFailed (js ''owner_login_blocked'')]
                                else [RecordAttempt username login_owner_pubkey owner_pubkey (generated_type password),
                                      LoginFailed (js ''Incorrect Password'')]), None)
                    else
                      (let keys = remove_unless (al_active l = FullAuth) ''active_private''
                                    (remove_unless (al_posting l = FullAuth) ''posting_private'' private_keys)
                       in case (case map_of keys ''memo_private'' of
                                  None \<Rightarrow> Inr None | Some None \<Rightarrow> Inl (Js TypeError) | Some (Some d) \<Rightarrow> Inr (Some (public_text E L d))) of
                            Inl e \<Rightarrow> Inl e
                          | Inr memo_pubkey \<Rightarrow>
                              (let kept = remove_unless (\<not> (memo_pubkey \<noteq> Some (wa_memo_key ac) \<or>
                                             memo_pubkey \<noteq> None \<and> (memo_pubkey = owner_pubkey \<or> memo_pubkey = active_pubkey)))
                                           ''memo_private'' keys
                               in if posting_pubkey = owner_pubkey \<or> posting_pubkey = active_pubkey
                                  then Inr (acts @ [LoginFailed (js ''posting only login''), RemoveSavedLogin], None)
                                  else Inr (acts, Some kept)))))"

text \<open>
  The login at the server, which signs a challenge with the posting key; its exceptions are caught. The second result says whether the saga goes
  on. A signature that is never found keeps the saga from returning.
\<close>

definition server_login ::
  "env \<Rightarrow> 'p ecc \<Rightarrow> login_context \<Rightarrow> bool \<Rightarrow> jsstring \<Rightarrow> key_map \<Rightarrow> (user_action list \<times> bool) option" where
  "server_login E L ctx useKeychain username private_keys =
     (if lc_offchain_account ctx \<or> \<not> given_text (lc_login_challenge ctx) then Some ([], True)
      else (let buf = json_object [(js ''token'', json_quote (the (lc_login_challenge ctx)))]; bufSha = sha256 E (node_encode buf)
            in if useKeychain
               then (case lc_keychain_signs ctx buf of
                       Inl message \<Rightarrow> Some ([LoginFailed message], False)
                     | Inr sg \<Rightarrow> Some ([SetUser username None None True, ServerLogin username [(''posting'', sg)]], True))
               else (case get_key private_keys ''posting_private'' of
                       None \<Rightarrow> Some ([ServerLogin username []], True)
                     | Some d \<Rightarrow>
                         map_option (\<lambda>r. case bindR r (Signature_toHex L) of
                             Inl e \<Rightarrow> ([], True)
                           | Inr sg \<Rightarrow> ([ServerLogin username [(''posting'', sg)]], True))
                           (signBufferSha256 E L bufSha (KeyObject d)))))"

definition finish_login ::
  "env \<Rightarrow> 'p ecc \<Rightarrow> login_context \<Rightarrow> login_input \<Rightarrow> bool \<Rightarrow> jsstring \<Rightarrow> key_map \<Rightarrow> user_action list \<Rightarrow> (ts_error + user_action list) option" where
  "finish_login E L ctx i autopost username private_keys acts =
     map_option (\<lambda>(more, go_on). Inr (acts @ more @ (if go_on \<and> \<not> autopost \<and> li_saveLogin i then [SaveLogin] else [])))
       (server_login E L ctx (li_useKeychain i) username private_keys)"

text \<open>
  \<open>usernamePasswordLogin\<close>. The list of blocked names is empty in the wallet. The keys stay in the state unless the login is for one
  operation and is not to be saved.
\<close>

definition web_login ::
  "bool \<Rightarrow> jsstring list \<Rightarrow>
     (web_account \<Rightarrow> jsstring \<Rightarrow> jsstring \<Rightarrow> key_map \<Rightarrow> jsstring option \<Rightarrow> jsstring option \<Rightarrow> ts_error + user_action list \<times> key_map option) \<Rightarrow>
     env \<Rightarrow> 'p ecc \<Rightarrow> (jsstring \<Rightarrow> ts_error + web_account option) \<Rightarrow> login_context \<Rightarrow> login_input \<Rightarrow>
     (ts_error + user_action list) option" where
  "web_login with_owner blocked authorize E L getAccount ctx i =
     (let d = login_credentials ctx i
      in if \<not> given_text (ld_username d) \<or> \<not> (given_text (ld_password d) \<or> li_useKeychain i \<or> given_text (ld_keychain d))
         then Some (Inr (if lc_offchain_account ctx then [ServerLogout] else []))
         else (let (username, userProvidedRole) = split_role (the (ld_username d))
               in case getAccount username of
                    Inl e \<Rightarrow> Some (Inl e)
                  | Inr None \<Rightarrow> Some (Inr [LoginFailed (js ''Username does not exist'')])
                  | Inr (Some ac) \<Rightarrow>
                      if username \<noteq> [] \<and> username \<in> set blocked then Some (Inr [LoginFailed (js ''terms_violation'')])
                      else if given_text (ld_keychain d) then Some (Inr [SetUser username None None True])
                      else if li_useKeychain i then finish_login E L ctx i (ld_autopost d) username [] []
                      else (case bindR (login_keys with_owner E L username userProvidedRole d) (\<lambda>(keys, owner_pubkey, wif_pubkey).
                                   bindR (authorize ac username (the (ld_password d)) keys owner_pubkey wif_pubkey) (\<lambda>r.
                                     Inr (r, owner_pubkey))) of
                              Inl e \<Rightarrow> Some (Inl e)
                            | Inr ((acts, None), _) \<Rightarrow> Some (Inr acts)
                            | Inr ((acts, Some keys), owner_pubkey) \<Rightarrow>
                                (let keep = \<not> li_operationType i \<or> li_saveLogin i
                                 in finish_login E L ctx i (ld_autopost d) username keys
                                      (acts @ [if keep then SetUser username (Some keys) owner_pubkey False
                                               else SetUser username None None False])))))"

definition wallet_login ::
  "env \<Rightarrow> 'p ecc \<Rightarrow> (jsstring list \<Rightarrow> ts_error + accounts_reply) \<Rightarrow> (jsstring \<Rightarrow> ts_error + web_account option) \<Rightarrow> login_context \<Rightarrow>
     login_input \<Rightarrow> (ts_error + user_action list) option" where
  "wallet_login E L getAccounts getAccount ctx =
     web_login True [] (\<lambda>ac username password keys owner wif. wallet_authorize E L getAccounts ctx ac username password keys owner)
       E L getAccount ctx"

definition condenser_login ::
  "jsstring list \<Rightarrow> env \<Rightarrow> 'p ecc \<Rightarrow> (jsstring list \<Rightarrow> ts_error + accounts_reply) \<Rightarrow> (jsstring \<Rightarrow> ts_error + web_account option) \<Rightarrow>
     login_context \<Rightarrow> login_input \<Rightarrow> (ts_error + user_action list) option" where
  "condenser_login dmca E L getAccounts getAccount ctx =
     web_login False dmca (condenser_authorize E L getAccounts ctx) E L getAccount ctx"

section \<open>The saved login\<close>

text \<open>The user in the state\<close>

record user_record =
  us_username :: "jsstring option"
  us_private_keys :: "key_map option"
  us_owner_pubkey :: "jsstring option"
  us_keychain :: bool

text \<open>
  \<open>saveLogin_localStorage\<close> in a browser: what is stored afterwards. The old data are removed first; an exception of the search through
  the keys of the account ends it.
\<close>

definition saveLogin_localStorage :: "env \<Rightarrow> 'p ecc \<Rightarrow> (jsstring \<rightharpoonup> web_account) \<Rightarrow> user_record \<Rightarrow> jsstring option" where
  "saveLogin_localStorage E L accounts u =
     (if \<not> us_keychain u \<and> us_private_keys u = None then None
      else if \<not> given_text (us_username u) then None
      else (let username = the (us_username u);
                posting_private = (case us_private_keys u of Some m \<Rightarrow> get_key m ''posting_private'' | None \<Rightarrow> None)
            in if \<not> us_keychain u \<and> posting_private = None then None
               else (case accounts username of
                       None \<Rightarrow> None
                     | Some ac \<Rightarrow>
                         (let postingPubkey = (case posting_private of Some d \<Rightarrow> public_text E L d | None \<Rightarrow> js ''none'')
                          in if postingPubkey \<in> fst ` set (key_auths (wa_active ac)) then None
                             else if postingPubkey \<in> fst ` set (key_auths (wa_owner ac)) then None
                             else (let memoWif = (case us_private_keys u of
                                         Some m \<Rightarrow> map_option (PrivateKey_toWif E L) (get_key m ''memo_private'') | None \<Rightarrow> None);
                                       postingPrivateWif = (case posting_private of Some d \<Rightarrow> PrivateKey_toWif E L d | None \<Rightarrow> js ''none'')
                                   in Some (packLoginData username postingPrivateWif memoWif (us_owner_pubkey u)
                                        (if us_keychain u then Some (js ''true'') else None)))))))"

section \<open>UserReducer.js: the keys in the state\<close>

record user_state =
  st_current :: "user_record option"
  st_authority :: "jsstring \<rightharpoonup> (string \<rightharpoonup> auth_level)"
  st_login_error :: "jsstring option"
  st_logged_out :: bool

definition logged_out_state :: user_state where
  "logged_out_state = \<lparr>st_current = None, st_authority = Map.empty, st_login_error = None, st_logged_out = True\<rparr>"

definition levels_map :: "auth_levels \<Rightarrow> string \<rightharpoonup> auth_level" where
  "levels_map l = [''posting'' \<mapsto> al_posting l, ''active'' \<mapsto> al_active l, ''owner'' \<mapsto> al_owner l, ''memo'' \<mapsto> al_memo l]"

text \<open>
  \<open>SET_USER\<close> merges the new user deeply into the current one; \<open>merge\<close> is the merging of two maps of keys. The public owner key is a
  field of the new user when the keys are.
\<close>

definition merge_user ::
  "(key_map \<Rightarrow> key_map \<Rightarrow> key_map) \<Rightarrow> user_record option \<Rightarrow> jsstring \<Rightarrow> key_map option \<Rightarrow> jsstring option \<Rightarrow> bool \<Rightarrow> user_record" where
  "merge_user merge current username keys owner_pubkey keychain =
     (case current of
        None \<Rightarrow> \<lparr>us_username = Some username, us_private_keys = keys, us_owner_pubkey = owner_pubkey, us_keychain = keychain\<rparr>
      | Some u \<Rightarrow>
          \<lparr>us_username = Some username,
           us_private_keys = (case keys of
               None \<Rightarrow> us_private_keys u
             | Some new \<Rightarrow> Some (case us_private_keys u of None \<Rightarrow> new | Some old \<Rightarrow> merge old new)),
           us_owner_pubkey = (if keys = None then us_owner_pubkey u else owner_pubkey),
           us_keychain = (us_keychain u \<or> keychain)\<rparr>)"

definition user_reducer :: "(key_map \<Rightarrow> key_map \<Rightarrow> key_map) \<Rightarrow> user_state \<Rightarrow> user_action \<Rightarrow> user_state" where
  "user_reducer merge st action =
     (case action of
        LoginFailed e \<Rightarrow> st\<lparr>st_login_error := Some e, st_logged_out := False\<rparr>
      | SetAuthority name levels \<Rightarrow> st\<lparr>st_authority := (st_authority st)(name \<mapsto> levels_map levels)\<rparr>
      | SetUser username keys owner_pubkey keychain \<Rightarrow>
          st\<lparr>st_current := Some (merge_user merge (st_current st) username keys owner_pubkey keychain), st_logged_out := False\<rparr>
      | _ \<Rightarrow> st)"

text \<open>\<open>REMOVE_HIGH_SECURITY_KEYS\<close>; the wallet deletes the active and the owner key, the condenser the active key. A state without a key left is
  that of a logout.\<close>

definition removeHighSecurityKeys :: "string list \<Rightarrow> user_state \<Rightarrow> user_state" where
  "removeHighSecurityKeys high st =
     (case st_current st of
        None \<Rightarrow> st
      | Some u \<Rightarrow>
          (case us_private_keys u of
             None \<Rightarrow> st
           | Some keys \<Rightarrow>
               (let rest = fold remove_key high keys
                in if rest = [] then logged_out_state
                   else (let name = text_or_empty (us_username u);
                             none = (\<lambda>role a. a(name \<mapsto> (case a name of Some m \<Rightarrow> m | None \<Rightarrow> Map.empty)(role \<mapsto> NoAuth)))
                         in st\<lparr>st_current := Some (u\<lparr>us_private_keys := Some rest\<rparr>),
                               st_authority := none ''owner'' (none ''active'' (st_authority st))\<rparr>))))"

definition wallet_high_keys :: "string list" where
  "wallet_high_keys = [''active_private'', ''owner_private'']"

definition condenser_high_keys :: "string list" where
  "condenser_high_keys = [''active_private'']"

text \<open>The pages of the wallet that keep the keys: \<open>/\/@.+\/(transfers|...)/\<close> and the other paths, anywhere in the path\<close>

definition line_char :: "code_unit \<Rightarrow> bool" where
  "line_char c \<longleftrightarrow> c \<notin> {10, 13, 0x2028, 0x2029}"

fun section_after :: "jsstring list \<Rightarrow> jsstring \<Rightarrow> bool" where
  "section_after sections [] \<longleftrightarrow> False"
| "section_after sections (c # s) \<longleftrightarrow> line_char c \<and> (list_ex (\<lambda>x. starts_with x s) sections \<or> section_after sections s)"

fun account_section :: "jsstring list \<Rightarrow> jsstring \<Rightarrow> bool" where
  "account_section sections [] \<longleftrightarrow> False"
| "account_section sections (c # s) \<longleftrightarrow>
     c = 47 \<and> (case s of d # r \<Rightarrow> d = 64 \<and> section_after sections r | [] \<Rightarrow> False) \<or> account_section sections s"

definition highSecurityPage :: "jsstring \<Rightarrow> bool" where
  "highSecurityPage pathname \<longleftrightarrow>
     text_contains (js ''/market'') pathname \<or>
     account_section (map js [''/transfers'', ''/permissions'', ''/password'', ''/communities'', ''/delegations'']) pathname \<or>
     text_contains (js ''/~witnesses'') pathname \<or> text_contains (js ''/proposals'') pathname"

definition wallet_page_change :: "jsstring \<Rightarrow> user_state \<Rightarrow> user_state" where
  "wallet_page_change pathname st =
     (if highSecurityPage pathname then st else removeHighSecurityKeys wallet_high_keys st)"

section \<open>A key with full authority\<close>

text \<open>The weights that an authority gives to the public key of a private key reach its threshold.\<close>

definition key_full :: "env \<Rightarrow> 'p ecc \<Rightarrow> int \<Rightarrow> authority \<Rightarrow> bool" where
  "key_full E L d auth \<longleftrightarrow> weight_threshold auth \<le> (\<Sum>(k, w)\<leftarrow>key_auths auth. if k = public_text E L d then w else 0)"

lemma pubkeyThreshold_sum: "pubkeyThreshold ks auth = (\<Sum>(k, w)\<leftarrow>key_auths auth. if k \<in> set ks then w else 0)"
proof -
  have "foldl (\<lambda>available (k, w). if k \<in> set ks then available + w else available) a xs =
    a + (\<Sum>(k, w)\<leftarrow>xs. if k \<in> set ks then w else 0)" for a xs
    by (induction xs arbitrary: a) (auto simp: add.assoc)
  from this [of 0 "key_auths auth"] show ?thesis by (simp add: pubkeyThreshold_def)
qed

lemma threshold_Inr:
  assumes "threshold g ks auth = Inr t" "ks \<noteq> []"
  shows "t = pubkeyThreshold ks auth"
proof (cases "account_auths auth = []")
  case False
  then obtain r where "(case r of ReplyArray _ \<Rightarrow> Inr (pubkeyThreshold ks auth) | ReplyList [] \<Rightarrow> Inr (pubkeyThreshold ks auth)
      | ReplyList (a # _) \<Rightarrow> Inl (Js TypeError)) = (Inr t :: ts_error + int)"
    using assms by (auto simp: threshold_def Let_def bindR_eq_Inr)
  then show ?thesis by (auto split: accounts_reply.splits list.splits)
qed (use assms in \<open>simp add: threshold_def\<close>)

lemma authStr_Inr:
  assumes "authStr g [public_text E L d] auth = Inr level"
  shows "level = FullAuth \<longleftrightarrow> key_full E L d auth"
  using assms threshold_Inr [of g "[public_text E L d]" auth]
  by (auto simp: authStr_def bindR_eq_Inr key_full_def pubkeyThreshold_sum split: if_splits)

lemma level_of_key_Inr:
  "level_of_key E L g key auth = Inr level \<Longrightarrow> level = FullAuth \<longleftrightarrow> (\<exists>d. key = Some d \<and> key_full E L d auth)"
  by (cases key) (auto simp: level_of_key_def toPub_def dest: authStr_Inr)

lemma accountAuthLookup_levels:
  assumes "accountAuthLookup entry E L g ac (Some keys) None = Inr (Some (l, pubs))"
  shows "al_posting l = FullAuth \<longleftrightarrow> (\<exists>d. get_key keys ''posting_private'' = Some d \<and> key_full E L d (wa_posting ac))"
    "al_active l = FullAuth \<longleftrightarrow> (\<exists>d. get_key keys ''active_private'' = Some d \<and> key_full E L d (wa_active ac))"
    "al_owner l = FullAuth \<longleftrightarrow> (\<exists>d. get_key keys entry = Some d \<and> key_full E L d (wa_owner ac))"
    "al_memo l = FullAuth \<longleftrightarrow> wa_memo_key ac = toPub E L (get_key keys ''memo_private'')"
  using assms
  by (auto simp: accountAuthLookup_def Let_def bindR_eq_Inr dest!: level_of_key_Inr split: if_splits)

lemma first_full_key_Inr:
  "first_full_key E L g ac key_of rs = Inr (Some d) \<Longrightarrow>
     \<exists>role \<in> set rs. key_of role = Inr (Some d) \<and> key_full E L d (role_authority role ac)"
  by (induction rs) (auto simp: bindR_eq_Inr dest: authStr_Inr split: option.splits if_splits)

lemma findSigningKey_Inr:
  assumes "findSigningKey E L g getAccount current opType username password = Inr (Some d)"
  obtains name ac role where "getAccount name = Inr (Some ac)" "role \<in> set (signing_roles opType)"
    "key_full E L d (role_authority role ac)"
    "if given_text password then password_key E L name (role_text role) (the password) = Inr d
     else \<exists>m. current = Some (Some name, Some m) \<and> get_key m (role_key role) = Some d"
proof -
  from assms obtain name ac keys where a: "getAccount name = Inr (Some ac)"
    "first_full_key E L g ac (candidate_key E L name password keys) (signing_roles opType) = Inr (Some d)"
    "keys = (if Option.bind current fst = Some name then snd (the current) else Some [])"
    by (auto simp: findSigningKey_def Let_def bindR_eq_Inr split: if_splits option.splits)
  obtain role where r: "role \<in> set (signing_roles opType)" "candidate_key E L name password keys role = Inr (Some d)"
    "key_full E L d (role_authority role ac)" using first_full_key_Inr [OF a(2)] by blast
  then have "if given_text password then password_key E L name (role_text role) (the password) = Inr d
     else \<exists>m. current = Some (Some name, Some m) \<and> get_key m (role_key role) = Some d"
    using a(3) by (cases current) (auto simp: candidate_key_def bindR_eq_Inr get_key_def split: if_splits option.splits)
  with that a(1) r(1,3) show thesis by blast
qed

section \<open>The keys that stay after a login\<close>

lemma map_of_remove_unless: "map_of (remove_unless c k keys) n = (if \<not> c \<and> n = k then None else map_of keys n)"
  by (induction keys) (auto simp: remove_unless_def remove_key_def)

lemma get_remove_unless [simp]:
  "get_key (remove_unless c k keys) n = Some d \<longleftrightarrow> (n = k \<longrightarrow> c) \<and> get_key keys n = Some d"
  by (simp add: get_key_def map_of_remove_unless)

text \<open>What a login dispatches apart from the outcome of its check of the keys sets no keys, and the check sets no user.\<close>

lemma sum_cases: "(case r of Inl e \<Rightarrow> g e | Inr v \<Rightarrow> f v) = x \<Longrightarrow> (\<And>e. g e = x \<Longrightarrow> P) \<Longrightarrow> (\<And>v. f v = x \<Longrightarrow> P) \<Longrightarrow> P"
  by (cases r) auto

lemma server_login_keys:
  assumes "server_login E L ctx kc username keys = Some (extra, go)"
  shows "SetUser u (Some ks) own c \<notin> set extra"
  using assms by (auto simp: server_login_def Let_def elim!: sum_cases split: if_splits option.splits)

lemma finish_login_keys:
  assumes "finish_login E L ctx i autopost username keys acts = Some (Inr out)" "SetUser u (Some ks) own kc \<in> set out"
  shows "SetUser u (Some ks) own kc \<in> set acts"
  using assms by (auto simp: finish_login_def dest: server_login_keys split: if_splits)

lemma web_login_keys:
  assumes "web_login with_owner blocked authorize E L getAccount ctx i = Some (Inr out)" "SetUser u (Some ks) own kc \<in> set out"
    and none: "\<And>ac u' pw keys own' wif acts r. authorize ac u' pw keys own' wif = Inr (acts, r) \<Longrightarrow> SetUser u (Some ks) own kc \<notin> set acts"
  obtains d role ac keys wif acts where "split_role (the (ld_username (login_credentials ctx i))) = (u, role)" "d = login_credentials ctx i"
    "getAccount u = Inr (Some ac)" "u \<noteq> [] \<longrightarrow> u \<notin> set blocked"
    "login_keys with_owner E L u role d = Inr (keys, own, wif)"
    "authorize ac u (the (ld_password d)) keys own wif = Inr (acts, Some ks)"
proof -
  obtain name role where sr: "split_role (the (ld_username (login_credentials ctx i))) = (name, role)" by fastforce
  let ?d = "login_credentials ctx i"
  from assms(1,2) sr obtain ac where ac: "getAccount name = Inr (Some ac)" "name \<noteq> [] \<longrightarrow> name \<notin> set blocked"
    by (auto simp: web_login_def Let_def split: if_splits sum.splits option.splits)
  then obtain keys owner wif acts r where k: "login_keys with_owner E L name role ?d = Inr (keys, owner, wif)"
    "authorize ac name (the (ld_password ?d)) keys owner wif = Inr (acts, r)" 
    "(case r of None \<Rightarrow> out = acts | Some kept \<Rightarrow>
        finish_login E L ctx i (ld_autopost ?d) name kept (acts @ [if \<not> li_operationType i \<or> li_saveLogin i
          then SetUser name (Some kept) owner False else SetUser name None None False]) = Some (Inr out))"
    using assms(1,2) sr
    by (fastforce simp: web_login_def Let_def bindR_eq_Inr dest: finish_login_keys split: if_splits sum.splits option.splits prod.splits)
  show thesis
  proof (cases r)
    case None
    then show thesis using k none assms(2) by auto
  next
    case (Some kept)
    then have f: "finish_login E L ctx i (ld_autopost ?d) name kept (acts @ [if \<not> li_operationType i \<or> li_saveLogin i
        then SetUser name (Some kept) owner False else SetUser name None None False]) = Some (Inr out)"
      using k(3) by simp
    have "u = name" "ks = kept" "own = owner"
      using finish_login_keys [OF f assms(2)] none [OF k(2)] by (auto split: if_splits)
    with that sr ac k Some show thesis by blast
  qed
qed

lemma login_keys_posting:
  assumes "login_keys with_owner E L username role d = Inr (keys, own, wif)"
  shows "''posting_private'' \<in> fst ` set keys"
proof -
  have "map_of keys ''posting_private'' \<noteq> None"
    using assms by (auto simp: login_keys_def Let_def bindR_eq_Inr map_of_assoc_set elim!: sum_cases split: if_splits)
  then show ?thesis by (simp add: map_of_eq_None_iff)
qed

lemma login_keys_wif:
  assumes "login_keys with_owner E L username role d = Inr (keys, own, wif)"
    "PrivateKey_fromWif E L (the (ld_password d)) = Inr k" "\<not> given_text role"
  shows "get_key keys ''active_private'' = Some k"
  using assms by (auto simp: login_keys_def Let_def bindR_eq_Inr map_of_assoc_set get_key_def is_role_def split: if_splits)

lemma accountAuthLookup_some:
  assumes "accountAuthLookup entry E L g ac (Some keys) None = Inr found" "''posting_private'' \<in> fst ` set keys"
  obtains l pubs where "found = Some (l, pubs)"
  using assms by (auto simp: accountAuthLookup_def Let_def bindR_eq_Inr)

lemma wallet_authorize_kept:
  assumes "wallet_authorize E L g ctx ac (wa_name ac) pw keys own = Inr (acts, Some ks)" "''posting_private'' \<in> fst ` set keys"
  shows "get_key ks ''posting_private'' = Some d \<Longrightarrow> key_full E L d (wa_posting ac)"
    "get_key ks ''active_private'' = Some d \<Longrightarrow> key_full E L d (wa_active ac)"
    "get_key ks ''owner_private'' = Some d \<Longrightarrow> key_full E L d (wa_owner ac)"
    "get_key ks ''memo_private'' = Some d \<Longrightarrow> wa_memo_key ac = public_text E L d"
proof -
  obtain found where f: "accountAuthLookup wallet_owner_entry E L g ac (Some keys) None = Inr found"
    using assms(1) by (auto simp: wallet_authorize_def bindR_eq_Inr)
  then obtain l pubs where l: "found = Some (l, pubs)" by (rule accountAuthLookup_some [OF _ assms(2)])
  have ks: "ks = remove_unless (al_memo l = FullAuth) ''memo_private'' (remove_unless (al_owner l = FullAuth) ''owner_private''
      (remove_unless (al_active l = FullAuth) ''active_private'' (remove_unless (al_posting l = FullAuth) ''posting_private'' keys)))"
    using assms(1) by (simp add: wallet_authorize_def f l Let_def split: if_splits)
  note levels = accountAuthLookup_levels [OF f [unfolded l]]
  show "get_key ks ''posting_private'' = Some d \<Longrightarrow> key_full E L d (wa_posting ac)"
    "get_key ks ''active_private'' = Some d \<Longrightarrow> key_full E L d (wa_active ac)"
    "get_key ks ''owner_private'' = Some d \<Longrightarrow> key_full E L d (wa_owner ac)"
    "get_key ks ''memo_private'' = Some d \<Longrightarrow> wa_memo_key ac = public_text E L d"
    using levels by (auto simp: ks wallet_owner_entry_def toPub_def)
qed

definition sets_no_user :: "ts_error + user_action list \<times> key_map option \<Rightarrow> bool" where
  "sets_no_user r \<longleftrightarrow> (case r of Inl e \<Rightarrow> True | Inr (acts, k) \<Rightarrow> \<forall>a \<in> set acts. \<forall>n ks own kc. a \<noteq> SetUser n ks own kc)"

lemma sets_no_user_simps [simp]:
  "sets_no_user (Inl e)" "sets_no_user (Inr (acts, k)) \<longleftrightarrow> (\<forall>a \<in> set acts. \<forall>n ks own kc. a \<noteq> SetUser n ks own kc)"
  by (simp_all add: sets_no_user_def)

lemma sets_no_user_bindR: "(\<And>x. sets_no_user (f x)) \<Longrightarrow> sets_no_user (bindR r f)"
  by (cases r) (simp_all add: bindR_def)

lemma authorize_sets_no_user:
  "sets_no_user (wallet_authorize E L g ctx ac u pw keys own)" "sets_no_user (condenser_authorize E L g ctx ac u pw keys own wif)"
  unfolding wallet_authorize_def condenser_authorize_def Let_def
  by (rule sets_no_user_bindR, simp split: option.split sum.split)+

lemma authorize_no_user:
  "wallet_authorize E L g ctx ac u pw keys own = Inr (acts, r) \<Longrightarrow> SetUser n ks own' kc \<notin> set acts"
  "condenser_authorize E L g ctx ac u pw keys own wif = Inr (acts, r) \<Longrightarrow> SetUser n ks own' kc \<notin> set acts"
  using authorize_sets_no_user(1) [of E L g ctx ac u pw keys own] authorize_sets_no_user(2) [of E L g ctx ac u pw keys own wif]
  by (simp_all) blast+

lemma condenser_authorize_kept:
  assumes "condenser_authorize E L g ctx ac (wa_name ac) pw keys own wif = Inr (acts, Some ks)" "''posting_private'' \<in> fst ` set keys"
  shows "get_key ks ''active_private'' = None"
    "get_key ks ''posting_private'' = Some d \<Longrightarrow> key_full E L d (wa_posting ac)"
    "get_key ks ''memo_private'' = Some d \<Longrightarrow> wa_memo_key ac = public_text E L d \<and>
       first_auth_key (wa_owner ac) \<noteq> Some (public_text E L d) \<and> first_auth_key (wa_active ac) \<noteq> Some (public_text E L d)"
    "get_key keys ''active_private'' = Some d \<Longrightarrow> \<not> key_full E L d (wa_active ac) \<and> \<not> key_full E L d (wa_owner ac)"
    "first_auth_key (wa_posting ac) \<noteq> first_auth_key (wa_owner ac) \<and> first_auth_key (wa_posting ac) \<noteq> first_auth_key (wa_active ac)"
    "get_key ks n = Some d \<Longrightarrow> get_key keys n = Some d"
proof -
  obtain found where f: "accountAuthLookup condenser_owner_entry E L g ac (Some keys) None = Inr found"
    using assms(1) by (auto simp: condenser_authorize_def bindR_eq_Inr)
  then obtain l pubs where l: "found = Some (l, pubs)" by (rule accountAuthLookup_some [OF _ assms(2)])
  note levels = accountAuthLookup_levels [OF f [unfolded l]]
  let ?keys = "remove_unless False ''active_private'' (remove_unless (al_posting l = FullAuth) ''posting_private'' keys)"
  obtain pub where m: "(case map_of ?keys ''memo_private'' of None \<Rightarrow> Inr None | Some None \<Rightarrow> Inl (Js TypeError)
      | Some (Some d) \<Rightarrow> Inr (Some (public_text E L d))) = (Inr pub :: ts_error + jsstring option)"
    "ks = remove_unless (pub = Some (wa_memo_key ac) \<and> Some (wa_memo_key ac) \<noteq> first_auth_key (wa_owner ac) \<and>
       Some (wa_memo_key ac) \<noteq> first_auth_key (wa_active ac))
       ''memo_private'' ?keys"
    and c: "al_active l \<noteq> FullAuth" "al_owner l \<noteq> FullAuth"
    "first_auth_key (wa_posting ac) \<noteq> first_auth_key (wa_owner ac)" "first_auth_key (wa_posting ac) \<noteq> first_auth_key (wa_active ac)"
    using assms(1) by (auto simp: condenser_authorize_def f l Let_def split: if_splits sum.splits)
  then have memo: "get_key ks ''memo_private'' = Some d \<Longrightarrow> wa_memo_key ac = public_text E L d \<and>
      first_auth_key (wa_owner ac) \<noteq> Some (public_text E L d) \<and> first_auth_key (wa_active ac) \<noteq> Some (public_text E L d)"
    by (auto simp: get_key_def map_of_remove_unless split: option.splits if_splits)
  have "\<not> get_key ks ''active_private'' = Some k" for k by (simp add: m(2))
  then show "get_key ks ''active_private'' = None" by (cases "get_key ks ''active_private''") auto
  show "get_key ks ''posting_private'' = Some d \<Longrightarrow> key_full E L d (wa_posting ac)" using levels(1) by (auto simp: m(2))
  show "get_key ks ''memo_private'' = Some d \<Longrightarrow> wa_memo_key ac = public_text E L d \<and>
       first_auth_key (wa_owner ac) \<noteq> Some (public_text E L d) \<and> first_auth_key (wa_active ac) \<noteq> Some (public_text E L d)"
    by (rule memo)
  show "get_key keys ''active_private'' = Some d \<Longrightarrow> \<not> key_full E L d (wa_active ac) \<and> \<not> key_full E L d (wa_owner ac)"
    using levels(2,3) c(1,2) by (simp add: condenser_owner_entry_def)
  show "first_auth_key (wa_posting ac) \<noteq> first_auth_key (wa_owner ac) \<and> first_auth_key (wa_posting ac) \<noteq> first_auth_key (wa_active ac)"
    using c(3,4) ..
  show "get_key ks n = Some d \<Longrightarrow> get_key keys n = Some d" by (simp add: m(2))
qed

lemma condenser_login_parts:
  assumes "condenser_login dmca E L g getAccount ctx i = Some (Inr acts)" "SetUser name (Some keys) own kc \<in> set acts"
  obtains role ac ks wif acts' where "split_role (the (ld_username (login_credentials ctx i))) = (name, role)"
    "getAccount name = Inr (Some ac)" "login_keys False E L name role (login_credentials ctx i) = Inr (ks, own, wif)"
    "condenser_authorize E L g ctx ac name (the (ld_password (login_credentials ctx i))) ks own wif = Inr (acts', Some keys)"
proof (rule web_login_keys [OF assms(1) [unfolded condenser_login_def] assms(2)])
  fix ac u pw ks own' wif acts' r
  assume "condenser_authorize E L g ctx ac u pw ks own' wif = Inr (acts', r)"
  then show "SetUser name (Some keys) own kc \<notin> set acts'" by (rule authorize_no_user(2))
next
  fix d role ac ks wif acts'
  assume "split_role (the (ld_username (login_credentials ctx i))) = (name, role)" "d = login_credentials ctx i"
    "getAccount name = Inr (Some ac)" "login_keys False E L name role d = Inr (ks, own, wif)"
    "condenser_authorize E L g ctx ac name (the (ld_password d)) ks own wif = Inr (acts', Some keys)"
  then show thesis using that by simp
qed

section \<open>The saved login is read back\<close>

lemma wf16_append: "wf16 s \<Longrightarrow> wf16 t \<Longrightarrow> wf16 (s @ t)"
  by (induction s rule: wf16.induct) (auto split: list.splits if_splits)

lemma wf16_tab: "wf16 (9 # s) \<longleftrightarrow> wf16 s"
  by (simp add: surrogate_def)

lemma split_field: "9 \<notin> set s \<Longrightarrow> split_on 9 (s @ 9 # t) = s # split_on 9 t" for s :: jsstring
  by (induction s) auto

lemma split_last: "9 \<notin> set s \<Longrightarrow> split_on 9 s = [s]" for s :: jsstring
  by (induction s) auto

definition field_ok :: "jsstring \<Rightarrow> bool" where
  "field_ok s \<longleftrightarrow> wf16 s \<and> 9 \<notin> set s"

lemma extract_pack:
  assumes "field_ok u" "field_ok p" "field_ok (text_or_empty m)" "field_ok (text_or_empty w)" "field_ok (text_or_empty k)"
  shows "extractLoginData (packLoginData u p m w k) = [u, p, text_or_empty m, text_or_empty w, text_or_empty k]"
proof -
  have "wf16 (u @ 9 # p @ 9 # text_or_empty m @ 9 # text_or_empty w @ 9 # text_or_empty k)"
    using assms by (simp add: field_ok_def wf16_append wf16_tab del: wf16.simps(2))
  then show ?thesis
    using assms by (simp add: extractLoginData_def packLoginData_def node_decode_encode field_ok_def split_field split_last)
qed

lemma saveLogin_parts:
  assumes "saveLogin_localStorage E L accounts u = Some data" "\<not> us_keychain u"
  obtains name ac keys d where "us_username u = Some name" "name \<noteq> []" "accounts name = Some ac" "us_private_keys u = Some keys"
    "get_key keys ''posting_private'' = Some d"
    "public_text E L d \<notin> fst ` set (key_auths (wa_active ac))" "public_text E L d \<notin> fst ` set (key_auths (wa_owner ac))"
    "data = packLoginData name (PrivateKey_toWif E L d) (map_option (PrivateKey_toWif E L) (get_key keys ''memo_private''))
       (us_owner_pubkey u) None"
  using assms
  by (auto simp: saveLogin_localStorage_def Let_def given_text_def split: if_splits option.splits)

section \<open>The keys in the state\<close>

lemma key_of_no_role:
  "public_text E L d \<notin> fst ` set (key_auths auth) \<Longrightarrow> 0 < weight_threshold auth \<Longrightarrow> \<not> key_full E L d auth"
proof -
  assume a: "public_text E L d \<notin> fst ` set (key_auths auth)" "0 < weight_threshold auth"
  have "(\<Sum>(k, w)\<leftarrow>xs. if k = public_text E L d then w else 0) = 0" if "public_text E L d \<notin> fst ` set xs" for xs :: "(jsstring \<times> int) list"
    using that by (induction xs) auto
  with a show ?thesis by (simp add: key_full_def)
qed

lemma fold_remove_key: "(n, v) \<in> set (fold remove_key high keys) \<longleftrightarrow> (n, v) \<in> set keys \<and> n \<notin> set high"
  by (induction high arbitrary: keys) (auto simp: remove_key_def)

lemma high_keys_removed:
  assumes "st_current (removeHighSecurityKeys high st) = Some u" "us_private_keys u = Some keys" "n \<in> set high"
  shows "n \<notin> fst ` set keys"
  using assms by (auto simp: removeHighSecurityKeys_def logged_out_state_def Let_def fold_remove_key split: option.splits if_splits)

text \<open>What the package \<open>immutable\<close> documents of merging maps: the entries of the second replace those of the first.\<close>

definition merge_ok :: "(key_map \<Rightarrow> key_map \<Rightarrow> key_map) \<Rightarrow> bool" where
  "merge_ok merge \<longleftrightarrow> (\<forall>a b n. map_of (merge a b) n = (case map_of b n of Some v \<Rightarrow> Some v | None \<Rightarrow> map_of a n))"

lemma merged_keys:
  assumes "merge_ok merge" "st_current st = Some u" "us_private_keys u = Some old" "n \<notin> fst ` set keys"
  shows "\<exists>u' all. st_current (user_reducer merge st (SetUser name (Some keys) own kc)) = Some u' \<and> us_username u' = Some name \<and>
    us_private_keys u' = Some all \<and> get_key all n = get_key old n"
proof -
  have "map_of keys n = None" using assms(4) by (simp add: map_of_eq_None_iff)
  with assms show ?thesis by (simp add: user_reducer_def merge_user_def merge_ok_def get_key_def)
qed

section \<open>The keys in the state after a login\<close>

definition held_key :: "user_state \<Rightarrow> string \<Rightarrow> int \<Rightarrow> bool" where
  "held_key st n d \<longleftrightarrow> (\<exists>u keys. st_current st = Some u \<and> us_private_keys u = Some keys \<and> get_key keys n = Some d)"

lemma get_key_merge: "merge_ok merge \<Longrightarrow> get_key (merge a b) n = Some d \<Longrightarrow> get_key a n = Some d \<or> get_key b n = Some d"
  by (auto simp: merge_ok_def get_key_def split: option.splits)

lemma held_key_step:
  assumes "merge_ok merge" "held_key (user_reducer merge st a) n d"
  shows "held_key st n d \<or> (\<exists>name keys own kc. a = SetUser name (Some keys) own kc \<and> get_key keys n = Some d)"
  using assms(2) get_key_merge [OF assms(1), of _ _ n d]
  by (cases a) (auto simp: user_reducer_def held_key_def merge_user_def split: option.splits)

text \<open>A key in the state was there before, or one of the actions sets it.\<close>

lemma held_key_actions:
  assumes "merge_ok merge" "held_key (foldl (user_reducer merge) st acts) n d"
  shows "held_key st n d \<or> (\<exists>name keys own kc. SetUser name (Some keys) own kc \<in> set acts \<and> get_key keys n = Some d)"
  using assms(2)
proof (induction acts arbitrary: st)
  case (Cons a acts)
  with held_key_step [OF assms(1), of st a n d] show ?case by fastforce
qed simp

lemma current_after_user:
  assumes "\<And>m ks own kc. SetUser m ks own kc \<in> set acts \<Longrightarrow> m = name" "SetUser name ks own kc \<in> set acts"
    "st_current (foldl (user_reducer merge) st acts) = Some u"
  shows "us_username u = Some name"
  using assms
proof (induction acts arbitrary: u ks own kc rule: rev_induct)
  case (snoc a acts)
  let ?st = "foldl (user_reducer merge) st acts"
  show ?case
  proof (cases "\<exists>m ks own kc. a = SetUser m ks own kc")
    case True
    then obtain m ks' own' kc' where "a = SetUser m ks' own' kc'" by blast
    with snoc.prems(1) [of m ks' own' kc'] snoc.prems(3) show ?thesis
      by (auto simp: user_reducer_def merge_user_def split: option.splits)
  next
    case False
    then have "st_current (user_reducer merge ?st a) = st_current ?st" by (cases a) (auto simp: user_reducer_def)
    then have "st_current ?st = Some u" using snoc.prems(3) by simp
    moreover have "SetUser name ks own kc \<in> set acts" using False snoc.prems(2) by auto
    moreover have "SetUser m ks own kc \<in> set acts \<Longrightarrow> m = name" for m ks own kc by (rule snoc.prems(1) [of m ks own kc]) simp
    ultimately show ?thesis by (intro snoc.IH)
  qed
qed simp

text \<open>Every user that a login sets is the one it is for.\<close>

lemma server_login_name:
  assumes "server_login E L ctx kc username keys = Some (extra, go)" "SetUser u ks own c \<in> set extra"
  shows "u = username"
  using assms by (auto simp: server_login_def Let_def elim!: sum_cases split: if_splits option.splits)

lemma finish_login_name:
  assumes "finish_login E L ctx i autopost username keys acts = Some (Inr out)" "SetUser m ks own kc \<in> set out"
  shows "m = username \<or> SetUser m ks own kc \<in> set acts"
  using assms
  by (auto simp: finish_login_def dest: server_login_name split: if_splits)

lemma web_login_name:
  assumes "web_login with_owner blocked authorize E L getAccount ctx i = Some (Inr out)" "SetUser m ks own kc \<in> set out"
    and none: "\<And>ac u pw keys own' wif acts r. authorize ac u pw keys own' wif = Inr (acts, r) \<Longrightarrow> SetUser m ks own kc \<notin> set acts"
  shows "m = fst (split_role (the (ld_username (login_credentials ctx i))))"
proof -
  let ?d = "login_credentials ctx i"
  obtain name role where sr: "split_role (the (ld_username ?d)) = (name, role)" by fastforce
  show ?thesis
  proof (cases "out = [SetUser name None None True] \<or> (\<exists>keys. finish_login E L ctx i (ld_autopost ?d) name keys [] = Some (Inr out))")
    case True
    then show ?thesis using assms(2) sr by (auto dest: finish_login_name [OF _ assms(2)])
  next
    case False
    with assms(1,2) sr obtain ac keys owner wif acts r where k: "authorize ac name (the (ld_password ?d)) keys owner wif = Inr (acts, r)"
      "(case r of None \<Rightarrow> out = acts | Some kept \<Rightarrow>
        finish_login E L ctx i (ld_autopost ?d) name kept (acts @ [if \<not> li_operationType i \<or> li_saveLogin i
          then SetUser name (Some kept) owner False else SetUser name None None False]) = Some (Inr out))"
      by (fastforce simp: web_login_def Let_def bindR_eq_Inr split: if_splits sum.splits option.splits prod.splits)
    show ?thesis
    proof (cases r)
      case None
      with k none assms(2) show ?thesis by auto
    next
      case (Some kept)
      then have "finish_login E L ctx i (ld_autopost ?d) name kept (acts @ [if \<not> li_operationType i \<or> li_saveLogin i
          then SetUser name (Some kept) owner False else SetUser name None None False]) = Some (Inr out)" using k(2) by simp
      from finish_login_name [OF this assms(2)] none [OF k(1)] sr show ?thesis by (auto split: if_splits)
    qed
  qed
qed

text \<open>The user and the keys in the state after a login that sets keys\<close>

lemma login_state:
  assumes "merge_ok merge" "st_current (foldl (user_reducer merge) st acts) = Some u" "us_private_keys u = Some keys" "get_key keys n = Some d"
    and name: "\<And>m ks own kc. SetUser m ks own kc \<in> set acts \<Longrightarrow> m = name"
  shows "held_key st n d \<or>
    (\<exists>ks own kc. us_username u = Some name \<and> SetUser name (Some ks) own kc \<in> set acts \<and> get_key ks n = Some d)"
proof -
  have "held_key (foldl (user_reducer merge) st acts) n d" using assms(2-4) by (simp add: held_key_def)
  from held_key_actions [OF assms(1) this] consider "held_key st n d"
    | m ks own kc where "SetUser m (Some ks) own kc \<in> set acts" "get_key ks n = Some d" by blast
  then show ?thesis
  proof cases
    case 2
    then have "SetUser name (Some ks) own kc \<in> set acts" using name by blast
    moreover have "us_username u = Some name"
    proof (rule current_after_user [OF _ _ assms(2)])
      show "SetUser m ks own kc \<in> set acts \<Longrightarrow> m = name" for m ks own kc by (rule name)
    qed fact
    ultimately show ?thesis using 2(2) by blast
  qed simp
qed

lemma wallet_login_name:
  assumes "wallet_login E L g getAccount ctx i = Some (Inr acts)" "SetUser m ks own kc \<in> set acts"
  shows "m = fst (split_role (the (ld_username (login_credentials ctx i))))"
  by (rule web_login_name [OF assms(1) [unfolded wallet_login_def] assms(2) authorize_no_user(1)])

lemma condenser_login_name:
  assumes "condenser_login dmca E L g getAccount ctx i = Some (Inr acts)" "SetUser m ks own kc \<in> set acts"
  shows "m = fst (split_role (the (ld_username (login_credentials ctx i))))"
  by (rule web_login_name [OF assms(1) [unfolded condenser_login_def] assms(2) authorize_no_user(2)])

text \<open>The entries of the map of keys, and when an entry is right for an account\<close>

definition key_of_account :: "env \<Rightarrow> 'p ecc \<Rightarrow> web_account \<Rightarrow> string \<Rightarrow> int \<Rightarrow> bool" where
  "key_of_account E L ac n d \<longleftrightarrow>
     (\<exists>role. n = role_key role \<and> key_full E L d (role_authority role ac)) \<or> n = ''memo_private'' \<and> wa_memo_key ac = public_text E L d"

definition key_entries :: "string set" where
  "key_entries = {''posting_private'', ''active_private'', ''owner_private'', ''memo_private''}"

lemma key_entries_cases:
  assumes "n \<in> key_entries"
  obtains "n = ''posting_private''" | "n = ''active_private''" | "n = ''owner_private''" | "n = ''memo_private''"
  using assms by (simp only: key_entries_def insert_iff empty_iff simp_thms) (elim disjE)

lemma key_entries_all [simp]:
  "''posting_private'' \<in> key_entries" "''active_private'' \<in> key_entries" "''owner_private'' \<in> key_entries" "''memo_private'' \<in> key_entries"
  by (simp_all add: key_entries_def)

lemma get_key_entry: "get_key keys n = Some d \<Longrightarrow> n \<in> fst ` set keys"
  by (cases "map_of keys n") (auto simp: get_key_def dest: map_of_SomeD intro: rev_image_eqI)

lemma keys_assoc_set: "fst ` set (assoc_set k v m) = insert k (fst ` set m)"
  by (induction k v m rule: assoc_set.induct) auto

lemma login_keys_entries:
  assumes "login_keys with_owner E L username role d = Inr (keys, own, wif)" "get_key keys n = Some k"
  shows "n \<in> key_entries"
proof -
  have "fst ` set keys \<subseteq> key_entries"
    using assms(1)
    by (cases "PrivateKey_fromWif E L (the (ld_password d))")
      (auto simp: login_keys_def Let_def bindR_eq_Inr keys_assoc_set split: if_splits)
  with get_key_entry [OF assms(2)] show ?thesis by blast
qed

lemma wallet_authorize_subset:
  assumes "wallet_authorize E L g ctx ac u pw keys own = Inr (acts, Some ks)" "get_key ks n = Some d"
  shows "get_key keys n = Some d"
  using assms by (auto simp: wallet_authorize_def Let_def bindR_eq_Inr split: if_splits option.splits)

lemma condenser_owner_entry_key:
  assumes "login_keys False E L username role d = Inr (keys, own, wif)" "get_key keys ''owner_private'' = Some k"
  shows "PrivateKey_fromWif E L (the (ld_password d)) = Inr k"
  using assms by (cases "PrivateKey_fromWif E L (the (ld_password d))") (auto simp: login_keys_def Let_def bindR_eq_Inr map_of_assoc_set get_key_def split: if_splits)

text \<open>The maps of keys that the two logins set\<close>

lemma wallet_set_keys:
  assumes "wallet_login E L ask getAccount ctx i = Some (Inr acts)" "SetUser name (Some ks) own kc \<in> set acts" "get_key ks n = Some d"
    and names: "\<And>n ac. getAccount n = Inr (Some ac) \<Longrightarrow> wa_name ac = n"
  shows "\<exists>ac. getAccount name = Inr (Some ac) \<and> key_of_account E L ac n d"
proof -
  obtain ac pw keys role dat wif acts' where ac: "getAccount name = Inr (Some ac)" "login_keys True E L name role dat = Inr (keys, own, wif)"
    "wallet_authorize E L ask ctx ac name pw keys own = Inr (acts', Some ks)"
    by (rule web_login_keys [OF assms(1) [unfolded wallet_login_def] assms(2) authorize_no_user(1)])
  note kept = wallet_authorize_kept [OF ac(3) [folded names [OF ac(1)]] login_keys_posting [OF ac(2)]]
  have "n \<in> key_entries" using login_keys_entries [OF ac(2)] wallet_authorize_subset [OF ac(3) assms(3)] .
  then have "key_of_account E L ac n d"
  proof (cases rule: key_entries_cases)
    case 1
    then show ?thesis using kept(1) assms(3) by (auto simp: key_of_account_def role_key_def intro!: exI [of _ Posting])
  next
    case 2
    then show ?thesis using kept(2) assms(3) by (auto simp: key_of_account_def role_key_def intro!: exI [of _ Active])
  next
    case 3
    then show ?thesis using kept(3) assms(3) by (auto simp: key_of_account_def role_key_def intro!: exI [of _ Owner])
  next
    case 4
    then show ?thesis using kept(4) assms(3) by (simp add: key_of_account_def)
  qed
  with ac(1) show ?thesis by blast
qed

lemma condenser_set_keys:
  assumes "condenser_login dmca E L ask getAccount ctx i = Some (Inr acts)" "SetUser name (Some ks) own kc \<in> set acts" "get_key ks n = Some d"
    and names: "\<And>n ac. getAccount n = Inr (Some ac) \<Longrightarrow> wa_name ac = n"
  shows "\<exists>ac. getAccount name = Inr (Some ac) \<and>
    (n = ''posting_private'' \<and> key_full E L d (wa_posting ac) \<or>
     n = ''memo_private'' \<and> wa_memo_key ac = public_text E L d \<and>
       first_auth_key (wa_owner ac) \<noteq> Some (public_text E L d) \<and> first_auth_key (wa_active ac) \<noteq> Some (public_text E L d) \<or>
     n = ''owner_private'' \<and> PrivateKey_fromWif E L (the (ld_password (login_credentials ctx i))) = Inr d) \<and>
    (\<forall>k. PrivateKey_fromWif E L (the (ld_password (login_credentials ctx i))) = Inr k \<and>
         \<not> given_text (snd (split_role (the (ld_username (login_credentials ctx i))))) \<longrightarrow>
       \<not> key_full E L k (wa_active ac) \<and> \<not> key_full E L k (wa_owner ac))"
proof -
  let ?d = "login_credentials ctx i"
  obtain role ac keys wif acts' where ac: "split_role (the (ld_username ?d)) = (name, role)" "getAccount name = Inr (Some ac)"
    "login_keys False E L name role ?d = Inr (keys, own, wif)"
    "condenser_authorize E L ask ctx ac name (the (ld_password ?d)) keys own wif = Inr (acts', Some ks)"
    by (rule condenser_login_parts [OF assms(1,2)])
  note kept = condenser_authorize_kept [OF ac(4) [folded names [OF ac(2)]] login_keys_posting [OF ac(3)]]
  have refused: "\<not> key_full E L k (wa_active ac) \<and> \<not> key_full E L k (wa_owner ac)"
    if "PrivateKey_fromWif E L (the (ld_password ?d)) = Inr k" "\<not> given_text (snd (split_role (the (ld_username ?d))))" for k
    using kept(4) login_keys_wif [OF ac(3) that(1)] that(2) ac(1) by simp
  have "n \<in> key_entries" using login_keys_entries [OF ac(3) kept(6) [OF assms(3)]] .
  then have "n = ''posting_private'' \<and> key_full E L d (wa_posting ac) \<or>
     n = ''memo_private'' \<and> wa_memo_key ac = public_text E L d \<and>
       first_auth_key (wa_owner ac) \<noteq> Some (public_text E L d) \<and> first_auth_key (wa_active ac) \<noteq> Some (public_text E L d) \<or>
     n = ''owner_private'' \<and> PrivateKey_fromWif E L (the (ld_password ?d)) = Inr d"
  proof (cases rule: key_entries_cases)
    case 1
    then show ?thesis using kept(2) assms(3) by simp
  next
    case 2
    then show ?thesis using kept(1) assms(3) by simp
  next
    case 3
    then show ?thesis using condenser_owner_entry_key [OF ac(3)] kept(6) [OF assms(3)] by simp
  next
    case 4
    then show ?thesis using kept(3) assms(3) by simp
  qed
  with ac(2) refused show ?thesis by blast
qed
end
