(* ===== verification/WebTransactions.thy ===== *)
theory WebTransactions
  imports WebKeys Memo
begin

text \<open>
  The broadcast of operations by the web interfaces (\<open>redux/TransactionSaga.js\<close> of \<open>ui/wallet\<close>, in \<open>src/app\<close>; the condenser's
  \<open>broadcastOperation\<close> and \<open>hasPrivateKeys\<close> are the same code): the search for private keys in what is published, the choice of keys, the
  encryption of memos, and the operations that recover an account and replace its keys. An operation is its type and a value. The lemmas
  show when a key in a text is found, with which keys an operation is sent, and that a memo after \<open>#\<close> is not sent in the clear.
\<close>

section \<open>Private keys in a text\<close>

text \<open>The alphabet of base 58, and \<open>/P?(5[...]{50})/\<close> at the start of a text: the group and what follows the match\<close>

definition base58_char :: "code_unit \<Rightarrow> bool" where
  "base58_char c \<longleftrightarrow> is_digit c \<and> c \<noteq> 48 \<or> 65 \<le> c \<and> c \<le> 90 \<and> c \<noteq> 73 \<and> c \<noteq> 79 \<or> 97 \<le> c \<and> c \<le> 122 \<and> c \<noteq> 108"

definition key_match :: "jsstring \<Rightarrow> (jsstring \<times> jsstring) option" where
  "key_match s =
     (let r = (case s of [] \<Rightarrow> [] | c # r \<Rightarrow> if c = 80 then r else s)
      in if 51 \<le> length r \<and> hd r = 53 \<and> list_all base58_char (take 50 (tl r)) then Some (take 51 r, drop 51 r) else None)"

lemma key_match_rest: "key_match s = Some (m, r) \<Longrightarrow> length r < length s"
  by (auto simp: key_match_def Let_def split: if_splits list.splits)

text \<open>The loop over the matches goes on after a match that is no key.\<close>

function has_key_text :: "env \<Rightarrow> 'p ecc \<Rightarrow> jsstring \<Rightarrow> bool" where
  "has_key_text E L s =
     (case key_match s of
        Some (m, r) \<Rightarrow> PrivateKey_isWif E L m \<or> has_key_text E L r
      | None \<Rightarrow> (case s of [] \<Rightarrow> False | c # s' \<Rightarrow> has_key_text E L s'))"
  by pat_completeness auto
termination
  by (relation "measure (\<lambda>(E, L, s). length s)") (auto dest: key_match_rest)

declare has_key_text.simps [simp del]

definition hasPrivateKeys :: "env \<Rightarrow> 'p ecc \<Rightarrow> (jsstring \<times> jsval) list \<Rightarrow> js_error + bool" where
  "hasPrivateKeys E L operations =
     bindR (JSON_stringify (JArr (map (\<lambda>(ty, opn). JArr [JStr ty, opn]) operations))) (\<lambda>blob.
       Inr (case blob of Some t \<Rightarrow> has_key_text E L t | None \<Rightarrow> False))"

section \<open>Before the broadcast\<close>

text \<open>\<open>symbol.replace('BLURT', 'BLURT')\<close>: only a text has \<open>replace\<close>, which changes nothing here.\<close>

definition toSteemSymbols :: "jsval \<Rightarrow> js_error + jsval" where
  "toSteemSymbols symbol = (case symbol of JStr s \<Rightarrow> Inr (JStr s) | _ \<Rightarrow> Inl TypeError)"

definition replace_symbol :: "string \<Rightarrow> jsval \<Rightarrow> js_error + jsval" where
  "replace_symbol field opn =
     bindR (js_get opn field) (\<lambda>v. bindR (toSteemSymbols v) (\<lambda>v'.
       case opn of JObj kvs \<Rightarrow> Inr (JObj (assoc_set field v' kvs)) | _ \<Rightarrow> Inr opn))"

definition makeSteemCompatible :: "jsstring \<Rightarrow> jsval \<Rightarrow> js_error + jsval" where
  "makeSteemCompatible ty opn =
     (if ty = js ''limit_order_create'' then bindR (replace_symbol ''amount_to_sell'' opn) (replace_symbol ''min_to_receive'')
      else if ty = js ''claim_reward_balance'' then replace_symbol ''reward_blurt'' opn
      else if ty = js ''account_create'' then replace_symbol ''fee'' opn
      else bindR (js_get opn ''amount'') (\<lambda>amount.
             if js_truthy amount then replace_symbol ''amount'' opn else Inr opn))"

text \<open>What the encryption of a memo needs, and \<open>toString\<close> of a value that is no text and no buffer\<close>

record memo_context =
  mc_aes :: aes
  mc_works :: bool
  mc_nonce :: jsval
  mc_toString :: "jsval \<Rightarrow> jsstring"

definition toStringUtf8 :: "memo_context \<Rightarrow> jsval \<Rightarrow> jsstring" where
  "toStringUtf8 M v = (case v of JStr s \<Rightarrow> s | JBuf bs \<Rightarrow> node_decode bs | _ \<Rightarrow> mc_toString M v)"

definition preBroadcast_transfer ::
  "env \<Rightarrow> 'p ecc \<Rightarrow> memo_context \<Rightarrow> (jsval \<Rightarrow> ts_error + web_account option) \<Rightarrow> int option \<Rightarrow> jsval \<Rightarrow> ts_error + jsval" where
  "preBroadcast_transfer E L M getAccount memo_key_of_user opn =
     bindR (js_err (js_get opn ''memo'')) (\<lambda>memo0.
       let memoStr = js_trim (toStringUtf8 M memo0)
       in if \<not> js_truthy memo0 \<or> \<not> is_hash_memo memoStr then Inr opn
          else (case memo_key_of_user of
                  None \<Rightarrow> Inl (Thrown ''Unable to encrypt memo, missing memo private key'')
                | Some d \<Rightarrow>
                    bindR (js_err (js_get opn ''to'')) (\<lambda>to'.
                    bindR (getAccount to') (\<lambda>account.
                      case account of
                        None \<Rightarrow> Inl (Thrown ''Unknown to account'')
                      | Some ac \<Rightarrow>
                          bindR (js_err (memo_encode E L (mc_aes M) (mc_works M) (KeyObject d) (JStr (wa_memo_key ac)) (JStr memoStr) (mc_nonce M)))
                            (\<lambda>encoded. case opn of
                               JObj kvs \<Rightarrow> Inr (JObj (assoc_set ''memo'' (JStr encoded) kvs)) | _ \<Rightarrow> Inr opn)))))"

definition preBroadcast_account_witness_vote :: "jsstring option \<Rightarrow> jsval \<Rightarrow> ts_error + jsval" where
  "preBroadcast_account_witness_vote username opn =
     bindR (js_err (js_get opn ''account'')) (\<lambda>account.
       if js_truthy account then Inr opn
       else case opn of
         JObj kvs \<Rightarrow> Inr (JObj (assoc_set ''account'' (case username of Some s \<Rightarrow> JStr s | None \<Rightarrow> JUndef) kvs))
       | _ \<Rightarrow> Inr opn)"

definition pre_broadcast ::
  "env \<Rightarrow> 'p ecc \<Rightarrow> memo_context \<Rightarrow> (jsval \<Rightarrow> ts_error + web_account option) \<Rightarrow> int option \<Rightarrow> jsstring option \<Rightarrow> jsstring \<times> jsval \<Rightarrow>
     ts_error + jsstring \<times> jsval" where
  "pre_broadcast E L M getAccount memo_key_of_user username = (\<lambda>(ty, opn0).
     bindR (js_err (makeSteemCompatible ty opn0)) (\<lambda>opn.
     bindR (if ty = js ''transfer'' then preBroadcast_transfer E L M getAccount memo_key_of_user opn
            else if ty = js ''account_witness_vote'' then preBroadcast_account_witness_vote username opn
            else Inr opn) (\<lambda>op'. Inr (ty, op'))))"

section \<open>Broadcast\<close>

text \<open>
  What is done with an operation: a question to the user, with or without the warning about a private key, the prompt of the login,
  the report of an error, a transaction that is signed with keys and sent, or one that is handed to the extension with a name and the
  type of its authority
\<close>

datatype tx_action =
    ConfirmOperation bool
  | ShowLogin
  | ErrorCallback ts_error
  | BroadcastSend "(jsstring \<times> jsval) list" "int list"
  | RequestBroadcast "jsstring option" "(jsstring \<times> jsval) list" string

record tx_request =
  tx_type :: jsstring
  tx_operation :: jsval
  tx_confirm :: bool
  tx_keys :: "int list option"
  tx_username :: "jsstring option"
  tx_password :: "jsstring option"
  tx_allowPostUnsafe :: bool

text \<open>
  The state that \<open>broadcastOperation\<close> reads: the user, whether the extension holds the keys, the settings (the number \<open>bump\<close> of the browser is 0 when it is
  not set), and what \<open>getAccount\<close> and the node give
\<close>

record tx_context =
  tc_current :: "(jsstring option \<times> key_map option) option"
  tc_keychain :: bool
  tc_read_only :: bool
  tc_bump :: int
  tc_memo :: memo_context
  tc_getAccount :: "jsstring \<Rightarrow> ts_error + web_account option"
  tc_getAccountOf :: "jsval \<Rightarrow> ts_error + web_account option"
  tc_getAccounts :: "jsstring list \<Rightarrow> ts_error + accounts_reply"

definition current_memo_key :: "(jsstring option \<times> key_map option) option \<Rightarrow> int option" where
  "current_memo_key current = (case current of Some (_, Some keys) \<Rightarrow> get_key keys ''memo_private'' | _ \<Rightarrow> None)"

text \<open>\<open>broadcastPayload\<close> up to the call that sends; what follows the answer of the node is left out. With \<open>bump\<close> 1 or 2 nothing is sent: the
  answer is made up.\<close>

definition broadcastPayload ::
  "env \<Rightarrow> 'p ecc \<Rightarrow> tx_context \<Rightarrow> (jsstring \<times> jsval) list \<Rightarrow> int list \<Rightarrow> jsstring option \<Rightarrow> ts_error + tx_action list" where
  "broadcastPayload E L ctx operations keys username0 =
     (if tc_read_only ctx then Inr []
      else bindR (mapR (pre_broadcast E L (tc_memo ctx) (tc_getAccountOf ctx) (current_memo_key (tc_current ctx)) username0) operations) (\<lambda>ops.
             let username = (if given_text username0 then username0 else Option.bind (tc_current ctx) fst);
                 needsActiveAuth = list_ex (\<lambda>(ty, _). ty \<notin> set postingOps) operations
             in Inr (if tc_bump ctx = 1 \<or> tc_bump ctx = 2 then []
                     else [if \<not> tc_keychain ctx then BroadcastSend ops keys
                           else RequestBroadcast username ops (if needsActiveAuth then ''active'' else ''posting'')])))"

text \<open>\<open>try { ... } catch (error) { errorCallback(error) }\<close>\<close>

definition reported :: "ts_error + tx_action list \<Rightarrow> tx_action list" where
  "reported r = (case r of Inl e \<Rightarrow> [ErrorCallback e] | Inr acts \<Rightarrow> acts)"

text \<open>The part in \<open>try\<close>: without keys and without the extension, a key is looked for; a wrong password leaves none.\<close>

definition sign_and_send :: "env \<Rightarrow> 'p ecc \<Rightarrow> tx_context \<Rightarrow> tx_request \<Rightarrow> ts_error + tx_action list" where
  "sign_and_send E L ctx rq =
     (let payload = (\<lambda>keys. broadcastPayload E L ctx [(tx_type rq, tx_operation rq)] keys (tx_username rq))
      in if tc_keychain ctx \<or> (tx_keys rq \<noteq> None \<and> tx_keys rq \<noteq> Some [])
         then payload (case tx_keys rq of Some ks \<Rightarrow> ks | None \<Rightarrow> [])
         else bindR (findSigningKey E L (tc_getAccounts ctx) (tc_getAccount ctx) (tc_current ctx) (tx_type rq) (tx_username rq)
                 (tx_password rq)) (\<lambda>signingKey.
                case signingKey of
                  Some d \<Rightarrow> payload [d]
                | None \<Rightarrow> if \<not> given_text (tx_password rq) then Inr [ShowLogin] else payload []))"

definition broadcastOperation :: "env \<Rightarrow> 'p ecc \<Rightarrow> tx_context \<Rightarrow> tx_request \<Rightarrow> js_error + tx_action list" where
  "broadcastOperation E L ctx rq =
     (if tx_confirm rq then Inr [ConfirmOperation False]
      else bindR (if tx_allowPostUnsafe rq then Inr False else hasPrivateKeys E L [(tx_type rq, tx_operation rq)]) (\<lambda>unsafe.
        if unsafe then Inr [ConfirmOperation True] else Inr (reported (sign_and_send E L ctx rq))))"

section \<open>New keys of an account\<close>

text \<open>An authority with one key\<close>

definition single_key :: "jsstring \<Rightarrow> jsval" where
  "single_key pubkey =
     JObj [(''weight_threshold'', JNum 1), (''account_auths'', JArr []), (''key_auths'', JArr [JArr [JStr pubkey, JNum 1]])]"

definition pwPubkey :: "env \<Rightarrow> 'p ecc \<Rightarrow> jsstring \<Rightarrow> jsstring \<Rightarrow> string \<Rightarrow> js_error + jsstring" where
  "pwPubkey E L name pw role = wifToPublic E L (Auth_toWif E name (js_trim pw) (js role))"

text \<open>
  \<open>recoverAccount\<close>: an error for the user, or the two transactions with the texts of the keys that sign them. \<open>account\<close> is what the node
  gives for the name. The second transaction is sent only after the first is accepted.
\<close>

definition recovery_operations ::
  "env \<Rightarrow> 'p ecc \<Rightarrow> jsstring \<Rightarrow> jsstring \<Rightarrow> jsstring \<Rightarrow> jsval \<Rightarrow>
     js_error + ((jsstring \<times> jsval) list \<times> jsstring list) list" where
  "recovery_operations E L account_to_recover old_password new_password account =
     (let oldOwnerPrivate = (if Auth_isWif E old_password then old_password else Auth_toWif E account_to_recover old_password (js ''owner''));
          newOwnerPrivate = Auth_toWif E account_to_recover (js_trim new_password) (js ''owner'');
          pw = pwPubkey E L account_to_recover (js_trim new_password)
      in bindR (wifToPublic E L oldOwnerPrivate) (\<lambda>oldOwner. bindR (wifToPublic E L newOwnerPrivate) (\<lambda>newOwner.
         bindR (pw ''active'') (\<lambda>newActive. bindR (pw ''posting'') (\<lambda>newPosting. bindR (pw ''memo'') (\<lambda>newMemo.
         bindR (js_get account ''name'') (\<lambda>name. bindR (js_get account ''json_metadata'') (\<lambda>json_metadata.
         bindR (js_get account ''posting_json_metadata'') (\<lambda>posting_json_metadata.
           Inr [([(js ''recover_account'',
                    JObj [(''account_to_recover'', JStr account_to_recover), (''new_owner_authority'', single_key newOwner),
                          (''recent_owner_authority'', single_key oldOwner)])], [oldOwnerPrivate, newOwnerPrivate]),
                ([(js ''account_update'',
                    JObj [(''account'', name), (''owner'', single_key newOwner), (''active'', single_key newActive),
                          (''posting'', single_key newPosting), (''memo_key'', JStr newMemo), (''json_metadata'', json_metadata),
                          (''posting_json_metadata'', posting_json_metadata), (''extensions'', JArr [])])], [newOwnerPrivate])])))))))))"

definition recoverAccount ::
  "env \<Rightarrow> 'p ecc \<Rightarrow> jsstring \<Rightarrow> jsstring \<Rightarrow> jsstring \<Rightarrow> jsval \<Rightarrow>
     string + js_error + ((jsstring \<times> jsval) list \<times> jsstring list) list" where
  "recoverAccount E L account_to_recover old_password new_password account =
     (if \<not> js_truthy account then Inl ''Unknown account''
      else if Auth_isWif E new_password then Inl ''Your new password should not be a WIF''
      else if isPubkey E new_password (address_prefix E) then Inl ''Your new password should not be a Public Key''
      else Inr (recovery_operations E L account_to_recover old_password new_password account))"

text \<open>
  \<open>updateAuthorities\<close>: one replacement of a key, by its type, the old and the new text; what is collected are the first old private key of
  a role, the memo key and the new authorities. \<^term>\<open>None\<close> is a return after an error for the user. The memo key is
  no authority: nothing is collected for it but the key.
\<close>

record auth_change =
  ac_type :: string
  ac_old :: "jsstring option"
  ac_new :: jsstring

record new_keys =
  nk_oldPrivate :: "int option"
  nk_memo_key :: jsstring
  nk_ops :: "(string \<times> authority) list"

definition undefined_text :: "jsstring option \<Rightarrow> jsstring" where
  "undefined_text t = (case t of Some s \<Rightarrow> s | None \<Rightarrow> js ''undefined'')"

text \<open>The old private key, or \<^term>\<open>None\<close> for a public key; \<open>Inl\<close> is a missing key\<close>

definition old_private :: "env \<Rightarrow> 'p ecc \<Rightarrow> jsstring \<Rightarrow> auth_change \<Rightarrow> js_error + unit + int option" where
  "old_private E L accountName ch =
     (let oldAuth = undefined_text (ac_old ch)
      in case (if ac_old ch = None then Inl TypeError else PrivateKey_fromWif E L oldAuth) of
           Inr d \<Rightarrow> Inr (Inr (Some d))
         | Inl _ \<Rightarrow>
             (case (if ac_old ch = None then Inl TypeError else fromStringOrThrow E oldAuth (address_prefix E)) of
                Inr (JPub Q) \<Rightarrow> Inr (Inr None)
              | _ \<Rightarrow>
                  if \<not> given_text (ac_old ch) then Inr (Inl ())
                  else bindR (PrivateKey_fromSeed E L (JStr (accountName @ js (ac_type ch) @ oldAuth))) (\<lambda>d. Inr (Inr (Some d)))))"

definition new_public :: "env \<Rightarrow> 'p ecc \<Rightarrow> jsstring \<Rightarrow> auth_change \<Rightarrow> js_error + jsstring" where
  "new_public E L accountName ch =
     (case PrivateKey_fromWif E L (ac_new ch) of
        Inr d \<Rightarrow> Inr (public_text E L d)
      | Inl _ \<Rightarrow> bindR (PrivateKey_fromSeed E L (JStr (accountName @ js (ac_type ch) @ ac_new ch))) (\<lambda>d. Inr (public_text E L d)))"

definition type_authority :: "string \<Rightarrow> web_account \<Rightarrow> authority option" where
  "type_authority ty ac = map_of (map (\<lambda>role. (role_text role, role_authority role ac)) [Posting, Active, Owner]) ty"

definition addAuth ::
  "env \<Rightarrow> 'p ecc \<Rightarrow> jsstring \<Rightarrow> web_account \<Rightarrow> new_keys option \<Rightarrow> auth_change \<Rightarrow> js_error + new_keys option" where
  "addAuth E L accountName account st0 ch =
     (case st0 of
        None \<Rightarrow> Inr None
      | Some st \<Rightarrow>
          bindR (old_private E L accountName ch) (\<lambda>old.
            case old of
              Inl _ \<Rightarrow> Inr None
            | Inr oldPrivateAuth \<Rightarrow>
                (let oldPrivate = (if ac_type ch \<in> {''owner'', ''active'', ''posting''} \<and> nk_oldPrivate st = None
                                   then oldPrivateAuth else nk_oldPrivate st)
                 in bindR (new_public E L accountName ch) (\<lambda>newAuthPubkey.
                      if ac_type ch = ''memo'' then Inr (Some (st\<lparr>nk_oldPrivate := oldPrivate, nk_memo_key := newAuthPubkey\<rparr>))
                      else (case type_authority (ac_type ch) account of
                              None \<Rightarrow> Inl TypeError
                            | Some a \<Rightarrow>
                                Inr (Some (st\<lparr>nk_oldPrivate := oldPrivate,
                                  nk_ops := assoc_set (ac_type ch) (a\<lparr>key_auths := [(newAuthPubkey, weight_threshold a)]\<rparr>) (nk_ops st)\<rparr>)))))))"

definition role_signing_key :: "env \<Rightarrow> 'p ecc \<Rightarrow> jsstring \<Rightarrow> web_account \<Rightarrow> jsstring \<Rightarrow> web_role \<Rightarrow> js_error + int option" where
  "role_signing_key E L accountName account signingKey role =
     bindR (PrivateKey_fromSeed E L (JStr (accountName @ js (role_text role) @ signingKey))) (\<lambda>priv.
       Inr (if public_text E L priv \<in> fst ` set (key_auths (role_authority role account)) then Some priv else None))"

definition update_signing_key :: "env \<Rightarrow> 'p ecc \<Rightarrow> jsstring \<Rightarrow> web_account \<Rightarrow> jsstring option \<Rightarrow> int option \<Rightarrow> js_error + int option" where
  "update_signing_key E L accountName account signingKey oldPrivate =
     (if oldPrivate \<noteq> None then Inr oldPrivate
      else case (if signingKey = None then Inl TypeError else PrivateKey_fromWif E L (the signingKey)) of
        Inr d \<Rightarrow> Inr (Some d)
      | Inl _ \<Rightarrow>
          bindR (role_signing_key E L accountName account (undefined_text signingKey) Active) (\<lambda>key.
            if key \<noteq> None then Inr key
            else role_signing_key E L accountName account (undefined_text signingKey) Owner))"

text \<open>The key that signs and the replaced keys, or an error for the user\<close>

definition updateAuthorities ::
  "env \<Rightarrow> 'p ecc \<Rightarrow> jsstring \<Rightarrow> jsstring option \<Rightarrow> auth_change list \<Rightarrow> web_account option \<Rightarrow> js_error + (string + int \<times> new_keys)" where
  "updateAuthorities E L accountName signingKey auths account0 =
     (case account0 of
        None \<Rightarrow> Inr (Inl ''Account not found'')
      | Some account \<Rightarrow>
          bindR (foldR (addAuth E L accountName account)
                   (Some \<lparr>nk_oldPrivate = None, nk_memo_key = wa_memo_key account, nk_ops = []\<rparr>) auths) (\<lambda>changed.
            case changed of
              None \<Rightarrow> Inr (Inl ''Missing old key, not sure what to replace'')
            | Some st \<Rightarrow>
                bindR (update_signing_key E L accountName account signingKey (nk_oldPrivate st)) (\<lambda>key.
                  Inr (case key of None \<Rightarrow> Inl ''Incorrect Password'' | Some d \<Rightarrow> Inr (d, st)))))"

section \<open>A key in a text is found\<close>

lemma key_match_chars:
  assumes "key_match s = Some (m, r)"
  obtains p where "s = p @ r" "list_all base58_char p"
proof -
  let ?t = "case s of [] \<Rightarrow> [] | c # t \<Rightarrow> if c = 80 then t else s"
  have t: "51 \<le> length ?t" "hd ?t = 53" "list_all base58_char (take 50 (tl ?t))" "r = drop 51 ?t"
    using assms by (auto simp: key_match_def Let_def split: if_splits)
  then obtain c u where c: "?t = c # u" "c = 53" by (cases ?t) auto
  have "?t = (53 # take 50 u) @ r" using t(4) c by simp
  moreover have "list_all base58_char (53 # take 50 u)" using t(3) c by (simp add: base58_char_def is_digit_def)
  moreover have "s = ?t \<or> s = 80 # ?t" by (cases s) auto
  ultimately show thesis using that [of "53 # take 50 u"] that [of "80 # 53 # take 50 u"]
    by (auto simp: base58_char_def is_digit_def)
qed

lemma key_match_key:
  assumes "length w = 51" "hd w = 53" "list_all base58_char w"
  shows "key_match (w @ v) = Some (w, v)"
proof -
  obtain u where u: "w = 53 # u" "length u = 50" "list_all base58_char u" using assms by (cases w) auto
  then show ?thesis by (simp add: key_match_def Let_def)
qed

text \<open>A match that starts before a character that is not of the alphabet ends before it.\<close>

lemma match_before:
  assumes "p @ r = u @ w" "list_all base58_char p" "u \<noteq> []" "\<not> base58_char (last u)"
  obtains u' where "r = u' @ w" "u' \<noteq> []" "last u' = last u" "length u' \<le> length u"
proof -
  have "\<not> length u \<le> length p"
  proof
    assume "length u \<le> length p"
    then have "take (length u) p = u" using assms(1) by (metis append_eq_conv_conj take_append take_all_iff take_take min.absorb1)
    then have "last u \<in> set p" using assms(3) by (metis in_set_takeD last_in_set)
    then show False using assms(2,4) by (auto simp: list_all_iff)
  qed
  then obtain u' where "u = p @ u'" "r = u' @ w" "u' \<noteq> []"
    using assms(1) by (auto simp: append_eq_append_conv2)
  with that show thesis by simp
qed

lemma has_key_text_found:
  assumes "length w = 51" "hd w = 53" "list_all base58_char w" "PrivateKey_isWif E L w"
  shows "u = [] \<or> \<not> base58_char (last u) \<Longrightarrow> has_key_text E L (u @ w @ v)"
proof (induction "length u" arbitrary: u rule: less_induct)
  case less
  show ?case
  proof (cases u)
    case Nil
    then show ?thesis using assms key_match_key [OF assms(1-3), of v] by (simp add: has_key_text.simps [of E L "w @ v"])
  next
    case (Cons c u1)
    then have last: "\<not> base58_char (last u)" "u \<noteq> []" using less(2) by auto
    show ?thesis
    proof (cases "key_match (u @ w @ v)")
      case None
      have "u1 = [] \<or> \<not> base58_char (last u1)" using last Cons by (auto split: if_splits)
      then have "has_key_text E L (u1 @ w @ v)" using less(1) [of u1] Cons by simp
      then show ?thesis using None Cons by (simp add: has_key_text.simps [of E L "c # u1 @ w @ v"])
    next
      case (Some mr)
      obtain m r where mr: "mr = (m, r)" by fastforce
      obtain p where p: "u @ w @ v = p @ r" "list_all base58_char p" using key_match_chars Some mr by metis
      then obtain u' where u': "r = u' @ w @ v" "u' \<noteq> []" "last u' = last u" "length u' \<le> length u"
        using match_before [of p r u "w @ v"] last by metis
      have "length r < length (u @ w @ v)" using key_match_rest Some mr by blast
      then have "has_key_text E L r" using less(1) [of u'] u' last by simp
      then show ?thesis using Some mr by (simp add: has_key_text.simps [of E L "u @ w @ v"])
    qed
  qed
qed

lemma json_chars_append: "\<not> is_trail c \<Longrightarrow> json_chars (a @ c # r) = json_chars a @ json_chars (c # r)"
  by (induction a rule: json_chars.induct) auto

definition plain_char :: "code_unit \<Rightarrow> bool" where
  "plain_char c \<longleftrightarrow> json_escape c = [c] \<and> \<not> is_lead c \<and> \<not> is_trail c"

lemma json_chars_plain: "list_all plain_char w \<Longrightarrow> json_chars (w @ v) = w @ json_chars v"
proof (induction w)
  case (Cons c w)
  then show ?case by (cases "w @ v") (simp_all add: plain_char_def)
qed simp

lemma base58_plain: "base58_char c \<Longrightarrow> plain_char c"
  by (auto simp: base58_char_def plain_char_def json_escape_def is_lead_def is_trail_def is_digit_def word_le_def word_less_def)

lemma intersperse_member: "x \<in> set xs \<Longrightarrow> \<exists>a b. intersperse_with c xs = a @ x @ b"
proof (induction xs)
  case (Cons y ys)
  show ?case
  proof (cases "x = y")
    case True
    then show ?thesis by (cases ys) (auto intro: exI [of _ "[]"])
  next
    case False
    then have "x \<in> set ys" using Cons.prems by simp
    then have "\<exists>a b. intersperse_with c ys = a @ x @ b" "ys \<noteq> []" using Cons.IH by auto
    then obtain a b where "intersperse_with c ys = a @ x @ b" "ys \<noteq> []" by blast
    then show ?thesis by (cases ys) (auto intro: exI [of _ "y @ c # a"])
  qed
qed simp

lemma stringify_field:
  assumes "JSON_stringify (JObj kvs) = Inr (Some t)" "(k, JStr s) \<in> set kvs"
  shows "\<exists>a b. t = a @ 34 # json_chars s @ b"
proof -
  obtain ts where ts: "list_all2 (\<lambda>(k, v) y. bindR (JSON_stringify v) (\<lambda>t. Inr (map_option (\<lambda>s. (js k, s)) t)) = Inr y) kvs ts"
    "t = json_object (List.map_filter (\<lambda>t. t) ts)"
    using assms(1) by (auto simp: bindR_eq_Inr mapR_eq_Inr case_prod_beta')
  obtain i where i: "i < length kvs" "kvs ! i = (k, JStr s)" using assms(2) by (auto simp: in_set_conv_nth)
  have "ts ! i = Some (js k, json_quote s)" "i < length ts" using ts(1) i by (auto simp: list_all2_conv_all_nth)
  then have "Some (js k, json_quote s) \<in> set ts" by (metis nth_mem)
  then have "(js k, json_quote s) \<in> set (List.map_filter (\<lambda>t. t) ts)" by (force simp: List.map_filter_def)
  then have "json_quote (js k) @ 58 # json_quote s \<in> set (map (\<lambda>(k, v). json_quote k @ 58 # v) (List.map_filter (\<lambda>t. t) ts))"
    by force
  from intersperse_member [OF this, of 44] obtain a b where
    "t = 123 # (a @ (json_quote (js k) @ 58 # json_quote s) @ b) @ [125]"
    unfolding ts(2) json_object_def by blast
  then have "t = (123 # a @ json_quote (js k) @ [58]) @ 34 # json_chars s @ 34 # b @ [125]" by (simp add: json_quote_def)
  then show ?thesis by blast
qed

text \<open>A key in a field of an operation, at its start or after a space\<close>

lemma hasPrivateKeys_found:
  assumes w: "length w = 51" "hd w = 53" "list_all base58_char w" "PrivateKey_isWif E L w"
    and f: "(k, JStr (u @ w @ v)) \<in> set kvs" "u = [] \<or> last u = 32"
    and found: "hasPrivateKeys E L [(ty, JObj kvs)] = Inr found"
  shows "found"
proof -
  obtain t where t: "JSON_stringify (JObj kvs) = Inr (Some t)"
    "found = has_key_text E L (json_array [json_array [json_quote ty, t]])"
    using found by (auto simp: hasPrivateKeys_def bindR_eq_Inr)
  obtain a b where ab: "t = a @ 34 # json_chars (u @ w @ v) @ b" using stringify_field [OF t(1) f(1)] by blast
  obtain c w' where cw: "w = c # w'" "c = 53" using w(1,2) by (cases w) auto
  have "\<not> is_trail c" by (simp add: cw is_trail_def)
  then have "json_chars (u @ w @ v) = json_chars u @ w @ json_chars v"
    using json_chars_append [of c u "w' @ v"] json_chars_plain [of w v] w(3) base58_plain cw(1) by (auto simp: list_all_iff)
  moreover have "json_chars u = [] \<or> last (json_chars u) = 32"
  proof (cases "u = []")
    case False
    then have "u = butlast u @ [32]" using f(2) by (metis append_butlast_last_id)
    moreover have "json_chars (butlast u @ [32]) = json_chars (butlast u) @ [32]"
      using json_chars_append [of 32 "butlast u" "[]"] by (simp add: is_trail_def json_escape_def is_lead_def)
    ultimately show ?thesis by (metis last_snoc)
  qed simp
  ultimately have "\<exists>p q. json_array [json_array [json_quote ty, t]] = p @ w @ q \<and> p \<noteq> [] \<and> last p \<in> {34, 32}"
    unfolding ab
    by (intro exI [of _ "91 # 91 # json_quote ty @ 44 # a @ 34 # json_chars u"] exI [of _ "json_chars v @ b @ [93, 93]"])
      (auto simp: json_array_def)
  then obtain p q where pq: "json_array [json_array [json_quote ty, t]] = p @ w @ q" "last p \<in> {34, 32}" by blast
  then have "\<not> base58_char (last p)" by (auto simp: base58_char_def is_digit_def)
  then show ?thesis using has_key_text_found [OF w, of p q] t(2) pq(1) by simp
qed

section \<open>With which keys an operation is sent\<close>

lemma broadcastPayload_send:
  "broadcastPayload E L ctx operations keys username = Inr acts \<Longrightarrow> BroadcastSend ops ks \<in> set acts \<Longrightarrow>
     ks = keys \<and> \<not> tc_keychain ctx \<and>
     mapR (pre_broadcast E L (tc_memo ctx) (tc_getAccountOf ctx) (current_memo_key (tc_current ctx)) username) operations = Inr ops"
  by (auto simp: broadcastPayload_def bindR_eq_Inr split: if_splits)

lemma reported_send: "BroadcastSend ops ks \<in> set (reported r) \<Longrightarrow> \<exists>acts. r = Inr acts \<and> BroadcastSend ops ks \<in> set acts"
  by (cases r) (simp_all add: reported_def)

lemma broadcastOperation_send:
  assumes "broadcastOperation E L ctx rq = Inr acts" "BroadcastSend ops ks \<in> set acts"
  shows "mapR (pre_broadcast E L (tc_memo ctx) (tc_getAccountOf ctx) (current_memo_key (tc_current ctx)) (tx_username rq))
      [(tx_type rq, tx_operation rq)] = Inr ops"
    "\<not> tx_confirm rq \<and> (tx_allowPostUnsafe rq \<or> hasPrivateKeys E L [(tx_type rq, tx_operation rq)] = Inr False)"
    "ks \<noteq> [] \<and> tx_keys rq = Some ks \<or>
     (\<exists>d. ks = [d] \<and> findSigningKey E L (tc_getAccounts ctx) (tc_getAccount ctx) (tc_current ctx) (tx_type rq) (tx_username rq)
        (tx_password rq) = Inr (Some d)) \<or>
     ks = [] \<and> given_text (tx_password rq) \<and>
       findSigningKey E L (tc_getAccounts ctx) (tc_getAccount ctx) (tc_current ctx) (tx_type rq) (tx_username rq) (tx_password rq) = Inr None"
proof -
  let ?payload = "\<lambda>keys. broadcastPayload E L ctx [(tx_type rq, tx_operation rq)] keys (tx_username rq)"
  let ?find = "findSigningKey E L (tc_getAccounts ctx) (tc_getAccount ctx) (tc_current ctx) (tx_type rq) (tx_username rq) (tx_password rq)"
  obtain unsafe where "\<not> tx_confirm rq" "(if tx_allowPostUnsafe rq then Inr False
      else hasPrivateKeys E L [(tx_type rq, tx_operation rq)]) = Inr unsafe"
    "acts = (if unsafe then [ConfirmOperation True] else reported (sign_and_send E L ctx rq))"
    using assms by (auto simp: broadcastOperation_def bindR_eq_Inr split: if_splits)
  moreover from this assms(2) have "\<not> unsafe" by (cases unsafe) auto
  ultimately have guards: "\<not> tx_confirm rq \<and> (tx_allowPostUnsafe rq \<or> hasPrivateKeys E L [(tx_type rq, tx_operation rq)] = Inr False)"
    and "acts = reported (sign_and_send E L ctx rq)" by (auto split: if_splits)
  then obtain acts' where r: "sign_and_send E L ctx rq = Inr acts'" "BroadcastSend ops ks \<in> set acts'"
    using reported_send assms(2) by blast
  have "\<exists>keys. ?payload keys = Inr acts' \<and> (tc_keychain ctx \<or> keys \<noteq> [] \<and> tx_keys rq = Some keys \<or>
      (\<exists>d. keys = [d] \<and> ?find = Inr (Some d)) \<or> keys = [] \<and> given_text (tx_password rq) \<and> ?find = Inr None)"
  proof (cases "tc_keychain ctx \<or> (tx_keys rq \<noteq> None \<and> tx_keys rq \<noteq> Some [])")
    case True
    then show ?thesis using r by (auto simp: sign_and_send_def Let_def split: option.splits)
  next
    case False
    then obtain found where f: "?find = Inr found" "(case found of Some d \<Rightarrow> ?payload [d]
        | None \<Rightarrow> if \<not> given_text (tx_password rq) then Inr [ShowLogin] else ?payload []) = Inr acts'"
      using r(1) by (simp only: sign_and_send_def Let_def if_not_P if_False bindR_eq_Inr) blast
    then show ?thesis using r(2) by (cases found) (auto split: if_splits)
  qed
  then obtain keys where k: "?payload keys = Inr acts'" "BroadcastSend ops ks \<in> set acts'"
    "(tc_keychain ctx \<or> keys \<noteq> [] \<and> tx_keys rq = Some keys) \<or> (\<exists>d. keys = [d] \<and> ?find = Inr (Some d)) \<or>
     keys = [] \<and> given_text (tx_password rq) \<and> ?find = Inr None"
    using r(2) by blast
  show "\<not> tx_confirm rq \<and> (tx_allowPostUnsafe rq \<or> hasPrivateKeys E L [(tx_type rq, tx_operation rq)] = Inr False)" by (rule guards)
  show "mapR (pre_broadcast E L (tc_memo ctx) (tc_getAccountOf ctx) (current_memo_key (tc_current ctx)) (tx_username rq))
      [(tx_type rq, tx_operation rq)] = Inr ops"
    "ks \<noteq> [] \<and> tx_keys rq = Some ks \<or> (\<exists>d. ks = [d] \<and> ?find = Inr (Some d)) \<or> ks = [] \<and> given_text (tx_password rq) \<and> ?find = Inr None"
    using broadcastPayload_send [OF k(1,2)] k(3) by auto
qed

text \<open>The memo of a transfer that is sent: what was written does not start with \<open>#\<close> after trimming, or it is replaced by its encryption.\<close>

lemma transfer_memo:
  assumes "pre_broadcast E L M getAccount mk username (js ''transfer'', JObj kvs) = Inr (ty, opn)" "map_of kvs ''memo'' = Some (JStr memo)"
    "is_hash_memo (js_trim memo)"
  shows "\<exists>d ac encoded. mk = Some d \<and> getAccount (case map_of kvs ''to'' of None \<Rightarrow> JUndef | Some v \<Rightarrow> v) = Inr (Some ac) \<and>
    memo_encode E L (mc_aes M) (mc_works M) (KeyObject d) (JStr (wa_memo_key ac)) (JStr (js_trim memo)) (mc_nonce M) = Inr encoded \<and>
    js_get opn ''memo'' = Inr (JStr encoded)"
proof -
  have ne: "js ''transfer'' \<noteq> js ''limit_order_create''" "js ''transfer'' \<noteq> js ''claim_reward_balance''"
    "js ''transfer'' \<noteq> js ''account_create''" by (simp_all add: js_def)
  obtain kvs' where k: "makeSteemCompatible (js ''transfer'') (JObj kvs) = Inr (JObj kvs')"
    "preBroadcast_transfer E L M getAccount mk (JObj kvs') = Inr opn"
    "map_of kvs' ''memo'' = Some (JStr memo)" "map_of kvs' ''to'' = map_of kvs ''to''"
    using assms(1,2)
    by (auto simp: pre_broadcast_def makeSteemCompatible_def ne replace_symbol_def bindR_eq_Inr js_err_eq_Inr map_of_assoc_set
        split: if_splits)
  have "memo \<noteq> []" using assms(3) by (auto simp: is_hash_memo_def js_trim_def)
  then show ?thesis
    using k(2-4) assms(3)
    by (auto simp: preBroadcast_transfer_def Let_def bindR_eq_Inr js_err_eq_Inr toStringUtf8_def js_truthy_def map_of_assoc_set
        split: option.splits)
qed

section \<open>Replaced authorities\<close>

text \<open>What a replacement collects: the authority of its type with the new key alone\<close>

definition replaced :: "env \<Rightarrow> 'p ecc \<Rightarrow> jsstring \<Rightarrow> web_account \<Rightarrow> auth_change \<Rightarrow> authority \<Rightarrow> bool" where
  "replaced E L accountName account ch a \<longleftrightarrow>
     (\<exists>old pub. type_authority (ac_type ch) account = Some old \<and> new_public E L accountName ch = Inr pub \<and>
        a = old\<lparr>key_auths := [(pub, weight_threshold old)]\<rparr>)"

lemma addAuth_step:
  assumes "addAuth E L accountName account (Some st) ch = Inr (Some st')"
  shows "if ac_type ch = ''memo'' then nk_ops st' = nk_ops st
    else \<exists>a. replaced E L accountName account ch a \<and> nk_ops st' = assoc_set (ac_type ch) a (nk_ops st)"
  using assms unfolding addAuth_def option.case bindR_eq_Inr Let_def
  by (elim exE conjE sum_cases) (auto simp: bindR_eq_Inr replaced_def split: option.splits if_splits)

lemma addAuth_None: "foldR (addAuth E L accountName account) None auths = Inr st \<Longrightarrow> st = None"
  by (induction auths) (simp_all add: addAuth_def)

lemma addAuths_Cons:
  assumes "foldR (addAuth E L accountName account) (Some st) (ch # auths) = Inr (Some st')"
  obtains st1 where "addAuth E L accountName account (Some st) ch = Inr (Some st1)"
    "foldR (addAuth E L accountName account) (Some st1) auths = Inr (Some st')"
proof -
  obtain r where r: "addAuth E L accountName account (Some st) ch = Inr r"
    "foldR (addAuth E L accountName account) r auths = Inr (Some st')" using assms by (auto simp: bindR_eq_Inr)
  show thesis
  proof (cases r)
    case None
    then show thesis using addAuth_None [of E L accountName account auths] r(2) by simp
  next
    case (Some st1)
    then show thesis using r that by simp
  qed
qed

lemma addAuths:
  assumes "foldR (addAuth E L accountName account) (Some st) auths = Inr (Some st')"
  shows "\<forall>ty a. map_of (nk_ops st') ty = Some a \<longrightarrow> map_of (nk_ops st) ty = Some a \<or>
      (\<exists>ch \<in> set auths. ac_type ch = ty \<and> replaced E L accountName account ch a)"
    "\<forall>ty. map_of (nk_ops st) ty \<noteq> None \<or> ty \<noteq> ''memo'' \<and> ty \<in> ac_type ` set auths \<longrightarrow> map_of (nk_ops st') ty \<noteq> None"
  using assms
proof (induction auths arbitrary: st)
  case (Cons ch auths)
  {
    case 1
    obtain st1 where s: "addAuth E L accountName account (Some st) ch = Inr (Some st1)"
      "foldR (addAuth E L accountName account) (Some st1) auths = Inr (Some st')"
      by (rule addAuths_Cons [OF "1"])
    have "map_of (nk_ops st) ty = Some a \<or> ac_type ch = ty \<and> replaced E L accountName account ch a"
      if "map_of (nk_ops st1) ty = Some a" for ty a
      using addAuth_step [OF s(1)] that by (auto simp: map_of_assoc_set split: if_splits)
    then show ?case using Cons.IH(1) [OF s(2)] by fastforce
  next
    case 2
    obtain st1 where s: "addAuth E L accountName account (Some st) ch = Inr (Some st1)"
      "foldR (addAuth E L accountName account) (Some st1) auths = Inr (Some st')"
      by (rule addAuths_Cons [OF "2"])
    show ?case using Cons.IH(2) [OF s(2)] addAuth_step [OF s(1)] by (auto simp: map_of_assoc_set split: if_splits)
  }
qed simp_all

lemma key_full_single: "key_full E L d (old\<lparr>key_auths := [(pub, weight_threshold old)]\<rparr>) \<longleftrightarrow> pub = public_text E L d \<or> weight_threshold old \<le> 0"
  by (auto simp: key_full_def)

lemma new_public_key:
  "new_public E L accountName ch = Inr pub \<Longrightarrow> \<exists>d. pub = public_text E L d \<and>
     (PrivateKey_fromWif E L (ac_new ch) = Inr d \<or> PrivateKey_fromSeed E L (JStr (accountName @ js (ac_type ch) @ ac_new ch)) = Inr d)"
  by (auto simp: new_public_def bindR_eq_Inr split: sum.splits)

end
