(* ===== verification/WebExamples.thy ===== *)
theory WebExamples
  imports Examples WebTransactions
begin

text \<open>
  Examples for the properties of the web interfaces: base 58 in which texts of keys start with \<open>5\<close>, a hash whose checksum is a text of
  that alphabet, an account with one posting key, and requests of its owner.
\<close>

definition web_env :: env where
  "web_env = example_env
     \<lparr>base58_encode := (\<lambda>bs. case bs of [] \<Rightarrow> [] | b # r \<Rightarrow> (if b = 128 then 53 else ucast b) # map ucast r),
      base58_decode := (\<lambda>s. case s of [] \<Rightarrow> Inl LibraryError
                              | c # r \<Rightarrow> if c = 53 then Inr (128 # map ucast r) else Inl LibraryError),
      sha256 := (\<lambda>bs. replicate 32 49)\<rparr>"

definition web_password :: jsstring where
  "web_password = 53 # replicate 45 49 @ [50] @ replicate 4 49"

definition one_key :: "jsstring \<Rightarrow> authority" where
  "one_key k = \<lparr>weight_threshold = 1, account_auths = [], key_auths = [(k, 1)]\<rparr>"

definition web_alice :: web_account where
  "web_alice =
     \<lparr>wa_name = js ''alice'', wa_posting = one_key (public_text web_env example_ecc 50), wa_active = one_key (js ''A''),
      wa_owner = one_key (js ''B''), wa_memo_key = js ''M''\<rparr>"

definition get_alice :: "jsstring \<Rightarrow> ts_error + web_account option" where
  "get_alice name = (if name = js ''alice'' then Inr (Some web_alice) else Inr None)"

definition no_accounts :: "jsstring list \<Rightarrow> ts_error + accounts_reply" where
  "no_accounts names = Inr (ReplyArray [])"

definition web_context :: login_context where
  "web_context =
     \<lparr>lc_autopost2 = None, lc_offchain_account = False, lc_login_challenge = None, lc_authority = Map.empty,
      lc_keychain_signs = (\<lambda>s. Inl [])\<rparr>"

definition web_input :: login_input where
  "web_input =
     \<lparr>li_username = Some (js ''alice''), li_password = Some web_password, li_useKeychain = False, li_saveLogin = True,
      li_operationType = False\<rparr>"

lemma get_alice_name: "get_alice n = Inr (Some ac) \<Longrightarrow> wa_name ac = n"
  by (auto simp: get_alice_def web_alice_def split: if_splits)

lemma web_key: "PrivateKey_fromWif web_env example_ecc web_password = Inr 50"
  by code_simp

lemma wallet_example:
  "wallet_login web_env example_ecc no_accounts get_alice web_context web_input =
     Some (Inr [SetAuthority (js ''alice'') \<lparr>al_posting = FullAuth, al_active = NoAuth, al_owner = NoAuth, al_memo = NoAuth\<rparr>,
       SetUser (js ''alice'') (Some [(''posting_private'', Some 50)]) None False, SaveLogin])"
  by code_simp

lemma condenser_example:
  "condenser_login [js ''bob''] web_env example_ecc no_accounts get_alice web_context web_input =
     Some (Inr [SetAuthority (js ''alice'') \<lparr>al_posting = FullAuth, al_active = NoAuth, al_owner = NoAuth, al_memo = NoAuth\<rparr>,
       SetAuthority (js ''alice'') \<lparr>al_posting = FullAuth, al_active = NoAuth, al_owner = NoAuth, al_memo = NoAuth\<rparr>,
       SetUser (js ''alice'') (Some [(''posting_private'', Some 50), (''owner_private'', Some 50)]) None False, SaveLogin])"
  by code_simp

section \<open>A saved login\<close>

definition web_user :: user_record where
  "web_user =
     \<lparr>us_username = Some (js ''alice''), us_private_keys = Some [(''posting_private'', Some 50)], us_owner_pubkey = None, us_keychain = False\<rparr>"

definition web_accounts :: "jsstring \<rightharpoonup> web_account" where
  "web_accounts name = (if name = js ''alice'' then Some web_alice else None)"

lemma saved_example:
  "\<exists>data. saveLogin_localStorage web_env example_ecc web_accounts web_user = Some data"
  "field_ok (text_or_empty (us_username web_user))" "field_ok (text_or_empty (us_owner_pubkey web_user))"
  "\<forall>keys n d. us_private_keys web_user = Some keys \<and> get_key keys n = Some d \<longrightarrow> field_ok (PrivateKey_toWif web_env example_ecc d)"
proof -
  have "case saveLogin_localStorage web_env example_ecc web_accounts web_user of None \<Rightarrow> False | Some d \<Rightarrow> True" by code_simp
  then show "\<exists>data. saveLogin_localStorage web_env example_ecc web_accounts web_user = Some data" by (simp split: option.splits)
  show "field_ok (text_or_empty (us_username web_user))" "field_ok (text_or_empty (us_owner_pubkey web_user))" by code_simp+
  have "field_ok (PrivateKey_toWif web_env example_ecc 50)" by code_simp
  then show "\<forall>keys n d. us_private_keys web_user = Some keys \<and> get_key keys n = Some d \<longrightarrow> field_ok (PrivateKey_toWif web_env example_ecc d)"
    by (auto simp: web_user_def get_key_def split: if_splits)
qed

section \<open>Broadcasts\<close>

definition web_memo :: memo_context where
  "web_memo = \<lparr>mc_aes = example_aes, mc_works = True, mc_nonce = JStr (js ''7''), mc_toString = (\<lambda>v. [])\<rparr>"

definition web_tx_context :: tx_context where
  "web_tx_context =
     \<lparr>tc_current = Some (Some (js ''alice''), Some [(''posting_private'', Some 50)]), tc_keychain = False, tc_read_only = False, tc_bump = 0,
      tc_memo = web_memo, tc_getAccount = get_alice, tc_getAccountOf = (\<lambda>v. Inr None), tc_getAccounts = no_accounts\<rparr>"

definition web_vote :: tx_request where
  "web_vote =
     \<lparr>tx_type = js ''vote'', tx_operation = JObj [(''voter'', JStr (js ''alice''))], tx_confirm = False, tx_keys = None, tx_username = None,
      tx_password = None, tx_allowPostUnsafe = True\<rparr>"

definition web_leak :: tx_request where
  "web_leak = web_vote\<lparr>tx_operation := JObj [(''memo'', JStr (js ''my key '' @ web_password @ js '' ok''))], tx_allowPostUnsafe := False\<rparr>"

lemma vote_example:
  "broadcastOperation web_env example_ecc web_tx_context web_vote =
     Inr [BroadcastSend [(js ''vote'', JObj [(''voter'', JStr (js ''alice''))])] [50]]"
  by code_simp

lemma web_password_facts:
  "length web_password = 51" "hd web_password = 53" "list_all base58_char web_password" "PrivateKey_isWif web_env example_ecc web_password"
  by code_simp+

lemma leak_example: "\<exists>found. hasPrivateKeys web_env example_ecc [(tx_type web_leak, tx_operation web_leak)] = Inr found"
  by (simp add: web_leak_def web_vote_def hasPrivateKeys_def)

text \<open>A transfer with a memo to be encrypted\<close>

definition web_transfer :: tx_request where
  "web_transfer =
     \<lparr>tx_type = js ''transfer'', tx_operation = JObj [(''to'', JStr (js ''bob'')), (''memo'', JStr (js ''#hi''))], tx_confirm = False,
      tx_keys = Some [3], tx_username = None, tx_password = None, tx_allowPostUnsafe = True\<rparr>"

definition transfer_context :: tx_context where
  "transfer_context = web_tx_context
     \<lparr>tc_current := Some (Some (js ''alice''), Some [(''memo_private'', Some 1)]),
      tc_getAccountOf := (\<lambda>v. Inr (Some (web_alice\<lparr>wa_memo_key := public_text example_env example_ecc 3\<rparr>)))\<rparr>"

lemma memo_encode_text:
  assumes "toPublicObj E (JStr p) = JPub (PrivateKey_toPublic L b)" "p \<noteq> []"
  shows "memo_encode E L A works k (JStr p) m n = memo_encode E L A works k (JPub (PrivateKey_toPublic L b)) m n"
proof -
  have e: "toPublicObj E (JPub (PrivateKey_toPublic L b)) = JPub (PrivateKey_toPublic L b)" "js_truthy (JStr p)"
    "js_truthy (JPub (PrivateKey_toPublic L b))"
    using assms(2) by (simp_all add: toPublicObj_def js_truthy_def PrivateKey_toPublic_def)
  show ?thesis by (simp only: memo_encode_def assms(1) e)
qed

lemma memo_example:
  "\<exists>c. memo_encode example_env example_ecc example_aes True (KeyObject 1) (JStr (public_text example_env example_ecc 3)) (JStr (js ''#hi''))
     (JStr (js ''7'')) = Inr c"
proof -
  let ?Q = "JPub (PrivateKey_toPublic example_ecc 3)"
  have "bindR (memo_encode example_env example_ecc example_aes True (KeyObject 1) ?Q (JStr (35 # js ''hi'')) (JStr (js ''7'')))
      (\<lambda>t. memo_decode example_env example_ecc example_aes True (KeyObject 3) (JStr t)) = Inr (35 # js ''hi'')"
  proof (rule memo_roundtrip [where u = False and w = 7])
    show "memo_key_ok example_env example_ecc 1" "memo_key_ok example_env example_ecc 3" by code_simp+
    show "toLongObj (JStr (js ''7'')) = Inr (JLong False 7)" by code_simp
    show "check_number example_env (sha512 example_env (bytes64 7 @ shared_secret example_env example_ecc 1 3)) \<noteq> Inr 0" by code_simp
    show "wf16 (js ''hi'')" by code_simp
    show "length (node_encode (js ''hi'')) < 2147483600" by code_simp
    show "\<forall>bs. base58_decode example_env (base58_encode example_env bs) = Inr bs"
      by (intro allI) (simp add: example_env_def comp_def ucast_up_ucast_id is_up map_idI)
  qed (simp_all add: example_laws example_env_def long_value_def js_def)
  then have "\<exists>c. memo_encode example_env example_ecc example_aes True (KeyObject 1) ?Q (JStr (js ''#hi'')) (JStr (js ''7'')) = Inr c"
    by (auto simp: bindR_eq_Inr js_def)
  moreover have "toPublicObj example_env (JStr (public_text example_env example_ecc 3)) = ?Q" "public_text example_env example_ecc 3 \<noteq> []"
    by code_simp+
  ultimately show ?thesis by (simp add: memo_encode_text)
qed

lemma transfer_example:
  "\<exists>op'. broadcastOperation example_env example_ecc transfer_context web_transfer = Inr [BroadcastSend [(js ''transfer'', op')] [3]]"
proof -
  obtain c where c: "memo_encode example_env example_ecc example_aes True (KeyObject 1) (JStr (public_text example_env example_ecc 3))
      (JStr (js ''#hi'')) (JStr (js ''7'')) = Inr c" using memo_example ..
  have t: "js_trim (js ''#hi'') = js ''#hi''" "is_hash_memo (js ''#hi'')" "js ''#hi'' \<noteq> []"
    "makeSteemCompatible (js ''transfer'') (tx_operation web_transfer) = Inr (tx_operation web_transfer)"
    by code_simp+
  then show ?thesis
    using c
    by (simp add: broadcastOperation_def sign_and_send_def broadcastPayload_def pre_broadcast_def preBroadcast_transfer_def Let_def
        web_transfer_def transfer_context_def web_tx_context_def web_memo_def current_memo_key_def get_key_def toStringUtf8_def
        js_truthy_def reported_def)
qed

section \<open>New keys\<close>

definition web_changes :: "auth_change list" where
  "web_changes = [\<lparr>ac_type = ''posting'', ac_old = Some web_password, ac_new = js ''new password''\<rparr>]"

lemma changes_example:
  "\<exists>st. updateAuthorities web_env example_ecc (js ''alice'') None web_changes (Some web_alice) = Inr (Inr (50, st))"
proof -
  have "case updateAuthorities web_env example_ecc (js ''alice'') None web_changes (Some web_alice) of
      Inr (Inr (d, st)) \<Rightarrow> d = 50 | _ \<Rightarrow> False"
    by code_simp
  then show ?thesis by (auto split: sum.splits)
qed

end
