(* ===== verification/Spec2Isabelle.thy ===== *)
theory Spec2Isabelle
  imports Schema Sorting Utils Api Broadcast Memo Sending Examples Texts Deviations Further Interop TsHelpers Formatter Mobile WebNames TsExamples WebKeys WebTransactions WebExamples
begin

text \<open>
  The two client libraries of the Blurt chain, in JavaScript (\<open>src/client-libs/blurtjs/src\<close>) and in
  TypeScript (\<open>src/client-libs/dblurt/src\<close>): how they turn objects into the bytes that the chain hashes
  and signs, how they make and check keys, signatures and encrypted memos, how they talk to a
  node, and where the two agree; and the parts of the applications above them that handle keys: the mobile
  application (\<open>src/ui/letsblurt\<close>) and the web interfaces (\<open>src/ui/wallet\<close>, \<open>src/ui/condenser\<close>).

  \<^bold>\<open>The parts and how they interact.\<close> An application calls a function of \<open>broadcast\<close>, generated from a
  table of operations; it builds a transaction with one operation. \<open>broadcast.send\<close> asks the node
  through \<open>api\<close> for the reference block, adds defaults, and gives the transaction to \<open>auth\<close>, which
  serializes it with the types of \<open>auth/serializer\<close>, signs the chain id and these bytes with \<open>auth/ecc\<close>,
  and returns the transaction with its signatures; \<open>api\<close> sends it through a transport (HTTP or
  WebSocket). \<open>auth/memo.js\<close> encrypts memos with a secret that two keys share. In \<open>dblurt\<close> a
  \<open>Client\<close> (\<open>client.ts\<close>) sends requests to one or several addresses (\<open>utils.ts\<close>), its helpers
  (\<open>helpers/\<close>) are requests with their parameters, \<open>broadcast.sendOperations\<close> fetches the reference
  block, and \<open>cryptoUtils.signTransaction\<close> (\<open>crypto.ts\<close>) serializes with \<open>chain/serializer.ts\<close> and signs.
  The mobile application checks a password (\<open>verifyPassoword\<close>) before it sends an operation with \<open>dblurt\<close>. In the
  web interfaces a login computes the keys of a password, compares them with the authorities of the account and
  keeps some of them in the state; a broadcast chooses a key that has the authority for the operation and
  sends with \<open>blurtjs\<close> (or hands the operation to an extension that holds the keys).

  \<^bold>\<open>Theories and sources.\<close>
  \<^item> \<open>Prelude\<close>: strings of 16-bit code units, results that are an error or a value (\<open>bindR\<close>, \<open>mapR\<close>,
    \<open>foldR\<close>), digits. \<open>JSValue\<close>: the values of the language (\<open>jsval\<close>), the exceptions (\<open>js_error\<close>) and the
    environment \<open>env\<close> of the libraries that are not in the repository. \<open>JSLib\<close>: \<open>Number\<close>, \<open>JSON.parse\<close> of
    a truth value, and dates with their calendar.
  \<^item> \<open>Utf\<close>, \<open>Long\<close>, \<open>ByteBuffer\<close>: the libraries \<open>utfx\<close>, \<open>long\<close> and \<open>bytebuffer\<close>, read from the copies in
    \<open>src/client-libs/dblurt/dist/dblurt.js\<close>. \<open>ByteBuffer\<close> has the locale \<open>codec\<close>: a writer that appends the
    encoding of a value and a reader that takes it off again. The primitive types of the buffer
    and the descriptors of \<open>types.js\<close> interpret it.
  \<^item> \<open>Keys\<close> (\<open>key_public.js\<close>, \<open>address.js\<close>), \<open>ChainTypes\<close>, \<open>Validation\<close> (\<open>validation.js\<close>), \<open>Decimals\<close>
    (\<open>number_utils.js\<close>, \<open>precision.js\<close>), \<open>ObjectId\<close> (\<open>object_id.js\<close>).
  \<^item> \<open>SortSpec\<close>, \<open>TypeBase\<close>, \<open>Types\<close>, \<open>Containers\<close>: the type descriptors of \<open>types.js\<close> and \<open>fast_parser.js\<close> as
    records of their four methods. The locale \<open>key_compare\<close> of \<open>SortSpec\<close> states when a comparison sorts
    by a key; \<open>Sorting\<close> interprets it for the comparison of the code on numbers, texts and buffers.
  \<^item> \<open>Serializer\<close> (\<open>serializer.js\<close>, \<open>error_with_cause.js\<close>, \<open>convert.js\<close>), \<open>Operations\<close> (\<open>operations.js\<close>).
  \<^item> \<open>Schema\<close>: the abstract specification of the wire format. A datatype of schemas with the canonical
    values of a schema (\<open>valid\<close>) and their bytes (\<open>wire\<close>); \<open>denote\<close> gives the descriptor of a schema.
    \<open>Codecs\<close> proves for every type constructor, and \<open>Schema\<close> for every schema, that the code
    implements the format, and that every serializer of \<open>operations.js\<close> is the denotation of its schema.
  \<^item> \<open>Search\<close>: loops that try until a test succeeds, as partial functions. \<open>Ecdsa\<close> (\<open>ecdsa.js\<close>,
    \<open>ecsignature.js\<close>), \<open>PrivateKeys\<close> (\<open>key_private.js\<close>, \<open>brain_key.js\<close>), \<open>Signing\<close> (\<open>signature.js\<close>,
    \<open>auth/index.js\<close>), \<open>Memo\<close> (\<open>aes.js\<close>, \<open>memo.js\<close>).
  \<^item> \<open>Transports\<close> (\<open>api/transports\<close>): HTTP requests with retries, and the WebSocket transport as a
    step relation with histories; the locale \<open>ws_invariant\<close> has an interpretation for each of its
    three invariants. \<open>Api\<close> (\<open>api/index.js\<close>, \<open>api/methods.js\<close>): the table of methods, options, failover,
    calls and streams. \<open>Utils\<close> (\<open>utils.js\<close>, text functions of \<open>formatter.js\<close>), \<open>Json\<close>
    (\<open>JSON.stringify\<close>), \<open>Broadcast\<close> (\<open>broadcast\<close>), \<open>Sending\<close> (\<open>broadcast.send\<close>).
  \<^item> \<open>Doubles\<close>: floating-point numbers as rationals that are rounded to 53 bits, \<open>parseFloat\<close>, \<open>toFixed\<close> and
    printing. \<open>Formatter\<close>: the functions of \<open>formatter.js\<close> on such numbers, and the pool of entropy and the
    random keys of \<open>key_utils.js\<close>.
  \<^item> \<open>Assets\<close> (\<open>chain/asset.ts\<close>, \<open>getVestingSharePrice\<close>), \<open>TsKeys\<close> and \<open>TsSigning\<close> (\<open>crypto.ts\<close>), \<open>TsSerializer\<close> and
    \<open>TsOperations\<close> (\<open>chain/serializer.ts\<close>), \<open>TsClient\<close> (\<open>client.ts\<close>, \<open>retryingFetch\<close> of \<open>utils.ts\<close>), \<open>TsHelpers\<close>
    (\<open>helpers/\<close>, \<open>chain/account.ts\<close>, \<open>chain/misc.ts\<close>, the filters and \<open>buildWitnessUpdateOp\<close> of \<open>utils.ts\<close>). Values are
    \<open>tsval\<close>, exceptions \<open>ts_error\<close>.
  \<^item> \<open>Agreement\<close>: the locale \<open>writer\<close>, a function that appends the encoding of a value to a buffer, with
    interpretations for the types of both libraries; \<open>Interop\<close>: for every schema both libraries write
    the same bytes of the plain values (\<open>raw_valid\<close>, \<open>raw_wire\<close>), hence for the 29 operations that they
    declare alike and for transactions of them.
  \<^item> \<open>Mobile\<close> (\<open>letsblurt/src/providers/blurt/dblurtApi.ts\<close> and the constants, types and utilities it uses): servers,
    requests, passwords and the operations that are sent. The methods of \<open>dblurt\<close> it calls are functions of the
    network, or those of the model where a key is read.
  \<^item> \<open>WebNames\<close> (\<open>utils/ChainValidation.js\<close>, \<open>ResolveRoute.js\<close> of the web interfaces): checks of names and memos, and the
    pages that paths lead to, the regular expressions written out as functions on texts.
  \<^item> \<open>WebKeys\<close> (\<open>redux/AuthSaga.js\<close>, \<open>redux/UserSaga.js\<close>, \<open>redux/UserReducer.js\<close>, \<open>utils/UserUtil.js\<close>): authorities
    and the choice of keys, logins, the saved login, the keys in the state. A saga is a function to the list of actions that it
    dispatches; \<open>user_reducer\<close> is the reducer for those that matter to keys. \<open>WebTransactions\<close>
    (\<open>redux/TransactionSaga.js\<close>): broadcasts, private keys in texts, encrypted memos, recovery and replacement of keys.
  \<^item> \<open>Texts\<close>: further values that are read back from their texts. \<open>Deviations\<close>: what \<open>blurtjs\<close> does where it
    does not do what it means to. \<open>Further\<close>: more theorems on operation numbers, parameters of broadcasts, encodings of
    signatures, numbers, nonces, streams, addresses of clients, manabars, names and passwords.
  \<^item> \<open>Examples\<close>, \<open>TsExamples\<close>, \<open>WebExamples\<close>: instances of the parameters for the examples of the properties.

  \<^bold>\<open>What the properties show.\<close> The serializer implements an unambiguous wire format with the numbers of
  the chain, and its errors name their place. Signatures verify, have a low \<open>s\<close>, use the nonces
  of RFC 6979 (\<open>rfc6979_candidate\<close>, written from the document and not from the code), and are made for the
  chain id and the bytes of the transaction; keys, texts of keys and encodings of signatures are
  read back; memos are decrypted to what was encrypted. A callback of the WebSocket transport is
  called at most once, a broadcast over HTTP is sent at most once, the transport moves to the next endpoint in rounds,
  streams are without gaps. The two libraries compute the same bytes and digests for a transaction,
  what \<open>dblurt\<close> broadcasts is signed for these bytes, and logins and private keys mean the same in both;
  the numbers of eleven operations diverge (\<open>Further\<close>). The signing loop of \<open>dblurt\<close> ends within 256 attempts or
  never; amounts are exact below \<open>2 ^ 51\<close> units; a client stays with its addresses, and with a list of
  them may never give up. The mobile application transfers only with an active or owner key, and is of no use with a
  master password. The wallet tests the long words of a memo for keys, and no others. A login to the web interfaces adds only keys with the authority of their
  roles to the state, in the condenser no active key and an owner key unchecked (keys of an earlier login stay); the wallet signs an operation with a key that has the authority
  for it, asks before it publishes a private key, encrypts every memo that starts with \<open>#\<close>, saves only a
  posting key, and leaves a new key as the only key of a replaced authority. Some properties, and \<open>Deviations\<close>, state what the code does where it does
  not do what it means to: a checksum that can be wrong, lost requests, no reconnection, no failover
  by default, misplaced callbacks, errors that are not reported, keys and assets that are not read.

  \<^bold>\<open>Conventions and limits.\<close> The numbers of \<open>blurtjs\<close> are integers (with \<open>NaN\<close>): fractions and the loss of precision above
  \<open>2 ^ 53\<close> are not modelled there, and the code checks for the latter where it matters. The numbers of
  \<open>dblurt\<close> and of the formatter are doubles. Objects are lists of
  fields without prototypes except where the code looks at inherited names; arrays are values, so
  that the sorting in place of an argument is its result. Exceptions are constructors of \<open>js_error\<close>, their
  texts are not modelled; the model's \<open>Hang\<close> is a call that does not return. Case conversion is that
  of ASCII. The flag \<open>HEX_DUMP\<close> is off. A buffer from \<open>new Buffer(n)\<close> is filled with zeros. A loop that may not
  end is a partial function with the value \<open>None\<close> (\<open>search\<close> in the choice of nonces, in signing and in
  \<open>retryingFetch\<close>, and the UTF-16 reader); nothing uses fuel. Time, network, randomness and the decisions of the \<open>retry\<close>
  library are arguments.

  \<^bold>\<open>Parameters.\<close> \<open>ecurve\<close>, \<open>bigi\<close>, \<open>bs58\<close>, the hashes, the HMAC and the cipher are not in the repository: they
  are the records \<open>env\<close>, \<open>ecc\<close> and \<open>aes\<close>; the package \<open>secp256k1\<close> is the record of that name. What the code relies on is named by the predicates \<open>curve_ok\<close> (the
  group laws and the modular inverse), \<open>mult_ok\<close>, \<open>add_ok\<close>, \<open>bytes_ok\<close>, \<open>der_ok\<close>, \<open>wif_ok\<close>, \<open>point_ok\<close>,
  \<open>base58_ok\<close>, \<open>memo_key_ok\<close>, \<open>aes_ok\<close> and \<open>recovery_ok\<close>, which the examples show to be satisfiable. Of the
  applications, the answers of the node, the extension that keeps keys, the stored settings and the merging of maps (\<open>merge_ok\<close>)
  are arguments; \<open>wif_lead\<close> says that the text of a private key starts with 5, \<open>field_ok\<close> that a text has no tabulator.

  \<^bold>\<open>Not modelled.\<close> The events of a browser that feed the entropy; logging; the errors of
  \<open>broadcastTransactionSynchronousWith\<close>, which the generated method of the same name replaces; in
  \<open>dblurt\<close> the wrappers of its generators as streams, \<open>sleep\<close>, \<open>waitForEvent\<close>, the printing of objects and the
  type declarations; the compiled copies under \<open>lib\<close> and \<open>dist\<close> of the libraries themselves. Of the mobile
  application the reading of posts, comments and notifications, wallets assembled by packages outside the repository,
  and the user interface; of the web interfaces the components in JSX, the reducers and sagas of posts, markets and proposals, the
  flags of dialogs, what follows the answer of the node to a broadcast, their servers, and recorded data. They display data or call
  packages, and make no promise that a theorem could state beyond their own text. The chain daemon (C++), the proxies (Python)
  and the image hoster are other programs.
\<close>

section \<open>The serializer implements the wire format\<close>

text \<open>
  C1. A transaction in canonical form is serialized to exactly the bytes of the wire format, and
  reading these bytes gives the transaction back.
\<close>

theorem transaction_wire:
  assumes "valid E transaction_schema tx"
  shows "toBuffer (op_transaction E) tx = Inr (wire E transaction_schema tx) \<and>
    fromBuffer (op_transaction E) (wire E transaction_schema tx) = Inr tx"
  using is_codec_toBuffer [OF denote_codec assms] is_codec_fromBuffer [OF denote_codec assms]
  by (simp add: denote_transaction)

theorem transaction_wire_witness:
  "valid example_env transaction_schema example_transaction \<and>
   toBuffer (op_transaction example_env) example_transaction = Inr (wire example_env transaction_schema example_transaction) \<and>
   fromBuffer (op_transaction example_env) (wire example_env transaction_schema example_transaction) = Inr example_transaction"
  using example_transaction_valid transaction_wire [OF example_transaction_valid] by blast





lemma field_value_Inl:
  "(case p of (field, type) \<Rightarrow> bindR (with_cause name field (g field type)) (\<lambda>v. Inr (field, v))) = Inl e \<longleftrightarrow>
     (\<exists>e'. g (fst p) (snd p) = Inl e' \<and> e = EC_throw name (fst p) e')"
  by (cases p; cases "g (fst p) (snd p)") (auto simp: with_cause_def)

lemma field_value_Inr:
  "(case p of (field, type) \<Rightarrow> bindR (with_cause name field (g field type)) (\<lambda>v. Inr (field, v))) = Inr y \<Longrightarrow>
     \<exists>v. g (fst p) (snd p) = Inr v"
  by (cases p; cases "g (fst p) (snd p)") (auto simp: with_cause_def)

text \<open>
  C4. When a field of an object cannot be converted, the exception names the operation and that
  field, after all fields before it have been converted.
\<close>

theorem field_error_cause:
  assumes "fromObject (Serializer E name fs) object = Inl e"
  shows "\<exists>i e'. i < length fs \<and> e = EC_throw name (fst (fs ! i)) e' \<and>
    bindR (js_get object (fst (fs ! i))) (fromObject (snd (fs ! i))) = Inl e' \<and>
    (\<forall>j < i. \<exists>v. bindR (js_get object (fst (fs ! j))) (fromObject (snd (fs ! j))) = Inr v)"
proof -
  let ?g = "\<lambda>field type. bindR (js_get object field) (fromObject type)"
  let ?f = "\<lambda>(field, type). bindR (with_cause name field (?g field type)) (\<lambda>v. Inr (field, v))"
  have "bindR (mapR ?f fs) (\<lambda>kvs. Inr (JObj kvs)) = Inl e"
    using assms by (simp only: Serializer_def Serializer_fromObject_def st_type.select_convs)
  then have "mapR ?f fs = Inl e" by (simp only: bindR_eq_Inl sum.distinct simp_thms)
  from mapR_first_error [OF this] obtain i where i: "i < length fs" "?f (fs ! i) = Inl e"
    "\<forall>j < i. \<exists>v. ?f (fs ! j) = Inr v"
    by (elim exE conjE) (rule that)
  have ok: "\<exists>v. ?g (fst (fs ! j)) (snd (fs ! j)) = Inr v" if "j < i" for j
    using i(3) [rule_format, OF that] by (elim exE) (rule field_value_Inr)
  obtain e' where "?g (fst (fs ! i)) (snd (fs ! i)) = Inl e'" "e = EC_throw name (fst (fs ! i)) e'"
    using i(2) [unfolded field_value_Inl] by (elim exE conjE) (rule that)
  with i(1) ok show ?thesis by (intro exI [of _ i] exI [of _ e'] conjI allI impI)
qed

theorem field_error_cause_witness:
  "\<exists>i e'. i < length [(''voter'', st_string example_env), (''weight'', int16 example_env)] \<and>
    Cause (OpStr ''vote'') ''voter'' ValueRequired =
      EC_throw (OpStr ''vote'') (fst ([(''voter'', st_string example_env), (''weight'', int16 example_env)] ! i)) e'"
proof -
  have "fromObject (Serializer example_env (OpStr ''vote'') [(''voter'', st_string example_env), (''weight'', int16 example_env)])
    (JObj [(''weight'', JNum 1)]) = Inl (Cause (OpStr ''vote'') ''voter'' ValueRequired)" by code_simp
  from field_error_cause [OF this] show ?thesis by blast
qed

section \<open>Signing\<close>

text \<open>
  C5. A signature that \<open>ecdsa.sign\<close> returns verifies with the public key of the number that made it,
  and its \<open>s\<close> is in the lower half of the order of the curve, as the network requires.
\<close>

theorem signature_low_and_valid:
  assumes "curve_ok L" "ecdsa_sign E L hash d nonce = Some (Inr sg)"
  shows "ecdsa_verify L hash sg (toPublicKeyPoint L d) \<and> 0 < sig_s sg \<and> sig_s sg \<le> cv_n L div 2"
  using ecdsa_sign_verifies [OF assms] by (simp add: toPublicKeyPoint_def)

theorem signature_low_and_valid_witness:
  "ecdsa_verify example_ecc (replicate 32 1) \<lparr>sig_r = 3, sig_s = 1\<rparr> (toPublicKeyPoint example_ecc 1)"
  using signature_low_and_valid [OF example_curve example_sign] by blast



text \<open>
  C7. \<open>signTransaction\<close> signs the chain id followed by the bytes of the transaction: there is one
  signature per key, each verifies with its key and its key can be recovered from it; the result is
  what \<open>signed_transaction.toObject\<close> makes of the transaction with these signatures after the old ones.
\<close>

theorem transaction_signatures:
  assumes "curve_ok L" "list_all2 (\<lambda>k d. toPrivateObj E L k = Inr d) keys ds"
    and "signTransaction E L trx keys = Some (Inr out)"
  shows "\<exists>buf sgs bss. toBuffer (op_transaction E) (JObj trx) = Inr buf \<and>
    list_all2 (\<lambda>sg d. verifyBuffer E L sg (fromHex (chain_id E) @ buf) (toPublicKeyPoint L d) = Inr True \<and>
      (\<exists>Q. recoverPublicKeyFromBuffer E L sg (fromHex (chain_id E) @ buf) = Inr Q \<and>
           cv_equals L Q (toPublicKeyPoint L d))) sgs ds \<and>
    mapR (Signature_toBuffer L) sgs = Inr bss \<and>
    toObject (op_signed_transaction E)
      (JObj (assoc_set ''signatures'' (JArr (old_signatures (options_get trx ''signatures'') @ map JBuf bss)) trx))
      \<lparr>use_default = False, annotate = False\<rparr> = Inr out"
proof -
  obtain buf bss where b: "toBuffer (op_transaction E) (JObj trx) = Inr buf"
    "sign_all E L (fromHex (chain_id E) @ buf) keys = Some (Inr bss)"
    "toObject (op_signed_transaction E)
       (JObj (assoc_set ''signatures'' (JArr (old_signatures (options_get trx ''signatures'') @ map JBuf bss)) trx))
       \<lparr>use_default = False, annotate = False\<rparr> = Inr out"
    using assms(3) by (rule signTransaction_Inr)
  from sign_all_verifies [OF assms(1) b(2) assms(2)] b(1,3) show ?thesis by blast
qed

theorem transaction_signatures_witness:
  "\<exists>buf sgs. toBuffer (op_transaction example_env) (JObj example_unsigned) = Inr buf \<and>
    list_all2 (\<lambda>sg d. verifyBuffer example_env example_ecc sg (fromHex (chain_id example_env) @ buf)
      (toPublicKeyPoint example_ecc d) = Inr True) sgs [1]"
proof -
  have k: "list_all2 (\<lambda>k d. toPrivateObj example_env example_ecc k = Inr d) [KeyObject 1] [1]"
    by (simp add: toPrivateObj_def)
  from transaction_signatures [OF example_curve k example_signed] show ?thesis
    by (elim exE conjE) (intro exI conjI, assumption, erule list_all2_mono, rule conjunct1)
qed

section \<open>The TypeScript library: bytes, digests and keys\<close>

text \<open>
  C8. The two libraries of the repository agree on transactions. For a transaction as a program writes
  it, of the operations that both declare alike, \<open>blurtjs\<close> serializes it to some bytes, and \<open>dblurt\<close>
  computes as its digest the hash of the chain id followed by exactly these bytes.
\<close>

theorem libraries_agree:
  assumes "raw_transaction E S tx"
  shows "\<exists>bytes. toBuffer (op_transaction E) tx = Inr bytes \<and>
    transactionDigest E S (to_ts tx) (Some chainId) = Inr (sha256 E (chainId @ bytes))"
  using transaction_bytes [OF assms] transaction_digest [OF assms] by blast

theorem libraries_agree_witness:
  "\<exists>bytes. toBuffer (op_transaction example_env) example_raw = Inr bytes \<and>
     transactionDigest example_env example_secp (to_ts example_raw) (Some []) = Inr (sha256 example_env ([] @ bytes))"
  by (rule libraries_agree [OF example_raw_valid])

text \<open>
  C9. What \<open>broadcast.sendOperations\<close> of \<open>dblurt\<close> sends. From the properties that the node reports it
  makes a transaction that refers to the head block and expires a minute after the time of the
  node. If the call succeeds, the node was given a plain copy of this transaction with one signature
  per key, in their order, each made for the hash of the chain id of the client and the bytes that
  \<open>blurtjs\<close> writes for the transaction, and the node did not call it expired.
\<close>

theorem sent_transaction:
  fixes E :: env
  assumes props: "dp_time props = iso_seconds t" "0 \<le> t" "t < 4294967236"
    "readUInt32LE (fromHex (dp_head_block_id props)) 4 = Inr prefix"
    and ops: "list_all (raw_operation E S) ops" "length ops < 2147483648"
    and sent: "sendOperations E S c props (map to_ts ops) keys answer = Some (Inr result)"
  shows "\<exists>bytes tx sigs. toBuffer (op_transaction E) (prepared (dp_head_block_number props) prefix t ops) = Inr bytes \<and>
    json_copy E (to_ts (prepared (dp_head_block_number props) prefix t ops)) = Some (ObjV tx) \<and>
    list_all2 (signed_by E S (sha256 E (cl_chainId c @ bytes))) keys sigs \<and>
    answer (ts_send (ObjV (tx @ [(''signatures'', ArrV sigs)]))) = Inr result \<and>
    ts_get result ''expired'' = Inr (BoolV False)"
proof -
  let ?tx = "prepared (dp_head_block_number props) prefix t ops"
  obtain kvs where k: "prepare_send E props (map to_ts ops) = Inr kvs" "ObjV kvs = to_ts ?tx" "raw_transaction E S ?tx"
    using prepare_send_plain [OF props ops] by blast
  obtain signed where s: "ts_signTransaction E S kvs keys (Some (cl_chainId c)) = Some (Inr signed)"
    "answer (ts_send signed) = Inr result" "ts_get result ''expired'' = Inr (BoolV False)"
    using sendOperations_parts [OF sent] k(1) by auto
  have "''signatures'' \<notin> fst ` set kvs" using k(2) by (simp add: prepared_def)
  from signTransaction_parts [OF s(1) this] obtain digest copied sigs where d: "transactionDigest E S (ObjV kvs) (Some (cl_chainId c)) = Inr digest"
    "json_copy E (ObjV kvs) = Some (ObjV copied)" "signed = ObjV (copied @ [(''signatures'', ArrV sigs)])"
    "list_all2 (signed_by E S digest) keys sigs" .
  with s k(2) transaction_bytes [OF k(3)] transaction_digest [OF k(3)] show ?thesis by auto
qed

theorem sent_transaction_witness:
  "\<exists>bytes tx sigs. toBuffer (op_transaction example_env) (prepared 100 117440512 1459986120 [example_transfer]) = Inr bytes \<and>
     json_copy example_env (to_ts (prepared 100 117440512 1459986120 [example_transfer])) = Some (ObjV tx) \<and>
     list_all2 (signed_by example_env example_secp (sha256 example_env (replicate 32 0 @ bytes))) [replicate 32 5] sigs \<and>
     ts_get example_answer ''expired'' = Inr (BoolV False)"
  using sent_transaction [OF example_props_facts(1-4) _ _ example_sent [of "\<lambda>r. Inr example_answer" example_env, OF refl]]
  by (simp add: example_transfer_raw example_props_facts(5,6) del: json_copy.simps)

section \<open>Keys\<close>

text \<open>
  C10. The wallet import format of a private key is read back as that key, and its public key is the
  one the key itself gives.
\<close>

theorem wif_roundtrip:
  assumes "bytes_ok L d" "wif_ok E (bi_toBuffer L d)"
  shows "PrivateKey_fromWif E L (PrivateKey_toWif E L d) = Inr d \<and> PrivateKey_isWif E L (PrivateKey_toWif E L d) \<and>
    wifToPublic E L (PrivateKey_toWif E L d) = Inr (toPublicKeyString E (address_prefix E) (PrivateKey_toPublic L d))"
  using fromWif_toWif [OF assms] by (simp add: PrivateKey_isWif_def wifToPublic_def)

theorem wif_roundtrip_witness: "PrivateKey_fromWif example_env example_ecc (PrivateKey_toWif example_env example_ecc 3) = Inr 3"
proof -
  have "wif_ok example_env (bi_toBuffer example_ecc 3)" by code_simp
  from wif_roundtrip [OF example_bytes(1) this] show ?thesis by simp
qed

lemma invalid_bytes_decode: "\<forall>b \<in> set bs. 245 \<le> b \<Longrightarrow> node_decode bs = replicate (length bs) 65533"
proof (induction bs)
  case (Cons b bs)
  then have "node_decode_codepoints (b # bs) = 65533 # node_decode_codepoints bs"
    by (simp add: word_le_nat_alt word_less_nat_alt)
  moreover have "UTF8toUTF16 65533 = [65533]" by code_simp
  ultimately show ?case using Cons by (simp add: node_decode_def)
qed (simp add: node_decode_def)

text \<open>
  C11. The checksum of a private key is compared as UTF-8 text: two checksums of bytes that
  occur in no character are the same text, so a key with such a checksum is accepted with any other.
\<close>

theorem wif_checksum_weak:
  assumes "base58_decode E wif = Inr (128 # key @ chk)" "key \<noteq> []" "length chk = 4"
    and "length (wif_checksum E (128 # key)) = 4" "\<forall>b \<in> set chk \<union> set (wif_checksum E (128 # key)). 245 \<le> b"
  shows "PrivateKey_fromWif E L wif = Inr (bi_fromBuffer L key) \<and> Auth_isWif E wif"
proof -
  have "node_decode chk = node_decode (wif_checksum E (128 # key))"
    using invalid_bytes_decode [of chk] invalid_bytes_decode [of "wif_checksum E (128 # key)"] assms(3-5) by simp
  with fromWif_text_checksum [OF assms(1,3,2) this] assms(1,3) show ?thesis
    by (simp add: Auth_isWif_def Let_def)
qed

theorem wif_checksum_weak_witness:
  "PrivateKey_fromWif (example_env\<lparr>sha256 := \<lambda>bs. replicate 32 254\<rparr>) example_ecc [128, 9, 255, 255, 255, 255] = Inr 9"
proof -
  let ?E = "example_env\<lparr>sha256 := \<lambda>bs. replicate 32 254\<rparr>"
  have "base58_decode ?E [128, 9, 255, 255, 255, 255] = Inr (128 # [9] @ [255, 255, 255, 255])" by code_simp
  from wif_checksum_weak [OF this, of example_ecc] show ?thesis
    by (simp add: wif_checksum_def) (simp add: example_ecc_def)
qed

text \<open>
  C12. The public key that \<open>generateKeys\<close> lists for a role is the public key of the private key that
  \<open>toWif\<close> derives from the same name, password and role.
\<close>

theorem password_keys_agree:
  assumes "role \<in> set rs" "wif_ok E (seed_hash E name password role)"
  shows "\<exists>p. map_of (generateKeys E L name password rs) role = Some p \<and>
    wifToPublic E L (Auth_toWif E name password role) = Inr p \<and>
    wifIsValid E L (Auth_toWif E name password role) p = Inr True"
  using assms by (simp add: map_of_generateKeys wifToPublic_toWif wifIsValid_def)

theorem password_keys_agree_witness:
  "\<exists>p. wifToPublic example_env example_ecc (Auth_toWif example_env (js ''alice'') (js ''secret'') (js ''posting'')) = Inr p"
proof -
  have "wif_ok example_env (seed_hash example_env (js ''alice'') (js ''secret'') (js ''posting''))"
    by (simp add: seed_hash_def wif_ok_def wif_bytes_def wif_checksum_def example_env_def ucast_up_ucast_id is_up comp_def map_idI)
  from password_keys_agree [of "js ''posting''" "[js ''posting'']", OF _ this] show ?thesis by auto
qed

text \<open>
  C13. Deriving commutes with taking the public key: the child of a private key belongs to the child
  of its public key. The private side does not reduce its sum, so the one case that the public side
  refuses, a sum that is a multiple of the order of the curve, is not noticed by the private side.
\<close>

theorem child_keys_commute:
  assumes "curve_ok L" "add_ok L" "length offset = 32" "PrivateKey_child E L d offset = Inr d'"
  shows "PublicKey_child E L (toPublicKeyPoint L d) (JBuf offset) =
    (if d' mod cv_n L = 0 then Inl ChildInvalid else Inr (toPublicKeyPoint L d'))"
  by (rule child_commutes [OF assms])

theorem child_keys_commute_witness:
  "PublicKey_child example_env example_ecc (toPublicKeyPoint example_ecc 6) (JBuf (replicate 32 0)) = Inl ChildInvalid"
proof -
  have "PrivateKey_child example_env example_ecc 6 (replicate 32 0) = Inr 7" by code_simp
  moreover have "(7::int) mod cv_n example_ecc = 0" by (simp add: example_ecc_def)
  ultimately show ?thesis using child_keys_commute [OF example_curve example_laws(2), of "replicate 32 0" example_env 6 7] by simp
qed

text \<open>
  C14. A public key is read back from its text, and a text is only accepted with the right prefix and
  with the checksum of the bytes before it.
\<close>

theorem public_key_text:
  assumes "case Q of None \<Rightarrow> True | Some q \<Rightarrow> point_ok E q" "base58_ok E (PublicKey_toBuffer E Q)"
  shows "fromStringOrThrow E (toPublicKeyString E prefix Q) prefix = Inr (JPub Q) \<and>
    isPubkey E (toPublicKeyString E prefix Q) prefix \<and>
    (fromStringOrThrow E t prefix = Inr k \<longrightarrow>
      (\<exists>body. base58_decode E (drop (length prefix) t) = Inr (body @ take 4 (ripemd160 E body)) \<and>
         take (length prefix) t = prefix \<and> PublicKey_fromBuffer E body = Inr k))"
proof -
  have "\<exists>body. base58_decode E (drop (length prefix) t) = Inr (body @ take 4 (ripemd160 E body)) \<and>
         take (length prefix) t = prefix \<and> PublicKey_fromBuffer E body = Inr k" if r: "fromStringOrThrow E t prefix = Inr k"
  proof -
    obtain body u bs where b: "t = prefix @ u" "base58_decode E u = Inr bs" "body = take (length bs - 4) bs"
      "drop (length bs - 4) bs = take 4 (ripemd160 E body)" "PublicKey_fromBuffer E body = Inr k"
      using r by (auto simp: fromStringOrThrow_def bindR_eq_Inr checked_base58_Inr)
    have "bs = body @ take 4 (ripemd160 E body)"
      using arg_cong2 [where f = "(@)", OF b(3) b(4) [symmetric]] by simp
    with b(1,2,5) show ?thesis by (intro exI [of _ body]) simp
  qed
  then show ?thesis
    using fromStringOrThrow_toPublicKeyString [OF assms, of prefix] by (simp add: isPubkey_def PublicKey_fromString_def)
qed

theorem public_key_text_witness:
  "isPubkey example_env (toPublicKeyString example_env (js ''BLT'') None) (js ''BLT'')"
proof -
  have "base58_ok example_env (PublicKey_toBuffer example_env None)" by code_simp
  from public_key_text [OF _ this] show ?thesis by simp
qed

text \<open>
  C15. A login gives the same key in both libraries: the wallet import format of the key that \<open>dblurt\<close>
  derives from name, password and role is the one that \<open>blurtjs\<close> derives. This needs a seed without
  white space that normalization would change: only \<open>blurtjs\<close> normalizes it.
\<close>

theorem login_keys_agree:
  assumes "normalize_brain_key (name @ role @ password) = name @ role @ password"
    and "privateKeyVerify S (seed_hash E name password role)"
  shows "bindR (PrivateKey_fromLogin E S name password role) (ts_PrivateKey_toString E) = Inr (Auth_toWif E name password role)"
  by (rule fromLogin_toWif [OF assms])

theorem login_keys_agree_witness:
  "bindR (PrivateKey_fromLogin example_env example_secp (js ''alice'') (js ''pw'') (js ''active'')) (ts_PrivateKey_toString example_env) =
     Inr (Auth_toWif example_env (js ''alice'') (js ''pw'') (js ''active''))"
proof (rule login_keys_agree)
  show "normalize_brain_key (js ''alice'' @ js ''active'' @ js ''pw'') = js ''alice'' @ js ''active'' @ js ''pw''" by code_simp
  show "privateKeyVerify example_secp (seed_hash example_env (js ''alice'') (js ''pw'') (js ''active''))"
    by (simp add: example_secp_def example_env_def seed_hash_def)
qed

text \<open>
  C16. The loop in which \<open>PrivateKey.sign\<close> of \<open>dblurt\<close> looks for a canonical signature returns exactly
  when one of the attempts 1 to 256 ends it: only the low byte of the counter reaches the curve, so
  that otherwise it never returns. A signature it returns is one that the curve made for the
  message and the key, is canonical, and is read back from its 65 bytes and from its text.
\<close>

theorem ts_sign_returns:
  assumes "recovery_ok S"
  shows "((\<exists>r. PrivateKey_sign E S key message = Some r) \<longleftrightarrow> (\<exists>n \<in> {1..256}. ts_sign_attempt E S key message n \<noteq> None)) \<and>
    (\<forall>sg. PrivateKey_sign E S key message = Some (Inr sg) \<longrightarrow>
       (\<exists>n. secp_sign S message key (sha256 E (message @ [of_nat n])) = Inr (sg_data sg, sg_recovery sg)) \<and>
       isCanonicalSignature (sg_data sg) \<and>
       bindR (ts_Signature_toBuffer sg) ts_Signature_fromBuffer = Inr sg \<and>
       bindR (ts_Signature_toString sg) ts_Signature_fromString = Inr sg)"
proof (intro conjI allI impI sign_returns)
  fix sg assume "PrivateKey_sign E S key message = Some (Inr sg)"
  then obtain n where n: "secp_sign S message key (sha256 E (message @ [of_nat n])) = Inr (sg_data sg, sg_recovery sg)"
    "isCanonicalSignature (sg_data sg)" "length (sg_data sg) = 64"
    using sign_result by blast
  then have "0 \<le> sg_recovery sg + 31" "sg_recovery sg + 31 < 256" using assms n(1) by (fastforce simp: recovery_ok_def)+
  with n show "\<exists>n. secp_sign S message key (sha256 E (message @ [of_nat n])) = Inr (sg_data sg, sg_recovery sg)"
    "isCanonicalSignature (sg_data sg)" "bindR (ts_Signature_toBuffer sg) ts_Signature_fromBuffer = Inr sg"
    "bindR (ts_Signature_toString sg) ts_Signature_fromString = Inr sg"
    using ts_fromBuffer_toBuffer [of sg] by auto
qed

theorem ts_sign_returns_witness:
  "bindR (ts_Signature_toBuffer \<lparr>sg_data = replicate 64 1, sg_recovery = 0\<rparr>) ts_Signature_fromBuffer =
     Inr \<lparr>sg_data = replicate 64 1, sg_recovery = 0\<rparr>"
proof -
  have "recovery_ok example_secp" by (simp add: recovery_ok_def example_secp_def)
  from ts_sign_returns [OF this, of example_env "[]" "[]"] show ?thesis
    using example_key_signs [of example_env "[]" "[]"] by blast
qed

text \<open>
  C17. The copy of a transaction that is signed has a type: whatever the argument contains (assets, keys,
  buffers, missing values), the result of \<open>copy\<close> is plain data of finite numbers, texts, truth values,
  lists and objects, and copying it again changes nothing.
\<close>

theorem copy_is_plain:
  "json_copy E v = Some w \<Longrightarrow> plain_ts w \<and> json_copy E w = Some w"
  using json_copy_is_plain json_copy_plain by blast

theorem copy_is_plain_witness: "plain_ts (ArrV [NullV, StrV (js ''0102'')])"
proof -
  have "json_copy example_env (ArrV [UndefV, HexV [1, 2]]) = Some (ArrV [NullV, StrV (js ''0102'')])" by code_simp
  from copy_is_plain [OF this] show ?thesis ..
qed

text \<open>
  C18. Amounts are doubles in \<open>dblurt\<close>. For every amount below \<open>2 ^ 52\<close> of the smallest unit the text of
  an asset is read and printed back unchanged; below \<open>2 ^ 51\<close> the bytes that the serializer of assets writes are the number of units, the
  precision and the symbol (two symbols under their older names). Beyond that the number need not be exact: the
  text of 4294994912.509237 VESTS is serialized as one unit more.
\<close>

theorem asset_amounts_exact:
  assumes "k < 2 ^ 52" "sy \<in> set asset_symbols" "bb_ok b"
  shows "(\<exists>a. Asset_fromString (amount_text k sy) None = Inr a \<and> Asset_toString a = amount_text k sy) \<and>
   (k < 2 ^ 51 \<longrightarrow> (\<exists>b'. AssetSerializer b (StrV (amount_text k sy)) = Inr b' \<and>
      bb_appended b (bytes64 (of_nat k) @ symbol_bytes (precision_of sy) (written_symbol sy)) b')) \<and>
   (\<exists>b'. AssetSerializer b (StrV (js ''4294994912.509237 VESTS'')) = Inr b' \<and>
      bb_appended b (bytes64 4294994912509238 @ symbol_bytes 6 (js ''VESTS'')) b')"
proof (intro conjI impI)
  show "\<exists>a. Asset_fromString (amount_text k sy) None = Inr a \<and> Asset_toString a = amount_text k sy"
    using fromString_amount [OF assms(1,2)] fromString_toString [OF assms(1,2)] by fastforce
qed (rule asset_serializer_amount [OF _ assms(2,3)] inexact_asset [OF assms(3)], assumption?)+

theorem asset_amounts_exact_witness:
  "\<exists>b'. AssetSerializer (ByteBuffer_new 16 True) (StrV (js ''1.000 BLURT'')) = Inr b' \<and>
     bb_contents b' = [232, 3, 0, 0, 0, 0, 0, 0, 3, 66, 76, 85, 82, 84, 0, 0]"
proof -
  have "amount_text 1000 (js ''BLURT'') = js ''1.000 BLURT''" "js ''BLURT'' \<in> set asset_symbols" by code_simp+
  moreover have "bytes64 (of_nat 1000) @ symbol_bytes (precision_of (js ''BLURT'')) (written_symbol (js ''BLURT'')) =
      [232, 3, 0, 0, 0, 0, 0, 0, 3, 66, 76, 85, 82, 84, 0, 0]" by code_simp
  ultimately show ?thesis using asset_amounts_exact [of 1000 "js ''BLURT''" "ByteBuffer_new 16 True"] by (auto simp: bb_appended_def)
qed

section \<open>Memos\<close>

text \<open>
  C19. An encrypted memo is decrypted to the text that was encrypted, by the sender and by the
  receiver, for every text without unpaired surrogates: the secret of the two keys, the nonce and
  the check number that the message carries are the ones that were used to encrypt it.
\<close>

theorem memo_is_read:
  assumes "mult_ok L" "memo_key_ok E L a" "memo_key_ok E L b" "aes_ok A" "address_prefix E \<noteq> []"
    "wf16 s" "length (node_encode s) < 2147483600" "toLongObj nonce = Inr (JLong u w)" "0 \<le> long_value u w"
    "4 \<le> length (sha256 E (sha512 E (bytes64 w @ shared_secret E L a b)))"
    "check_number E (sha512 E (bytes64 w @ shared_secret E L a b)) \<noteq> Inr 0"
    "\<forall>bs. base58_decode E (base58_encode E bs) = Inr bs" "d \<in> {a, b}"
  shows "bindR (memo_encode E L A True (KeyObject a) (JPub (PrivateKey_toPublic L b)) (JStr (35 # s)) nonce)
      (\<lambda>t. memo_decode E L A True (KeyObject d) (JStr t)) = Inr (35 # s)"
  using assms(13) by (intro memo_roundtrip [OF assms(1-12)]) auto

theorem memo_is_read_witness:
  "bindR (memo_encode example_env example_ecc example_aes True (KeyObject 1) (JPub (PrivateKey_toPublic example_ecc 3)) (JStr (35 # js ''hi'')) (JStr (js ''5'')))
      (\<lambda>t. memo_decode example_env example_ecc example_aes True (KeyObject 3) (JStr t)) = Inr (35 # js ''hi'')"
proof (rule memo_is_read [where u = False and w = 5])
  show "memo_key_ok example_env example_ecc 1" "memo_key_ok example_env example_ecc 3" by code_simp+
  show "toLongObj (JStr (js ''5'')) = Inr (JLong False 5)" by code_simp
  show "check_number example_env (sha512 example_env (bytes64 5 @ shared_secret example_env example_ecc 1 3)) \<noteq> Inr 0" by code_simp
  show "wf16 (js ''hi'')" by code_simp
  show "length (node_encode (js ''hi'')) < 2147483600" by code_simp
  show "\<forall>bs. base58_decode example_env (base58_encode example_env bs) = Inr bs"
    by (intro allI) (simp add: example_env_def comp_def ucast_up_ucast_id is_up map_idI)
qed (simp_all add: example_laws example_env_def long_value_def js_def)

section \<open>The WebSocket transport\<close>

lemma callback_from_request:
  "ws_step ok s ev (s', new) \<Longrightarrow> Callback t r \<in> set new \<Longrightarrow> \<exists>i. (i, t) \<in> set (ws_requests s)"
  by (erule ws_stepE)
    (auto simp: ws_run_def ws_deferred_def ws_onMessage_def ws_onError_def ws_onClose_def Let_def dest: map_of_SomeD
      split: option.splits sum.splits if_splits prod.splits socket_state.splits)

lemma callback_sent:
  "ws_history ok opts s outs \<Longrightarrow> Callback t r \<in> set outs \<Longrightarrow>
     (\<exists>k i ps. WsWrite k t i ps \<in> set outs) \<or> SendRejected t \<in> set outs"
proof (induction rule: ws_history.induct)
  case (step s outs ev s' new)
  then consider "Callback t r \<in> set outs" | "Callback t r \<in> set new" by auto
  then show ?case
  proof cases
    case 2
    then obtain i where "(i, t) \<in> set (ws_requests s)" using callback_from_request step(2) by blast
    with sent.history [OF step(1)] show ?thesis by (fastforce simp: ws_sent_def)
  qed (use step in auto)
qed simp

text \<open>
  C20. However calls, messages, errors, closings, stops and changes of options interleave, no callback
  is called more than once, and one that is called belongs to a request that was written to a
  socket, or that failed to be written.
\<close>

theorem callbacks_once:
  assumes "ws_history url_ok opts s outs"
  shows "distinct (callback_tags outs) \<and>
    (\<forall>t \<in> set (callback_tags outs). (\<exists>k i ps. WsWrite k t i ps \<in> set outs) \<or> SendRejected t \<in> set outs)"
proof -
  have "\<exists>r. Callback t r \<in> set outs" if "t \<in> set (callback_tags outs)" for t
    using that by (auto simp: callback_tags_def split: ws_out.splits)
  with callback_sent [OF assms] ws_callbacks_distinct [OF assms] show ?thesis by blast
qed

theorem callbacks_once_witness:
  "\<exists>s outs. callback_tags outs = [0] \<and> distinct (callback_tags outs) \<and>
    (\<forall>t \<in> set (callback_tags outs). (\<exists>k i ps. WsWrite k t i ps \<in> set outs) \<or> SendRejected t \<in> set outs) \<and>
    ws_history (\<lambda>u. True) [] s outs"
proof -
  obtain s outs where h: "ws_history (\<lambda>u. True) [] s outs" "callback_tags outs = [0]" using example_answered by blast
  from callbacks_once [OF h(1)] h show ?thesis by blast
qed

section \<open>The HTTP transport\<close>



section \<open>The connection\<close>

text \<open>
  C22. The failover of a connection with HTTP endpoints. Every threshold of errors moves it one endpoint on, cyclically: afterwards the
  requests of its transport go to this endpoint. Fewer errors are only counted, and change nothing else.
\<close>

theorem failover_rounds:
  assumes "http_endpoints us" "on_endpoint us (int (Suc m)) i 0 s" "i < length us" "k < Suc m"
  shows "\<exists>s'. notify_errors (r * Suc m + k) s = Inr s' \<and> on_endpoint us (int (Suc m)) ((i + r) mod length us) k s' \<and>
    (if r = 0 then s' = s\<lparr>s_error_count := k\<rparr> else connected_to (us ! ((i + r) mod length us)) s')"
proof -
  obtain s1 where s1: "notify_errors (r * Suc m) s = Inr s1" "on_endpoint us (int (Suc m)) ((i + r) mod length us) 0 s1"
    "if r = 0 then s1 = s else connected_to (us ! ((i + r) mod length us)) s1"
    using notify_errors_rounds [OF assms(1-3)] by blast
  from notify_errors_below [OF s1(2), of k] assms(4) s1 show ?thesis by (auto simp: notify_errors_add)
qed
theorem failover_rounds_witness:
  "\<exists>s'. notify_errors 4 example_connection = Inr s' \<and>
    on_endpoint [js ''https://a'', js ''https://b''] 3 1 1 s' \<and> connected_to (js ''https://b'') s'"
proof -
  have "http_endpoints [js ''https://a'', js ''https://b'']"
  proof -
    have "url_scheme ''http'' (js ''https://a'')" "url_scheme ''http'' (js ''https://b'')" by code_simp+
    then show ?thesis by (simp add: http_endpoints_def js_def)
  qed
  moreover have "on_endpoint [js ''https://a'', js ''https://b''] (int (Suc 2)) 0 0 example_connection"
    by (simp add: on_endpoint_def example_connection_def)
  ultimately show ?thesis
    using failover_rounds [of "[js ''https://a'', js ''https://b'']" 2 0 example_connection 1 1] by simp
qed

section \<open>The TypeScript library: requests, blocks and filters\<close>

text \<open>
  C23. When every request times out, a client of \<open>dblurt\<close> with different addresses goes through them in
  their order, cyclically, one per time-out, and gives up with the number of its threshold after as
  many changes as \<open>failoverThreshold\<close> says: it counts changes of the address, not rounds.
\<close>

theorem failover_threshold:
  fixes outs :: outcomes and n :: nat
  assumes "distinct urls" "1 < length urls" "timeout \<noteq> 0"
    and "fe \<in> set timeoutErrors" "contains fe c" "c \<noteq> []"
    and "\<And>i. outs i = (Failure (TextCode c), now i, now' i)"
    and "\<And>i. i \<le> n \<Longrightarrow> now i - (if i = 0 then start else now' (i - 1)) > timeout"
  shows "retryingFetch (Some (urls ! 0)) (Addresses urls) timeout (int n) start outs = Some (Inl (TriedTooOften (int n))) \<and>
    (\<forall>i \<le> n. fs_current (snd ((fetch_next (Addresses urls) timeout (int n) outs ^^ i) (fetch_start (Some (urls ! 0)) start))) =
      Some (urls ! (i mod length urls)))"
  using threshold_exhausted [OF assms] by blast

theorem failover_threshold_witness:
  "retryingFetch (Some (js ''a'')) (Addresses [js ''a'', js ''b'']) 50 (int 3) 0
     (\<lambda>i. (Failure (TextCode (js ''timeout'')), 100 * (int i + 1), 100 * (int i + 1))) = Some (Inl (TriedTooOften (int 3)))"
proof -
  have "js ''a'' \<noteq> js ''b''" "js ''timeout'' \<in> set timeoutErrors" "contains (js ''timeout'') (js ''timeout'')" "js ''timeout'' \<noteq> []"
    by code_simp+
  then show ?thesis
    using failover_threshold [of "[js ''a'', js ''b'']" 50 "js ''timeout''" "js ''timeout''"
        "\<lambda>i. (Failure (TextCode (js ''timeout'')), 100 * (int i + 1), 100 * (int i + 1))"
        "\<lambda>i. 100 * (int i + 1)" "\<lambda>i. 100 * (int i + 1)" 3 0]
    by simp
qed

text \<open>
  C24. The deadline of a request. A client with one address tries again after every failure before its deadline (for ever, with a timeout of
  0): it returns the first answer, and throws the first failure after the deadline, with its code, or a \<open>TypeError\<close>
  when the code is a number. A client with a list of addresses whose attempts all fail without a code tries for ever, whatever
  its timeout and its threshold are.
\<close>

theorem deadline_of_a_request:
  assumes "\<And>i. i < n \<Longrightarrow> \<exists>e now now'. outs i = (Failure e, now, now') \<and> (timeout = 0 \<or> now - start \<le> timeout)"
  shows "(\<forall>v now now'. outs n = (Answer v, now, now') \<longrightarrow> retryingFetch cur (OneAddress a) timeout th start outs = Some (Inr (v, cur))) \<and>
    (\<forall>e now now'. outs n = (Failure e, now, now') \<and> timeout \<noteq> 0 \<and> now - start > timeout \<longrightarrow>
       retryingFetch cur (OneAddress a) timeout th start outs =
         Some (Inl (case e of NumCode m \<Rightarrow> if m = 0 then Rethrown e else NotAFunction | _ \<Rightarrow> Rethrown e))) \<and>
    ((\<forall>i. \<exists>e now now'. outs i = (Failure e, now, now') \<and> no_code e) \<longrightarrow>
       retryingFetch cur (Addresses urls) timeout th start outs = None)"
  using one_address_attempts [OF assms] no_code_never_returns [of outs] by (auto simp: thrown_again_def)

theorem deadline_of_a_request_witness:
  "retryingFetch None (OneAddress (js ''a'')) 1 3 0 (\<lambda>i. (Failure (if i = 2 then TextCode (js ''x'') else NoCode), int i, int i)) =
     Some (Inl (Rethrown (TextCode (js ''x'')))) \<and>
   retryingFetch None (Addresses [js ''a'']) 1 3 0 (\<lambda>i. (Failure NoCode, int i, int i)) = None"
proof
  have "\<exists>e now now'. (\<lambda>i. (Failure (if i = 2 then TextCode (js ''x'') else NoCode), int i, int i)) i = (Failure e, now, now') \<and>
      (1 = (0 :: int) \<or> now - 0 \<le> 1)" if "i < 2" for i using that by auto
  from deadline_of_a_request [of 2 _ 1 0, OF this]
  show "retryingFetch None (OneAddress (js ''a'')) 1 3 0 (\<lambda>i. (Failure (if i = 2 then TextCode (js ''x'') else NoCode), int i, int i)) =
     Some (Inl (Rethrown (TextCode (js ''x''))))" by simp
  have "\<exists>e now now'. (\<lambda>i. (Failure NoCode, int i, int i)) i = (Failure e, now, now') \<and> (1 = (0 :: int) \<or> now - 0 \<le> 1)" if "i < 2" for i :: nat
    using that by auto
  from deadline_of_a_request [of 2 _ 1 0, OF this]
  show "retryingFetch None (Addresses [js ''a'']) 1 3 0 (\<lambda>i. (Failure NoCode, int i, int i)) = None" by (simp add: no_code_def)
qed



section \<open>The applications\<close>

text \<open>
  C26. When the mobile application reports the success of a transfer, the password is the text of the
  private key whose public key is the first of the active or of the owner keys of the sending account, and
  the node accepted the transfer signed with this key. In particular neither a posting key nor a master password will do.
  The hypothesis \<open>wif_lead\<close> says that the text of a private key starts with \<open>5\<close>.
\<close>

theorem transfer_authorized:
  assumes "wif_lead E S" "transferToken E S c net username password to' amount memo = Some (Inr TRANSACTION_SUCCESS)"
  shows "\<exists>k pub key result. k \<in> {ACTIVE, OWNER} \<and> first_key (role_name k) (app_getAccount E net username) = Inr pub \<and>
    app_wifIsValid E S c password pub = Inr True \<and> ts_PrivateKey_fromString E S password = Inr key \<and>
    app_send E S c net (transfer_ops (ObjV [(''from'', StrV username), (''to'', StrV to'), (''amount'', StrV amount), (''memo'', StrV memo)])) key =
      Some (Inr result) \<and> ts_truthy result"
  by (rule transferToken_success [OF assms])

theorem transfer_authorized_witness:
  "\<exists>k pub. k \<in> {ACTIVE, OWNER} \<and> first_key (role_name k) (app_getAccount lead_env (example_network []) (js ''alice'')) = Inr pub \<and>
     app_wifIsValid lead_env example_secp example_client example_password pub = Inr True"
  using transfer_authorized [OF lead_env_wif example_transfer_succeeds] by blast

text \<open>
  C27. The mobile application verifies a master password and can do nothing with it. If the check accepts
  the password as a master password, then every operation that checks it throws: no vote,
  post, reblog, follow, transfer, claim, change of the profile or signature of a picture is made. The change of a post
  throws too, except that it is refused, as with any password, when the old body is empty.
\<close>

theorem master_password_unusable:
  assumes "wif_lead E S" "verifyPassoword E S c net username password = Inr (ac, Some MASTER)" "ts_truthy ac"
  shows "\<exists>e. updateFollow E S c net username password following action = Some (Inl e) \<and>
    reblog E S c net username password author permlink = Some (Inl e) \<and>
    submitVote E S c net username password author permlink weight = Some (Inl e) \<and>
    broadcastPost E S c net (post\<lparr>pc_author := username\<rparr>) password options = Some (Inl e) \<and>
    claimRewardBalance E S c net username password = Some (Inl e) \<and>
    transferToken E S c net username password to' amount memo = Some (Inl e) \<and>
    broadcastProfileUpdate E S c net username password profile = Some (Inl e) \<and>
    signImage E S c net photo username password = Some (Inl e) \<and>
    (if originalBody = [] then broadcastPostUpdate E S c net patch originalBody permlink' parent (post\<lparr>pc_author := username\<rparr>) password =
         Some (Inr (ObjV [(''success'', BoolV False), (''message'', StrV (js ''Nothing in the body''))]))
     else \<exists>e'. broadcastPostUpdate E S c net patch originalBody permlink' parent (post\<lparr>pc_author := username\<rparr>) password = Some (Inl e'))"
proof -
  obtain e where e: "ts_PrivateKey_fromString E S password = Inl e"
    using master_not_a_key [OF assms(1)] verified_key [OF assms(2)] by auto
  note w = with_password_master [OF assms(2,3) e]
  have "\<not> MASTER < ACTIVE" by (simp add: less_key_type_def)
  then show ?thesis
    using assms(2,3) e
    by (simp add: updateFollow_def reblog_def submitVote_def broadcastPost_def claimRewardBalance_def w transferToken_def
        broadcastProfileUpdate_def signImage_def PrivateKey_from_def broadcastPostUpdate_def split: sum.split)
qed

theorem master_password_unusable_witness:
  "\<exists>e. submitVote lead_env example_secp example_client (example_network example_master_key) (js ''alice'') (js ''secret'') (js ''bob'') (js ''post'')
     (dbl_of_int 100) = Some (Inl e)"
  using master_password_unusable [OF lead_env_wif example_master_verified] by blast

text \<open>
  C28. The servers of the mobile application. Whatever requests are made, whatever they return, and
  however often the user chooses a server, the client keeps the list of the application's servers up to its
  order, its current address is one of them, and its timeout, threshold, chain and prefix stay.
\<close>

theorem servers_kept:
  assumes "reachable_client E parse c"
  shows "(\<exists>urls. cl_address c = Addresses urls \<and> mset urls = mset BLURT_MAINNETS \<and> configured (cl_address c) (cl_currentAddress c)) \<and>
    cl_timeout c = 5000 \<and> cl_failoverThreshold c = 10 \<and> cl_chainId c = DEFAULT_CHAIN_ID \<and> cl_addressPrefix c = js ''BLT''"
  using reachable_servers [OF assms] by (simp add: blurt_servers_def)

theorem servers_kept_witness:
  "\<exists>c. reachable_client example_env (\<lambda>v. undefined) c \<and> cl_timeout c = 5000"
proof -
  obtain c where "app_client BLURT_MAINNETS = Inr c" using app_client_starts ..
  then have r: "reachable_client example_env (\<lambda>v. undefined) c" by (rule reachable_client.start)
  then show ?thesis using servers_kept [OF r] by blast
qed

text \<open>
  C29. The memos that the wallet accepts are those whose words of at least 39 characters are neither the text of a private key nor
  look like one, and are not the password of which the user's memo key was made. A shorter word is accepted, whatever it is: also a short
  password.
\<close>

theorem memo_without_keys:
  "validate_memo_field E L value username memokey = Inr None \<longleftrightarrow>
    (\<forall>w \<in> set (split_on 32 value). 39 \<le> length w \<longrightarrow>
       \<not> PrivateKey_isWif E L w \<and>
       (\<nexists>u a b k v. w = u @ a # b # k @ v \<and> a = 53 \<and> b \<in> {72, 74, 75, 104, 106, 107} \<and> list_all word_char k \<and> 40 \<le> length k) \<and>
       (\<exists>d. PrivateKey_fromSeed E L (JStr (username @ js ''memo'' @ w)) = Inr d \<and>
          memokey \<noteq> toPublicKeyString E (address_prefix E) (PrivateKey_toPublic L d)))"
proof -
  have "memo_word_ok E L username memokey w \<longleftrightarrow> (39 \<le> length w \<longrightarrow>
       \<not> PrivateKey_isWif E L w \<and>
       (\<nexists>u a b k v. w = u @ a # b # k @ v \<and> a = 53 \<and> b \<in> {72, 74, 75, 104, 106, 107} \<and> list_all word_char k \<and> 40 \<le> length k) \<and>
       (\<exists>d. PrivateKey_fromSeed E L (JStr (username @ js ''memo'' @ w)) = Inr d \<and>
          memokey \<noteq> toPublicKeyString E (address_prefix E) (PrivateKey_toPublic L d)))" for w
    unfolding memo_word_ok_def looks_like_key_iff [symmetric] by auto
  then show ?thesis by (simp only: validate_memo_field_ok)
qed

theorem memo_without_keys_witness:
  "\<not> PrivateKey_isWif example_env example_ecc (replicate 40 97) \<and>
   validate_memo_field example_env example_ecc (js ''my short password'') (js ''alice'') (js ''key'') = Inr None"
proof
  have "validate_memo_field example_env example_ecc (replicate 40 97) (js ''alice'') (js ''key'') = Inr None" by code_simp
  moreover have "replicate 40 97 \<in> set (split_on 32 (replicate 40 97 :: jsstring))" by code_simp
  ultimately show "\<not> PrivateKey_isWif example_env example_ecc (replicate 40 97)"
    using memo_without_keys [of example_env example_ecc "replicate 40 97" "js ''alice''" "js ''key''"] by (simp only:) simp
  have "list_all (\<lambda>w. length w < 39) (split_on 32 (js ''my short password''))" by code_simp
  then show "validate_memo_field example_env example_ecc (js ''my short password'') (js ''alice'') (js ''key'') = Inr None"
    by (simp add: memo_without_keys list_all_iff) (meson not_le)
qed

text \<open>
  C30. The paths of accounts and posts. For every valid name of an account that is not on the list of deleted
  users, the path of the account shows its profile in the condenser and in the wallet. In the condenser the path of a post, with or
  without its category, shows this post, if its permanent link is not the name of a section of the profile.
\<close>

theorem account_routes:
  assumes "validateAccountName (JStr name) = Inr JNull" "name \<notin> set gdpr"
  shows "condenser_resolveRoute gdpr development offline (47 # 64 # name) = page_of ''UserProfile'' [64 # name] \<and>
    wallet_resolveRoute gdpr development offline (47 # 64 # name) = page_of ''UserProfile'' [64 # name] \<and>
    (link \<noteq> [] \<and> list_all tag_char link \<and> link \<notin> js ` set condenser_sections \<and> category \<noteq> [] \<and> list_all tag_char category \<longrightarrow>
       condenser_resolveRoute gdpr development offline (47 # 64 # name @ 47 # link) = page_of ''PostNoCategory'' [64 # name, link] \<and>
       condenser_resolveRoute gdpr development offline (47 # category @ 47 # 64 # name @ 47 # link) =
         page_of ''Post'' [category, 64 # name, link, []])"
proof -
  have n: "name \<noteq> []" "list_all name_char name" using account_name_chars [OF assms(1)] by (simp_all add: list_all_iff)
  then show ?thesis using profile_route [OF n assms(2)] post_routes [OF n assms(2)] by blast
qed

theorem account_routes_witness:
  "condenser_resolveRoute [] False False (47 # 64 # js ''alice'') = page_of ''UserProfile'' [64 # js ''alice'']"
proof -
  have "validateAccountName (JStr (js ''alice'')) = Inr JNull" by code_simp
  then show ?thesis using account_routes [of "js ''alice''" "[]" False False] by simp
qed

section \<open>The keys of the web interfaces\<close>

text \<open>
  C31. The keys in the state of the wallet after a login, with a password or a private key. Every key was there before the login, or it is
  for a role and the weights that the account gives to its public key reach the threshold of the role, or it is the memo key of the account;
  the account is that of the user in the state. In a state without a user all keys are of the second kind. The keys of other accounts in an
  authority count for nothing. Hypotheses: an account has the name that was asked for, and merging maps keeps what
  the second does not replace.
\<close>

theorem wallet_login_keys:
  assumes "wallet_login E L ask getAccount ctx i = Some (Inr acts)" "merge_ok merge"
    and "st_current (foldl (user_reducer merge) st acts) = Some u" "us_private_keys u = Some keys" "get_key keys n = Some d"
    and names: "\<And>n ac. getAccount n = Inr (Some ac) \<Longrightarrow> wa_name ac = n"
  shows "held_key st n d \<or> (\<exists>name ac. us_username u = Some name \<and> getAccount name = Inr (Some ac) \<and>
    ((\<exists>role. n = role_key role \<and> key_full E L d (role_authority role ac)) \<or> n = ''memo_private'' \<and> wa_memo_key ac = public_text E L d))"
proof -
  have "held_key st n d \<or> (\<exists>ks own kc. us_username u = Some (fst (split_role (the (ld_username (login_credentials ctx i))))) \<and>
      SetUser (fst (split_role (the (ld_username (login_credentials ctx i))))) (Some ks) own kc \<in> set acts \<and> get_key ks n = Some d)"
    by (rule login_state [OF assms(2-5)], rule wallet_login_name [OF assms(1)])
  then show ?thesis
  proof (elim disjE exE conjE)
    fix ks own kc
    assume u: "us_username u = Some (fst (split_role (the (ld_username (login_credentials ctx i)))))"
      and k: "SetUser (fst (split_role (the (ld_username (login_credentials ctx i))))) (Some ks) own kc \<in> set acts" "get_key ks n = Some d"
    from wallet_set_keys [OF assms(1) k names] u show ?thesis unfolding key_of_account_def by blast
  qed simp
qed

theorem wallet_login_keys_witness: "key_full web_env example_ecc 50 (wa_posting web_alice)"
proof -
  have m: "merge_ok (\<lambda>a b. b @ a)" by (simp add: merge_ok_def map_add_def)
  note t = wallet_login_keys [OF wallet_example m, where st = logged_out_state and u = web_user and n = "''posting_private''" and d = 50,
      OF _ _ _ get_alice_name]
  have "\<exists>role. ''posting_private'' = role_key role \<and> key_full web_env example_ecc 50 (role_authority role web_alice)"
    using t by (simp add: user_reducer_def merge_user_def logged_out_state_def held_key_def web_user_def get_alice_def get_key_def
        split: if_splits)
  then obtain role where "''posting_private'' = role_key role" "key_full web_env example_ecc 50 (role_authority role web_alice)" by blast
  then show ?thesis by (cases role) (simp_all add: role_key_def)
qed

text \<open>
  C32. The keys in the state of the condenser after a login. Every key was there before, or it is the posting key and has the authority of its
  role, or the memo key of the account and not its first owner or active key, or the given private key as the owner key, which is not
  checked. No active key is added. A login that adds a key with a private key that was given for no role in particular is one where this key
  has neither active nor owner authority.
\<close>

theorem condenser_login_keys:
  assumes "condenser_login dmca E L ask getAccount ctx i = Some (Inr acts)" "merge_ok merge"
    and "st_current (foldl (user_reducer merge) st acts) = Some u" "us_private_keys u = Some keys" "get_key keys n = Some d"
    and names: "\<And>n ac. getAccount n = Inr (Some ac) \<Longrightarrow> wa_name ac = n"
  shows "held_key st n d \<or> (\<exists>name ac. us_username u = Some name \<and> getAccount name = Inr (Some ac) \<and>
    (n = ''posting_private'' \<and> key_full E L d (wa_posting ac) \<or>
     n = ''memo_private'' \<and> wa_memo_key ac = public_text E L d \<and>
       first_auth_key (wa_owner ac) \<noteq> Some (public_text E L d) \<and> first_auth_key (wa_active ac) \<noteq> Some (public_text E L d) \<or>
     n = ''owner_private'' \<and> PrivateKey_fromWif E L (the (ld_password (login_credentials ctx i))) = Inr d) \<and>
    (\<forall>k. PrivateKey_fromWif E L (the (ld_password (login_credentials ctx i))) = Inr k \<and>
         \<not> given_text (snd (split_role (the (ld_username (login_credentials ctx i))))) \<longrightarrow>
       \<not> key_full E L k (wa_active ac) \<and> \<not> key_full E L k (wa_owner ac)))"
proof -
  have "held_key st n d \<or> (\<exists>ks own kc. us_username u = Some (fst (split_role (the (ld_username (login_credentials ctx i))))) \<and>
      SetUser (fst (split_role (the (ld_username (login_credentials ctx i))))) (Some ks) own kc \<in> set acts \<and> get_key ks n = Some d)"
    by (rule login_state [OF assms(2-5)], rule condenser_login_name [OF assms(1)])
  then show ?thesis
  proof (elim disjE exE conjE)
    fix ks own kc
    assume u: "us_username u = Some (fst (split_role (the (ld_username (login_credentials ctx i)))))"
      and k: "SetUser (fst (split_role (the (ld_username (login_credentials ctx i))))) (Some ks) own kc \<in> set acts" "get_key ks n = Some d"
    from condenser_set_keys [OF assms(1) k names] u show ?thesis by blast
  qed simp
qed

theorem condenser_login_keys_witness: "key_full web_env example_ecc 50 (wa_posting web_alice)"
proof -
  have m: "merge_ok (\<lambda>a b. b @ a)" by (simp add: merge_ok_def map_add_def)
  let ?u = "\<lparr>us_username = Some (js ''alice''), us_private_keys = Some [(''posting_private'', Some 50), (''owner_private'', Some 50)],
    us_owner_pubkey = None, us_keychain = False\<rparr>"
  note t = condenser_login_keys [OF condenser_example m, where st = logged_out_state and u = ?u and n = "''posting_private''" and d = 50,
      OF _ _ _ get_alice_name]
  show ?thesis
    using t by (auto simp: user_reducer_def merge_user_def logged_out_state_def held_key_def get_alice_def get_key_def split: if_splits)
qed



text \<open>
  C34. A private key is not published by accident. If a field of the operation is a text with the text of a valid private key in it, at
  the start or after a space, then the wallet and the condenser do nothing but ask, unless the question was answered before.
\<close>

theorem published_key_asks:
  assumes "length w = 51" "hd w = 53" "list_all base58_char w" "PrivateKey_isWif E L w"
    and "tx_operation rq = JObj kvs" "(k, JStr (u @ w @ v)) \<in> set kvs" "u = [] \<or> last u = 32"
    and "\<not> tx_confirm rq" "\<not> tx_allowPostUnsafe rq" "broadcastOperation E L ctx rq = Inr acts"
  shows "acts = [ConfirmOperation True]"
proof -
  obtain found where f: "hasPrivateKeys E L [(tx_type rq, JObj kvs)] = Inr found"
    using assms(5,8-10) by (auto simp: broadcastOperation_def bindR_eq_Inr)
  moreover have "found" by (rule hasPrivateKeys_found [OF assms(1-4,6,7) f])
  ultimately show ?thesis using assms(5,8-10) by (simp add: broadcastOperation_def)
qed

theorem published_key_asks_witness: "broadcastOperation web_env example_ecc web_tx_context web_leak = Inr [ConfirmOperation True]"
proof -
  obtain found where f: "hasPrivateKeys web_env example_ecc [(tx_type web_leak, tx_operation web_leak)] = Inr found" using leak_example ..
  have "\<not> tx_confirm web_leak" "\<not> tx_allowPostUnsafe web_leak" by (simp_all add: web_leak_def web_vote_def)
  with f obtain acts where a: "broadcastOperation web_env example_ecc web_tx_context web_leak = Inr acts"
    by (cases found) (simp_all add: broadcastOperation_def)
  have "acts = [ConfirmOperation True]"
  proof (rule published_key_asks [OF web_password_facts _ _ _ _ _ a])
    show "tx_operation web_leak = JObj [(''memo'', JStr (js ''my key '' @ web_password @ js '' ok''))]" by (simp add: web_leak_def)
    show "(''memo'', JStr (js ''my key '' @ web_password @ js '' ok'')) \<in> set [(''memo'', JStr (js ''my key '' @ web_password @ js '' ok''))]"
      by simp
    show "js ''my key '' = [] \<or> last (js ''my key '') = 32" by code_simp
  qed (simp_all add: web_leak_def web_vote_def)
  with a show ?thesis by simp
qed

text \<open>
  C35. A memo that starts with \<open>#\<close> is never sent in the clear: a transfer that is sent carries in its place the result of the
  encryption with the memo key of the user, for the memo key of the receiver.
\<close>

theorem hash_memo_encrypted:
  assumes "broadcastOperation E L ctx rq = Inr acts" "BroadcastSend ops ks \<in> set acts" "tx_type rq = js ''transfer''"
    "tx_operation rq = JObj kvs" "map_of kvs ''memo'' = Some (JStr memo)" "is_hash_memo (js_trim memo)"
  shows "\<exists>d ac encoded opn. current_memo_key (tc_current ctx) = Some d \<and>
    tc_getAccountOf ctx (case map_of kvs ''to'' of None \<Rightarrow> JUndef | Some v \<Rightarrow> v) = Inr (Some ac) \<and>
    memo_encode E L (mc_aes (tc_memo ctx)) (mc_works (tc_memo ctx)) (KeyObject d) (JStr (wa_memo_key ac)) (JStr (js_trim memo))
      (mc_nonce (tc_memo ctx)) = Inr encoded \<and>
    ops = [(js ''transfer'', opn)] \<and> js_get opn ''memo'' = Inr (JStr encoded)"
proof -
  obtain ty opn where p: "pre_broadcast E L (tc_memo ctx) (tc_getAccountOf ctx) (current_memo_key (tc_current ctx)) (tx_username rq)
      (js ''transfer'', JObj kvs) = Inr (ty, opn)" "ops = [(ty, opn)]"
    using broadcastOperation_send(1) [OF assms(1,2)] assms(3,4) by (auto simp: bindR_eq_Inr)
  moreover from p(1) have "ty = js ''transfer''" by (auto simp: pre_broadcast_def bindR_eq_Inr)
  ultimately show ?thesis using transfer_memo [OF p(1) assms(5,6)] by blast
qed

theorem hash_memo_encrypted_witness:
  "\<exists>encoded op'. broadcastOperation example_env example_ecc transfer_context web_transfer = Inr [BroadcastSend [(js ''transfer'', op')] [3]] \<and>
     js_get op' ''memo'' = Inr (JStr encoded)"
proof -
  obtain op' where o: "broadcastOperation example_env example_ecc transfer_context web_transfer = Inr [BroadcastSend [(js ''transfer'', op')] [3]]"
    using transfer_example by blast
  have h: "is_hash_memo (js_trim (js ''#hi''))" by code_simp
  show ?thesis
    using hash_memo_encrypted [OF o list.set_intros(1) _ _ _ h, of "[(''to'', JStr (js ''bob'')), (''memo'', JStr (js ''#hi''))]"] o
    by (auto simp: web_transfer_def)
qed

text \<open>
  C36. The saved login holds the least. What is stored in the browser is the private posting key of an account, and only if this key is
  neither an active nor an owner key of the account; the next login reads the name, the key, the memo key and the public owner
  key back from it. The hypotheses say that these texts are well formed and have no tabulator in them.
\<close>

theorem saved_login_restored:
  assumes "saveLogin_localStorage E L accounts u = Some data" "\<not> us_keychain u"
    "field_ok (text_or_empty (us_username u))" "field_ok (text_or_empty (us_owner_pubkey u))"
    "\<forall>keys n d. us_private_keys u = Some keys \<and> get_key keys n = Some d \<longrightarrow> field_ok (PrivateKey_toWif E L d)"
    "\<not> given_text (li_username i)" "\<not> given_text (li_password i)"
  shows "\<exists>name ac keys d. us_username u = Some name \<and> accounts name = Some ac \<and> us_private_keys u = Some keys \<and>
    get_key keys ''posting_private'' = Some d \<and>
    public_text E L d \<notin> fst ` set (key_auths (wa_active ac)) \<and> public_text E L d \<notin> fst ` set (key_auths (wa_owner ac)) \<and>
    login_credentials (ctx\<lparr>lc_autopost2 := Some data\<rparr>) i =
      \<lparr>ld_username = Some name, ld_password = Some (PrivateKey_toWif E L d),
       ld_memoWif = clean (map_option (PrivateKey_toWif E L) (get_key keys ''memo_private'')),
       ld_owner_pubkey = clean (us_owner_pubkey u), ld_keychain = Some [], ld_autopost = True\<rparr>"
proof -
  obtain name ac keys d where p: "us_username u = Some name" "name \<noteq> []" "accounts name = Some ac" "us_private_keys u = Some keys"
    "get_key keys ''posting_private'' = Some d"
    "public_text E L d \<notin> fst ` set (key_auths (wa_active ac))" "public_text E L d \<notin> fst ` set (key_auths (wa_owner ac))"
    "data = packLoginData name (PrivateKey_toWif E L d) (map_option (PrivateKey_toWif E L) (get_key keys ''memo_private''))
       (us_owner_pubkey u) None"
    using saveLogin_parts [OF assms(1,2)] by metis
  let ?memo = "map_option (PrivateKey_toWif E L) (get_key keys ''memo_private'')"
  have "field_ok (text_or_empty ?memo)"
    using assms(5) p(4) by (cases "get_key keys ''memo_private''") (auto simp: text_or_empty_def field_ok_def)
  then have x: "extractLoginData data = [name, PrivateKey_toWif E L d, text_or_empty ?memo, text_or_empty (us_owner_pubkey u), text_or_empty None]"
    unfolding p(8) using assms(3-5) p(1,4,5) by (intro extract_pack) (auto simp: text_or_empty_def field_ok_def)
  have "data \<noteq> []"
  proof
    assume "data = []"
    moreover have "extractLoginData [] = [[]]" by code_simp
    ultimately have "extractLoginData data = [[]]" by simp
    with x show False by simp
  qed
  moreover have "clean (Some (text_or_empty t)) = clean t" for t
    by (cases t) (simp_all add: clean_def text_or_empty_def)
  ultimately have "login_credentials (ctx\<lparr>lc_autopost2 := Some data\<rparr>) i =
      \<lparr>ld_username = Some name, ld_password = Some (PrivateKey_toWif E L d), ld_memoWif = clean ?memo,
       ld_owner_pubkey = clean (us_owner_pubkey u), ld_keychain = Some [], ld_autopost = True\<rparr>"
    using assms(6,7) x by (simp add: login_credentials_def given_text_def Let_def element_def text_or_empty_def [of None])
  with p show ?thesis by blast
qed

theorem saved_login_restored_witness:
  "\<exists>data. ld_username (login_credentials (web_context\<lparr>lc_autopost2 := Some data\<rparr>) (web_input\<lparr>li_username := None, li_password := None\<rparr>)) =
     Some (js ''alice'')"
proof -
  obtain data where d: "saveLogin_localStorage web_env example_ecc web_accounts web_user = Some data" using saved_example(1) ..
  have n: "\<not> us_keychain web_user" "us_username web_user = Some (js ''alice'')" by (simp_all add: web_user_def)
  have i: "\<not> given_text (li_username (web_input\<lparr>li_username := None, li_password := None\<rparr>))"
    "\<not> given_text (li_password (web_input\<lparr>li_username := None, li_password := None\<rparr>))" by (simp_all add: given_text_def)
  have "ld_username (login_credentials (web_context\<lparr>lc_autopost2 := Some data\<rparr>) (web_input\<lparr>li_username := None, li_password := None\<rparr>)) =
      Some (js ''alice'')"
    using saved_login_restored [OF d n(1) saved_example(2-4) i, of web_context] n(2) by auto
  then show ?thesis by (rule exI [of _ data])
qed



section \<open>Broadcasting\<close>

text \<open>
  C38. The defaults of a transaction never replace a field the caller has set, and the reference
  fields they add are in the ranges of the wire format.
\<close>

theorem prepared_transaction:
  assumes "prepareTransaction E properties block tx = Inr t" "distinct (map fst tx)"
  shows "(\<forall>(k, v) \<in> set tx. options_get t k = v) \<and>
    (\<not> has_own tx ''ref_block_num'' \<longrightarrow> (\<exists>n. options_get t ''ref_block_num'' = JNum n \<and> 0 \<le> n \<and> n < 2 ^ 16)) \<and>
    (\<not> has_own tx ''ref_block_prefix'' \<longrightarrow> (\<exists>n. options_get t ''ref_block_prefix'' = JNum n \<and> 0 \<le> n \<and> n < 2 ^ 32))"
proof -
  obtain lib prefix expiration bs where t: "t = object_assign
      [(''ref_block_num'', JNum (refBlockNum lib)), (''ref_block_prefix'', JNum prefix), (''expiration'', expiration)] tx"
    and prefix: "readUInt32LE bs 4 = Inr prefix"
    using assms(1) by (auto simp: prepareTransaction_def bindR_eq_Inr)
  have "0 \<le> refBlockNum lib \<and> refBlockNum lib < 2 ^ 16"
    by (auto simp: refBlockNum_def split: jsval.splits numeric.splits)
  moreover have "0 \<le> prefix \<and> prefix < 2 ^ 32"
    by (rule readUInt32LE_range [OF prefix])
  moreover have "options_get t k = v" if "(k, v) \<in> set tx" for k v
    unfolding t using object_assign_keeps [OF assms(2)] map_of_is_SomeI [OF assms(2) that] by blast
  moreover have "options_get t k = options_get
      [(''ref_block_num'', JNum (refBlockNum lib)), (''ref_block_prefix'', JNum prefix), (''expiration'', expiration)] k"
    if "\<not> has_own tx k" for k
    unfolding t using that by (intro object_assign_other) (simp add: has_own_def)
  ultimately show ?thesis by (auto simp: options_get_def)
qed

theorem prepared_transaction_witness:
  "\<exists>t. prepareTransaction example_env (JObj [(''time'', JStr (js ''2020-01-01T00:00:00'')), (''last_irreversible_block_num'', JNum 70000)])
      JNull [(''extensions'', JArr [])] = Inr t \<and> options_get t ''extensions'' = JArr []"
proof -
  let ?p = "JObj [(''time'', JStr (js ''2020-01-01T00:00:00'')), (''last_irreversible_block_num'', JNum 70000)]"
  have "case prepareTransaction example_env ?p JNull [(''extensions'', JArr [])] of Inr t \<Rightarrow> True | _ \<Rightarrow> False"
    by code_simp
  then obtain t where t: "prepareTransaction example_env ?p JNull [(''extensions'', JArr [])] = Inr t"
    by (auto split: sum.splits)
  from prepared_transaction [OF t] t show ?thesis by simp
qed

section \<open>Names, texts and numbers\<close>

text \<open>
  C39. \<open>validateAccountName\<close> accepts exactly the names of three to sixteen characters whose segments
  between dots have at least three characters each and are words of the grammar \<open>segment\<close>: a letter,
  then letters and digits, each optionally after one dash.
\<close>

theorem account_names:
  "validateAccountName (JStr s) = Inr JNull \<longleftrightarrow>
     3 \<le> length s \<and> length s \<le> 16 \<and> list_all (\<lambda>l. segment l \<and> 3 \<le> length l) (split_on 46 s)"
  by (simp add: validateAccountName_string list_all_iff)

text \<open>
  C40. Text without unpaired surrogates is encoded as its UTF-8 bytes and decoded to itself; on a
  surrogate that is followed by another character than a surrogate the encoder of the buffer
  library never returns.
\<close>

theorem utf8_text:
  "(wf16 s \<longrightarrow> encodeUTF16toUTF8 s = Some (node_encode s) \<and> decodeUTF8toUTF16 (node_encode s) = Inr s \<and>
      node_decode (node_encode s) = s) \<and>
   (surrogate c \<and> \<not> surrogate d \<longrightarrow> encodeUTF16toUTF8 (c # d # s) = None)"
  by (simp add: encodeUTF16toUTF8_wf decodeUTF8toUTF16_encode node_decode_encode encodeUTF16toUTF8_hangs)

theorem utf8_text_witness: "encodeUTF16toUTF8 [55357, 33] = None \<and> node_decode (node_encode [55357, 56832]) = [55357, 56832]"
proof -
  have "surrogate 55357 \<and> \<not> surrogate 33" "wf16 [55357, 56832]" by code_simp+
  with utf8_text [of "[]" 55357 33] utf8_text [of "[55357, 56832]"] show ?thesis by simp
qed

end
